(* ===== verification/Errors.thy ===== *)
theory Errors
  imports Prelude
begin

text \<open>
  \<open>app/errors.py\<close>: the application's exception classes, with the Python exceptions the
  modelled code can raise beside them, as one datatype. \<open>exc_str\<close> is \<open>str(exc)\<close>, the
  message the constructors of the application classes build.
\<close>

section \<open>\<open>repr\<close> of a string\<close>

definition hex_digit :: "nat \<Rightarrow> char" where
  "hex_digit n = (if n < 10 then char_of (n + 48) else char_of (n + 87))"

definition repr_char :: "char \<Rightarrow> char \<Rightarrow> string" where
  "repr_char q c = (let n = (of_char c :: nat) in
     if c = q \<or> c = CHR 0x5C then [CHR 0x5C, c]
     else if n = 9 then [CHR 0x5C, CHR ''t'']
     else if n = 10 then [CHR 0x5C, CHR ''n'']
     else if n = 13 then [CHR 0x5C, CHR ''r'']
     else if n < 32 \<or> n = 127 then [CHR 0x5C, CHR ''x'', hex_digit (n div 16), hex_digit (n mod 16)]
     else [c])"

definition repr_str :: "string \<Rightarrow> string" where
  "repr_str s = (let q = (if CHR 0x27 \<in> set s \<and> CHR 0x22 \<notin> set s then CHR 0x22 else CHR 0x27)
     in q # concat (map (repr_char q) s) @ [q])"

section \<open>The exceptions\<close>

datatype error =
    SourceDirectoryNotFoundError string
  | MissingSourceFileError string string
  | ChecksumMismatchError string string string
  | SourceMetadataDriftError string string string string
  | DocumentParseError string string
  | MalformedWorkbookError string
  | InvalidSnapshotTimestampError string string
  | UnknownEntityError string string
  | NotAuthorizedError string
  | InvalidFilterError string
  | ValueError string
  | ValidationError string
  | KeyError string
  | TypeError string
  | AssertionError
  | IntegrityError string
  | RuntimeError string
  | FileNotFoundError string
  | OverflowError string
  | StopIteration
  | IndexError string
  | ZeroDivisionError string

text \<open>
  The two values of a \<open>SourceMetadataDriftError\<close> are the \<open>repr\<close> of arbitrary objects; the
  model carries them already rendered.
\<close>

fun exc_str :: "error \<Rightarrow> string" where
  "exc_str (SourceDirectoryNotFoundError path) = ''source directory not found: '' @ path"
| "exc_str (MissingSourceFileError filename source_dir) =
     ''expected source file missing: '' @ filename @ '' (in '' @ source_dir @ '')''"
| "exc_str (ChecksumMismatchError filename expected actual) =
     ''checksum mismatch for '' @ filename @ '': expected '' @ take 12 expected @ ''..., ''
     @ ''got '' @ take 12 actual @ ''... (source pack differs from the one Phase 0 analyzed)''"
| "exc_str (SourceMetadataDriftError source_id field manifest_value parsed_value) =
     source_id @ '': manifest says '' @ field @ ''='' @ manifest_value @ '' but the document ''
     @ ''text parses to '' @ field @ ''='' @ parsed_value"
| "exc_str (DocumentParseError filename reason) = ''failed to parse '' @ filename @ '': '' @ reason"
| "exc_str (MalformedWorkbookError reason) = ''malformed workbook: '' @ reason"
| "exc_str (InvalidSnapshotTimestampError raw reason) =
     ''invalid snapshot timestamp '' @ repr_str raw @ '': '' @ reason"
| "exc_str (UnknownEntityError entity_type entity_id) =
     ''unknown '' @ entity_type @ '': '' @ entity_id"
| "exc_str (NotAuthorizedError reason) = ''not authorized: '' @ reason"
| "exc_str (InvalidFilterError reason) = ''invalid filter: '' @ reason"
| "exc_str (ValueError msg) = msg"
| "exc_str (ValidationError msg) = msg"
| "exc_str (KeyError msg) = msg"
| "exc_str (TypeError msg) = msg"
| "exc_str AssertionError = []"
| "exc_str (IntegrityError msg) = msg"
| "exc_str (RuntimeError msg) = msg"
| "exc_str (FileNotFoundError msg) = msg"
| "exc_str (OverflowError msg) = msg"
| "exc_str StopIteration = []"
| "exc_str (IndexError msg) = msg"
| "exc_str (ZeroDivisionError msg) = msg"

text \<open>\<open>isinstance(exc, ParcelPilotError)\<close>.\<close>

fun is_parcelpilot_error :: "error \<Rightarrow> bool" where
  "is_parcelpilot_error (ValueError _) = False"
| "is_parcelpilot_error (ValidationError _) = False"
| "is_parcelpilot_error (KeyError _) = False"
| "is_parcelpilot_error (TypeError _) = False"
| "is_parcelpilot_error AssertionError = False"
| "is_parcelpilot_error (IntegrityError _) = False"
| "is_parcelpilot_error (RuntimeError _) = False"
| "is_parcelpilot_error (FileNotFoundError _) = False"
| "is_parcelpilot_error (OverflowError _) = False"
| "is_parcelpilot_error StopIteration = False"
| "is_parcelpilot_error (IndexError _) = False"
| "is_parcelpilot_error (ZeroDivisionError _) = False"
| "is_parcelpilot_error _ = True"

end
