(* ===== verification/Py_Float.thy ===== *)
theory Py_Float
  imports Prelude "HOL-Library.Log_Nat"
begin

text \<open>
  Python's \<open>float\<close>: a finite double is the rational it denotes, and each arithmetic
  operation is the exact operation followed by \<open>fl\<close>, rounding to a 53-bit significand,
  ties to even. The rounding is executable. Overflow, subnormals, infinities and NaN are
  outside the model: every magnitude the program computes with (fees, minutes, hours,
  token costs) is far from both ends of the exponent range.

  The lemmas say that \<open>fl\<close> is monotone, keeps signs and is exact on dyadic rationals
  whose significand fits; from these, \<open>float_quotient_le_iff\<close> shows that comparing a
  rounded quotient of a microsecond count with a small integer never misclassifies a
  boundary.
\<close>

type_synonym pyfloat = rat

section \<open>Rounding\<close>

definition fexp :: "rat \<Rightarrow> int" where
  "fexp x = (case quotient_of x of (p, q) \<Rightarrow>
     let e = int (floorlog 2 (nat p)) - int (floorlog 2 (nat q))
     in if 2 powi e \<le> x then e else e - 1)"

definition round_half_even :: "rat \<Rightarrow> int" where
  "round_half_even x = (let f = \<lfloor>x\<rfloor>; d = x - of_int f in
     if d < 1 / 2 then f else if d > 1 / 2 then f + 1 else if even f then f else f + 1)"

definition fl_pos :: "rat \<Rightarrow> rat" where
  "fl_pos x = (let s = 2 powi (fexp x - 52) in of_int (round_half_even (x / s)) * s)"

definition fl :: "rat \<Rightarrow> pyfloat" where
  "fl x = (if x = 0 then 0 else if x < 0 then - fl_pos (- x) else fl_pos x)"

lemma powi_two_pos [simp]: "0 < (2::rat) powi e"
  by (simp add: zero_less_power_int)

lemma powi_two_neg [simp]: "\<not> (2::rat) powi e < 0" "(2::rat) powi e \<noteq> 0"
  using powi_two_pos [of e] by linarith+

lemma floorlog_bounds_rat:
  assumes "0 < p"
  shows "(2::rat) powi (int (floorlog 2 (nat p)) - 1) \<le> of_int p"
    and "of_int p < (2::rat) powi int (floorlog 2 (nat p))"
proof -
  let ?n = "nat p"
  let ?k = "floorlog 2 ?n"
  from assms have n: "0 < ?n" by simp
  have b: "2 ^ (?k - 1) \<le> ?n \<and> ?n < 2 ^ ?k"
    using floorlog_bounds [of ?n 2] n by simp
  have k: "0 < ?k" using n by (simp add: floorlog_def)
  have "(2::rat) ^ (?k - 1) \<le> of_nat ?n" using b by (metis of_nat_le_iff of_nat_numeral of_nat_power)
  moreover have "of_nat ?n < (2::rat) ^ ?k" using b by (metis of_nat_less_iff of_nat_numeral of_nat_power)
  moreover have "of_nat ?n = (of_int p :: rat)" using assms by simp
  moreover have "(2::rat) powi (int ?k - 1) = 2 ^ (?k - 1)"
    using k by (simp add: power_int_def nat_diff_distrib)
  ultimately show "(2::rat) powi (int ?k - 1) \<le> of_int p" "of_int p < (2::rat) powi int ?k"
    by simp_all
qed

lemma fexp_bounds:
  assumes "0 < x"
  shows "2 powi fexp x \<le> x \<and> x < 2 powi (fexp x + 1)"
proof -
  obtain p q where pq: "quotient_of x = (p, q)" by force
  then have q: "0 < q" and xq: "x = of_int p / of_int q"
    by (auto dest: quotient_of_denom_pos quotient_of_div)
  from assms q xq have p: "0 < p" by (simp add: zero_less_divide_iff)
  let ?a = "int (floorlog 2 (nat p))" and ?b = "int (floorlog 2 (nat q))"
  have lo: "2 powi (?a - ?b - 1) \<le> x"
  proof -
    have "(2::rat) powi (?a - ?b - 1) = 2 powi (?a - 1) / 2 powi ?b"
      by (simp add: power_int_diff)
    also have "\<dots> \<le> of_int p / of_int q"
      using floorlog_bounds_rat [OF p] floorlog_bounds_rat [OF q] q p
      by (intro frac_le) auto
    finally show ?thesis using xq by simp
  qed
  have hi: "x < 2 powi (?a - ?b + 1)"
  proof -
    have "of_int p / of_int q < (2::rat) powi ?a / 2 powi (?b - 1)"
      using floorlog_bounds_rat [OF p] floorlog_bounds_rat [OF q] q p
      by (intro frac_less) auto
    also have "\<dots> = (2::rat) powi (?a - ?b + 1)"
      by (simp add: power_int_diff power_int_add)
    finally show ?thesis using xq by simp
  qed
  show ?thesis
    using lo hi by (auto simp: fexp_def pq Let_def)
qed

section \<open>Rounding to the nearest integer\<close>

lemma round_half_even_cases:
  "round_half_even x = \<lfloor>x\<rfloor> \<and> x - of_int \<lfloor>x\<rfloor> \<le> 1 / 2 \<or>
   round_half_even x = \<lfloor>x\<rfloor> + 1 \<and> 1 / 2 \<le> x - of_int \<lfloor>x\<rfloor>"
  by (auto simp: round_half_even_def Let_def)

lemma round_half_even_of_int [simp]: "round_half_even (of_int n) = n"
  by (simp add: round_half_even_def)

lemma round_half_even_mono:
  assumes "x \<le> y"
  shows "round_half_even x \<le> round_half_even y"
proof (cases "\<lfloor>x\<rfloor> = \<lfloor>y\<rfloor>")
  case True
  with assms show ?thesis by (auto simp: round_half_even_def Let_def)
next
  case False
  with assms have "\<lfloor>x\<rfloor> + 1 \<le> \<lfloor>y\<rfloor>" by (meson floor_mono order_le_neq_trans zless_imp_add1_zle)
  moreover have "round_half_even x \<le> \<lfloor>x\<rfloor> + 1" "\<lfloor>y\<rfloor> \<le> round_half_even y"
    using round_half_even_cases [of x] round_half_even_cases [of y] by auto
  ultimately show ?thesis by linarith
qed

section \<open>The rounding of positive numbers\<close>

lemma fl_pos_binade:
  assumes "0 < x"
  shows "2 powi fexp x \<le> fl_pos x \<and> fl_pos x \<le> 2 powi (fexp x + 1)"
proof -
  let ?s = "(2::rat) powi (fexp x - 52)"
  have pw: "(2::rat) powi fexp x = of_int (2 ^ 52) * ?s" "(2::rat) powi (fexp x + 1) = of_int (2 ^ 53) * ?s"
    by (simp_all add: power_int_diff power_int_add)
  have b: "of_int (2 ^ 52) \<le> x / ?s" "x / ?s \<le> of_int (2 ^ 53)"
    using fexp_bounds [OF assms] unfolding pw by (simp_all add: pos_le_divide_eq pos_divide_le_eq)
  have "2 ^ 52 \<le> round_half_even (x / ?s)" "round_half_even (x / ?s) \<le> 2 ^ 53"
    using round_half_even_mono [OF b(1)] round_half_even_mono [OF b(2)]
    by (simp_all only: round_half_even_of_int)
  then have "of_int (2 ^ 52) * ?s \<le> of_int (round_half_even (x / ?s)) * ?s"
    "of_int (round_half_even (x / ?s)) * ?s \<le> of_int (2 ^ 53) * ?s"
    by (intro mult_right_mono; simp only: of_int_le_iff; simp add: less_imp_le)+
  then show ?thesis by (simp only: pw fl_pos_def Let_def)
qed

lemma fl_pos_mono:
  assumes "0 < x" "x \<le> y"
  shows "fl_pos x \<le> fl_pos y"
proof -
  from assms have y: "0 < y" by simp
  have le: "fexp x \<le> fexp y"
  proof (rule ccontr)
    assume "\<not> fexp x \<le> fexp y"
    then have "(2::rat) powi (fexp y + 1) \<le> 2 powi fexp x"
      by (intro power_int_increasing) auto
    with fexp_bounds [OF assms(1)] fexp_bounds [OF y] assms(2) show False by linarith
  qed
  show ?thesis
  proof (cases "fexp x = fexp y")
    case True
    have "round_half_even (x / 2 powi (fexp y - 52)) \<le> round_half_even (y / 2 powi (fexp y - 52))"
      using assms(2) by (intro round_half_even_mono divide_right_mono) (auto simp: less_imp_le)
    with True show ?thesis
      by (simp add: fl_pos_def Let_def mult_right_mono less_imp_le)
  next
    case False
    with le have "(2::rat) powi (fexp x + 1) \<le> 2 powi fexp y"
      by (intro power_int_increasing) auto
    with fl_pos_binade [OF assms(1)] fl_pos_binade [OF y] show ?thesis by linarith
  qed
qed

lemma fl_pos_pos: "0 < x \<Longrightarrow> 0 < fl_pos x"
  using fl_pos_binade [of x] powi_two_pos [of "fexp x"] by linarith

section \<open>The rounding of all numbers\<close>

lemma fl_0 [simp]: "fl 0 = 0"
  by (simp add: fl_def)

lemma fl_minus [simp]: "fl (- x) = - fl x"
  by (simp add: fl_def)

lemma fl_pos_iff [simp]: "0 < fl x \<longleftrightarrow> 0 < x"
  using fl_pos_pos [of x] fl_pos_pos [of "- x"] by (auto simp: fl_def)

lemma fl_neg_iff [simp]: "fl x < 0 \<longleftrightarrow> x < 0"
  using fl_pos_iff [of "- x"] by simp

lemma fl_nonneg_iff [simp]: "0 \<le> fl x \<longleftrightarrow> 0 \<le> x"
  using fl_neg_iff [of x] by linarith

lemma fl_mono: "x \<le> y \<Longrightarrow> fl x \<le> fl y"
  using fl_pos_mono [of x y] fl_pos_mono [of "- y" "- x"] fl_pos_pos [of y] fl_pos_pos [of "- x"]
  by (auto simp: fl_def)

lemma fl_pos_fixed:
  assumes "x / 2 powi (fexp x - 52) = of_int n"
  shows "fl_pos x = x"
proof -
  from assms have "x = of_int n * 2 powi (fexp x - 52)" by (simp add: divide_eq_eq)
  then show ?thesis unfolding fl_pos_def Let_def assms round_half_even_of_int by simp
qed

lemma fl_pos_dyadic:
  assumes "0 < m" "m \<le> 2 ^ 53"
  shows "fl_pos (of_int m * 2 powi e) = of_int m * 2 powi e"
proof -
  let ?x = "of_int m * (2::rat) powi e"
  have x: "0 < ?x" using assms by simp
  have "(2::rat) powi fexp ?x \<le> 2 powi (53 + e)"
  proof -
    have "of_int m \<le> (2::rat) powi 53" using assms(2) by (simp flip: of_int_le_iff)
    then have "?x \<le> 2 powi 53 * 2 powi e" by (rule mult_right_mono) (simp add: less_imp_le)
    also have "\<dots> = 2 powi (53 + e)" using power_int_add [of "2::rat" 53 e] by simp
    finally show ?thesis using fexp_bounds [OF x] by linarith
  qed
  then have fe: "fexp ?x \<le> 53 + e"
    by (metis linorder_not_less one_less_numeral_iff power_int_strict_increasing semiring_norm(76))
  show ?thesis
  proof (cases "fexp ?x \<le> 52 + e")
    case True
    define k where "k = nat (52 + e - fexp ?x)"
    have "int k = e - (fexp ?x - 52)" using True by (simp add: k_def)
    moreover have "?x / 2 powi (fexp ?x - 52) = of_int m * 2 powi (e - (fexp ?x - 52))"
      using power_int_diff [of "2::rat" e "fexp ?x - 52"] by simp
    ultimately have q: "?x / 2 powi (fexp ?x - 52) = of_int (m * 2 ^ k)"
      by (metis of_int_mult of_int_numeral of_int_power power_int_of_nat)
    show ?thesis by (rule fl_pos_fixed [OF q])
  next
    case False
    with fe have fe': "fexp ?x = 53 + e" by simp
    with fexp_bounds [OF x] have "(2::rat) powi 53 * 2 powi e \<le> ?x" by (simp add: power_int_add)
    then have "(2::rat) powi 53 \<le> of_int m" by (simp only: mult_le_cancel_right) auto
    then have "(of_int (2 ^ 53) :: rat) \<le> of_int m" by simp
    then have "2 ^ 53 \<le> m" by (simp only: of_int_le_iff)
    with assms(2) have m: "m = 2 ^ 53" by (rule order_antisym)
    have "fexp ?x - 52 = e + 1" using fe' by simp
    moreover have "(2::rat) powi (e + 1) = 2 * 2 powi e"
      by (simp add: power_int_add)
    ultimately have "?x / 2 powi (fexp ?x - 52) = of_int m * 2 powi e / (2 * 2 powi e)"
      by (simp only:)
    also have "\<dots> = of_int (2 ^ 52)" by (simp add: m)
    finally have q: "?x / 2 powi (fexp ?x - 52) = of_int (2 ^ 52)" .
    show ?thesis by (rule fl_pos_fixed [OF q])
  qed
qed

lemma fl_dyadic:
  assumes "\<bar>m\<bar> \<le> 2 ^ 53"
  shows "fl (of_int m * 2 powi e) = of_int m * 2 powi e"
proof -
  consider "m = 0" | "0 < m" | "m < 0" by linarith
  then show ?thesis
  proof cases
    case 2
    with assms fl_pos_dyadic [of m e] show ?thesis by (simp add: fl_def mult_less_0_iff)
  next
    case 3
    with assms fl_pos_dyadic [of "- m" e] show ?thesis by (simp add: fl_def mult_less_0_iff)
  qed simp
qed

lemma fl_of_int: "\<bar>m\<bar> \<le> 2 ^ 53 \<Longrightarrow> fl (of_int m) = of_int m"
  using fl_dyadic [of m 0] by simp

lemma fl_le_of_int: "x \<le> of_int m \<Longrightarrow> \<bar>m\<bar> \<le> 2 ^ 53 \<Longrightarrow> fl x \<le> of_int m"
  using fl_mono [of x "of_int m"] by (simp add: fl_of_int)

lemma fl_ge_of_int: "of_int m \<le> x \<Longrightarrow> \<bar>m\<bar> \<le> 2 ^ 53 \<Longrightarrow> of_int m \<le> fl x"
  using fl_mono [of "of_int m" x] by (simp add: fl_of_int)

section \<open>Comparing a rounded quotient with a small integer\<close>

text \<open>
  \<open>total_seconds() / 60\<close> rounds twice: once in \<open>total_seconds\<close> (microseconds over a
  million) and once in the division by the unit. Against an integer bound the two
  roundings never change the outcome of \<open>\<le>\<close>.
\<close>

definition total_seconds :: "int \<Rightarrow> pyfloat" where
  "total_seconds us = fl (of_int us / 1000000)"

definition float_div :: "pyfloat \<Rightarrow> pyfloat \<Rightarrow> pyfloat" where
  "float_div a b = fl (a / b)"

lemma float_quotient_le_iff:
  assumes t: "0 \<le> t" "t < 2 ^ 20" and u: "0 < u" "u \<le> 4000"
  shows "float_div (total_seconds us) (of_int u) \<le> of_int t \<longleftrightarrow> us \<le> t * u * 1000000"
proof
  assume le: "us \<le> t * u * 1000000"
  have tu: "\<bar>t * u\<bar> \<le> 2 ^ 53"
    using mult_mono [of t "2 ^ 20" u 4000] t u by simp
  have "(of_int us :: rat) \<le> of_int (t * u * 1000000)" using le by (simp only: of_int_le_iff)
  then have "of_int us / 1000000 \<le> (of_int (t * u) :: rat)" by (simp add: divide_le_eq)
  then have "total_seconds us \<le> of_int (t * u)"
    unfolding total_seconds_def by (rule fl_le_of_int [OF _ tu])
  then have "total_seconds us / of_int u \<le> of_int t" using u by (simp add: divide_le_eq)
  then show "float_div (total_seconds us) (of_int u) \<le> of_int t"
    unfolding float_div_def using t by (intro fl_le_of_int) auto
next
  assume le: "float_div (total_seconds us) (of_int u) \<le> of_int t"
  show "us \<le> t * u * 1000000"
  proof (rule ccontr)
    assume "\<not> us \<le> t * u * 1000000"
    then have "t * u * 1000000 + 1 \<le> us" by simp
    then have us: "of_int (t * u * 1000000 + 1) \<le> (of_int us :: rat)" by (simp only: of_int_le_iff)
    let ?m = "t * u * 2 ^ 20 + 1" and ?d = "of_int t + 1 / (2::rat) ^ 32"
    have m: "\<bar>?m\<bar> \<le> 2 ^ 53"
      using mult_mono [of t "2 ^ 20 - 1" u 4000] t u by simp
    have "of_int ?m * (2::rat) powi (- 20) = of_int (t * u) + 1 / 2 ^ 20"
      by (simp add: field_simps power_int_minus)
    moreover have "of_int (t * u) + 1 / 2 ^ 20 \<le> (of_int us :: rat) / 1000000"
      using us by (simp add: field_simps)
    ultimately have "of_int (t * u) + 1 / 2 ^ 20 \<le> total_seconds us"
      unfolding total_seconds_def
      using fl_mono [of "of_int ?m * (2::rat) powi (- 20)" "of_int us / 1000000"] fl_dyadic [OF m, of "- 20"]
      by simp
    then have "(of_int (t * u) + 1 / 2 ^ 20) / of_int u \<le> total_seconds us / of_int u"
      using u by (intro divide_right_mono) simp_all
    then have s: "of_int t + 1 / (2 ^ 20 * of_int u) \<le> total_seconds us / of_int u"
      using u by (simp add: add_divide_distrib)
    have "(of_int u :: rat) \<le> of_int (2 ^ 12)" using u by (simp only: of_int_le_iff) simp
    then have "1 / (2::rat) ^ 32 \<le> 1 / (2 ^ 20 * of_int u)"
      using u by (simp add: field_simps)
    with s have d: "?d \<le> total_seconds us / of_int u" by linarith
    have m2: "\<bar>t * 2 ^ 32 + 1\<bar> \<le> 2 ^ 53" using t by simp
    have "of_int (t * 2 ^ 32 + 1) * (2::rat) powi (- 32) = ?d"
      by (simp add: field_simps power_int_minus)
    then have "fl ?d = ?d" using fl_dyadic [OF m2, of "- 32"] by (simp only:)
    with fl_mono [OF d] have "?d \<le> float_div (total_seconds us) (of_int u)"
      unfolding float_div_def by (simp only:)
    with le show False by simp
  qed
qed

lemma total_seconds_sign [simp]:
  "0 < total_seconds us \<longleftrightarrow> 0 < us" "total_seconds us < 0 \<longleftrightarrow> us < 0" "total_seconds 0 = 0"
  by (simp_all add: total_seconds_def zero_less_divide_iff divide_less_0_iff)

lemma float_div_sign [simp]:
  "0 < b \<Longrightarrow> 0 < float_div a b \<longleftrightarrow> 0 < a" "0 < b \<Longrightarrow> float_div a b < 0 \<longleftrightarrow> a < 0"
  "float_div 0 b = 0"
  by (simp_all add: float_div_def zero_less_divide_iff divide_less_0_iff)

end
