(* ===== verification/Time_Clock.thy ===== *)
theory Time_Clock
  imports Errors Py_Float
begin

text \<open>
  \<open>app/time/clock.py\<close> and the part of \<open>datetime\<close> the domain code uses. A wall-clock reading
  is a number of microseconds since a fixed midnight, a time zone is a fixed offset from UTC
  in microseconds (what \<open>datetime.fromisoformat\<close> gives for the stored snapshot), and an aware
  \<open>datetime\<close> is a reading with its offset. A \<open>timedelta\<close> is a number of microseconds.
  Comparison and subtraction of aware datetimes go through the instant they denote.
\<close>

type_synonym tz = int
type_synonym timedelta = int
type_synonym date = int  \<comment> \<open>days since the fixed midnight\<close>

record datetime =
  wall :: int
  utcoffset :: tz

text \<open>What \<open>datetime.fromisoformat\<close> can return: with or without an offset.\<close>

datatype parsed_time = Naive int | Zoned int tz

definition us_per_minute :: int where
  "us_per_minute = 60000000"

definition us_per_day :: int where
  "us_per_day = 86400000000"

definition timedelta_minutes :: "int \<Rightarrow> timedelta" where
  "timedelta_minutes n = n * us_per_minute"

definition timedelta_days :: "int \<Rightarrow> timedelta" where
  "timedelta_days n = n * us_per_day"

definition instant :: "datetime \<Rightarrow> int" where
  "instant d = wall d - utcoffset d"

definition dt_add :: "datetime \<Rightarrow> timedelta \<Rightarrow> datetime" where
  "dt_add d t = d\<lparr>wall := wall d + t\<rparr>"

definition dt_sub :: "datetime \<Rightarrow> timedelta \<Rightarrow> datetime" where
  "dt_sub d t = d\<lparr>wall := wall d - t\<rparr>"

definition dt_diff :: "datetime \<Rightarrow> datetime \<Rightarrow> timedelta" where
  "dt_diff a b = instant a - instant b"

definition dt_less :: "datetime \<Rightarrow> datetime \<Rightarrow> bool" where
  "dt_less a b = (instant a < instant b)"

definition dt_date :: "datetime \<Rightarrow> date" where
  "dt_date d = wall d div us_per_day"

definition minutes_of :: "timedelta \<Rightarrow> pyfloat" where
  "minutes_of t = float_div (total_seconds t) 60"

definition hours_of :: "timedelta \<Rightarrow> pyfloat" where
  "hours_of t = float_div (total_seconds t) 3600"

lemma instant_dt_add [simp]: "instant (dt_add d t) = instant d + t"
  by (simp add: instant_def dt_add_def)

lemma instant_dt_sub [simp]: "instant (dt_sub d t) = instant d - t"
  by (simp add: instant_def dt_sub_def)

lemma minutes_of_le_iff:
  "0 \<le> t \<Longrightarrow> t < 2 ^ 20 \<Longrightarrow> minutes_of d \<le> of_int t \<longleftrightarrow> d \<le> timedelta_minutes t"
  using float_quotient_le_iff [of t 60 d]
  by (simp add: minutes_of_def timedelta_minutes_def us_per_minute_def mult.commute)

lemma hours_of_le_iff:
  "0 \<le> t \<Longrightarrow> t < 2 ^ 20 \<Longrightarrow> hours_of d \<le> of_int t \<longleftrightarrow> d \<le> timedelta_minutes (60 * t)"
  using float_quotient_le_iff [of t 3600 d]
  by (simp add: hours_of_def timedelta_minutes_def us_per_minute_def mult.commute)

lemma minutes_of_sign [simp]:
  "0 < minutes_of t \<longleftrightarrow> 0 < t" "minutes_of t < 0 \<longleftrightarrow> t < 0" "minutes_of 0 = 0"
  by (simp_all add: minutes_of_def)

section \<open>The snapshot clock\<close>

record clock =
  snapshot :: datetime

abbreviation now :: "clock \<Rightarrow> datetime" where
  "now c \<equiv> snapshot c"

text \<open>\<open>FixedSnapshotClock.__init__\<close>: only a timezone-aware datetime is accepted.\<close>

fun fixed_snapshot_clock :: "parsed_time \<Rightarrow> error + clock" where
  "fixed_snapshot_clock (Naive w) =
     Inl (ValueError ''FixedSnapshotClock requires a timezone-aware datetime'')"
| "fixed_snapshot_clock (Zoned w off) = Inr \<lparr>snapshot = \<lparr>wall = w, utcoffset = off\<rparr>\<rparr>"

text \<open>
  \<open>tz_of\<close>: the clock's zone. Its assertion that the zone is not \<open>None\<close> cannot fail here,
  because a \<open>clock\<close> holds an aware \<open>datetime\<close> by type, as the constructor ensures.
\<close>

definition tz_of :: "clock \<Rightarrow> tz" where
  "tz_of c = utcoffset (now c)"

end
