(* ===== verification/Model_Types.thy ===== *)
theory Model_Types
  imports Time_Clock
begin

text \<open>
  The typed data of the program: \<open>app/models/enums.py\<close>, \<open>app/models/structured.py\<close>,
  \<open>app/models/source.py\<close>, \<open>app/domain/outcomes.py\<close> and \<open>app/authorization/context.py\<close>.
  A \<open>StrEnum\<close> is a datatype with its \<open>.value\<close> function; building one from a string is
  \<open>enum_of\<close> over its members, in declaration order, with \<open>None\<close> for Python's \<open>ValueError\<close>.
\<close>

section \<open>Enumerations\<close>

definition enum_of :: "('a \<Rightarrow> string) \<Rightarrow> 'a list \<Rightarrow> string \<Rightarrow> 'a option" where
  "enum_of value members s = List.find (\<lambda>x. value x = s) members"

lemma enum_of_Some: "enum_of value members s = Some x \<Longrightarrow> value x = s"
  by (auto simp: enum_of_def dest: find_Some_mem)

lemma enum_of_value:
  "distinct (map value members) \<Longrightarrow> x \<in> set members \<Longrightarrow> enum_of value members (value x) = Some x"
  by (simp add: enum_of_def find_distinct_key)

datatype source_type = SUPPORT_POLICY | SOP | PRODUCT_DOC | AGREEMENT_DOC | STRUCTURED_DATA

fun source_type_value :: "source_type \<Rightarrow> string" where
  "source_type_value SUPPORT_POLICY = ''support_policy''"
| "source_type_value SOP = ''sop''"
| "source_type_value PRODUCT_DOC = ''product_doc''"
| "source_type_value AGREEMENT_DOC = ''agreement''"
| "source_type_value STRUCTURED_DATA = ''structured_data''"

definition source_type_of :: "string \<Rightarrow> source_type option" where
  "source_type_of = enum_of source_type_value
     [SUPPORT_POLICY, SOP, PRODUCT_DOC, AGREEMENT_DOC, STRUCTURED_DATA]"

datatype source_status = CURRENT | DEPRECATED | ACTIVE

fun source_status_value :: "source_status \<Rightarrow> string" where
  "source_status_value CURRENT = ''CURRENT''"
| "source_status_value DEPRECATED = ''DEPRECATED''"
| "source_status_value ACTIVE = ''ACTIVE''"

definition source_status_of :: "string \<Rightarrow> source_status option" where
  "source_status_of = enum_of source_status_value [CURRENT, DEPRECATED, ACTIVE]"

datatype authority_class =
  AC_AGREEMENT | AC_POLICY_CURRENT | AC_PRODUCT_DOC | AC_HISTORICAL | AC_DEPRECATED | AC_STRUCTURED

fun authority_class_value :: "authority_class \<Rightarrow> string" where
  "authority_class_value AC_AGREEMENT = ''AGREEMENT''"
| "authority_class_value AC_POLICY_CURRENT = ''POLICY_CURRENT''"
| "authority_class_value AC_PRODUCT_DOC = ''PRODUCT_DOC''"
| "authority_class_value AC_HISTORICAL = ''HISTORICAL''"
| "authority_class_value AC_DEPRECATED = ''DEPRECATED''"
| "authority_class_value AC_STRUCTURED = ''STRUCTURED''"

definition authority_class_of :: "string \<Rightarrow> authority_class option" where
  "authority_class_of = enum_of authority_class_value
     [AC_AGREEMENT, AC_POLICY_CURRENT, AC_PRODUCT_DOC, AC_HISTORICAL, AC_DEPRECATED, AC_STRUCTURED]"

text \<open>Lower rank wins; \<open>None\<close> is excluded from precedence entirely.\<close>

fun authority_rank :: "authority_class \<Rightarrow> int option" where
  "authority_rank AC_AGREEMENT = Some 1"
| "authority_rank AC_POLICY_CURRENT = Some 2"
| "authority_rank AC_PRODUCT_DOC = Some 3"
| "authority_rank AC_HISTORICAL = Some 4"
| "authority_rank _ = None"

datatype scope_kind = GLOBAL | ACCOUNT

fun scope_kind_value :: "scope_kind \<Rightarrow> string" where
  "scope_kind_value GLOBAL = ''global''"
| "scope_kind_value ACCOUNT = ''account''"

definition scope_kind_of :: "string \<Rightarrow> scope_kind option" where
  "scope_kind_of = enum_of scope_kind_value [GLOBAL, ACCOUNT]"

datatype order_status = DRAFT | BOOKED | PICKED_UP | DELIVERED

fun order_status_value :: "order_status \<Rightarrow> string" where
  "order_status_value DRAFT = ''DRAFT''"
| "order_status_value BOOKED = ''BOOKED''"
| "order_status_value PICKED_UP = ''PICKED_UP''"
| "order_status_value DELIVERED = ''DELIVERED''"

definition order_status_of :: "string \<Rightarrow> order_status option" where
  "order_status_of = enum_of order_status_value [DRAFT, BOOKED, PICKED_UP, DELIVERED]"

datatype ticket_status = OPEN | CLOSED

fun ticket_status_value :: "ticket_status \<Rightarrow> string" where
  "ticket_status_value OPEN = ''open''"
| "ticket_status_value CLOSED = ''closed''"

definition ticket_status_of :: "string \<Rightarrow> ticket_status option" where
  "ticket_status_of = enum_of ticket_status_value [OPEN, CLOSED]"

datatype severity = P1 | P2 | P3

fun severity_value :: "severity \<Rightarrow> string" where
  "severity_value P1 = ''P1''"
| "severity_value P2 = ''P2''"
| "severity_value P3 = ''P3''"

lemma order_status_of_value [simp]: "order_status_of (order_status_value s) = Some s"
  unfolding order_status_of_def by (rule enum_of_value) (cases s; simp)+

lemma ticket_status_of_value [simp]: "ticket_status_of (ticket_status_value s) = Some s"
  unfolding ticket_status_of_def by (rule enum_of_value) (cases s; simp)+

lemma order_status_value_inj [simp]: "order_status_value s = order_status_value t \<longleftrightarrow> s = t"
  by (metis option.inject order_status_of_value)

lemma ticket_status_value_inj [simp]: "ticket_status_value s = ticket_status_value t \<longleftrightarrow> s = t"
  by (metis option.inject ticket_status_of_value)

lemma ticket_status_of_Some: "ticket_status_of s = Some st \<longleftrightarrow> s = ticket_status_value st"
  by (auto simp: ticket_status_of_def dest: enum_of_Some) (simp flip: ticket_status_of_def)

lemma order_status_of_Some: "order_status_of s = Some st \<longleftrightarrow> s = order_status_value st"
  by (auto simp: order_status_of_def dest: enum_of_Some) (simp flip: order_status_of_def)

section \<open>Workbook entities\<close>

record account =
  acc_id :: string
  acc_name :: string
  acc_plan :: string
  acc_status :: string
  acc_csm :: string
  acc_contract_file :: "string option"
  acc_premium_support :: bool
  acc_notes :: string

record order =
  ord_id :: string
  ord_account_id :: string
  ord_carrier :: string
  ord_status :: order_status
  ord_booked_at :: datetime
  ord_pickup_window_start :: datetime
  ord_pickup_window_end :: datetime
  ord_pickup_actual_at :: "datetime option"
  ord_shipment_fee_inr :: pyfloat
  ord_carrier_fault :: bool
  ord_customer_fault :: bool
  ord_cancellation_requested_at :: "datetime option"
  ord_notes :: string

record ticket =
  tkt_id :: string
  tkt_account_id :: string
  tkt_created_at :: datetime
  tkt_status :: ticket_status
  tkt_subject :: string
  tkt_description :: string
  tkt_channel :: string
  tkt_assigned_to :: string
  tkt_last_customer_message_at :: datetime
  tkt_historical_resolution :: "string option"

section \<open>Document sources\<close>

record source_scope =
  scope_kind :: scope_kind
  scope_account_id :: "string option"

definition covers :: "source_scope \<Rightarrow> string option \<Rightarrow> bool" where
  "covers s account_id =
     (if scope_kind s = GLOBAL then True
      else account_id = None \<or> account_id = scope_account_id s)"

record source_document =
  src_id :: string
  src_filename :: string
  src_type :: source_type
  src_status :: source_status
  src_version :: "string option"
  src_effective_date :: date
  src_expiry_date :: "date option"
  src_supersedes :: "string option"
  src_superseded_by :: "string option"
  src_scope :: source_scope
  src_authority_class :: authority_class
  src_checksum :: string
  src_bytes :: int
  src_provenance :: string

definition is_active_at :: "source_document \<Rightarrow> date \<Rightarrow> bool" where
  "is_active_at d day =
     (if src_effective_date d > day then False
      else (case src_expiry_date d of None \<Rightarrow> True | Some e \<Rightarrow> day \<le> e))"

record document_chunk =
  chk_id :: string
  chk_source_id :: string
  chk_filename :: string
  chk_page :: int
  chk_section :: "string option"
  chk_text :: string
  chk_normalized_text :: string
  chk_status :: source_status
  chk_source_type :: source_type
  chk_account_scope :: "string option"
  chk_effective_date :: date
  chk_authority_class :: authority_class

record sla_target =
  slt_source_id :: string
  slt_plan :: "string option"
  slt_account_id :: "string option"
  slt_severity :: string
  slt_target_text :: string
  slt_target_minutes :: "int option"
  slt_is_24x7 :: bool
  slt_requires_business_calendar :: bool

section \<open>Authorization context\<close>

datatype role = OPERATIONS_ADMIN | SUPPORT_AGENT | RESTRICTED_SUPPORT

fun role_value :: "role \<Rightarrow> string" where
  "role_value OPERATIONS_ADMIN = ''operations_admin''"
| "role_value SUPPORT_AGENT = ''support_agent''"
| "role_value RESTRICTED_SUPPORT = ''restricted_support''"

record auth_context =
  role :: role
  account_scope :: "string list option"

definition allows_account :: "auth_context \<Rightarrow> string \<Rightarrow> bool" where
  "allows_account auth account_id =
     (case account_scope auth of None \<Rightarrow> True | Some scope \<Rightarrow> account_id \<in> set scope)"

definition INTERNAL_SYSTEM_CONTEXT :: auth_context where
  "INTERNAL_SYSTEM_CONTEXT = \<lparr>role = OPERATIONS_ADMIN, account_scope = None\<rparr>"

lemma allows_account_internal [simp]: "allows_account INTERNAL_SYSTEM_CONTEXT a"
  by (simp add: allows_account_def INTERNAL_SYSTEM_CONTEXT_def)

section \<open>Outcomes\<close>

text \<open>
  An f-string is the list of its pieces: literal text and strings, and numbers or times with
  their format specification. \<open>Message_Text\<close> turns them into characters.
\<close>

datatype frag =
    T string
  | G pyfloat       \<comment> \<open>\<open>{x:g}\<close>\<close>
  | F0 pyfloat      \<comment> \<open>\<open>{x:.0f}\<close>\<close>
  | F1 pyfloat      \<comment> \<open>\<open>{x:.1f}\<close>\<close>
  | F4 pyfloat      \<comment> \<open>\<open>{x:.4f}\<close>\<close>
  | Pct0 pyfloat    \<comment> \<open>\<open>{x:.0%}\<close>\<close>
  | IntT int
  | IsoT datetime   \<comment> \<open>\<open>{d.isoformat()}\<close>\<close>
  | DateT date
  | DateOptT "date option"
  | ReprList "string list"

type_synonym fstr = "frag list"

datatype trust_state = CONFIDENT | CONDITIONAL | UNCERTAIN | ESCALATE

fun trust_state_value :: "trust_state \<Rightarrow> string" where
  "trust_state_value CONFIDENT = ''CONFIDENT''"
| "trust_state_value CONDITIONAL = ''CONDITIONAL''"
| "trust_state_value UNCERTAIN = ''UNCERTAIN''"
| "trust_state_value ESCALATE = ''ESCALATE''"

datatype evidence_kind = Document | Structured | Calculation

record evidence_ref =
  ev_kind :: evidence_kind
  ev_source_id :: string
  ev_locator :: "string option"
  ev_note :: "string option"

record conflict =
  winner_source_id :: string
  loser_source_id :: string
  conflict_scope :: string
  conflict_reason :: fstr
  conflict_needs_human_review :: bool

datatype calc_value =
    CFloat pyfloat
  | CInt int
  | CBool bool
  | CIso datetime
  | CCounts "(string \<times> int) list"

record 'a decision =
  result :: "'a option"
  trust_state :: trust_state
  reason :: fstr
  evidence :: "evidence_ref list"
  assumptions :: "string list"
  conflicts :: "conflict list"
  calculation_inputs :: "(string \<times> calc_value) list"
  needs_human_review :: bool

definition trust_from :: "bool \<Rightarrow> bool \<Rightarrow> trust_state" where
  "trust_from review_required has_assumptions =
     (if review_required then ESCALATE else if has_assumptions then CONDITIONAL else CONFIDENT)"

definition cite_structured :: "string \<Rightarrow> string \<Rightarrow> string option \<Rightarrow> evidence_ref" where
  "cite_structured table record_id note =
     \<lparr>ev_kind = Structured, ev_source_id = ''SRC-07'',
      ev_locator = Some (table @ '':'' @ record_id), ev_note = note\<rparr>"

definition cite_calculation :: "string \<Rightarrow> string option \<Rightarrow> evidence_ref" where
  "cite_calculation name note =
     \<lparr>ev_kind = Calculation, ev_source_id = ''calculation:'' @ name, ev_locator = None, ev_note = note\<rparr>"

end
