(* ===== verification/Database.thy ===== *)
theory Database
  imports Model_Types
begin

text \<open>
  The SQLite database of \<open>app/db/schema.sql\<close> as a record of tables, a table as the list of
  its rows in rowid order. Text columns that hold an ISO time or date carry the time or date
  the text denotes (for \<open>actions\<close> the theory \<open>Action_Rows\<close> has the texts); enumeration columns stay
  raw text, because the program parses them when it reads a row; INTEGER flags stay integers.
  A JSON column of \<open>actions\<close> carries the value it encodes.

  Also here: the models of \<open>app/actions/models.py\<close>, which are the rows of \<open>actions\<close>, the
  read side of \<open>sources\<close> (\<open>app/documents/source_repository.py\<close>) and \<open>cite_document\<close>
  (\<open>app/domain/evidence.py\<close>).
\<close>

section \<open>Action records\<close>

datatype action_type = PREPARE_ESCALATION

fun action_type_value :: "action_type \<Rightarrow> string" where
  "action_type_value PREPARE_ESCALATION = ''prepare_escalation''"

datatype action_status =
  PENDING_CONFIRMATION | CONFIRMED | EXECUTED | REJECTED | EXPIRED | FAILED | CANCELLED

fun action_status_value :: "action_status \<Rightarrow> string" where
  "action_status_value PENDING_CONFIRMATION = ''PENDING_CONFIRMATION''"
| "action_status_value CONFIRMED = ''CONFIRMED''"
| "action_status_value EXECUTED = ''EXECUTED''"
| "action_status_value REJECTED = ''REJECTED''"
| "action_status_value EXPIRED = ''EXPIRED''"
| "action_status_value FAILED = ''FAILED''"
| "action_status_value CANCELLED = ''CANCELLED''"

datatype json_scalar = JStr string | JBool bool

record action_record =
  action_id :: string
  request_id :: string
  user_id :: string
  action_type :: action_type
  target :: string
  proposed_change :: "(string \<times> json_scalar) list"
  act_reason :: string
  act_evidence :: "evidence_ref list"
  risk :: string
  payload_hash :: string
  act_status :: action_status
  prepared_at :: datetime
  expires_at :: datetime
  confirmed_at :: "datetime option"
  executed_at :: "datetime option"
  idempotency_key :: string
  failure_reason :: "string option"

record action_outcome =
  success :: bool
  outcome_record :: "action_record option"
  error_code :: "string option"
  error_message :: "string option"

section \<open>Tables\<close>

record account_row =
  ar_account_id :: string
  ar_account_name :: string
  ar_plan :: string
  ar_status :: string
  ar_csm :: string
  ar_contract_file :: "string option"
  ar_premium_support :: int
  ar_notes :: string

record order_row =
  or_order_id :: string
  or_account_id :: string
  or_carrier :: string
  or_status :: string
  or_booked_at :: parsed_time
  or_pickup_window_start :: parsed_time
  or_pickup_window_end :: parsed_time
  or_pickup_actual_at :: "parsed_time option"
  or_shipment_fee_inr :: pyfloat
  or_carrier_fault :: int
  or_customer_fault :: int
  or_cancellation_requested_at :: "parsed_time option"
  or_notes :: string

record ticket_row =
  tr_ticket_id :: string
  tr_account_id :: string
  tr_created_at :: parsed_time
  tr_status :: string
  tr_subject :: string
  tr_description :: string
  tr_channel :: string
  tr_assigned_to :: string
  tr_last_customer_message_at :: parsed_time
  tr_historical_resolution :: "string option"

record source_row =
  sr_source_id :: string
  sr_filename :: string
  sr_source_type :: string
  sr_status :: string
  sr_version :: "string option"
  sr_effective_date :: date
  sr_expiry_date :: "date option"
  sr_supersedes :: "string option"
  sr_superseded_by :: "string option"
  sr_scope_kind :: string
  sr_scope_account_id :: "string option"
  sr_authority_class :: string
  sr_checksum :: string
  sr_bytes :: int
  sr_provenance :: string

record chunk_row =
  cr_chunk_id :: string
  cr_source_id :: string
  cr_page :: int
  cr_section :: "string option"
  cr_text :: string
  cr_normalized_text :: string
  cr_filename :: string
  cr_status :: string
  cr_source_type :: string
  cr_account_scope :: "string option"
  cr_effective_date :: date
  cr_authority_class :: string

record sla_row =
  lr_source_id :: string
  lr_scope_kind :: string
  lr_plan :: "string option"
  lr_account_id :: "string option"
  lr_severity :: string
  lr_target_text :: string
  lr_target_minutes :: "int option"
  lr_is_24x7 :: int
  lr_requires_business_calendar :: int

record db =
  db_sources :: "source_row list"
  db_chunks :: "chunk_row list"
  db_sla_targets :: "sla_row list"
  db_accounts :: "account_row list"
  db_orders :: "order_row list"
  db_tickets :: "ticket_row list"
  db_actions :: "action_record list"

text \<open>What the schema's primary and foreign keys enforce.\<close>

definition wf_db :: "db \<Rightarrow> bool" where
  "wf_db conn =
     (distinct (map ar_account_id (db_accounts conn)) \<and>
      distinct (map or_order_id (db_orders conn)) \<and>
      distinct (map tr_ticket_id (db_tickets conn)) \<and>
      distinct (map action_id (db_actions conn)) \<and>
      or_account_id ` set (db_orders conn) \<subseteq> ar_account_id ` set (db_accounts conn) \<and>
      tr_account_id ` set (db_tickets conn) \<subseteq> ar_account_id ` set (db_accounts conn))"

section \<open>Reading a source\<close>

definition source_of_row :: "source_row \<Rightarrow> error + source_document" where
  "source_of_row row =
     bindE (of_optionE (ValidationError ''SourceDocument.source_type'') (source_type_of (sr_source_type row))) (\<lambda>stype.
     bindE (of_optionE (ValidationError ''SourceDocument.status'') (source_status_of (sr_status row))) (\<lambda>status.
     bindE (of_optionE (ValidationError ''SourceScope.kind'') (scope_kind_of (sr_scope_kind row))) (\<lambda>kind.
     bindE (of_optionE (ValidationError ''SourceDocument.authority_class'') (authority_class_of (sr_authority_class row))) (\<lambda>auth.
     Inr \<lparr>src_id = sr_source_id row, src_filename = sr_filename row, src_type = stype,
          src_status = status, src_version = sr_version row,
          src_effective_date = sr_effective_date row, src_expiry_date = sr_expiry_date row,
          src_supersedes = sr_supersedes row, src_superseded_by = sr_superseded_by row,
          src_scope = \<lparr>scope_kind = kind, scope_account_id = sr_scope_account_id row\<rparr>,
          src_authority_class = auth, src_checksum = sr_checksum row, src_bytes = sr_bytes row,
          src_provenance = sr_provenance row\<rparr>))))"

definition get_source :: "db \<Rightarrow> string \<Rightarrow> error + source_document" where
  "get_source conn source_id =
     (case List.find (\<lambda>r. sr_source_id r = source_id) (db_sources conn) of
        None \<Rightarrow> Inl (UnknownEntityError ''source'' source_id)
      | Some row \<Rightarrow> source_of_row row)"

lemma get_source_id: "get_source conn source_id = Inr d \<Longrightarrow> src_id d = source_id"
  by (auto simp: get_source_def source_of_row_def bindE_eq_Inr split: option.splits
      dest!: find_Some_mem)

section \<open>Citing a document\<close>

text \<open>The page a section really lives on, or page 1 when no chunk has that section.\<close>

definition cite_document :: "db \<Rightarrow> string \<Rightarrow> string \<Rightarrow> string option \<Rightarrow> evidence_ref" where
  "cite_document conn source_id section note =
     (let page = (case List.find (\<lambda>r. cr_source_id r = source_id \<and> cr_section r = Some section) (db_chunks conn)
                  of None \<Rightarrow> 1 | Some row \<Rightarrow> cr_page row)
      in \<lparr>ev_kind = Document, ev_source_id = source_id,
          ev_locator = Some (''p'' @ str_of_int page @ '':'' @ section), ev_note = note\<rparr>)"

lemma cite_document_source [simp]: "ev_source_id (cite_document conn s c n) = s"
  by (simp add: cite_document_def Let_def)

end
