(* ===== verification/Repository.thy ===== *)
theory Repository
  imports Database
begin

text \<open>
  \<open>app/structured_data/repository.py\<close>: the typed, account-scoped reads of accounts, orders and
  tickets. The SQL of a search is the filter its clauses denote, in \<open>ORDER BY\<close> key order.

  Two interfaces state what every caller relies on: \<open>scoped_lookup\<close> (a lookup by id returns
  only what the caller may see, and what it returns does not depend on who asks) and
  \<open>scoped_search\<close> (a search returns only visible records and depends only on the visible
  part of the database). Both are interpreted on the program's own functions.
\<close>

section \<open>Row conversions\<close>

fun dt :: "parsed_time \<Rightarrow> tz \<Rightarrow> datetime" where
  "dt (Naive w) tz = \<lparr>wall = w, utcoffset = tz\<rparr>"
| "dt (Zoned w off) tz = \<lparr>wall = w, utcoffset = off\<rparr>"

definition dt_optional :: "parsed_time option \<Rightarrow> tz \<Rightarrow> datetime option" where
  "dt_optional value tz = (case value of None \<Rightarrow> None | Some v \<Rightarrow> Some (dt v tz))"

definition row_to_account :: "account_row \<Rightarrow> account" where
  "row_to_account row =
     \<lparr>acc_id = ar_account_id row, acc_name = ar_account_name row, acc_plan = ar_plan row,
      acc_status = ar_status row, acc_csm = ar_csm row, acc_contract_file = ar_contract_file row,
      acc_premium_support = (ar_premium_support row \<noteq> 0), acc_notes = ar_notes row\<rparr>"

definition row_to_order :: "order_row \<Rightarrow> tz \<Rightarrow> error + order" where
  "row_to_order row tz =
     bindE (of_optionE (ValidationError ''Order.status'') (order_status_of (or_status row))) (\<lambda>st.
     Inr \<lparr>ord_id = or_order_id row, ord_account_id = or_account_id row, ord_carrier = or_carrier row,
          ord_status = st, ord_booked_at = dt (or_booked_at row) tz,
          ord_pickup_window_start = dt (or_pickup_window_start row) tz,
          ord_pickup_window_end = dt (or_pickup_window_end row) tz,
          ord_pickup_actual_at = dt_optional (or_pickup_actual_at row) tz,
          ord_shipment_fee_inr = or_shipment_fee_inr row,
          ord_carrier_fault = (or_carrier_fault row \<noteq> 0),
          ord_customer_fault = (or_customer_fault row \<noteq> 0),
          ord_cancellation_requested_at = dt_optional (or_cancellation_requested_at row) tz,
          ord_notes = or_notes row\<rparr>)"

definition row_to_ticket :: "ticket_row \<Rightarrow> tz \<Rightarrow> error + ticket" where
  "row_to_ticket row tz =
     bindE (of_optionE (ValidationError ''Ticket.status'') (ticket_status_of (tr_status row))) (\<lambda>st.
     Inr \<lparr>tkt_id = tr_ticket_id row, tkt_account_id = tr_account_id row,
          tkt_created_at = dt (tr_created_at row) tz, tkt_status = st,
          tkt_subject = tr_subject row, tkt_description = tr_description row,
          tkt_channel = tr_channel row, tkt_assigned_to = tr_assigned_to row,
          tkt_last_customer_message_at = dt (tr_last_customer_message_at row) tz,
          tkt_historical_resolution = tr_historical_resolution row\<rparr>)"

section \<open>Lookups by id\<close>

definition check_scope :: "auth_context \<Rightarrow> string \<Rightarrow> string \<Rightarrow> string \<Rightarrow> error + unit" where
  "check_scope auth account_id entity_type entity_id =
     (if \<not> allows_account auth account_id
      then Inl (NotAuthorizedError (role_value (role auth) @ '' cannot access '' @ entity_type @ '' '' @ entity_id))
      else Inr ())"

definition get_account :: "db \<Rightarrow> string \<Rightarrow> auth_context \<Rightarrow> error + account" where
  "get_account conn account_id auth =
     (if \<not> allows_account auth account_id
      then Inl (NotAuthorizedError (role_value (role auth) @ '' cannot access account '' @ account_id))
      else (case List.find (\<lambda>r. ar_account_id r = account_id) (db_accounts conn) of
              None \<Rightarrow> Inl (UnknownEntityError ''account'' account_id)
            | Some row \<Rightarrow> Inr (row_to_account row)))"

definition get_order :: "db \<Rightarrow> string \<Rightarrow> auth_context \<Rightarrow> tz \<Rightarrow> error + order" where
  "get_order conn order_id auth tz =
     (case List.find (\<lambda>r. or_order_id r = order_id) (db_orders conn) of
        None \<Rightarrow> Inl (UnknownEntityError ''order'' order_id)
      | Some row \<Rightarrow>
          bindE (check_scope auth (or_account_id row) ''order'' order_id) (\<lambda>_. row_to_order row tz))"

definition get_ticket :: "db \<Rightarrow> string \<Rightarrow> auth_context \<Rightarrow> tz \<Rightarrow> error + ticket" where
  "get_ticket conn ticket_id auth tz =
     (case List.find (\<lambda>r. tr_ticket_id r = ticket_id) (db_tickets conn) of
        None \<Rightarrow> Inl (UnknownEntityError ''ticket'' ticket_id)
      | Some row \<Rightarrow>
          bindE (check_scope auth (tr_account_id row) ''ticket'' ticket_id) (\<lambda>_. row_to_ticket row tz))"

section \<open>Searches\<close>

text \<open>The \<open>WHERE\<close> clauses: an absent parameter adds no clause.\<close>

definition scope_clause :: "auth_context \<Rightarrow> string \<Rightarrow> bool" where
  "scope_clause auth account_id =
     (case account_scope auth of None \<Rightarrow> True | Some scope \<Rightarrow> account_id \<in> set scope)"

definition eq_clause :: "string option \<Rightarrow> string \<Rightarrow> bool" where
  "eq_clause param col = (case param of None \<Rightarrow> True | Some v \<Rightarrow> col = v)"

definition search_orders ::
  "db \<Rightarrow> auth_context \<Rightarrow> tz \<Rightarrow> string option \<Rightarrow> order_status option \<Rightarrow> string option \<Rightarrow> error + order list" where
  "search_orders conn auth tz account_id st carrier =
     bindE (case account_id of
              None \<Rightarrow> Inr ()
            | Some a \<Rightarrow> if \<not> allows_account auth a
                then Inl (NotAuthorizedError (role_value (role auth) @ '' cannot access account '' @ a))
                else Inr ()) (\<lambda>_.
     mapE (\<lambda>row. row_to_order row tz)
       (sort_key or_order_id
         (filter (\<lambda>r. scope_clause auth (or_account_id r)
                    \<and> eq_clause account_id (or_account_id r)
                    \<and> eq_clause (map_option order_status_value st) (or_status r)
                    \<and> eq_clause carrier (or_carrier r)) (db_orders conn))))"

definition search_tickets ::
  "db \<Rightarrow> auth_context \<Rightarrow> tz \<Rightarrow> string option \<Rightarrow> ticket_status option \<Rightarrow> error + ticket list" where
  "search_tickets conn auth tz account_id st =
     bindE (case account_id of
              None \<Rightarrow> Inr ()
            | Some a \<Rightarrow> if \<not> allows_account auth a
                then Inl (NotAuthorizedError (role_value (role auth) @ '' cannot access account '' @ a))
                else Inr ()) (\<lambda>_.
     mapE (\<lambda>row. row_to_ticket row tz)
       (sort_key tr_ticket_id
         (filter (\<lambda>r. scope_clause auth (tr_account_id r)
                    \<and> eq_clause account_id (tr_account_id r)
                    \<and> eq_clause (map_option ticket_status_value st) (tr_status r)) (db_tickets conn))))"

section \<open>What a caller can see of the database\<close>

text \<open>
  Two databases look the same to a caller when the accounts, orders and tickets in the
  caller's scope and the shared policy tables agree; anything else may differ.
\<close>

definition same_view :: "auth_context \<Rightarrow> db \<Rightarrow> db \<Rightarrow> bool" where
  "same_view auth c d \<longleftrightarrow>
     filter (\<lambda>r. allows_account auth (ar_account_id r)) (db_accounts c) =
       filter (\<lambda>r. allows_account auth (ar_account_id r)) (db_accounts d) \<and>
     filter (\<lambda>r. allows_account auth (or_account_id r)) (db_orders c) =
       filter (\<lambda>r. allows_account auth (or_account_id r)) (db_orders d) \<and>
     filter (\<lambda>r. allows_account auth (tr_account_id r)) (db_tickets c) =
       filter (\<lambda>r. allows_account auth (tr_account_id r)) (db_tickets d) \<and>
     db_sources c = db_sources d \<and> db_chunks c = db_chunks d \<and> db_sla_targets c = db_sla_targets d"

lemma scope_clause_eq [simp]: "scope_clause = allows_account"
  by (auto simp: fun_eq_iff scope_clause_def allows_account_def)

lemma same_view_sym: "same_view auth c d \<Longrightarrow> same_view auth d c"
  by (simp add: same_view_def)

lemma same_view_cite: "same_view auth c d \<Longrightarrow> cite_document c = cite_document d"
  by (simp add: same_view_def cite_document_def fun_eq_iff)

lemma same_view_source: "same_view auth c d \<Longrightarrow> get_source c = get_source d"
  by (simp add: same_view_def get_source_def fun_eq_iff)

section \<open>The interfaces\<close>

locale scoped_lookup =
  fixes lookup :: "db \<Rightarrow> string \<Rightarrow> auth_context \<Rightarrow> error + 'a"
    and owner :: "'a \<Rightarrow> string"
    and ident :: "'a \<Rightarrow> string"
  assumes in_scope: "lookup c k auth = Inr x \<Longrightarrow> allows_account auth (owner x)"
    and ident_key: "lookup c k auth = Inr x \<Longrightarrow> ident x = k"
    and caller_free: "lookup c k auth = Inr x \<Longrightarrow> allows_account auth' (owner x) \<Longrightarrow> lookup c k auth' = Inr x"
    and view_only: "wf_db c \<Longrightarrow> wf_db d \<Longrightarrow> same_view auth c d \<Longrightarrow> lookup c k auth = Inr x \<Longrightarrow> lookup d k auth = Inr x"
begin

lemma out_of_scope_fails:
  assumes "lookup c k auth = Inr x" "\<not> allows_account auth' (owner x)"
  shows "\<exists>e. lookup c k auth' = Inl e"
proof (cases "lookup c k auth'")
  case (Inr y)
  with assms(1) in_scope [OF Inr] have "lookup c k auth = Inr y \<or> lookup c k auth' = Inr x"
    using caller_free [OF Inr, of INTERNAL_SYSTEM_CONTEXT] caller_free [OF assms(1), of INTERNAL_SYSTEM_CONTEXT]
      caller_free [of c k INTERNAL_SYSTEM_CONTEXT x auth'] by auto
  then have "y = x"
    using Inr caller_free [OF Inr, of INTERNAL_SYSTEM_CONTEXT]
      caller_free [OF assms(1), of INTERNAL_SYSTEM_CONTEXT] by auto
  with in_scope [OF Inr] assms(2) show ?thesis by simp
qed simp

lemma view_only_iff:
  "wf_db c \<Longrightarrow> wf_db d \<Longrightarrow> same_view auth c d \<Longrightarrow> lookup c k auth = Inr x \<longleftrightarrow> lookup d k auth = Inr x"
  using view_only same_view_sym by blast

end

locale scoped_search =
  fixes search :: "db \<Rightarrow> auth_context \<Rightarrow> error + 'a list"
    and owner :: "'a \<Rightarrow> string"
    and key :: "'a \<Rightarrow> string"
  assumes all_in_scope: "search c auth = Inr xs \<Longrightarrow> x \<in> set xs \<Longrightarrow> allows_account auth (owner x)"
    and in_key_order: "search c auth = Inr xs \<Longrightarrow> sorted (map key xs)"
    and view_determines: "same_view auth c d \<Longrightarrow> search c auth = search d auth"
begin

lemma empty_scope: "search c \<lparr>role = r, account_scope = Some []\<rparr> = Inr xs \<Longrightarrow> xs = []"
  using all_in_scope [of c "\<lparr>role = r, account_scope = Some []\<rparr>" xs]
  by (cases xs) (auto simp: allows_account_def)

end

section \<open>The program's lookups and searches satisfy them\<close>

lemma find_visible:
  assumes "distinct (map key xs)" "distinct (map key ys)"
    and "filter P xs = filter P ys"
    and "List.find (\<lambda>r. key r = k) xs = Some x" "P x"
  shows "List.find (\<lambda>r. key r = k) ys = Some x"
proof -
  from assms(4) have x: "x \<in> set xs" "key x = k" by (auto dest: find_Some_mem)
  with assms(5) have "x \<in> set (filter P xs)" by simp
  then have "x \<in> set (filter P ys)" by (simp only: assms(3))
  then have "x \<in> set ys" by simp
  with assms(2) x show ?thesis using find_distinct_key [of key ys x] by simp
qed

lemma row_to_order_fields:
  "row_to_order row tz = Inr x \<Longrightarrow> ord_account_id x = or_account_id row \<and> ord_id x = or_order_id row
     \<and> order_status_of (or_status row) = Some (ord_status x)"
  by (auto simp: row_to_order_def bindE_eq_Inr)

lemma row_to_account_fields [simp]: "acc_id (row_to_account row) = ar_account_id row"
  by (simp add: row_to_account_def)

lemma row_to_ticket_fields:
  "row_to_ticket row tz = Inr x \<Longrightarrow> tkt_account_id x = tr_account_id row \<and> tkt_id x = tr_ticket_id row
     \<and> ticket_status_of (tr_status row) = Some (tkt_status x)"
  by (auto simp: row_to_ticket_def bindE_eq_Inr)

lemma get_order_Inr:
  "get_order conn k auth tz = Inr x \<longleftrightarrow>
     (\<exists>row. List.find (\<lambda>r. or_order_id r = k) (db_orders conn) = Some row
        \<and> allows_account auth (ord_account_id x) \<and> ord_id x = k \<and> row_to_order row tz = Inr x)"
proof (cases "List.find (\<lambda>r. or_order_id r = k) (db_orders conn)")
  case (Some row)
  then show ?thesis
    using find_key [OF Some] row_to_order_fields [of row tz x]
    by (auto simp: get_order_def check_scope_def bindE_eq_Inr)
qed (simp add: get_order_def)

lemma get_ticket_Inr:
  "get_ticket conn k auth tz = Inr x \<longleftrightarrow>
     (\<exists>row. List.find (\<lambda>r. tr_ticket_id r = k) (db_tickets conn) = Some row
        \<and> allows_account auth (tkt_account_id x) \<and> tkt_id x = k \<and> row_to_ticket row tz = Inr x)"
proof (cases "List.find (\<lambda>r. tr_ticket_id r = k) (db_tickets conn)")
  case (Some row)
  then show ?thesis
    using find_key [OF Some] row_to_ticket_fields [of row tz x]
    by (auto simp: get_ticket_def check_scope_def bindE_eq_Inr)
qed (simp add: get_ticket_def)

lemma get_account_Inr:
  "get_account conn k auth = Inr x \<longleftrightarrow>
     (\<exists>row. List.find (\<lambda>r. ar_account_id r = k) (db_accounts conn) = Some row
        \<and> allows_account auth (acc_id x) \<and> acc_id x = k \<and> row_to_account row = x)"
proof (cases "List.find (\<lambda>r. ar_account_id r = k) (db_accounts conn)")
  case (Some row)
  then show ?thesis using find_key [OF Some] by (auto simp: get_account_def)
qed (simp add: get_account_def)

interpretation order_lookup: scoped_lookup "\<lambda>c k auth. get_order c k auth tz" ord_account_id ord_id
  for tz
proof
  fix c d k auth x
  assume wf: "wf_db c" "wf_db d" and view: "same_view auth c d" and "get_order c k auth tz = Inr x"
  then obtain row where row: "List.find (\<lambda>r. or_order_id r = k) (db_orders c) = Some row" "row_to_order row tz = Inr x"
    and x: "allows_account auth (ord_account_id x)" "ord_id x = k"
    by (auto simp: get_order_Inr)
  have "List.find (\<lambda>r. or_order_id r = k) (db_orders d) = Some row"
    by (rule find_visible [of or_order_id "db_orders c" _ "\<lambda>r. allows_account auth (or_account_id r)"])
      (use wf view row x row_to_order_fields [OF row(2)] in \<open>auto simp: wf_db_def same_view_def\<close>)
  with row x show "get_order d k auth tz = Inr x" by (simp add: get_order_Inr)
qed (auto simp: get_order_Inr)

interpretation ticket_lookup: scoped_lookup "\<lambda>c k auth. get_ticket c k auth tz" tkt_account_id tkt_id
  for tz
proof
  fix c d k auth x
  assume wf: "wf_db c" "wf_db d" and view: "same_view auth c d" and "get_ticket c k auth tz = Inr x"
  then obtain row where row: "List.find (\<lambda>r. tr_ticket_id r = k) (db_tickets c) = Some row" "row_to_ticket row tz = Inr x"
    and x: "allows_account auth (tkt_account_id x)" "tkt_id x = k"
    by (auto simp: get_ticket_Inr)
  have "List.find (\<lambda>r. tr_ticket_id r = k) (db_tickets d) = Some row"
    by (rule find_visible [of tr_ticket_id "db_tickets c" _ "\<lambda>r. allows_account auth (tr_account_id r)"])
      (use wf view row x row_to_ticket_fields [OF row(2)] in \<open>auto simp: wf_db_def same_view_def\<close>)
  with row x show "get_ticket d k auth tz = Inr x" by (simp add: get_ticket_Inr)
qed (auto simp: get_ticket_Inr)

interpretation account_lookup: scoped_lookup get_account acc_id acc_id
proof
  fix c d k auth x
  assume wf: "wf_db c" "wf_db d" and view: "same_view auth c d" and "get_account c k auth = Inr x"
  then obtain row where row: "List.find (\<lambda>r. ar_account_id r = k) (db_accounts c) = Some row" "row_to_account row = x"
    and x: "allows_account auth (acc_id x)" "acc_id x = k"
    by (auto simp: get_account_Inr)
  have "List.find (\<lambda>r. ar_account_id r = k) (db_accounts d) = Some row"
    by (rule find_visible [of ar_account_id "db_accounts c" _ "\<lambda>r. allows_account auth (ar_account_id r)"])
      (use wf view row x in \<open>auto simp: wf_db_def same_view_def\<close>)
  with row x show "get_account d k auth = Inr x" by (simp add: get_account_Inr)
qed (auto simp: get_account_Inr)

lemma search_orders_rows:
  "search_orders conn auth tz account_id st carrier = Inr xs \<Longrightarrow>
   list_all2 (\<lambda>row x. row_to_order row tz = Inr x)
     (sort_key or_order_id (filter (\<lambda>r. allows_account auth (or_account_id r)
        \<and> eq_clause account_id (or_account_id r)
        \<and> eq_clause (map_option order_status_value st) (or_status r)
        \<and> eq_clause carrier (or_carrier r)) (db_orders conn))) xs"
  by (auto simp: search_orders_def bindE_eq_Inr mapE_eq_Inr)

lemma search_tickets_rows:
  "search_tickets conn auth tz account_id st = Inr xs \<Longrightarrow>
   list_all2 (\<lambda>row x. row_to_ticket row tz = Inr x)
     (sort_key tr_ticket_id (filter (\<lambda>r. allows_account auth (tr_account_id r)
        \<and> eq_clause account_id (tr_account_id r)
        \<and> eq_clause (map_option ticket_status_value st) (tr_status r)) (db_tickets conn))) xs"
  by (auto simp: search_tickets_def bindE_eq_Inr mapE_eq_Inr)

lemma list_all2_keys:
  assumes "list_all2 R xs ys" "\<And>x y. R x y \<Longrightarrow> g y = f x"
  shows "map g ys = map f xs"
  using assms by (induction rule: list_all2_induct) auto

lemma list_all2_mem2:
  "list_all2 R xs ys \<Longrightarrow> y \<in> set ys \<Longrightarrow> \<exists>x \<in> set xs. R x y"
  by (induction rule: list_all2_induct) auto

lemma filter_conj_cong:
  "filter P xs = filter P ys \<Longrightarrow> filter (\<lambda>r. P r \<and> Q r) xs = filter (\<lambda>r. P r \<and> Q r) ys"
  by (metis (no_types) filter_filter filter_cong)

interpretation order_search: scoped_search
  "\<lambda>c auth. search_orders c auth tz account_id st carrier" ord_account_id ord_id
  for tz account_id st carrier
proof
  fix c auth xs x
  assume "search_orders c auth tz account_id st carrier = Inr xs"
  note rows = search_orders_rows [OF this]
  show "sorted (map ord_id xs)"
    by (subst list_all2_keys [OF rows, where f = or_order_id]) (auto dest: row_to_order_fields)
  show "allows_account auth (ord_account_id x)" if "x \<in> set xs"
    using list_all2_mem2 [OF rows that] by (auto dest: row_to_order_fields)
next
  fix auth c d
  assume "same_view auth c d"
  then show "search_orders c auth tz account_id st carrier = search_orders d auth tz account_id st carrier"
    by (simp add: same_view_def search_orders_def
        filter_conj_cong [of "\<lambda>r. allows_account auth (or_account_id r)" "db_orders c" "db_orders d"])
qed

interpretation ticket_search: scoped_search
  "\<lambda>c auth. search_tickets c auth tz account_id st" tkt_account_id tkt_id
  for tz account_id st
proof
  fix c auth xs x
  assume "search_tickets c auth tz account_id st = Inr xs"
  note rows = search_tickets_rows [OF this]
  show "sorted (map tkt_id xs)"
    by (subst list_all2_keys [OF rows, where f = tr_ticket_id]) (auto dest: row_to_ticket_fields)
  show "allows_account auth (tkt_account_id x)" if "x \<in> set xs"
    using list_all2_mem2 [OF rows that] by (auto dest: row_to_ticket_fields)
next
  fix auth c d
  assume "same_view auth c d"
  then show "search_tickets c auth tz account_id st = search_tickets d auth tz account_id st"
    by (simp add: same_view_def search_tickets_def
        filter_conj_cong [of "\<lambda>r. allows_account auth (tr_account_id r)" "db_tickets c" "db_tickets d"])
qed

section \<open>A search agrees with the lookups\<close>

lemma search_tickets_get:
  assumes "wf_db conn" "search_tickets conn auth tz account_id st = Inr xs" "x \<in> set xs"
  shows "get_ticket conn (tkt_id x) auth tz = Inr x"
proof -
  from list_all2_mem2 [OF search_tickets_rows [OF assms(2)] assms(3)]
  obtain row where row: "row \<in> set (db_tickets conn)" "allows_account auth (tr_account_id row)"
    "row_to_ticket row tz = Inr x" by auto
  moreover have "List.find (\<lambda>r. tr_ticket_id r = tr_ticket_id row) (db_tickets conn) = Some row"
    using assms(1) row(1) by (intro find_distinct_key) (auto simp: wf_db_def)
  ultimately show ?thesis
    using row_to_ticket_fields [of row tz x] by (auto simp: get_ticket_Inr)
qed

lemma search_orders_get:
  assumes "wf_db conn" "search_orders conn auth tz account_id st carrier = Inr xs" "x \<in> set xs"
  shows "get_order conn (ord_id x) auth tz = Inr x"
proof -
  from list_all2_mem2 [OF search_orders_rows [OF assms(2)] assms(3)]
  obtain row where row: "row \<in> set (db_orders conn)" "allows_account auth (or_account_id row)"
    "row_to_order row tz = Inr x" by auto
  moreover have "List.find (\<lambda>r. or_order_id r = or_order_id row) (db_orders conn) = Some row"
    using assms(1) row(1) by (intro find_distinct_key) (auto simp: wf_db_def)
  ultimately show ?thesis
    using row_to_order_fields [of row tz x] by (auto simp: get_order_Inr)
qed

end
