(* ===== verification/Sample.thy ===== *)
theory Sample
  imports Repository
begin

text \<open>
  A small database in the shape of the source pack, at which the conditional theorems of the
  development are applied: three accounts, two of them under an agreement, with the orders,
  tickets and policy tables the witnesses need. Day 0 is the day of the snapshot, 11:00 at
  UTC+05:30.
\<close>

definition hm :: "int \<Rightarrow> int \<Rightarrow> int" where
  "hm h m = timedelta_minutes (60 * h + m)"

definition ist :: tz where
  "ist = hm 5 30"

definition sample_clock :: clock where
  "sample_clock = \<lparr>snapshot = \<lparr>wall = hm 11 0, utcoffset = ist\<rparr>\<rparr>"

definition sample_account :: "string \<Rightarrow> string \<Rightarrow> account_row" where
  "sample_account i plan = \<lparr>ar_account_id = i, ar_account_name = i, ar_plan = plan, ar_status = ''active'',
     ar_csm = ''csm'', ar_contract_file = None, ar_premium_support = 0, ar_notes = []\<rparr>"

definition sample_order ::
  "string \<Rightarrow> string \<Rightarrow> string \<Rightarrow> int \<Rightarrow> int \<Rightarrow> int option \<Rightarrow> pyfloat \<Rightarrow> int \<Rightarrow> int option \<Rightarrow> order_row" where
  "sample_order i acct st booked window_end actual fee fault requested =
     \<lparr>or_order_id = i, or_account_id = acct, or_carrier = ''SwiftShip'', or_status = st,
      or_booked_at = Naive booked, or_pickup_window_start = Naive booked,
      or_pickup_window_end = Naive window_end, or_pickup_actual_at = map_option Naive actual,
      or_shipment_fee_inr = fee, or_carrier_fault = fault, or_customer_fault = 0,
      or_cancellation_requested_at = map_option Naive requested, or_notes = []\<rparr>"

definition sample_ticket :: "string \<Rightarrow> string \<Rightarrow> int \<Rightarrow> string \<Rightarrow> string \<Rightarrow> ticket_row" where
  "sample_ticket i acct created subject description =
     \<lparr>tr_ticket_id = i, tr_account_id = acct, tr_created_at = Naive created, tr_status = ''open'',
      tr_subject = subject, tr_description = description, tr_channel = ''email'',
      tr_assigned_to = ''agent'', tr_last_customer_message_at = Naive created,
      tr_historical_resolution = None\<rparr>"

definition sample_source :: "string \<Rightarrow> string \<Rightarrow> string \<Rightarrow> string option \<Rightarrow> string \<Rightarrow> source_row" where
  "sample_source i typ kind acct ac =
     \<lparr>sr_source_id = i, sr_filename = i @ ''.pdf'', sr_source_type = typ, sr_status = ''ACTIVE'',
      sr_version = None, sr_effective_date = - 100, sr_expiry_date = Some 100, sr_supersedes = None,
      sr_superseded_by = None, sr_scope_kind = kind, sr_scope_account_id = acct,
      sr_authority_class = ac, sr_checksum = ''00'', sr_bytes = 1, sr_provenance = ''source_pack''\<rparr>"

definition sample_sla :: "string \<Rightarrow> string option \<Rightarrow> string option \<Rightarrow> string \<Rightarrow> int option \<Rightarrow> int \<Rightarrow> sla_row" where
  "sample_sla i plan acct sev minutes business =
     \<lparr>lr_source_id = i, lr_scope_kind = (if acct = None then ''global'' else ''account''), lr_plan = plan,
      lr_account_id = acct, lr_severity = sev, lr_target_text = ''target'', lr_target_minutes = minutes,
      lr_is_24x7 = 1 - business, lr_requires_business_calendar = business\<rparr>"

definition sample_chunk :: chunk_row where
  "sample_chunk = \<lparr>cr_chunk_id = ''SRC-04#1'', cr_source_id = ''SRC-04'', cr_page = 2, cr_section = Some ''3'',
     cr_text = ''KI-208 Webhook delivery delayed. KI-199 Label printing broken. Resolved in 4.2.'',
     cr_normalized_text = ''ki-208 webhook delivery delayed. ki-199 label printing broken. resolved in 4.2.'',
     cr_filename = ''SRC-04.pdf'', cr_status = ''CURRENT'', cr_source_type = ''product_doc'',
     cr_account_scope = None, cr_effective_date = - 100, cr_authority_class = ''PRODUCT_DOC''\<rparr>"

definition sample_db :: db where
  "sample_db =
     \<lparr>db_sources =
        [sample_source ''SRC-01'' ''support_policy'' ''global'' None ''POLICY_CURRENT'',
         sample_source ''SRC-03'' ''sop'' ''global'' None ''POLICY_CURRENT'',
         sample_source ''SRC-05'' ''agreement'' ''account'' (Some ''ACCT-001'') ''AGREEMENT'',
         sample_source ''SRC-06'' ''agreement'' ''account'' (Some ''ACCT-002'') ''AGREEMENT''],
      db_chunks = [sample_chunk],
      db_sla_targets =
        [sample_sla ''SRC-01'' (Some ''Standard'') None ''P1'' (Some 60) 0,
         sample_sla ''SRC-01'' (Some ''Standard'') None ''P2'' None 1,
         sample_sla ''SRC-05'' None (Some ''ACCT-001'') ''P1'' (Some 15) 0,
         sample_sla ''SRC-06'' None (Some ''ACCT-002'') ''P1'' None 1],
      db_accounts =
        [sample_account ''ACCT-001'' ''Enterprise'', sample_account ''ACCT-002'' ''Growth'',
         sample_account ''ACCT-003'' ''Standard''],
      db_orders =
        [sample_order ''ORD-1001'' ''ACCT-001'' ''BOOKED'' (hm 8 0) (hm 12 0) None 1200 0 (Some (hm 10 0)),
         sample_order ''ORD-1002'' ''ACCT-001'' ''PICKED_UP'' (hm 8 0) (hm 10 0) (Some (hm 9 35)) 800 0 (Some (hm 10 20)),
         sample_order ''ORD-2002'' ''ACCT-002'' ''BOOKED'' (hm 1 0) (hm 6 30) None 900 1 None,
         sample_order ''ORD-3001'' ''ACCT-003'' ''BOOKED'' (hm 8 0) (hm 8 30) None 2000 1 (Some (hm 8 30))],
      db_tickets =
        [sample_ticket ''TCK-1'' ''ACCT-001'' (hm 10 0) ''Complete outage'' ''Help'',
         sample_ticket ''TCK-2'' ''ACCT-002'' (hm 10 0) ''Credential leak'' ''Help'',
         sample_ticket ''TCK-3'' ''ACCT-003'' (hm 10 0) ''API key'' ''Webhook delivery is slow'']
      , db_actions = []\<rparr>"

definition admin :: auth_context where
  "admin = \<lparr>role = OPERATIONS_ADMIN, account_scope = None\<rparr>"

definition beacon_agent :: auth_context where
  "beacon_agent = \<lparr>role = SUPPORT_AGENT, account_scope = Some [''ACCT-003'']\<rparr>"

definition sample_action :: "action_status \<Rightarrow> action_record" where
  "sample_action st =
     \<lparr>action_id = ''ACT-1'', request_id = ''r1'', user_id = ''u1'', action_type = PREPARE_ESCALATION,
      target = ''TCK-1'', proposed_change = [(''previous_status'', JStr ''open'')], act_reason = ''outage'',
      act_evidence = [], risk = ''high'', payload_hash = ''h1'', act_status = st,
      prepared_at = now sample_clock, expires_at = dt_add (now sample_clock) (timedelta_minutes 15),
      confirmed_at = None, executed_at = None, idempotency_key = ''ACT-1'', failure_reason = None\<rparr>"

definition sample_db_action :: "action_status \<Rightarrow> db" where
  "sample_db_action st = sample_db\<lparr>db_actions := [sample_action st]\<rparr>"

lemmas sample_defs =
  sample_db_def sample_account_def sample_order_def sample_ticket_def sample_source_def sample_sla_def
  sample_chunk_def sample_clock_def hm_def ist_def admin_def beacon_agent_def timedelta_minutes_def us_per_minute_def

lemma wf_sample_db: "wf_db sample_db"
  unfolding wf_db_def by (simp add: sample_db_def sample_account_def sample_order_def sample_ticket_def)

end
