(* ===== verification/Applicability.thy ===== *)
theory Applicability
  imports Repository Sample
begin

text \<open>
  \<open>app/policy/applicability.py\<close>: which source's clause governs a topic for an account. The
  registries are arguments of the model, as they are of the code, with the real ones as
  definitions. \<open>clause_registry\<close> is the contract between this module and the domain modules
  that look up a rule by the winning source: under it the lookup never raises \<open>KeyError\<close>.
\<close>

section \<open>Topics and registries\<close>

datatype clause_topic =
    CANCELLATION_FEE | SERVICE_CREDIT_THRESHOLD_AND_AMOUNT
  | SERVICE_CREDIT_AGGREGATE_CAP | SLA_FIRST_RESPONSE

fun topic_value :: "clause_topic \<Rightarrow> string" where
  "topic_value CANCELLATION_FEE = ''cancellation_fee''"
| "topic_value SERVICE_CREDIT_THRESHOLD_AND_AMOUNT = ''service_credit_threshold_and_amount''"
| "topic_value SERVICE_CREDIT_AGGREGATE_CAP = ''service_credit_aggregate_cap''"
| "topic_value SLA_FIRST_RESPONSE = ''sla_first_response''"

record agreement_override =
  ao_account_id :: string
  ao_source_id :: string
  ao_section :: string
  ao_topic :: clause_topic
  ao_note :: string

type_synonym clause = "string \<times> string"
type_synonym default_registry = "(clause_topic \<times> clause option) list"

definition AGREEMENT_OVERRIDES :: "agreement_override list" where
  "AGREEMENT_OVERRIDES =
     [\<lparr>ao_account_id = ''ACCT-001'', ao_source_id = ''SRC-05'', ao_section = ''2'', ao_topic = CANCELLATION_FEE,
       ao_note = ''Northstar may cancel any BOOKED shipment before pickup with no fee, regardless of how long ago it was booked (SRC-05 s2).''\<rparr>,
      \<lparr>ao_account_id = ''ACCT-001'', ao_source_id = ''SRC-05'', ao_section = ''3'', ao_topic = SERVICE_CREDIT_AGGREGATE_CAP,
       ao_note = ''Northstar's monthly aggregate service credits are capped at INR 5,000; the per-credit threshold and amount are unchanged (SRC-05 s3).''\<rparr>,
      \<lparr>ao_account_id = ''ACCT-001'', ao_source_id = ''SRC-05'', ao_section = ''1'', ao_topic = SLA_FIRST_RESPONSE,
       ao_note = ''Northstar's agreement replaces the standard first-response targets (SRC-05 s1).''\<rparr>,
      \<lparr>ao_account_id = ''ACCT-002'', ao_source_id = ''SRC-06'', ao_section = ''3'', ao_topic = SERVICE_CREDIT_THRESHOLD_AND_AMOUNT,
       ao_note = ''LumenWorks' agreement replaces both the default failed-pickup delay threshold and credit amount (SRC-06 s3).''\<rparr>,
      \<lparr>ao_account_id = ''ACCT-002'', ao_source_id = ''SRC-06'', ao_section = ''1'', ao_topic = SLA_FIRST_RESPONSE,
       ao_note = ''LumenWorks' agreement replaces the standard first-response targets; no weekend or after-hours coverage (SRC-06 s1).''\<rparr>]"

definition DEFAULT_SOURCE :: default_registry where
  "DEFAULT_SOURCE =
     [(CANCELLATION_FEE, Some (''SRC-03'', ''1'')),
      (SERVICE_CREDIT_THRESHOLD_AND_AMOUNT, Some (''SRC-03'', ''2'')),
      (SERVICE_CREDIT_AGGREGATE_CAP, None),
      (SLA_FIRST_RESPONSE, Some (''SRC-01'', ''3''))]"

section \<open>Resolution\<close>

record applicability_result =
  ap_topic :: clause_topic
  ap_account_id :: string
  winning_source_id :: string
  winning_section :: string
  overridden_source_id :: "string option"
  overridden_section :: "string option"
  ap_reason :: fstr
  ap_needs_human_review :: bool

text \<open>\<open>defaults[topic]\<close>, with the \<open>repr\<close> of the enumeration member in the \<open>KeyError\<close>.\<close>

definition default_clause :: "default_registry \<Rightarrow> clause_topic \<Rightarrow> error + clause option" where
  "default_clause defaults topic = of_optionE (KeyError (topic_value topic)) (dict_get defaults topic)"

definition resolve_applicability ::
  "db \<Rightarrow> clause_topic \<Rightarrow> string \<Rightarrow> date \<Rightarrow> agreement_override list \<Rightarrow> default_registry
    \<Rightarrow> error + applicability_result" where
  "resolve_applicability conn topic account_id day overrides defaults =
     bindE (default_clause defaults topic) (\<lambda>dflt.
     case List.find (\<lambda>ov. ao_account_id ov = account_id \<and> ao_topic ov = topic) overrides of
       None \<Rightarrow>
         (case dflt of
            None \<Rightarrow> Inl (ValueError (topic_value topic @ '' has no default and no agreement covers '' @ account_id))
          | Some (source_id, sect) \<Rightarrow>
              Inr \<lparr>ap_topic = topic, ap_account_id = account_id, winning_source_id = source_id,
                   winning_section = sect, overridden_source_id = None, overridden_section = None,
                   ap_reason = [T (''No agreement for '' @ account_id @ '' addresses '' @ topic_value topic
                                   @ ''; default policy applies.'')],
                   ap_needs_human_review = False\<rparr>)
     | Some ov \<Rightarrow>
         bindE (get_source conn (ao_source_id ov)) (\<lambda>agreement.
         if \<not> is_active_at agreement day then
           (case dflt of
              None \<Rightarrow> Inl (ValueError (ao_source_id ov @ '' is inactive and '' @ topic_value topic
                           @ '' has no default to fall back to''))
            | Some (source_id, sect) \<Rightarrow>
                Inr \<lparr>ap_topic = topic, ap_account_id = account_id, winning_source_id = source_id,
                     winning_section = sect, overridden_source_id = None, overridden_section = None,
                     ap_reason = [T (ao_source_id ov @ '' is not active at ''), DateT day, T '' ('',
                       DateT (src_effective_date agreement), T ''..'', DateOptT (src_expiry_date agreement),
                       T ''); falling back to default policy. This account has an agreement whose term does not currently cover the request - verify before relying on it.''],
                     ap_needs_human_review = True\<rparr>)
         else
           Inr \<lparr>ap_topic = topic, ap_account_id = account_id,
                winning_source_id = ao_source_id ov, winning_section = ao_section ov,
                overridden_source_id = map_option fst dflt, overridden_section = map_option snd dflt,
                ap_reason = [T (ao_note ov)], ap_needs_human_review = False\<rparr>))"

text \<open>The \<open>Conflict\<close> the three domain modules append when a default was overridden.\<close>

definition override_conflicts :: "applicability_result \<Rightarrow> string \<Rightarrow> conflict list" where
  "override_conflicts ap scope =
     (case overridden_source_id ap of
        None \<Rightarrow> []
      | Some loser \<Rightarrow>
          if loser = [] then []
          else [\<lparr>winner_source_id = winning_source_id ap, loser_source_id = loser, conflict_scope = scope,
                 conflict_reason = ap_reason ap, conflict_needs_human_review = ap_needs_human_review ap\<rparr>])"

section \<open>Who wins\<close>

text \<open>\<open>binding conn topic account_id day overrides\<close>: the first override of the account on the
  topic, when its agreement is in force that day.\<close>

definition binding_override ::
  "db \<Rightarrow> clause_topic \<Rightarrow> string \<Rightarrow> date \<Rightarrow> agreement_override list \<Rightarrow> agreement_override option" where
  "binding_override conn topic account_id day overrides =
     (case List.find (\<lambda>ov. ao_account_id ov = account_id \<and> ao_topic ov = topic) overrides of
        None \<Rightarrow> None
      | Some ov \<Rightarrow> (case get_source conn (ao_source_id ov) of
            Inl _ \<Rightarrow> None | Inr d \<Rightarrow> if is_active_at d day then Some ov else None))"

lemma binding_override_mem:
  "binding_override conn topic account_id day overrides = Some ov \<Longrightarrow>
     ov \<in> set overrides \<and> ao_account_id ov = account_id \<and> ao_topic ov = topic"
  by (auto simp: binding_override_def split: option.splits sum.splits if_splits dest: find_Some_mem)

lemma resolve_winner:
  assumes "resolve_applicability conn topic account_id day overrides defaults = Inr r"
  shows "case binding_override conn topic account_id day overrides of
      Some ov \<Rightarrow> winning_source_id r = ao_source_id ov \<and> winning_section r = ao_section ov
        \<and> \<not> ap_needs_human_review r \<and> ap_reason r = [T (ao_note ov)]
        \<and> (\<exists>dflt. dict_get defaults topic = Some dflt \<and> overridden_source_id r = map_option fst dflt)
    | None \<Rightarrow> dict_get defaults topic = Some (Some (winning_source_id r, winning_section r))
        \<and> overridden_source_id r = None
        \<and> (ap_needs_human_review r \<longleftrightarrow>
             (\<exists>ov \<in> set overrides. ao_account_id ov = account_id \<and> ao_topic ov = topic))"
proof (cases "List.find (\<lambda>ov. ao_account_id ov = account_id \<and> ao_topic ov = topic) overrides")
  case None
  then have none: "\<not> (\<exists>ov \<in> set overrides. ao_account_id ov = account_id \<and> ao_topic ov = topic)"
    by (auto simp: find_None_iff)
  from assms None obtain c where "dict_get defaults topic = Some (Some c)"
    by (auto simp: resolve_applicability_def default_clause_def bindE_eq_Inr split: option.splits)
  with assms None none show ?thesis
    by (cases c) (auto simp: resolve_applicability_def default_clause_def binding_override_def)
next
  case (Some ov)
  from find_Some_mem [OF this] have ov: "ov \<in> set overrides" "ao_account_id ov = account_id" "ao_topic ov = topic"
    by auto
  from assms Some obtain dflt d where d: "dict_get defaults topic = Some dflt" "get_source conn (ao_source_id ov) = Inr d"
    by (auto simp: resolve_applicability_def default_clause_def bindE_eq_Inr)
  with assms Some ov show ?thesis
    by (cases "is_active_at d day")
      (auto simp: resolve_applicability_def default_clause_def binding_override_def split: option.splits)
qed

lemma resolve_error:
  assumes "resolve_applicability conn topic account_id day overrides defaults = Inl e"
    and "dict_get defaults topic = Some (Some c)"
  shows "\<exists>ov \<in> set overrides. ao_account_id ov = account_id \<and> ao_topic ov = topic
    \<and> get_source conn (ao_source_id ov) = Inl e"
proof (cases "List.find (\<lambda>ov. ao_account_id ov = account_id \<and> ao_topic ov = topic) overrides")
  case (Some ov)
  from find_Some_mem [OF this] assms Some show ?thesis
    by (auto simp: resolve_applicability_def default_clause_def bindE_eq_Inl split: if_splits prod.splits
        intro!: bexI [of _ ov])
next
  case None
  with assms show ?thesis
    by (cases c) (simp add: resolve_applicability_def default_clause_def)
qed

lemma resolve_view:
  assumes "same_view auth c d"
  shows "resolve_applicability c topic account_id day overrides defaults
    = resolve_applicability d topic account_id day overrides defaults"
  unfolding resolve_applicability_def same_view_source [OF assms] ..

text \<open>Every agreement of the registry can be read from the \<open>sources\<close> table.\<close>

definition agreements_readable :: "db \<Rightarrow> bool" where
  "agreements_readable conn = (\<forall>ov \<in> set AGREEMENT_OVERRIDES. inrP (\<lambda>_. True) (get_source conn (ao_source_id ov)))"

lemma sample_agreements_readable: "agreements_readable sample_db"
  by code_simp

section \<open>The contract with the rule registries\<close>

locale clause_registry =
  fixes topic :: clause_topic
    and overrides :: "agreement_override list"
    and defaults :: default_registry
    and rules :: "(string \<times> 'r) list"
  assumes default_covered: "\<exists>sid sect. dict_get defaults topic = Some (Some (sid, sect)) \<and> sid \<in> set (dict_keys rules)"
    and override_covered: "ov \<in> set overrides \<Longrightarrow> ao_topic ov = topic \<Longrightarrow> ao_source_id ov \<in> set (dict_keys rules)"
begin

lemma default_exists:
  obtains sid sect rl where "dict_get defaults topic = Some (Some (sid, sect))" "dict_get rules sid = Some rl"
  using default_covered by (metis dict_get_None not_Some_eq)

lemma winner_has_rule:
  assumes "resolve_applicability conn topic account_id day overrides defaults = Inr r"
  obtains rl where "dict_get rules (winning_source_id r) = Some rl"
proof (cases "binding_override conn topic account_id day overrides")
  case None
  with resolve_winner [OF assms] default_exists that show ?thesis by auto
next
  case (Some ov)
  with binding_override_mem [OF Some] override_covered have "ao_source_id ov \<in> set (dict_keys rules)" by simp
  moreover have "winning_source_id r = ao_source_id ov" using resolve_winner [OF assms] Some by simp
  ultimately have "dict_get rules (winning_source_id r) \<noteq> None" by (simp only: dict_get_None not_not)
  with that show ?thesis by blast
qed

lemma resolve_fails_only_on_source:
  assumes "resolve_applicability conn topic account_id day overrides defaults = Inl e"
  shows "\<exists>ov \<in> set overrides. ao_account_id ov = account_id \<and> ao_topic ov = topic
    \<and> get_source conn (ao_source_id ov) = Inl e"
  using default_exists resolve_error [OF assms] by metis

end

section \<open>What resolution guarantees\<close>

text \<open>Exactly one clause governs. It is an agreement's only when the agreement is registered
  for that very account and topic and is in force that day, and then the displaced default is
  recorded; otherwise it is the default, flagged for review exactly when the account has an
  agreement on the topic whose term does not cover the day.\<close>

theorem applicability_winner:
  assumes "resolve_applicability conn topic account_id day overrides defaults = Inr r"
  shows "(\<exists>ov \<in> set overrides. \<exists>d dflt. ao_account_id ov = account_id \<and> ao_topic ov = topic
        \<and> get_source conn (ao_source_id ov) = Inr d \<and> is_active_at d day
        \<and> winning_source_id r = ao_source_id ov \<and> winning_section r = ao_section ov
        \<and> dict_get defaults topic = Some dflt \<and> overridden_source_id r = map_option fst dflt
        \<and> \<not> ap_needs_human_review r) \<or>
    (dict_get defaults topic = Some (Some (winning_source_id r, winning_section r))
        \<and> overridden_source_id r = None
        \<and> (ap_needs_human_review r \<longleftrightarrow>
             (\<exists>ov \<in> set overrides. ao_account_id ov = account_id \<and> ao_topic ov = topic)))"
proof (cases "binding_override conn topic account_id day overrides")
  case None
  with resolve_winner [OF assms] show ?thesis by simp
next
  case (Some ov)
  then obtain d where "get_source conn (ao_source_id ov) = Inr d" "is_active_at d day"
    by (auto simp: binding_override_def split: option.splits sum.splits if_splits)
  with resolve_winner [OF assms] Some binding_override_mem [OF Some] show ?thesis
    by (intro disjI1 bexI [of _ ov]) auto
qed

theorem applicability_winner_witness:
  "\<exists>r. resolve_applicability sample_db SLA_FIRST_RESPONSE ''ACCT-002'' 0 AGREEMENT_OVERRIDES DEFAULT_SOURCE = Inr r
     \<and> (winning_source_id r = ''SRC-06'' \<or> overridden_source_id r = None)"
proof -
  have "inrP (\<lambda>_. True) (resolve_applicability sample_db SLA_FIRST_RESPONSE ''ACCT-002'' 0 AGREEMENT_OVERRIDES DEFAULT_SOURCE)"
    by code_simp
  then obtain r where r: "resolve_applicability sample_db SLA_FIRST_RESPONSE ''ACCT-002'' 0 AGREEMENT_OVERRIDES DEFAULT_SOURCE = Inr r"
    by (rule inrP_E)
  from applicability_winner [OF r] r show ?thesis by (auto simp: AGREEMENT_OVERRIDES_def)
qed

end
