(* ===== verification/Py_Regex.thy ===== *)
theory Py_Regex
  imports Prelude
begin

text \<open>
  The part of Python's \<open>re\<close> that the program uses, as a backtracking matcher. A position
  is a pair of the consumed text, reversed, and the text still to read; \<open>matches\<close> lists
  every position a pattern can reach, in the order Python tries them, so the first one is
  Python's match. \<open>search\<close> is \<open>pattern.search\<close>, \<open>finditer\<close> gives the successive
  non-overlapping matches with their start, \<open>findall\<close> their texts.

  Patterns compiled with \<open>re.IGNORECASE\<close> are written in lower case and run on \<open>lower\<close> of
  the text (\<open>search_ci\<close>). Characters are ASCII: \<open>\w\<close> is a letter, a digit or \<open>_\<close>.
\<close>

definition in_range :: "nat \<Rightarrow> nat \<Rightarrow> char \<Rightarrow> bool" where
  "in_range lo hi c = (lo \<le> of_char c \<and> of_char c \<le> hi)"

definition is_lower :: "char \<Rightarrow> bool" where
  "is_lower c = in_range 97 122 c"

definition is_upper :: "char \<Rightarrow> bool" where
  "is_upper c = in_range 65 90 c"

definition is_digit :: "char \<Rightarrow> bool" where
  "is_digit c = in_range 48 57 c"

definition is_alnum :: "char \<Rightarrow> bool" where
  "is_alnum c = (is_lower c \<or> is_upper c \<or> is_digit c)"

definition is_word :: "char \<Rightarrow> bool" where
  "is_word c = (is_alnum c \<or> c = CHR ''_'')"

definition is_space :: "char \<Rightarrow> bool" where
  "is_space c = (of_char c = (32::nat) \<or> in_range 9 13 c \<or> in_range 28 31 c)"

section \<open>Patterns\<close>

datatype re =
    Eps
  | Chr char
  | Cls "char \<Rightarrow> bool"
  | Seq re re
  | Alt re re
  | Rep nat nat re    \<comment> \<open>\<open>r{lo,hi}\<close>\<close>
  | Many nat re       \<comment> \<open>\<open>r{lo,}\<close>: \<open>*\<close> and \<open>+\<close>\<close>
  | WordB             \<comment> \<open>\<open>\b\<close>\<close>
  | NotBehind string  \<comment> \<open>\<open>(?<!w)\<close>\<close>
  | AtEnd             \<comment> \<open>\<open>$\<close>\<close>

abbreviation Opt :: "re \<Rightarrow> re" where
  "Opt r \<equiv> Rep 0 1 r"

fun lit :: "string \<Rightarrow> re" where
  "lit [] = Eps"
| "lit [c] = Chr c"
| "lit (c # d # cs) = Seq (Chr c) (lit (d # cs))"

fun seqs :: "re list \<Rightarrow> re" where
  "seqs [] = Eps"
| "seqs [r] = r"
| "seqs (r # q # rs) = Seq r (seqs (q # rs))"

fun alts :: "re list \<Rightarrow> re" where
  "alts [] = Cls (\<lambda>_. False)"
| "alts [r] = r"
| "alts (r # q # rs) = Alt r (alts (q # rs))"

section \<open>Matching\<close>

type_synonym pos = "string \<times> string"

fun iter :: "(pos \<Rightarrow> pos list) \<Rightarrow> nat \<Rightarrow> nat \<Rightarrow> pos \<Rightarrow> pos list" where
  "iter f 0 lo p = (if lo = 0 then [p] else [])"
| "iter f (Suc n) lo p = concat (map (iter f n (lo - 1)) (f p)) @ (if lo = 0 then [p] else [])"

definition word_at :: "string \<Rightarrow> bool" where
  "word_at s = (case s of [] \<Rightarrow> False | c # _ \<Rightarrow> is_word c)"

primrec matches :: "re \<Rightarrow> pos \<Rightarrow> pos list" where
  "matches Eps = (\<lambda>p. [p])"
| "matches (Chr a) = (\<lambda>p. case snd p of [] \<Rightarrow> [] | c # cs \<Rightarrow> if c = a then [(c # fst p, cs)] else [])"
| "matches (Cls P) = (\<lambda>p. case snd p of [] \<Rightarrow> [] | c # cs \<Rightarrow> if P c then [(c # fst p, cs)] else [])"
| "matches (Seq r q) = (\<lambda>p. concat (map (matches q) (matches r p)))"
| "matches (Alt r q) = (\<lambda>p. matches r p @ matches q p)"
| "matches (Rep lo hi r) = (\<lambda>p. iter (matches r) hi lo p)"
| "matches (Many lo r) = (\<lambda>p. iter (matches r) (length (snd p)) lo p)"
| "matches WordB = (\<lambda>p. if word_at (fst p) \<noteq> word_at (snd p) then [p] else [])"
| "matches (NotBehind w) = (\<lambda>p. if starts_with (rev w) (fst p) then [] else [p])"
| "matches AtEnd = (\<lambda>p. if snd p = [] \<or> snd p = [CHR 0x0A] then [p] else [])"

fun search_from :: "re \<Rightarrow> string \<Rightarrow> string \<Rightarrow> bool" where
  "search_from r pre [] = (matches r (pre, []) \<noteq> [])"
| "search_from r pre (c # cs) = (matches r (pre, c # cs) \<noteq> [] \<or> search_from r (c # pre) cs)"

definition search :: "re \<Rightarrow> string \<Rightarrow> bool" where
  "search r s = search_from r [] s"

definition search_ci :: "re \<Rightarrow> string \<Rightarrow> bool" where
  "search_ci r s = search r (lower s)"

text \<open>
  Successive matches: at a position with no (non-empty) match the scan moves one character
  on, otherwise to the end of the match. No pattern scanned this way matches the empty text.
\<close>

function finditer_from :: "re \<Rightarrow> string \<Rightarrow> string \<Rightarrow> (nat \<times> string) list" where
  "finditer_from r pre [] = []"
| "finditer_from r pre (c # cs) =
     (case matches r (pre, c # cs) of
        [] \<Rightarrow> finditer_from r (c # pre) cs
      | (pre', rest) # _ \<Rightarrow>
          if length rest \<le> length cs
          then (length pre, take (Suc (length cs) - length rest) (c # cs)) # finditer_from r pre' rest
          else finditer_from r (c # pre) cs)"
  by pat_completeness auto
termination
  by (relation "measure (\<lambda>(r, pre, s). length s)") auto

definition finditer :: "re \<Rightarrow> string \<Rightarrow> (nat \<times> string) list" where
  "finditer r s = finditer_from r [] s"

definition findall :: "re \<Rightarrow> string \<Rightarrow> string list" where
  "findall r s = map snd (finditer r s)"

section \<open>A match stays inside the text\<close>

lemma iter_keeps:
  assumes "\<And>p q. q \<in> set (f p) \<Longrightarrow> rev (fst q) @ snd q = rev (fst p) @ snd p"
  shows "q \<in> set (iter f n lo p) \<Longrightarrow> rev (fst q) @ snd q = rev (fst p) @ snd p"
proof (induction n arbitrary: lo p)
  case (Suc n)
  from Suc.prems consider "q = p" | p' where "p' \<in> set (f p)" "q \<in> set (iter f n (lo - 1) p')"
    by (auto split: if_splits)
  then show ?case
  proof cases
    case 2
    then show ?thesis using Suc.IH assms by metis
  qed simp
qed (auto split: if_splits)

lemma matches_keeps:
  "q \<in> set (matches r p) \<Longrightarrow> rev (fst q) @ snd q = rev (fst p) @ snd p"
proof (induction r arbitrary: p q)
  case (Seq r1 r2)
  from Seq.prems obtain u where "u \<in> set (matches r1 p)" "q \<in> set (matches r2 u)" by auto
  then show ?case using Seq.IH by metis
next
  case (Alt r1 r2)
  from Alt.prems have "q \<in> set (matches r1 p) \<or> q \<in> set (matches r2 p)" by simp
  then show ?case using Alt.IH by blast
next
  case (Rep lo hi r)
  have "q \<in> set (iter (matches r) hi lo p)" using Rep.prems by simp
  then show ?case by (rule iter_keeps [rotated]) (rule Rep.IH)
next
  case (Many lo r)
  have "q \<in> set (iter (matches r) (length (snd p)) lo p)" using Many.prems by simp
  then show ?case by (rule iter_keeps [rotated]) (rule Many.IH)
next
  case (Chr a)
  then show ?case by (cases "snd p") (auto split: if_splits)
next
  case (Cls P)
  then show ?case by (cases "snd p") (auto split: if_splits)
qed (auto split: if_splits)

lemma search_from_iff:
  "search_from r pre s \<longleftrightarrow> (\<exists>a b. s = a @ b \<and> matches r (rev a @ pre, b) \<noteq> [])"
proof (induction r pre s rule: search_from.induct)
  case (2 r pre c cs)
  have "(\<exists>a b. c # cs = a @ b \<and> matches r (rev a @ pre, b) \<noteq> []) \<longleftrightarrow>
    matches r (pre, c # cs) \<noteq> [] \<or> (\<exists>a b. cs = a @ b \<and> matches r (rev a @ c # pre, b) \<noteq> [])"
    (is "?L \<longleftrightarrow> ?R")
  proof
    assume ?L
    then obtain a b where ab: "c # cs = a @ b" "matches r (rev a @ pre, b) \<noteq> []" by blast
    then show ?R by (cases a) auto
  next
    assume ?R
    then show ?L
    proof
      assume "matches r (pre, c # cs) \<noteq> []"
      then show ?L by (intro exI [of _ "[]"] exI [of _ "c # cs"]) simp
    next
      assume "\<exists>a b. cs = a @ b \<and> matches r (rev a @ c # pre, b) \<noteq> []"
      then obtain a b where "cs = a @ b" "matches r (rev a @ c # pre, b) \<noteq> []" by blast
      then show ?L by (intro exI [of _ "c # a"] exI [of _ b]) simp
    qed
  qed
  with 2 show ?case by simp
qed simp

lemma search_iff: "search r s \<longleftrightarrow> (\<exists>a b. s = a @ b \<and> matches r (rev a, b) \<noteq> [])"
  by (simp add: search_def search_from_iff)

lemma finditer_from_infix:
  "(i, w) \<in> set (finditer_from r pre s) \<Longrightarrow> \<exists>a b. s = a @ w @ b \<and> w \<noteq> [] \<and> i = length pre + length a"
proof (induction r pre s arbitrary: i w rule: finditer_from.induct)
  case (2 r pre c cs)
  show ?case
  proof (cases "matches r (pre, c # cs)")
    case Nil
    with "2.prems" have "(i, w) \<in> set (finditer_from r (c # pre) cs)" by simp
    from "2.IH"(1) [OF Nil this] obtain a b where
      "cs = a @ w @ b" "w \<noteq> []" "i = length (c # pre) + length a" by blast
    then show ?thesis by (intro exI [of _ "c # a"] exI [of _ b]) simp
  next
    case (Cons q qs)
    obtain pre' rest where q: "q = (pre', rest)" by force
    have keep: "rev pre' @ rest = rev pre @ c # cs"
      using matches_keeps [of q r "(pre, c # cs)"] Cons q by simp
    show ?thesis
    proof (cases "length rest \<le> length cs")
      case True
      let ?k = "Suc (length cs) - length rest"
      have len: "length pre' = length pre + ?k"
        using arg_cong [OF keep, of length] True by simp
      have rest: "rest = drop ?k (c # cs)"
        using arg_cong [OF keep, of "drop (length pre')"] len by (simp del: drop_Suc_Cons)
      have "(i, w) = (length pre, take ?k (c # cs)) \<or> (i, w) \<in> set (finditer_from r pre' rest)"
        using "2.prems" Cons q True by auto
      then show ?thesis
      proof
        assume "(i, w) = (length pre, take ?k (c # cs))"
        then show ?thesis using True
          by (intro exI [of _ "[]"] exI [of _ "drop ?k (c # cs)"]) auto
      next
        assume "(i, w) \<in> set (finditer_from r pre' rest)"
        from "2.IH"(2) [OF Cons [unfolded q] refl True this] obtain a b where
          ab: "rest = a @ w @ b" "w \<noteq> []" "i = length pre' + length a" by blast
        define u where "u = take ?k (c # cs)"
        have "c # cs = u @ rest"
          unfolding u_def using append_take_drop_id [of ?k "c # cs"] rest by metis
        moreover have "length u = ?k" using True by (simp add: u_def)
        ultimately have "c # cs = (u @ a) @ w @ b \<and> i = length pre + length (u @ a)"
          using ab len by simp
        with ab(2) show ?thesis by blast
      qed
    next
      case False
      with "2.prems" Cons q have "(i, w) \<in> set (finditer_from r (c # pre) cs)" by simp
      from "2.IH"(3) [OF Cons [unfolded q] refl False this] obtain a b where
        "cs = a @ w @ b" "w \<noteq> []" "i = length (c # pre) + length a" by blast
      then show ?thesis by (intro exI [of _ "c # a"] exI [of _ b]) simp
    qed
  qed
qed simp

text \<open>Every text \<open>findall\<close> returns is a non-empty substring of the scanned text.\<close>

lemma findall_infix: "w \<in> set (findall r s) \<Longrightarrow> \<exists>a b. s = a @ w @ b \<and> w \<noteq> []"
  unfolding findall_def finditer_def using finditer_from_infix [of _ w r "[]" s] by fastforce

lemma finditer_take: "(i, w) \<in> set (finditer r s) \<Longrightarrow> take (length w) (drop i s) = w"
  unfolding finditer_def by (frule finditer_from_infix) auto

section \<open>Patterns that only look forward\<close>

text \<open>Without \<open>\b\<close> and look-behind the text already read does not influence a match.\<close>

primrec forward :: "re \<Rightarrow> bool" where
  "forward Eps = True"
| "forward (Chr a) = True"
| "forward (Cls P) = True"
| "forward (Seq r q) = (forward r \<and> forward q)"
| "forward (Alt r q) = (forward r \<and> forward q)"
| "forward (Rep lo hi r) = forward r"
| "forward (Many lo r) = forward r"
| "forward WordB = False"
| "forward (NotBehind w) = False"
| "forward AtEnd = True"

definition shift :: "string \<Rightarrow> pos \<Rightarrow> pos" where
  "shift pre p = (fst p @ pre, snd p)"

lemma iter_shift:
  assumes "\<And>p. f (shift pre p) = map (shift pre) (f p)"
  shows "iter f n lo (shift pre p) = map (shift pre) (iter f n lo p)"
  by (induction n arbitrary: lo p) (simp_all add: assms map_concat o_def)

lemma matches_shift: "forward r \<Longrightarrow> matches r (shift pre p) = map (shift pre) (matches r p)"
proof (induction r arbitrary: p)
  case (Seq r q)
  then show ?case by (simp add: map_concat o_def)
next
  case (Rep lo hi r)
  then show ?case by (simp add: iter_shift)
next
  case (Many lo r)
  then have "iter (matches r) n lo (shift pre p) = map (shift pre) (iter (matches r) n lo p)" for n
    by (simp add: iter_shift)
  then show ?case by (simp add: shift_def)
qed (auto simp: shift_def split: list.splits)

lemma finditer_forward:
  assumes "forward r"
  shows "map snd (finditer_from r (u @ pre) s) = map snd (finditer_from r u s)"
  using assms
proof (induction r u s rule: finditer_from.induct)
  case (2 r u c cs)
  have m: "matches r (u @ pre, c # cs) = map (shift pre) (matches r (u, c # cs))"
    using matches_shift [OF "2.prems", of pre "(u, c # cs)"] by (simp add: shift_def)
  show ?case
  proof (cases "matches r (u, c # cs)")
    case Nil
    then show ?thesis using "2.IH"(1) [OF Nil "2.prems"] m by simp
  next
    case (Cons q qs)
    obtain u' rest where q: "q = (u', rest)" by force
    show ?thesis
      using "2.IH"(2) [OF Cons [unfolded q] refl _ "2.prems"] "2.IH"(3) [OF Cons [unfolded q] refl _ "2.prems"] m Cons q
      by (auto simp: shift_def)
  qed
qed simp

end
