(* ===== verification/Severity.thy ===== *)
theory Severity
  imports Repository Py_Regex
begin

text \<open>
  \<open>app/domain/severity.py\<close>: the signal-based severity classifier. Each signal is a
  case-insensitive pattern with the policy phrase it is anchored to; the severity with
  strictly the most matching signals wins, and a tie for the first place, or no match at
  all, is UNCERTAIN.
\<close>

section \<open>The signal tables\<close>

definition P1_OUTAGE :: string where
  "P1_OUTAGE = ''complete production outage preventing all shipment creation for a customer''"
definition P1_NO_WORKAROUND :: string where
  "P1_NO_WORKAROUND = ''immediate material business risk with no workaround''"
definition P1_SECURITY :: string where
  "P1_SECURITY = ''confirmed security incident or suspected credential exposure''"
definition P2_DEGRADED :: string where
  "P2_DEGRADED = ''major feature unavailable or materially degraded for a customer''"
definition P2_WORKAROUND :: string where
  "P2_WORKAROUND = ''major feature unavailable or materially degraded ... or a workaround exists''"
definition P3_HOWTO :: string where
  "P3_HOWTO = ''how-to question''"
definition P3_CONFIG :: string where
  "P3_CONFIG = ''configuration request''"
definition P3_MINOR :: string where
  "P3_MINOR = ''minor defect ... limited operational impact''"

abbreviation not_dot :: re where
  "not_dot \<equiv> Cls (\<lambda>c. c \<noteq> CHR ''.'')"

abbreviation word_re :: "string \<Rightarrow> re" where
  "word_re w \<equiv> seqs [WordB, lit w, WordB]"

definition p1_signals :: "(re \<times> string) list" where
  "p1_signals =
     [(word_re ''every user'', P1_OUTAGE),
      (seqs [WordB, lit ''all'', WordB, Rep 0 40 not_dot, WordB, lit ''shipment creation'', WordB,
             Rep 0 20 not_dot, WordB, lit ''fail''], P1_OUTAGE),
      (seqs [WordB, lit ''cannot create any shipment''], P1_OUTAGE),
      (word_re ''complete outage'', P1_OUTAGE),
      (word_re ''no workaround'', P1_NO_WORKAROUND),
      (word_re ''api key'', P1_SECURITY),
      (word_re ''credential'', P1_SECURITY),
      (word_re ''security incident'', P1_SECURITY),
      (seqs [WordB, alts [lit ''leaked'', lit ''exposed'', lit ''posted''], WordB, Rep 0 40 not_dot,
             WordB, alts [lit ''key'', lit ''token'', lit ''secret'', lit ''password''], WordB],
       P1_SECURITY)]"

definition p2_signals :: "(re \<times> string) list" where
  "p2_signals =
     [(seqs [NotBehind ''no '', lit ''workaround'', WordB], P2_WORKAROUND),
      (word_re ''still works'', ''core operations remain possible or a workaround exists''),
      (seqs [WordB, alts [lit ''some'', lit ''many''], Many 1 (Cls is_space),
             alts [seqs [lit ''user'', Opt (Chr CHR ''s'')], seqs [lit ''customer'', Opt (Chr CHR ''s'')]],
             WordB], P2_DEGRADED),
      (seqs [WordB, lit ''intermittent'', Opt (lit ''ly''), WordB], P2_DEGRADED),
      (seqs [WordB, lit ''fail'', Opt (Chr CHR ''s''), lit '' for'', WordB, Rep 0 30 not_dot, WordB,
             alts [seqs [lit ''row'', Opt (Chr CHR ''s'')], seqs [lit ''record'', Opt (Chr CHR ''s'')],
                   seqs [lit ''file'', Opt (Chr CHR ''s'')]], WordB], P2_DEGRADED),
      (seqs [WordB, lit ''partial'', Opt (lit ''ly''), WordB], P2_DEGRADED)]"

definition p3_signals :: "(re \<times> string) list" where
  "p3_signals =
     [(seqs [WordB, lit ''how do '', alts [lit ''we'', lit ''i''], WordB], P3_HOWTO),
      (word_re ''how to'', P3_HOWTO),
      (seqs [WordB, lit ''billing'', Cls (\<lambda>c. c = CHR ''-'' \<or> c = CHR '' ''), lit ''contact'', WordB], P3_CONFIG),
      (word_re ''configuration'', P3_CONFIG),
      (word_re ''still shows'', P3_MINOR),
      (seqs [WordB, alts [lit ''cosmetic'', lit ''typo'', lit ''minor''], WordB], P3_MINOR)]"

fun SIGNALS :: "severity \<Rightarrow> (re \<times> string) list" where
  "SIGNALS P1 = p1_signals"
| "SIGNALS P2 = p2_signals"
| "SIGNALS P3 = p3_signals"

section \<open>The classifier\<close>

record severity_outcome =
  so_severity :: "severity option"
  matched_signal_count :: "(string \<times> int) list"
  matched_definition :: "string option"

definition ticket_text :: "ticket \<Rightarrow> string" where
  "ticket_text ticket = tkt_subject ticket @ '' '' @ tkt_description ticket"

definition signal_hits :: "string \<Rightarrow> severity \<Rightarrow> string list" where
  "signal_hits text sev = map snd (filter (\<lambda>(pattern, _). search_ci pattern text) (SIGNALS sev))"

definition ranked_hits :: "(severity \<times> string list) list \<Rightarrow> (severity \<times> string list) list" where
  "ranked_hits hits = sort_key (\<lambda>kv. - int (length (snd kv))) hits"

definition classify_severity :: "ticket \<Rightarrow> db option \<Rightarrow> severity_outcome decision" where
  "classify_severity ticket conn =
     (let text = ticket_text ticket;
          hits = map (\<lambda>sev. (sev, signal_hits text sev)) [P1, P2, P3];
          counts = map (\<lambda>(sev, defs). (severity_value sev, int (length defs))) hits;
          ranked = ranked_hits hits;
          (top_severity, top_hits) = ranked ! 0;
          runner_up_count = (if length ranked > 1 then length (snd (ranked ! 1)) else 0);
          ev = (case conn of None \<Rightarrow> [] | Some c \<Rightarrow> [cite_document c ''SRC-01'' ''2'' None]);
          unknown = \<lparr>so_severity = None, matched_signal_count = counts, matched_definition = None\<rparr>
      in if top_hits = [] then
           \<lparr>result = Some unknown, trust_state = UNCERTAIN,
            reason = [T ''No definition signal from Support Policy v3 s2 matched the ticket description confidently enough to assign a severity.''],
            evidence = ev, assumptions = [], conflicts = [], calculation_inputs = [],
            needs_human_review = True\<rparr>
         else if runner_up_count \<ge> length top_hits then
           \<lparr>result = Some unknown, trust_state = UNCERTAIN,
            reason = [T (''Signals for '' @ severity_value (fst (ranked ! 0)) @ '' and ''
                         @ severity_value (fst (ranked ! 1)) @ '' tied (''), IntT (int (length top_hits)),
                      T '' each); classification is ambiguous without human judgment.''],
            evidence = ev, assumptions = [], conflicts = [], calculation_inputs = [],
            needs_human_review = True\<rparr>
         else
           \<lparr>result = Some \<lparr>so_severity = Some top_severity, matched_signal_count = counts,
                           matched_definition = Some (top_hits ! 0)\<rparr>,
            trust_state = CONFIDENT,
            reason = [T (''Matched \"'' @ top_hits ! 0 @ ''\" (Support Policy v3 s2) -> ''
                         @ severity_value top_severity @ ''.'')],
            evidence = ev, assumptions = [], conflicts = [],
            calculation_inputs = [(''matched_signal_count'', CCounts counts)],
            needs_human_review = False\<rparr>)"

section \<open>The classifier is a strict plurality vote\<close>

definition hit_count :: "ticket \<Rightarrow> severity \<Rightarrow> nat" where
  "hit_count ticket sev = length (signal_hits (ticket_text ticket) sev)"

text \<open>The specification: a severity is assigned iff it beats every other one strictly.\<close>

definition plurality :: "(severity \<Rightarrow> nat) \<Rightarrow> severity option" where
  "plurality n =
     (if n P2 < n P1 \<and> n P3 < n P1 then Some P1
      else if n P1 < n P2 \<and> n P3 < n P2 then Some P2
      else if n P1 < n P3 \<and> n P2 < n P3 then Some P3 else None)"

lemma all_severity: "(\<forall>t. P t) \<longleftrightarrow> P P1 \<and> P P2 \<and> P P3"
  by (metis severity.exhaust)

lemma plurality_Some: "plurality n = Some s \<longleftrightarrow> (\<forall>t. t \<noteq> s \<longrightarrow> n t < n s)"
  unfolding all_severity by (cases s) (auto simp: plurality_def)

definition classified :: "ticket \<Rightarrow> severity option" where
  "classified ticket = plurality (hit_count ticket)"

lemma ranked_three:
  "ranked_hits [(P1, a), (P2, b), (P3, c)] =
    (let x = (P1, a); y = (P2, b); z = (P3, c) in
     if length b \<le> length a then
       if length c \<le> length b then [x, y, z]
       else if length c \<le> length a then [x, z, y] else [z, x, y]
     else if length c \<le> length a then [y, x, z]
       else if length c \<le> length b then [y, z, x] else [z, y, x])"
  by (auto simp: ranked_hits_def Let_def)

lemma ranked_first:
  fixes a b c :: "string list"
  defines "r \<equiv> ranked_hits [(P1, a), (P2, b), (P3, c)]"
  shows "length r = 3"
    and "r ! 0 \<in> {(P1, a), (P2, b), (P3, c)}"
    and "plurality (case_severity (length a) (length b) (length c)) =
      (if length (snd (r ! 0)) \<le> length (snd (r ! 1)) then None else Some (fst (r ! 0)))"
  unfolding r_def ranked_three plurality_def by (auto simp: Let_def)

lemma ranked_top:
  fixes h :: "severity \<Rightarrow> string list"
  defines "r \<equiv> ranked_hits (map (\<lambda>sev. (sev, h sev)) [P1, P2, P3])"
  shows "length r = 3" "snd (r ! 0) = h (fst (r ! 0))"
    and "plurality (\<lambda>sev. length (h sev)) =
      (if snd (r ! 0) = [] \<or> length (snd (r ! 0)) \<le> length (snd (r ! 1)) then None else Some (fst (r ! 0)))"
proof -
  note first = ranked_first [of "h P1" "h P2" "h P3"]
  show "length r = 3" using first(1) by (simp add: r_def)
  show "snd (r ! 0) = h (fst (r ! 0))" using first(2) by (auto simp: r_def)
  have "(\<lambda>sev. length (h sev)) = case_severity (length (h P1)) (length (h P2)) (length (h P3))"
    by (auto simp: fun_eq_iff split: severity.split)
  with first(3) show "plurality (\<lambda>sev. length (h sev)) =
      (if snd (r ! 0) = [] \<or> length (snd (r ! 0)) \<le> length (snd (r ! 1)) then None else Some (fst (r ! 0)))"
    by (auto simp: r_def)
qed

lemma classify_severity_spec:
  "(case classified ticket of
      None \<Rightarrow> (\<exists>out. result (classify_severity ticket conn) = Some out \<and> so_severity out = None)
        \<and> trust_state (classify_severity ticket conn) = UNCERTAIN
        \<and> needs_human_review (classify_severity ticket conn)
    | Some s \<Rightarrow> (\<exists>out. result (classify_severity ticket conn) = Some out \<and> so_severity out = Some s
          \<and> matched_definition out = Some (signal_hits (ticket_text ticket) s ! 0))
        \<and> trust_state (classify_severity ticket conn) = CONFIDENT
        \<and> \<not> needs_human_review (classify_severity ticket conn))"
proof -
  define h where "h = signal_hits (ticket_text ticket)"
  define r where "r = ranked_hits (map (\<lambda>sev. (sev, h sev)) [P1, P2, P3])"
  note top = ranked_top [of h, folded r_def]
  obtain s d where r0: "r ! 0 = (s, d)" by force
  have c: "classified ticket = (if d = [] \<or> length d \<le> length (snd (r ! 1)) then None else Some s)"
    using top(3) r0 by (simp add: classified_def hit_count_def [abs_def] h_def)
  have d: "d = h s" using top(2) r0 by simp
  show ?thesis
    unfolding c
    unfolding classify_severity_def Let_def h_def [symmetric] r_def [symmetric] r0 prod.case top(1)
    by (simp add: d)
qed

lemma classify_severity_result:
  obtains out where "result (classify_severity ticket conn) = Some out" "so_severity out = classified ticket"
  using classify_severity_spec [of ticket conn] by (cases "classified ticket") auto

text \<open>The classifier assigns a severity exactly when its signals strictly outnumber those of
  each other severity; then, and only then, the answer is confident and needs no review.\<close>

theorem severity_strict_plurality:
  "\<exists>out. result (classify_severity ticket conn) = Some out
    \<and> (\<forall>s. so_severity out = Some s \<longleftrightarrow> (\<forall>t. t = s \<or> hit_count ticket t < hit_count ticket s))
    \<and> trust_state (classify_severity ticket conn) = (if so_severity out = None then UNCERTAIN else CONFIDENT)
    \<and> needs_human_review (classify_severity ticket conn) = (so_severity out = None)"
proof -
  have iff: "classified ticket = Some s \<longleftrightarrow> (\<forall>t. t = s \<or> hit_count ticket t < hit_count ticket s)" for s
    unfolding classified_def plurality_Some by blast
  show ?thesis
    using classify_severity_spec [of ticket conn]
    by (cases "classified ticket") (auto simp: iff [symmetric])
qed

end
