(* ===== verification/Sla.thy ===== *)
theory Sla
  imports Applicability Severity
begin

text \<open>
  \<open>app/domain/sla.py\<close>: the first-response deadline of a ticket. The severity comes from the
  classifier, the governing source from the policy module, and the target row from
  \<open>sla_targets\<close>; a target that needs a business calendar has no numeric deadline.
\<close>

section \<open>Looking up the target\<close>

definition plan_or_account :: "account \<Rightarrow> sla_row \<Rightarrow> bool" where
  "plan_or_account acct row = (lr_plan row = Some (acc_plan acct) \<or> lr_account_id row = Some (acc_id acct))"

definition lookup_sla_target :: "db \<Rightarrow> string \<Rightarrow> account \<Rightarrow> severity \<Rightarrow> sla_row option" where
  "lookup_sla_target conn source_id acct sev =
     (case sort_key (\<lambda>row. if lr_account_id row \<noteq> None then (0::int) else 1)
             (filter (\<lambda>row. lr_source_id row = source_id \<and> lr_severity row = severity_value sev
                          \<and> plan_or_account acct row) (db_sla_targets conn)) of
        [] \<Rightarrow> None
      | row # _ \<Rightarrow> Some row)"

section \<open>The calculation\<close>

record sla_outcome =
  sla_severity :: severity
  sla_applicable_source_id :: string
  sla_target_text :: string
  sla_target_minutes :: "int option"
  sla_is_24x7 :: bool
  sla_deadline :: "datetime option"
  sla_elapsed_minutes_past_deadline :: "pyfloat option"
  sla_breached :: "bool option"

definition sla_reason :: "sla_row \<Rightarrow> datetime \<Rightarrow> pyfloat \<Rightarrow> severity \<Rightarrow> fstr" where
  "sla_reason row deadline elapsed sev =
     (let breached = elapsed > 0 in
      [T (''Target \"'' @ lr_target_text row @ ''\" -> deadline ''), IsoT deadline, T ''. '']
      @ (if breached then
           [T ''Elapsed '', F0 elapsed,
            T '' minutes past deadline with no recorded response (the workbook has no first_response_at column, so this is elapsed-time-past-deadline, not a confirmed missed response).'']
         else [F0 (- elapsed), T '' minutes remain.''])
      @ (if breached \<and> sev = P1
         then [T '' Support Policy v3 s4: P1 breaches should be escalated immediately.''] else []))"

definition calculate_sla ::
  "db \<Rightarrow> string \<Rightarrow> auth_context \<Rightarrow> clock \<Rightarrow> agreement_override list \<Rightarrow> default_registry
    \<Rightarrow> error + sla_outcome decision" where
  "calculate_sla conn ticket_id auth clk overrides defaults =
     bindE (get_ticket conn ticket_id auth (tz_of clk)) (\<lambda>tkt.
     bindE (get_account conn (tkt_account_id tkt) auth) (\<lambda>acct.
     let ticket_evidence = cite_structured ''tickets'' (tkt_id tkt) None;
         severity_result = classify_severity tkt (Some conn)
     in
     case Option.bind (result severity_result) so_severity of
       None \<Rightarrow>
         Inr \<lparr>result = None, trust_state = UNCERTAIN,
              reason = [T ''Cannot compute an SLA target: ''] @ reason severity_result,
              evidence = ticket_evidence # evidence severity_result,
              assumptions = [], conflicts = [], calculation_inputs = [], needs_human_review = True\<rparr>
     | Some sev \<Rightarrow>
         bindE (resolve_applicability conn SLA_FIRST_RESPONSE (acc_id acct) (dt_date (now clk))
                  overrides defaults) (\<lambda>ap.
         case lookup_sla_target conn (winning_source_id ap) acct sev of
           None \<Rightarrow>
             Inr \<lparr>result = None, trust_state = UNCERTAIN,
                  reason = [T (''No SLA target found for '' @ winning_source_id ap @ '' / '' @ acc_plan acct
                              @ '' / '' @ severity_value sev @ ''.'')],
                  evidence = [ticket_evidence],
                  assumptions = [], conflicts = [], calculation_inputs = [], needs_human_review = True\<rparr>
         | Some row \<Rightarrow>
             let disagreements = override_conflicts ap (acc_id acct);
                 ev = ticket_evidence # evidence severity_result
                      @ [cite_document conn (winning_source_id ap) (winning_section ap) None]
             in
             if lr_requires_business_calendar row \<noteq> 0 then
               Inr \<lparr>result = Some \<lparr>sla_severity = sev, sla_applicable_source_id = winning_source_id ap,
                      sla_target_text = lr_target_text row, sla_target_minutes = None, sla_is_24x7 = False,
                      sla_deadline = None, sla_elapsed_minutes_past_deadline = None, sla_breached = None\<rparr>,
                    trust_state = CONDITIONAL,
                    reason = [T (''Target is \"'' @ lr_target_text row
                      @ ''\"; the source pack never defines a business calendar (gap G1), so an exact deadline cannot be computed.'')],
                    evidence = ev,
                    assumptions = [''business-hour/business-day SLA targets are not computable without a defined business calendar''],
                    conflicts = disagreements, calculation_inputs = [],
                    needs_human_review = ap_needs_human_review ap\<rparr>
             else
               bindE (of_optionE (TypeError ''unsupported type for timedelta minutes component: NoneType'')
                        (lr_target_minutes row)) (\<lambda>target_minutes.
               let deadline = dt_add (tkt_created_at tkt) (timedelta_minutes target_minutes);
                   elapsed = minutes_of (dt_diff (now clk) deadline);
                   breached = elapsed > 0
               in
               Inr \<lparr>result = Some \<lparr>sla_severity = sev, sla_applicable_source_id = winning_source_id ap,
                      sla_target_text = lr_target_text row, sla_target_minutes = Some target_minutes,
                      sla_is_24x7 = (lr_is_24x7 row \<noteq> 0), sla_deadline = Some deadline,
                      sla_elapsed_minutes_past_deadline = Some elapsed, sla_breached = Some breached\<rparr>,
                    trust_state = CONFIDENT,
                    reason = sla_reason row deadline elapsed sev,
                    evidence = ev, assumptions = [], conflicts = disagreements,
                    calculation_inputs = [(''created_at'', CIso (tkt_created_at tkt)),
                                          (''target_minutes'', CInt target_minutes)],
                    needs_human_review = (ap_needs_human_review ap \<or> (breached \<and> sev = P1))\<rparr>))))"

section \<open>The lookup prefers the account's own row\<close>

lemma sort_key_hd:
  assumes "sort_key f xs = y # ys" "x \<in> set xs"
  shows "f y \<le> f x"
proof -
  have s: "sorted (map f (y # ys))" by (simp only: sorted_sort_key flip: assms(1))
  have "x \<in> set (y # ys)" using assms by (metis set_sort)
  with s show ?thesis by auto
qed

lemma lookup_sla_target_Some:
  assumes "lookup_sla_target conn sid acct sev = Some row"
  shows "row \<in> set (db_sla_targets conn)" "lr_source_id row = sid" "lr_severity row = severity_value sev"
    "plan_or_account acct row"
    and "\<And>row'. row' \<in> set (db_sla_targets conn) \<Longrightarrow> lr_source_id row' = sid \<Longrightarrow>
      lr_severity row' = severity_value sev \<Longrightarrow> plan_or_account acct row' \<Longrightarrow>
      lr_account_id row' \<noteq> None \<Longrightarrow> lr_account_id row \<noteq> None"
proof -
  let ?f = "\<lambda>row. if lr_account_id row \<noteq> None then (0::int) else 1"
  let ?P = "\<lambda>row. lr_source_id row = sid \<and> lr_severity row = severity_value sev \<and> plan_or_account acct row"
  from assms obtain rows where s: "sort_key ?f (filter ?P (db_sla_targets conn)) = row # rows"
    by (auto simp: lookup_sla_target_def split: list.splits)
  then have "row \<in> set (sort_key ?f (filter ?P (db_sla_targets conn)))" by simp
  then show "row \<in> set (db_sla_targets conn)" "lr_source_id row = sid" "lr_severity row = severity_value sev"
    "plan_or_account acct row" by auto
  fix row'
  assume "row' \<in> set (db_sla_targets conn)" "lr_source_id row' = sid" "lr_severity row' = severity_value sev"
    "plan_or_account acct row'" and acct: "lr_account_id row' \<noteq> None"
  then have "row' \<in> set (filter ?P (db_sla_targets conn))" by simp
  from sort_key_hd [OF s this] acct show "lr_account_id row \<noteq> None" by (simp split: if_splits)
qed

section \<open>The deadline\<close>

text \<open>A confident answer is an exact comparison of instants: no rounding reaches the verdict.\<close>

lemma calculate_sla_confident:
  assumes "calculate_sla conn k auth clk overrides defaults = Inr d" "trust_state d = CONFIDENT"
  obtains tkt out deadline target_minutes where
    "get_ticket conn k auth (tz_of clk) = Inr tkt" "result d = Some out"
    "classified tkt = Some (sla_severity out)"
    "sla_target_minutes out = Some target_minutes" "sla_deadline out = Some deadline"
    "deadline = dt_add (tkt_created_at tkt) (timedelta_minutes target_minutes)"
    "sla_elapsed_minutes_past_deadline out = Some (minutes_of (dt_diff (now clk) deadline))"
    "sla_breached out = Some (dt_less deadline (now clk))"
    "sla_breached out = Some True \<and> sla_severity out = P1 \<Longrightarrow> needs_human_review d"
proof -
  from assms(1) obtain tkt acct where t: "get_ticket conn k auth (tz_of clk) = Inr tkt"
    and a: "get_account conn (tkt_account_id tkt) auth = Inr acct"
    by (auto simp: calculate_sla_def bindE_eq_Inr)
  obtain so where so: "result (classify_severity tkt (Some conn)) = Some so" "so_severity so = classified tkt"
    using classify_severity_result by blast
  show thesis
  proof (cases "classified tkt")
    case None
    with assms t a so show thesis by (simp add: calculate_sla_def Let_def) (auto)
  next
    case (Some sev)
    note run = assms(1) [unfolded calculate_sla_def Let_def t a bindE.simps so(1) Option.bind.simps so(2) Some option.case]
    from run obtain ap where ap: "resolve_applicability conn SLA_FIRST_RESPONSE (acc_id acct) (dt_date (now clk))
        overrides defaults = Inr ap"
      by (auto simp: bindE_eq_Inr)
    note run = run [unfolded ap bindE.simps]
    from run assms(2) obtain row where row: "lookup_sla_target conn (winning_source_id ap) acct sev = Some row"
      by (cases "lookup_sla_target conn (winning_source_id ap) acct sev") auto
    note run = run [unfolded row option.case]
    from run assms(2) have exact: "lr_requires_business_calendar row = 0" by (auto split: if_splits)
    with run obtain m where m: "lr_target_minutes row = Some m" by (auto simp: bindE_eq_Inr)
    from run exact m Some show thesis
      by (intro that [OF t]) (auto simp: dt_less_def dt_diff_def)
  qed
qed

lemma calculate_sla_returns:
  assumes "get_ticket conn k auth (tz_of clk) = Inr tkt" "get_account conn (tkt_account_id tkt) auth = Inr acct"
    and "classified tkt = Some sev"
    and "resolve_applicability conn SLA_FIRST_RESPONSE (acc_id acct) (dt_date (now clk)) overrides defaults = Inr ap"
    and "lookup_sla_target conn (winning_source_id ap) acct sev = Some row"
    and "lr_requires_business_calendar row = 0" "lr_target_minutes row = Some m"
  obtains d where "calculate_sla conn k auth clk overrides defaults = Inr d" "trust_state d = CONFIDENT"
    "map_option sla_target_minutes (result d) = Some (Some m)"
proof -
  obtain so where so: "result (classify_severity tkt (Some conn)) = Some so" "so_severity so = classified tkt"
    using classify_severity_result by blast
  have "inrP (\<lambda>d. trust_state d = CONFIDENT \<and> map_option sla_target_minutes (result d) = Some (Some m))
      (calculate_sla conn k auth clk overrides defaults)"
    unfolding calculate_sla_def Let_def assms(1,2) bindE.simps so(1) Option.bind.simps so(2) assms(3,4) option.case
      assms(5) by (simp add: assms(6,7) inrP_def)
  with that show thesis by (auto elim: inrP_E)
qed

lemma calculate_sla_lookups:
  assumes "calculate_sla conn k auth clk overrides defaults = Inr d"
  obtains tkt acct where "get_ticket conn k auth (tz_of clk) = Inr tkt"
    "get_account conn (tkt_account_id tkt) auth = Inr acct"
  using assms by (auto simp: calculate_sla_def bindE_eq_Inr)

section \<open>Only the caller's view matters\<close>

lemma get_account_view:
  assumes "same_view auth c d"
  shows "get_account c a auth = get_account d a auth"
proof (cases "allows_account auth a")
  case True
  have "List.find (\<lambda>r. ar_account_id r = a) (db_accounts e)
      = List.find (\<lambda>r. ar_account_id r = a) (filter (\<lambda>r. allows_account auth (ar_account_id r)) (db_accounts e))" for e
    unfolding find_filter using True by (intro find_cong_on) auto
  note this [of c] this [of d]
  with assms have "List.find (\<lambda>r. ar_account_id r = a) (db_accounts c) = List.find (\<lambda>r. ar_account_id r = a) (db_accounts d)"
    by (simp only: same_view_def)
  then show ?thesis by (simp only: get_account_def)
qed (simp add: get_account_def)

lemma classify_severity_view:
  assumes "same_view auth c d"
  shows "classify_severity tkt (Some c) = classify_severity tkt (Some d)"
  unfolding classify_severity_def option.case same_view_cite [OF assms] ..

lemma calculate_sla_view:
  assumes view: "same_view auth c d" "wf_db c" "wf_db d"
    and tkt: "get_ticket c k auth (tz_of clk) = Inr tkt"
  shows "calculate_sla c k auth clk overrides defaults = calculate_sla d k auth clk overrides defaults"
proof -
  have tkt': "get_ticket d k auth (tz_of clk) = Inr tkt"
    by (rule ticket_lookup.view_only [OF view(2,3,1) tkt])
  have targets: "lookup_sla_target c = lookup_sla_target d"
    using view(1) by (simp add: lookup_sla_target_def same_view_def fun_eq_iff)
  show ?thesis
    unfolding calculate_sla_def tkt tkt' targets bindE.simps get_account_view [OF view(1)] classify_severity_view [OF view(1)]
      resolve_view [OF view(1)] same_view_cite [OF view(1)] ..
qed

text \<open>The sample ticket \<open>TCK-1\<close>: an open P1 under an agreement with a fifteen-minute target.\<close>

lemma sample_tck1:
  obtains tkt d sla where "get_ticket sample_db ''TCK-1'' admin (tz_of sample_clock) = Inr tkt" "tkt_status tkt = OPEN"
    "calculate_sla sample_db ''TCK-1'' admin sample_clock AGREEMENT_OVERRIDES DEFAULT_SOURCE = Inr d"
    "trust_state d = CONFIDENT" "map_option sla_target_minutes (result d) = Some (Some 15)"
    "result d = Some sla" "sla_severity sla = P1"
proof -
  have "inrP (\<lambda>t. hit_count t P1 = 1 \<and> hit_count t P2 = 0 \<and> hit_count t P3 = 0 \<and> tkt_status t = OPEN \<and> tkt_account_id t = ''ACCT-001'')
    (get_ticket sample_db ''TCK-1'' admin (tz_of sample_clock))" by code_simp
  then obtain tkt where tkt: "get_ticket sample_db ''TCK-1'' admin (tz_of sample_clock) = Inr tkt"
    and hits: "hit_count tkt P1 = 1" "hit_count tkt P2 = 0" "hit_count tkt P3 = 0"
    and a: "tkt_account_id tkt = ''ACCT-001''" and o: "tkt_status tkt = OPEN" by (auto elim: inrP_E)
  from hits have p1: "classified tkt = Some P1" by (simp add: classified_def plurality_def)
  have "inrP (\<lambda>acct. acc_id acct = ''ACCT-001'' \<and> map_option (\<lambda>row. (lr_requires_business_calendar row, lr_target_minutes row))
      (lookup_sla_target sample_db ''SRC-05'' acct P1) = Some (0, Some 15))
    (get_account sample_db ''ACCT-001'' admin)" by code_simp
  then obtain acct row where acct: "get_account sample_db (tkt_account_id tkt) admin = Inr acct"
    and id: "acc_id acct = ''ACCT-001''" and row: "lookup_sla_target sample_db ''SRC-05'' acct P1 = Some row"
      "lr_requires_business_calendar row = 0" "lr_target_minutes row = Some 15"
    unfolding a by (auto simp: inrP_iff)
  have "inrP (\<lambda>ap. winning_source_id ap = ''SRC-05'')
    (resolve_applicability sample_db SLA_FIRST_RESPONSE ''ACCT-001'' (dt_date (now sample_clock)) AGREEMENT_OVERRIDES DEFAULT_SOURCE)"
    by code_simp
  then obtain ap where ap: "resolve_applicability sample_db SLA_FIRST_RESPONSE (acc_id acct) (dt_date (now sample_clock))
      AGREEMENT_OVERRIDES DEFAULT_SOURCE = Inr ap" and w: "winning_source_id ap = ''SRC-05''"
    unfolding id by (auto elim: inrP_E)
  obtain d where d: "calculate_sla sample_db ''TCK-1'' admin sample_clock AGREEMENT_OVERRIDES DEFAULT_SOURCE = Inr d"
    and c: "trust_state d = CONFIDENT" "map_option sla_target_minutes (result d) = Some (Some 15)"
    by (rule calculate_sla_returns [OF tkt acct p1 ap row(1) [folded w] row(2,3)])
  obtain tkt' out where "get_ticket sample_db ''TCK-1'' admin (tz_of sample_clock) = Inr tkt'"
    "result d = Some out" "classified tkt' = Some (sla_severity out)"
    by (rule calculate_sla_confident [OF d c(1)])
  with tkt p1 o d c that show thesis by auto
qed

section \<open>What the calculation guarantees\<close>

text \<open>C23. A confident SLA answer is exact: the target is breached iff the snapshot instant is
  strictly later than the creation of the ticket plus the target minutes (no rounding of the
  elapsed minutes reaches the verdict), and a breached P1 always asks for human review.\<close>

theorem sla_breach_exact:
  assumes "calculate_sla conn k auth clk overrides defaults = Inr d" "trust_state d = CONFIDENT"
  shows "\<exists>tkt out m. get_ticket conn k auth (tz_of clk) = Inr tkt \<and> result d = Some out
    \<and> classified tkt = Some (sla_severity out) \<and> sla_target_minutes out = Some m
    \<and> sla_breached out = Some (instant (tkt_created_at tkt) + timedelta_minutes m < instant (now clk))
    \<and> (sla_breached out = Some True \<and> sla_severity out = P1 \<longrightarrow> needs_human_review d)"
  by (rule calculate_sla_confident [OF assms]) (simp add: dt_less_def)

theorem sla_breach_exact_witness:
  "\<exists>d out. calculate_sla sample_db ''TCK-1'' admin sample_clock AGREEMENT_OVERRIDES DEFAULT_SOURCE = Inr d
     \<and> result d = Some out \<and> sla_breached out = Some True"
proof -
  obtain d where d: "calculate_sla sample_db ''TCK-1'' admin sample_clock AGREEMENT_OVERRIDES DEFAULT_SOURCE = Inr d"
    and c: "trust_state d = CONFIDENT" "map_option sla_target_minutes (result d) = Some (Some 15)"
    by (rule sample_tck1)
  have "inrP (\<lambda>t. instant (tkt_created_at t) + timedelta_minutes 15 < instant (now sample_clock))
    (get_ticket sample_db ''TCK-1'' admin (tz_of sample_clock))" by code_simp
  with sla_breach_exact [OF d c(1)] c(2) d show ?thesis by (auto simp: inrP_iff)
qed

text \<open>The account's own target row wins over a plan-level row of the same source and severity,
  whatever the order of the rows.\<close>

theorem sla_target_precedence:
  assumes "lookup_sla_target conn sid acct sev = Some row"
    and "row' \<in> set (db_sla_targets conn)" "lr_source_id row' = sid" "lr_severity row' = severity_value sev"
    and "lr_account_id row' = Some (acc_id acct)"
  shows "lr_source_id row = sid \<and> lr_severity row = severity_value sev \<and> lr_account_id row \<noteq> None"
  using lookup_sla_target_Some(2,3) [OF assms(1)] lookup_sla_target_Some(5) [OF assms(1-4)] assms(5)
  by (simp add: plan_or_account_def)

theorem sla_target_precedence_witness:
  "\<exists>row. lookup_sla_target sample_db ''SRC-05'' (row_to_account (sample_account ''ACCT-001'' ''Enterprise'')) P1 = Some row
     \<and> lr_account_id row \<noteq> None"
proof -
  let ?acct = "row_to_account (sample_account ''ACCT-001'' ''Enterprise'')"
  let ?row = "sample_sla ''SRC-05'' None (Some ''ACCT-001'') ''P1'' (Some 15) 0"
  have "lookup_sla_target sample_db ''SRC-05'' ?acct P1 \<noteq> None" by code_simp
  then obtain row where row: "lookup_sla_target sample_db ''SRC-05'' ?acct P1 = Some row" by blast
  have "?row \<in> set (db_sla_targets sample_db)" "lr_source_id ?row = ''SRC-05''"
    "lr_severity ?row = severity_value P1" "lr_account_id ?row = Some (acc_id ?acct)"
    by (simp_all add: sample_db_def sample_sla_def row_to_account_def sample_account_def)
  from sla_target_precedence [OF row this] row show ?thesis by blast
qed

end
