(* ===== verification/Agent_Planning.thy ===== *)
theory Agent_Planning
  imports Sla
begin

text \<open>
  The deterministic front half of the agent: entity resolution (\<open>app/agent/entities.py\<close>),
  intent (\<open>intent.py\<close>), the clarification gate (\<open>clarification.py\<close>) and the planner
  (\<open>planner.py\<close>).
\<close>

section \<open>Entities\<close>

record entity_resolution =
  order_ids :: "string list"
  ticket_ids :: "string list"
  account_ids :: "string list"
  ambiguous_account_names :: "string list"
  unresolved_mentions :: "string list"

definition is_letter :: "char \<Rightarrow> bool" where
  "is_letter c = (is_lower c \<or> is_upper c)"

definition ID_TOKEN :: re where
  "ID_TOKEN = seqs [WordB, Rep 2 8 (Cls is_letter), Chr CHR ''-'', Rep 1 10 (Cls is_digit), WordB]"

datatype entity_kind = OrderKind | TicketKind | AccountKind

text \<open>The loop over the checkers: the first that returns classifies the id, an unknown id goes
  on to the next one, an unauthorised id stops the search.\<close>

fun first_success :: "(entity_kind \<times> (error + unit)) list \<Rightarrow> error + entity_kind option" where
  "first_success [] = Inr None"
| "first_success ((k, Inr _) # cs) = Inr (Some k)"
| "first_success ((k, Inl (UnknownEntityError _ _)) # cs) = first_success cs"
| "first_success ((k, Inl (NotAuthorizedError _)) # cs) = Inr None"
| "first_success ((k, Inl e) # cs) = Inl e"

definition checked :: "error + 'a \<Rightarrow> error + unit" where
  "checked m = bindE m (\<lambda>_. Inr ())"

definition classify_id :: "db \<Rightarrow> auth_context \<Rightarrow> tz \<Rightarrow> string \<Rightarrow> error + entity_kind option" where
  "classify_id conn auth tz i =
     first_success
       [(OrderKind, checked (get_order conn i auth tz)),
        (TicketKind, checked (get_ticket conn i auth tz)),
        (AccountKind, checked (get_account conn i auth))]"

definition classify_tokens :: "db \<Rightarrow> auth_context \<Rightarrow> tz \<Rightarrow> string list \<Rightarrow> error + (string \<times> entity_kind option) list" where
  "classify_tokens conn auth tz tokens =
     mapE (\<lambda>i. bindE (classify_id conn auth tz i) (\<lambda>k. Inr (i, k))) (dedup_by id [] (map upper tokens))"

definition of_kind :: "(string \<times> entity_kind option) list \<Rightarrow> entity_kind option \<Rightarrow> string list" where
  "of_kind cl k = map fst (filter (\<lambda>p. snd p = k) cl)"

definition match_account_names :: "string \<Rightarrow> db \<Rightarrow> auth_context \<Rightarrow> string list" where
  "match_account_names question conn auth =
     map ar_account_id
       (filter (\<lambda>row. length (ar_account_name row) \<ge> 4
                   \<and> contains (lower (ar_account_name row)) (lower question)
                   \<and> allows_account auth (ar_account_id row)) (db_accounts conn))"

definition resolve_entities :: "string \<Rightarrow> db \<Rightarrow> auth_context \<Rightarrow> clock \<Rightarrow> error + entity_resolution" where
  "resolve_entities question conn auth clk =
     bindE (classify_tokens conn auth (tz_of clk) (findall ID_TOKEN question)) (\<lambda>cl.
     let orders = of_kind cl (Some OrderKind); tickets = of_kind cl (Some TicketKind);
         accounts = of_kind cl (Some AccountKind); unresolved = of_kind cl None;
         names = (if orders = [] \<and> tickets = [] \<and> accounts = [] then match_account_names question conn auth else [])
     in Inr \<lparr>order_ids = orders, ticket_ids = tickets,
             account_ids = (if length names = 1 then [names ! 0] else accounts),
             ambiguous_account_names = (if length names > 1 then names else []),
             unresolved_mentions = unresolved\<rparr>)"

section \<open>Intent\<close>

datatype intent =
    INFORMATIONAL | ORDER_INVESTIGATION | TICKET_INVESTIGATION | ACCOUNT_INVESTIGATION
  | I_CANCELLATION | I_SERVICE_CREDIT | I_SLA | I_SEVERITY | KNOWN_ISSUE | MULTI_SOURCE
  | CLARIFICATION | UNSUPPORTED

abbreviation word_star :: re where
  "word_star \<equiv> Many 0 (Cls is_word)"

abbreviation dash_or_space :: re where
  "dash_or_space \<equiv> Cls (\<lambda>c. c = CHR ''-'' \<or> c = CHR '' '')"

abbreviation cancel_re :: re where
  "cancel_re \<equiv> Seq (lit ''cancel'') (Opt (Seq (Opt (Chr CHR ''l'')) (lit ''ation'')))"

abbreviation severity_re :: re where
  "severity_re \<equiv> Seq (lit ''sever'') (alts [lit ''ity'', lit ''e''])"

abbreviation priority_re :: re where
  "priority_re \<equiv> Seq (lit ''priorit'') (alts [lit ''y'', lit ''ize''])"

definition CANCELLATION_RE :: re where
  "CANCELLATION_RE = seqs [WordB, cancel_re, WordB]"
definition SERVICE_CREDIT_RE :: re where
  "SERVICE_CREDIT_RE = seqs [WordB, alts [lit ''credit'', lit ''refund'', Seq (lit ''compensat'') word_star], WordB]"
definition SLA_RE :: re where
  "SLA_RE = seqs [WordB, alts [lit ''sla'', lit ''deadline'', Seq (lit ''breach'') word_star,
     seqs [lit ''first'', dash_or_space, lit ''response''], lit ''response time''], WordB]"
definition KNOWN_ISSUE_RE :: re where
  "KNOWN_ISSUE_RE = seqs [WordB, alts [lit ''known issue'', lit ''bug'', Seq (lit ''ki-'') (Many 1 (Cls is_digit)),
     lit ''webhook'', lit ''outage''], WordB]"
definition SEVERITY_RE :: re where
  "SEVERITY_RE = Alt (seqs [WordB, severity_re, WordB]) (seqs [WordB, priority_re, WordB])"

definition is_blank :: "string \<Rightarrow> bool" where
  "is_blank s = list_all is_space s"

definition resolve_intent :: "string \<Rightarrow> entity_resolution \<Rightarrow> intent" where
  "resolve_intent question ents =
     (if ambiguous_account_names ents \<noteq> [] then CLARIFICATION
      else if is_blank question then UNSUPPORTED
      else
        let signals =
              (if search_ci CANCELLATION_RE question \<and> order_ids ents \<noteq> [] then [I_CANCELLATION] else [])
              @ (if search_ci SERVICE_CREDIT_RE question \<and> order_ids ents \<noteq> [] then [I_SERVICE_CREDIT] else [])
              @ (if search_ci SLA_RE question \<and> ticket_ids ents \<noteq> [] then [I_SLA] else [])
              @ (if search_ci SEVERITY_RE question \<and> ticket_ids ents \<noteq> [] then [I_SEVERITY] else [])
              @ (if search_ci KNOWN_ISSUE_RE question then [KNOWN_ISSUE] else [])
        in if length signals > 1 then MULTI_SOURCE
           else if signals \<noteq> [] then signals ! 0
           else if order_ids ents \<noteq> [] then ORDER_INVESTIGATION
           else if ticket_ids ents \<noteq> [] then TICKET_INVESTIGATION
           else if account_ids ents \<noteq> [] then ACCOUNT_INVESTIGATION
           else INFORMATIONAL)"

section \<open>The clarification gate\<close>

definition INSTANCE_SIGNALS :: re where
  "INSTANCE_SIGNALS = seqs [WordB, alts [cancel_re, lit ''credit'', lit ''refund'', Seq (lit ''compensat'') word_star,
     lit ''sla'', Seq (lit ''breach'') word_star, seqs [lit ''first'', dash_or_space, lit ''response''],
     lit ''deadline'', severity_re, priority_re], WordB]"

definition AGGREGATE_SIGNALS :: re where
  "AGGREGATE_SIGNALS = seqs [WordB, alts [lit ''every'', lit ''all'', lit ''each'', lit ''which ones'',
     Seq (lit ''across '') (alts [lit ''all'', lit ''every'']),
     seqs [lit ''review'', WordB, Many 0 (Cls (\<lambda>c. c \<noteq> CHR 0x0A)), WordB, lit ''ticket'', Opt (Chr CHR ''s'')]], WordB]"

definition needs_account_clarification :: "string \<Rightarrow> entity_resolution \<Rightarrow> auth_context \<Rightarrow> string option" where
  "needs_account_clarification question ents auth =
     (if order_ids ents \<noteq> [] \<or> ticket_ids ents \<noteq> [] then None
      else if \<not> search_ci INSTANCE_SIGNALS question then None
      else if search_ci AGGREGATE_SIGNALS question then None
      else if account_ids ents \<noteq> [] then None
      else
        (case account_scope auth of
           Some scope \<Rightarrow>
             if length scope = 1 then None
             else Some (''this question needs a specific order, ticket, or account to investigate, but none was named and the caller's access spans ''
               @ str_of_int (int (length scope)) @ '' accounts - please specify which account, order, or ticket'')
         | None \<Rightarrow>
             Some ''this question needs a specific order, ticket, or account to investigate, but none was named and the caller's access spans any account - please specify which account, order, or ticket''))"

section \<open>The planner\<close>

datatype arg_value = AStr string | AInt int | ABool bool | AStrs "string list" | ANone

record plan_step =
  step_tool :: string
  step_purpose :: string
  step_args :: "(string \<times> arg_value) list"

definition lookup_step :: "string \<Rightarrow> string \<Rightarrow> string \<Rightarrow> plan_step" where
  "lookup_step kind noun i =
     \<lparr>step_tool = ''lookup_structured_data'', step_purpose = ''resolve '' @ noun @ '' '' @ i,
      step_args = [(''kind'', AStr kind), (''entity_id'', AStr i)]\<rparr>"

definition lookup_order_step :: "string \<Rightarrow> plan_step" where
  "lookup_order_step = lookup_step ''get_order'' ''order''"
definition lookup_ticket_step :: "string \<Rightarrow> plan_step" where
  "lookup_ticket_step = lookup_step ''get_ticket'' ''ticket''"
definition lookup_account_step :: "string \<Rightarrow> plan_step" where
  "lookup_account_step = lookup_step ''get_account'' ''account''"

definition search_step :: "string \<Rightarrow> string \<Rightarrow> string list \<Rightarrow> plan_step" where
  "search_step query purpose source_types =
     \<lparr>step_tool = ''search_documents'', step_purpose = purpose,
      step_args = [(''query'', AStr query), (''top_k'', AInt 5)]
        @ (if source_types = [] then [] else [(''source_types'', AStrs source_types)])\<rparr>"

definition calculate_step :: "string \<Rightarrow> string \<Rightarrow> string \<Rightarrow> plan_step" where
  "calculate_step calc_type i purpose =
     \<lparr>step_tool = ''calculate_support_outcome'', step_purpose = purpose,
      step_args = [(''calculation_type'', AStr calc_type), (''entity_id'', AStr i)]\<rparr>"

definition cancellation_step :: "string \<Rightarrow> plan_step" where
  "cancellation_step i = calculate_step ''cancellation'' i (''cancellation outcome for '' @ i)"
definition credit_step :: "string \<Rightarrow> plan_step" where
  "credit_step i = calculate_step ''service_credit'' i (''service credit outcome for '' @ i)"
definition sla_step :: "string \<Rightarrow> plan_step" where
  "sla_step i = calculate_step ''sla'' i (''SLA outcome for '' @ i)"
definition severity_step :: "string \<Rightarrow> plan_step" where
  "severity_step i = calculate_step ''severity'' i (''severity classification for '' @ i)"

fun build_plan :: "string \<Rightarrow> intent \<Rightarrow> entity_resolution \<Rightarrow> plan_step list" where
  "build_plan q I_CANCELLATION ents =
     concat (map (\<lambda>i. [lookup_order_step i, cancellation_step i]) (order_ids ents))
     @ [search_step q ''retrieve applicable cancellation policy/agreement'' []]"
| "build_plan q I_SERVICE_CREDIT ents =
     concat (map (\<lambda>i. [lookup_order_step i, credit_step i]) (order_ids ents))
     @ [search_step q ''retrieve applicable service-credit policy/agreement'' []]"
| "build_plan q I_SLA ents =
     concat (map (\<lambda>i. [lookup_ticket_step i, sla_step i]) (ticket_ids ents))
     @ [search_step q ''retrieve applicable SLA/first-response policy'' []]"
| "build_plan q I_SEVERITY ents =
     concat (map (\<lambda>i. [lookup_ticket_step i, severity_step i]) (ticket_ids ents))
     @ [search_step q ''retrieve severity definitions'' [''support_policy'']]"
| "build_plan q KNOWN_ISSUE ents =
     [search_step q ''retrieve product documentation / known issues'' [''product_doc'']]"
| "build_plan q ORDER_INVESTIGATION ents =
     map lookup_order_step (order_ids ents) @ [search_step q ''retrieve any relevant policy context'' []]"
| "build_plan q TICKET_INVESTIGATION ents =
     map lookup_ticket_step (ticket_ids ents) @ [search_step q ''retrieve any relevant policy context'' []]"
| "build_plan q ACCOUNT_INVESTIGATION ents =
     map lookup_account_step (account_ids ents) @ [search_step q ''retrieve the account's agreement, if any'' []]"
| "build_plan q MULTI_SOURCE ents =
     map lookup_order_step (order_ids ents) @ map lookup_ticket_step (ticket_ids ents)
     @ [search_step q ''retrieve applicable policy across the referenced entities'' []]
     @ concat (map (\<lambda>i. [cancellation_step i, credit_step i]) (order_ids ents))
     @ map sla_step (ticket_ids ents)"
| "build_plan q INFORMATIONAL ents = [search_step q ''retrieve relevant policy/document evidence'' []]"
| "build_plan q CLARIFICATION ents = []"
| "build_plan q UNSUPPORTED ents = []"

section \<open>Entity resolution stays in the caller's view\<close>

lemma checked_Inr [simp]: "checked m = Inr u \<longleftrightarrow> (\<exists>x. m = Inr x)"
  by (cases m) (auto simp: checked_def)

lemma checked_Inl [simp]: "checked m = Inl e \<longleftrightarrow> m = Inl e"
  by (cases m) (auto simp: checked_def)

lemma checked_simps [simp]: "checked (Inr x) = Inr ()" "checked (Inl e) = Inl e"
  by (simp_all add: checked_def)

lemma Inr_checked [simp]: "Inr u = checked m \<longleftrightarrow> (\<exists>x. m = Inr x)"
  by (cases m) (auto simp: checked_def)

lemma first_success_Some:
  "first_success cs = Inr (Some k) \<Longrightarrow> (k, Inr ()) \<in> set cs"
  by (induction cs rule: first_success.induct) auto

lemma classify_id_visible:
  assumes "classify_id conn auth tz i = Inr (Some k)"
  shows "case k of OrderKind \<Rightarrow> \<exists>x. get_order conn i auth tz = Inr x
    | TicketKind \<Rightarrow> \<exists>x. get_ticket conn i auth tz = Inr x
    | AccountKind \<Rightarrow> \<exists>x. get_account conn i auth = Inr x"
  using first_success_Some [OF assms [unfolded classify_id_def]] by (auto split: entity_kind.splits)

lemma of_kind_classified:
  assumes "classify_tokens conn auth tz tokens = Inr cl" "i \<in> set (of_kind cl k)"
  shows "classify_id conn auth tz i = Inr k"
proof -
  from assms(2) have "(i, k) \<in> set cl" by (auto simp: of_kind_def)
  from mapE_set [OF assms(1) [unfolded classify_tokens_def] this] show ?thesis
    by (auto simp: bindE_eq_Inr)
qed

lemma resolve_entities_visible:
  assumes "resolve_entities question conn auth clk = Inr ents"
  shows "i \<in> set (order_ids ents) \<Longrightarrow> \<exists>x. get_order conn i auth (tz_of clk) = Inr x"
    and "i \<in> set (ticket_ids ents) \<Longrightarrow> \<exists>x. get_ticket conn i auth (tz_of clk) = Inr x"
    and "i \<in> set (account_ids ents) \<union> set (ambiguous_account_names ents) \<Longrightarrow> allows_account auth i"
proof -
  obtain cl where cl: "classify_tokens conn auth (tz_of clk) (findall ID_TOKEN question) = Inr cl"
    using assms by (auto simp: resolve_entities_def bindE_eq_Inr)
  note kind = of_kind_classified [OF cl]
  show "\<exists>x. get_order conn i auth (tz_of clk) = Inr x" if "i \<in> set (order_ids ents)"
    using that assms cl classify_id_visible [OF kind, of i OrderKind] by (auto simp: resolve_entities_def Let_def)
  show "\<exists>x. get_ticket conn i auth (tz_of clk) = Inr x" if "i \<in> set (ticket_ids ents)"
    using that assms cl classify_id_visible [OF kind, of i TicketKind] by (auto simp: resolve_entities_def Let_def)
  have names: "allows_account auth j" if "j \<in> set (match_account_names question conn auth)" for j
    using that by (auto simp: match_account_names_def)
  have acct: "allows_account auth j" if "j \<in> set (of_kind cl (Some AccountKind))" for j
    using classify_id_visible [OF kind [OF that]] by (auto simp: get_account_def split: if_splits)
  show "allows_account auth i" if "i \<in> set (account_ids ents) \<union> set (ambiguous_account_names ents)"
    using that assms cl names acct nth_mem [of 0 "match_account_names question conn auth"]
    by (auto simp: resolve_entities_def Let_def split: if_splits)
qed

section \<open>A record out of scope is as good as absent\<close>

text \<open>Ids of different tables are told apart by their shape, as the data pack's prefixes do.\<close>

definition ids_separated :: "(string \<Rightarrow> entity_kind) \<Rightarrow> db \<Rightarrow> bool" where
  "ids_separated shape conn \<longleftrightarrow>
     (\<forall>r \<in> set (db_orders conn). shape (or_order_id r) = OrderKind) \<and>
     (\<forall>r \<in> set (db_tickets conn). shape (tr_ticket_id r) = TicketKind) \<and>
     (\<forall>r \<in> set (db_accounts conn). shape (ar_account_id r) = AccountKind)"

lemma find_visible_row:
  assumes "distinct (map key rows)"
  shows "List.find (\<lambda>r. key r = i) (filter P rows) =
    (case List.find (\<lambda>r. key r = i) rows of None \<Rightarrow> None | Some r \<Rightarrow> if P r then Some r else None)"
  using assms
proof (induction rows)
  case (Cons r rows)
  then show ?case
  proof (cases "key r = i")
    case True
    have "key q \<noteq> i" if "q \<in> set rows" for q
      using imageI [OF that, of key] True Cons.prems by auto
    then have "List.find (\<lambda>r. key r = i) (filter P rows) = None" by (auto simp: find_None_iff)
    with True show ?thesis by simp
  qed simp
qed simp

text \<open>What one visible row of each table makes of an id, independently of the rest.\<close>

definition visible_kind :: "db \<Rightarrow> auth_context \<Rightarrow> tz \<Rightarrow> string \<Rightarrow> error + entity_kind option" where
  "visible_kind conn auth tz i =
     (case List.find (\<lambda>r. or_order_id r = i) (filter (\<lambda>r. allows_account auth (or_account_id r)) (db_orders conn)) of
        Some r \<Rightarrow> bindE (row_to_order r tz) (\<lambda>_. Inr (Some OrderKind))
      | None \<Rightarrow>
        (case List.find (\<lambda>r. tr_ticket_id r = i) (filter (\<lambda>r. allows_account auth (tr_account_id r)) (db_tickets conn)) of
           Some r \<Rightarrow> bindE (row_to_ticket r tz) (\<lambda>_. Inr (Some TicketKind))
         | None \<Rightarrow>
           (case List.find (\<lambda>r. ar_account_id r = i) (filter (\<lambda>r. allows_account auth (ar_account_id r)) (db_accounts conn)) of
              Some r \<Rightarrow> Inr (Some AccountKind)
            | None \<Rightarrow> Inr None)))"

lemma first_success_error:
  "(\<And>x. e \<noteq> UnknownEntityError (fst x) (snd x)) \<Longrightarrow> (\<And>m. e \<noteq> NotAuthorizedError m) \<Longrightarrow>
   first_success ((k, Inl e) # cs) = Inl e"
  by (cases e) fastforce+

lemma row_errors:
  "row_to_order r tz = Inl e \<Longrightarrow> e = ValidationError ''Order.status''"
  "row_to_ticket r' tz = Inl e \<Longrightarrow> e = ValidationError ''Ticket.status''"
  by (auto simp: row_to_order_def row_to_ticket_def bindE_eq_Inl)

lemma first_success_row:
  assumes "\<And>e. m = Inl e \<Longrightarrow> e = ValidationError msg"
  shows "first_success ((k, checked m) # cs) = bindE m (\<lambda>_. Inr (Some k))"
  using assms by (cases m) auto

lemma classify_id_visible_kind:
  assumes wf: "wf_db conn" and sep: "ids_separated shape conn"
  shows "classify_id conn auth tz i = visible_kind conn auth tz i"
proof -
  have d: "distinct (map or_order_id (db_orders conn))" "distinct (map tr_ticket_id (db_tickets conn))"
    "distinct (map ar_account_id (db_accounts conn))" using wf by (auto simp: wf_db_def)
  note find = find_visible_row [OF d(1)] find_visible_row [OF d(2)] find_visible_row [OF d(3)]
  have other: "shape i = OrderKind \<Longrightarrow> List.find (\<lambda>r. tr_ticket_id r = i) (db_tickets conn) = None"
    "shape i \<noteq> AccountKind \<Longrightarrow> List.find (\<lambda>r. ar_account_id r = i) (db_accounts conn) = None"
    using sep by (auto simp: ids_separated_def find_None_iff)
  have acct: "first_success [(AccountKind, checked (get_account conn i auth))] =
      (case List.find (\<lambda>r. ar_account_id r = i) (filter (\<lambda>r. allows_account auth (ar_account_id r)) (db_accounts conn)) of
         Some r \<Rightarrow> Inr (Some AccountKind) | None \<Rightarrow> Inr None)"
    unfolding find by (cases "List.find (\<lambda>r. ar_account_id r = i) (db_accounts conn)")
      (auto simp: get_account_def dest: find_key)
  show ?thesis
  proof (cases "List.find (\<lambda>r. or_order_id r = i) (db_orders conn)")
    case order: (Some r)
    have "shape i = OrderKind"
      using order sep by (auto simp: ids_separated_def dest!: find_Some_mem)
    with other have none: "List.find (\<lambda>r. tr_ticket_id r = i) (db_tickets conn) = None"
      "List.find (\<lambda>r. ar_account_id r = i) (db_accounts conn) = None" by simp_all
    show ?thesis
    proof (cases "allows_account auth (or_account_id r)")
      case True
      have "get_order conn i auth tz = row_to_order r tz" using order True by (simp add: get_order_def check_scope_def)
      then show ?thesis
        using first_success_row [of "row_to_order r tz" "''Order.status''" OrderKind] row_errors(1) True
        by (simp add: classify_id_def visible_kind_def find order)
    next
      case False
      then show ?thesis
        by (simp add: classify_id_def visible_kind_def find order none get_order_def check_scope_def)
    qed
  next
    case no_order: None
    then have o: "get_order conn i auth tz = Inl (UnknownEntityError ''order'' i)" by (simp add: get_order_def)
    show ?thesis
    proof (cases "List.find (\<lambda>r. tr_ticket_id r = i) (db_tickets conn)")
      case ticket: (Some r)
      have "shape i = TicketKind"
        using ticket sep by (auto simp: ids_separated_def dest!: find_Some_mem)
      with other have none: "List.find (\<lambda>r. ar_account_id r = i) (db_accounts conn) = None" by simp
      show ?thesis
      proof (cases "allows_account auth (tr_account_id r)")
        case True
        have "get_ticket conn i auth tz = row_to_ticket r tz" using ticket True by (simp add: get_ticket_def check_scope_def)
        then show ?thesis
          using first_success_row [of "row_to_ticket r tz" "''Ticket.status''" TicketKind] row_errors(2) True
          by (simp add: classify_id_def visible_kind_def find no_order o ticket)
      next
        case False
        then show ?thesis
          by (simp add: classify_id_def visible_kind_def find no_order o ticket none get_ticket_def check_scope_def)
      qed
    next
      case None
      then have "get_ticket conn i auth tz = Inl (UnknownEntityError ''ticket'' i)" by (simp add: get_ticket_def)
      with acct show ?thesis
        by (simp add: classify_id_def visible_kind_def find no_order o None)
    qed
  qed
qed

lemma visible_kind_view: "same_view auth c d \<Longrightarrow> visible_kind c auth tz i = visible_kind d auth tz i"
  by (simp only: visible_kind_def same_view_def)

lemma match_account_names_view:
  assumes "same_view auth c d"
  shows "match_account_names question c auth = match_account_names question d auth"
proof -
  let ?V = "\<lambda>r. allows_account auth (ar_account_id r)"
  let ?N = "\<lambda>r. length (ar_account_name r) \<ge> 4 \<and> contains (lower (ar_account_name r)) (lower question)"
  have "filter (\<lambda>r. ?V r \<and> ?N r) (db_accounts c) = filter (\<lambda>r. ?V r \<and> ?N r) (db_accounts d)"
    by (rule filter_conj_cong) (use assms in \<open>simp add: same_view_def\<close>)
  then show ?thesis by (simp only: match_account_names_def conj_ac)
qed

lemma resolve_entities_view:
  assumes "wf_db c" "wf_db d" "same_view auth c d" "ids_separated shape c" "ids_separated shape d"
  shows "resolve_entities question c auth clk = resolve_entities question d auth clk"
proof -
  have "classify_id c auth (tz_of clk) = classify_id d auth (tz_of clk)"
    by (intro ext) (simp only: classify_id_visible_kind [OF assms(1,4)] classify_id_visible_kind [OF assms(2,5)]
        visible_kind_view [OF assms(3)])
  then have "classify_tokens c auth (tz_of clk) = classify_tokens d auth (tz_of clk)"
    by (intro ext) (simp only: classify_tokens_def)
  then show ?thesis
    by (simp only: resolve_entities_def match_account_names_view [OF assms(3)])
qed

text \<open>Entity resolution cannot tell a record out of the caller's scope from one that does not
  exist: it gives the same answer on two databases that agree on what the caller may see.\<close>

theorem entities_noninterference:
  assumes "wf_db c" "wf_db d" "same_view auth c d" "ids_separated shape c" "ids_separated shape d"
  shows "resolve_entities question c auth clk = resolve_entities question d auth clk"
  by (rule resolve_entities_view [OF assms])

text \<open>Every order, ticket and account the resolution names is one the caller may read; an
  ambiguous account name lists only accounts in scope.\<close>

theorem entities_in_scope:
  assumes "resolve_entities question conn auth clk = Inr ents"
  shows "(\<forall>i \<in> set (order_ids ents). \<exists>x. get_order conn i auth (tz_of clk) = Inr x \<and> allows_account auth (ord_account_id x))
    \<and> (\<forall>i \<in> set (ticket_ids ents). \<exists>x. get_ticket conn i auth (tz_of clk) = Inr x \<and> allows_account auth (tkt_account_id x))
    \<and> (\<forall>i \<in> set (account_ids ents) \<union> set (ambiguous_account_names ents). allows_account auth i)"
  using resolve_entities_visible [OF assms] order_lookup.in_scope ticket_lookup.in_scope by blast

lemma sample_resolution:
  obtains ents where "resolve_entities ''Cancel ORD-3001?'' sample_db admin sample_clock = Inr ents"
    "order_ids ents = [''ORD-3001'']"
proof -
  have "inrP (\<lambda>ents. order_ids ents = [''ORD-3001''])
    (resolve_entities ''Cancel ORD-3001?'' sample_db admin sample_clock)" by code_simp
  with that show thesis by (auto elim: inrP_E)
qed

theorem entities_in_scope_witness:
  "\<exists>ents. resolve_entities ''Cancel ORD-3001?'' sample_db admin sample_clock = Inr ents
     \<and> (\<exists>x. get_order sample_db ''ORD-3001'' admin (tz_of sample_clock) = Inr x)"
proof -
  obtain ents where r: "resolve_entities ''Cancel ORD-3001?'' sample_db admin sample_clock = Inr ents"
    and o: "order_ids ents = [''ORD-3001'']" by (rule sample_resolution)
  from entities_in_scope [OF r] o r show ?thesis by auto
qed

definition sample_shape :: "string \<Rightarrow> entity_kind" where
  "sample_shape i = (if starts_with ''ORD-'' i then OrderKind else if starts_with ''TCK-'' i then TicketKind else AccountKind)"

theorem entities_noninterference_witness:
  "resolve_entities ''Cancel ORD-1001'' sample_db beacon_agent sample_clock =
   resolve_entities ''Cancel ORD-1001'' (sample_db\<lparr>db_orders := filter (\<lambda>r. or_account_id r = ''ACCT-003'') (db_orders sample_db)\<rparr>)
     beacon_agent sample_clock"
proof -
  let ?d = "sample_db\<lparr>db_orders := filter (\<lambda>r. or_account_id r = ''ACCT-003'') (db_orders sample_db)\<rparr>"
  have w: "wf_db ?d"
    unfolding wf_db_def by (simp add: sample_db_def sample_account_def sample_order_def sample_ticket_def)
  have v: "same_view beacon_agent sample_db ?d"
    by (simp add: same_view_def beacon_agent_def allows_account_def)
  have "ids_separated sample_shape sample_db" "ids_separated sample_shape ?d"
    by (simp_all add: ids_separated_def sample_shape_def sample_db_def sample_account_def sample_order_def sample_ticket_def)
  from entities_noninterference [OF wf_sample_db w v this] show ?thesis .
qed

end
