(* ===== verification/Cancellation_Fees.thy ===== *)
theory Cancellation_Fees
  imports Applicability Sample
begin

text \<open>
  \<open>app/domain/cancellation.py\<close>: the cancellation-fee decision. The status branches come first,
  so no agreement reaches past them; only a BOOKED order with a request has its fee computed
  by the rule of the winning source.
\<close>

section \<open>Outcomes and rules\<close>

datatype cancellation_decision = can_cancel | cannot_cancel | no_action_needed

record cancellation_outcome =
  co_decision :: cancellation_decision
  co_fee_inr :: "pyfloat option"
  co_applicable_rule :: string
  co_order_status :: order_status
  co_minutes_since_booking :: "pyfloat option"

datatype fee_rule_kind = threshold_fee | full_waiver

record cancellation_fee_rule =
  fr_kind :: fee_rule_kind
  fr_threshold_minutes :: "int option"
  fr_fee_inr :: "pyfloat option"

definition apply_fee_rule :: "cancellation_fee_rule \<Rightarrow> pyfloat \<Rightarrow> error + pyfloat \<times> fstr" where
  "apply_fee_rule rl minutes =
     (if fr_kind rl = full_waiver then
        Inr (0, [T ''the agreement waives the cancellation fee regardless of elapsed time''])
      else
        (case (fr_threshold_minutes rl, fr_fee_inr rl) of
           (Some threshold, Some fee) \<Rightarrow>
             if minutes \<le> of_int threshold then
               Inr (0, [T ''within '', IntT threshold, T '' minutes of booking, no fee applies''])
             else
               Inr (fee, [T ''more than '', IntT threshold, T '' minutes after booking, INR '', G fee, T '' fee applies''])
         | _ \<Rightarrow> Inl AssertionError))"

definition DEFAULT_FEE_RULES :: "(string \<times> cancellation_fee_rule) list" where
  "DEFAULT_FEE_RULES =
     [(''SRC-03'', \<lparr>fr_kind = threshold_fee, fr_threshold_minutes = Some 30, fr_fee_inr = Some 250\<rparr>),
      (''SRC-05'', \<lparr>fr_kind = full_waiver, fr_threshold_minutes = None, fr_fee_inr = None\<rparr>)]"

section \<open>The decision\<close>

definition clause_ref :: "string \<Rightarrow> string \<Rightarrow> string" where
  "clause_ref source_id sect = source_id @ ''#'' @ sect"

definition evaluate_cancellation ::
  "db \<Rightarrow> string \<Rightarrow> auth_context \<Rightarrow> clock \<Rightarrow> (string \<times> cancellation_fee_rule) list
    \<Rightarrow> agreement_override list \<Rightarrow> default_registry \<Rightarrow> error + cancellation_outcome decision" where
  "evaluate_cancellation conn order_id auth clk fee_rules overrides defaults =
     bindE (get_order conn order_id auth (tz_of clk)) (\<lambda>ord.
     bindE (default_clause defaults CANCELLATION_FEE) (\<lambda>default_source.
     bindE (of_optionE AssertionError default_source) (\<lambda>(default_source_id, default_section).
     let order_evidence = cite_structured ''orders'' (ord_id ord) None;
         default_cite = cite_document conn default_source_id default_section None;
         outcome = (\<lambda>dec fee. \<lparr>co_decision = dec, co_fee_inr = fee,
                      co_applicable_rule = clause_ref default_source_id default_section,
                      co_order_status = ord_status ord, co_minutes_since_booking = None\<rparr>);
         answer = (\<lambda>out why ev. Inr \<lparr>result = Some out, trust_state = CONFIDENT, reason = why,
                      evidence = ev, assumptions = [], conflicts = [], calculation_inputs = [],
                      needs_human_review = False\<rparr>)
     in
     if ord_status ord = DELIVERED then
       answer (outcome cannot_cancel None)
         [T ''Order status is DELIVERED; the SOP says delivered orders cannot be cancelled.'']
         [order_evidence, default_cite]
     else if ord_status ord = PICKED_UP then
       answer (outcome cannot_cancel None)
         [T ''Order status is PICKED_UP; the SOP says use the return-to-origin workflow instead of cancellation. This applies even under an agreement's waiver - a cancellation-fee waiver explicitly stops applying once a shipment is PICKED_UP.'']
         [order_evidence, default_cite]
     else if ord_status ord = DRAFT then
       answer (outcome can_cancel (Some 0)) [T ''DRAFT orders may be cancelled with no fee.'']
         [order_evidence, default_cite]
     else
       (case ord_cancellation_requested_at ord of
          None \<Rightarrow>
            answer (outcome no_action_needed None)
              [T ''No cancellation has been requested for this order.''] [order_evidence]
        | Some requested \<Rightarrow>
            let minutes = minutes_of (dt_diff requested (ord_booked_at ord)) in
            bindE (resolve_applicability conn CANCELLATION_FEE (ord_account_id ord) (dt_date (now clk))
                     overrides defaults) (\<lambda>ap.
            bindE (of_optionE (KeyError (repr_str (winning_source_id ap)))
                     (dict_get fee_rules (winning_source_id ap))) (\<lambda>rl.
            bindE (apply_fee_rule rl minutes) (\<lambda>(fee, note).
            Inr \<lparr>result = Some \<lparr>co_decision = can_cancel, co_fee_inr = Some fee,
                     co_applicable_rule = clause_ref (winning_source_id ap) (winning_section ap),
                     co_order_status = ord_status ord, co_minutes_since_booking = Some minutes\<rparr>,
                 trust_state = trust_from (ap_needs_human_review ap) False,
                 reason = note @ [T ''. ''] @ ap_reason ap,
                 evidence = [order_evidence, cite_document conn (winning_source_id ap) (winning_section ap) None],
                 assumptions = [],
                 conflicts = override_conflicts ap (ord_account_id ord),
                 calculation_inputs =
                   [(''minutes_since_booking'', CFloat minutes),
                    (''booked_at'', CIso (ord_booked_at ord)),
                    (''cancellation_requested_at'', CIso requested)],
                 needs_human_review = ap_needs_human_review ap\<rparr>)))))))"

section \<open>The registry is complete\<close>

interpretation fee_registry:
  clause_registry CANCELLATION_FEE AGREEMENT_OVERRIDES DEFAULT_SOURCE DEFAULT_FEE_RULES
  by unfold_locales (auto simp: AGREEMENT_OVERRIDES_def DEFAULT_SOURCE_def DEFAULT_FEE_RULES_def)

lemma default_fee_rules_apply:
  assumes "dict_get DEFAULT_FEE_RULES sid = Some rl"
  shows "\<exists>fee note. apply_fee_rule rl minutes = Inr (fee, note) \<and> fee \<in> {0, 250}"
  using assms by (auto simp: DEFAULT_FEE_RULES_def apply_fee_rule_def split: if_splits)

lemma default_cancellation_clause [simp]:
  "default_clause DEFAULT_SOURCE CANCELLATION_FEE = Inr (Some (''SRC-03'', ''1''))"
  by (simp add: default_clause_def DEFAULT_SOURCE_def)

section \<open>The branches\<close>

text \<open>What a BOOKED order with a cancellation request comes to.\<close>

lemma evaluate_cancellation_booked:
  assumes "get_order conn k auth (tz_of clk) = Inr ord" "ord_status ord = BOOKED"
    and "ord_cancellation_requested_at ord = Some requested"
    and "evaluate_cancellation conn k auth clk rules overrides defaults = Inr d"
  obtains ap rl fee msg where
    "resolve_applicability conn CANCELLATION_FEE (ord_account_id ord) (dt_date (now clk)) overrides defaults = Inr ap"
    "dict_get rules (winning_source_id ap) = Some rl"
    "apply_fee_rule rl (minutes_of (dt_diff requested (ord_booked_at ord))) = Inr (fee, msg)"
    "\<exists>out. result d = Some out \<and> co_decision out = can_cancel \<and> co_fee_inr out = Some fee
       \<and> co_applicable_rule out = clause_ref (winning_source_id ap) (winning_section ap)"
    "conflicts d = override_conflicts ap (ord_account_id ord)"
    "needs_human_review d = ap_needs_human_review ap"
    "trust_state d = trust_from (ap_needs_human_review ap) False"
  using assms by (auto simp: evaluate_cancellation_def Let_def bindE_eq_Inr)

lemma evaluate_cancellation_past_pickup:
  assumes "get_order conn k auth (tz_of clk) = Inr ord" "ord_status ord \<in> {PICKED_UP, DELIVERED}"
    and "evaluate_cancellation conn k auth clk rules overrides defaults = Inr d"
  shows "\<exists>out. result d = Some out \<and> co_decision out = cannot_cancel \<and> co_fee_inr out = None
    \<and> trust_state d = CONFIDENT \<and> conflicts d = []"
  using assms by (auto simp: evaluate_cancellation_def Let_def bindE_eq_Inr)

lemma evaluate_cancellation_order:
  "evaluate_cancellation conn k auth clk rules overrides defaults = Inr d
    \<Longrightarrow> \<exists>ord. get_order conn k auth (tz_of clk) = Inr ord"
  by (auto simp: evaluate_cancellation_def bindE_eq_Inr)

section \<open>What the decision guarantees\<close>

lemma default_fee_rule_SRC03:
  "dict_get DEFAULT_FEE_RULES ''SRC-03'' =
     Some \<lparr>fr_kind = threshold_fee, fr_threshold_minutes = Some 30, fr_fee_inr = Some 250\<rparr>"
  by (simp add: DEFAULT_FEE_RULES_def)

lemma cancellation_override_is_northstar:
  "binding_override conn CANCELLATION_FEE a day AGREEMENT_OVERRIDES = Some ov \<Longrightarrow>
     a = ''ACCT-001'' \<and> ao_source_id ov = ''SRC-05''"
  by (drule binding_override_mem) (auto simp: AGREEMENT_OVERRIDES_def)

lemma threshold_fee_exact:
  "apply_fee_rule \<lparr>fr_kind = threshold_fee, fr_threshold_minutes = Some 30, fr_fee_inr = Some 250\<rparr> (minutes_of t)
     = Inr (fee, msg) \<Longrightarrow> fee = (if t \<le> timedelta_minutes 30 then 0 else 250)"
  using minutes_of_le_iff [of 30 t] by (auto simp: apply_fee_rule_def split: if_splits)

lemma cancellation_fails_only_on_lookup:
  assumes "evaluate_cancellation conn k auth clk DEFAULT_FEE_RULES AGREEMENT_OVERRIDES DEFAULT_SOURCE = Inl e"
  shows "get_order conn k auth (tz_of clk) = Inl e \<or>
    (\<exists>ord ov. get_order conn k auth (tz_of clk) = Inr ord \<and> ov \<in> set AGREEMENT_OVERRIDES
      \<and> ao_account_id ov = ord_account_id ord \<and> get_source conn (ao_source_id ov) = Inl e)"
proof (cases "get_order conn k auth (tz_of clk)")
  case (Inr ord)
  from assms Inr obtain requested where
    r: "ord_cancellation_requested_at ord = Some requested" "ord_status ord = BOOKED"
    by (cases "ord_status ord"; cases "ord_cancellation_requested_at ord")
      (simp_all add: evaluate_cancellation_def Let_def)
  show ?thesis
  proof (cases "resolve_applicability conn CANCELLATION_FEE (ord_account_id ord) (dt_date (now clk))
      AGREEMENT_OVERRIDES DEFAULT_SOURCE")
    case (Inl e')
    with assms Inr r have "e' = e" by (simp add: evaluate_cancellation_def Let_def)
    with fee_registry.resolve_fails_only_on_source [OF Inl] Inr show ?thesis by blast
  next
    case ap: (Inr ap)
    obtain rl where rl: "dict_get DEFAULT_FEE_RULES (winning_source_id ap) = Some rl"
      using fee_registry.winner_has_rule [OF ap] by blast
    obtain fee msg where "apply_fee_rule rl (minutes_of (dt_diff requested (ord_booked_at ord))) = Inr (fee, msg)"
      using default_fee_rules_apply [OF rl] by blast
    with assms Inr r ap rl show ?thesis by (simp add: evaluate_cancellation_def Let_def)
  qed
qed (use assms in \<open>simp add: evaluate_cancellation_def\<close>)

lemma evaluate_cancellation_returns:
  assumes "get_order conn k auth (tz_of clk) = Inr ord" "agreements_readable conn"
  obtains d where "evaluate_cancellation conn k auth clk DEFAULT_FEE_RULES AGREEMENT_OVERRIDES DEFAULT_SOURCE = Inr d"
proof (cases "evaluate_cancellation conn k auth clk DEFAULT_FEE_RULES AGREEMENT_OVERRIDES DEFAULT_SOURCE")
  case (Inl e)
  from cancellation_fails_only_on_lookup [OF this] assms show thesis
    by (auto simp: agreements_readable_def inrP_iff)
qed (rule that)

text \<open>C19. When no agreement in force covers the account, a BOOKED order whose cancellation was
  requested can be cancelled, free of charge exactly when the request came at most thirty
  minutes after the booking, to the microsecond, and for INR 250 otherwise.\<close>

theorem cancellation_fee_boundary:
  assumes "evaluate_cancellation conn k auth clk DEFAULT_FEE_RULES AGREEMENT_OVERRIDES DEFAULT_SOURCE = Inr d"
    and "get_order conn k auth (tz_of clk) = Inr ord" "ord_status ord = BOOKED"
    and "ord_cancellation_requested_at ord = Some requested"
    and none: "binding_override conn CANCELLATION_FEE (ord_account_id ord) (dt_date (now clk)) AGREEMENT_OVERRIDES = None"
  shows "\<exists>out. result d = Some out \<and> co_decision out = can_cancel \<and>
    co_fee_inr out = Some (if dt_diff requested (ord_booked_at ord) \<le> timedelta_minutes 30 then 0 else 250)"
proof -
  obtain ap rl fee msg where
    ap: "resolve_applicability conn CANCELLATION_FEE (ord_account_id ord) (dt_date (now clk)) AGREEMENT_OVERRIDES
          DEFAULT_SOURCE = Inr ap"
    and rl: "dict_get DEFAULT_FEE_RULES (winning_source_id ap) = Some rl"
      "apply_fee_rule rl (minutes_of (dt_diff requested (ord_booked_at ord))) = Inr (fee, msg)"
    and out: "\<exists>out. result d = Some out \<and> co_decision out = can_cancel \<and> co_fee_inr out = Some fee
      \<and> co_applicable_rule out = clause_ref (winning_source_id ap) (winning_section ap)"
    by (rule evaluate_cancellation_booked [OF assms(2-4,1)]) (rule that; assumption)
  from resolve_winner [OF ap] none have "winning_source_id ap = ''SRC-03''" by (simp add: DEFAULT_SOURCE_def)
  with rl(1) have "rl = \<lparr>fr_kind = threshold_fee, fr_threshold_minutes = Some 30, fr_fee_inr = Some 250\<rparr>"
    by (simp add: default_fee_rule_SRC03)
  with rl(2) have "fee = (if dt_diff requested (ord_booked_at ord) \<le> timedelta_minutes 30 then 0 else 250)"
    by (simp only: threshold_fee_exact)
  with out show ?thesis by blast
qed

theorem cancellation_fee_boundary_witness:
  "\<exists>d out. evaluate_cancellation sample_db ''ORD-3001'' admin sample_clock DEFAULT_FEE_RULES AGREEMENT_OVERRIDES
     DEFAULT_SOURCE = Inr d \<and> result d = Some out \<and> co_fee_inr out = Some 0"
proof -
  have "inrP (\<lambda>ord. ord_status ord = BOOKED \<and> ord_account_id ord = ''ACCT-003''
      \<and> ord_booked_at ord = \<lparr>wall = hm 8 0, utcoffset = ist\<rparr>
      \<and> ord_cancellation_requested_at ord = Some \<lparr>wall = hm 8 30, utcoffset = ist\<rparr>)
    (get_order sample_db ''ORD-3001'' admin (tz_of sample_clock))" by code_simp
  then obtain ord where ord: "get_order sample_db ''ORD-3001'' admin (tz_of sample_clock) = Inr ord"
    and o: "ord_status ord = BOOKED" "ord_account_id ord = ''ACCT-003''"
      "ord_booked_at ord = \<lparr>wall = hm 8 0, utcoffset = ist\<rparr>"
      "ord_cancellation_requested_at ord = Some \<lparr>wall = hm 8 30, utcoffset = ist\<rparr>"
    by (auto elim: inrP_E)
  obtain d where d: "evaluate_cancellation sample_db ''ORD-3001'' admin sample_clock DEFAULT_FEE_RULES
    AGREEMENT_OVERRIDES DEFAULT_SOURCE = Inr d"
    by (rule evaluate_cancellation_returns [OF ord sample_agreements_readable])
  have "binding_override sample_db CANCELLATION_FEE ''ACCT-003'' (dt_date (now sample_clock)) AGREEMENT_OVERRIDES = None"
    by code_simp
  then have "binding_override sample_db CANCELLATION_FEE (ord_account_id ord) (dt_date (now sample_clock)) AGREEMENT_OVERRIDES = None"
    by (simp only: o)
  from cancellation_fee_boundary [OF d ord o(1,4) this]
  obtain out where out: "result d = Some out"
    "co_fee_inr out = Some (if dt_diff \<lparr>wall = hm 8 30, utcoffset = ist\<rparr> (ord_booked_at ord) \<le> timedelta_minutes 30
       then 0 else 250)" by blast
  have "dt_diff \<lparr>wall = hm 8 30, utcoffset = ist\<rparr> (ord_booked_at ord) \<le> timedelta_minutes 30"
    unfolding o by code_simp
  with d out show ?thesis by simp
qed

text \<open>An order that was picked up or delivered is never cancellable, whatever rules and
  agreements are registered: no waiver reaches past pickup.\<close>

theorem cancellation_stops_at_pickup:
  assumes "evaluate_cancellation conn k auth clk rules overrides defaults = Inr d"
    and "get_order conn k auth (tz_of clk) = Inr ord" "ord_status ord \<in> {PICKED_UP, DELIVERED}"
  shows "\<exists>out. result d = Some out \<and> co_decision out = cannot_cancel \<and> co_fee_inr out = None \<and> conflicts d = []"
  using evaluate_cancellation_past_pickup [OF assms(2,3,1)] by blast

theorem cancellation_stops_at_pickup_witness:
  "\<exists>d out. evaluate_cancellation sample_db ''ORD-1002'' admin sample_clock DEFAULT_FEE_RULES AGREEMENT_OVERRIDES
     DEFAULT_SOURCE = Inr d \<and> result d = Some out \<and> co_decision out = cannot_cancel"
proof -
  have "inrP (\<lambda>ord. ord_status ord \<in> {PICKED_UP, DELIVERED})
    (get_order sample_db ''ORD-1002'' admin (tz_of sample_clock))" by code_simp
  then obtain ord where ord: "get_order sample_db ''ORD-1002'' admin (tz_of sample_clock) = Inr ord"
    and st: "ord_status ord \<in> {PICKED_UP, DELIVERED}" by (rule inrP_E)
  obtain d where d: "evaluate_cancellation sample_db ''ORD-1002'' admin sample_clock DEFAULT_FEE_RULES
    AGREEMENT_OVERRIDES DEFAULT_SOURCE = Inr d"
    by (rule evaluate_cancellation_returns [OF ord sample_agreements_readable])
  from cancellation_stops_at_pickup [OF d ord st] d show ?thesis by blast
qed

text \<open>A binding override of the cancellation fee is Northstar's own: it waives the fee at any
  age of the booking, and the decision records the SOP clause it displaced.\<close>

theorem cancellation_waiver:
  assumes "evaluate_cancellation conn k auth clk DEFAULT_FEE_RULES AGREEMENT_OVERRIDES DEFAULT_SOURCE = Inr d"
    and "get_order conn k auth (tz_of clk) = Inr ord" "ord_status ord = BOOKED"
    and "ord_cancellation_requested_at ord = Some requested"
    and bound: "binding_override conn CANCELLATION_FEE (ord_account_id ord) (dt_date (now clk)) AGREEMENT_OVERRIDES = Some ov"
  shows "ord_account_id ord = ''ACCT-001'' \<and>
    (\<exists>out. result d = Some out \<and> co_decision out = can_cancel \<and> co_fee_inr out = Some 0) \<and>
    (\<exists>c. conflicts d = [c] \<and> winner_source_id c = ''SRC-05'' \<and> loser_source_id c = ''SRC-03'')"
proof -
  obtain ap rl fee msg where
    ap: "resolve_applicability conn CANCELLATION_FEE (ord_account_id ord) (dt_date (now clk)) AGREEMENT_OVERRIDES
          DEFAULT_SOURCE = Inr ap"
    and rl: "dict_get DEFAULT_FEE_RULES (winning_source_id ap) = Some rl"
      "apply_fee_rule rl (minutes_of (dt_diff requested (ord_booked_at ord))) = Inr (fee, msg)"
    and out: "\<exists>out. result d = Some out \<and> co_decision out = can_cancel \<and> co_fee_inr out = Some fee
      \<and> co_applicable_rule out = clause_ref (winning_source_id ap) (winning_section ap)"
    and c: "conflicts d = override_conflicts ap (ord_account_id ord)"
    by (rule evaluate_cancellation_booked [OF assms(2-4,1)]) (rule that; assumption)
  note ov = cancellation_override_is_northstar [OF bound]
  from resolve_winner [OF ap] bound ov
  have w: "winning_source_id ap = ''SRC-05''" "overridden_source_id ap = Some ''SRC-03''"
    by (simp_all add: DEFAULT_SOURCE_def)
  from rl w(1) have "fee = 0" by (auto simp: DEFAULT_FEE_RULES_def apply_fee_rule_def)
  with out have "\<exists>out. result d = Some out \<and> co_decision out = can_cancel \<and> co_fee_inr out = Some 0" by blast
  moreover have "\<exists>c. conflicts d = [c] \<and> winner_source_id c = ''SRC-05'' \<and> loser_source_id c = ''SRC-03''"
    using c w by (simp add: override_conflicts_def)
  ultimately show ?thesis using ov by blast
qed

theorem cancellation_waiver_witness:
  "\<exists>d out. evaluate_cancellation sample_db ''ORD-1001'' admin sample_clock DEFAULT_FEE_RULES AGREEMENT_OVERRIDES
     DEFAULT_SOURCE = Inr d \<and> result d = Some out \<and> co_fee_inr out = Some 0"
proof -
  have "inrP (\<lambda>ord. ord_status ord = BOOKED \<and> ord_account_id ord = ''ACCT-001''
      \<and> ord_cancellation_requested_at ord = Some \<lparr>wall = hm 10 0, utcoffset = ist\<rparr>)
    (get_order sample_db ''ORD-1001'' admin (tz_of sample_clock))" by code_simp
  then obtain ord where ord: "get_order sample_db ''ORD-1001'' admin (tz_of sample_clock) = Inr ord"
    and o: "ord_status ord = BOOKED" "ord_account_id ord = ''ACCT-001''"
      "ord_cancellation_requested_at ord = Some \<lparr>wall = hm 10 0, utcoffset = ist\<rparr>"
    by (auto elim: inrP_E)
  obtain d where d: "evaluate_cancellation sample_db ''ORD-1001'' admin sample_clock DEFAULT_FEE_RULES
    AGREEMENT_OVERRIDES DEFAULT_SOURCE = Inr d"
    by (rule evaluate_cancellation_returns [OF ord sample_agreements_readable])
  have "binding_override sample_db CANCELLATION_FEE ''ACCT-001'' (dt_date (now sample_clock)) AGREEMENT_OVERRIDES \<noteq> None"
    by code_simp
  then obtain ov where "binding_override sample_db CANCELLATION_FEE (ord_account_id ord) (dt_date (now sample_clock))
    AGREEMENT_OVERRIDES = Some ov" unfolding o by blast
  from cancellation_waiver [OF d ord o(1,3) this] d show ?thesis by blast
qed

text \<open>With the registries of the source pack the decision fails only where a lookup of the
  database fails: reading the order, or reading the agreement of the order's own account. No
  rule is ever missing and no assertion fires.\<close>

theorem cancellation_registry_complete:
  assumes "evaluate_cancellation conn k auth clk DEFAULT_FEE_RULES AGREEMENT_OVERRIDES DEFAULT_SOURCE = Inl e"
  shows "get_order conn k auth (tz_of clk) = Inl e \<or>
    (\<exists>ord ov. get_order conn k auth (tz_of clk) = Inr ord \<and> ov \<in> set AGREEMENT_OVERRIDES
      \<and> ao_account_id ov = ord_account_id ord \<and> get_source conn (ao_source_id ov) = Inl e)"
  by (rule cancellation_fails_only_on_lookup [OF assms])

theorem cancellation_registry_complete_witness:
  "\<exists>e. evaluate_cancellation sample_db ''ORD-9'' admin sample_clock DEFAULT_FEE_RULES AGREEMENT_OVERRIDES DEFAULT_SOURCE
     = Inl e \<and> (get_order sample_db ''ORD-9'' admin (tz_of sample_clock) = Inl e \<or>
       (\<exists>ord ov. get_order sample_db ''ORD-9'' admin (tz_of sample_clock) = Inr ord \<and> ov \<in> set AGREEMENT_OVERRIDES
         \<and> ao_account_id ov = ord_account_id ord \<and> get_source sample_db (ao_source_id ov) = Inl e))"
proof -
  have "\<not> inrP (\<lambda>_. True) (evaluate_cancellation sample_db ''ORD-9'' admin sample_clock DEFAULT_FEE_RULES
    AGREEMENT_OVERRIDES DEFAULT_SOURCE)" by code_simp
  then obtain e where "evaluate_cancellation sample_db ''ORD-9'' admin sample_clock DEFAULT_FEE_RULES
    AGREEMENT_OVERRIDES DEFAULT_SOURCE = Inl e" by (auto simp: inrP_def split: sum.splits)
  from cancellation_registry_complete [OF this] this show ?thesis by blast
qed

end
