(* ===== verification/Service_Credit.thy ===== *)
theory Service_Credit
  imports Applicability
begin

text \<open>
  \<open>app/domain/service_credit.py\<close>: the failed-pickup service credit. Fault decides first, then
  the delay against the threshold of the winning source's rule, then the rule's formula.
\<close>

section \<open>Outcomes and rules\<close>

definition MANAGER_APPROVAL_THRESHOLD_INR :: pyfloat where
  "MANAGER_APPROVAL_THRESHOLD_INR = 1000"

datatype delay_reference = ref_pickup_actual_at | ref_snapshot

record service_credit_outcome =
  sc_eligible :: bool
  sc_credit_inr :: "pyfloat option"
  sc_applicable_rule :: string
  sc_delay_hours :: "pyfloat option"
  sc_delay_reference :: "delay_reference option"
  sc_manager_approval_required :: bool

datatype credit_rule_kind = percentage_with_cap | fixed_amount

record service_credit_rule =
  cr_threshold_hours :: pyfloat
  cr_kind :: credit_rule_kind
  cr_cap_inr :: "pyfloat option"
  cr_percentage :: "pyfloat option"
  cr_fixed_amount_inr :: "pyfloat option"

text \<open>\<open>min(cap, x)\<close> returns the first argument unless the second is smaller.\<close>

definition apply_credit_rule ::
  "service_credit_rule \<Rightarrow> pyfloat \<Rightarrow> pyfloat \<Rightarrow> error + bool \<times> pyfloat option \<times> fstr" where
  "apply_credit_rule rl delay_hours shipment_fee_inr =
     (if delay_hours \<le> cr_threshold_hours rl then
        Inr (False, None, [T ''delay is <= '', G (cr_threshold_hours rl), T '' hours; threshold not met''])
      else if cr_kind rl = fixed_amount then
        (case cr_fixed_amount_inr rl of
           None \<Rightarrow> Inl AssertionError
         | Some amount \<Rightarrow>
             Inr (True, Some amount,
               [T ''delay > '', G (cr_threshold_hours rl), T '' hours with carrier fault and no customer fault (fixed INR '',
                G amount, T '')'']))
      else
        (case (cr_cap_inr rl, cr_percentage rl) of
           (Some cap, Some percentage) \<Rightarrow>
             Inr (True, Some (min cap (fl (percentage * shipment_fee_inr))),
               [T ''delay > '', G (cr_threshold_hours rl),
                T '' hours with carrier fault and no customer fault (default formula: lower of INR '', G cap,
                T '' or '', Pct0 percentage, T '' of fee)''])
         | _ \<Rightarrow> Inl AssertionError))"

definition DEFAULT_CREDIT_RULES :: "(string \<times> service_credit_rule) list" where
  "DEFAULT_CREDIT_RULES =
     [(''SRC-03'', \<lparr>cr_threshold_hours = 2, cr_kind = percentage_with_cap, cr_cap_inr = Some 500,
                    cr_percentage = Some (fl (1 / 10)), cr_fixed_amount_inr = None\<rparr>),
      (''SRC-06'', \<lparr>cr_threshold_hours = 4, cr_kind = fixed_amount, cr_cap_inr = None,
                    cr_percentage = None, cr_fixed_amount_inr = Some 300\<rparr>)]"

section \<open>The decision\<close>

definition needs_manager :: "pyfloat option \<Rightarrow> bool" where
  "needs_manager credit = (case credit of None \<Rightarrow> False | Some c \<Rightarrow> c > MANAGER_APPROVAL_THRESHOLD_INR)"

definition evaluate_service_credit ::
  "db \<Rightarrow> string \<Rightarrow> auth_context \<Rightarrow> clock \<Rightarrow> (string \<times> service_credit_rule) list
    \<Rightarrow> agreement_override list \<Rightarrow> default_registry \<Rightarrow> error + service_credit_outcome decision" where
  "evaluate_service_credit conn order_id auth clk credit_rules overrides defaults =
     bindE (get_order conn order_id auth (tz_of clk)) (\<lambda>ord.
     bindE (default_clause defaults SERVICE_CREDIT_THRESHOLD_AND_AMOUNT) (\<lambda>default_source.
     bindE (of_optionE AssertionError default_source) (\<lambda>(default_source_id, default_section).
     let order_evidence = cite_structured ''orders'' (ord_id ord) None in
     if \<not> ord_carrier_fault ord \<or> ord_customer_fault ord then
       Inr \<lparr>result = Some \<lparr>sc_eligible = False, sc_credit_inr = None,
              sc_applicable_rule = default_source_id @ ''#'' @ default_section,
              sc_delay_hours = None, sc_delay_reference = None, sc_manager_approval_required = False\<rparr>,
            trust_state = CONFIDENT,
            reason = [T (''Not eligible: '' @
                (if \<not> ord_carrier_fault ord then ''carrier_fault is False'' else ''customer_fault is True'')
                @ ''. The SOP requires carrier fault and no customer-caused issue.'')],
            evidence = [order_evidence, cite_document conn default_source_id default_section None],
            assumptions = [], conflicts = [],
            calculation_inputs = [(''carrier_fault'', CBool (ord_carrier_fault ord)),
                                  (''customer_fault'', CBool (ord_customer_fault ord))],
            needs_human_review = False\<rparr>
     else
       let reference_dt = (case ord_pickup_actual_at ord of None \<Rightarrow> now clk | Some d \<Rightarrow> d);
           delay_ref = (if ord_pickup_actual_at ord = None then ref_snapshot else ref_pickup_actual_at);
           delay_hours = hours_of (dt_diff reference_dt (ord_pickup_window_end ord));
           assumed = (if ord_pickup_actual_at ord = None then
               [''pickup_actual_at is null; delay is measured from the dataset snapshot and is still accruing (ADR-006) - this is not a final delay figure'']
             else [])
       in
       bindE (resolve_applicability conn SERVICE_CREDIT_THRESHOLD_AND_AMOUNT (ord_account_id ord)
                (dt_date (now clk)) overrides defaults) (\<lambda>ap.
       bindE (of_optionE (KeyError (repr_str (winning_source_id ap)))
                (dict_get credit_rules (winning_source_id ap))) (\<lambda>rl.
       bindE (apply_credit_rule rl delay_hours (ord_shipment_fee_inr ord)) (\<lambda>(eligible, credit, msg).
       let manager_approval = needs_manager credit;
           review_required = (ap_needs_human_review ap \<or> manager_approval)
       in
       Inr \<lparr>result = Some \<lparr>sc_eligible = eligible, sc_credit_inr = credit,
              sc_applicable_rule = winning_source_id ap @ ''#'' @ winning_section ap,
              sc_delay_hours = Some delay_hours, sc_delay_reference = Some delay_ref,
              sc_manager_approval_required = manager_approval\<rparr>,
            trust_state = trust_from review_required (assumed \<noteq> []),
            reason = msg @ [T ''. ''] @ ap_reason ap @
              (if manager_approval then
                 [T '' Requires manager approval (individual credits above INR '',
                  G MANAGER_APPROVAL_THRESHOLD_INR, T '').''] else []),
            evidence = [order_evidence, cite_document conn (winning_source_id ap) (winning_section ap) None],
            assumptions = assumed,
            conflicts = override_conflicts ap (ord_account_id ord),
            calculation_inputs =
              [(''delay_hours'', CFloat delay_hours), (''shipment_fee_inr'', CFloat (ord_shipment_fee_inr ord)),
               (''carrier_fault'', CBool (ord_carrier_fault ord)), (''customer_fault'', CBool (ord_customer_fault ord))],
            needs_human_review = review_required\<rparr>))))))"

section \<open>The registry is complete and its amounts are bounded\<close>

interpretation credit_registry:
  clause_registry SERVICE_CREDIT_THRESHOLD_AND_AMOUNT AGREEMENT_OVERRIDES DEFAULT_SOURCE DEFAULT_CREDIT_RULES
  by unfold_locales (auto simp: AGREEMENT_OVERRIDES_def DEFAULT_SOURCE_def DEFAULT_CREDIT_RULES_def)

lemma default_credit_rules_apply:
  assumes "dict_get DEFAULT_CREDIT_RULES sid = Some rl"
  shows "\<exists>eligible credit msg. apply_credit_rule rl h fee = Inr (eligible, credit, msg)
    \<and> (eligible \<longleftrightarrow> credit \<noteq> None) \<and> (\<forall>c. credit = Some c \<longrightarrow> c \<le> 500)"
  using assms by (auto simp: DEFAULT_CREDIT_RULES_def apply_credit_rule_def split: if_splits)

lemma default_credit_clause [simp]:
  "default_clause DEFAULT_SOURCE SERVICE_CREDIT_THRESHOLD_AND_AMOUNT = Inr (Some (''SRC-03'', ''2''))"
  by (simp add: default_clause_def DEFAULT_SOURCE_def)

section \<open>The branches\<close>

definition pickup_delay :: "order \<Rightarrow> clock \<Rightarrow> timedelta" where
  "pickup_delay ord clk =
     dt_diff (case ord_pickup_actual_at ord of None \<Rightarrow> now clk | Some d \<Rightarrow> d) (ord_pickup_window_end ord)"

lemma evaluate_service_credit_fault:
  assumes "get_order conn k auth (tz_of clk) = Inr ord" "ord_carrier_fault ord" "\<not> ord_customer_fault ord"
    and "evaluate_service_credit conn k auth clk rules overrides defaults = Inr d"
  obtains ap rl eligible credit msg where
    "resolve_applicability conn SERVICE_CREDIT_THRESHOLD_AND_AMOUNT (ord_account_id ord) (dt_date (now clk))
       overrides defaults = Inr ap"
    "dict_get rules (winning_source_id ap) = Some rl"
    "apply_credit_rule rl (hours_of (pickup_delay ord clk)) (ord_shipment_fee_inr ord) = Inr (eligible, credit, msg)"
    "\<exists>out. result d = Some out \<and> sc_eligible out = eligible \<and> sc_credit_inr out = credit
       \<and> sc_manager_approval_required out = needs_manager credit"
    "needs_human_review d \<longleftrightarrow> ap_needs_human_review ap \<or> needs_manager credit"
    "assumptions d \<noteq> [] \<longleftrightarrow> ord_pickup_actual_at ord = None"
    "trust_state d = trust_from (needs_human_review d) (assumptions d \<noteq> [])"
  using assms by (auto simp: evaluate_service_credit_def Let_def bindE_eq_Inr pickup_delay_def)

lemma evaluate_service_credit_no_fault:
  assumes "get_order conn k auth (tz_of clk) = Inr ord" "\<not> ord_carrier_fault ord \<or> ord_customer_fault ord"
    and "evaluate_service_credit conn k auth clk rules overrides defaults = Inr d"
  shows "\<exists>out. result d = Some out \<and> \<not> sc_eligible out \<and> sc_credit_inr out = None
    \<and> \<not> sc_manager_approval_required out \<and> trust_state d = CONFIDENT \<and> \<not> needs_human_review d"
  using assms by (auto simp: evaluate_service_credit_def Let_def bindE_eq_Inr)

lemma evaluate_service_credit_order:
  "evaluate_service_credit conn k auth clk rules overrides defaults = Inr d
    \<Longrightarrow> \<exists>ord. get_order conn k auth (tz_of clk) = Inr ord"
  by (auto simp: evaluate_service_credit_def bindE_eq_Inr)

section \<open>What the decision guarantees\<close>

abbreviation credit_topic :: clause_topic where
  "credit_topic \<equiv> SERVICE_CREDIT_THRESHOLD_AND_AMOUNT"

abbreviation pack_credit :: "db \<Rightarrow> string \<Rightarrow> auth_context \<Rightarrow> clock \<Rightarrow> error + service_credit_outcome decision" where
  "pack_credit conn k auth clk \<equiv>
     evaluate_service_credit conn k auth clk DEFAULT_CREDIT_RULES AGREEMENT_OVERRIDES DEFAULT_SOURCE"

lemma credit_fails_only_on_lookup:
  assumes "pack_credit conn k auth clk = Inl e"
  shows "get_order conn k auth (tz_of clk) = Inl e \<or>
    (\<exists>ord ov. get_order conn k auth (tz_of clk) = Inr ord \<and> ov \<in> set AGREEMENT_OVERRIDES
      \<and> ao_account_id ov = ord_account_id ord \<and> get_source conn (ao_source_id ov) = Inl e)"
proof (cases "get_order conn k auth (tz_of clk)")
  case (Inr ord)
  note run = assms [unfolded evaluate_service_credit_def Inr bindE.simps default_credit_clause of_optionE_eq prod.case Let_def]
  from run have f: "\<not> (\<not> ord_carrier_fault ord \<or> ord_customer_fault ord)" by (auto split: if_splits)
  note run = run [unfolded if_not_P [OF f]]
  show ?thesis
  proof (cases "resolve_applicability conn credit_topic (ord_account_id ord) (dt_date (now clk))
      AGREEMENT_OVERRIDES DEFAULT_SOURCE")
    case (Inl e')
    with run have "e' = e" by simp
    with credit_registry.resolve_fails_only_on_source [OF Inl] Inr show ?thesis by blast
  next
    case ap: (Inr ap)
    obtain rl where rl: "dict_get DEFAULT_CREDIT_RULES (winning_source_id ap) = Some rl"
      using credit_registry.winner_has_rule [OF ap] by blast
    from run ap rl default_credit_rules_apply [OF rl, of "hours_of (pickup_delay ord clk)" "ord_shipment_fee_inr ord"]
    show ?thesis by (auto simp: pickup_delay_def)
  qed
qed (use assms in \<open>simp add: evaluate_service_credit_def\<close>)

lemma evaluate_service_credit_returns:
  assumes "get_order conn k auth (tz_of clk) = Inr ord" "agreements_readable conn"
  obtains d where "pack_credit conn k auth clk = Inr d"
proof (cases "pack_credit conn k auth clk")
  case (Inl e)
  from credit_fails_only_on_lookup [OF this] assms show thesis
    by (auto simp: agreements_readable_def inrP_iff)
qed (rule that)

lemma credit_rule_of_winner:
  assumes ap: "resolve_applicability conn credit_topic a day AGREEMENT_OVERRIDES DEFAULT_SOURCE = Inr ap"
    and rl: "dict_get DEFAULT_CREDIT_RULES (winning_source_id ap) = Some rl"
  shows "rl = (if binding_override conn credit_topic a day AGREEMENT_OVERRIDES = None
     then \<lparr>cr_threshold_hours = 2, cr_kind = percentage_with_cap, cr_cap_inr = Some 500,
            cr_percentage = Some (fl (1 / 10)), cr_fixed_amount_inr = None\<rparr>
     else \<lparr>cr_threshold_hours = 4, cr_kind = fixed_amount, cr_cap_inr = None,
            cr_percentage = None, cr_fixed_amount_inr = Some 300\<rparr>)"
proof (cases "binding_override conn credit_topic a day AGREEMENT_OVERRIDES")
  case None
  with resolve_winner [OF ap] have "winning_source_id ap = ''SRC-03''" by (simp add: DEFAULT_SOURCE_def)
  with rl None show ?thesis by (simp add: DEFAULT_CREDIT_RULES_def)
next
  case (Some ov)
  from binding_override_mem [OF Some] have "ao_source_id ov = ''SRC-06''" by (auto simp: AGREEMENT_OVERRIDES_def)
  with resolve_winner [OF ap] Some have "winning_source_id ap = ''SRC-06''" by simp
  with rl Some show ?thesis by (simp add: DEFAULT_CREDIT_RULES_def)
qed

lemma delay_threshold:
  "hours_of t \<le> 2 \<longleftrightarrow> t \<le> timedelta_minutes 120" "hours_of t \<le> 4 \<longleftrightarrow> t \<le> timedelta_minutes 240"
  using hours_of_le_iff [of 2 t] hours_of_le_iff [of 4 t] by simp_all

text \<open>C24. A credit is granted exactly when the carrier is at fault, the customer is not, and the
  pickup is later than the governing threshold: two hours by the SOP, four under an agreement
  in force. An open pickup is measured at the snapshot. The amount is the lower of INR 500 and
  a tenth of the fee, in floating point, or the agreement's fixed INR 300.\<close>

theorem service_credit_eligibility:
  assumes run: "evaluate_service_credit conn k auth clk DEFAULT_CREDIT_RULES AGREEMENT_OVERRIDES DEFAULT_SOURCE = Inr d"
    and ord: "get_order conn k auth (tz_of clk) = Inr ord"
  shows "\<exists>out. result d = Some out \<and>
    (let standard = binding_override conn SERVICE_CREDIT_THRESHOLD_AND_AMOUNT (ord_account_id ord)
           (dt_date (now clk)) AGREEMENT_OVERRIDES = None;
         eligible = (ord_carrier_fault ord \<and> \<not> ord_customer_fault ord \<and>
           timedelta_minutes (if standard then 120 else 240) < pickup_delay ord clk)
     in (sc_eligible out \<longleftrightarrow> eligible) \<and>
        sc_credit_inr out =
          (if \<not> eligible then None
           else if standard then Some (min 500 (fl (fl (1 / 10) * ord_shipment_fee_inr ord))) else Some 300))"
proof (cases "ord_carrier_fault ord \<and> \<not> ord_customer_fault ord")
  case False
  with evaluate_service_credit_no_fault [OF ord _ run] show ?thesis by (auto simp: Let_def)
next
  case True
  then have f: "ord_carrier_fault ord" "\<not> ord_customer_fault ord" by auto
  obtain ap rl eligible credit msg where
    ap: "resolve_applicability conn credit_topic (ord_account_id ord) (dt_date (now clk))
       AGREEMENT_OVERRIDES DEFAULT_SOURCE = Inr ap"
    and rl: "dict_get DEFAULT_CREDIT_RULES (winning_source_id ap) = Some rl"
    and app: "apply_credit_rule rl (hours_of (pickup_delay ord clk)) (ord_shipment_fee_inr ord) = Inr (eligible, credit, msg)"
    and out: "\<exists>out. result d = Some out \<and> sc_eligible out = eligible \<and> sc_credit_inr out = credit
       \<and> sc_manager_approval_required out = needs_manager credit"
    by (rule evaluate_service_credit_fault [OF ord f run]) (rule that; assumption)
  from app credit_rule_of_winner [OF ap rl] out f show ?thesis
    by (cases "binding_override conn credit_topic (ord_account_id ord) (dt_date (now clk)) AGREEMENT_OVERRIDES = None")
      (auto simp: apply_credit_rule_def Let_def delay_threshold split: if_splits)
qed

theorem service_credit_eligibility_witness:
  "\<exists>d out. pack_credit sample_db ''ORD-2002'' admin sample_clock = Inr d \<and> result d = Some out
     \<and> sc_eligible out \<and> sc_credit_inr out = Some 300"
proof -
  have "inrP (\<lambda>ord. ord_account_id ord = ''ACCT-002'' \<and> ord_carrier_fault ord \<and> \<not> ord_customer_fault ord
      \<and> timedelta_minutes 240 < pickup_delay ord sample_clock)
    (get_order sample_db ''ORD-2002'' admin (tz_of sample_clock))" by code_simp
  then obtain ord where ord: "get_order sample_db ''ORD-2002'' admin (tz_of sample_clock) = Inr ord"
    and o: "ord_account_id ord = ''ACCT-002''" "ord_carrier_fault ord" "\<not> ord_customer_fault ord"
      "timedelta_minutes 240 < pickup_delay ord sample_clock"
    by (auto elim: inrP_E)
  obtain d where d: "pack_credit sample_db ''ORD-2002'' admin sample_clock = Inr d"
    by (rule evaluate_service_credit_returns [OF ord sample_agreements_readable])
  have "binding_override sample_db credit_topic ''ACCT-002'' (dt_date (now sample_clock)) AGREEMENT_OVERRIDES \<noteq> None"
    by code_simp
  with service_credit_eligibility [OF d ord] o d show ?thesis by (auto simp: Let_def)
qed

text \<open>Whatever rules and agreements are registered, a credit above INR 1,000 asks for a
  manager and escalates the decision, and no other credit does so on its own account.\<close>

theorem service_credit_manager_gate:
  assumes run: "evaluate_service_credit conn k auth clk rules overrides defaults = Inr d"
  shows "\<exists>out. result d = Some out \<and>
    (sc_manager_approval_required out \<longleftrightarrow> (\<exists>c. sc_credit_inr out = Some c \<and> 1000 < c)) \<and>
    (sc_manager_approval_required out \<longrightarrow> trust_state d = ESCALATE \<and> needs_human_review d)"
proof -
  obtain ord where ord: "get_order conn k auth (tz_of clk) = Inr ord"
    using evaluate_service_credit_order [OF run] by blast
  show ?thesis
  proof (cases "ord_carrier_fault ord \<and> \<not> ord_customer_fault ord")
    case False
    with evaluate_service_credit_no_fault [OF ord _ run] show ?thesis by auto
  next
    case True
    then have f: "ord_carrier_fault ord" "\<not> ord_customer_fault ord" by auto
    obtain ap :: applicability_result and credit eligible where
      out: "\<exists>out. result d = Some out \<and> sc_eligible out = eligible \<and> sc_credit_inr out = credit
         \<and> sc_manager_approval_required out = needs_manager credit"
      and "needs_human_review d \<longleftrightarrow> ap_needs_human_review ap \<or> needs_manager credit"
      and "trust_state d = trust_from (needs_human_review d) (assumptions d \<noteq> [])"
      by (rule evaluate_service_credit_fault [OF ord f run]) (rule that; assumption)
    then show ?thesis
      by (auto simp: needs_manager_def trust_from_def MANAGER_APPROVAL_THRESHOLD_INR_def split: option.splits)
  qed
qed

theorem service_credit_manager_gate_witness:
  "\<exists>d out. pack_credit sample_db ''ORD-2002'' admin sample_clock = Inr d \<and> result d = Some out
     \<and> (sc_manager_approval_required out \<longleftrightarrow> (\<exists>c. sc_credit_inr out = Some c \<and> 1000 < c))"
proof -
  have "inrP (\<lambda>_. True) (get_order sample_db ''ORD-2002'' admin (tz_of sample_clock))" by code_simp
  then obtain ord where ord: "get_order sample_db ''ORD-2002'' admin (tz_of sample_clock) = Inr ord" by (rule inrP_E)
  obtain d where d: "pack_credit sample_db ''ORD-2002'' admin sample_clock = Inr d"
    by (rule evaluate_service_credit_returns [OF ord sample_agreements_readable])
  from service_credit_manager_gate [OF d] d show ?thesis by blast
qed

end
