(* ===== verification/Hashing.thy ===== *)
theory Hashing
  imports Prelude "HOL-Library.Word"
begin

text \<open>
  The two standard-library routines behind the program's identifiers: \<open>hashlib.sha256\<close> on a
  text, with its hexadecimal digest, and \<open>json.dumps\<close> with \<open>sort_keys=True\<close> on the flat
  dictionaries the program serialises.
\<close>

unbundle bit_operations_syntax

section \<open>SHA-256\<close>

type_synonym w32 = "32 word"

text \<open>
  The standard's constants are the first 32 fractional bits of the cube roots of the first 64
  primes, and of the square roots of the first eight. The integer root is found bit by bit.
\<close>

fun iroot :: "nat \<Rightarrow> nat \<Rightarrow> nat \<Rightarrow> nat \<Rightarrow> nat" where
  "iroot e n 0 acc = acc"
| "iroot e n (Suc b) acc = (if (acc + 2 ^ b) ^ e \<le> n then iroot e n b (acc + 2 ^ b) else iroot e n b acc)"

definition frac_root_bits :: "nat \<Rightarrow> nat \<Rightarrow> w32" where
  "frac_root_bits e p = word_of_nat (iroot e (p * 2 ^ (32 * e)) 40 0)"

definition primes_below :: "nat \<Rightarrow> nat list" where
  "primes_below n = filter (\<lambda>p. \<forall>d \<in> set [2..<p]. p mod d \<noteq> 0) [2..<n]"

definition sha_k :: "w32 list" where
  "sha_k = map (frac_root_bits 3) (primes_below 312)"

definition sha_init :: "w32 list" where
  "sha_init = map (frac_root_bits 2) [2, 3, 5, 7, 11, 13, 17, 19]"

lemma iroot_bounds:
  assumes "0 < e" "acc ^ e \<le> n" "n < (acc + 2 ^ b) ^ e"
  shows "iroot e n b acc ^ e \<le> n \<and> n < Suc (iroot e n b acc) ^ e"
  using assms(2,3)
proof (induction b arbitrary: acc)
  case (Suc b)
  then show ?case using Suc.IH [of acc] Suc.IH [of "acc + 2 ^ b"] by (auto simp: algebra_simps mult_2)
qed simp

text \<open>The forty bits suffice for every prime used: the result is the floor of the root.\<close>

lemma frac_root_exact:
  assumes "e = 2 \<or> e = 3" "p < 2 ^ 9"
  shows "iroot e (p * 2 ^ (32 * e)) 40 0 ^ e \<le> p * 2 ^ (32 * e)
    \<and> p * 2 ^ (32 * e) < Suc (iroot e (p * 2 ^ (32 * e)) 40 0) ^ e"
proof (rule iroot_bounds)
  have "p * 2 ^ (32 * e) < 2 ^ 9 * 2 ^ (32 * e)" using assms(2) by simp
  also have "\<dots> \<le> (0 + 2 ^ 40) ^ e" using assms(1) by auto
  finally show "p * 2 ^ (32 * e) < (0 + 2 ^ 40) ^ e" .
qed (use assms in auto)

definition rotr :: "nat \<Rightarrow> w32 \<Rightarrow> w32" where
  "rotr n x = (drop_bit n x) OR (push_bit (32 - n) x)"

definition big_sigma0 :: "w32 \<Rightarrow> w32" where
  "big_sigma0 x = rotr 2 x XOR rotr 13 x XOR rotr 22 x"
definition big_sigma1 :: "w32 \<Rightarrow> w32" where
  "big_sigma1 x = rotr 6 x XOR rotr 11 x XOR rotr 25 x"
definition small_sigma0 :: "w32 \<Rightarrow> w32" where
  "small_sigma0 x = rotr 7 x XOR rotr 18 x XOR drop_bit 3 x"
definition small_sigma1 :: "w32 \<Rightarrow> w32" where
  "small_sigma1 x = rotr 17 x XOR rotr 19 x XOR drop_bit 10 x"

text \<open>The message schedule, built backwards: the newest word first.\<close>

fun schedule :: "nat \<Rightarrow> w32 list \<Rightarrow> w32 list" where
  "schedule 0 ws = ws"
| "schedule (Suc n) ws =
     schedule n ((small_sigma1 (ws ! 1) + ws ! 6 + small_sigma0 (ws ! 14) + ws ! 15) # ws)"

fun sha_round :: "w32 list \<Rightarrow> w32 \<times> w32 \<Rightarrow> w32 list" where
  "sha_round [a, b, c, d, e, f, g, h] (k, w) =
     (let t1 = h + big_sigma1 e + ((e AND f) XOR (NOT e AND g)) + k + w;
          t2 = big_sigma0 a + ((a AND b) XOR (a AND c) XOR (b AND c))
      in [t1 + t2, a, b, c, d + t1, e, f, g])"
| "sha_round s _ = s"

definition compress :: "w32 list \<Rightarrow> w32 list \<Rightarrow> w32 list" where
  "compress st block = map2 (+) st (foldl sha_round st (zip sha_k (rev (schedule 48 (rev block)))))"

fun be_words :: "nat list \<Rightarrow> w32 list" where
  "be_words (a # b # c # d # bs) = word_of_nat (((a * 256 + b) * 256 + c) * 256 + d) # be_words bs"
| "be_words _ = []"

fun be_bytes :: "nat \<Rightarrow> nat \<Rightarrow> nat list" where
  "be_bytes 0 v = []"
| "be_bytes (Suc n) v = be_bytes n (v div 256) @ [v mod 256]"

definition sha_pad :: "nat list \<Rightarrow> nat list" where
  "sha_pad bs = bs @ [128] @ replicate ((119 - length bs mod 64) mod 64) 0 @ be_bytes 8 (8 * length bs)"

fun blocks :: "nat \<Rightarrow> 'a list \<Rightarrow> 'a list list" where
  "blocks 0 xs = []"
| "blocks (Suc k) xs = (if xs = [] then [] else take 16 xs # blocks k (drop 16 xs))"

definition hexd :: "nat \<Rightarrow> char" where
  "hexd n = (if n < 10 then char_of (n + 48) else char_of (n + 87))"

definition hex_word :: "w32 \<Rightarrow> string" where
  "hex_word w = concat (map (\<lambda>b. [hexd (b div 16), hexd (b mod 16)]) (be_bytes 4 (unat w)))"

definition sha256_hex :: "string \<Rightarrow> string" where
  "sha256_hex s =
     (let ws = be_words (sha_pad (map of_char s))
      in concat (map hex_word (foldl compress sha_init (blocks (length ws) ws))))"

lemma length_sha_round [simp]: "length (sha_round s kw) = length s"
  by (induction s kw rule: sha_round.induct) (simp_all add: Let_def)

lemma length_sha_rounds [simp]: "length (foldl sha_round s kws) = length s"
  by (induction kws arbitrary: s) simp_all

lemma length_compress [simp]: "length (compress st block) = length st"
  by (simp add: compress_def)

lemma length_digest [simp]: "length (foldl compress st bs) = length st"
  by (induction bs arbitrary: st) simp_all

lemma length_be_bytes [simp]: "length (be_bytes n v) = n"
  by (induction n arbitrary: v) simp_all

lemma length_concat_const:
  "(\<And>x. x \<in> set xs \<Longrightarrow> length (f x) = n) \<Longrightarrow> length (concat (map f xs)) = length xs * n"
  by (induction xs) simp_all

lemma length_sha256_hex [simp]: "length (sha256_hex s) = 64"
proof -
  have "length (hex_word w) = 8" for w
    unfolding hex_word_def by (subst length_concat_const [where n = 2]) simp_all
  then show ?thesis
    unfolding sha256_hex_def Let_def
    by (subst length_concat_const [where n = 8]) (simp_all add: sha_init_def)
qed

section \<open>JSON of a flat dictionary\<close>

definition json_char :: "char \<Rightarrow> string" where
  "json_char c =
     (let n = (of_char c :: nat) in
      if c = CHR 0x22 \<or> c = CHR 0x5C then [CHR 0x5C, c]
      else if n = 10 then [CHR 0x5C, CHR ''n'']
      else if n = 13 then [CHR 0x5C, CHR ''r'']
      else if n = 9 then [CHR 0x5C, CHR ''t'']
      else if n = 8 then [CHR 0x5C, CHR ''b'']
      else if n = 12 then [CHR 0x5C, CHR ''f'']
      else if n < 32 \<or> 126 < n then [CHR 0x5C, CHR ''u'', CHR ''0'', CHR ''0'', hexd (n div 16), hexd (n mod 16)]
      else [c])"

definition json_string :: "string \<Rightarrow> string" where
  "json_string s = [CHR 0x22] @ concat (map json_char s) @ [CHR 0x22]"

definition json_object :: "(string \<times> string) list \<Rightarrow> string" where
  "json_object kvs =
     ''{'' @ join '', '' (map (\<lambda>(k, v). json_string k @ '': '' @ v) (sort_key fst kvs)) @ ''}''"

text \<open>Key order in the dictionary does not reach the text.\<close>

lemma json_object_perm:
  assumes "distinct (map fst kvs)" "set kvs = set kvs'" "distinct (map fst kvs')"
  shows "json_object kvs = json_object kvs'"
proof -
  have inj: "inj_on fst (set kvs)" using assms(1) by (simp add: distinct_map)
  have "sort_key fst kvs = sort_key fst kvs'"
  proof (rule map_inj_on [of fst])
    show "map fst (sort_key fst kvs) = map fst (sort_key fst kvs')"
    proof (rule sorted_distinct_set_unique)
      show "distinct (map fst (sort_key fst kvs))" "distinct (map fst (sort_key fst kvs'))"
        using assms by (simp_all add: distinct_map)
    qed (simp_all add: assms(2))
    show "inj_on fst (set (sort_key fst kvs) \<union> set (sort_key fst kvs'))"
      using inj by (simp flip: assms(2))
  qed
  then show ?thesis by (simp only: json_object_def)
qed

end
