(* ===== verification/Detection.thy ===== *)
theory Detection
  imports Sla Hashing Py_Regex
begin

text \<open>
  \<open>app/detection/models.py\<close>, \<open>fingerprint.py\<close> and \<open>rules.py\<close>: the alert candidates, their
  deterministic ids and the six detection rules. \<open>detection_rule\<close> is the contract the radar
  relies on; it is interpreted on each rule.
\<close>

section \<open>Alerts\<close>

datatype alert_type =
  SLA_BREACH | SLA_APPROACHING | RECURRING_ISSUE | KNOWN_ISSUE_PATTERN | CARRIER_PATTERN | OVERDUE_PICKUP

fun alert_type_value :: "alert_type \<Rightarrow> string" where
  "alert_type_value SLA_BREACH = ''sla_breach''"
| "alert_type_value SLA_APPROACHING = ''sla_approaching''"
| "alert_type_value RECURRING_ISSUE = ''recurring_issue''"
| "alert_type_value KNOWN_ISSUE_PATTERN = ''known_issue_pattern''"
| "alert_type_value CARRIER_PATTERN = ''carrier_pattern''"
| "alert_type_value OVERDUE_PICKUP = ''overdue_pickup''"

datatype alert_severity = LOW | MEDIUM | HIGH | CRITICAL

record alert_candidate =
  al_id :: string
  al_type :: alert_type
  al_severity :: alert_severity
  al_title :: string
  al_reason :: fstr
  al_observed_count :: int
  al_threshold :: int
  al_time_window :: string
  al_records :: "string list"
  al_accounts :: "string list"
  al_evidence :: "evidence_ref list"
  al_next_step :: string
  al_trust_state :: trust_state
  al_rule_version :: string

definition fingerprint_key :: "alert_type \<Rightarrow> string \<Rightarrow> string \<Rightarrow> string list \<Rightarrow> string" where
  "fingerprint_key typ window version entities =
     join ''|'' [alert_type_value typ, window, version, join '','' (sorted_set entities)]"

definition compute_alert_id :: "alert_type \<Rightarrow> string \<Rightarrow> string \<Rightarrow> string list \<Rightarrow> string" where
  "compute_alert_id typ window version entities =
     ''ALERT-'' @ take 16 (sha256_hex (fingerprint_key typ window version entities))"

section \<open>Constants\<close>

definition DEFAULT_APPROACHING_WARNING_RATIO :: pyfloat where
  "DEFAULT_APPROACHING_WARNING_RATIO = 1 / 4"
definition DEFAULT_RECURRING_SEVERITY_THRESHOLD :: int where
  "DEFAULT_RECURRING_SEVERITY_THRESHOLD = 2"
definition DEFAULT_CARRIER_FAULT_THRESHOLD :: int where
  "DEFAULT_CARRIER_FAULT_THRESHOLD = 2"
definition DEFAULT_KNOWN_ISSUE_MIN_OCCURRENCES :: int where
  "DEFAULT_KNOWN_ISSUE_MIN_OCCURRENCES = 1"
definition MIN_SHARED_TOKENS :: nat where
  "MIN_SHARED_TOKENS = 2"
definition DEFAULT_WINDOW_DAYS :: int where
  "DEFAULT_WINDOW_DAYS = 30"

definition KI_ID :: re where
  "KI_ID = seqs [WordB, lit ''KI-'', Many 1 (Cls is_digit), WordB]"

definition TOKEN :: re where
  "TOKEN = Many 4 (Cls is_lower)"

definition STOPWORDS :: "string list" where
  "STOPWORDS =
     [''the'', ''a'', ''an'', ''and'', ''or'', ''of'', ''to'', ''for'', ''in'', ''on'', ''at'', ''is'', ''are'',
      ''was'', ''were'', ''be'', ''this'', ''that'', ''with'', ''by'', ''as'', ''it'', ''its'', ''opened'',
      ''status'', ''investigating'', ''current'', ''known'', ''issue'', ''issues'', ''some'', ''even'',
      ''though'', ''remains'', ''product'', ''limit'', ''customers'', ''experience'', ''above'',
      ''approximately'', ''customer'', ''while'', ''still'', ''before'', ''arrive'', ''telling'',
      ''shipment'', ''shipments'', ''creation'', ''creating'', ''order'', ''orders'',
      ''account'', ''accounts'', ''user'', ''users'']"

definition significant_tokens :: "string \<Rightarrow> string list" where
  "significant_tokens text = filter (\<lambda>t. t \<notin> set STOPWORDS) (findall TOKEN (lower text))"

definition shared_tokens :: "string list \<Rightarrow> string list \<Rightarrow> nat" where
  "shared_tokens a b = length (remdups (filter (\<lambda>t. t \<in> set b) a))"

definition point_in_time :: string where
  "point_in_time = ''point-in-time (dataset snapshot)''"

definition days_window :: "int \<Rightarrow> string" where
  "days_window n = str_of_int n @ ''d''"

section \<open>SLA breached and SLA approaching\<close>

definition breach_alert :: "ticket \<Rightarrow> sla_outcome decision \<Rightarrow> sla_outcome \<Rightarrow> alert_candidate" where
  "breach_alert t res out =
     (let elapsed = (case sla_elapsed_minutes_past_deadline out of None \<Rightarrow> 0 | Some x \<Rightarrow> x);
          sev = severity_value (sla_severity out)
      in \<lparr>al_id = compute_alert_id SLA_BREACH ''point-in-time'' ''v1'' [tkt_id t],
          al_type = SLA_BREACH,
          al_severity = (if sla_severity out = P1 then CRITICAL else HIGH),
          al_title = sev @ '' SLA breach: '' @ tkt_id t,
          al_reason = [T (tkt_id t @ '' ('' @ sev @ '') is ''), F0 elapsed,
            T ('' minutes past its first-response deadline ('' @ sla_target_text out @ '').'')],
          al_observed_count = 1, al_threshold = 1, al_time_window = point_in_time,
          al_records = [tkt_id t], al_accounts = [tkt_account_id t],
          al_evidence = cite_structured ''tickets'' (tkt_id t) (Some (tkt_subject t)) # evidence res,
          al_next_step = ''Review for immediate escalation (prepare_escalation requires separate confirmation before anything is actually escalated).'',
          al_trust_state = trust_state res, al_rule_version = ''v1''\<rparr>)"

definition is_breach :: "sla_outcome decision \<Rightarrow> sla_outcome \<Rightarrow> bool" where
  "is_breach res out =
     (if sla_severity out \<notin> {P1, P2} then False
      else if trust_state res \<noteq> CONFIDENT then False
      else sla_breached out = Some True)"

definition detect_sla_breaches ::
  "db \<Rightarrow> auth_context \<Rightarrow> clock \<Rightarrow> agreement_override list \<Rightarrow> default_registry \<Rightarrow> error + alert_candidate list" where
  "detect_sla_breaches conn auth clk overrides defaults =
     bindE (search_tickets conn auth (tz_of clk) None (Some OPEN)) (\<lambda>tickets.
     collectE (\<lambda>t.
       bindE (calculate_sla conn (tkt_id t) auth clk overrides defaults) (\<lambda>res.
       Inr (case result res of
              None \<Rightarrow> None
            | Some out \<Rightarrow> if is_breach res out then Some (breach_alert t res out) else None))) tickets)"

definition approaching_alert :: "ticket \<Rightarrow> sla_outcome decision \<Rightarrow> sla_outcome \<Rightarrow> int \<Rightarrow> pyfloat \<Rightarrow> alert_candidate" where
  "approaching_alert t res out minutes remaining =
     (let sev = severity_value (sla_severity out)
      in \<lparr>al_id = compute_alert_id SLA_APPROACHING ''point-in-time'' ''v1'' [tkt_id t],
          al_type = SLA_APPROACHING,
          al_severity = (if sla_severity out = P1 then HIGH else MEDIUM),
          al_title = sev @ '' SLA approaching: '' @ tkt_id t,
          al_reason = [T (tkt_id t @ '' ('' @ sev @ '') has ''), F0 remaining, T '' of '', IntT minutes,
            T '' minutes remaining before its first-response deadline.''],
          al_observed_count = 1, al_threshold = 1, al_time_window = point_in_time,
          al_records = [tkt_id t], al_accounts = [tkt_account_id t],
          al_evidence = cite_structured ''tickets'' (tkt_id t) (Some (tkt_subject t)) # evidence res,
          al_next_step = ''Prioritize a first response before the deadline passes.'',
          al_trust_state = trust_state res, al_rule_version = ''v1''\<rparr>)"

text \<open>\<open>outcome.target_minutes * warning_ratio\<close> is one binary64 product.\<close>

definition approaching_of :: "pyfloat \<Rightarrow> ticket \<Rightarrow> sla_outcome decision \<Rightarrow> sla_outcome \<Rightarrow> alert_candidate option" where
  "approaching_of warning_ratio t res out =
     (if sla_severity out \<notin> {P1, P2} then None
      else if trust_state res \<noteq> CONFIDENT then None
      else if sla_breached out = Some True then None
      else (case (sla_target_minutes out, sla_elapsed_minutes_past_deadline out) of
              (Some minutes, Some elapsed) \<Rightarrow>
                if - elapsed > fl (fl (of_int minutes) * warning_ratio) then None
                else Some (approaching_alert t res out minutes (- elapsed))
            | _ \<Rightarrow> None))"

definition detect_sla_approaching ::
  "db \<Rightarrow> auth_context \<Rightarrow> clock \<Rightarrow> pyfloat \<Rightarrow> agreement_override list \<Rightarrow> default_registry
    \<Rightarrow> error + alert_candidate list" where
  "detect_sla_approaching conn auth clk warning_ratio overrides defaults =
     bindE (search_tickets conn auth (tz_of clk) None (Some OPEN)) (\<lambda>tickets.
     collectE (\<lambda>t.
       bindE (calculate_sla conn (tkt_id t) auth clk overrides defaults) (\<lambda>res.
       Inr (case result res of
              None \<Rightarrow> None
            | Some out \<Rightarrow> approaching_of warning_ratio t res out))) tickets)"

section \<open>Recurring severity\<close>

text \<open>The loop body: the severity the ticket is counted under, if any.\<close>

definition counted_severity ::
  "db \<Rightarrow> auth_context \<Rightarrow> clock \<Rightarrow> datetime \<Rightarrow> agreement_override list \<Rightarrow> default_registry \<Rightarrow> ticket
    \<Rightarrow> error + (severity \<times> ticket) option" where
  "counted_severity conn auth clk cutoff overrides defaults t =
     (if dt_less (tkt_created_at t) cutoff then Inr None
      else
        bindE (calculate_sla conn (tkt_id t) auth clk overrides defaults) (\<lambda>res.
        Inr (case result res of
               None \<Rightarrow> None
             | Some out \<Rightarrow>
                 if sla_severity out \<notin> {P1, P2} then None
                 else if trust_state res \<notin> {CONFIDENT, CONDITIONAL} then None
                 else Some (sla_severity out, t))))"

definition recurring_alert :: "int \<Rightarrow> int \<Rightarrow> severity \<Rightarrow> ticket list \<Rightarrow> alert_candidate" where
  "recurring_alert threshold window_days sev members =
     (let ids = map tkt_id members; n = int (length ids); window = days_window window_days
      in \<lparr>al_id = compute_alert_id RECURRING_ISSUE window ''v1'' ids,
          al_type = RECURRING_ISSUE,
          al_severity = (if sev = P1 then HIGH else MEDIUM),
          al_title = str_of_int n @ '' open '' @ severity_value sev @ '' tickets'',
          al_reason = [IntT n, T ('' tickets currently open and classified '' @ severity_value sev @ '' within the last ''),
            IntT window_days, T '' days - at or above the threshold of '', IntT threshold,
            T '' for a recurring high-severity pattern.''],
          al_observed_count = n, al_threshold = threshold, al_time_window = window,
          al_records = sort ids, al_accounts = sorted_set (map tkt_account_id members),
          al_evidence = map (\<lambda>i. cite_structured ''tickets'' i None) (sort ids),
          al_next_step = ''Review open high-severity tickets for a common root cause or staffing gap.'',
          al_trust_state = CONFIDENT, al_rule_version = ''v1''\<rparr>)"

definition detect_recurring_severity ::
  "db \<Rightarrow> auth_context \<Rightarrow> clock \<Rightarrow> int \<Rightarrow> int \<Rightarrow> agreement_override list \<Rightarrow> default_registry
    \<Rightarrow> error + alert_candidate list" where
  "detect_recurring_severity conn auth clk threshold window_days overrides defaults =
     (let cutoff = dt_sub (now clk) (timedelta_days window_days) in
      bindE (search_tickets conn auth (tz_of clk) None (Some OPEN)) (\<lambda>tickets.
      bindE (collectE (counted_severity conn auth clk cutoff overrides defaults) tickets) (\<lambda>counted.
      Inr (List.map_filter (\<lambda>sev.
             let members = map snd (filter (\<lambda>p. fst p = sev) counted) in
             if int (length members) < threshold then None
             else Some (recurring_alert threshold window_days sev members)) [P1, P2]))))"

section \<open>Known issues\<close>

record known_issue =
  ki_id :: string
  ki_source_id :: string
  ki_section :: "string option"
  ki_resolved :: bool
  ki_tokens :: "string list"

text \<open>The segment of a mention runs to the next mention, or to the end of the text.\<close>

fun segments :: "string \<Rightarrow> (nat \<times> string) list \<Rightarrow> (string \<times> string) list" where
  "segments text [] = []"
| "segments text [(i, w)] = [(w, drop i text)]"
| "segments text ((i, w) # (j, v) # ms) = (w, take (j - i) (drop i text)) # segments text ((j, v) # ms)"

definition parse_known_issues :: "db \<Rightarrow> known_issue list" where
  "parse_known_issues conn =
     concat (map (\<lambda>row.
       map (\<lambda>(w, segment).
         \<lparr>ki_id = w, ki_source_id = cr_source_id row, ki_section = cr_section row,
          ki_resolved = contains ''resolved'' (lower segment), ki_tokens = significant_tokens segment\<rparr>)
         (segments (cr_text row) (finditer KI_ID (cr_text row))))
       (filter (\<lambda>row. cr_source_type row = ''product_doc'' \<and> cr_status row = ''CURRENT''
                     \<and> contains ''ki-'' (lower (cr_text row))) (db_chunks conn)))"

text \<open>\<open>cite_document\<close> with a \<open>NULL\<close> section: no row equals it, so page 1, printed as \<open>None\<close>.\<close>

definition cite_section :: "db \<Rightarrow> string \<Rightarrow> string option \<Rightarrow> string option \<Rightarrow> evidence_ref" where
  "cite_section conn source_id sect note =
     (case sect of
        Some s \<Rightarrow> cite_document conn source_id s note
      | None \<Rightarrow> \<lparr>ev_kind = Document, ev_source_id = source_id, ev_locator = Some ''p1:None'', ev_note = note\<rparr>)"

definition scope_note :: "string list \<Rightarrow> string" where
  "scope_note accounts =
     (if length accounts = 1 then
        ''both/all matching tickets belong to '' @ accounts ! 0
        @ '' - a repeat for one account, not yet a cross-customer pattern''
      else ''matching tickets span '' @ str_of_int (int (length accounts))
        @ '' distinct accounts - a cross-customer pattern'')"

definition known_issue_alert :: "db \<Rightarrow> int \<Rightarrow> int \<Rightarrow> known_issue \<Rightarrow> ticket list \<Rightarrow> alert_candidate" where
  "known_issue_alert conn min_occurrences window_days issue members =
     (let ids = map tkt_id members; n = int (length members); window = days_window window_days;
          accounts = sorted_set (map tkt_account_id members)
      in \<lparr>al_id = compute_alert_id KNOWN_ISSUE_PATTERN window ''v1'' (ki_id issue # ids),
          al_type = KNOWN_ISSUE_PATTERN, al_severity = MEDIUM,
          al_title = ''Active known issue '' @ ki_id issue @ '' matches '' @ str_of_int n @ '' ticket(s)'',
          al_reason = [T (ki_id issue @ '' is a currently active known issue with ''), IntT n,
            T ('' ticket(s) whose description overlaps its documented symptoms ('' @ scope_note accounts @ '').'')],
          al_observed_count = n, al_threshold = min_occurrences, al_time_window = window,
          al_records = sort ids, al_accounts = accounts,
          al_evidence = cite_section conn (ki_source_id issue) (ki_section issue) (Some (ki_id issue))
            # map (\<lambda>i. cite_structured ''tickets'' i None) ids,
          al_next_step = ''Cross-reference '' @ ki_id issue @ [CHR 0x27] @ ''s documented workaround with affected customers.'',
          al_trust_state = CONFIDENT, al_rule_version = ''v1''\<rparr>)"

definition issue_matches :: "known_issue \<Rightarrow> ticket \<Rightarrow> bool" where
  "issue_matches issue t =
     (shared_tokens (significant_tokens (ticket_text t)) (ki_tokens issue) \<ge> MIN_SHARED_TOKENS)"

definition detect_known_issue_patterns ::
  "db \<Rightarrow> auth_context \<Rightarrow> clock \<Rightarrow> int \<Rightarrow> int \<Rightarrow> error + alert_candidate list" where
  "detect_known_issue_patterns conn auth clk min_occurrences window_days =
     (let cutoff = dt_sub (now clk) (timedelta_days window_days);
          issues = filter (\<lambda>i. \<not> ki_resolved i) (parse_known_issues conn)
      in if issues = [] then Inr []
         else
           bindE (search_tickets conn auth (tz_of clk) None None) (\<lambda>tickets.
           let candidates = filter (\<lambda>t. \<not> dt_less (tkt_created_at t) cutoff) tickets in
           Inr (List.map_filter (\<lambda>issue.
             let members = filter (issue_matches issue) candidates in
             if int (length members) < min_occurrences then None
             else Some (known_issue_alert conn min_occurrences window_days issue members)) issues)))"

section \<open>Carrier patterns and overdue pickups\<close>

definition carrier_alert :: "int \<Rightarrow> int \<Rightarrow> string \<Rightarrow> order list \<Rightarrow> alert_candidate" where
  "carrier_alert threshold window_days carrier members =
     (let ids = map ord_id members; n = int (length ids); window = days_window window_days
      in \<lparr>al_id = compute_alert_id CARRIER_PATTERN window ''v1'' ids,
          al_type = CARRIER_PATTERN, al_severity = MEDIUM,
          al_title = ''Multiple carrier-fault orders for '' @ carrier,
          al_reason = [IntT n, T ('' orders associated with carrier '' @ carrier
              @ '' were observed with carrier_fault recorded, at or above the threshold of ''),
            IntT threshold, T '' within '', IntT window_days, T '' days.''],
          al_observed_count = n, al_threshold = threshold, al_time_window = window,
          al_records = sort ids, al_accounts = sorted_set (map ord_account_id members),
          al_evidence = map (\<lambda>i. cite_structured ''orders'' i None) (sort ids),
          al_next_step = ''Review '' @ carrier @ [CHR 0x27] @ ''s recent pickup performance with ops.'',
          al_trust_state = CONFIDENT, al_rule_version = ''v1''\<rparr>)"

definition detect_carrier_patterns ::
  "db \<Rightarrow> auth_context \<Rightarrow> clock \<Rightarrow> int \<Rightarrow> int \<Rightarrow> error + alert_candidate list" where
  "detect_carrier_patterns conn auth clk threshold window_days =
     (let cutoff = dt_sub (now clk) (timedelta_days window_days) in
      bindE (search_orders conn auth (tz_of clk) None None None) (\<lambda>orders.
      let faults = filter (\<lambda>r. \<not> (\<not> ord_carrier_fault r \<or> dt_less (ord_booked_at r) cutoff)) orders in
      Inr (List.map_filter (\<lambda>carrier.
        let members = filter (\<lambda>r. ord_carrier r = carrier) faults in
        if int (length members) < threshold then None
        else Some (carrier_alert threshold window_days carrier members))
        (dedup_by id [] (map ord_carrier faults)))))"

definition overdue_alert :: "clock \<Rightarrow> order \<Rightarrow> alert_candidate" where
  "overdue_alert clk r =
     \<lparr>al_id = compute_alert_id OVERDUE_PICKUP ''point-in-time'' ''v1'' [ord_id r],
      al_type = OVERDUE_PICKUP, al_severity = (if ord_carrier_fault r then HIGH else MEDIUM),
      al_title = ''Overdue pickup: '' @ ord_id r,
      al_reason = [T (ord_id r @ [CHR 0x27] @ ''s pickup window ended ''),
        F1 (hours_of (dt_diff (now clk) (ord_pickup_window_end r))),
        T '' hours ago with no recorded pickup and no cancellation.''],
      al_observed_count = 1, al_threshold = 1, al_time_window = point_in_time,
      al_records = [ord_id r], al_accounts = [ord_account_id r],
      al_evidence = [cite_structured ''orders'' (ord_id r) None],
      al_next_step = ''A service credit may be due - check via calculate_support_outcome (service_credit).'',
      al_trust_state = CONFIDENT, al_rule_version = ''v1''\<rparr>"

definition is_overdue :: "clock \<Rightarrow> order \<Rightarrow> bool" where
  "is_overdue clk r =
     (if ord_pickup_actual_at r \<noteq> None then False
      else dt_less (ord_pickup_window_end r) (now clk))"

definition detect_overdue_pickups :: "db \<Rightarrow> auth_context \<Rightarrow> clock \<Rightarrow> error + alert_candidate list" where
  "detect_overdue_pickups conn auth clk =
     bindE (search_orders conn auth (tz_of clk) None (Some BOOKED) None) (\<lambda>orders.
     Inr (map (overdue_alert clk) (filter (is_overdue clk) orders)))"

section \<open>Fingerprints\<close>

text \<open>An id depends on the set of affected entities only.\<close>

lemma compute_alert_id_set:
  "set xs = set ys \<Longrightarrow> compute_alert_id typ window version xs = compute_alert_id typ window version ys"
  using sorted_set_cong [of xs ys] by (simp add: compute_alert_id_def fingerprint_key_def)

lemma length_alert_id [simp]: "length (compute_alert_id typ window version xs) = 22"
  by (simp add: compute_alert_id_def)

section \<open>The contract of a rule\<close>

definition alerts_in_scope :: "auth_context \<Rightarrow> alert_candidate list \<Rightarrow> bool" where
  "alerts_in_scope auth alerts = (\<forall>a \<in> set alerts. \<forall>acct \<in> set (al_accounts a). allows_account auth acct)"

locale detection_rule =
  fixes rl :: "db \<Rightarrow> auth_context \<Rightarrow> error + alert_candidate list"
    and emits :: alert_type
  assumes scoped: "rl c auth = Inr alerts \<Longrightarrow> alerts_in_scope auth alerts"
    and typed: "rl c auth = Inr alerts \<Longrightarrow> a \<in> set alerts \<Longrightarrow> al_type a = emits"
    and view_bound: "wf_db c \<Longrightarrow> wf_db d \<Longrightarrow> same_view auth c d \<Longrightarrow> rl c auth = rl d auth"
begin

lemma affected_in_scope:
  "rl c auth = Inr alerts \<Longrightarrow> a \<in> set alerts \<Longrightarrow> acct \<in> set (al_accounts a) \<Longrightarrow> allows_account auth acct"
  using scoped by (auto simp: alerts_in_scope_def)

lemma no_scope_no_accounts:
  "rl c \<lparr>role = r, account_scope = Some []\<rparr> = Inr alerts \<Longrightarrow> a \<in> set alerts \<Longrightarrow> al_accounts a = []"
  using affected_in_scope [of c "\<lparr>role = r, account_scope = Some []\<rparr>" alerts a]
  by (cases "al_accounts a") (auto simp: allows_account_def)

end

lemma alerts_in_scope_map_filter:
  assumes "\<And>x a acct. x \<in> set xs \<Longrightarrow> f x = Some a \<Longrightarrow> acct \<in> set (al_accounts a) \<Longrightarrow> allows_account auth acct"
  shows "alerts_in_scope auth (List.map_filter f xs)"
  using assms by (force simp: alerts_in_scope_def List.map_filter_def)

text \<open>A loop over the visible open tickets, one SLA calculation each, sees only the view.\<close>

lemma sla_loop_view:
  assumes view: "same_view auth c d" "wf_db c" "wf_db d"
  shows "bindE (search_tickets c auth (tz_of clk) None st)
           (collectE (\<lambda>t. g t (calculate_sla c (tkt_id t) auth clk overrides defaults))) =
         bindE (search_tickets d auth (tz_of clk) None st)
           (collectE (\<lambda>t. g t (calculate_sla d (tkt_id t) auth clk overrides defaults)))"
proof -
  have same: "search_tickets c auth (tz_of clk) None st = search_tickets d auth (tz_of clk) None st"
    by (rule ticket_search.view_determines [OF view(1)])
  show ?thesis
  proof (rule bindE_cong [OF same], rule collectE_cong [OF refl])
    fix tickets t assume "search_tickets d auth (tz_of clk) None st = Inr tickets" "t \<in> set tickets"
    then have "get_ticket c (tkt_id t) auth (tz_of clk) = Inr t"
      using search_tickets_get [OF view(2)] same by metis
    from calculate_sla_view [OF view this] show
      "g t (calculate_sla c (tkt_id t) auth clk overrides defaults) =
       g t (calculate_sla d (tkt_id t) auth clk overrides defaults)" by simp
  qed
qed

interpretation breach_rule: detection_rule
  "\<lambda>c auth. detect_sla_breaches c auth clk overrides defaults" SLA_BREACH
  for clk overrides defaults
proof
  fix c auth alerts a
  assume r: "detect_sla_breaches c auth clk overrides defaults = Inr alerts"
  then obtain tickets where s: "search_tickets c auth (tz_of clk) None (Some OPEN) = Inr tickets"
    and col: "collectE (\<lambda>t. bindE (calculate_sla c (tkt_id t) auth clk overrides defaults) (\<lambda>res.
       Inr (case result res of None \<Rightarrow> None
         | Some out \<Rightarrow> if is_breach res out then Some (breach_alert t res out) else None))) tickets = Inr alerts"
    by (auto simp: detect_sla_breaches_def bindE_eq_Inr)
  have member: "\<exists>t \<in> set tickets. \<exists>res out. a = breach_alert t res out" if "a \<in> set alerts" for a
    using collectE_set [OF col that] by (force simp: bindE_eq_Inr split: option.splits if_splits)
  show "alerts_in_scope auth alerts"
    using member ticket_search.all_in_scope [OF s]
    by (fastforce simp: alerts_in_scope_def breach_alert_def Let_def)
  show "al_type a = SLA_BREACH" if "a \<in> set alerts"
    using member [OF that] by (auto simp: breach_alert_def Let_def)
next
  fix c d auth
  assume "wf_db c" "wf_db d" "same_view auth c d"
  then show "detect_sla_breaches c auth clk overrides defaults = detect_sla_breaches d auth clk overrides defaults"
    unfolding detect_sla_breaches_def by (intro sla_loop_view)
qed

lemma approaching_of_Some:
  "approaching_of w t res out = Some a \<Longrightarrow> \<exists>m r. a = approaching_alert t res out m r"
  by (auto simp: approaching_of_def split: if_splits option.splits)

interpretation approaching_rule: detection_rule
  "\<lambda>c auth. detect_sla_approaching c auth clk w overrides defaults" SLA_APPROACHING
  for clk w overrides defaults
proof
  fix c auth alerts a
  assume r: "detect_sla_approaching c auth clk w overrides defaults = Inr alerts"
  then obtain tickets where s: "search_tickets c auth (tz_of clk) None (Some OPEN) = Inr tickets"
    and col: "collectE (\<lambda>t. bindE (calculate_sla c (tkt_id t) auth clk overrides defaults) (\<lambda>res.
       Inr (case result res of None \<Rightarrow> None | Some out \<Rightarrow> approaching_of w t res out))) tickets = Inr alerts"
    by (auto simp: detect_sla_approaching_def bindE_eq_Inr)
  have member: "\<exists>t \<in> set tickets. \<exists>res out m r. a = approaching_alert t res out m r" if "a \<in> set alerts" for a
    using collectE_set [OF col that]
    by (force simp: bindE_eq_Inr split: option.splits dest: approaching_of_Some)
  show "alerts_in_scope auth alerts"
    using member ticket_search.all_in_scope [OF s]
    by (fastforce simp: alerts_in_scope_def approaching_alert_def Let_def)
  show "al_type a = SLA_APPROACHING" if "a \<in> set alerts"
    using member [OF that] by (auto simp: approaching_alert_def Let_def)
next
  fix c d auth
  assume "wf_db c" "wf_db d" "same_view auth c d"
  then show "detect_sla_approaching c auth clk w overrides defaults = detect_sla_approaching d auth clk w overrides defaults"
    unfolding detect_sla_approaching_def by (intro sla_loop_view)
qed

lemma counted_severity_ticket:
  assumes "collectE (counted_severity c auth clk cutoff overrides defaults) tickets = Inr counted" "p \<in> set counted"
  shows "snd p \<in> set tickets"
  using collectE_set [OF assms] by (auto simp: counted_severity_def bindE_eq_Inr split: option.splits if_splits)

interpretation recurring_rule: detection_rule
  "\<lambda>c auth. detect_recurring_severity c auth clk threshold days overrides defaults" RECURRING_ISSUE
  for clk threshold days overrides defaults
proof
  fix c auth alerts a
  let ?cutoff = "dt_sub (now clk) (timedelta_days days)"
  assume r: "detect_recurring_severity c auth clk threshold days overrides defaults = Inr alerts"
  then obtain tickets counted where s: "search_tickets c auth (tz_of clk) None (Some OPEN) = Inr tickets"
    and col: "collectE (counted_severity c auth clk ?cutoff overrides defaults) tickets = Inr counted"
    and al: "alerts = List.map_filter (\<lambda>sev. let members = map snd (filter (\<lambda>p. fst p = sev) counted) in
             if int (length members) < threshold then None
             else Some (recurring_alert threshold days sev members)) [P1, P2]"
    by (auto simp: detect_recurring_severity_def Let_def bindE_eq_Inr)
  show "alerts_in_scope auth alerts"
    unfolding al using counted_severity_ticket [OF col] ticket_search.all_in_scope [OF s]
    by (intro alerts_in_scope_map_filter) (force simp: recurring_alert_def Let_def split: if_splits)
  show "al_type a = RECURRING_ISSUE" if "a \<in> set alerts"
    using that by (auto simp: al List.map_filter_def recurring_alert_def Let_def split: if_splits)
next
  fix c d auth
  assume view: "wf_db c" "wf_db d" "same_view auth c d"
  let ?cutoff = "dt_sub (now clk) (timedelta_days days)"
  let ?g = "\<lambda>t m. if dt_less (tkt_created_at t) ?cutoff then Inr None
    else bindE m (\<lambda>res. Inr (case result res of None \<Rightarrow> None
      | Some out \<Rightarrow> if sla_severity out \<notin> {P1, P2} then None
          else if trust_state res \<notin> {CONFIDENT, CONDITIONAL} then None else Some (sla_severity out, t)))"
  have g: "counted_severity e auth clk ?cutoff overrides defaults
      = (\<lambda>t. ?g t (calculate_sla e (tkt_id t) auth clk overrides defaults))" for e
    by (intro ext) (rule counted_severity_def)
  show "detect_recurring_severity c auth clk threshold days overrides defaults
      = detect_recurring_severity d auth clk threshold days overrides defaults"
    unfolding detect_recurring_severity_def Let_def bindE_assoc [symmetric] g
    by (subst sla_loop_view [OF view(3,1,2), where g = ?g]) (rule refl)
qed

interpretation known_issue_rule: detection_rule
  "\<lambda>c auth. detect_known_issue_patterns c auth clk minimum days" KNOWN_ISSUE_PATTERN
  for clk minimum days
proof
  fix c auth alerts a
  let ?cutoff = "dt_sub (now clk) (timedelta_days days)"
  let ?issues = "filter (\<lambda>i. \<not> ki_resolved i) (parse_known_issues c)"
  assume r: "detect_known_issue_patterns c auth clk minimum days = Inr alerts"
  show "alerts_in_scope auth alerts"
  proof (cases "?issues = []")
    case False
    with r obtain tickets where s: "search_tickets c auth (tz_of clk) None None = Inr tickets"
      and al: "alerts = List.map_filter (\<lambda>issue. let members = filter (issue_matches issue)
             (filter (\<lambda>t. \<not> dt_less (tkt_created_at t) ?cutoff) tickets) in
             if int (length members) < minimum then None
             else Some (known_issue_alert c minimum days issue members)) ?issues"
      by (auto simp: detect_known_issue_patterns_def Let_def bindE_eq_Inr simp del: filter_filter)
    show ?thesis
      unfolding al using ticket_search.all_in_scope [OF s]
      by (intro alerts_in_scope_map_filter) (auto simp: known_issue_alert_def Let_def split: if_splits)
  qed (use r in \<open>auto simp: detect_known_issue_patterns_def Let_def alerts_in_scope_def\<close>)
  show "al_type a = KNOWN_ISSUE_PATTERN" if "a \<in> set alerts"
    using r that by (auto simp: detect_known_issue_patterns_def known_issue_alert_def List.map_filter_def Let_def
        bindE_eq_Inr split: if_splits)
next
  fix c d auth
  assume view: "wf_db c" "wf_db d" "same_view auth c d"
  have "parse_known_issues c = parse_known_issues d" using view(3) by (simp add: parse_known_issues_def same_view_def)
  moreover have "known_issue_alert c = known_issue_alert d"
    unfolding known_issue_alert_def cite_section_def same_view_cite [OF view(3)] ..
  ultimately show "detect_known_issue_patterns c auth clk minimum days = detect_known_issue_patterns d auth clk minimum days"
    unfolding detect_known_issue_patterns_def Let_def
    by (simp only: ticket_search.view_determines [OF view(3)])
qed

interpretation carrier_rule: detection_rule
  "\<lambda>c auth. detect_carrier_patterns c auth clk threshold days" CARRIER_PATTERN
  for clk threshold days
proof
  fix c auth alerts a
  let ?fault = "\<lambda>r. \<not> (\<not> ord_carrier_fault r \<or> dt_less (ord_booked_at r) (dt_sub (now clk) (timedelta_days days)))"
  assume "detect_carrier_patterns c auth clk threshold days = Inr alerts"
  then obtain orders where s: "search_orders c auth (tz_of clk) None None None = Inr orders"
    and al: "alerts = List.map_filter (\<lambda>carrier. let members = filter (\<lambda>r. ord_carrier r = carrier) (filter ?fault orders) in
        if int (length members) < threshold then None else Some (carrier_alert threshold days carrier members))
        (dedup_by id [] (map ord_carrier (filter ?fault orders)))"
    by (auto simp: detect_carrier_patterns_def Let_def bindE_eq_Inr simp del: filter_filter)
  show "alerts_in_scope auth alerts"
    unfolding al using order_search.all_in_scope [OF s]
    by (intro alerts_in_scope_map_filter) (auto simp: carrier_alert_def Let_def split: if_splits)
  show "al_type a = CARRIER_PATTERN" if "a \<in> set alerts"
    using that by (auto simp: al List.map_filter_def carrier_alert_def Let_def split: if_splits)
next
  fix c d auth
  assume "wf_db c" "wf_db d" "same_view auth c d"
  then show "detect_carrier_patterns c auth clk threshold days = detect_carrier_patterns d auth clk threshold days"
    unfolding detect_carrier_patterns_def by (simp only: order_search.view_determines [of auth c d])
qed

interpretation overdue_rule: detection_rule "\<lambda>c auth. detect_overdue_pickups c auth clk" OVERDUE_PICKUP
  for clk
proof
  fix c auth alerts a
  assume "detect_overdue_pickups c auth clk = Inr alerts"
  then obtain orders where s: "search_orders c auth (tz_of clk) None (Some BOOKED) None = Inr orders"
    and al: "alerts = map (overdue_alert clk) (filter (is_overdue clk) orders)"
    by (auto simp: detect_overdue_pickups_def bindE_eq_Inr)
  show "alerts_in_scope auth alerts"
    using order_search.all_in_scope [OF s] by (auto simp: al alerts_in_scope_def overdue_alert_def)
  show "al_type a = OVERDUE_PICKUP" if "a \<in> set alerts"
    using that by (auto simp: al overdue_alert_def)
next
  fix c d auth
  assume "wf_db c" "wf_db d" "same_view auth c d"
  then show "detect_overdue_pickups c auth clk = detect_overdue_pickups d auth clk"
    by (simp add: detect_overdue_pickups_def order_search.view_determines [of auth c d])
qed

end
