(* ===== verification/Radar.thy ===== *)
theory Radar
  imports Detection "HOL-Library.Product_Lexorder" "HOL-Library.Multiset"
begin

text \<open>
  \<open>app/detection/service.py\<close>: the single entry point of the operations radar. It denies
  \<open>restricted_support\<close>, runs the requested rules in order, keeps one alert per id and sorts
  by severity and id; and the per-account grouping of a result.
\<close>

section \<open>Running the rules\<close>

definition ALL_RULES :: "alert_type list" where
  "ALL_RULES = [SLA_BREACH, SLA_APPROACHING, RECURRING_ISSUE, KNOWN_ISSUE_PATTERN, CARRIER_PATTERN, OVERDUE_PICKUP]"

fun SEVERITY_RANK :: "alert_severity \<Rightarrow> int" where
  "SEVERITY_RANK CRITICAL = 0"
| "SEVERITY_RANK HIGH = 1"
| "SEVERITY_RANK MEDIUM = 2"
| "SEVERITY_RANK LOW = 3"

fun run_rule ::
  "alert_type \<Rightarrow> db \<Rightarrow> auth_context \<Rightarrow> clock \<Rightarrow> int \<Rightarrow> agreement_override list \<Rightarrow> default_registry
    \<Rightarrow> error + alert_candidate list" where
  "run_rule OVERDUE_PICKUP conn auth clk days overrides defaults = detect_overdue_pickups conn auth clk"
| "run_rule SLA_BREACH conn auth clk days overrides defaults = detect_sla_breaches conn auth clk overrides defaults"
| "run_rule SLA_APPROACHING conn auth clk days overrides defaults =
     detect_sla_approaching conn auth clk DEFAULT_APPROACHING_WARNING_RATIO overrides defaults"
| "run_rule RECURRING_ISSUE conn auth clk days overrides defaults =
     detect_recurring_severity conn auth clk DEFAULT_RECURRING_SEVERITY_THRESHOLD days overrides defaults"
| "run_rule KNOWN_ISSUE_PATTERN conn auth clk days overrides defaults =
     detect_known_issue_patterns conn auth clk DEFAULT_KNOWN_ISSUE_MIN_OCCURRENCES days"
| "run_rule CARRIER_PATTERN conn auth clk days overrides defaults =
     detect_carrier_patterns conn auth clk DEFAULT_CARRIER_FAULT_THRESHOLD days"

definition seen_after :: "(string \<times> alert_candidate) list \<Rightarrow> alert_candidate list \<Rightarrow> (string \<times> alert_candidate) list" where
  "seen_after seen alerts = foldl (\<lambda>d a. dict_put d (al_id a) a) seen alerts"

definition alert_order :: "alert_candidate list \<Rightarrow> alert_candidate list" where
  "alert_order alerts = sort_key (\<lambda>a. (SEVERITY_RANK (al_severity a), al_id a)) alerts"

definition run_operations_radar ::
  "db \<Rightarrow> auth_context \<Rightarrow> clock \<Rightarrow> alert_type list option \<Rightarrow> int \<Rightarrow> agreement_override list \<Rightarrow> default_registry
    \<Rightarrow> error + alert_candidate list" where
  "run_operations_radar conn auth clk alert_types days overrides defaults =
     (if role auth = RESTRICTED_SUPPORT
      then Inl (NotAuthorizedError ''cross-account detection requires operations_admin'')
      else
        let types_to_run = (case alert_types of Some ts \<Rightarrow> if ts = [] then ALL_RULES else ts | None \<Rightarrow> ALL_RULES)
        in bindE (mapE (\<lambda>ty. run_rule ty conn auth clk days overrides defaults) types_to_run) (\<lambda>batches.
           Inr (alert_order (dict_values (foldl seen_after [] batches)))))"

definition add_grouped :: "(string \<times> string list) list \<Rightarrow> string \<times> string \<Rightarrow> (string \<times> string list) list" where
  "add_grouped d p = dict_put d (fst p) (snd p # (case dict_get d (fst p) of None \<Rightarrow> [] | Some ids \<Rightarrow> ids))"

definition group_by_account :: "alert_candidate list \<Rightarrow> (string \<times> string list) list" where
  "group_by_account alerts =
     map (\<lambda>(acct, ids). (acct, sorted_set ids))
       (sort_key fst (foldl add_grouped []
         (concat (map (\<lambda>a. map (\<lambda>acct. (acct, al_id a)) (al_accounts a)) alerts))))"

section \<open>The merge keeps one alert per id\<close>

definition id_keyed :: "(string \<times> alert_candidate) list \<Rightarrow> bool" where
  "id_keyed d \<longleftrightarrow> distinct (dict_keys d) \<and> (\<forall>p \<in> set d. fst p = al_id (snd p))"

lemma id_keyed_put: "id_keyed d \<Longrightarrow> id_keyed (dict_put d (al_id a) a)"
  by (auto simp: id_keyed_def set_dict_put)

lemma id_keyed_seen: "id_keyed d \<Longrightarrow> id_keyed (seen_after d alerts)"
  unfolding seen_after_def by (induction alerts arbitrary: d) (simp_all add: id_keyed_put)

lemma id_keyed_batches: "id_keyed d \<Longrightarrow> id_keyed (foldl seen_after d batches)"
  by (induction batches arbitrary: d) (simp_all add: id_keyed_seen)

lemma seen_after_simps [simp]:
  "seen_after d [] = d"
  "seen_after d (a # alerts) = seen_after (dict_put d (al_id a) a) alerts"
  by (simp_all add: seen_after_def)

lemma seen_after_values: "snd ` set (seen_after d alerts) \<subseteq> snd ` set d \<union> set alerts"
proof (induction alerts arbitrary: d)
  case (Cons a alerts)
  show ?case
    using Cons.IH [of "dict_put d (al_id a) a"] values_dict_put [of d "al_id a" a]
    unfolding seen_after_simps list.set by blast
qed simp

lemma seen_after_keys: "fst ` set (seen_after d alerts) = fst ` set d \<union> al_id ` set alerts"
  by (induction alerts arbitrary: d) (simp_all add: keys_dict_put)

lemma batches_values:
  "snd ` set (foldl seen_after d batches) \<subseteq> snd ` set d \<union> (\<Union>b \<in> set batches. set b)"
proof (induction batches arbitrary: d)
  case (Cons b batches)
  note Cons.IH [of "seen_after d b"]
  also have "snd ` set (seen_after d b) \<union> (\<Union>b \<in> set batches. set b)
      \<subseteq> (snd ` set d \<union> set b) \<union> (\<Union>b \<in> set batches. set b)"
    using seen_after_values by (rule Un_mono) simp
  finally show ?case by (simp add: Un_assoc)
qed simp

lemma batches_keys:
  "fst ` set (foldl seen_after d batches) = fst ` set d \<union> (\<Union>b \<in> set batches. al_id ` set b)"
  by (induction batches arbitrary: d) (simp_all add: seen_after_keys Un_assoc)

lemma set_alert_order [simp]: "set (alert_order alerts) = set alerts"
  by (simp add: alert_order_def)

lemma map_values_key: "id_keyed d \<Longrightarrow> map al_id (dict_values d) = dict_keys d"
  by (auto simp: id_keyed_def)

section \<open>What a run consists of\<close>

lemma radar_run:
  assumes "run_operations_radar conn auth clk types days overrides defaults = Inr alerts"
  obtains batches run where "role auth \<noteq> RESTRICTED_SUPPORT"
    "run = (case types of Some ts \<Rightarrow> if ts = [] then ALL_RULES else ts | None \<Rightarrow> ALL_RULES)"
    "mapE (\<lambda>ty. run_rule ty conn auth clk days overrides defaults) run = Inr batches"
    "alerts = alert_order (dict_values (foldl seen_after [] batches))"
  using assms by (auto simp: run_operations_radar_def Let_def bindE_eq_Inr split: if_splits)

lemma rule_scoped: "run_rule ty conn auth clk days overrides defaults = Inr alerts \<Longrightarrow> alerts_in_scope auth alerts"
  by (cases ty)
    (auto dest: breach_rule.scoped approaching_rule.scoped recurring_rule.scoped known_issue_rule.scoped
      carrier_rule.scoped overdue_rule.scoped)

lemma rule_view:
  assumes "wf_db c" "wf_db d" "same_view auth c d"
  shows "run_rule ty c auth clk days overrides defaults = run_rule ty d auth clk days overrides defaults"
  using breach_rule.view_bound [OF assms] approaching_rule.view_bound [OF assms] recurring_rule.view_bound [OF assms]
    known_issue_rule.view_bound [OF assms] carrier_rule.view_bound [OF assms] overdue_rule.view_bound [OF assms]
  by (cases ty) simp_all

lemma rule_typed:
  "run_rule ty conn auth clk days overrides defaults = Inr alerts \<Longrightarrow> a \<in> set alerts \<Longrightarrow> al_type a = ty"
  by (cases ty)
    (auto dest: breach_rule.typed approaching_rule.typed recurring_rule.typed known_issue_rule.typed
      carrier_rule.typed overdue_rule.typed)

lemma radar_member:
  assumes "mapE (\<lambda>ty. run_rule ty conn auth clk days overrides defaults) run = Inr batches"
    and "a \<in> set (dict_values (foldl seen_after [] batches))"
  obtains ty batch where "ty \<in> set run" "run_rule ty conn auth clk days overrides defaults = Inr batch" "a \<in> set batch"
proof -
  from assms(2) batches_values [of "[]" batches] obtain batch where "batch \<in> set batches" "a \<in> set batch" by auto
  with mapE_set [OF assms(1)] that show thesis by blast
qed

section \<open>Grouping\<close>

lemma add_grouped_get:
  "dict_get (foldl add_grouped d ps) k =
     (case rev (map snd (filter (\<lambda>p. fst p = k) ps)) @ (case dict_get d k of None \<Rightarrow> [] | Some ids \<Rightarrow> ids) of
        [] \<Rightarrow> (case dict_get d k of None \<Rightarrow> None | Some ids \<Rightarrow> Some ids)
      | ids \<Rightarrow> Some ids)"
proof (induction ps arbitrary: d)
  case (Cons p ps)
  show ?case
    unfolding foldl.simps Cons.IH
    by (cases "fst p = k") (auto simp: add_grouped_def split: option.splits list.splits)
qed (auto split: option.splits list.splits)

lemma distinct_grouped: "distinct (dict_keys d) \<Longrightarrow> distinct (dict_keys (foldl add_grouped d ps))"
  by (induction ps arbitrary: d) (simp_all add: add_grouped_def)

section \<open>What the rules report\<close>



text \<open>The overdue rule never looks at the cancellation request: a visible BOOKED order past
  its window with no pickup is reported even when a cancellation was requested, with a reason
  that says there was none.\<close>

theorem overdue_ignores_cancellation:
  assumes "detect_overdue_pickups conn auth clk = Inr alerts"
    and "search_orders conn auth (tz_of clk) None (Some BOOKED) None = Inr orders" "r \<in> set orders"
    and "ord_pickup_actual_at r = None" "instant (ord_pickup_window_end r) < instant (now clk)"
    and "ord_cancellation_requested_at r = Some requested"
  shows "\<exists>a \<in> set alerts. al_records a = [ord_id r]
    \<and> T '' hours ago with no recorded pickup and no cancellation.'' \<in> set (al_reason a)"
proof -
  have "is_overdue clk r" using assms(4,5) by (simp add: is_overdue_def dt_less_def)
  with assms(1-3) have "overdue_alert clk r \<in> set alerts"
    by (auto simp: detect_overdue_pickups_def)
  moreover have "al_records (overdue_alert clk r) = [ord_id r]
    \<and> T '' hours ago with no recorded pickup and no cancellation.'' \<in> set (al_reason (overdue_alert clk r))"
    by (simp add: overdue_alert_def)
  ultimately show ?thesis by blast
qed

theorem overdue_ignores_cancellation_witness:
  "\<exists>alerts. detect_overdue_pickups sample_db admin sample_clock = Inr alerts
     \<and> (\<exists>a \<in> set alerts. al_records a = [''ORD-3001''])"
proof -
  have "inrP (List.list_ex (\<lambda>r. ord_id r = ''ORD-3001'' \<and> ord_pickup_actual_at r = None
      \<and> instant (ord_pickup_window_end r) < instant (now sample_clock)
      \<and> ord_cancellation_requested_at r = Some \<lparr>wall = hm 8 30, utcoffset = ist\<rparr>))
    (search_orders sample_db admin (tz_of sample_clock) None (Some BOOKED) None)" by code_simp
  then obtain orders r where s: "search_orders sample_db admin (tz_of sample_clock) None (Some BOOKED) None = Inr orders"
    and r: "r \<in> set orders" and id: "ord_id r = ''ORD-3001''" and o: "ord_pickup_actual_at r = None"
      "instant (ord_pickup_window_end r) < instant (now sample_clock)"
      "ord_cancellation_requested_at r = Some \<lparr>wall = hm 8 30, utcoffset = ist\<rparr>"
    by (auto simp: inrP_iff list_ex_iff)
  obtain alerts where d: "detect_overdue_pickups sample_db admin sample_clock = Inr alerts"
    using s by (simp add: detect_overdue_pickups_def)
  from overdue_ignores_cancellation [OF d s r o] d id show ?thesis by auto
qed

text \<open>An alert id is a function of the set of affected records: neither their order nor
  repetitions reach it, so re-running a rule on unchanged data gives the same ids.\<close>

theorem alert_id_of_set:
  "compute_alert_id ty window version (xs @ ys) = compute_alert_id ty window version (rev ys @ xs @ xs)"
  by (rule compute_alert_id_set) auto

section \<open>What the radar guarantees\<close>

lemma sample_radar_run:
  obtains orders alerts where "search_orders sample_db admin (tz_of sample_clock) None (Some BOOKED) None = Inr orders"
    "length orders = 3"
    "run_operations_radar sample_db admin sample_clock (Some [OVERDUE_PICKUP]) 30 AGREEMENT_OVERRIDES DEFAULT_SOURCE = Inr alerts"
proof -
  have "inrP (\<lambda>os. length os = 3) (search_orders sample_db admin (tz_of sample_clock) None (Some BOOKED) None)"
    by code_simp
  then obtain orders where s: "search_orders sample_db admin (tz_of sample_clock) None (Some BOOKED) None = Inr orders"
    and "length orders = 3" by (rule inrP_E)
  moreover have "role admin \<noteq> RESTRICTED_SUPPORT" by (simp add: admin_def)
  ultimately show thesis
    using that [of orders] by (simp add: run_operations_radar_def Let_def detect_overdue_pickups_def)
qed

lemma run_operations_radar_view:
  assumes "wf_db c" "wf_db d" "same_view auth c d"
  shows "run_operations_radar c auth clk types days overrides defaults
    = run_operations_radar d auth clk types days overrides defaults"
  by (simp add: run_operations_radar_def rule_view [OF assms])

text \<open>What the radar reports depends only on what the caller may see: two databases that
  differ in other accounts' records, in any way, give the same alerts or the same error.\<close>

theorem radar_noninterference:
  assumes "wf_db c" "wf_db d" "same_view auth c d"
  shows "run_operations_radar c auth clk types days overrides defaults
    = run_operations_radar d auth clk types days overrides defaults"
  by (rule run_operations_radar_view [OF assms])

theorem radar_noninterference_witness:
  "run_operations_radar sample_db beacon_agent sample_clock None 30 AGREEMENT_OVERRIDES DEFAULT_SOURCE =
   run_operations_radar (sample_db\<lparr>db_orders := filter (\<lambda>r. or_account_id r = ''ACCT-003'') (db_orders sample_db)\<rparr>)
     beacon_agent sample_clock None 30 AGREEMENT_OVERRIDES DEFAULT_SOURCE"
proof -
  let ?d = "sample_db\<lparr>db_orders := filter (\<lambda>r. or_account_id r = ''ACCT-003'') (db_orders sample_db)\<rparr>"
  have "wf_db ?d"
    unfolding wf_db_def by (simp add: sample_db_def sample_account_def sample_order_def sample_ticket_def)
  moreover have "same_view beacon_agent sample_db ?d"
    by (simp add: same_view_def beacon_agent_def allows_account_def)
  ultimately show ?thesis by (rule radar_noninterference [OF wf_sample_db])
qed

lemma radar_alerts_scoped:
  assumes "run_operations_radar conn auth clk types days overrides defaults = Inr alerts"
  shows "alerts_in_scope auth alerts"
proof -
  obtain batches run where b: "mapE (\<lambda>ty. run_rule ty conn auth clk days overrides defaults) run = Inr batches"
    and a: "alerts = alert_order (dict_values (foldl seen_after [] batches))"
    by (rule radar_run [OF assms])
  have "allows_account auth acct" if "x \<in> set alerts" "acct \<in> set (al_accounts x)" for x acct
  proof -
    from that(1) have x: "x \<in> set (dict_values (foldl seen_after [] batches))" by (simp add: a)
    obtain ty batch where "run_rule ty conn auth clk days overrides defaults = Inr batch" "x \<in> set batch"
      by (rule radar_member [OF b x])
    with rule_scoped that(2) show ?thesis by (fastforce simp: alerts_in_scope_def)
  qed
  then show ?thesis by (simp add: alerts_in_scope_def)
qed

text \<open>A restricted support caller is refused, and every account an alert names is in the
  caller's scope.\<close>

theorem radar_stays_in_scope:
  assumes "run_operations_radar conn auth clk types days overrides defaults = Inr alerts"
  shows "role auth \<noteq> RESTRICTED_SUPPORT \<and> alerts_in_scope auth alerts"
  using radar_run [OF assms] radar_alerts_scoped [OF assms] by blast

theorem radar_stays_in_scope_witness:
  "\<exists>alerts. run_operations_radar sample_db admin sample_clock (Some [OVERDUE_PICKUP]) 30 AGREEMENT_OVERRIDES DEFAULT_SOURCE
     = Inr alerts \<and> alerts_in_scope admin alerts"
proof -
  obtain alerts where r: "run_operations_radar sample_db admin sample_clock (Some [OVERDUE_PICKUP]) 30 AGREEMENT_OVERRIDES
    DEFAULT_SOURCE = Inr alerts" by (rule sample_radar_run)
  from radar_stays_in_scope [OF r] r show ?thesis by blast
qed

text \<open>C31. The radar returns each alert id once, sorted by severity and then id, and it loses no
  finding: the ids are exactly those the requested rules produced.\<close>

theorem radar_dedup_sorted_complete:
  assumes "run_operations_radar conn auth clk types days overrides defaults = Inr alerts"
  shows "distinct (map al_id alerts)
    \<and> sorted (map (\<lambda>a. (SEVERITY_RANK (al_severity a), al_id a)) alerts)
    \<and> al_id ` set alerts = {al_id a | a ty batch. a \<in> set batch
         \<and> ty \<in> set (case types of Some ts \<Rightarrow> if ts = [] then ALL_RULES else ts | None \<Rightarrow> ALL_RULES)
         \<and> run_rule ty conn auth clk days overrides defaults = Inr batch}"
proof -
  obtain batches run where run: "run = (case types of Some ts \<Rightarrow> if ts = [] then ALL_RULES else ts | None \<Rightarrow> ALL_RULES)"
    and b: "mapE (\<lambda>ty. run_rule ty conn auth clk days overrides defaults) run = Inr batches"
    and a: "alerts = alert_order (dict_values (foldl seen_after [] batches))"
    by (rule radar_run [OF assms])
  let ?d = "foldl seen_after [] batches"
  have keyed: "id_keyed ?d" by (rule id_keyed_batches) (simp add: id_keyed_def)
  have ids: "map al_id (dict_values ?d) = dict_keys ?d" by (rule map_values_key [OF keyed])
  have "mset (map al_id alerts) = mset (map al_id (dict_values ?d))" by (simp only: a alert_order_def mset_map mset_sort)
  then have "distinct (map al_id alerts)"
    using keyed ids by (metis id_keyed_def mset_eq_imp_distinct_iff)
  moreover have "sorted (map (\<lambda>a. (SEVERITY_RANK (al_severity a), al_id a)) alerts)" by (simp add: a alert_order_def)
  moreover have "al_id ` set alerts = set (dict_keys ?d)"
    unfolding ids [symmetric] by (simp add: a image_image)
  then have "al_id ` set alerts = (\<Union>b \<in> set batches. al_id ` set b)"
    using batches_keys [of "[]" batches] by simp
  then have "al_id ` set alerts = {al_id a | a ty batch. a \<in> set batch \<and> ty \<in> set run
      \<and> run_rule ty conn auth clk days overrides defaults = Inr batch}"
    using mapE_set [OF b] mapE_complete [OF b] by fastforce
  ultimately show ?thesis by (simp only: run)
qed

theorem radar_dedup_sorted_complete_witness:
  "\<exists>alerts. run_operations_radar sample_db admin sample_clock (Some [OVERDUE_PICKUP]) 30 AGREEMENT_OVERRIDES DEFAULT_SOURCE
     = Inr alerts \<and> distinct (map al_id alerts)"
proof -
  obtain alerts where r: "run_operations_radar sample_db admin sample_clock (Some [OVERDUE_PICKUP]) 30 AGREEMENT_OVERRIDES
    DEFAULT_SOURCE = Inr alerts" by (rule sample_radar_run)
  from radar_dedup_sorted_complete [OF r] r show ?thesis by blast
qed

text \<open>Grouping by account lists each affected account once, in order, with exactly the ids
  of the alerts that affect it, sorted.\<close>

theorem group_by_account_exact:
  "sorted (dict_keys (group_by_account alerts)) \<and> distinct (dict_keys (group_by_account alerts))
   \<and> dict_get (group_by_account alerts) acct =
      (if acct \<in> (\<Union>a \<in> set alerts. set (al_accounts a))
       then Some (sorted_set (map al_id (filter (\<lambda>a. acct \<in> set (al_accounts a)) alerts))) else None)"
proof -
  define ps where "ps = concat (map (\<lambda>a. map (\<lambda>acct. (acct, al_id a)) (al_accounts a)) alerts)"
  define g where "g = foldl add_grouped [] ps"
  have dg: "distinct (dict_keys g)" unfolding g_def by (rule distinct_grouped) simp
  have keys: "dict_keys (group_by_account alerts) = map fst (sort_key fst g)"
    by (simp add: group_by_account_def ps_def [symmetric] g_def [symmetric] comp_def case_prod_unfold)
  have ds: "distinct (dict_keys (sort_key fst g))" using dg by (simp add: distinct_map)
  have get_sort: "dict_get (sort_key fst g) acct = dict_get g acct"
    using dict_get_iff [OF dg] dict_get_iff [OF ds] by (metis not_Some_eq set_sort)
  have get_map: "dict_get (map (\<lambda>(k, v). (k, f v)) d) k = map_option f (dict_get d k)" for f d and k :: string
    by (induction d) auto
  have ids: "set (map snd (filter (\<lambda>p. fst p = acct) ps)) = al_id ` {a \<in> set alerts. acct \<in> set (al_accounts a)}"
    by (force simp: ps_def)
  have "dict_get (group_by_account alerts) acct = map_option sorted_set (dict_get g acct)"
    by (simp add: group_by_account_def ps_def [symmetric] g_def [symmetric] get_map get_sort)
  also have "dict_get g acct = (case rev (map snd (filter (\<lambda>p. fst p = acct) ps)) of [] \<Rightarrow> None | ids \<Rightarrow> Some ids)"
    by (simp add: g_def add_grouped_get split: list.splits)
  also have "map_option sorted_set \<dots> = (if map snd (filter (\<lambda>p. fst p = acct) ps) = [] then None
      else Some (sorted_set (rev (map snd (filter (\<lambda>p. fst p = acct) ps)))))"
    by (cases "rev (map snd (filter (\<lambda>p. fst p = acct) ps))") auto
  also have "\<dots> = (if acct \<in> (\<Union>a \<in> set alerts. set (al_accounts a))
       then Some (sorted_set (map al_id (filter (\<lambda>a. acct \<in> set (al_accounts a)) alerts))) else None)"
  proof (cases "acct \<in> (\<Union>a \<in> set alerts. set (al_accounts a))")
    case True
    then have "set (map snd (filter (\<lambda>p. fst p = acct) ps)) \<noteq> {}" unfolding ids by blast
    moreover have "sorted_set (rev (map snd (filter (\<lambda>p. fst p = acct) ps)))
        = sorted_set (map al_id (filter (\<lambda>a. acct \<in> set (al_accounts a)) alerts))"
      by (rule sorted_set_cong) (use ids in auto)
    ultimately show ?thesis using True by (metis list.set(1))
  next
    case False
    then have "set (map snd (filter (\<lambda>p. fst p = acct) ps)) = {}" unfolding ids by blast
    with False show ?thesis by (metis set_empty)
  qed
  finally show ?thesis using ds by (simp add: keys)
qed

end
