(* ===== verification/Retrieval.thy ===== *)
theory Retrieval
  imports Sample Py_Regex "HOL-Library.Product_Lexorder"
begin

text \<open>
  \<open>app/documents/retrieval.py\<close>: document search. What SQLite's FTS5 decides is the argument
  \<open>fts\<close>: for a query text and a chunk of the database, whether the chunk matches, with its
  snippet and BM25 score. The filters, the order, the limit and the query text are the
  program's own.
\<close>

section \<open>Requests and results\<close>

record search_filter =
  flt_source_types :: "source_type list option"
  flt_authority_classes :: "authority_class list option"
  flt_statuses :: "source_status list option"
  flt_account_scope :: "string list option"

record search_result =
  dr_chunk_id :: string
  dr_source_id :: string
  dr_filename :: string
  dr_page :: int
  dr_section :: "string option"
  dr_snippet :: string
  dr_score :: pyfloat
  dr_status :: source_status
  dr_source_type :: source_type
  dr_authority_class :: authority_class
  dr_effective_date :: date
  dr_account_scope :: "string option"

type_synonym fts_engine = "db \<Rightarrow> string \<Rightarrow> chunk_row \<Rightarrow> (string \<times> pyfloat) option"

definition QUERY_TOKEN :: re where
  "QUERY_TOKEN = Many 1 (Cls is_alnum)"

definition MAX_TOP_K :: int where
  "MAX_TOP_K = 50"

definition query_terms :: "string \<Rightarrow> string list" where
  "query_terms query = dedup_by id [] (findall QUERY_TOKEN (lower query))"

definition normalize_query :: "string \<Rightarrow> error + string" where
  "normalize_query query =
     (if query_terms query = [] then Inl (InvalidFilterError ''query has no searchable terms'')
      else Inr (join '' OR '' (map (\<lambda>t. [CHR 0x22] @ t @ [CHR 0x22]) (query_terms query))))"

section \<open>The search\<close>

text \<open>\<open>if filters.xs: column IN (...)\<close>: an absent or empty list adds no clause.\<close>

definition in_filter :: "('a \<Rightarrow> string) \<Rightarrow> 'a list option \<Rightarrow> string \<Rightarrow> bool" where
  "in_filter value xs col =
     (case xs of None \<Rightarrow> True | Some ys \<Rightarrow> ys = [] \<or> col \<in> set (map value ys))"

definition scope_filter :: "string list option \<Rightarrow> string option \<Rightarrow> bool" where
  "scope_filter scope col =
     (case scope of None \<Rightarrow> True | Some accts \<Rightarrow> (case col of None \<Rightarrow> True | Some a \<Rightarrow> a \<in> set accts))"

definition chunk_passes :: "search_filter \<Rightarrow> chunk_row \<Rightarrow> bool" where
  "chunk_passes flt row =
     (in_filter source_type_value (flt_source_types flt) (cr_source_type row)
      \<and> in_filter authority_class_value (flt_authority_classes flt) (cr_authority_class row)
      \<and> in_filter source_status_value (flt_statuses flt) (cr_status row)
      \<and> scope_filter (flt_account_scope flt) (cr_account_scope row))"

definition result_of_row :: "chunk_row \<times> string \<times> pyfloat \<Rightarrow> error + search_result" where
  "result_of_row hit =
     (case hit of (row, snip, score) \<Rightarrow>
        bindE (of_optionE (ValidationError ''DocumentSearchResult.status'') (source_status_of (cr_status row))) (\<lambda>st.
        bindE (of_optionE (ValidationError ''DocumentSearchResult.source_type'') (source_type_of (cr_source_type row))) (\<lambda>ty.
        bindE (of_optionE (ValidationError ''DocumentSearchResult.authority_class'')
                 (authority_class_of (cr_authority_class row))) (\<lambda>ac.
        Inr \<lparr>dr_chunk_id = cr_chunk_id row, dr_source_id = cr_source_id row, dr_filename = cr_filename row,
             dr_page = cr_page row, dr_section = cr_section row, dr_snippet = snip, dr_score = score,
             dr_status = st, dr_source_type = ty, dr_authority_class = ac,
             dr_effective_date = cr_effective_date row, dr_account_scope = cr_account_scope row\<rparr>))))"

definition search_hits :: "fts_engine \<Rightarrow> db \<Rightarrow> string \<Rightarrow> search_filter \<Rightarrow> (chunk_row \<times> string \<times> pyfloat) list" where
  "search_hits fts conn fts_query flt =
     sort_key (\<lambda>(row, snip, score). (score, cr_chunk_id row))
       (List.map_filter (\<lambda>row.
          if chunk_passes flt row then map_option (\<lambda>m. (row, m)) (fts conn fts_query row) else None)
        (db_chunks conn))"

definition search_documents ::
  "fts_engine \<Rightarrow> db \<Rightarrow> string \<Rightarrow> search_filter \<Rightarrow> int \<Rightarrow> error + search_result list" where
  "search_documents fts conn query flt top_k =
     (if \<not> (1 \<le> top_k \<and> top_k \<le> MAX_TOP_K) then
        Inl (InvalidFilterError (''top_k must be between 1 and '' @ str_of_int MAX_TOP_K @ '', got '' @ str_of_int top_k))
      else
        bindE (normalize_query query) (\<lambda>fts_query.
        mapE result_of_row (take (nat top_k) (search_hits fts conn fts_query flt))))"

section \<open>What a search can return\<close>

lemma result_of_row_fields:
  "result_of_row (row, snip, score) = Inr r \<Longrightarrow>
     dr_account_scope r = cr_account_scope row \<and> dr_score r = score \<and> dr_chunk_id r = cr_chunk_id row
     \<and> dr_source_id r = cr_source_id row"
  by (auto simp: result_of_row_def bindE_eq_Inr)

lemma search_hits_mem:
  assumes "(row, m) \<in> set (search_hits fts conn q flt)"
  shows "row \<in> set (db_chunks conn)" "chunk_passes flt row" "fts conn q row = Some m"
  using assms by (auto simp: search_hits_def List.map_filter_def split: if_splits)

lemma sorted_take_map: "sorted (map f xs) \<Longrightarrow> sorted (map f (take n xs))"
  by (simp add: take_map sorted_wrt_take flip: take_map)

lemma search_documents_rows:
  assumes "search_documents fts conn query flt top_k = Inr rs"
  obtains q hits where "normalize_query query = Inr q" "hits = take (nat top_k) (search_hits fts conn q flt)"
    "list_all2 (\<lambda>h r. result_of_row h = Inr r) hits rs" "1 \<le> top_k" "top_k \<le> 50"
  using assms
  by (auto simp: search_documents_def MAX_TOP_K_def bindE_eq_Inr mapE_eq_Inr split: if_splits)

lemma search_result_member:
  assumes "search_documents fts conn query flt top_k = Inr rs" and r: "r \<in> set rs"
  shows "scope_filter (flt_account_scope flt) (dr_account_scope r)
    \<and> (\<exists>row \<in> set (db_chunks conn). chunk_passes flt row \<and> cr_chunk_id row = dr_chunk_id r)"
proof -
  obtain q hits where h: "hits = take (nat top_k) (search_hits fts conn q flt)"
    and all: "list_all2 (\<lambda>h r. result_of_row h = Inr r) hits rs"
    by (rule search_documents_rows [OF assms(1)])
  from list_all2_mem2 [OF all r] obtain row m where m: "(row, m) \<in> set hits" "result_of_row (row, m) = Inr r" by force
  then have "(row, m) \<in> set (search_hits fts conn q flt)" using h by (auto dest: in_set_takeD)
  from search_hits_mem [OF this] m(2) show ?thesis
    by (cases m) (auto dest!: result_of_row_fields simp: chunk_passes_def)
qed

lemma search_documents_view:
  assumes "db_chunks c = db_chunks d" "fts c = fts d"
  shows "search_documents fts c query flt top_k = search_documents fts d query flt top_k"
  by (simp only: search_documents_def search_hits_def assms)

text \<open>C32. A search never returns a chunk scoped to an account outside the caller's scope, returns at
  most \<open>top_k\<close> (at most fifty) chunks, each of which the engine matched, best score first with
  ties by chunk id.\<close>

theorem search_documents_sound:
  assumes "search_documents fts conn query flt top_k = Inr rs"
  shows "length rs \<le> nat top_k \<and> top_k \<le> 50
    \<and> sorted (map (\<lambda>r. (dr_score r, dr_chunk_id r)) rs)
    \<and> (\<forall>r \<in> set rs. scope_filter (flt_account_scope flt) (dr_account_scope r)
         \<and> (\<exists>row \<in> set (db_chunks conn). chunk_passes flt row \<and> cr_chunk_id row = dr_chunk_id r))"
proof -
  obtain q hits where h: "hits = take (nat top_k) (search_hits fts conn q flt)"
    and all: "list_all2 (\<lambda>h r. result_of_row h = Inr r) hits rs" and k: "top_k \<le> 50"
    by (rule search_documents_rows [OF assms])
  have "length rs = length hits" using all by (simp add: list_all2_lengthD)
  moreover have "length hits \<le> nat top_k" by (simp add: h)
  moreover have "map (\<lambda>r. (dr_score r, dr_chunk_id r)) rs = map (\<lambda>(row, snip, score). (score, cr_chunk_id row)) hits"
    by (rule list_all2_keys [OF all]) (auto dest: result_of_row_fields)
  moreover have "sorted (map (\<lambda>(row, snip, score). (score, cr_chunk_id row)) hits)"
    unfolding h by (rule sorted_take_map) (simp add: search_hits_def)
  ultimately show ?thesis using k search_result_member [OF assms] by auto
qed

definition sample_fts :: fts_engine where
  "sample_fts conn query row =
     (if contains ''webhook'' (lower query) \<and> contains ''webhook'' (cr_normalized_text row)
      then Some (cr_text row, - 2) else None)"

definition no_filter :: search_filter where
  "no_filter = \<lparr>flt_source_types = None, flt_authority_classes = None, flt_statuses = None, flt_account_scope = None\<rparr>"

lemma sample_search:
  obtains rs where "search_documents sample_fts sample_db ''Webhook delays?'' no_filter 5 = Inr rs"
    "map dr_source_id rs = [''SRC-04'']"
proof -
  have "inrP (\<lambda>rs. map dr_source_id rs = [''SRC-04''])
    (search_documents sample_fts sample_db ''Webhook delays?'' no_filter 5)" by code_simp
  with that show thesis by (auto elim: inrP_E)
qed

theorem search_documents_sound_witness:
  "\<exists>rs. search_documents sample_fts sample_db ''Webhook delays?'' no_filter 5 = Inr rs
     \<and> rs \<noteq> [] \<and> length rs \<le> 5"
proof -
  obtain rs where r: "search_documents sample_fts sample_db ''Webhook delays?'' no_filter 5 = Inr rs"
    and m: "map dr_source_id rs = [''SRC-04'']" by (rule sample_search)
  from search_documents_sound [OF r] m r show ?thesis by auto
qed

end
