(* ===== verification/Agent_Tools.thy ===== *)
theory Agent_Tools
  imports Agent_Planning Cancellation_Fees Service_Credit Radar Retrieval
begin

text \<open>
  The tool boundary of the agent: the four typed tools of \<open>app/agent/tools.py\<close>, the result
  envelope of \<open>tool_result.py\<close> and the dispatcher of \<open>registry.py\<close>, which turns every
  exception of a tool into a value. The latencies the code measures with a clock are the
  argument \<open>latency\<close>, the milliseconds of each attempt; logging, tracing and the latency
  fields inside the tools' own responses are left out.
\<close>

section \<open>Requests\<close>

type_synonym tool_args = "(string \<times> arg_value) list"

record search_request =
  srq_query :: string
  srq_source_types :: "source_type list option"
  srq_authority_classes :: "authority_class list option"
  srq_statuses :: "source_status list option"
  srq_top_k :: int

datatype lookup_kind = GET_ACCOUNT | GET_ORDER | GET_TICKET | SEARCH_ORDERS | SEARCH_TICKETS

fun lookup_kind_value :: "lookup_kind \<Rightarrow> string" where
  "lookup_kind_value GET_ACCOUNT = ''get_account''"
| "lookup_kind_value GET_ORDER = ''get_order''"
| "lookup_kind_value GET_TICKET = ''get_ticket''"
| "lookup_kind_value SEARCH_ORDERS = ''search_orders''"
| "lookup_kind_value SEARCH_TICKETS = ''search_tickets''"

definition lookup_kind_of :: "string \<Rightarrow> lookup_kind option" where
  "lookup_kind_of = enum_of lookup_kind_value [GET_ACCOUNT, GET_ORDER, GET_TICKET, SEARCH_ORDERS, SEARCH_TICKETS]"

record lookup_request =
  lrq_kind :: lookup_kind
  lrq_entity_id :: "string option"
  lrq_account_id :: "string option"
  lrq_status :: "string option"
  lrq_carrier :: "string option"

datatype calculation_type = CALC_CANCELLATION | CALC_SERVICE_CREDIT | CALC_SLA | CALC_SEVERITY

fun calculation_type_value :: "calculation_type \<Rightarrow> string" where
  "calculation_type_value CALC_CANCELLATION = ''cancellation''"
| "calculation_type_value CALC_SERVICE_CREDIT = ''service_credit''"
| "calculation_type_value CALC_SLA = ''sla''"
| "calculation_type_value CALC_SEVERITY = ''severity''"

definition calculation_type_of :: "string \<Rightarrow> calculation_type option" where
  "calculation_type_of =
     enum_of calculation_type_value [CALC_CANCELLATION, CALC_SERVICE_CREDIT, CALC_SLA, CALC_SEVERITY]"

record calculation_request =
  crq_calculation_type :: calculation_type
  crq_entity_id :: string

record detect_request =
  drq_alert_types :: "alert_type list option"
  drq_window_days :: int
  drq_account_scope :: "string list option"
  drq_group_by_account :: bool

definition alert_type_of :: "string \<Rightarrow> alert_type option" where
  "alert_type_of = enum_of alert_type_value
     [SLA_BREACH, SLA_APPROACHING, RECURRING_ISSUE, KNOWN_ISSUE_PATTERN, CARRIER_PATTERN, OVERDUE_PICKUP]"

datatype tool_request =
    SearchRequest search_request
  | LookupRequest lookup_request
  | CalculationRequest calculation_request
  | DetectRequest detect_request

section \<open>Building a request from raw arguments\<close>

text \<open>
  What pydantic accepts for a field, given a value of the field's own JSON type; an unknown
  argument is ignored. A value of another type is rejected: pydantic's conversions between
  types (a numeral in a string, a boolean for an integer) are not modelled. The text of a
  \<open>ValidationError\<close> is the name of the offending field.
\<close>

definition invalid :: "string \<Rightarrow> error" where
  "invalid field = ValidationError field"

definition arg_str :: "tool_args \<Rightarrow> string \<Rightarrow> error + string" where
  "arg_str args field = (case dict_get args field of Some (AStr s) \<Rightarrow> Inr s | _ \<Rightarrow> Inl (invalid field))"

definition arg_str_option :: "tool_args \<Rightarrow> string \<Rightarrow> error + string option" where
  "arg_str_option args field =
     (case dict_get args field of
        None \<Rightarrow> Inr None | Some ANone \<Rightarrow> Inr None | Some (AStr s) \<Rightarrow> Inr (Some s) | _ \<Rightarrow> Inl (invalid field))"

definition arg_int :: "tool_args \<Rightarrow> string \<Rightarrow> int \<Rightarrow> int \<Rightarrow> int \<Rightarrow> error + int" where
  "arg_int args field dflt lo hi =
     (case dict_get args field of
        None \<Rightarrow> Inr dflt
      | Some (AInt i) \<Rightarrow> if lo \<le> i \<and> i \<le> hi then Inr i else Inl (invalid field)
      | _ \<Rightarrow> Inl (invalid field))"

definition arg_bool :: "tool_args \<Rightarrow> string \<Rightarrow> bool \<Rightarrow> error + bool" where
  "arg_bool args field dflt =
     (case dict_get args field of None \<Rightarrow> Inr dflt | Some (ABool b) \<Rightarrow> Inr b | _ \<Rightarrow> Inl (invalid field))"

definition arg_enum :: "(string \<Rightarrow> 'a option) \<Rightarrow> tool_args \<Rightarrow> string \<Rightarrow> error + 'a" where
  "arg_enum of_value args field =
     bindE (arg_str args field) (\<lambda>s. of_optionE (invalid field) (of_value s))"

definition arg_list_option :: "(string \<Rightarrow> 'a option) \<Rightarrow> tool_args \<Rightarrow> string \<Rightarrow> error + 'a list option" where
  "arg_list_option of_value args field =
     (case dict_get args field of
        None \<Rightarrow> Inr None
      | Some ANone \<Rightarrow> Inr None
      | Some (AStrs ss) \<Rightarrow> bindE (mapE (\<lambda>s. of_optionE (invalid field) (of_value s)) ss) (\<lambda>xs. Inr (Some xs))
      | _ \<Rightarrow> Inl (invalid field))"

definition parse_search_request :: "tool_args \<Rightarrow> error + tool_request" where
  "parse_search_request args =
     bindE (arg_str args ''query'') (\<lambda>query.
     bindE (arg_list_option source_type_of args ''source_types'') (\<lambda>types.
     bindE (arg_list_option authority_class_of args ''authority_classes'') (\<lambda>classes.
     bindE (arg_list_option source_status_of args ''statuses'') (\<lambda>statuses.
     bindE (arg_int args ''top_k'' 5 1 50) (\<lambda>top_k.
     Inr (SearchRequest \<lparr>srq_query = query, srq_source_types = types, srq_authority_classes = classes,
       srq_statuses = statuses, srq_top_k = top_k\<rparr>))))))"

definition parse_lookup_request :: "tool_args \<Rightarrow> error + tool_request" where
  "parse_lookup_request args =
     bindE (arg_enum lookup_kind_of args ''kind'') (\<lambda>kind.
     bindE (arg_str_option args ''entity_id'') (\<lambda>entity_id.
     bindE (arg_str_option args ''account_id'') (\<lambda>account_id.
     bindE (arg_str_option args ''status'') (\<lambda>status.
     bindE (arg_str_option args ''carrier'') (\<lambda>carrier.
     Inr (LookupRequest \<lparr>lrq_kind = kind, lrq_entity_id = entity_id, lrq_account_id = account_id,
       lrq_status = status, lrq_carrier = carrier\<rparr>))))))"

definition parse_calculation_request :: "tool_args \<Rightarrow> error + tool_request" where
  "parse_calculation_request args =
     bindE (arg_enum calculation_type_of args ''calculation_type'') (\<lambda>ty.
     bindE (arg_str args ''entity_id'') (\<lambda>entity_id.
     Inr (CalculationRequest \<lparr>crq_calculation_type = ty, crq_entity_id = entity_id\<rparr>)))"

definition parse_detect_request :: "tool_args \<Rightarrow> error + tool_request" where
  "parse_detect_request args =
     bindE (arg_list_option alert_type_of args ''alert_types'') (\<lambda>types.
     bindE (arg_int args ''window_days'' DEFAULT_WINDOW_DAYS 1 365) (\<lambda>days.
     bindE (arg_list_option Some args ''account_scope'') (\<lambda>scope.
     bindE (arg_bool args ''group_by_account'' False) (\<lambda>grp.
     Inr (DetectRequest \<lparr>drq_alert_types = types, drq_window_days = days, drq_account_scope = scope,
       drq_group_by_account = grp\<rparr>)))))"

section \<open>Responses\<close>

datatype data_record = RAccount account | ROrder order | RTicket ticket

datatype outcome_payload =
    CancellationPayload cancellation_outcome
  | ServiceCreditPayload service_credit_outcome
  | SlaPayload sla_outcome
  | SeverityPayload severity_outcome

record calculation_response =
  out_calculation_type :: calculation_type
  out_trust_state :: trust_state
  out_reason :: fstr
  out_result :: "outcome_payload option"
  out_evidence :: "evidence_ref list"
  out_assumptions :: "string list"
  out_conflicts :: "conflict list"
  out_needs_human_review :: bool
  out_calculation_inputs :: "(string \<times> calc_value) list"

datatype tool_output =
    SearchOutput string "search_result list"
  | LookupOutput lookup_kind "data_record list"
  | CalculationOutput calculation_response
  | DetectOutput "alert_candidate list" "(string \<times> string list) list option"

section \<open>The tools\<close>

definition MIN_RELEVANCE_SCORE :: pyfloat where
  "MIN_RELEVANCE_SCORE = - 1"

definition search_documents_tool :: "fts_engine \<Rightarrow> db \<Rightarrow> search_request \<Rightarrow> auth_context \<Rightarrow> error + tool_output" where
  "search_documents_tool fts conn req auth =
     bindE (search_documents fts conn (srq_query req)
              \<lparr>flt_source_types = srq_source_types req, flt_authority_classes = srq_authority_classes req,
               flt_statuses = srq_statuses req, flt_account_scope = account_scope auth\<rparr>
              (srq_top_k req)) (\<lambda>raw_results.
     Inr (SearchOutput (srq_query req) (filter (\<lambda>r. dr_score r \<le> MIN_RELEVANCE_SCORE) raw_results)))"

text \<open>\<open>OrderStatus(request.status) if request.status else None\<close>: an empty status is no filter.\<close>

definition status_filter :: "(string \<Rightarrow> 'a option) \<Rightarrow> string \<Rightarrow> string option \<Rightarrow> error + 'a option" where
  "status_filter of_value class_name st =
     (case st of
        None \<Rightarrow> Inr None
      | Some s \<Rightarrow> if s = [] then Inr None
          else bindE (of_optionE (ValueError (repr_str s @ '' is not a valid '' @ class_name)) (of_value s))
                 (\<lambda>x. Inr (Some x)))"

definition required_entity :: "lookup_request \<Rightarrow> error + string" where
  "required_entity req =
     of_optionE (ValueError (''entity_id is required for '' @ lookup_kind_value (lrq_kind req))) (lrq_entity_id req)"

definition lookup_records :: "db \<Rightarrow> lookup_request \<Rightarrow> auth_context \<Rightarrow> tz \<Rightarrow> error + data_record list" where
  "lookup_records conn req auth tz =
     (case lrq_kind req of
        GET_ACCOUNT \<Rightarrow>
          bindE (required_entity req) (\<lambda>i. bindE (get_account conn i auth) (\<lambda>x. Inr [RAccount x]))
      | GET_ORDER \<Rightarrow>
          bindE (required_entity req) (\<lambda>i. bindE (get_order conn i auth tz) (\<lambda>x. Inr [ROrder x]))
      | GET_TICKET \<Rightarrow>
          bindE (required_entity req) (\<lambda>i. bindE (get_ticket conn i auth tz) (\<lambda>x. Inr [RTicket x]))
      | SEARCH_ORDERS \<Rightarrow>
          bindE (status_filter order_status_of ''OrderStatus'' (lrq_status req)) (\<lambda>st.
          bindE (search_orders conn auth tz (lrq_account_id req) st (lrq_carrier req)) (\<lambda>xs. Inr (map ROrder xs)))
      | SEARCH_TICKETS \<Rightarrow>
          bindE (status_filter ticket_status_of ''TicketStatus'' (lrq_status req)) (\<lambda>st.
          bindE (search_tickets conn auth tz (lrq_account_id req) st) (\<lambda>xs. Inr (map RTicket xs))))"

definition lookup_structured_data_tool :: "db \<Rightarrow> lookup_request \<Rightarrow> auth_context \<Rightarrow> clock \<Rightarrow> error + tool_output" where
  "lookup_structured_data_tool conn req auth clk =
     bindE (lookup_records conn req auth (tz_of clk)) (\<lambda>records. Inr (LookupOutput (lrq_kind req) records))"

definition from_decision :: "('a \<Rightarrow> outcome_payload) \<Rightarrow> calculation_type \<Rightarrow> 'a decision \<Rightarrow> tool_output" where
  "from_decision payload ty dec =
     CalculationOutput
       \<lparr>out_calculation_type = ty, out_trust_state = trust_state dec, out_reason = reason dec,
        out_result = map_option payload (result dec), out_evidence = evidence dec,
        out_assumptions = assumptions dec, out_conflicts = conflicts dec,
        out_needs_human_review = needs_human_review dec, out_calculation_inputs = calculation_inputs dec\<rparr>"

fun calculate_outcome :: "db \<Rightarrow> calculation_type \<Rightarrow> string \<Rightarrow> auth_context \<Rightarrow> clock \<Rightarrow> error + tool_output" where
  "calculate_outcome conn CALC_CANCELLATION i auth clk =
     bindE (evaluate_cancellation conn i auth clk DEFAULT_FEE_RULES AGREEMENT_OVERRIDES DEFAULT_SOURCE) (\<lambda>dec.
     Inr (from_decision CancellationPayload CALC_CANCELLATION dec))"
| "calculate_outcome conn CALC_SERVICE_CREDIT i auth clk =
     bindE (evaluate_service_credit conn i auth clk DEFAULT_CREDIT_RULES AGREEMENT_OVERRIDES DEFAULT_SOURCE) (\<lambda>dec.
     Inr (from_decision ServiceCreditPayload CALC_SERVICE_CREDIT dec))"
| "calculate_outcome conn CALC_SLA i auth clk =
     bindE (calculate_sla conn i auth clk AGREEMENT_OVERRIDES DEFAULT_SOURCE) (\<lambda>dec.
     Inr (from_decision SlaPayload CALC_SLA dec))"
| "calculate_outcome conn CALC_SEVERITY i auth clk =
     bindE (get_ticket conn i auth (tz_of clk)) (\<lambda>tkt.
     Inr (from_decision SeverityPayload CALC_SEVERITY (classify_severity tkt (Some conn))))"

definition calculate_support_outcome_tool ::
  "db \<Rightarrow> calculation_request \<Rightarrow> auth_context \<Rightarrow> clock \<Rightarrow> error + tool_output" where
  "calculate_support_outcome_tool conn req auth clk =
     calculate_outcome conn (crq_calculation_type req) (crq_entity_id req) auth clk"

text \<open>A caller can narrow their own scope by naming accounts, never widen it.\<close>

definition narrowed_auth :: "auth_context \<Rightarrow> string list option \<Rightarrow> auth_context" where
  "narrowed_auth auth scope =
     (case scope of
        None \<Rightarrow> auth
      | Some accts \<Rightarrow> \<lparr>role = role auth, account_scope = Some (sorted_set (filter (allows_account auth) accts))\<rparr>)"

definition detect_issues_tool :: "db \<Rightarrow> detect_request \<Rightarrow> auth_context \<Rightarrow> clock \<Rightarrow> error + tool_output" where
  "detect_issues_tool conn req auth clk =
     bindE (run_operations_radar conn (narrowed_auth auth (drq_account_scope req)) clk (drq_alert_types req)
              (drq_window_days req) AGREEMENT_OVERRIDES DEFAULT_SOURCE) (\<lambda>alerts.
     Inr (DetectOutput alerts (if drq_group_by_account req then Some (group_by_account alerts) else None)))"

end
