(* ===== verification/Tool_Registry.thy ===== *)
theory Tool_Registry
  imports Agent_Tools
begin

text \<open>
  \<open>app/agent/tool_result.py\<close> and \<open>app/agent/registry.py\<close>: the registry of the four tools,
  the classification of exceptions and the attempt loop. The dispatcher never raises: its
  result is a \<open>tool_result\<close> on every path.
\<close>

section \<open>The result envelope\<close>

datatype tool_error_type = NOT_FOUND | NOT_AUTHORIZED | INVALID_ARGUMENTS | TIMEOUT | INTERNAL

record tool_result =
  res_tool_name :: string
  res_success :: bool
  res_output :: "tool_output option"
  res_error_type :: "tool_error_type option"
  res_retryable :: bool
  res_safe_message :: "fstr option"
  res_latency_ms :: pyfloat
  res_attempts :: nat

definition result_ok :: "string \<Rightarrow> tool_output \<Rightarrow> pyfloat \<Rightarrow> nat \<Rightarrow> tool_result" where
  "result_ok name output latency_ms attempts =
     \<lparr>res_tool_name = name, res_success = True, res_output = Some output, res_error_type = None,
      res_retryable = False, res_safe_message = None, res_latency_ms = latency_ms, res_attempts = attempts\<rparr>"

definition result_fail :: "string \<Rightarrow> tool_error_type \<Rightarrow> fstr \<Rightarrow> pyfloat \<Rightarrow> bool \<Rightarrow> nat \<Rightarrow> tool_result" where
  "result_fail name error_type safe_message latency_ms retryable attempts =
     \<lparr>res_tool_name = name, res_success = False, res_output = None, res_error_type = Some error_type,
      res_retryable = retryable, res_safe_message = Some safe_message, res_latency_ms = latency_ms,
      res_attempts = attempts\<rparr>"

section \<open>The registry\<close>

record tool_spec =
  spec_parse :: "tool_args \<Rightarrow> error + tool_request"
  spec_timeout_seconds :: pyfloat
  spec_retryable :: bool
  spec_evidence_bearing :: bool
  spec_max_retries :: nat

definition registry_entry :: "(tool_args \<Rightarrow> error + tool_request) \<Rightarrow> pyfloat \<Rightarrow> tool_spec" where
  "registry_entry parse timeout =
     \<lparr>spec_parse = parse, spec_timeout_seconds = timeout, spec_retryable = False,
      spec_evidence_bearing = True, spec_max_retries = 2\<rparr>"

definition TOOL_REGISTRY :: "(string \<times> tool_spec) list" where
  "TOOL_REGISTRY =
     [(''search_documents'', registry_entry parse_search_request 5),
      (''lookup_structured_data'', registry_entry parse_lookup_request 5),
      (''calculate_support_outcome'', registry_entry parse_calculation_request 10),
      (''detect_issues'', registry_entry parse_detect_request 10)]"

text \<open>\<open>_ERROR_MAP\<close> with \<open>isinstance\<close>: pydantic's \<open>ValidationError\<close> is a \<open>ValueError\<close>.\<close>

fun error_type_of :: "error \<Rightarrow> tool_error_type" where
  "error_type_of (NotAuthorizedError _) = NOT_AUTHORIZED"
| "error_type_of (UnknownEntityError _ _) = NOT_FOUND"
| "error_type_of (InvalidFilterError _) = INVALID_ARGUMENTS"
| "error_type_of (ValueError _) = INVALID_ARGUMENTS"
| "error_type_of (ValidationError _) = INVALID_ARGUMENTS"
| "error_type_of _ = INTERNAL"

definition TRANSIENT_ERROR_TYPES :: "tool_error_type list" where
  "TRANSIENT_ERROR_TYPES = [TIMEOUT]"

fun is_safe_error :: "error \<Rightarrow> bool" where
  "is_safe_error (ValueError _) = True"
| "is_safe_error (ValidationError _) = True"
| "is_safe_error e = is_parcelpilot_error e"

definition safe_message_of :: "error \<Rightarrow> string" where
  "safe_message_of e = (if is_safe_error e then exc_str e else ''an internal error occurred'')"

section \<open>Dispatch\<close>

fun dispatch :: "fts_engine \<Rightarrow> tool_request \<Rightarrow> db \<Rightarrow> auth_context \<Rightarrow> clock \<Rightarrow> error + tool_output" where
  "dispatch fts (SearchRequest req) conn auth clk = search_documents_tool fts conn req auth"
| "dispatch fts (LookupRequest req) conn auth clk = lookup_structured_data_tool conn req auth clk"
| "dispatch fts (CalculationRequest req) conn auth clk = calculate_support_outcome_tool conn req auth clk"
| "dispatch fts (DetectRequest req) conn auth clk = detect_issues_tool conn req auth clk"

text \<open>One attempt: the outcome of the call, and whether it overran its budget.\<close>

definition attempt_result :: "string \<Rightarrow> tool_spec \<Rightarrow> error + tool_output \<Rightarrow> pyfloat \<Rightarrow> nat \<Rightarrow> tool_result" where
  "attempt_result name spec called latency_ms attempt =
     (case called of
        Inl e \<Rightarrow> result_fail name (error_type_of e) [T (safe_message_of e)] latency_ms
                  (error_type_of e \<in> set TRANSIENT_ERROR_TYPES) attempt
      | Inr out \<Rightarrow>
          if latency_ms > spec_timeout_seconds spec * 1000
          then result_fail name TIMEOUT
                 [T (name @ '' exceeded its ''), F1 (spec_timeout_seconds spec), T ''s timeout budget''] latency_ms True attempt
          else result_ok name out latency_ms attempt)"

text \<open>The loop over \<open>range(1, max_attempts + 1)\<close>, \<open>left\<close> attempts remaining after this one.\<close>

fun run_attempts :: "string \<Rightarrow> tool_spec \<Rightarrow> error + tool_output \<Rightarrow> (nat \<Rightarrow> pyfloat) \<Rightarrow> nat \<Rightarrow> nat \<Rightarrow> tool_result" where
  "run_attempts name spec called latency attempt left =
     (let r = attempt_result name spec called (latency attempt) attempt in
      if res_success r \<or> res_error_type r \<notin> Some ` set TRANSIENT_ERROR_TYPES then r
      else (case left of 0 \<Rightarrow> r | Suc k \<Rightarrow> run_attempts name spec called latency (attempt + 1) k))"

declare run_attempts.simps [simp del]

definition max_attempts :: "tool_spec \<Rightarrow> nat" where
  "max_attempts spec = (if spec_retryable spec then spec_max_retries spec + 1 else 1)"

definition execute_tool ::
  "fts_engine \<Rightarrow> (nat \<Rightarrow> pyfloat) \<Rightarrow> string \<Rightarrow> tool_args \<Rightarrow> db \<Rightarrow> auth_context \<Rightarrow> clock \<Rightarrow> tool_result" where
  "execute_tool fts latency name raw_args conn auth clk =
     (case dict_get TOOL_REGISTRY name of
        None \<Rightarrow> result_fail name INVALID_ARGUMENTS [T (''unknown tool '' @ repr_str name)] 0 False 1
      | Some spec \<Rightarrow>
          (case spec_parse spec raw_args of
             Inl e \<Rightarrow> result_fail name INVALID_ARGUMENTS [T (''invalid arguments: '' @ exc_str e)] 0 False 1
           | Inr req \<Rightarrow>
               run_attempts name spec (dispatch fts req conn auth clk) latency 1 (max_attempts spec - 1)))"

section \<open>The shape of a result\<close>

lemma attempt_fields [simp]:
  "res_tool_name (attempt_result name spec called ms n) = name"
  "res_attempts (attempt_result name spec called ms n) = n"
  "res_latency_ms (attempt_result name spec called ms n) = ms"
  "res_success (attempt_result name spec called ms n) \<longleftrightarrow>
     (\<exists>out. called = Inr out) \<and> ms \<le> spec_timeout_seconds spec * 1000"
  by (auto simp: attempt_result_def result_fail_def result_ok_def not_less split: sum.splits)

lemma attempt_output:
  "res_output (attempt_result name spec called ms n) =
     (if res_success (attempt_result name spec called ms n) then Some (projr called) else None)"
  by (auto simp: attempt_result_def result_fail_def result_ok_def split: sum.splits)

lemma attempt_error:
  "res_error_type (attempt_result name spec called ms n) =
     (case called of Inl e \<Rightarrow> Some (error_type_of e)
      | Inr out \<Rightarrow> if ms > spec_timeout_seconds spec * 1000 then Some TIMEOUT else None)"
  by (auto simp: attempt_result_def result_fail_def result_ok_def split: sum.splits)

text \<open>The retry loop in general: it stops within its allowance, and the result is that of the
  attempt it stopped at.\<close>

lemma run_attempts_stops:
  "\<exists>n \<ge> attempt. n \<le> attempt + left \<and>
     run_attempts name spec called latency attempt left = attempt_result name spec called (latency n) n"
proof (induction left arbitrary: attempt)
  case 0
  show ?case by (subst run_attempts.simps) (auto simp: Let_def)
next
  case (Suc left)
  obtain n where n: "attempt + 1 \<le> n" "n \<le> attempt + 1 + left"
    "run_attempts name spec called latency (attempt + 1) left = attempt_result name spec called (latency n) n"
    using Suc.IH by blast
  show ?case
  proof (cases "res_success (attempt_result name spec called (latency attempt) attempt)
      \<or> res_error_type (attempt_result name spec called (latency attempt) attempt) \<notin> Some ` set TRANSIENT_ERROR_TYPES")
    case True
    then have "run_attempts name spec called latency attempt (Suc left)
        = attempt_result name spec called (latency attempt) attempt"
      by (subst run_attempts.simps) (simp add: Let_def)
    then show ?thesis by (intro exI [of _ attempt]) simp
  next
    case False
    then have "run_attempts name spec called latency attempt (Suc left)
        = run_attempts name spec called latency (attempt + 1) left"
      by (subst run_attempts.simps) (simp only: Let_def nat.case if_False)
    with n show ?thesis by (intro exI [of _ n]) simp
  qed
qed

lemma run_attempts_exhausts:
  assumes "\<And>n. attempt \<le> n \<Longrightarrow> n < attempt + left \<Longrightarrow> latency n > spec_timeout_seconds spec * 1000"
  shows "run_attempts name spec (Inr out) latency attempt left
    = attempt_result name spec (Inr out) (latency (attempt + left)) (attempt + left)"
  using assms
proof (induction left arbitrary: attempt)
  case 0
  show ?case by (subst run_attempts.simps) (auto simp: Let_def)
next
  case (Suc left)
  have "latency attempt > spec_timeout_seconds spec * 1000" using Suc.prems [of attempt] by simp
  then have "run_attempts name spec (Inr out) latency attempt (Suc left)
      = run_attempts name spec (Inr out) latency (attempt + 1) left"
    by (subst run_attempts.simps) (simp add: Let_def attempt_error TRANSIENT_ERROR_TYPES_def)
  also have "\<dots> = attempt_result name spec (Inr out) (latency (attempt + 1 + left)) (attempt + 1 + left)"
    by (rule Suc.IH) (use Suc.prems in simp)
  finally show ?case by simp
qed

lemma registry_member:
  assumes "dict_get TOOL_REGISTRY name = Some spec"
  shows "spec \<in> {registry_entry parse_search_request 5, registry_entry parse_lookup_request 5,
    registry_entry parse_calculation_request 10, registry_entry parse_detect_request 10}"
proof -
  have "spec \<in> set (dict_values TOOL_REGISTRY)" using dict_get_mem [OF assms] by force
  then show ?thesis unfolding TOOL_REGISTRY_def by simp
qed

lemma registry_single_attempt: "dict_get TOOL_REGISTRY name = Some spec \<Longrightarrow> max_attempts spec = 1"
  by (drule registry_member) (auto simp: registry_entry_def max_attempts_def)

lemma registry_timeout:
  "dict_get TOOL_REGISTRY name = Some spec \<Longrightarrow> spec_timeout_seconds spec \<in> {5, 10}"
  by (drule registry_member) (auto simp: registry_entry_def)

text \<open>The three ways a call of a registered tool can end.\<close>

lemma execute_tool_cases:
  obtains (unknown) "dict_get TOOL_REGISTRY name = None"
      "execute_tool fts latency name args conn auth clk
        = result_fail name INVALID_ARGUMENTS [T (''unknown tool '' @ repr_str name)] 0 False 1"
  | (invalid) spec e where "dict_get TOOL_REGISTRY name = Some spec" "spec_parse spec args = Inl e"
      "execute_tool fts latency name args conn auth clk
        = result_fail name INVALID_ARGUMENTS [T (''invalid arguments: '' @ exc_str e)] 0 False 1"
  | (called) spec req where "dict_get TOOL_REGISTRY name = Some spec" "spec_parse spec args = Inr req"
      "execute_tool fts latency name args conn auth clk
        = attempt_result name spec (dispatch fts req conn auth clk) (latency 1) 1"
proof (cases "dict_get TOOL_REGISTRY name")
  case None
  then show thesis by (intro unknown) (simp_all add: execute_tool_def)
next
  case (Some spec)
  show thesis
  proof (cases "spec_parse spec args")
    case (Inl e)
    with Some show thesis by (intro invalid [of spec e]) (simp_all add: execute_tool_def)
  next
    case (Inr req)
    obtain n where "1 \<le> n" "n \<le> 1 + (max_attempts spec - 1)"
      "run_attempts name spec (dispatch fts req conn auth clk) latency 1 (max_attempts spec - 1)
         = attempt_result name spec (dispatch fts req conn auth clk) (latency n) n"
      using run_attempts_stops by blast
    with Some Inr registry_single_attempt [OF Some] show thesis
      by (intro called [of spec req]) (simp_all add: execute_tool_def)
  qed
qed

lemma execute_tool_output:
  assumes "res_output (execute_tool fts latency name args conn auth clk) = Some out"
  obtains spec req where "dict_get TOOL_REGISTRY name = Some spec" "spec_parse spec args = Inr req"
    "dispatch fts req conn auth clk = Inr out"
  by (rule execute_tool_cases [of name fts latency args conn auth clk])
    (use assms in \<open>auto simp: result_fail_def attempt_output split: if_splits intro: that\<close>)

section \<open>What a tool may show\<close>

lemma bindE_first: "bindE m f = Inr y \<Longrightarrow> \<exists>x. m = Inr x"
  by (cases m) auto

fun record_account :: "data_record \<Rightarrow> string" where
  "record_account (RAccount x) = acc_id x"
| "record_account (ROrder x) = ord_account_id x"
| "record_account (RTicket x) = tkt_account_id x"

fun output_in_scope :: "auth_context \<Rightarrow> tool_output \<Rightarrow> bool" where
  "output_in_scope auth (SearchOutput q rs) = (\<forall>r \<in> set rs. scope_filter (account_scope auth) (dr_account_scope r))"
| "output_in_scope auth (LookupOutput k records) = (\<forall>x \<in> set records. allows_account auth (record_account x))"
| "output_in_scope auth (CalculationOutput c) = True"
| "output_in_scope auth (DetectOutput alerts grouped) = alerts_in_scope auth alerts"

lemma search_output_scope:
  assumes "search_documents_tool fts conn req auth = Inr out"
  shows "output_in_scope auth out"
proof -
  obtain rs where rs: "search_documents fts conn (srq_query req)
      \<lparr>flt_source_types = srq_source_types req, flt_authority_classes = srq_authority_classes req,
       flt_statuses = srq_statuses req, flt_account_scope = account_scope auth\<rparr> (srq_top_k req) = Inr rs"
    and out: "out = SearchOutput (srq_query req) (filter (\<lambda>r. dr_score r \<le> MIN_RELEVANCE_SCORE) rs)"
    using assms by (auto simp: search_documents_tool_def bindE_eq_Inr)
  from search_result_member [OF rs] show ?thesis unfolding out by simp
qed

lemma search_orders_scope:
  "search_orders conn auth tz a st carrier = Inr xs \<Longrightarrow> \<forall>x \<in> set xs. allows_account auth (ord_account_id x)"
  by (rule ballI) (rule order_search.all_in_scope)

lemma search_tickets_scope:
  "search_tickets conn auth tz a st = Inr xs \<Longrightarrow> \<forall>x \<in> set xs. allows_account auth (tkt_account_id x)"
  by (rule ballI) (rule ticket_search.all_in_scope)

lemma lookup_output_scope:
  assumes "lookup_structured_data_tool conn req auth clk = Inr out"
  shows "output_in_scope auth out"
proof -
  obtain records where r: "lookup_records conn req auth (tz_of clk) = Inr records"
    and out: "out = LookupOutput (lrq_kind req) records"
    using assms by (auto simp: lookup_structured_data_tool_def bindE_eq_Inr)
  have "allows_account auth (record_account x)" if "x \<in> set records" for x
    using r that
    by (cases "lrq_kind req")
      (auto simp: lookup_records_def bindE_eq_Inr
        elim: order_lookup.in_scope ticket_lookup.in_scope account_lookup.in_scope
        dest!: search_orders_scope search_tickets_scope)
  then show ?thesis unfolding out by simp
qed

lemma narrowed_allows:
  "allows_account (narrowed_auth auth scope) a \<longleftrightarrow>
     allows_account auth a \<and> (case scope of None \<Rightarrow> True | Some accts \<Rightarrow> a \<in> set accts)"
  by (auto simp: narrowed_auth_def allows_account_def split: option.splits)

lemma detect_output_scope:
  assumes "detect_issues_tool conn req auth clk = Inr out"
  obtains alerts grouped where "out = DetectOutput alerts grouped"
    "alerts_in_scope (narrowed_auth auth (drq_account_scope req)) alerts"
proof -
  obtain alerts where r: "run_operations_radar conn (narrowed_auth auth (drq_account_scope req)) clk
      (drq_alert_types req) (drq_window_days req) AGREEMENT_OVERRIDES DEFAULT_SOURCE = Inr alerts"
    and out: "out = DetectOutput alerts (if drq_group_by_account req then Some (group_by_account alerts) else None)"
    using assms by (auto simp: detect_issues_tool_def bindE_eq_Inr)
  from out radar_alerts_scoped [OF r] show thesis by (rule that)
qed

lemma narrowed_scope: "alerts_in_scope (narrowed_auth auth scope) alerts \<Longrightarrow> alerts_in_scope auth alerts"
  by (fastforce simp: alerts_in_scope_def narrowed_allows)

lemma calculate_outcome_output:
  assumes "calculate_outcome conn ty i auth clk = Inr out"
  obtains c where "out = CalculationOutput c"
  using assms by (cases ty) (auto simp: bindE_eq_Inr from_decision_def)

lemma dispatch_scope: "dispatch fts req conn auth clk = Inr out \<Longrightarrow> output_in_scope auth out"
proof (cases req)
  case (DetectRequest r)
  assume "dispatch fts req conn auth clk = Inr out"
  then have "detect_issues_tool conn r auth clk = Inr out" by (simp add: DetectRequest)
  then show ?thesis by (elim detect_output_scope) (simp add: narrowed_scope)
qed (auto simp: calculate_support_outcome_tool_def search_output_scope lookup_output_scope elim: calculate_outcome_output)

section \<open>Properties of the boundary\<close>

text \<open>C39. Whatever the name, the arguments and the database, the dispatcher returns one envelope
  and raises nothing: it succeeds exactly when the tool is registered, its arguments validate,
  the call returns and the clock stays within the tool's budget, and then it carries that
  output; otherwise it carries an error type and a message and no output. The tool runs once.\<close>

theorem execute_tool_envelope:
  "(let r = execute_tool fts latency name args conn auth clk in
      res_tool_name r = name \<and> res_attempts r = 1
      \<and> (res_error_type r = None) = res_success r \<and> (res_safe_message r = None) = res_success r
      \<and> (res_output r \<noteq> None) = res_success r
      \<and> (\<forall>out. (res_output r = Some out) = (\<exists>spec req. dict_get TOOL_REGISTRY name = Some spec
            \<and> spec_parse spec args = Inr req \<and> dispatch fts req conn auth clk = Inr out
            \<and> latency 1 \<le> spec_timeout_seconds spec * 1000)))"
proof (cases rule: execute_tool_cases [of name fts latency args conn auth clk])
  case unknown
  then show ?thesis by (simp add: Let_def result_fail_def)
next
  case (invalid spec e)
  then show ?thesis by (simp add: Let_def result_fail_def)
next
  case (called spec req)
  then show ?thesis
    by (cases "dispatch fts req conn auth clk") (auto simp: Let_def attempt_result_def result_fail_def result_ok_def)
qed

text \<open>Text of an exception nobody wrote for a user never reaches one: such an exception is
  reported as internal with a fixed message, and it is not retried.\<close>

theorem internal_errors_are_masked:
  assumes "dict_get TOOL_REGISTRY name = Some spec" "spec_parse spec args = Inr req"
    and "dispatch fts req conn auth clk = Inl e" "\<not> is_parcelpilot_error e" "\<nexists>m. e = ValueError m \<or> e = ValidationError m"
  shows "res_error_type (execute_tool fts latency name args conn auth clk) = Some INTERNAL
    \<and> res_safe_message (execute_tool fts latency name args conn auth clk) = Some [T ''an internal error occurred'']
    \<and> \<not> res_retryable (execute_tool fts latency name args conn auth clk)"
proof -
  have "error_type_of e = INTERNAL \<and> \<not> is_safe_error e" using assms(4,5) by (cases e) auto
  moreover have "execute_tool fts latency name args conn auth clk = attempt_result name spec (Inl e) (latency 1) 1"
    using execute_tool_cases [of name fts latency args conn auth clk] assms(1-3) by force
  ultimately show ?thesis
    by (simp add: attempt_result_def result_fail_def safe_message_of_def TRANSIENT_ERROR_TYPES_def)
qed

lemma calculate_sla_raises:
  assumes "get_ticket conn k auth (tz_of clk) = Inr tkt" "get_account conn (tkt_account_id tkt) auth = Inr acct"
    and "classified tkt = Some sev"
    and "resolve_applicability conn SLA_FIRST_RESPONSE (acc_id acct) (dt_date (now clk)) overrides defaults = Inr ap"
    and "lookup_sla_target conn (winning_source_id ap) acct sev = Some row"
    and "lr_requires_business_calendar row = 0" "lr_target_minutes row = None"
  obtains m where "calculate_sla conn k auth clk overrides defaults = Inl (TypeError m)"
proof -
  obtain so where so: "result (classify_severity tkt (Some conn)) = Some so" "so_severity so = classified tkt"
    using classify_severity_result by blast
  have "\<exists>m. calculate_sla conn k auth clk overrides defaults = Inl (TypeError m)"
    unfolding calculate_sla_def Let_def assms(1,2) bindE.simps so(1) Option.bind.simps so(2) assms(3,4) option.case
      assms(5) by (simp add: assms(6,7))
  with that show thesis by blast
qed

definition untimed_db :: db where
  "untimed_db = sample_db\<lparr>db_sla_targets := [sample_sla ''SRC-05'' None (Some ''ACCT-001'') ''P1'' None 0]\<rparr>"

lemma sample_type_error:
  obtains m where "calculate_sla untimed_db ''TCK-1'' admin sample_clock AGREEMENT_OVERRIDES DEFAULT_SOURCE = Inl (TypeError m)"
proof -
  obtain tkt d sla where t: "get_ticket sample_db ''TCK-1'' admin (tz_of sample_clock) = Inr tkt"
    and d: "calculate_sla sample_db ''TCK-1'' admin sample_clock AGREEMENT_OVERRIDES DEFAULT_SOURCE = Inr d"
      "trust_state d = CONFIDENT" "result d = Some sla" "sla_severity sla = P1"
    by (rule sample_tck1)
  have p1: "classified tkt = Some P1"
    by (rule calculate_sla_confident [OF d(1,2)]) (use t d(3,4) in auto)
  have tkt: "get_ticket untimed_db ''TCK-1'' admin (tz_of sample_clock) = Inr tkt"
    using t by (simp add: get_ticket_def untimed_db_def)
  have "inrP (\<lambda>t. tkt_account_id t = ''ACCT-001'') (get_ticket sample_db ''TCK-1'' admin (tz_of sample_clock))" by code_simp
  with t have a: "tkt_account_id tkt = ''ACCT-001''" by (simp add: inrP_def)
  have "inrP (\<lambda>acct. acc_id acct = ''ACCT-001'' \<and> map_option (\<lambda>row. (lr_requires_business_calendar row, lr_target_minutes row))
      (lookup_sla_target untimed_db ''SRC-05'' acct P1) = Some (0, None))
    (get_account untimed_db ''ACCT-001'' admin)" by code_simp
  then obtain acct row where acct: "get_account untimed_db (tkt_account_id tkt) admin = Inr acct"
    and id: "acc_id acct = ''ACCT-001''" and row: "lookup_sla_target untimed_db ''SRC-05'' acct P1 = Some row"
      "lr_requires_business_calendar row = 0" "lr_target_minutes row = None"
    unfolding a by (auto simp: inrP_iff)
  have "inrP (\<lambda>ap. winning_source_id ap = ''SRC-05'')
    (resolve_applicability untimed_db SLA_FIRST_RESPONSE ''ACCT-001'' (dt_date (now sample_clock)) AGREEMENT_OVERRIDES DEFAULT_SOURCE)"
    by code_simp
  then obtain ap where ap: "resolve_applicability untimed_db SLA_FIRST_RESPONSE (acc_id acct) (dt_date (now sample_clock))
      AGREEMENT_OVERRIDES DEFAULT_SOURCE = Inr ap" and w: "winning_source_id ap = ''SRC-05''"
    unfolding id by (auto elim: inrP_E)
  show thesis by (rule calculate_sla_raises [OF tkt acct p1 ap row(1) [folded w] row(2,3)]) (rule that)
qed

theorem internal_errors_are_masked_witness:
  "res_error_type (execute_tool sample_fts (\<lambda>n. 1) ''calculate_support_outcome''
     [(''calculation_type'', AStr ''sla''), (''entity_id'', AStr ''TCK-1'')] untimed_db admin sample_clock) = Some INTERNAL"
proof -
  let ?req = "CalculationRequest \<lparr>crq_calculation_type = CALC_SLA, crq_entity_id = ''TCK-1''\<rparr>"
  obtain m where m: "calculate_sla untimed_db ''TCK-1'' admin sample_clock AGREEMENT_OVERRIDES DEFAULT_SOURCE = Inl (TypeError m)"
    by (rule sample_type_error)
  have "dict_get TOOL_REGISTRY ''calculate_support_outcome'' = Some (registry_entry parse_calculation_request 10)"
    by (simp add: TOOL_REGISTRY_def)
  moreover have "spec_parse (registry_entry parse_calculation_request 10)
      [(''calculation_type'', AStr ''sla''), (''entity_id'', AStr ''TCK-1'')] = Inr ?req"
    by (simp add: registry_entry_def parse_calculation_request_def arg_enum_def arg_str_def calculation_type_of_def enum_of_def)
  moreover have "dispatch sample_fts ?req untimed_db admin sample_clock = Inl (TypeError m)"
    by (simp add: calculate_support_outcome_tool_def m)
  ultimately show ?thesis by (rule internal_errors_are_masked [THEN conjunct1]) simp_all
qed



text \<open>A tool shows only what its caller may see: every record it returns belongs to an account
  in scope, every document chunk is unscoped or scoped to one, and every account an alert names
  is in scope.\<close>

theorem tool_output_in_scope:
  assumes "res_output (execute_tool fts latency name args conn auth clk) = Some out"
  shows "output_in_scope auth out"
  by (rule execute_tool_output [OF assms]) (rule dispatch_scope)

theorem tool_output_in_scope_witness:
  "\<exists>out. res_output (execute_tool sample_fts (\<lambda>n. 1) ''lookup_structured_data''
      [(''kind'', AStr ''search_orders'')] sample_db beacon_agent sample_clock) = Some out
    \<and> output_in_scope beacon_agent out"
proof -
  have "res_output (execute_tool sample_fts (\<lambda>n. 1) ''lookup_structured_data''
      [(''kind'', AStr ''search_orders'')] sample_db beacon_agent sample_clock) \<noteq> None" by code_simp
  then obtain out where "res_output (execute_tool sample_fts (\<lambda>n. 1) ''lookup_structured_data''
      [(''kind'', AStr ''search_orders'')] sample_db beacon_agent sample_clock) = Some out" by blast
  from tool_output_in_scope [OF this] this show ?thesis by blast
qed

lemma calculate_outcome_access:
  assumes "calculate_outcome conn ty i auth clk = Inr out"
  shows "(\<exists>x. get_order conn i auth (tz_of clk) = Inr x) \<or> (\<exists>x. get_ticket conn i auth (tz_of clk) = Inr x)"
  using assms
  by (cases ty)
    (auto simp: bindE_eq_Inr evaluate_cancellation_def evaluate_service_credit_def calculate_sla_def dest!: bindE_first)

lemma execute_tool_success:
  assumes "res_success (execute_tool fts latency name args conn auth clk)"
  obtains out where "res_output (execute_tool fts latency name args conn auth clk) = Some out"
  by (rule execute_tool_cases [of name fts latency args conn auth clk])
    (use assms in \<open>auto simp: result_fail_def attempt_output intro: that\<close>)

lemma parsed_calculation:
  assumes "parse_calculation_request args = Inr req" "dispatch fts req conn auth clk = Inr out"
  obtains ty i where "dict_get args ''entity_id'' = Some (AStr i)" "calculate_outcome conn ty i auth clk = Inr out"
  using assms
  by (auto simp: parse_calculation_request_def arg_str_def bindE_eq_Inr calculate_support_outcome_tool_def
      split: option.splits arg_value.splits)

text \<open>The steps a plan is made of, and the requests they parse to.\<close>

lemma plan_step_forms:
  "s \<in> set (build_plan question what ents) \<Longrightarrow>
    (\<exists>i \<in> set (order_ids ents). s \<in> {lookup_order_step i, cancellation_step i, credit_step i})
    \<or> (\<exists>i \<in> set (ticket_ids ents). s \<in> {lookup_ticket_step i, sla_step i, severity_step i})
    \<or> (\<exists>i \<in> set (account_ids ents). s = lookup_account_step i)
    \<or> (\<exists>p ts. s = search_step question p ts \<and> ts \<in> {[], [''support_policy''], [''product_doc'']})"
  by (cases what) auto

lemmas step_defs = lookup_order_step_def lookup_ticket_step_def lookup_account_step_def lookup_step_def
  search_step_def calculate_step_def cancellation_step_def credit_step_def sla_step_def severity_step_def

lemma parsed_lookup_steps:
  "parse_lookup_request (step_args (lookup_order_step i)) = Inr (LookupRequest
     \<lparr>lrq_kind = GET_ORDER, lrq_entity_id = Some i, lrq_account_id = None, lrq_status = None, lrq_carrier = None\<rparr>)"
  "parse_lookup_request (step_args (lookup_ticket_step i)) = Inr (LookupRequest
     \<lparr>lrq_kind = GET_TICKET, lrq_entity_id = Some i, lrq_account_id = None, lrq_status = None, lrq_carrier = None\<rparr>)"
  "parse_lookup_request (step_args (lookup_account_step i)) = Inr (LookupRequest
     \<lparr>lrq_kind = GET_ACCOUNT, lrq_entity_id = Some i, lrq_account_id = None, lrq_status = None, lrq_carrier = None\<rparr>)"
  by (simp_all add: step_defs parse_lookup_request_def arg_enum_def arg_str_def arg_str_option_def
      lookup_kind_of_def enum_of_def)

lemma parsed_calculation_steps:
  "parse_calculation_request (step_args (cancellation_step i)) = Inr (CalculationRequest \<lparr>crq_calculation_type = CALC_CANCELLATION, crq_entity_id = i\<rparr>)"
  "parse_calculation_request (step_args (credit_step i)) = Inr (CalculationRequest \<lparr>crq_calculation_type = CALC_SERVICE_CREDIT, crq_entity_id = i\<rparr>)"
  "parse_calculation_request (step_args (sla_step i)) = Inr (CalculationRequest \<lparr>crq_calculation_type = CALC_SLA, crq_entity_id = i\<rparr>)"
  "parse_calculation_request (step_args (severity_step i)) = Inr (CalculationRequest \<lparr>crq_calculation_type = CALC_SEVERITY, crq_entity_id = i\<rparr>)"
  by (simp_all add: step_defs parse_calculation_request_def arg_enum_def arg_str_def calculation_type_of_def enum_of_def)

lemma parsed_search_step:
  assumes "ts \<in> {[], [''support_policy''], [''product_doc'']}"
  obtains types where "parse_search_request (step_args (search_step q p ts)) = Inr (SearchRequest
    \<lparr>srq_query = q, srq_source_types = types, srq_authority_classes = None, srq_statuses = None, srq_top_k = 5\<rparr>)"
  using assms
  by (auto simp: step_defs parse_search_request_def arg_str_def arg_list_option_def arg_int_def source_type_of_def
      enum_of_def intro: that)

lemma step_tools [simp]:
  "step_tool (lookup_order_step i) = ''lookup_structured_data''"
  "step_tool (lookup_ticket_step i) = ''lookup_structured_data''"
  "step_tool (lookup_account_step i) = ''lookup_structured_data''"
  "step_tool (search_step q p ts) = ''search_documents''"
  "step_tool (cancellation_step i) = ''calculate_support_outcome''"
  "step_tool (credit_step i) = ''calculate_support_outcome''"
  "step_tool (sla_step i) = ''calculate_support_outcome''"
  "step_tool (severity_step i) = ''calculate_support_outcome''"
  by (simp_all add: step_defs)

lemma registry_lookups:
  "dict_get TOOL_REGISTRY ''search_documents'' = Some (registry_entry parse_search_request 5)"
  "dict_get TOOL_REGISTRY ''lookup_structured_data'' = Some (registry_entry parse_lookup_request 5)"
  "dict_get TOOL_REGISTRY ''calculate_support_outcome'' = Some (registry_entry parse_calculation_request 10)"
  "dict_get TOOL_REGISTRY ''detect_issues'' = Some (registry_entry parse_detect_request 10)"
  by (simp_all add: TOOL_REGISTRY_def)

text \<open>A calculation answers only about the order or ticket its arguments name, and only to a
  caller whose scope covers that order's or ticket's account.\<close>

theorem calculation_needs_access:
  assumes "res_success (execute_tool fts latency ''calculate_support_outcome'' args conn auth clk)"
  shows "\<exists>i. dict_get args ''entity_id'' = Some (AStr i) \<and>
    ((\<exists>x. get_order conn i auth (tz_of clk) = Inr x \<and> allows_account auth (ord_account_id x))
     \<or> (\<exists>x. get_ticket conn i auth (tz_of clk) = Inr x \<and> allows_account auth (tkt_account_id x)))"
proof -
  from assms obtain out where "res_output (execute_tool fts latency ''calculate_support_outcome'' args conn auth clk) = Some out"
    by (rule execute_tool_success)
  then obtain req where r: "parse_calculation_request args = Inr req" "dispatch fts req conn auth clk = Inr out"
    by (rule execute_tool_output) (auto simp: registry_lookups registry_entry_def)
  then obtain ty i where i: "dict_get args ''entity_id'' = Some (AStr i)" "calculate_outcome conn ty i auth clk = Inr out"
    by (rule parsed_calculation)
  from calculate_outcome_access [OF i(2)] i(1) show ?thesis
    using order_lookup.in_scope ticket_lookup.in_scope by blast
qed

theorem calculation_needs_access_witness:
  "\<exists>x. get_order sample_db ''ORD-1002'' admin (tz_of sample_clock) = Inr x
     \<or> (\<exists>y. get_ticket sample_db ''ORD-1002'' admin (tz_of sample_clock) = Inr y)"
proof -
  let ?args = "[(''calculation_type'', AStr ''cancellation''), (''entity_id'', AStr ''ORD-1002'')]"
  have "res_success (execute_tool sample_fts (\<lambda>n. 1) ''calculate_support_outcome'' ?args sample_db admin sample_clock)"
    by code_simp
  from calculation_needs_access [OF this] show ?thesis by auto
qed

lemma alert_order_Nil: "alert_order alerts = [] \<longleftrightarrow> alerts = []"
  by (metis set_alert_order set_empty)

text \<open>Naming accounts in a detection request narrows what the caller sees: an alert then
  concerns only accounts that are both named and in the caller's own scope.\<close>

theorem detect_issues_only_narrows:
  assumes "detect_issues_tool conn req auth clk = Inr (DetectOutput alerts grouped)"
    and "drq_account_scope req = Some accts"
  shows "\<forall>a \<in> set alerts. \<forall>acct \<in> set (al_accounts a). acct \<in> set accts \<and> allows_account auth acct"
  by (rule detect_output_scope [OF assms(1)]) (auto simp: alerts_in_scope_def narrowed_allows assms(2))

theorem detect_issues_only_narrows_witness:
  "\<exists>alerts. detect_issues_tool sample_db
       \<lparr>drq_alert_types = Some [OVERDUE_PICKUP], drq_window_days = 30, drq_account_scope = Some [''ACCT-003''],
        drq_group_by_account = False\<rparr> admin sample_clock = Inr (DetectOutput alerts None)
     \<and> alerts \<noteq> [] \<and> (\<forall>a \<in> set alerts. set (al_accounts a) \<subseteq> {''ACCT-003''})"
proof -
  let ?req = "\<lparr>drq_alert_types = Some [OVERDUE_PICKUP], drq_window_days = 30, drq_account_scope = Some [''ACCT-003''],
    drq_group_by_account = False\<rparr>"
  let ?auth = "narrowed_auth admin (Some [''ACCT-003''])"
  have "inrP (\<lambda>os. filter (is_overdue sample_clock) os \<noteq> [])
      (search_orders sample_db ?auth (tz_of sample_clock) None (Some BOOKED) None)" by code_simp
  then obtain orders where s: "search_orders sample_db ?auth (tz_of sample_clock) None (Some BOOKED) None = Inr orders"
    and o: "filter (is_overdue sample_clock) orders \<noteq> []" by (rule inrP_E)
  have r: "role ?auth \<noteq> RESTRICTED_SUPPORT" by (simp add: narrowed_auth_def admin_def)
  have "seen_after [] (map (overdue_alert sample_clock) (filter (is_overdue sample_clock) orders)) \<noteq> []"
    using seen_after_keys [of "[]" "map (overdue_alert sample_clock) (filter (is_overdue sample_clock) orders)"] o by auto
  then obtain alerts where d: "detect_issues_tool sample_db ?req admin sample_clock = Inr (DetectOutput alerts None)"
    and ne: "alerts \<noteq> []"
    using r s by (simp add: detect_issues_tool_def run_operations_radar_def Let_def detect_overdue_pickups_def alert_order_Nil)
  from detect_issues_only_narrows [OF d, of "[''ACCT-003'']"] d ne show ?thesis by auto
qed

text \<open>Every step the planner can plan names a registered tool and carries arguments the tool
  accepts, and no plan runs the detection tool.\<close>

theorem plan_steps_valid:
  assumes "s \<in> set (build_plan question what ents)"
  shows "\<exists>spec req. dict_get TOOL_REGISTRY (step_tool s) = Some spec \<and> spec_parse spec (step_args s) = Inr req
    \<and> step_tool s \<noteq> ''detect_issues''"
proof -
  consider i where "s \<in> {lookup_order_step i, lookup_ticket_step i, lookup_account_step i}"
    | i where "s \<in> {cancellation_step i, credit_step i, sla_step i, severity_step i}"
    | p ts where "s = search_step question p ts" "ts \<in> {[], [''support_policy''], [''product_doc'']}"
    using plan_step_forms [OF assms] by blast
  then show ?thesis
  proof cases
    case 1
    then show ?thesis by (auto simp: registry_lookups registry_entry_def parsed_lookup_steps)
  next
    case 2
    then show ?thesis by (auto simp: registry_lookups registry_entry_def parsed_calculation_steps)
  next
    case (3 p ts)
    from parsed_search_step [OF 3(2), of question p] 3(1) show ?thesis
      by (auto simp: registry_lookups registry_entry_def)
  qed
qed

theorem plan_steps_valid_witness:
  "\<exists>req. parse_search_request (step_args (search_step ''hi'' ''retrieve relevant policy/document evidence'' [])) = Inr req"
proof -
  let ?s = "search_step ''hi'' ''retrieve relevant policy/document evidence'' []"
  have "?s \<in> set (build_plan ''hi'' INFORMATIONAL \<lparr>order_ids = [], ticket_ids = [], account_ids = [],
      ambiguous_account_names = [], unresolved_mentions = []\<rparr>)" by simp
  from plan_steps_valid [OF this] show ?thesis by (auto simp: registry_lookups registry_entry_def)
qed

end
