(* ===== verification/Evidence_Pack.thy ===== *)
theory Evidence_Pack
  imports Tool_Registry
begin

text \<open>
  \<open>app/agent/evidence_pack.py\<close>, built from the results of the tools and nothing else, and
  \<open>citations.py\<close>, which checks an answer's markers against it. The JSON dumps the code puts
  into the pack are the records and payloads themselves; their rendering belongs to the
  prompt.
\<close>

section \<open>The pack\<close>

record evidence_pack =
  ep_question :: string
  ep_intent :: intent
  ep_entities :: entity_resolution
  ep_structured_facts :: "data_record list"
  ep_document_evidence :: "search_result list"
  ep_domain_results :: "outcome_payload list"
  ep_domain_trust_states :: "trust_state list"
  ep_citations :: "evidence_ref list"
  ep_assumptions :: "string list"
  ep_conflicts :: "conflict list"
  ep_needs_human_review :: bool
  ep_snapshot_time :: datetime
  ep_account_scope :: "string list option"

fun cite_record :: "data_record \<Rightarrow> evidence_ref" where
  "cite_record (RAccount x) = cite_structured ''accounts'' (acc_id x) None"
| "cite_record (ROrder x) = cite_structured ''orders'' (ord_id x) None"
| "cite_record (RTicket x) = cite_structured ''tickets'' (tkt_id x) None"

definition cite_result :: "search_result \<Rightarrow> evidence_ref" where
  "cite_result doc =
     \<lparr>ev_kind = Document, ev_source_id = dr_source_id doc,
      ev_locator = Some (''p'' @ str_of_int (dr_page doc) @ '':'' @ (case dr_section doc of None \<Rightarrow> ''None'' | Some s \<Rightarrow> s)),
      ev_note = Some (dr_snippet doc)\<rparr>"

text \<open>
  One iteration of the loop over the tool results. The code asks for the tool's name; an
  output of a tool has that tool's type, so the constructor says the same.
\<close>

definition add_tool_result :: "tool_result \<Rightarrow> evidence_pack \<Rightarrow> evidence_pack" where
  "add_tool_result r p =
     (if \<not> res_success r then p
      else case res_output r of
        None \<Rightarrow> p
      | Some (LookupOutput kind records) \<Rightarrow>
          p\<lparr>ep_structured_facts := ep_structured_facts p @ records,
            ep_citations := ep_citations p @ map cite_record records\<rparr>
      | Some (SearchOutput q docs) \<Rightarrow>
          p\<lparr>ep_document_evidence := ep_document_evidence p @ docs,
            ep_citations := ep_citations p @ map cite_result docs\<rparr>
      | Some (CalculationOutput out) \<Rightarrow>
          p\<lparr>ep_domain_results := ep_domain_results p @ (case out_result out of None \<Rightarrow> [] | Some x \<Rightarrow> [x]),
            ep_domain_trust_states := ep_domain_trust_states p @ [out_trust_state out],
            ep_citations := ep_citations p @ out_evidence out,
            ep_assumptions := ep_assumptions p @ out_assumptions out,
            ep_conflicts := ep_conflicts p @ out_conflicts out,
            ep_needs_human_review := ep_needs_human_review p \<or> out_needs_human_review out\<rparr>
      | Some (DetectOutput alerts grouped) \<Rightarrow> p)"

definition empty_pack ::
  "string \<Rightarrow> intent \<Rightarrow> entity_resolution \<Rightarrow> datetime \<Rightarrow> string list option \<Rightarrow> evidence_pack" where
  "empty_pack question intn ents snapshot_time scope =
     \<lparr>ep_question = question, ep_intent = intn, ep_entities = ents, ep_structured_facts = [],
      ep_document_evidence = [], ep_domain_results = [], ep_domain_trust_states = [], ep_citations = [],
      ep_assumptions = [], ep_conflicts = [], ep_needs_human_review = False,
      ep_snapshot_time = snapshot_time, ep_account_scope = scope\<rparr>"

definition citation_pair :: "evidence_ref \<Rightarrow> string \<times> string option" where
  "citation_pair ref = (ev_source_id ref, ev_locator ref)"

definition build_evidence_pack ::
  "string \<Rightarrow> intent \<Rightarrow> entity_resolution \<Rightarrow> tool_result list \<Rightarrow> datetime \<Rightarrow> string list option \<Rightarrow> evidence_pack" where
  "build_evidence_pack question intn ents tool_results snapshot_time scope =
     (let p = fold add_tool_result tool_results (empty_pack question intn ents snapshot_time scope)
      in p\<lparr>ep_citations := dedup_by citation_pair [] (ep_citations p)\<rparr>)"

section \<open>Citations\<close>

definition marker_char :: "char \<Rightarrow> bool" where
  "marker_char c = (is_alnum c \<or> c \<in> {CHR ''_'', CHR ''.'', CHR '':'', CHR ''-''})"

definition CITATION_MARKER :: re where
  "CITATION_MARKER = seqs [Chr CHR ''['', Many 1 (Cls marker_char), Chr CHR '']'']"

text \<open>\<open>f"{source_id}:{locator}" if locator else source_id\<close>: an empty locator counts as none.\<close>

definition citation_key :: "evidence_ref \<Rightarrow> string" where
  "citation_key ref =
     (case ev_locator ref of None \<Rightarrow> ev_source_id ref
      | Some l \<Rightarrow> if l = [] then ev_source_id ref else ev_source_id ref @ '':'' @ l)"

text \<open>\<open>findall\<close> with one group returns the group: the match without its brackets.\<close>

definition extract_citation_markers :: "string \<Rightarrow> string list" where
  "extract_citation_markers text = map (\<lambda>m. butlast (tl m)) (findall CITATION_MARKER text)"

definition marker_source :: "string \<Rightarrow> string" where
  "marker_source m = takeWhile (\<lambda>c. c \<noteq> CHR '':'') m"

record citation_check =
  cc_valid :: bool
  cc_cited_markers :: "string list"
  cc_invalid_markers :: "string list"

definition validate_citations :: "string \<Rightarrow> evidence_pack \<Rightarrow> citation_check" where
  "validate_citations text pack =
     (let known = map citation_key (ep_citations pack);
          known_source_ids = map ev_source_id (ep_citations pack);
          markers = extract_citation_markers text;
          invalid_ones = filter (\<lambda>m. m \<notin> set known \<and> marker_source m \<notin> set known_source_ids) markers
      in \<lparr>cc_valid = (invalid_ones = []), cc_cited_markers = markers, cc_invalid_markers = invalid_ones\<rparr>)"

section \<open>What the loop collects\<close>

text \<open>What one result contributes to each list of the pack.\<close>

fun output_citations :: "tool_output \<Rightarrow> evidence_ref list" where
  "output_citations (LookupOutput kind records) = map cite_record records"
| "output_citations (SearchOutput q docs) = map cite_result docs"
| "output_citations (CalculationOutput out) = out_evidence out"
| "output_citations (DetectOutput alerts grouped) = []"

fun output_trust :: "tool_output \<Rightarrow> trust_state list" where
  "output_trust (CalculationOutput out) = [out_trust_state out]"
| "output_trust _ = []"

fun output_payloads :: "tool_output \<Rightarrow> outcome_payload list" where
  "output_payloads (CalculationOutput out) = (case out_result out of None \<Rightarrow> [] | Some x \<Rightarrow> [x])"
| "output_payloads _ = []"

fun output_documents :: "tool_output \<Rightarrow> search_result list" where
  "output_documents (SearchOutput q docs) = docs"
| "output_documents _ = []"

fun output_records :: "tool_output \<Rightarrow> data_record list" where
  "output_records (LookupOutput kind records) = records"
| "output_records _ = []"

definition outputs_of :: "tool_result list \<Rightarrow> tool_output list" where
  "outputs_of results = List.map_filter (\<lambda>r. if res_success r then res_output r else None) results"

lemma outputs_of_simps [simp]:
  "outputs_of [] = []"
  "outputs_of (r # rs) = (if res_success r then (case res_output r of None \<Rightarrow> [] | Some out \<Rightarrow> [out]) else []) @ outputs_of rs"
  by (auto simp: outputs_of_def map_filter_simps split: option.splits)

definition collected :: "('p \<Rightarrow> 'a list) \<Rightarrow> (tool_output \<Rightarrow> 'a list) \<Rightarrow> (tool_result \<Rightarrow> 'p \<Rightarrow> 'p) \<Rightarrow> bool" where
  "collected field part step \<longleftrightarrow>
     (\<forall>r p. field (step r p) = field p @ concat (map part (outputs_of [r])))"

lemma collected_fold:
  assumes "collected field part step"
  shows "field (fold step rs p) = field p @ concat (map part (outputs_of rs))"
  using assms by (induction rs arbitrary: p) (simp_all add: collected_def)

lemma collected_fields:
  "collected ep_citations output_citations add_tool_result"
  "collected ep_domain_trust_states output_trust add_tool_result"
  "collected ep_domain_results output_payloads add_tool_result"
  "collected ep_document_evidence output_documents add_tool_result"
  "collected ep_structured_facts output_records add_tool_result"
  by (auto simp: collected_def add_tool_result_def split: option.splits tool_output.splits)

lemma build_pack_fields:
  "ep_citations (build_evidence_pack q i e rs t s) =
     dedup_by citation_pair [] (concat (map output_citations (outputs_of rs)))"
  "ep_domain_trust_states (build_evidence_pack q i e rs t s) = concat (map output_trust (outputs_of rs))"
  "ep_domain_results (build_evidence_pack q i e rs t s) = concat (map output_payloads (outputs_of rs))"
  "ep_document_evidence (build_evidence_pack q i e rs t s) = concat (map output_documents (outputs_of rs))"
  "ep_structured_facts (build_evidence_pack q i e rs t s) = concat (map output_records (outputs_of rs))"
  by (simp_all add: build_evidence_pack_def Let_def empty_pack_def collected_fields [THEN collected_fold])

text \<open>The pack cites every record, document chunk and piece of calculation evidence a
  successful tool call returned, each source and locator once, and cites nothing else.\<close>

theorem pack_citations_exact:
  "distinct (map citation_pair (ep_citations (build_evidence_pack q i e rs t s)))
   \<and> citation_pair ` set (ep_citations (build_evidence_pack q i e rs t s))
       = (\<Union>out \<in> set (outputs_of rs). citation_pair ` set (output_citations out))
   \<and> set (ep_citations (build_evidence_pack q i e rs t s)) \<subseteq> (\<Union>out \<in> set (outputs_of rs). set (output_citations out))"
  using dedup_by_sub [of citation_pair "[]" "concat (map output_citations (outputs_of rs))"]
  by (auto simp: build_pack_fields dedup_by_distinct dedup_by_keys)

section \<open>Scanning for markers\<close>

lemma iter_until:
  assumes "\<not> P c" "\<forall>a \<in> set k. P a" "length k \<le> n" "lo \<le> length k"
  shows "concat (map (matches (Chr c)) (iter (matches (Cls P)) n lo (pre, k @ c # post))) = [(c # rev k @ pre, post)]"
  using assms(2-4)
proof (induction k arbitrary: n lo pre)
  case Nil
  then show ?case using assms(1) by (cases n) auto
next
  case (Cons a k)
  then obtain m where n: "n = Suc m" by (cases n) auto
  have "a \<noteq> c" using Cons.prems assms(1) by auto
  moreover have "concat (map (matches (Chr c)) (iter (matches (Cls P)) m (lo - 1) (a # pre, k @ c # post)))
      = [(c # rev k @ a # pre, post)]"
    by (rule Cons.IH) (use Cons.prems n in auto)
  ultimately show ?case using Cons.prems by (simp add: n)
qed

lemma marker_char_brackets [simp]: "\<not> marker_char CHR '']''" "\<not> marker_char CHR ''[''"
  by (simp_all add: marker_char_def is_alnum_def is_lower_def is_upper_def is_digit_def in_range_def)

lemma marker_match:
  assumes "k \<noteq> []" "\<forall>a \<in> set k. marker_char a"
  shows "matches CITATION_MARKER (pre, CHR ''['' # k @ CHR '']'' # post)
    = [(CHR '']'' # rev k @ CHR ''['' # pre, post)]"
  using iter_until [of marker_char "CHR '']''" k "length (k @ CHR '']'' # post)" 1 "CHR ''['' # pre" post] assms
  by (cases k) (simp_all add: CITATION_MARKER_def del: iter.simps)

lemma no_marker: "c \<noteq> CHR ''['' \<Longrightarrow> matches CITATION_MARKER (pre, c # s) = []"
  by (simp add: CITATION_MARKER_def)

lemma finditer_marker_skip:
  "CHR ''['' \<notin> set t \<Longrightarrow>
     finditer_from CITATION_MARKER pre (t @ s) = finditer_from CITATION_MARKER (rev t @ pre) s"
  by (induction t arbitrary: pre) (auto simp: no_marker)

lemma finditer_marker_hit:
  assumes "k \<noteq> []" "\<forall>a \<in> set k. marker_char a"
  shows "finditer_from CITATION_MARKER pre (CHR ''['' # k @ CHR '']'' # post)
    = (length pre, CHR ''['' # k @ [CHR '']'']) # finditer_from CITATION_MARKER (CHR '']'' # rev k @ CHR ''['' # pre) post"
  by (simp add: marker_match [OF assms])

lemma forward_marker [simp]: "forward CITATION_MARKER"
  by (simp add: CITATION_MARKER_def)

text \<open>Writing a marker into an answer and reading it back.\<close>

lemma extract_marker:
  assumes "CHR ''['' \<notin> set before" "k \<noteq> []" "\<forall>a \<in> set k. marker_char a"
  shows "extract_citation_markers (before @ CHR ''['' # k @ CHR '']'' # post) = k # extract_citation_markers post"
proof -
  have "findall CITATION_MARKER (before @ CHR ''['' # k @ CHR '']'' # post)
      = (CHR ''['' # k @ [CHR '']'']) # findall CITATION_MARKER post"
    unfolding findall_def finditer_def finditer_marker_skip [OF assms(1)] finditer_marker_hit [OF assms(2,3)]
    using finditer_forward [OF forward_marker, of "[]" "CHR '']'' # rev k @ CHR ''['' # rev before" post] by simp
  then show ?thesis by (simp add: extract_citation_markers_def butlast_append)
qed

lemma invalid_markers:
  "cc_invalid_markers (validate_citations text pack) =
     filter (\<lambda>m. \<forall>ref \<in> set (ep_citations pack). citation_key ref \<noteq> m \<and> ev_source_id ref \<noteq> marker_source m)
       (extract_citation_markers text)"
  unfolding validate_citations_def Let_def citation_check.simps
  by (rule filter_cong [OF refl]) (auto simp: image_iff)

lemma citation_check_fields:
  "cc_valid (validate_citations text pack) \<longleftrightarrow> cc_invalid_markers (validate_citations text pack) = []"
  "cc_cited_markers (validate_citations text pack) = extract_citation_markers text"
  by (simp_all add: validate_citations_def Let_def)

section \<open>What the check lets through\<close>

text \<open>A marker written the way the prompt shows it, \<open>[source_id:locator]\<close>, is read back as that
  citation and never counted invalid, wherever it stands in the answer.\<close>

theorem shown_marker_accepted:
  assumes "ref \<in> set (ep_citations pack)" "citation_key ref \<noteq> []" "\<forall>c \<in> set (citation_key ref). marker_char c"
    and "CHR ''['' \<notin> set before"
  shows "cc_cited_markers (validate_citations (before @ ''['' @ citation_key ref @ '']'' @ post) pack)
      = citation_key ref # cc_cited_markers (validate_citations post pack)
    \<and> cc_invalid_markers (validate_citations (before @ ''['' @ citation_key ref @ '']'' @ post) pack)
      = cc_invalid_markers (validate_citations post pack)"
  using extract_marker [OF assms(4,2,3), of post] assms(1)
  by (auto simp: citation_check_fields invalid_markers)

text \<open>An answer that cites a source the pack does not hold is never valid, and the report names
  the marker.\<close>

theorem fabricated_marker_rejected:
  assumes "m \<noteq> []" "\<forall>c \<in> set m. marker_char c" "CHR ''['' \<notin> set before"
    and "\<forall>ref \<in> set (ep_citations pack). citation_key ref \<noteq> m \<and> ev_source_id ref \<noteq> marker_source m"
  shows "\<not> cc_valid (validate_citations (before @ ''['' @ m @ '']'' @ post) pack)
    \<and> m \<in> set (cc_invalid_markers (validate_citations (before @ ''['' @ m @ '']'' @ post) pack))"
  using extract_marker [OF assms(3,1,2), of post] assms(4)
  by (auto simp: citation_check_fields invalid_markers)

definition sample_pack :: evidence_pack where
  "sample_pack = build_evidence_pack ''q'' INFORMATIONAL
     \<lparr>order_ids = [], ticket_ids = [], account_ids = [], ambiguous_account_names = [], unresolved_mentions = []\<rparr>
     [result_ok ''lookup_structured_data'' (LookupOutput GET_ACCOUNT [RAccount (row_to_account (sample_account ''ACCT-003'' ''Standard''))]) 0 1]
     (now sample_clock) None"

lemma sample_pack_citations: "ep_citations sample_pack = [cite_structured ''accounts'' ''ACCT-003'' None]"
  by (simp add: sample_pack_def build_pack_fields result_ok_def row_to_account_def sample_account_def)

theorem shown_marker_accepted_witness:
  "cc_valid (validate_citations ''Plan: Standard [SRC-07:accounts:ACCT-003].'' sample_pack)"
proof -
  let ?ref = "cite_structured ''accounts'' ''ACCT-003'' None"
  have key: "citation_key ?ref = ''SRC-07:accounts:ACCT-003''" by (simp add: citation_key_def cite_structured_def)
  have "\<forall>c \<in> set (citation_key ?ref). marker_char c"
    unfolding key by (simp add: marker_char_def is_alnum_def is_lower_def is_upper_def is_digit_def in_range_def)
  then have "cc_invalid_markers (validate_citations (''Plan: Standard '' @ ''['' @ citation_key ?ref @ '']'' @ ''.'') sample_pack)
      = cc_invalid_markers (validate_citations ''.'' sample_pack)"
    by (intro shown_marker_accepted [THEN conjunct2]) (simp_all add: sample_pack_citations key)
  moreover have "extract_citation_markers ''.'' = []" by code_simp
  ultimately show ?thesis by (simp add: citation_check_fields invalid_markers key)
qed

theorem fabricated_marker_rejected_witness:
  "\<not> cc_valid (validate_citations ''See [SRC-99:p1:2].'' sample_pack)"
proof -
  have "\<not> cc_valid (validate_citations (''See '' @ ''['' @ ''SRC-99:p1:2'' @ '']'' @ ''.'') sample_pack)"
    by (rule fabricated_marker_rejected [THEN conjunct1])
      (simp_all add: sample_pack_citations citation_key_def cite_structured_def marker_source_def
        marker_char_def is_alnum_def is_lower_def is_upper_def is_digit_def in_range_def)
  then show ?thesis by simp
qed

end
