(* ===== verification/Answer_Gates.thy ===== *)
theory Answer_Gates
  imports Evidence_Pack
begin

text \<open>
  The deterministic gates around the one generated text of an answer: the trust gate
  (\<open>app/agent/trust_gate.py\<close>), the sufficiency of document evidence
  (\<open>evidence_sufficiency.py\<close>) and the budgets (\<open>budgets.py\<close>, \<open>budget_enforcement.py\<close>) with
  the price table they use (\<open>app/llm/pricing.py\<close>).
\<close>

section \<open>The trust gate\<close>

fun SEVERITY_ORDER :: "trust_state \<Rightarrow> nat" where
  "SEVERITY_ORDER CONFIDENT = 0"
| "SEVERITY_ORDER CONDITIONAL = 1"
| "SEVERITY_ORDER UNCERTAIN = 2"
| "SEVERITY_ORDER ESCALATE = 3"

lemma SEVERITY_ORDER_inj [simp]: "SEVERITY_ORDER s = SEVERITY_ORDER t \<longleftrightarrow> s = t"
  by (cases s; cases t) simp_all

text \<open>Trust states ordered from certain to uncertain, so that the library's \<open>Max\<close> is the worst.\<close>

instantiation trust_state :: linorder
begin

definition less_eq_trust_state :: "trust_state \<Rightarrow> trust_state \<Rightarrow> bool" where
  "s \<le> t \<longleftrightarrow> SEVERITY_ORDER s \<le> SEVERITY_ORDER t"

definition less_trust_state :: "trust_state \<Rightarrow> trust_state \<Rightarrow> bool" where
  "s < t \<longleftrightarrow> SEVERITY_ORDER s < SEVERITY_ORDER t"

instance
  by standard (auto simp: less_eq_trust_state_def less_trust_state_def)

end

text \<open>Python's \<open>max\<close> with a key: the first of the largest.\<close>

fun max_by :: "('a \<Rightarrow> nat) \<Rightarrow> 'a \<Rightarrow> 'a list \<Rightarrow> 'a" where
  "max_by key best [] = best"
| "max_by key best (x # xs) = max_by key (if key x > key best then x else best) xs"

definition enforce_trust_gate :: "trust_state list \<Rightarrow> bool \<Rightarrow> trust_state" where
  "enforce_trust_gate domain_trust_states has_document_evidence =
     (case domain_trust_states of
        t # ts \<Rightarrow> max_by SEVERITY_ORDER t ts
      | [] \<Rightarrow> if has_document_evidence then CONDITIONAL else UNCERTAIN)"

lemma max_by_Max: "max_by SEVERITY_ORDER t ts = Max (insert t (set ts))"
proof (induction ts arbitrary: t)
  case (Cons s ts)
  have "(if SEVERITY_ORDER s > SEVERITY_ORDER t then s else t) = max t s"
    by (auto simp: max_def less_eq_trust_state_def)
  moreover have "Max (insert (max t s) (set ts)) = Max (insert t (insert s (set ts)))"
    by (cases "set ts = {}") (simp_all add: max.assoc)
  ultimately show ?case by (simp only: max_by.simps Cons.IH list.set)
qed simp

lemma gate_Max: "states \<noteq> [] \<Longrightarrow> enforce_trust_gate states docs = Max (set states)"
  by (cases states) (simp_all add: enforce_trust_gate_def max_by_Max)

lemma trust_bounds: "CONFIDENT \<le> t" "t \<le> ESCALATE"
  by (cases t; simp add: less_eq_trust_state_def)+

text \<open>C30. The trust of an answer is the worst trust of the calculations behind it; without a
  calculation it is at best conditional. So an answer is confident only when something was
  calculated and every calculation is confident, and it escalates exactly when one does.\<close>

theorem trust_gate_worst:
  "enforce_trust_gate states docs =
     (if states = [] then (if docs then CONDITIONAL else UNCERTAIN) else Max (set states))
   \<and> (enforce_trust_gate states docs = CONFIDENT) = (states \<noteq> [] \<and> set states = {CONFIDENT})
   \<and> (enforce_trust_gate states docs = ESCALATE) = (ESCALATE \<in> set states)"
proof (cases "states = []")
  case True
  then show ?thesis by (simp add: enforce_trust_gate_def)
next
  case False
  have "Max (set states) = CONFIDENT \<longleftrightarrow> set states = {CONFIDENT}"
  proof
    assume m: "Max (set states) = CONFIDENT"
    have "t = CONFIDENT" if "t \<in> set states" for t
      using Max_ge [OF finite_set that] m trust_bounds(1) [of t] by simp
    with False show "set states = {CONFIDENT}" by (cases states) auto
  qed simp
  moreover have "Max (set states) = ESCALATE \<longleftrightarrow> ESCALATE \<in> set states"
  proof
    assume "Max (set states) = ESCALATE"
    with False Max_in [of "set states"] show "ESCALATE \<in> set states" by simp
  next
    assume "ESCALATE \<in> set states"
    then show "Max (set states) = ESCALATE" by (intro Max_eqI) (simp_all add: trust_bounds)
  qed
  ultimately show ?thesis using False by (simp add: gate_Max)
qed

section \<open>Sufficiency of document evidence\<close>

definition EVIDENCE_STOPWORDS :: "string list" where
  "EVIDENCE_STOPWORDS =
     [''what'', ''when'', ''where'', ''which'', ''who'', ''whom'', ''whose'', ''why'', ''how'',
      ''does'', ''did'', ''done'', ''have'', ''has'', ''had'', ''will'', ''would'', ''should'',
      ''could'', ''shall'', ''must'', ''about'', ''explain'', ''describe'', ''tell'', ''please'',
      ''the'', ''a'', ''an'', ''and'', ''or'', ''of'', ''to'', ''for'', ''in'', ''on'', ''at'', ''is'',
      ''are'', ''was'', ''were'', ''be'', ''been'', ''being'', ''this'', ''that'', ''these'',
      ''those'', ''with'', ''by'', ''as'', ''it'', ''its'', ''from'', ''into'', ''over'', ''under'',
      ''than'', ''then'', ''there'', ''here'', ''some'', ''any'', ''all'', ''each'', ''every'',
      ''not'', ''never'', ''just'', ''only'', ''also'', ''very'', ''more'', ''most'', ''such'']"

definition EVIDENCE_TOKEN :: re where
  "EVIDENCE_TOKEN = Many 4 (Cls is_lower)"

definition SCORE_MARGIN_BELOW_FLOOR :: pyfloat where
  "SCORE_MARGIN_BELOW_FLOOR = 2"

definition STRONG_SCORE :: pyfloat where
  "STRONG_SCORE = fl (MIN_RELEVANCE_SCORE - SCORE_MARGIN_BELOW_FLOOR)"

definition EVIDENCE_MIN_SHARED_TOKENS :: nat where
  "EVIDENCE_MIN_SHARED_TOKENS = 2"

definition MIN_CORROBORATING_CHUNKS :: nat where
  "MIN_CORROBORATING_CHUNKS = 2"

definition evidence_tokens :: "string \<Rightarrow> string list" where
  "evidence_tokens text =
     remdups (filter (\<lambda>t. t \<notin> set EVIDENCE_STOPWORDS) (findall EVIDENCE_TOKEN (lower text)))"

definition overlap :: "string list \<Rightarrow> search_result \<Rightarrow> nat" where
  "overlap query_tokens chunk = length (filter (\<lambda>t. t \<in> set (evidence_tokens (dr_snippet chunk))) query_tokens)"

definition is_document_evidence_sufficient :: "string \<Rightarrow> search_result list \<Rightarrow> bool" where
  "is_document_evidence_sufficient question document_evidence =
     (if document_evidence = [] then False
      else
        let query_tokens = evidence_tokens question in
        if query_tokens = [] then False
        else if Max (set (map (overlap query_tokens) document_evidence)) \<ge> EVIDENCE_MIN_SHARED_TOKENS then True
        else Min (set (map dr_score document_evidence)) \<le> STRONG_SCORE
             \<and> length document_evidence \<ge> MIN_CORROBORATING_CHUNKS)"

lemma sufficient_iff:
  "is_document_evidence_sufficient question docs \<longleftrightarrow>
     evidence_tokens question \<noteq> [] \<and>
     ((\<exists>d \<in> set docs. overlap (evidence_tokens question) d \<ge> EVIDENCE_MIN_SHARED_TOKENS)
      \<or> ((\<exists>d \<in> set docs. dr_score d \<le> STRONG_SCORE) \<and> length docs \<ge> MIN_CORROBORATING_CHUNKS))"
  by (cases "docs = []") (auto simp: is_document_evidence_sufficient_def Let_def Max_ge_iff Min_le_iff)

text \<open>Document evidence suffices exactly when the question has a content word and either some
  chunk shares two of them or at least two chunks were found, one of them strong; so more
  evidence never turns a sufficient answer into an insufficient one.\<close>

theorem sufficiency_monotone:
  assumes "is_document_evidence_sufficient question docs" "set docs \<subseteq> set docs'" "length docs \<le> length docs'"
  shows "is_document_evidence_sufficient question docs' \<and> evidence_tokens question \<noteq> [] \<and> docs' \<noteq> []"
  using assms unfolding sufficient_iff by (auto 0 3)

definition sample_result :: "string \<Rightarrow> pyfloat \<Rightarrow> search_result" where
  "sample_result snip score =
     \<lparr>dr_chunk_id = ''SRC-04#1'', dr_source_id = ''SRC-04'', dr_filename = ''SRC-04.pdf'', dr_page = 2,
      dr_section = Some ''3'', dr_snippet = snip, dr_score = score, dr_status = CURRENT,
      dr_source_type = PRODUCT_DOC, dr_authority_class = AC_PRODUCT_DOC, dr_effective_date = 0,
      dr_account_scope = None\<rparr>"

theorem sufficiency_monotone_witness:
  "is_document_evidence_sufficient ''Is webhook delivery delayed?''
     [sample_result ''Webhook delivery delayed'' (- 2), sample_result ''Labels'' (- 1)]"
proof -
  have "is_document_evidence_sufficient ''Is webhook delivery delayed?'' [sample_result ''Webhook delivery delayed'' (- 2)]"
    by code_simp
  from sufficiency_monotone [OF this, of "[sample_result ''Webhook delivery delayed'' (- 2), sample_result ''Labels'' (- 1)]"]
  show ?thesis by simp
qed

section \<open>Budgets\<close>

record agent_budget =
  max_iterations :: int
  max_tool_calls :: int
  max_llm_calls :: int
  max_context_tokens :: int
  max_output_tokens :: int
  max_wall_clock_seconds :: pyfloat
  max_estimated_cost_usd :: pyfloat

definition DEFAULT_BUDGET :: agent_budget where
  "DEFAULT_BUDGET =
     \<lparr>max_iterations = 6, max_tool_calls = 6, max_llm_calls = 2, max_context_tokens = 8000,
      max_output_tokens = 1024, max_wall_clock_seconds = 30, max_estimated_cost_usd = 1 / 2\<rparr>"

text \<open>\<open>text.split()\<close>: the maximal runs without white space.\<close>

fun split_words :: "string \<Rightarrow> string \<Rightarrow> string list" where
  "split_words word [] = (if word = [] then [] else [rev word])"
| "split_words word (c # cs) =
     (if is_space c then (if word = [] then [] else [rev word]) @ split_words [] cs
      else split_words (c # word) cs)"

definition approx_tokens :: "string \<Rightarrow> int" where
  "approx_tokens text = max 1 (int (length (split_words [] text)))"

record price =
  input_per_million_usd :: pyfloat
  output_per_million_usd :: pyfloat

record cost_estimate =
  input_cost_usd :: pyfloat
  output_cost_usd :: pyfloat

definition total_cost_usd :: "cost_estimate \<Rightarrow> pyfloat" where
  "total_cost_usd c = fl (input_cost_usd c + output_cost_usd c)"

text \<open>\<open>pricing.json\<close>, its comment key dropped as the constructor drops it.\<close>

definition PRICING :: "(string \<times> price) list" where
  "PRICING =
     [(''claude-sonnet-5'', \<lparr>input_per_million_usd = 3, output_per_million_usd = 15\<rparr>),
      (''claude-opus-5'', \<lparr>input_per_million_usd = 15, output_per_million_usd = 75\<rparr>),
      (''claude-haiku-4-5-20251001'', \<lparr>input_per_million_usd = 1, output_per_million_usd = 5\<rparr>),
      (''mock-model'', \<lparr>input_per_million_usd = 0, output_per_million_usd = 0\<rparr>)]"

definition estimate_cost :: "(string \<times> price) list \<Rightarrow> string \<Rightarrow> int \<Rightarrow> int \<Rightarrow> error + cost_estimate" where
  "estimate_cost rates model usage_input usage_output =
     bindE (of_optionE (KeyError (repr_str (''no pricing configured for model '' @ repr_str model @ '' in pricing.json'')))
              (dict_get rates model)) (\<lambda>rate.
     Inr \<lparr>input_cost_usd = fl (float_div (of_int usage_input) 1000000 * input_per_million_usd rate),
          output_cost_usd = fl (float_div (of_int usage_output) 1000000 * output_per_million_usd rate)\<rparr>)"

definition estimate_worst_case_cost_usd :: "string \<Rightarrow> int \<Rightarrow> int \<Rightarrow> pyfloat option" where
  "estimate_worst_case_cost_usd model input_tokens out_tokens =
     (case estimate_cost PRICING model input_tokens out_tokens of
        Inl _ \<Rightarrow> None | Inr cost \<Rightarrow> Some (total_cost_usd cost))"

definition check_context_budget :: "int \<Rightarrow> agent_budget \<Rightarrow> fstr option" where
  "check_context_budget context_tokens budget =
     (if context_tokens > max_context_tokens budget then
        Some [T ''estimated context size '', IntT context_tokens, T '' tokens exceeds the budget of '',
              IntT (max_context_tokens budget)]
      else None)"

definition check_cost_budget :: "pyfloat option \<Rightarrow> agent_budget \<Rightarrow> fstr option" where
  "check_cost_budget estimated budget =
     (case estimated of
        None \<Rightarrow> None
      | Some cost \<Rightarrow>
          if cost > max_estimated_cost_usd budget then
            Some [T ''estimated cost $'', F4 cost, T '' exceeds the budget of $'', F4 (max_estimated_cost_usd budget)]
          else None)"

section \<open>What the cost estimate is good for\<close>

lemma pricing_nonneg:
  "dict_get PRICING model = Some rate \<Longrightarrow> 0 \<le> input_per_million_usd rate \<and> 0 \<le> output_per_million_usd rate"
proof -
  assume "dict_get PRICING model = Some rate"
  then have "rate \<in> set (dict_values PRICING)" using dict_get_mem by force
  then show ?thesis by (auto simp: PRICING_def)
qed

lemma scaled_cost_mono:
  assumes "0 \<le> r" "a \<le> b"
  shows "fl (float_div (of_int a) 1000000 * r) \<le> fl (float_div (of_int b) 1000000 * r)"
proof -
  have "float_div (of_int a) 1000000 \<le> float_div (of_int b) 1000000"
    unfolding float_div_def using assms(2) by (intro fl_mono) simp
  then show ?thesis using assms(1) by (intro fl_mono mult_right_mono)
qed

text \<open>The estimate is monotone: a request that stays within its token counts costs no more than
  the estimate made for them, so a request let through by the cost gate stays within the
  budget; a model without a price is never blocked.\<close>

theorem cost_gate_sound:
  assumes "check_cost_budget (estimate_worst_case_cost_usd model input_tokens out_tokens) budget = None"
    and "a \<le> input_tokens" "b \<le> out_tokens" "estimate_cost PRICING model a b = Inr actual"
  shows "total_cost_usd actual \<le> max_estimated_cost_usd budget"
proof -
  obtain rate where r: "dict_get PRICING model = Some rate"
    using assms(4) by (auto simp: estimate_cost_def bindE_eq_Inr)
  from pricing_nonneg [OF r] have nn: "0 \<le> input_per_million_usd rate" "0 \<le> output_per_million_usd rate" by auto
  obtain worst where w: "estimate_cost PRICING model input_tokens out_tokens = Inr worst"
    by (simp add: estimate_cost_def r)
  have "total_cost_usd actual \<le> total_cost_usd worst"
    using assms(4) w scaled_cost_mono [OF nn(1) assms(2)] scaled_cost_mono [OF nn(2) assms(3)]
    unfolding total_cost_usd_def by (intro fl_mono add_mono) (auto simp: estimate_cost_def r)
  also have "\<dots> \<le> max_estimated_cost_usd budget"
    using assms(1) w by (simp add: check_cost_budget_def estimate_worst_case_cost_usd_def split: if_splits)
  finally show ?thesis .
qed

theorem cost_gate_sound_witness:
  "\<exists>actual. estimate_cost PRICING ''mock-model'' 1000 100 = Inr actual
     \<and> total_cost_usd actual \<le> max_estimated_cost_usd DEFAULT_BUDGET"
proof -
  have rate: "dict_get PRICING ''mock-model'' = Some \<lparr>input_per_million_usd = 0, output_per_million_usd = 0\<rparr>"
    by (simp add: PRICING_def)
  have gate: "check_cost_budget (estimate_worst_case_cost_usd ''mock-model'' 8000 1024) DEFAULT_BUDGET = None"
    by (simp add: check_cost_budget_def estimate_worst_case_cost_usd_def estimate_cost_def rate total_cost_usd_def DEFAULT_BUDGET_def)
  obtain actual where a: "estimate_cost PRICING ''mock-model'' 1000 100 = Inr actual"
    by (simp add: estimate_cost_def rate)
  from cost_gate_sound [OF gate _ _ a] a show ?thesis by auto
qed

end
