(* ===== verification/Llm_Provider.thy ===== *)
theory Llm_Provider
  imports Answer_Gates
begin

text \<open>
  The model boundary: the request and response types (\<open>app/llm/types.py\<close>), the provider
  protocol (\<open>base.py\<close>) as the locale \<open>llm_provider\<close>, the classification of failures
  (\<open>error_classification.py\<close>), the deterministic provider (\<open>mock_provider.py\<close>), the retrying
  one (\<open>anthropic_provider.py\<close>), the gateway over several (\<open>gateway.py\<close>) and the choice of a
  provider (\<open>factory.py\<close>).

  The SDK's \<open>messages.create\<close> is the argument \<open>create\<close>: what the n-th call returns or raises.
  An exception is its type name and its text, which is all the code looks at. Latencies are
  left out.
\<close>

section \<open>Requests and responses\<close>

datatype msg_role = System | User | Assistant

record llm_message =
  msg_role :: msg_role
  msg_content :: string

record llm_request =
  rq_messages :: "llm_message list"
  rq_model :: string
  rq_max_output_tokens :: int
  rq_max_retries :: int
  rq_prompt_version :: "string option"

record token_usage =
  input_tokens :: int
  output_tokens :: int

record llm_response =
  rsp_content :: string
  rsp_provider :: string
  rsp_model :: string
  rsp_usage :: token_usage
  rsp_cost :: cost_estimate
  rsp_request_id :: string
  rsp_trace_id :: string
  rsp_prompt_version :: "string option"
  rsp_finish_reason :: "string option"
  rsp_retries :: nat

record request_context =
  rc_request_id :: string
  rc_trace_id :: string

record exn =
  exn_type :: string
  exn_text :: string

type_synonym provider = "request_context \<Rightarrow> llm_request \<Rightarrow> exn + llm_response"

section \<open>Classifying failures\<close>

definition RETRYABLE_EXCEPTION_NAMES :: "string list" where
  "RETRYABLE_EXCEPTION_NAMES =
     [''APIConnectionError'', ''APITimeoutError'', ''TimeoutError'', ''ConnectionError'', ''RateLimitError'',
      ''InternalServerError'', ''OverloadedError'', ''ServiceUnavailableError'']"

definition is_retryable_provider_error :: "exn \<Rightarrow> bool" where
  "is_retryable_provider_error e = (exn_type e \<in> set RETRYABLE_EXCEPTION_NAMES)"

text \<open>\<open>type(exc).__name__\<close> and \<open>str(exc)\<close>. The application's own classes are all classified alike,
  none being in the set above, so the last line gives them their base class's name.\<close>

fun exn_of :: "error \<Rightarrow> exn" where
  "exn_of (KeyError m) = \<lparr>exn_type = ''KeyError'', exn_text = m\<rparr>"
| "exn_of (ValueError m) = \<lparr>exn_type = ''ValueError'', exn_text = m\<rparr>"
| "exn_of (ValidationError m) = \<lparr>exn_type = ''ValidationError'', exn_text = m\<rparr>"
| "exn_of (TypeError m) = \<lparr>exn_type = ''TypeError'', exn_text = m\<rparr>"
| "exn_of (RuntimeError m) = \<lparr>exn_type = ''RuntimeError'', exn_text = m\<rparr>"
| "exn_of (IntegrityError m) = \<lparr>exn_type = ''IntegrityError'', exn_text = m\<rparr>"
| "exn_of (FileNotFoundError m) = \<lparr>exn_type = ''FileNotFoundError'', exn_text = m\<rparr>"
| "exn_of (OverflowError m) = \<lparr>exn_type = ''OverflowError'', exn_text = m\<rparr>"
| "exn_of StopIteration = \<lparr>exn_type = ''StopIteration'', exn_text = []\<rparr>"
| "exn_of (IndexError m) = \<lparr>exn_type = ''IndexError'', exn_text = m\<rparr>"
| "exn_of (ZeroDivisionError m) = \<lparr>exn_type = ''ZeroDivisionError'', exn_text = m\<rparr>"
| "exn_of AssertionError = \<lparr>exn_type = ''AssertionError'', exn_text = []\<rparr>"
| "exn_of e = \<lparr>exn_type = ''ParcelPilotError'', exn_text = exc_str e\<rparr>"

fun raise_exn :: "error + 'a \<Rightarrow> exn + 'a" where
  "raise_exn (Inl e) = Inl (exn_of e)"
| "raise_exn (Inr x) = Inr x"

lemma raise_exn_Inr [simp]: "raise_exn m = Inr x \<longleftrightarrow> m = Inr x"
  by (cases m) auto

section \<open>The mock provider\<close>

definition last_user :: "llm_message list \<Rightarrow> string" where
  "last_user messages =
     (case List.find (\<lambda>m. msg_role m = User) (rev messages) of None \<Rightarrow> [] | Some m \<Rightarrow> msg_content m)"

definition mock_complete :: provider where
  "mock_complete ctx request =
     (let content = ''[mock response to: '' @ take 80 (last_user (rq_messages request)) @ '']'';
          used_input = sum_list (map (\<lambda>m. approx_tokens (msg_content m)) (rq_messages request));
          used_output = approx_tokens content
      in bindE (raise_exn (estimate_cost PRICING ''mock-model'' used_input used_output)) (\<lambda>cost.
         Inr \<lparr>rsp_content = content, rsp_provider = ''mock'', rsp_model = ''mock-model'',
              rsp_usage = \<lparr>input_tokens = used_input, output_tokens = used_output\<rparr>, rsp_cost = cost,
              rsp_request_id = rc_request_id ctx, rsp_trace_id = rc_trace_id ctx,
              rsp_prompt_version = rq_prompt_version request, rsp_finish_reason = Some ''stop'', rsp_retries = 0\<rparr>))"

section \<open>The retrying provider\<close>

record sdk_message =
  sdk_blocks :: "(string \<times> string) list"   \<comment> \<open>block type and text\<close>
  sdk_input_tokens :: int
  sdk_output_tokens :: int
  sdk_stop_reason :: "string option"

text \<open>The loop over \<open>range(max_retries + 1)\<close>; the value also carries \<open>retries\<close>.\<close>

fun create_with_retries :: "(nat \<Rightarrow> exn + sdk_message) \<Rightarrow> nat \<Rightarrow> nat \<Rightarrow> exn + sdk_message \<times> nat" where
  "create_with_retries create attempt left =
     (case create attempt of
        Inr message \<Rightarrow> Inr (message, attempt)
      | Inl e \<Rightarrow>
          if \<not> is_retryable_provider_error e then Inl e
          else (case left of 0 \<Rightarrow> Inl e | Suc k \<Rightarrow> create_with_retries create (attempt + 1) k))"

declare create_with_retries.simps [simp del]

definition backoff_bound :: "pyfloat \<Rightarrow> pyfloat \<Rightarrow> nat \<Rightarrow> pyfloat" where
  "backoff_bound max_delay base_delay attempt = min max_delay (fl (base_delay * 2 ^ attempt))"

definition block_text :: "(string \<times> string) list \<Rightarrow> string" where
  "block_text bs = concat (map snd (filter (\<lambda>b. fst b = ''text'') bs))"

definition anthropic_complete :: "(nat \<Rightarrow> exn + sdk_message) \<Rightarrow> provider" where
  "anthropic_complete create ctx request =
     bindE (if rq_max_retries request < 0 then Inl (exn_of AssertionError)
            else create_with_retries create 0 (nat (rq_max_retries request))) (\<lambda>(message, retries).
     bindE (raise_exn (estimate_cost PRICING (rq_model request) (sdk_input_tokens message) (sdk_output_tokens message)))
       (\<lambda>cost.
     Inr \<lparr>rsp_content = block_text (sdk_blocks message), rsp_provider = ''anthropic'', rsp_model = rq_model request,
          rsp_usage = \<lparr>input_tokens = sdk_input_tokens message, output_tokens = sdk_output_tokens message\<rparr>,
          rsp_cost = cost, rsp_request_id = rc_request_id ctx, rsp_trace_id = rc_trace_id ctx,
          rsp_prompt_version = rq_prompt_version request, rsp_finish_reason = sdk_stop_reason message,
          rsp_retries = retries\<rparr>))"

section \<open>The gateway\<close>

record candidate =
  cand_name :: string
  cand_complete :: provider
  cand_model :: string

record provider_attempt =
  pa_provider :: string
  pa_model :: string
  pa_success :: bool
  pa_error :: "string option"
  pa_retryable :: bool

record gateway_run_info =
  gr_attempts :: "provider_attempt list"
  gr_fallback_used :: bool
  gr_fallback_reason :: "string option"
  gr_total_cost_usd :: pyfloat

definition failed_attempt :: "candidate \<Rightarrow> exn \<Rightarrow> provider_attempt" where
  "failed_attempt c e =
     \<lparr>pa_provider = cand_name c, pa_model = cand_model c, pa_success = False, pa_error = Some (exn_text e),
      pa_retryable = is_retryable_provider_error e\<rparr>"

definition all_failed :: "provider_attempt list \<Rightarrow> exn" where
  "all_failed attempts =
     \<lparr>exn_type = ''AllProvidersFailedError'',
      exn_text = ''every configured LLM provider failed: ''
        @ join ''; '' (map (\<lambda>a. pa_provider a @ '': '' @ (case pa_error a of None \<Rightarrow> ''None'' | Some t \<Rightarrow> t)) attempts)\<rparr>"

definition non_retryable :: "provider_attempt \<Rightarrow> exn" where
  "non_retryable a =
     \<lparr>exn_type = ''NonRetryableProviderError'',
      exn_text = pa_provider a @ '' failed with a non-retryable error: '' @ (case pa_error a of None \<Rightarrow> ''None'' | Some t \<Rightarrow> t)\<rparr>"

definition first_error :: "provider_attempt list \<Rightarrow> string option" where
  "first_error attempts = (case attempts of [] \<Rightarrow> None | a # _ \<Rightarrow> pa_error a)"

definition scoped :: "llm_request \<Rightarrow> candidate \<Rightarrow> llm_request" where
  "scoped request c = request\<lparr>rq_model := cand_model c\<rparr>"

fun try_candidates ::
  "request_context \<Rightarrow> llm_request \<Rightarrow> provider_attempt list \<Rightarrow> candidate list
    \<Rightarrow> gateway_run_info \<times> (exn + llm_response)" where
  "try_candidates ctx request attempts [] =
     (\<lparr>gr_attempts = attempts, gr_fallback_used = length attempts > 1, gr_fallback_reason = first_error attempts,
       gr_total_cost_usd = 0\<rparr>, Inl (all_failed attempts))"
| "try_candidates ctx request attempts (c # cs) =
     (case cand_complete c ctx (scoped request c) of
        Inl e \<Rightarrow>
          let a = failed_attempt c e in
          if \<not> pa_retryable a then
            (\<lparr>gr_attempts = attempts @ [a], gr_fallback_used = False, gr_fallback_reason = pa_error a,
              gr_total_cost_usd = 0\<rparr>, Inl (non_retryable a))
          else try_candidates ctx request (attempts @ [a]) cs
      | Inr response \<Rightarrow>
          let done = attempts @ [\<lparr>pa_provider = cand_name c, pa_model = cand_model c, pa_success = True,
                                  pa_error = None, pa_retryable = False\<rparr>];
              used = attempts \<noteq> []
          in (\<lparr>gr_attempts = done, gr_fallback_used = used,
               gr_fallback_reason = (if used then first_error done else None),
               gr_total_cost_usd = total_cost_usd (rsp_cost response)\<rparr>, Inr response))"

definition gateway_complete :: "candidate list \<Rightarrow> provider" where
  "gateway_complete candidates ctx request = snd (try_candidates ctx request [] candidates)"

definition new_gateway :: "candidate list \<Rightarrow> error + candidate list" where
  "new_gateway candidates =
     (if candidates = [] then Inl (ValueError ''ParcelPilotLLMGateway requires at least one candidate provider'')
      else Inr candidates)"

definition mock_candidate :: candidate where
  "mock_candidate = \<lparr>cand_name = ''mock'', cand_complete = mock_complete, cand_model = ''mock-model''\<rparr>"

definition anthropic_candidate :: "(nat \<Rightarrow> exn + sdk_message) \<Rightarrow> string \<Rightarrow> candidate" where
  "anthropic_candidate create model =
     \<lparr>cand_name = ''anthropic'', cand_complete = anthropic_complete create, cand_model = model\<rparr>"

definition build_default_provider ::
  "(nat \<Rightarrow> exn + sdk_message) \<Rightarrow> string option \<Rightarrow> bool \<Rightarrow> string \<Rightarrow> error + provider \<times> string" where
  "build_default_provider create api_key live model =
     (if \<not> live then Inr (mock_complete, ''mock-model'')
      else if api_key = None \<or> api_key = Some [] then
        Inl (RuntimeError ''live mode requires ANTHROPIC_API_KEY; refusing to fabricate a live result'')
      else bindE (new_gateway [anthropic_candidate create model, mock_candidate]) (\<lambda>cands.
        Inr (gateway_complete cands, model)))"

section \<open>The provider protocol\<close>

locale llm_provider =
  fixes complete :: provider
  assumes traced: "complete ctx request = Inr response \<Longrightarrow>
    rsp_request_id response = rc_request_id ctx \<and> rsp_trace_id response = rc_trace_id ctx
    \<and> rsp_prompt_version response = rq_prompt_version request"
begin

lemma traced_scoped: "complete ctx (scoped request c) = Inr response \<Longrightarrow>
    rsp_request_id response = rc_request_id ctx \<and> rsp_trace_id response = rc_trace_id ctx
    \<and> rsp_prompt_version response = rq_prompt_version request"
  by (drule traced) (simp add: scoped_def)

end

interpretation mock: llm_provider mock_complete
  by unfold_locales (auto simp: mock_complete_def Let_def bindE_eq_Inr)

interpretation anthropic: llm_provider "anthropic_complete create" for create
  by unfold_locales (auto simp: anthropic_complete_def bindE_eq_Inr)

lemma try_candidates_traced:
  assumes "\<forall>c \<in> set cands. llm_provider (cand_complete c)"
    and "snd (try_candidates ctx request attempts cands) = Inr response"
  shows "rsp_request_id response = rc_request_id ctx \<and> rsp_trace_id response = rc_trace_id ctx
    \<and> rsp_prompt_version response = rq_prompt_version request"
  using assms
proof (induction cands arbitrary: attempts)
  case (Cons c cs)
  show ?case
  proof (cases "cand_complete c ctx (scoped request c)")
    case (Inl e)
    with Cons show ?thesis by (auto simp: Let_def split: if_splits)
  next
    case (Inr r)
    have p: "llm_provider (cand_complete c)" using Cons.prems(1) by simp
    from Inr Cons.prems(2) have "r = response" by (simp add: Let_def)
    with llm_provider.traced_scoped [OF p Inr] show ?thesis by simp
  qed
qed simp

section \<open>Retries and fallback\<close>

lemma create_returns:
  "create_with_retries create attempt left = Inr (message, n) \<longleftrightarrow>
     attempt \<le> n \<and> n \<le> attempt + left \<and> create n = Inr message
     \<and> (\<forall>k. attempt \<le> k \<longrightarrow> k < n \<longrightarrow> (\<exists>e. create k = Inl e \<and> is_retryable_provider_error e))"
proof (induction left arbitrary: attempt)
  case 0
  show ?case
    by (subst create_with_retries.simps) (auto split: sum.splits dest: le_antisym)
next
  case (Suc left)
  show ?case
  proof (cases "create attempt")
    case (Inr m)
    then show ?thesis
      by (subst create_with_retries.simps) (auto simp: le_less)
  next
    case (Inl e)
    show ?thesis
    proof (cases "is_retryable_provider_error e")
      case True
      have "create_with_retries create attempt (Suc left) = create_with_retries create (attempt + 1) left"
        by (subst create_with_retries.simps) (simp add: Inl True)
      moreover have "attempt \<le> k \<longleftrightarrow> k = attempt \<or> attempt + 1 \<le> k" for k by auto
      ultimately show ?thesis using Inl True by (auto simp: Suc.IH)
    next
      case False
      have "create_with_retries create attempt (Suc left) = Inl e"
        by (subst create_with_retries.simps) (simp add: Inl False)
      moreover have "n = attempt \<or> attempt < n \<or> n < attempt" by auto
      ultimately show ?thesis using Inl False by auto
    qed
  qed
qed

lemma create_raises:
  "create_with_retries create attempt left = Inl e \<Longrightarrow>
     \<exists>n. attempt \<le> n \<and> n \<le> attempt + left \<and> create n = Inl e \<and> (is_retryable_provider_error e \<longrightarrow> n = attempt + left)"
proof (induction left arbitrary: attempt)
  case 0
  then show ?case by (subst (asm) create_with_retries.simps) (auto split: sum.splits if_splits)
next
  case (Suc left)
  show ?case
  proof (cases "create attempt = Inl e \<and> \<not> is_retryable_provider_error e")
    case True
    then show ?thesis by auto
  next
    case False
    from Suc.prems False have "create_with_retries create (attempt + 1) left = Inl e"
      by (subst (asm) create_with_retries.simps) (auto split: sum.splits if_splits)
    from Suc.IH [OF this] obtain n where "attempt + 1 \<le> n" "n \<le> attempt + 1 + left" "create n = Inl e"
      "is_retryable_provider_error e \<longrightarrow> n = attempt + 1 + left" by blast
    then show ?thesis by (intro exI [of _ n]) auto
  qed
qed

text \<open>The provider retries transient failures only, at most \<open>max_retries\<close> times: it returns the
  message of the first successful call when every earlier one failed transiently and the
  allowance was not used up, and reports how many retries that took; an exception it raises is
  permanent or that of the last allowed call.\<close>

theorem provider_retry_exact:
  "(create_with_retries create 0 left = Inr (message, n)) =
     (n \<le> left \<and> create n = Inr message \<and> (\<forall>k < n. \<exists>e. create k = Inl e \<and> is_retryable_provider_error e))
   \<and> (create_with_retries create 0 left = Inl e \<longrightarrow>
       (\<exists>m \<le> left. create m = Inl e \<and> (is_retryable_provider_error e \<longrightarrow> m = left)))"
  using create_returns [of create 0 left message n] create_raises [of create 0 left e] by auto

definition flaky :: "nat \<Rightarrow> exn + sdk_message" where
  "flaky n = (if n < 2 then Inl \<lparr>exn_type = ''RateLimitError'', exn_text = ''429''\<rparr>
     else Inr \<lparr>sdk_blocks = [(''text'', ''ok'')], sdk_input_tokens = 1, sdk_output_tokens = 1, sdk_stop_reason = None\<rparr>)"

theorem provider_retry_exact_witness:
  "\<exists>message. create_with_retries flaky 0 2 = Inr (message, 2)
     \<and> create_with_retries flaky 0 1 = Inl \<lparr>exn_type = ''RateLimitError'', exn_text = ''429''\<rparr>"
proof -
  have "\<forall>k < (2::nat). \<exists>e. flaky k = Inl e \<and> is_retryable_provider_error e"
    by (simp add: flaky_def is_retryable_provider_error_def RETRYABLE_EXCEPTION_NAMES_def)
  moreover obtain message where m: "flaky 2 = Inr message" by (simp add: flaky_def)
  ultimately have "create_with_retries flaky 0 2 = Inr (message, 2)"
    using provider_retry_exact [of flaky 2 message 2] by simp
  moreover have "create_with_retries flaky 0 1 = Inl \<lparr>exn_type = ''RateLimitError'', exn_text = ''429''\<rparr>"
    by code_simp
  ultimately show ?thesis by blast
qed

definition transient_failure :: "request_context \<Rightarrow> llm_request \<Rightarrow> candidate \<Rightarrow> bool" where
  "transient_failure ctx request c =
     (case cand_complete c ctx (scoped request c) of Inl e \<Rightarrow> is_retryable_provider_error e | Inr _ \<Rightarrow> False)"

definition attempt_of :: "request_context \<Rightarrow> llm_request \<Rightarrow> candidate \<Rightarrow> provider_attempt" where
  "attempt_of ctx request c =
     (case cand_complete c ctx (scoped request c) of
        Inl e \<Rightarrow> failed_attempt c e
      | Inr _ \<Rightarrow> \<lparr>pa_provider = cand_name c, pa_model = cand_model c, pa_success = True, pa_error = None, pa_retryable = False\<rparr>)"

text \<open>What the gateway promises: skip the candidates that fail transiently, settle on the next.\<close>

definition settle :: "request_context \<Rightarrow> llm_request \<Rightarrow> candidate list \<Rightarrow> exn + llm_response" where
  "settle ctx request cands =
     (case dropWhile (transient_failure ctx request) cands of
        [] \<Rightarrow> Inl (all_failed (map (attempt_of ctx request) cands))
      | c # _ \<Rightarrow> (case cand_complete c ctx (scoped request c) of
            Inl e \<Rightarrow> Inl (non_retryable (failed_attempt c e)) | Inr response \<Rightarrow> Inr response))"

definition tried :: "request_context \<Rightarrow> llm_request \<Rightarrow> candidate list \<Rightarrow> candidate list" where
  "tried ctx request cands =
     takeWhile (transient_failure ctx request) cands @ take 1 (dropWhile (transient_failure ctx request) cands)"

lemma try_candidates_attempts:
  "gr_attempts (fst (try_candidates ctx request attempts cands)) = attempts @ map (attempt_of ctx request) (tried ctx request cands)"
  by (induction cands arbitrary: attempts)
    (auto simp: tried_def transient_failure_def attempt_of_def failed_attempt_def Let_def split: sum.splits)

lemma try_candidates_settles:
  "snd (try_candidates ctx request attempts cands) =
     (case dropWhile (transient_failure ctx request) cands of
        [] \<Rightarrow> Inl (all_failed (attempts @ map (attempt_of ctx request) cands))
      | c # _ \<Rightarrow> (case cand_complete c ctx (scoped request c) of
            Inl e \<Rightarrow> Inl (non_retryable (failed_attempt c e)) | Inr response \<Rightarrow> Inr response))"
proof (induction cands arbitrary: attempts)
  case (Cons c cs)
  show ?case
  proof (cases "transient_failure ctx request c")
    case True
    then obtain e where "cand_complete c ctx (scoped request c) = Inl e" "is_retryable_provider_error e"
      by (auto simp: transient_failure_def split: sum.splits)
    then show ?thesis
      by (simp add: Cons.IH True failed_attempt_def attempt_of_def Let_def cong: list.case_cong)
  next
    case False
    then show ?thesis
      by (cases "cand_complete c ctx (scoped request c)") (auto simp: transient_failure_def failed_attempt_def Let_def)
  qed
qed simp

text \<open>C26. The gateway is the specification \<open>settle\<close>: candidates that fail transiently are passed over
  in order, the first other one decides (its response, or at once a permanent error), and the
  run record lists exactly the candidates tried, each once.\<close>

theorem gateway_settles:
  "gateway_complete cands ctx request = settle ctx request cands
   \<and> gr_attempts (fst (try_candidates ctx request [] cands)) = map (attempt_of ctx request) (tried ctx request cands)"
  unfolding gateway_complete_def settle_def try_candidates_settles try_candidates_attempts append_Nil by (rule conjI) (rule refl)+

text \<open>Whatever provider the factory builds, a response it returns carries the ids of the request
  and the version of the prompt that produced it.\<close>

theorem default_provider_traced:
  assumes "build_default_provider create api_key live model = Inr (prov, used_model)"
    and "prov ctx request = Inr response"
  shows "rsp_request_id response = rc_request_id ctx \<and> rsp_trace_id response = rc_trace_id ctx
    \<and> rsp_prompt_version response = rq_prompt_version request"
proof (cases live)
  case False
  with assms show ?thesis by (auto simp: build_default_provider_def dest: mock.traced)
next
  case True
  with assms(1) have "prov = gateway_complete [anthropic_candidate create model, mock_candidate]"
    by (auto simp: build_default_provider_def new_gateway_def split: if_splits)
  with assms(2) have "snd (try_candidates ctx request [] [anthropic_candidate create model, mock_candidate]) = Inr response"
    by (simp add: gateway_complete_def)
  then show ?thesis
    by (rule try_candidates_traced [rotated])
      (simp add: anthropic_candidate_def mock_candidate_def mock.llm_provider_axioms anthropic.llm_provider_axioms)
qed

definition sample_ctx :: request_context where
  "sample_ctx = \<lparr>rc_request_id = ''r1'', rc_trace_id = ''t1''\<rparr>"

definition sample_request :: llm_request where
  "sample_request = \<lparr>rq_messages = [\<lparr>msg_role = User, msg_content = ''hello''\<rparr>], rq_model = ''mock-model'',
     rq_max_output_tokens = 1024, rq_max_retries = 2, rq_prompt_version = Some ''v2''\<rparr>"

lemma mock_returns:
  obtains response where "mock_complete ctx request = Inr response"
    "rsp_content response = ''[mock response to: '' @ take 80 (last_user (rq_messages request)) @ '']''"
  by (simp add: mock_complete_def Let_def estimate_cost_def PRICING_def)

theorem default_provider_traced_witness:
  "\<exists>response. mock_complete sample_ctx sample_request = Inr response \<and> rsp_trace_id response = ''t1''"
proof -
  obtain response where r: "mock_complete sample_ctx sample_request = Inr response" by (rule mock_returns)
  have b: "build_default_provider (\<lambda>n. Inl (exn_of AssertionError)) None False ''m'' = Inr (mock_complete, ''mock-model'')"
    by (simp add: build_default_provider_def)
  from default_provider_traced [OF b r] r show ?thesis by (simp add: sample_ctx_def)
qed

end
