(* ===== verification/Response_Composer.thy ===== *)
theory Response_Composer
  imports Llm_Provider
begin

text \<open>
  \<open>app/agent/response_composer.py\<close>, \<open>app/agent/prompts/__init__.py\<close> and the optional alert
  summary (\<open>app/detection/summary.py\<close>): the prompts the model is sent, line by line. The
  prompt files are the argument \<open>files\<close>; \<open>renderer\<close> is how Python prints the parts of a
  prompt that are not text (a JSON dictionary, a reason with numbers in it).
\<close>

section \<open>Versioned prompts\<close>

type_synonym prompt_files = "string \<Rightarrow> string option"

definition CURRENT_VERSIONS :: "(string \<times> string) list" where
  "CURRENT_VERSIONS = [(''support_agent_system'', ''v2''), (''operations_radar_summary_system'', ''v1'')]"

definition no_version :: "string \<Rightarrow> error" where
  "no_version name = KeyError (repr_str (''no current version registered for prompt '' @ repr_str name))"

definition resolved_version :: "string \<Rightarrow> string option \<Rightarrow> error + string" where
  "resolved_version name version =
     (case version of
        Some v \<Rightarrow> if v = [] then of_optionE (no_version name) (dict_get CURRENT_VERSIONS name) else Inr v
      | None \<Rightarrow> of_optionE (no_version name) (dict_get CURRENT_VERSIONS name))"

definition load_prompt :: "prompt_files \<Rightarrow> string \<Rightarrow> string option \<Rightarrow> error + string" where
  "load_prompt files name version =
     bindE (resolved_version name version) (\<lambda>v.
     let path = name @ ''_'' @ v @ ''.md'' in
     of_optionE (FileNotFoundError (''prompt file not found: '' @ path)) (files path))"

definition prompt_version_string :: "string \<Rightarrow> error + string" where
  "prompt_version_string name =
     bindE (of_optionE (no_version name) (dict_get CURRENT_VERSIONS name)) (\<lambda>v. Inr (name @ ''_'' @ v))"

section \<open>Rendering the evidence\<close>

record renderer =
  show_record :: "data_record \<Rightarrow> string"
  show_payload :: "outcome_payload \<Rightarrow> string"
  show_fstr :: "fstr \<Rightarrow> string"

definition SYSTEM_PROMPT_NAME :: string where
  "SYSTEM_PROMPT_NAME = ''support_agent_system''"

definition ALREADY_EXECUTED_NOTICE :: string where
  "ALREADY_EXECUTED_NOTICE =
     ''Your tools already ran for this request; their results are the evidence and ''
     @ ''deterministic result(s) below - this message gives you no ability to call a tool. ''
     @ ''Do not ask to look anything up, request permission, or propose next steps: write ''
     @ ''the final answer now, directly, using only what is given below.''"

text \<open>A block of the prompt: its heading, its lines and an empty line, or nothing at all.\<close>

definition block :: "string \<Rightarrow> string list \<Rightarrow> string list" where
  "block heading entries = (if entries = [] then [] else heading # entries @ [''''])"

definition citation_line :: "evidence_ref \<Rightarrow> string" where
  "citation_line ref =
     ''- ['' @ citation_key ref @ '']'' @ (case ev_note ref of None \<Rightarrow> '''' | Some n \<Rightarrow> if n = [] then '''' else '' '' @ n)"

definition render_evidence_blocks :: "renderer \<Rightarrow> evidence_pack \<Rightarrow> string list" where
  "render_evidence_blocks rd pack =
     block ''Evidence (cite using these exact [source_id:locator] markers):''
       (map citation_line (ep_citations pack))
     @ block (''Structured record(s) looked up - the real, current field values; do not ''
              @ ''alter them or infer a different value from other evidence below:'')
         (map (\<lambda>r. ''- '' @ show_record rd r) (ep_structured_facts pack))
     @ block ''Deterministic result(s) - do not recompute or alter these:''
         (map (\<lambda>p. ''- '' @ show_payload rd p) (ep_domain_results pack))
     @ block ''Assumptions this result depends on:'' (map (\<lambda>a. ''- '' @ a) (ep_assumptions pack))
     @ block ''Source conflicts already resolved:''
         (map (\<lambda>c. ''- '' @ winner_source_id c @ '' overrides '' @ loser_source_id c @ '': ''
                   @ show_fstr rd (conflict_reason c)) (ep_conflicts pack))"

definition user_prompt_lines :: "renderer \<Rightarrow> evidence_pack \<Rightarrow> trust_state \<Rightarrow> string list" where
  "user_prompt_lines rd pack trust =
     [''Question: '' @ ep_question pack, '''', ALREADY_EXECUTED_NOTICE, '''']
     @ render_evidence_blocks rd pack
     @ [''Trust state (backend-determined, do not restate a higher confidence): '' @ trust_state_value trust]
     @ (if ep_needs_human_review pack then
          [''This result should be flagged for human/operational follow-up ''
           @ ''(e.g. an SLA breach requiring escalation) - say so plainly in the answer.''] else [])
     @ [''Write a concise, grounded answer using only the evidence and results above. ''
        @ ''Cite sources with the bracketed markers shown. State the trust level plainly if ''
        @ ''it is not CONFIDENT. If evidence is missing, say so rather than guessing.'']"

definition newline :: string where
  "newline = [CHR 0x0A]"

definition repair_prompt_lines ::
  "renderer \<Rightarrow> evidence_pack \<Rightarrow> trust_state \<Rightarrow> string \<Rightarrow> string list \<Rightarrow> string list" where
  "repair_prompt_lines rd pack trust previous_answer invalid_ones =
     [''Question: '' @ ep_question pack, '''', ALREADY_EXECUTED_NOTICE, '''',
      ''Your previous answer cited source markers that do not exist in the evidence ''
      @ ''provided. Rewrite the answer using ONLY the exact markers listed below - do not ''
      @ ''invent a marker or reuse an invalid one.'', '''',
      ''Invalid markers you used: '' @ join '', '' (map (\<lambda>m. ''['' @ m @ '']'') invalid_ones), '''']
     @ render_evidence_blocks rd pack
     @ [''Previous answer:'' @ newline @ previous_answer, '''',
        ''Write a corrected, concise, grounded answer using only the valid markers and ''
        @ ''deterministic result(s) above. ''
        @ ''State the trust level plainly if it is not CONFIDENT ('' @ trust_state_value trust @ '').'']"

definition render_user_prompt :: "renderer \<Rightarrow> evidence_pack \<Rightarrow> trust_state \<Rightarrow> string" where
  "render_user_prompt rd pack trust = join newline (user_prompt_lines rd pack trust)"

definition render_repair_prompt ::
  "renderer \<Rightarrow> evidence_pack \<Rightarrow> trust_state \<Rightarrow> string \<Rightarrow> string list \<Rightarrow> string" where
  "render_repair_prompt rd pack trust previous_answer invalid_ones =
     join newline (repair_prompt_lines rd pack trust previous_answer invalid_ones)"

definition estimate_prompt_tokens :: "renderer \<Rightarrow> prompt_files \<Rightarrow> evidence_pack \<Rightarrow> trust_state \<Rightarrow> error + int" where
  "estimate_prompt_tokens rd files pack trust =
     bindE (load_prompt files SYSTEM_PROMPT_NAME None) (\<lambda>system_prompt.
     Inr (approx_tokens system_prompt + approx_tokens (render_user_prompt rd pack trust)))"

section \<open>The calls\<close>

definition two_message_request :: "string \<Rightarrow> string \<Rightarrow> string \<Rightarrow> int \<Rightarrow> string \<Rightarrow> llm_request" where
  "two_message_request system_prompt user_prompt model max_out version =
     \<lparr>rq_messages = [\<lparr>msg_role = System, msg_content = system_prompt\<rparr>, \<lparr>msg_role = User, msg_content = user_prompt\<rparr>],
      rq_model = model, rq_max_output_tokens = max_out, rq_max_retries = 2, rq_prompt_version = Some version\<rparr>"

definition llm_request_for :: "prompt_files \<Rightarrow> string \<Rightarrow> string \<Rightarrow> string \<Rightarrow> int \<Rightarrow> error + llm_request" where
  "llm_request_for files prompt_name user_prompt model max_out =
     bindE (load_prompt files prompt_name None) (\<lambda>system_prompt.
     bindE (prompt_version_string prompt_name) (\<lambda>version.
     Inr (two_message_request system_prompt user_prompt model max_out version)))"

definition call_llm :: "prompt_files \<Rightarrow> string \<Rightarrow> string \<Rightarrow> provider \<Rightarrow> string \<Rightarrow> request_context \<Rightarrow> int
    \<Rightarrow> exn + string \<times> llm_response" where
  "call_llm files prompt_name user_prompt prov model ctx max_out =
     bindE (raise_exn (llm_request_for files prompt_name user_prompt model max_out)) (\<lambda>request.
     bindE (prov ctx request) (\<lambda>response. Inr (rsp_content response, response)))"

definition compose_response ::
  "renderer \<Rightarrow> prompt_files \<Rightarrow> evidence_pack \<Rightarrow> trust_state \<Rightarrow> provider \<Rightarrow> string \<Rightarrow> request_context \<Rightarrow> int
    \<Rightarrow> exn + string \<times> llm_response" where
  "compose_response rd files pack trust prov model ctx max_out =
     call_llm files SYSTEM_PROMPT_NAME (render_user_prompt rd pack trust) prov model ctx max_out"

definition repair_citations ::
  "renderer \<Rightarrow> prompt_files \<Rightarrow> evidence_pack \<Rightarrow> trust_state \<Rightarrow> string \<Rightarrow> string list \<Rightarrow> provider \<Rightarrow> string
    \<Rightarrow> request_context \<Rightarrow> int \<Rightarrow> exn + string \<times> llm_response" where
  "repair_citations rd files pack trust previous_answer invalid_ones prov model ctx max_out =
     call_llm files SYSTEM_PROMPT_NAME (render_repair_prompt rd pack trust previous_answer invalid_ones) prov model ctx max_out"

section \<open>The alert summary\<close>

definition SUMMARY_PROMPT_NAME :: string where
  "SUMMARY_PROMPT_NAME = ''operations_radar_summary_system''"

fun alert_severity_value :: "alert_severity \<Rightarrow> string" where
  "alert_severity_value LOW = ''low''"
| "alert_severity_value MEDIUM = ''medium''"
| "alert_severity_value HIGH = ''high''"
| "alert_severity_value CRITICAL = ''critical''"

definition alert_prompt_lines :: "renderer \<Rightarrow> alert_candidate \<Rightarrow> string list" where
  "alert_prompt_lines rd alert =
     [''Alert type: '' @ alert_type_value (al_type alert),
      ''Severity (already decided - do not restate a different one): '' @ alert_severity_value (al_severity alert),
      ''Title: '' @ al_title alert,
      ''Reason (already decided - do not alter the facts in it): '' @ show_fstr rd (al_reason alert),
      ''Observed count: '' @ str_of_int (al_observed_count alert) @ '' (threshold: '' @ str_of_int (al_threshold alert) @ '')'',
      ''Time window: '' @ al_time_window alert,
      ''Affected accounts (already decided - do not add or remove any): '' @ join '', '' (al_accounts alert),
      ''Representative records: '' @ join '', '' (al_records alert),
      ''Trust state: '' @ trust_state_value (al_trust_state alert),
      ''Recommended next step (already decided): '' @ al_next_step alert,
      '''',
      ''Write a concise operator-facing summary: what was detected, why it matters, and ''
      @ ''the recommended next step. Use only the facts above - do not invent a count, ''
      @ ''threshold, affected account, or severity, and do not claim causality beyond what ''
      @ ''the reason states.'']"

definition compose_alert_summary ::
  "renderer \<Rightarrow> prompt_files \<Rightarrow> alert_candidate \<Rightarrow> provider \<Rightarrow> string \<Rightarrow> request_context \<Rightarrow> int
    \<Rightarrow> exn + string \<times> llm_response" where
  "compose_alert_summary rd files alert prov model ctx max_out =
     call_llm files SUMMARY_PROMPT_NAME (join newline (alert_prompt_lines rd alert)) prov model ctx max_out"

section \<open>What is sent is what was estimated\<close>

definition request_tokens :: "llm_request \<Rightarrow> int" where
  "request_tokens request = sum_list (map (\<lambda>m. approx_tokens (msg_content m)) (rq_messages request))"

lemma sent_request:
  assumes "llm_request_for files SYSTEM_PROMPT_NAME user_prompt model max_out = Inr request"
  obtains system_prompt where "load_prompt files SYSTEM_PROMPT_NAME None = Inr system_prompt"
    "request = two_message_request system_prompt user_prompt model max_out ''support_agent_system_v2''"
  using assms
  by (auto simp: llm_request_for_def bindE_eq_Inr prompt_version_string_def SYSTEM_PROMPT_NAME_def CURRENT_VERSIONS_def)

text \<open>The gate on the context size is sound for the composing call: the request it lets through
  holds exactly the estimated number of tokens, so no more than the budget allows, and it names
  the version of the prompt file it was built from.\<close>

theorem context_gate_sound:
  assumes "estimate_prompt_tokens rd files pack trust = Inr tokens" "check_context_budget tokens budget = None"
    and "llm_request_for files SYSTEM_PROMPT_NAME (render_user_prompt rd pack trust) model max_out = Inr request"
  shows "request_tokens request = tokens \<and> request_tokens request \<le> max_context_tokens budget
    \<and> rq_prompt_version request = Some ''support_agent_system_v2''"
proof -
  obtain sys where s: "load_prompt files SYSTEM_PROMPT_NAME None = Inr sys"
    and r: "request = two_message_request sys (render_user_prompt rd pack trust) model max_out ''support_agent_system_v2''"
    by (rule sent_request [OF assms(3)])
  have "tokens = approx_tokens sys + approx_tokens (render_user_prompt rd pack trust)"
    using assms(1) by (simp add: estimate_prompt_tokens_def s)
  moreover have "tokens \<le> max_context_tokens budget"
    using assms(2) by (simp add: check_context_budget_def split: if_splits)
  ultimately show ?thesis by (simp add: r request_tokens_def two_message_request_def)
qed

definition plain_renderer :: renderer where
  "plain_renderer = \<lparr>show_record = (\<lambda>_. ''record''), show_payload = (\<lambda>_. ''result''), show_fstr = (\<lambda>_. ''reason'')\<rparr>"

definition sample_files :: prompt_files where
  "sample_files path = (if path = ''support_agent_system_v2.md'' then Some ''Answer from the evidence.'' else None)"

lemma sample_prompt: "load_prompt sample_files SYSTEM_PROMPT_NAME None = Inr ''Answer from the evidence.''"
  by code_simp

lemma sample_version: "prompt_version_string SYSTEM_PROMPT_NAME = Inr ''support_agent_system_v2''"
  by code_simp

theorem context_gate_sound_witness:
  "\<exists>request n. estimate_prompt_tokens plain_renderer sample_files sample_pack CONDITIONAL = Inr n
    \<and> llm_request_for sample_files SYSTEM_PROMPT_NAME (render_user_prompt plain_renderer sample_pack CONDITIONAL) ''mock-model'' 1024
      = Inr request
    \<and> request_tokens request = n"
proof -
  obtain n where e: "estimate_prompt_tokens plain_renderer sample_files sample_pack CONDITIONAL = Inr n"
    by (simp add: estimate_prompt_tokens_def sample_prompt)
  have c: "check_context_budget n (DEFAULT_BUDGET\<lparr>max_context_tokens := n\<rparr>) = None"
    by (simp add: check_context_budget_def)
  obtain request where r: "llm_request_for sample_files SYSTEM_PROMPT_NAME
      (render_user_prompt plain_renderer sample_pack CONDITIONAL) ''mock-model'' 1024 = Inr request"
    by (simp add: llm_request_for_def sample_prompt sample_version)
  from context_gate_sound [OF e c r] e r show ?thesis by blast
qed

end
