(* ===== verification/Orchestrator.thy ===== *)
theory Orchestrator
  imports Response_Composer
begin

text \<open>
  \<open>app/agent/orchestrator.py\<close> with \<open>state.py\<close> and \<open>context.py\<close>: one run of the agent. The
  run is the composition of three stages, as the code has them in sequence: the front half up
  to the plan, the tool loop, and the answer over the evidence pack; a stage either ends the
  run with a result or hands on. Everything outside the program is in \<open>agent_env\<close>: the search
  engine, the prompt files, the rendering of values, the clock readings (\<open>env_elapsed i\<close>,
  seconds since the start when step \<open>i\<close> is about to run, and \<open>env_latency i\<close>, milliseconds of
  its attempts) and the model (\<open>env_provider n\<close> is what the n-th call of the run does).
\<close>

section \<open>States and results\<close>

datatype agent_state =
    REQUEST_RECEIVED | AUTH_VALIDATED | ENTITIES_RESOLVED | INTENT_RESOLVED | PLAN_CREATED | TOOL_EXECUTING
  | EVIDENCE_VALIDATED | DOMAIN_EVALUATED | TRUST_EVALUATED | RESPONSE_COMPOSED
  | COMPLETED_STATE | NEEDS_CLARIFICATION_STATE | INSUFFICIENT_EVIDENCE_STATE | ESCALATED_STATE
  | FAILED_STATE | EVIDENCE_VALIDATION_FAILED_STATE

definition TERMINAL_STATES :: "agent_state list" where
  "TERMINAL_STATES = [COMPLETED_STATE, NEEDS_CLARIFICATION_STATE, INSUFFICIENT_EVIDENCE_STATE, ESCALATED_STATE,
     FAILED_STATE, EVIDENCE_VALIDATION_FAILED_STATE]"

datatype agent_status =
  completed | needs_clarification | insufficient_evidence | escalated | failed | evidence_validation_failed

record tool_trace_entry =
  tt_tool :: string
  tt_purpose :: string
  tt_success :: bool
  tt_error_type :: "tool_error_type option"
  tt_latency_ms :: pyfloat

record agent_request_context =
  arc_request_id :: string
  arc_trace_id :: string
  arc_user_id :: string
  arc_auth :: auth_context
  arc_snapshot_time :: parsed_time

record run_result =
  run_status :: agent_status
  run_answer :: "string option"
  run_trust_state :: "trust_state option"
  run_needs_human_review :: bool
  run_citations :: "evidence_ref list"
  run_assumptions :: "string list"
  run_conflicts :: "conflict list"
  run_reason :: "fstr option"
  run_intent :: "intent option"
  run_planned_tools :: "string list"
  run_tool_trace :: "tool_trace_entry list"
  run_state_trace :: "agent_state list"
  run_llm_calls :: nat
  run_tool_calls :: nat
  run_total_cost_usd :: pyfloat
  run_request_id :: string
  run_trace_id :: string

text \<open>\<open>_terminal\<close> with its keyword defaults; a call that passes keywords updates the record.\<close>

definition terminal :: "agent_request_context \<Rightarrow> agent_status \<Rightarrow> fstr \<Rightarrow> agent_state list \<Rightarrow> run_result" where
  "terminal ctx status why states =
     \<lparr>run_status = status, run_answer = None, run_trust_state = None, run_needs_human_review = False,
      run_citations = [], run_assumptions = [], run_conflicts = [], run_reason = Some why, run_intent = None,
      run_planned_tools = [], run_tool_trace = [], run_state_trace = states, run_llm_calls = 0, run_tool_calls = 0,
      run_total_cost_usd = 0, run_request_id = arc_request_id ctx, run_trace_id = arc_trace_id ctx\<rparr>"

record agent_env =
  env_fts :: fts_engine
  env_latency :: "nat \<Rightarrow> nat \<Rightarrow> pyfloat"
  env_elapsed :: "nat \<Rightarrow> pyfloat"
  env_render :: renderer
  env_files :: prompt_files
  env_provider :: "nat \<Rightarrow> provider"

section \<open>The front half\<close>

datatype 'a stage = Stop run_result | Continue 'a

text \<open>Up to the plan: entities, the two clarifications, intent, an empty or unsupported request, the plan
  and its size.\<close>

definition plan_stage ::
  "string \<Rightarrow> agent_request_context \<Rightarrow> db \<Rightarrow> agent_budget \<Rightarrow> entity_resolution \<Rightarrow> auth_context
    \<Rightarrow> (intent \<times> plan_step list \<times> agent_state list) stage" where
  "plan_stage question ctx conn budget ents auth =
     (let states = [REQUEST_RECEIVED, AUTH_VALIDATED, ENTITIES_RESOLVED] in
      if ambiguous_account_names ents \<noteq> [] then
        Stop (terminal ctx needs_clarification
          [T ''question matches multiple accounts: '', ReprList (ambiguous_account_names ents),
           T ''; please specify an account ID or a more specific name'']
          (states @ [NEEDS_CLARIFICATION_STATE]))
      else
        let intn = resolve_intent question ents; states = states @ [INTENT_RESOLVED] in
        (case needs_account_clarification question ents auth of
           Some why \<Rightarrow>
             Stop ((terminal ctx needs_clarification [T why] (states @ [NEEDS_CLARIFICATION_STATE]))\<lparr>run_intent := Some intn\<rparr>)
         | None \<Rightarrow>
             if intn = UNSUPPORTED then
               Stop ((terminal ctx insufficient_evidence [T ''empty or unsupported request'']
                       (states @ [INSUFFICIENT_EVIDENCE_STATE]))\<lparr>run_intent := Some intn\<rparr>)
             else
               let steps = build_plan question intn ents; states = states @ [PLAN_CREATED] in
               if steps = [] then
                 Stop ((terminal ctx insufficient_evidence
                          [T ''no entity or topic in the question resolved to a supported investigation'']
                          (states @ [INSUFFICIENT_EVIDENCE_STATE]))\<lparr>run_intent := Some intn\<rparr>)
               else if int (length steps) > max_tool_calls budget then
                 Stop ((terminal ctx failed
                          [T ''plan requires '', IntT (int (length steps)), T '' tool calls, exceeding the budget of '',
                           IntT (max_tool_calls budget)]
                          (states @ [FAILED_STATE]))\<lparr>run_intent := Some intn\<rparr>)
               else Continue (intn, steps, states)))"

section \<open>The tool loop\<close>

definition trace_entry :: "plan_step \<Rightarrow> tool_result \<Rightarrow> tool_trace_entry" where
  "trace_entry s r =
     \<lparr>tt_tool = step_tool s, tt_purpose = step_purpose s, tt_success = res_success r,
      tt_error_type = res_error_type r, tt_latency_ms = res_latency_ms r\<rparr>"

text \<open>\<open>run_steps\<close> returns why the loop stopped early, if it did, with the results and the trace.\<close>

fun run_steps ::
  "agent_env \<Rightarrow> agent_budget \<Rightarrow> db \<Rightarrow> auth_context \<Rightarrow> clock \<Rightarrow> nat \<Rightarrow> int \<Rightarrow> plan_step list
    \<Rightarrow> fstr option \<times> (plan_step \<times> tool_result) list" where
  "run_steps env budget conn auth clk i iterations [] = (None, [])"
| "run_steps env budget conn auth clk i iterations (s # ss) =
     (if env_elapsed env i > max_wall_clock_seconds budget then (Some [T ''wall-clock budget exceeded''], [])
      else if iterations \<ge> max_iterations budget then
        (Some [T ''iteration budget of '', IntT (max_iterations budget), T '' exceeded''], [])
      else
        let r = execute_tool (env_fts env) (env_latency env i) (step_tool s) (step_args s) conn auth clk in
        if \<not> res_success r \<and> res_error_type r = Some NOT_AUTHORIZED then (Some [T ''not authorized''], [(s, r)])
        else
          let (stop, rest) = run_steps env budget conn auth clk (i + 1) (iterations + int (res_attempts r)) ss
          in (stop, (s, r) # rest))"

section \<open>The answer\<close>

definition with_tools :: "run_result \<Rightarrow> (plan_step \<times> tool_result) list \<Rightarrow> run_result" where
  "with_tools r done = r\<lparr>run_tool_trace := map (\<lambda>(s, t). trace_entry s t) done, run_tool_calls := length done\<rparr>"

text \<open>The keywords the results after the first model call share.\<close>

definition with_pack :: "run_result \<Rightarrow> evidence_pack \<Rightarrow> plan_step list \<Rightarrow> run_result" where
  "with_pack r pack steps =
     r\<lparr>run_needs_human_review := ep_needs_human_review pack, run_citations := ep_citations pack,
       run_assumptions := ep_assumptions pack, run_conflicts := ep_conflicts pack,
       run_planned_tools := map step_tool steps\<rparr>"

definition final_status :: "trust_state \<Rightarrow> agent_status" where
  "final_status trust = (if trust = ESCALATE then escalated else completed)"

definition final_state :: "trust_state \<Rightarrow> agent_state" where
  "final_state trust = (if trust = ESCALATE then ESCALATED_STATE else COMPLETED_STATE)"

definition answered ::
  "agent_request_context \<Rightarrow> trust_state \<Rightarrow> string \<Rightarrow> agent_state list \<Rightarrow> run_result" where
  "answered ctx trust answer states =
     (terminal ctx (final_status trust) [] (states @ [final_state trust]))
       \<lparr>run_reason := None, run_answer := Some answer\<rparr>"

text \<open>From a composed text to the end of the run: validation, at most one repair, the final status.\<close>

definition citation_stage ::
  "agent_env \<Rightarrow> agent_request_context \<Rightarrow> string \<Rightarrow> agent_budget \<Rightarrow> evidence_pack \<Rightarrow> trust_state \<Rightarrow> agent_state list
    \<Rightarrow> request_context \<Rightarrow> string \<Rightarrow> llm_response \<Rightarrow> run_result" where
  "citation_stage env ctx model budget pack trust states rctx answer response =
     (let check = validate_citations answer pack; cost = total_cost_usd (rsp_cost response) in
      if cc_valid check then
        (answered ctx trust answer states)\<lparr>run_llm_calls := 1, run_total_cost_usd := cost\<rparr>
      else if max_llm_calls budget < 2 then
        (terminal ctx evidence_validation_failed
           [T ''answer cited unsupported source(s) '', ReprList (cc_invalid_markers check),
            T ''; no repair attempt was available within the LLM call budget'']
           (states @ [EVIDENCE_VALIDATION_FAILED_STATE]))\<lparr>run_llm_calls := 1, run_total_cost_usd := cost\<rparr>
      else
        (case repair_citations (env_render env) (env_files env) pack trust answer (cc_invalid_markers check)
                (env_provider env 1) model rctx (max_output_tokens budget) of
           Inl e \<Rightarrow>
             (terminal ctx failed [T (''citation repair call failed: '' @ exn_text e)] (states @ [FAILED_STATE]))
               \<lparr>run_llm_calls := 1, run_total_cost_usd := cost\<rparr>
         | Inr (repaired, repair_response) \<Rightarrow>
             let cost = fl (cost + total_cost_usd (rsp_cost repair_response));
                 again = validate_citations repaired pack
             in if cc_valid again then
                  (answered ctx trust repaired states)\<lparr>run_llm_calls := 2, run_total_cost_usd := cost\<rparr>
                else
                  (terminal ctx evidence_validation_failed
                     [T ''answer still cited unsupported source(s) '', ReprList (cc_invalid_markers again),
                      T '' after one bounded repair attempt'']
                     (states @ [EVIDENCE_VALIDATION_FAILED_STATE]))\<lparr>run_llm_calls := 2, run_total_cost_usd := cost\<rparr>))"

text \<open>\<open>not pack.citations and not pack.document_evidence and not pack.domain_results\<close>, then sufficiency.\<close>

definition evidence_shortfall :: "string \<Rightarrow> evidence_pack \<Rightarrow> string option" where
  "evidence_shortfall question pack =
     (if ep_citations pack = [] \<and> ep_document_evidence pack = [] \<and> ep_domain_results pack = [] then
        Some ''no evidence could be retrieved or calculated for this request''
      else if ep_domain_results pack = [] \<and> \<not> is_document_evidence_sufficient question (ep_document_evidence pack) then
        Some ''retrieved document evidence does not sufficiently support this question''
      else None)"

definition answer_stage ::
  "agent_env \<Rightarrow> agent_request_context \<Rightarrow> string \<Rightarrow> string \<Rightarrow> agent_budget \<Rightarrow> evidence_pack \<Rightarrow> plan_step list
    \<Rightarrow> agent_state list \<Rightarrow> error + run_result" where
  "answer_stage env ctx question model budget pack steps states =
     (let states = states @ [EVIDENCE_VALIDATED, DOMAIN_EVALUATED] in
      case evidence_shortfall question pack of
        Some why \<Rightarrow>
          Inr ((terminal ctx insufficient_evidence [T why] (states @ [INSUFFICIENT_EVIDENCE_STATE]))
                 \<lparr>run_planned_tools := map step_tool steps\<rparr>)
      | None \<Rightarrow>
          let trust = enforce_trust_gate (ep_domain_trust_states pack) (ep_document_evidence pack \<noteq> []);
              states = states @ [TRUST_EVALUATED];
              fail = (\<lambda>why. (terminal ctx failed why (states @ [FAILED_STATE]))\<lparr>run_trust_state := Some trust\<rparr>);
              rctx = \<lparr>rc_request_id = arc_request_id ctx, rc_trace_id = arc_trace_id ctx\<rparr>
          in
          if max_llm_calls budget < 1 then
            Inr (fail [T ''llm call budget exhausted before response composition''])
          else
            bindE (estimate_prompt_tokens (env_render env) (env_files env) pack trust) (\<lambda>context_tokens.
            (case check_context_budget context_tokens budget of
               Some why \<Rightarrow> Inr (fail why)
             | None \<Rightarrow>
                 (case check_cost_budget (estimate_worst_case_cost_usd model context_tokens (max_output_tokens budget)) budget of
                    Some why \<Rightarrow> Inr (fail why)
                  | None \<Rightarrow>
                      (case compose_response (env_render env) (env_files env) pack trust (env_provider env 0) model rctx
                              (max_output_tokens budget) of
                         Inl e \<Rightarrow> Inr (fail [T (''response composition failed: '' @ exn_text e)])
                       | Inr (answer, response) \<Rightarrow>
                           Inr ((with_pack (citation_stage env ctx model budget pack trust (states @ [RESPONSE_COMPOSED])
                                   rctx answer response) pack steps)\<lparr>run_trust_state := Some trust\<rparr>))))))"

section \<open>The run\<close>

definition run_agent ::
  "agent_env \<Rightarrow> string \<Rightarrow> agent_request_context \<Rightarrow> db \<Rightarrow> string \<Rightarrow> agent_budget \<Rightarrow> error + run_result" where
  "run_agent env question ctx conn model budget =
     bindE (fixed_snapshot_clock (arc_snapshot_time ctx)) (\<lambda>clk.
     bindE (resolve_entities question conn (arc_auth ctx) clk) (\<lambda>ents.
     case plan_stage question ctx conn budget ents (arc_auth ctx) of
       Stop r \<Rightarrow> Inr r
     | Continue (intn, steps, states) \<Rightarrow>
         let (stop, done) = run_steps env budget conn (arc_auth ctx) clk 0 0 steps;
             states = states @ [TOOL_EXECUTING]
         in
         (case stop of
            Some why \<Rightarrow>
              Inr ((with_tools (terminal ctx failed why (states @ [FAILED_STATE])) done)\<lparr>run_intent := Some intn\<rparr>)
          | None \<Rightarrow>
              let pack = build_evidence_pack question intn ents (map snd done) (now clk) (account_scope (arc_auth ctx))
              in bindE (answer_stage env ctx question model budget pack steps states) (\<lambda>r.
                 Inr ((with_tools r done)\<lparr>run_intent := Some intn\<rparr>)))))"

end
