(* ===== verification/Agent_Sample.thy ===== *)
theory Agent_Sample
  imports Orchestrator
begin

text \<open>
  One concrete run of the agent, from question to cited answer: the search engine finds the
  sample database's only chunk, the gates let the evidence through and the model cites it.
  The properties of a run are instantiated on it.
\<close>

definition sample_question :: string where
  "sample_question = ''Is webhook delivery delayed?''"

definition sample_answer :: string where
  "sample_answer = ''Yes [SRC-04:p2:3].''"

definition sample_model :: "nat \<Rightarrow> provider" where
  "sample_model n ctx request =
     Inr \<lparr>rsp_content = sample_answer, rsp_provider = ''mock'', rsp_model = rq_model request,
          rsp_usage = \<lparr>input_tokens = 1, output_tokens = 1\<rparr>,
          rsp_cost = \<lparr>input_cost_usd = 0, output_cost_usd = 0\<rparr>,
          rsp_request_id = rc_request_id ctx, rsp_trace_id = rc_trace_id ctx,
          rsp_prompt_version = rq_prompt_version request, rsp_finish_reason = None, rsp_retries = 0\<rparr>"

definition sample_env :: agent_env where
  "sample_env = \<lparr>env_fts = sample_fts, env_latency = (\<lambda>_ _. 1), env_elapsed = (\<lambda>_. 0),
     env_render = plain_renderer, env_files = sample_files, env_provider = sample_model\<rparr>"

definition sample_arc :: agent_request_context where
  "sample_arc = \<lparr>arc_request_id = ''r1'', arc_trace_id = ''t1'', arc_user_id = ''u1'', arc_auth = admin,
     arc_snapshot_time = Zoned (hm 11 0) ist\<rparr>"

definition sample_entities :: entity_resolution where
  "sample_entities = \<lparr>order_ids = [], ticket_ids = [], account_ids = [], ambiguous_account_names = [],
     unresolved_mentions = []\<rparr>"

definition sample_step :: plan_step where
  "sample_step = search_step sample_question ''retrieve product documentation / known issues'' [''product_doc'']"

definition sample_doc :: search_result where
  "sample_doc = \<lparr>dr_chunk_id = ''SRC-04#1'', dr_source_id = ''SRC-04'', dr_filename = ''SRC-04.pdf'', dr_page = 2,
     dr_section = Some ''3'', dr_snippet = cr_text sample_chunk, dr_score = - 2, dr_status = CURRENT,
     dr_source_type = PRODUCT_DOC, dr_authority_class = AC_PRODUCT_DOC, dr_effective_date = - 100,
     dr_account_scope = None\<rparr>"

definition sample_tool_result :: tool_result where
  "sample_tool_result = result_ok ''search_documents'' (SearchOutput sample_question [sample_doc]) 1 1"

definition run_clock :: clock where
  "run_clock = \<lparr>snapshot = \<lparr>wall = hm 11 0, utcoffset = ist\<rparr>\<rparr>"

definition run_pack :: evidence_pack where
  "run_pack = build_evidence_pack sample_question KNOWN_ISSUE sample_entities [sample_tool_result] (now run_clock) None"

lemma sample_clocked: "fixed_snapshot_clock (arc_snapshot_time sample_arc) = Inr run_clock"
  by (simp add: sample_arc_def run_clock_def)

lemma sample_resolved: "resolve_entities sample_question sample_db admin run_clock = Inr sample_entities"
  by code_simp

lemma sample_intent: "resolve_intent sample_question sample_entities = KNOWN_ISSUE"
  by code_simp

lemma sample_clear: "needs_account_clarification sample_question sample_entities admin = None"
  by code_simp

lemma sample_executed:
  "execute_tool sample_fts (\<lambda>_. 1) (step_tool sample_step) (step_args sample_step) sample_db admin run_clock = sample_tool_result"
  by code_simp

lemma sample_sufficient: "is_document_evidence_sufficient sample_question [sample_doc]"
  by code_simp

lemma sample_planned:
  assumes "1 \<le> max_tool_calls budget"
  shows "plan_stage sample_question sample_arc sample_db budget sample_entities admin
    = Continue (KNOWN_ISSUE, [sample_step],
        [REQUEST_RECEIVED, AUTH_VALIDATED, ENTITIES_RESOLVED, INTENT_RESOLVED, PLAN_CREATED])"
proof -
  have "ambiguous_account_names sample_entities = []" by (simp add: sample_entities_def)
  moreover have "build_plan sample_question KNOWN_ISSUE sample_entities = [sample_step]" by (simp add: sample_step_def)
  ultimately show ?thesis
    using assms by (simp add: plan_stage_def Let_def sample_intent sample_clear)
qed

lemma sample_looped:
  "0 \<le> max_wall_clock_seconds budget \<Longrightarrow> 1 \<le> max_iterations budget \<Longrightarrow>
     run_steps sample_env budget sample_db admin run_clock 0 0 [sample_step] = (None, [(sample_step, sample_tool_result)])"
  using sample_executed by (simp add: Let_def sample_env_def sample_tool_result_def result_ok_def)

lemma run_pack_fields [simp]:
  "ep_citations run_pack = [cite_result sample_doc]" "ep_document_evidence run_pack = [sample_doc]"
  "ep_domain_trust_states run_pack = []" "ep_domain_results run_pack = []"
  by (simp_all add: run_pack_def build_pack_fields sample_tool_result_def result_ok_def)

lemma sample_no_shortfall: "evidence_shortfall sample_question run_pack = None"
  by (simp add: evidence_shortfall_def sample_sufficient)

lemma sample_cited: "cc_valid (validate_citations sample_answer run_pack)"
proof -
  have "extract_citation_markers sample_answer = [''SRC-04:p2:3'']" by code_simp
  moreover have "citation_key (cite_result sample_doc) = ''SRC-04:p2:3''" by code_simp
  ultimately show ?thesis by (simp add: citation_check_fields invalid_markers)
qed

lemma sample_free: "estimate_worst_case_cost_usd ''mock-model'' n m = Some 0"
  by (simp add: estimate_worst_case_cost_usd_def estimate_cost_def PRICING_def total_cost_usd_def)

lemma sample_run:
  obtains budget r where "run_agent sample_env sample_question sample_arc sample_db ''mock-model'' budget = Inr r"
    "run_answer r = Some sample_answer" "run_llm_calls r = 1" "run_tool_calls r = 1" "run_trust_state r = Some CONDITIONAL"
    "max_tool_calls budget = 6"
proof -
  obtain n where n: "estimate_prompt_tokens plain_renderer sample_files run_pack CONDITIONAL = Inr n"
    by (simp add: estimate_prompt_tokens_def sample_prompt)
  let ?budget = "DEFAULT_BUDGET\<lparr>max_context_tokens := n\<rparr>"
  have gate: "enforce_trust_gate (ep_domain_trust_states run_pack) (ep_document_evidence run_pack \<noteq> []) = CONDITIONAL"
    by (simp add: enforce_trust_gate_def)
  have fits: "check_context_budget n ?budget = None" by (simp add: check_context_budget_def)
  have cheap: "check_cost_budget (Some 0) ?budget = None" by (simp add: check_cost_budget_def DEFAULT_BUDGET_def)
  have calls: "\<not> max_llm_calls ?budget < 1" by (simp add: DEFAULT_BUDGET_def)
  obtain response where c: "\<And>rctx. compose_response plain_renderer sample_files run_pack CONDITIONAL (sample_model 0) ''mock-model'' rctx
      (max_output_tokens ?budget) = Inr (sample_answer, response rctx)"
    by (simp add: compose_response_def call_llm_def llm_request_for_def sample_prompt sample_version sample_model_def)
  have env: "env_render sample_env = plain_renderer" "env_files sample_env = sample_files" "env_provider sample_env 0 = sample_model 0"
    by (simp_all add: sample_env_def)
  define states where "states = [REQUEST_RECEIVED, AUTH_VALIDATED, ENTITIES_RESOLVED, INTENT_RESOLVED, PLAN_CREATED]"
  have "inrP (\<lambda>r. run_answer r = Some sample_answer \<and> run_llm_calls r = 1 \<and> run_trust_state r = Some CONDITIONAL)
      (answer_stage sample_env sample_arc sample_question ''mock-model'' ?budget run_pack [sample_step] (states @ [TOOL_EXECUTING]))"
    unfolding answer_stage_def Let_def sample_no_shortfall option.case gate env n bindE.simps fits sample_free cheap c sum.case prod.case
    using calls by (simp add: inrP_def citation_stage_def Let_def sample_cited with_pack_def answered_def terminal_def)
  then obtain r0 where r0: "answer_stage sample_env sample_arc sample_question ''mock-model'' ?budget run_pack [sample_step]
      (states @ [TOOL_EXECUTING]) = Inr r0"
    "run_answer r0 = Some sample_answer" "run_llm_calls r0 = 1" "run_trust_state r0 = Some CONDITIONAL" by (auto elim: inrP_E)
  have auth: "arc_auth sample_arc = admin" "account_scope admin = None" by (simp_all add: sample_arc_def admin_def)
  have plan: "plan_stage sample_question sample_arc sample_db ?budget sample_entities admin = Continue (KNOWN_ISSUE, [sample_step], states)"
    unfolding states_def by (rule sample_planned) (simp add: DEFAULT_BUDGET_def)
  have loop: "run_steps sample_env ?budget sample_db admin run_clock 0 0 [sample_step] = (None, [(sample_step, sample_tool_result)])"
    by (rule sample_looped) (simp_all add: DEFAULT_BUDGET_def)
  have pack: "build_evidence_pack sample_question KNOWN_ISSUE sample_entities (map snd [(sample_step, sample_tool_result)])
      (now run_clock) None = run_pack" by (simp add: run_pack_def)
  have "run_agent sample_env sample_question sample_arc sample_db ''mock-model'' ?budget
      = Inr ((with_tools r0 [(sample_step, sample_tool_result)])\<lparr>run_intent := Some KNOWN_ISSUE\<rparr>)"
    unfolding run_agent_def sample_clocked bindE.simps auth sample_resolved plan stage.case prod.case loop Let_def option.case
      pack r0(1) ..
  then show thesis
    by (rule that) (simp_all add: r0 with_tools_def DEFAULT_BUDGET_def)
qed

end
