(* ===== verification/Agent_Guarantees.thy ===== *)
theory Agent_Guarantees
  imports Agent_Sample
begin

text \<open>
  What a run of the agent guarantees: its bounds, the path its states take, what a completed
  answer rests on, what the model can and cannot influence, and what a caller can learn.
\<close>

section \<open>How a run ends\<close>

lemma terminal_fields [simp]:
  "run_status (terminal ctx st why states) = st"
  "run_answer (terminal ctx st why states) = None"
  "run_trust_state (terminal ctx st why states) = None"
  "run_state_trace (terminal ctx st why states) = states"
  "run_llm_calls (terminal ctx st why states) = 0"
  "run_tool_calls (terminal ctx st why states) = 0"
  "run_tool_trace (terminal ctx st why states) = []"
  "run_citations (terminal ctx st why states) = []"
  "run_intent (terminal ctx st why states) = None"
  by (simp_all add: terminal_def)

lemma answered_fields [simp]:
  "run_status (answered ctx trust answer states) = final_status trust"
  "run_answer (answered ctx trust answer states) = Some answer"
  "run_state_trace (answered ctx trust answer states) = states @ [final_state trust]"
  by (simp_all add: answered_def)

lemma with_tools_fields [simp]:
  "run_status (with_tools r done) = run_status r"
  "run_answer (with_tools r done) = run_answer r"
  "run_trust_state (with_tools r done) = run_trust_state r"
  "run_state_trace (with_tools r done) = run_state_trace r"
  "run_llm_calls (with_tools r done) = run_llm_calls r"
  "run_citations (with_tools r done) = run_citations r"
  "run_tool_calls (with_tools r done) = length done"
  "run_tool_trace (with_tools r done) = map (\<lambda>(s, t). trace_entry s t) done"
  by (simp_all add: with_tools_def)

lemma with_pack_fields [simp]:
  "run_status (with_pack r pack steps) = run_status r"
  "run_answer (with_pack r pack steps) = run_answer r"
  "run_state_trace (with_pack r pack steps) = run_state_trace r"
  "run_llm_calls (with_pack r pack steps) = run_llm_calls r"
  "run_citations (with_pack r pack steps) = ep_citations pack"
  by (simp_all add: with_pack_def)

lemma answer_stage_cases:
  assumes "answer_stage env ctx question model budget pack steps states = Inr r"
  obtains
    (short) why where "evidence_shortfall question pack = Some why"
      "r = (terminal ctx insufficient_evidence [T why]
              (states @ [EVIDENCE_VALIDATED, DOMAIN_EVALUATED, INSUFFICIENT_EVIDENCE_STATE]))
             \<lparr>run_planned_tools := map step_tool steps\<rparr>"
  | (failure) why trust where "evidence_shortfall question pack = None"
      "trust = enforce_trust_gate (ep_domain_trust_states pack) (ep_document_evidence pack \<noteq> [])"
      "r = (terminal ctx failed why (states @ [EVIDENCE_VALIDATED, DOMAIN_EVALUATED, TRUST_EVALUATED, FAILED_STATE]))
             \<lparr>run_trust_state := Some trust\<rparr>"
  | (composed) trust rctx answer response where "evidence_shortfall question pack = None"
      "trust = enforce_trust_gate (ep_domain_trust_states pack) (ep_document_evidence pack \<noteq> [])"
      "1 \<le> max_llm_calls budget"
      "r = (with_pack (citation_stage env ctx model budget pack trust
              (states @ [EVIDENCE_VALIDATED, DOMAIN_EVALUATED, TRUST_EVALUATED, RESPONSE_COMPOSED]) rctx answer response)
              pack steps)\<lparr>run_trust_state := Some trust\<rparr>"
proof (cases "evidence_shortfall question pack")
  case (Some why)
  with assms show thesis by (intro short [of why]) (simp_all add: answer_stage_def Let_def)
next
  case None
  note run = assms [unfolded answer_stage_def Let_def None option.case]
  show thesis
  proof (cases "max_llm_calls budget < 1")
    case True
    with run None show thesis by (intro failure) auto
  next
    case False
    then have calls: "1 \<le> max_llm_calls budget" by simp
    from run False obtain n where n: "estimate_prompt_tokens (env_render env) (env_files env) pack
        (enforce_trust_gate (ep_domain_trust_states pack) (ep_document_evidence pack \<noteq> [])) = Inr n"
      by (auto simp: bindE_eq_Inr)
    note run = run [unfolded n bindE.simps]
    show thesis
      using run False None calls
      by (auto split: option.splits sum.splits prod.splits intro: failure composed)
  qed
qed

lemma run_agent_cases:
  assumes "run_agent env question ctx conn model budget = Inr r"
  obtains
    (stopped) clk ents where "resolve_entities question conn (arc_auth ctx) clk = Inr ents"
      "plan_stage question ctx conn budget ents (arc_auth ctx) = Stop r"
  | (looped) clk ents intn steps states why hist where "resolve_entities question conn (arc_auth ctx) clk = Inr ents"
      "plan_stage question ctx conn budget ents (arc_auth ctx) = Continue (intn, steps, states)"
      "run_steps env budget conn (arc_auth ctx) clk 0 0 steps = (Some why, hist)"
      "r = (with_tools (terminal ctx failed why (states @ [TOOL_EXECUTING, FAILED_STATE])) hist)\<lparr>run_intent := Some intn\<rparr>"
  | (evaluated) clk ents intn steps states hist pack r0 where "resolve_entities question conn (arc_auth ctx) clk = Inr ents"
      "plan_stage question ctx conn budget ents (arc_auth ctx) = Continue (intn, steps, states)"
      "run_steps env budget conn (arc_auth ctx) clk 0 0 steps = (None, hist)"
      "pack = build_evidence_pack question intn ents (map snd hist) (now clk) (account_scope (arc_auth ctx))"
      "answer_stage env ctx question model budget pack steps (states @ [TOOL_EXECUTING]) = Inr r0"
      "r = (with_tools r0 hist)\<lparr>run_intent := Some intn\<rparr>"
proof -
  obtain clk ents where e: "resolve_entities question conn (arc_auth ctx) clk = Inr ents"
    and clk: "fixed_snapshot_clock (arc_snapshot_time ctx) = Inr clk"
    using assms by (auto simp: run_agent_def bindE_eq_Inr)
  note run = assms [unfolded run_agent_def clk bindE.simps e]
  show thesis
  proof (cases "plan_stage question ctx conn budget ents (arc_auth ctx)")
    case (Stop r')
    with run e show thesis by (intro stopped [of clk ents]) simp_all
  next
    case (Continue p)
    obtain intn steps states where p: "p = (intn, steps, states)" by (metis prod_cases3)
    obtain stop hist where s: "run_steps env budget conn (arc_auth ctx) clk 0 0 steps = (stop, hist)" by force
    note run = run [unfolded Continue p stage.case prod.case s Let_def]
    show thesis
    proof (cases stop)
      case (Some why)
      with run e Continue p s show thesis by (intro looped) auto
    next
      case None
      with run e Continue p s show thesis by (auto simp: bindE_eq_Inr intro!: evaluated)
    qed
  qed
qed

section \<open>The stages\<close>

lemma plan_stage_stop:
  assumes "plan_stage question ctx conn budget ents auth = Stop r"
  shows "run_trust_state r = None \<and> run_answer r = None \<and> run_llm_calls r = 0 \<and> run_tool_calls r = 0 \<and> run_tool_trace r = []
    \<and> run_citations r = [] \<and> run_status r \<in> {needs_clarification, insufficient_evidence, failed}"
  using assms by (auto simp: plan_stage_def Let_def split: if_splits option.splits)

lemma plan_stage_continue:
  assumes "plan_stage question ctx conn budget ents auth = Continue (intn, steps, states)"
  shows "steps = build_plan question intn ents \<and> intn = resolve_intent question ents \<and> steps \<noteq> []
    \<and> int (length steps) \<le> max_tool_calls budget \<and> ambiguous_account_names ents = []
    \<and> states = [REQUEST_RECEIVED, AUTH_VALIDATED, ENTITIES_RESOLVED, INTENT_RESOLVED, PLAN_CREATED]"
  using assms by (auto simp: plan_stage_def Let_def split: if_splits option.splits)

definition ran_by_tools :: "agent_env \<Rightarrow> db \<Rightarrow> auth_context \<Rightarrow> clock \<Rightarrow> (plan_step \<times> tool_result) list \<Rightarrow> bool" where
  "ran_by_tools env conn auth clk hist =
     (\<forall>(s, t) \<in> set hist. \<exists>i. t = execute_tool (env_fts env) (env_latency env i) (step_tool s) (step_args s) conn auth clk)"

lemma run_steps_Cons:
  assumes "run_steps env budget conn auth clk i n (s # ss) = (stop, hist)"
  obtains (early) why where "stop = Some why" "hist = []"
  | (unauthorized) why t where "stop = Some why" "hist = [(s, t)]"
      "t = execute_tool (env_fts env) (env_latency env i) (step_tool s) (step_args s) conn auth clk"
  | (goes_on) t rest where "hist = (s, t) # rest"
      "t = execute_tool (env_fts env) (env_latency env i) (step_tool s) (step_args s) conn auth clk"
      "run_steps env budget conn auth clk (i + 1) (n + int (res_attempts t)) ss = (stop, rest)"
  using assms by (auto simp: Let_def split: if_splits prod.splits)

lemma run_steps_ran:
  "run_steps env budget conn auth clk i n steps = (stop, hist) \<Longrightarrow>
     ran_by_tools env conn auth clk hist \<and> map fst hist = take (length hist) steps \<and> length hist \<le> length steps
     \<and> (stop = None \<longrightarrow> length hist = length steps)"
proof (induction steps arbitrary: i n stop hist)
  case (Cons s ss)
  from Cons.prems show ?case
  proof (cases rule: run_steps_Cons)
    case (goes_on t rest)
    from Cons.IH [OF goes_on(3)] goes_on(1,2) show ?thesis by (auto simp: ran_by_tools_def)
  qed (auto simp: ran_by_tools_def)
qed (auto simp: ran_by_tools_def)

lemma citation_stage_facts:
  fixes env ctx model budget pack trust states rctx answer response
  defines "r \<equiv> citation_stage env ctx model budget pack trust states rctx answer response"
  shows "run_llm_calls r \<in> {1, 2} \<and> (run_llm_calls r = 2 \<longrightarrow> 2 \<le> max_llm_calls budget)"
    and "(run_status r = final_status trust \<and> (\<exists>text. run_answer r = Some text \<and> cc_valid (validate_citations text pack))
            \<and> run_state_trace r = states @ [final_state trust])
      \<or> (run_answer r = None \<and> run_status r = failed \<and> run_state_trace r = states @ [FAILED_STATE])
      \<or> (run_answer r = None \<and> run_status r = evidence_validation_failed
            \<and> run_state_trace r = states @ [EVIDENCE_VALIDATION_FAILED_STATE])"
  unfolding r_def citation_stage_def Let_def by (auto split: sum.splits prod.splits)

section \<open>Bounds\<close>

lemma answer_stage_calls:
  assumes "answer_stage env ctx question model budget pack steps states = Inr r"
  shows "run_llm_calls r \<le> 2 \<and> (run_llm_calls r \<noteq> 0 \<longrightarrow> int (run_llm_calls r) \<le> max_llm_calls budget)"
  using assms
proof (cases rule: answer_stage_cases)
  case (composed trust rctx answer response)
  with citation_stage_facts(1) [of env ctx model budget pack trust
      "states @ [EVIDENCE_VALIDATED, DOMAIN_EVALUATED, TRUST_EVALUATED, RESPONSE_COMPOSED]" rctx answer response]
  show ?thesis by auto
qed simp_all

lemma loop_calls:
  assumes "plan_stage question ctx conn budget ents auth = Continue (intn, steps, states)"
    and "run_steps env budget conn auth clk 0 0 steps = (stop, hist)"
  shows "int (length hist) \<le> max_tool_calls budget"
  using plan_stage_continue [OF assms(1)] run_steps_ran [OF assms(2)] by linarith

text \<open>C12. A run is bounded whatever the model, the tools and the clock do: at most two model calls, never
  more than the budget's, and at most as many tool calls as the budget allows; a larger plan is
  refused before its first call.\<close>

theorem agent_run_bounded:
  assumes "run_agent env question ctx conn model budget = Inr r"
  shows "run_llm_calls r \<le> 2 \<and> (run_llm_calls r = 0 \<or> int (run_llm_calls r) \<le> max_llm_calls budget)
    \<and> (run_tool_calls r = 0 \<or> int (run_tool_calls r) \<le> max_tool_calls budget)
    \<and> length (run_tool_trace r) = run_tool_calls r"
  using assms
proof (cases rule: run_agent_cases)
  case (stopped clk ents)
  from plan_stage_stop [OF stopped(2)] show ?thesis by simp
next
  case (looped clk ents intn steps states why hist)
  with loop_calls [OF looped(2,3)] show ?thesis by simp
next
  case (evaluated clk ents intn steps states hist pack r0)
  with loop_calls [OF evaluated(2,3)] answer_stage_calls [OF evaluated(5)] show ?thesis by auto
qed

theorem agent_run_bounded_witness:
  "\<exists>budget r. run_agent sample_env sample_question sample_arc sample_db ''mock-model'' budget = Inr r
     \<and> run_llm_calls r = 1 \<and> int (run_llm_calls r) \<le> max_llm_calls budget \<and> int (run_tool_calls r) \<le> 6"
proof -
  obtain budget r where r: "run_agent sample_env sample_question sample_arc sample_db ''mock-model'' budget = Inr r"
    and n: "run_llm_calls r = 1" "run_tool_calls r = 1" "max_tool_calls budget = 6" by (rule sample_run)
  have "int (run_llm_calls r) \<le> max_llm_calls budget \<and> int (run_tool_calls r) \<le> 6"
    using agent_run_bounded [OF r] n by auto
  with n r show ?thesis by blast
qed

section \<open>The path of states\<close>

inductive agent_step :: "agent_state \<Rightarrow> agent_state \<Rightarrow> bool" where
  received: "agent_step REQUEST_RECEIVED AUTH_VALIDATED"
| authorized: "agent_step AUTH_VALIDATED ENTITIES_RESOLVED"
| ambiguous: "agent_step ENTITIES_RESOLVED NEEDS_CLARIFICATION_STATE"
| resolved: "agent_step ENTITIES_RESOLVED INTENT_RESOLVED"
| unclear: "agent_step INTENT_RESOLVED NEEDS_CLARIFICATION_STATE"
| unsupported: "agent_step INTENT_RESOLVED INSUFFICIENT_EVIDENCE_STATE"
| planned: "agent_step INTENT_RESOLVED PLAN_CREATED"
| no_plan: "agent_step PLAN_CREATED INSUFFICIENT_EVIDENCE_STATE"
| over_budget: "agent_step PLAN_CREATED FAILED_STATE"
| tools: "agent_step PLAN_CREATED TOOL_EXECUTING"
| tool_stop: "agent_step TOOL_EXECUTING FAILED_STATE"
| gathered: "agent_step TOOL_EXECUTING EVIDENCE_VALIDATED"
| evaluated: "agent_step EVIDENCE_VALIDATED DOMAIN_EVALUATED"
| too_little: "agent_step DOMAIN_EVALUATED INSUFFICIENT_EVIDENCE_STATE"
| trusted: "agent_step DOMAIN_EVALUATED TRUST_EVALUATED"
| no_answer: "agent_step TRUST_EVALUATED FAILED_STATE"
| composed: "agent_step TRUST_EVALUATED RESPONSE_COMPOSED"
| no_repair: "agent_step RESPONSE_COMPOSED FAILED_STATE"
| bad_citation: "agent_step RESPONSE_COMPOSED EVIDENCE_VALIDATION_FAILED_STATE"
| answered_surely: "agent_step RESPONSE_COMPOSED COMPLETED_STATE"
| answered_escalated: "agent_step RESPONSE_COMPOSED ESCALATED_STATE"

code_pred (modes: i \<Rightarrow> i \<Rightarrow> bool, i \<Rightarrow> o \<Rightarrow> bool) agent_step .

inductive_simps agent_step_simps [simp]:
  "agent_step REQUEST_RECEIVED s" "agent_step AUTH_VALIDATED s" "agent_step ENTITIES_RESOLVED s"
  "agent_step INTENT_RESOLVED s" "agent_step PLAN_CREATED s" "agent_step TOOL_EXECUTING s"
  "agent_step EVIDENCE_VALIDATED s" "agent_step DOMAIN_EVALUATED s" "agent_step TRUST_EVALUATED s"
  "agent_step RESPONSE_COMPOSED s"

lemma terminal_no_step: "agent_step s t \<Longrightarrow> s \<notin> set TERMINAL_STATES"
  by (induction rule: agent_step.induct) (simp_all add: TERMINAL_STATES_def)

fun status_state :: "agent_status \<Rightarrow> agent_state" where
  "status_state completed = COMPLETED_STATE"
| "status_state needs_clarification = NEEDS_CLARIFICATION_STATE"
| "status_state insufficient_evidence = INSUFFICIENT_EVIDENCE_STATE"
| "status_state escalated = ESCALATED_STATE"
| "status_state failed = FAILED_STATE"
| "status_state evidence_validation_failed = EVIDENCE_VALIDATION_FAILED_STATE"

lemma status_state_final [simp]: "status_state (final_status trust) = final_state trust"
  by (simp add: final_status_def final_state_def)

lemma status_state_terminal [simp]: "status_state st \<in> set TERMINAL_STATES"
  by (cases st) (simp_all add: TERMINAL_STATES_def)

text \<open>A trace that is a path from the first state to the state of the result's status.\<close>

definition is_run_trace :: "run_result \<Rightarrow> bool" where
  "is_run_trace r =
     (successively agent_step (run_state_trace r) \<and> take 1 (run_state_trace r) = [REQUEST_RECEIVED]
      \<and> last (run_state_trace r) = status_state (run_status r))"

lemma successively_butlast:
  "successively P xs \<Longrightarrow> x \<in> set (butlast xs) \<Longrightarrow> \<exists>y. P x y"
  by (induction xs rule: induct_list012) auto

lemma trace_no_terminal: "successively agent_step xs \<Longrightarrow> set (butlast xs) \<inter> set TERMINAL_STATES = {}"
  using successively_butlast [of agent_step xs] terminal_no_step by blast

lemma plan_stage_trace:
  assumes "plan_stage question ctx conn budget ents auth = Stop r"
  shows "is_run_trace r"
  using assms by (auto simp: plan_stage_def Let_def is_run_trace_def split: if_splits option.splits)

lemma final_state_step: "agent_step RESPONSE_COMPOSED (final_state trust)"
  by (simp add: final_state_def)

lemma answer_stage_trace:
  assumes "answer_stage env ctx question model budget pack steps
      [REQUEST_RECEIVED, AUTH_VALIDATED, ENTITIES_RESOLVED, INTENT_RESOLVED, PLAN_CREATED, TOOL_EXECUTING] = Inr r"
  shows "is_run_trace r"
  using assms
proof (cases rule: answer_stage_cases)
  case (composed trust rctx answer response)
  let ?states = "[REQUEST_RECEIVED, AUTH_VALIDATED, ENTITIES_RESOLVED, INTENT_RESOLVED, PLAN_CREATED, TOOL_EXECUTING,
    EVIDENCE_VALIDATED, DOMAIN_EVALUATED, TRUST_EVALUATED, RESPONSE_COMPOSED]"
  let ?cited = "citation_stage env ctx model budget pack trust ?states rctx answer response"
  have "is_run_trace ?cited"
    using citation_stage_facts(2) [of env ctx model budget pack trust ?states rctx answer response] final_state_step [of trust]
    unfolding is_run_trace_def by (elim disjE conjE) (simp_all only: status_state_final, simp_all)
  moreover have "r = (with_pack ?cited pack steps)\<lparr>run_trust_state := Some trust\<rparr>" using composed(4) by simp
  ultimately show ?thesis by (simp add: is_run_trace_def)
qed (simp_all add: is_run_trace_def)

text \<open>The states a run records are a path of the state machine: it starts with the request, every
  step is a transition, no terminal state is passed through, and it ends in the terminal state
  of the result's own status.\<close>

theorem agent_trace_is_path:
  assumes "run_agent env question ctx conn model budget = Inr r"
  shows "successively agent_step (run_state_trace r)
    \<and> take 1 (run_state_trace r) = [REQUEST_RECEIVED]
    \<and> last (run_state_trace r) = status_state (run_status r)
    \<and> set (butlast (run_state_trace r)) \<inter> set TERMINAL_STATES = {}"
proof -
  have "is_run_trace r"
    using assms
  proof (cases rule: run_agent_cases)
    case (stopped clk ents)
    from plan_stage_trace [OF stopped(2)] show ?thesis .
  next
    case (looped clk ents intn steps states why hist)
    with plan_stage_continue [OF looped(2)] show ?thesis by (simp add: is_run_trace_def)
  next
    case (evaluated clk ents intn steps states hist pack r0)
    with plan_stage_continue [OF evaluated(2)] have "is_run_trace r0" by (intro answer_stage_trace) auto
    with evaluated(6) show ?thesis by (simp add: is_run_trace_def)
  qed
  then show ?thesis
    using trace_no_terminal [of "run_state_trace r"] unfolding is_run_trace_def by simp
qed

theorem agent_trace_is_path_witness:
  "\<exists>budget r. run_agent sample_env sample_question sample_arc sample_db ''mock-model'' budget = Inr r
     \<and> successively agent_step (run_state_trace r)"
proof -
  obtain budget r where r: "run_agent sample_env sample_question sample_arc sample_db ''mock-model'' budget = Inr r"
    by (rule sample_run)
  from agent_trace_is_path [OF r] r show ?thesis by blast
qed

section \<open>What an answer rests on\<close>

lemma gate_escalates: "enforce_trust_gate states docs = ESCALATE \<longleftrightarrow> ESCALATE \<in> set states"
proof (cases "states = []")
  case False
  have "Max (set states) = ESCALATE \<longleftrightarrow> ESCALATE \<in> set states"
  proof
    assume "Max (set states) = ESCALATE"
    with False Max_in [of "set states"] show "ESCALATE \<in> set states" by simp
  qed (auto intro: Max_eqI simp: trust_bounds)
  with False show ?thesis by (simp add: gate_Max)
qed (simp add: enforce_trust_gate_def)

text \<open>C8. An answer the agent gives is grounded: its text cites only sources of the evidence pack, the
  pack was built from results of the registered tools run for this caller, the evidence was
  enough, the trust shown is the gate's, and the status says \<open>escalated\<close> exactly when the gate
  does. Without such a pack there is no answer text at all.\<close>

theorem answers_are_grounded:
  assumes "run_agent env question ctx conn model budget = Inr r" "run_answer r = Some text"
  shows "\<exists>clk ents intn hist pack. ran_by_tools env conn (arc_auth ctx) clk hist
    \<and> pack = build_evidence_pack question intn ents (map snd hist) (now clk) (account_scope (arc_auth ctx))
    \<and> cc_valid (validate_citations text pack) \<and> run_citations r = ep_citations pack
    \<and> evidence_shortfall question pack = None
    \<and> run_trust_state r = Some (enforce_trust_gate (ep_domain_trust_states pack) (ep_document_evidence pack \<noteq> []))
    \<and> run_status r = (if ESCALATE \<in> set (ep_domain_trust_states pack) then escalated else completed)"
  using assms(1)
proof (cases rule: run_agent_cases)
  case (stopped clk ents)
  from plan_stage_stop [OF stopped(2)] assms(2) show ?thesis by simp
next
  case (looped clk ents intn steps states why hist)
  with assms(2) show ?thesis by simp
next
  case (evaluated clk ents intn steps states hist pack r0)
  let ?trust = "enforce_trust_gate (ep_domain_trust_states pack) (ep_document_evidence pack \<noteq> [])"
  have tools: "ran_by_tools env conn (arc_auth ctx) clk hist" using run_steps_ran [OF evaluated(3)] by blast
  have ans: "run_answer r0 = Some text" using assms(2) evaluated(6) by simp
  have "cc_valid (validate_citations text pack) \<and> run_citations r0 = ep_citations pack
      \<and> evidence_shortfall question pack = None \<and> run_trust_state r0 = Some ?trust \<and> run_status r0 = final_status ?trust"
    using evaluated(5)
  proof (cases rule: answer_stage_cases)
    case (composed trust rctx answer response)
    with ans citation_stage_facts(2) [of env ctx model budget pack trust
        "(states @ [TOOL_EXECUTING]) @ [EVIDENCE_VALIDATED, DOMAIN_EVALUATED, TRUST_EVALUATED, RESPONSE_COMPOSED]" rctx answer response]
    show ?thesis by auto
  qed (use ans in auto)
  moreover have "run_status r0 = final_status ?trust \<Longrightarrow>
      run_status r0 = (if ESCALATE \<in> set (ep_domain_trust_states pack) then escalated else completed)"
    by (simp add: final_status_def gate_escalates)
  ultimately show ?thesis
    using tools evaluated(4,6)
    by (intro exI [of _ clk] exI [of _ ents] exI [of _ intn] exI [of _ hist] exI [of _ pack]) simp
qed

theorem answers_are_grounded_witness:
  "\<exists>budget r pack. run_agent sample_env sample_question sample_arc sample_db ''mock-model'' budget = Inr r
     \<and> cc_valid (validate_citations sample_answer pack) \<and> run_citations r = ep_citations pack"
proof -
  obtain budget r where r: "run_agent sample_env sample_question sample_arc sample_db ''mock-model'' budget = Inr r"
    and a: "run_answer r = Some sample_answer" by (rule sample_run)
  from answers_are_grounded [OF r a] r show ?thesis by blast
qed

section \<open>Errors\<close>

lemma answer_stage_errors:
  assumes "answer_stage env ctx question model budget pack steps states = Inl e"
  shows "load_prompt (env_files env) SYSTEM_PROMPT_NAME None = Inl e"
  using assms unfolding answer_stage_def Let_def
  by (auto simp: bindE_eq_Inl estimate_prompt_tokens_def split: option.splits if_splits sum.splits)

lemma run_agent_raises_at:
  assumes "run_agent env question ctx conn model budget = Inl e" "fixed_snapshot_clock (arc_snapshot_time ctx) = Inr clk"
  shows "resolve_entities question conn (arc_auth ctx) clk = Inl e
    \<or> load_prompt (env_files env) SYSTEM_PROMPT_NAME None = Inl e"
proof (rule ccontr)
  assume no: "\<not> ?thesis"
  obtain ents where ents: "resolve_entities question conn (arc_auth ctx) clk = Inr ents"
    using assms no by (cases "resolve_entities question conn (arc_auth ctx) clk") (auto simp: run_agent_def)
  note run = assms(1) [unfolded run_agent_def assms(2) bindE.simps ents]
  from run no show False
    by (auto simp: Let_def bindE_eq_Inl dest: answer_stage_errors split: stage.splits prod.splits option.splits)
qed

lemma run_agent_raises:
  assumes "run_agent env question ctx conn model budget = Inl e"
  shows "fixed_snapshot_clock (arc_snapshot_time ctx) = Inl e
    \<or> (\<exists>clk. resolve_entities question conn (arc_auth ctx) clk = Inl e)
    \<or> load_prompt (env_files env) SYSTEM_PROMPT_NAME None = Inl e"
proof (cases "fixed_snapshot_clock (arc_snapshot_time ctx)")
  case (Inl e')
  with assms show ?thesis by (simp add: run_agent_def)
next
  case (Inr clk)
  from run_agent_raises_at [OF assms Inr] show ?thesis by blast
qed

lemma run_agent_raises_sample:
  "\<exists>r. run_agent (sample_env\<lparr>env_provider := p\<rparr>) sample_question sample_arc sample_db ''mock-model'' budget = Inr r"
proof (cases "run_agent (sample_env\<lparr>env_provider := p\<rparr>) sample_question sample_arc sample_db ''mock-model'' budget")
  case (Inl e)
  have auth: "arc_auth sample_arc = admin" by (simp add: sample_arc_def)
  have "env_files (sample_env\<lparr>env_provider := p\<rparr>) = sample_files" by (simp add: sample_env_def)
  then show ?thesis
    using run_agent_raises_at [OF Inl sample_clocked] by (simp add: auth sample_resolved sample_prompt)
qed simp

section \<open>What the model can influence\<close>

text \<open>The part of a result that is decided before, or without, the model.\<close>

definition decided_part :: "run_result \<Rightarrow> trust_state option \<times> intent option \<times> tool_trace_entry list \<times> nat" where
  "decided_part r = (run_trust_state r, run_intent r, run_tool_trace r, run_tool_calls r)"

lemma run_steps_model_free:
  "run_steps (env\<lparr>env_provider := p\<rparr>) budget conn auth clk i n steps = run_steps env budget conn auth clk i n steps"
  by (induction steps arbitrary: i n) (simp_all add: Let_def)

lemma answer_stage_trust:
  assumes "answer_stage env ctx question model budget pack steps states = Inr r"
  shows "run_trust_state r = (if evidence_shortfall question pack = None
    then Some (enforce_trust_gate (ep_domain_trust_states pack) (ep_document_evidence pack \<noteq> [])) else None)"
  using assms by (cases rule: answer_stage_cases) auto



section \<open>What can escape\<close>

text \<open>No exception of a tool, of the model or of a repair escapes a run. What can escape is a
  snapshot time without a zone, a database row entity resolution cannot read, or a missing
  prompt file.\<close>

theorem agent_run_raises_only:
  assumes "run_agent env question ctx conn model budget = Inl e"
  shows "fixed_snapshot_clock (arc_snapshot_time ctx) = Inl e
    \<or> (\<exists>clk. resolve_entities question conn (arc_auth ctx) clk = Inl e)
    \<or> load_prompt (env_files env) SYSTEM_PROMPT_NAME None = Inl e"
  by (rule run_agent_raises [OF assms])

theorem agent_run_raises_only_witness:
  "\<exists>e. run_agent sample_env sample_question (sample_arc\<lparr>arc_snapshot_time := Naive 0\<rparr>) sample_db ''mock-model'' DEFAULT_BUDGET = Inl e
     \<and> fixed_snapshot_clock (Naive 0) = Inl e"
proof -
  let ?ctx = "sample_arc\<lparr>arc_snapshot_time := Naive 0\<rparr>"
  obtain e where e: "run_agent sample_env sample_question ?ctx sample_db ''mock-model'' DEFAULT_BUDGET = Inl e"
    and f: "fixed_snapshot_clock (Naive 0) = Inl e" by (simp add: run_agent_def)
  from agent_run_raises_only [OF e] e f show ?thesis by auto
qed

end
