(* ===== verification/Agent_Confidentiality.thy ===== *)
theory Agent_Confidentiality
  imports Agent_Guarantees
begin

text \<open>
  What a caller can learn from the agent. Two databases that agree on the records in the
  caller's scope and on the shared policy tables (\<open>same_view\<close>) cannot be told apart by any
  question: every step of a run computes the same value on both, up to the prompt the model
  is sent.
\<close>

section \<open>The calculations see only the caller's view\<close>

lemma evaluate_cancellation_view:
  assumes view: "same_view auth c d" "wf_db c" "wf_db d"
    and ord: "get_order c i auth (tz_of clk) = Inr x"
  shows "evaluate_cancellation c i auth clk rules overrides defaults
    = evaluate_cancellation d i auth clk rules overrides defaults"
proof -
  have ord': "get_order d i auth (tz_of clk) = Inr x"
    by (rule order_lookup.view_only [OF view(2,3,1) ord])
  show ?thesis
    unfolding evaluate_cancellation_def ord ord' bindE.simps resolve_view [OF view(1)] same_view_cite [OF view(1)] ..
qed

lemma evaluate_service_credit_view:
  assumes view: "same_view auth c d" "wf_db c" "wf_db d"
    and ord: "get_order c i auth (tz_of clk) = Inr x"
  shows "evaluate_service_credit c i auth clk rules overrides defaults
    = evaluate_service_credit d i auth clk rules overrides defaults"
proof -
  have ord': "get_order d i auth (tz_of clk) = Inr x"
    by (rule order_lookup.view_only [OF view(2,3,1) ord])
  show ?thesis
    unfolding evaluate_service_credit_def ord ord' bindE.simps resolve_view [OF view(1)] same_view_cite [OF view(1)] ..
qed

section \<open>A planned step sees only the caller's view\<close>

definition readable_order :: "db \<Rightarrow> auth_context \<Rightarrow> tz \<Rightarrow> string \<Rightarrow> bool" where
  "readable_order conn auth tz i = inrP (\<lambda>_. True) (get_order conn i auth tz)"

definition readable_ticket :: "db \<Rightarrow> auth_context \<Rightarrow> tz \<Rightarrow> string \<Rightarrow> bool" where
  "readable_ticket conn auth tz i = inrP (\<lambda>_. True) (get_ticket conn i auth tz)"

text \<open>The requests a plan makes: about records its caller can read.\<close>

fun readable_request :: "db \<Rightarrow> auth_context \<Rightarrow> tz \<Rightarrow> tool_request \<Rightarrow> bool" where
  "readable_request conn auth tz (SearchRequest req) = True"
| "readable_request conn auth tz (LookupRequest req) =
     (case lrq_kind req of
        GET_ORDER \<Rightarrow> (case lrq_entity_id req of None \<Rightarrow> True | Some i \<Rightarrow> readable_order conn auth tz i)
      | GET_TICKET \<Rightarrow> (case lrq_entity_id req of None \<Rightarrow> True | Some i \<Rightarrow> readable_ticket conn auth tz i)
      | _ \<Rightarrow> True)"
| "readable_request conn auth tz (CalculationRequest req) =
     (if crq_calculation_type req \<in> {CALC_CANCELLATION, CALC_SERVICE_CREDIT}
      then readable_order conn auth tz (crq_entity_id req) else readable_ticket conn auth tz (crq_entity_id req))"
| "readable_request conn auth tz (DetectRequest req) = (drq_account_scope req = None)"

lemma lookup_records_view:
  assumes view: "same_view auth c d" "wf_db c" "wf_db d"
    and "readable_request c auth tz (LookupRequest req)"
  shows "lookup_records c req auth tz = lookup_records d req auth tz"
proof (cases "lrq_kind req")
  case GET_ACCOUNT
  then show ?thesis by (simp add: lookup_records_def get_account_view [OF view(1)])
next
  case GET_ORDER
  then show ?thesis
    using assms(4) order_lookup.view_only [OF view(2,3,1)]
    by (cases "lrq_entity_id req") (auto simp: lookup_records_def required_entity_def readable_order_def inrP_iff)
next
  case GET_TICKET
  then show ?thesis
    using assms(4) ticket_lookup.view_only [OF view(2,3,1)]
    by (cases "lrq_entity_id req") (auto simp: lookup_records_def required_entity_def readable_ticket_def inrP_iff)
next
  case SEARCH_ORDERS
  then show ?thesis by (simp add: lookup_records_def order_search.view_determines [OF view(1)])
next
  case SEARCH_TICKETS
  then show ?thesis by (simp add: lookup_records_def ticket_search.view_determines [OF view(1)])
qed

lemma calculate_outcome_view:
  assumes view: "same_view auth c d" "wf_db c" "wf_db d"
    and r: "readable_request c auth (tz_of clk) (CalculationRequest \<lparr>crq_calculation_type = ty, crq_entity_id = i\<rparr>)"
  shows "calculate_outcome c ty i auth clk = calculate_outcome d ty i auth clk"
proof (cases ty)
  case CALC_CANCELLATION
  with r obtain x where "get_order c i auth (tz_of clk) = Inr x" by (auto simp: readable_order_def inrP_iff)
  from evaluate_cancellation_view [OF view this] CALC_CANCELLATION show ?thesis by simp
next
  case CALC_SERVICE_CREDIT
  with r obtain x where "get_order c i auth (tz_of clk) = Inr x" by (auto simp: readable_order_def inrP_iff)
  from evaluate_service_credit_view [OF view this] CALC_SERVICE_CREDIT show ?thesis by simp
next
  case CALC_SLA
  with r obtain x where "get_ticket c i auth (tz_of clk) = Inr x" by (auto simp: readable_ticket_def inrP_iff)
  from calculate_sla_view [OF view this] CALC_SLA show ?thesis by simp
next
  case CALC_SEVERITY
  with r obtain x where x: "get_ticket c i auth (tz_of clk) = Inr x" by (auto simp: readable_ticket_def inrP_iff)
  with ticket_lookup.view_only [OF view(2,3,1) x] CALC_SEVERITY show ?thesis
    by (simp add: classify_severity_view [OF view(1)])
qed

lemma dispatch_view:
  assumes view: "same_view auth c d" "wf_db c" "wf_db d" and fts: "fts c = fts d"
    and r: "readable_request c auth (tz_of clk) req"
  shows "dispatch fts req c auth clk = dispatch fts req d auth clk"
proof (cases req)
  case (SearchRequest q)
  have "db_chunks c = db_chunks d" using view(1) by (simp add: same_view_def)
  from search_documents_view [of c d fts, OF this fts] SearchRequest show ?thesis
    by (simp add: search_documents_tool_def)
next
  case (LookupRequest q)
  with lookup_records_view [OF view, of "tz_of clk" q] r show ?thesis by (simp add: lookup_structured_data_tool_def)
next
  case (CalculationRequest q)
  have "q = \<lparr>crq_calculation_type = crq_calculation_type q, crq_entity_id = crq_entity_id q\<rparr>" by simp
  with calculate_outcome_view [OF view, of clk "crq_calculation_type q" "crq_entity_id q"] r CalculationRequest
  show ?thesis by (simp add: calculate_support_outcome_tool_def)
next
  case (DetectRequest q)
  with r have "narrowed_auth auth (drq_account_scope q) = auth" by (simp add: narrowed_auth_def)
  with DetectRequest show ?thesis
    by (simp add: detect_issues_tool_def run_operations_radar_def rule_view [OF view(2,3,1)])
qed

lemma execute_tool_view:
  assumes view: "same_view auth c d" "wf_db c" "wf_db d" and fts: "fts c = fts d"
    and r: "\<And>spec req. dict_get TOOL_REGISTRY name = Some spec \<Longrightarrow> spec_parse spec args = Inr req
      \<Longrightarrow> readable_request c auth (tz_of clk) req"
  shows "execute_tool fts latency name args c auth clk = execute_tool fts latency name args d auth clk"
  using dispatch_view [where fts = fts, OF view fts r]
  by (auto simp: execute_tool_def split: option.splits sum.splits)

lemma planned_step_readable:
  assumes e: "resolve_entities question conn auth clk = Inr ents" and s: "s \<in> set (build_plan question intn ents)"
    and p: "dict_get TOOL_REGISTRY (step_tool s) = Some spec" "spec_parse spec (step_args s) = Inr req"
  shows "readable_request conn auth (tz_of clk) req"
proof -
  have o: "readable_order conn auth (tz_of clk) i" if "i \<in> set (order_ids ents)" for i
    using resolve_entities_visible(1) [OF e that] by (simp add: readable_order_def inrP_iff)
  have t: "readable_ticket conn auth (tz_of clk) i" if "i \<in> set (ticket_ids ents)" for i
    using resolve_entities_visible(2) [OF e that] by (simp add: readable_ticket_def inrP_iff)
  from plan_step_forms [OF s] consider
      i where "i \<in> set (order_ids ents)" "s \<in> {lookup_order_step i, cancellation_step i, credit_step i}"
    | i where "i \<in> set (ticket_ids ents)" "s \<in> {lookup_ticket_step i, sla_step i, severity_step i}"
    | i where "s = lookup_account_step i"
    | q ts where "s = search_step question q ts" "ts \<in> {[], [''support_policy''], [''product_doc'']}"
    by blast
  then show ?thesis
  proof cases
    case (1 i)
    with p o [OF 1(1)] show ?thesis
      by (auto simp: registry_lookups registry_entry_def parsed_lookup_steps parsed_calculation_steps)
  next
    case (2 i)
    with p t [OF 2(1)] show ?thesis
      by (auto simp: registry_lookups registry_entry_def parsed_lookup_steps parsed_calculation_steps)
  next
    case (3 i)
    with p show ?thesis by (auto simp: registry_lookups registry_entry_def parsed_lookup_steps)
  next
    case (4 q ts)
    obtain types where "parse_search_request (step_args (search_step question q ts)) = Inr (SearchRequest
        \<lparr>srq_query = question, srq_source_types = types, srq_authority_classes = None, srq_statuses = None, srq_top_k = 5\<rparr>)"
      by (rule parsed_search_step [OF 4(2)])
    with 4(1) p show ?thesis by (auto simp: registry_lookups registry_entry_def)
  qed
qed

lemma run_steps_view:
  assumes view: "same_view auth c d" "wf_db c" "wf_db d" and fts: "env_fts env c = env_fts env d"
    and r: "\<And>s spec req. s \<in> set steps \<Longrightarrow> dict_get TOOL_REGISTRY (step_tool s) = Some spec \<Longrightarrow>
      spec_parse spec (step_args s) = Inr req \<Longrightarrow> readable_request c auth (tz_of clk) req"
  shows "run_steps env budget c auth clk i n steps = run_steps env budget d auth clk i n steps"
  using r
proof (induction steps arbitrary: i n)
  case (Cons s ss)
  have "execute_tool (env_fts env) (env_latency env i) (step_tool s) (step_args s) c auth clk
      = execute_tool (env_fts env) (env_latency env i) (step_tool s) (step_args s) d auth clk"
    by (rule execute_tool_view [where fts = "env_fts env", OF view fts]) (rule Cons.prems, simp_all)
  moreover have "run_steps env budget c auth clk j m ss = run_steps env budget d auth clk j m ss" for j m
    by (rule Cons.IH) (rule Cons.prems, simp_all)
  ultimately show ?case by (simp only: run_steps.simps)
qed simp

section \<open>The agent leaks nothing\<close>

lemma run_agent_view:
  assumes "wf_db c" "wf_db d" "same_view (arc_auth ctx) c d" "ids_separated shape c" "ids_separated shape d"
    and "\<And>c d. db_chunks c = db_chunks d \<Longrightarrow> env_fts env c = env_fts env d"
  shows "run_agent env question ctx c model budget = run_agent env question ctx d model budget"
proof -
  have ents: "resolve_entities question c (arc_auth ctx) clk = resolve_entities question d (arc_auth ctx) clk" for clk
    by (rule resolve_entities_view [OF assms(1-5)])
  have plan: "plan_stage question ctx c budget e (arc_auth ctx) = plan_stage question ctx d budget e (arc_auth ctx)" for e
    by (simp add: plan_stage_def)
  have fts: "env_fts env c = env_fts env d" 
  proof (rule assms(6))
    show "db_chunks c = db_chunks d" using assms(3) by (simp add: same_view_def)
  qed
  have steps: "run_steps env budget c (arc_auth ctx) clk 0 0 steps = run_steps env budget d (arc_auth ctx) clk 0 0 steps"
    if e: "resolve_entities question d (arc_auth ctx) clk = Inr e"
      and p: "plan_stage question ctx d budget e (arc_auth ctx) = Continue (intn, steps, states)" for clk e intn steps states
  proof (rule run_steps_view [OF assms(3,1,2) fts])
    have "steps = build_plan question intn e" using plan_stage_continue [OF p] by blast
    then show "readable_request c (arc_auth ctx) (tz_of clk) req"
      if "s \<in> set steps" "dict_get TOOL_REGISTRY (step_tool s) = Some spec" "spec_parse spec (step_args s) = Inr req" for s spec req
      using planned_step_readable [of question c "arc_auth ctx" clk e s intn spec req] e ents that by simp
  qed
  show ?thesis
    unfolding run_agent_def ents plan
    by (intro bindE_cong refl) (auto simp: steps split: stage.splits prod.splits)
qed



end
