(* ===== verification/Action_Store.thy ===== *)
theory Action_Store
  imports Database Hashing
begin

text \<open>
  \<open>app/actions/store.py\<close>: the \<open>actions\<close> table, which is the audit trail. A transition is a
  compare-and-swap on the status. \<open>cas_store\<close> is the contract the workflow relies on; it is
  interpreted on the store's own functions.
\<close>

section \<open>Operations\<close>

definition insert_action :: "db \<Rightarrow> action_record \<Rightarrow> error + db" where
  "insert_action conn rec =
     (if action_id rec \<in> action_id ` set (db_actions conn)
      then Inl (IntegrityError ''UNIQUE constraint failed: actions.action_id'')
      else Inr (conn\<lparr>db_actions := db_actions conn @ [rec]\<rparr>))"

definition cas_hit :: "action_record \<Rightarrow> action_status \<Rightarrow> action_record \<Rightarrow> bool" where
  "cas_hit rec expected row = (action_id row = action_id rec \<and> act_status row = expected)"

definition cas_write :: "action_record \<Rightarrow> action_record \<Rightarrow> action_record" where
  "cas_write rec row =
     row\<lparr>act_status := act_status rec, confirmed_at := confirmed_at rec,
         executed_at := executed_at rec, failure_reason := failure_reason rec\<rparr>"

definition save_action_if_status :: "db \<Rightarrow> action_record \<Rightarrow> action_status \<Rightarrow> db \<times> bool" where
  "save_action_if_status conn rec expected =
     (conn\<lparr>db_actions := map (\<lambda>row. if cas_hit rec expected row then cas_write rec row else row) (db_actions conn)\<rparr>,
      length (filter (cas_hit rec expected) (db_actions conn)) = 1)"

definition get_action :: "db \<Rightarrow> string \<Rightarrow> action_record option" where
  "get_action conn i = List.find (\<lambda>row. action_id row = i) (db_actions conn)"

section \<open>The contract\<close>

text \<open>The status the store shows for an id, and the two sides of the transition rule.\<close>

locale cas_store =
  fixes valid :: "'s \<Rightarrow> bool"
    and fetch :: "'s \<Rightarrow> string \<Rightarrow> action_record option"
    and swap :: "'s \<Rightarrow> action_record \<Rightarrow> action_status \<Rightarrow> 's \<times> bool"
  assumes swap_valid: "valid s \<Longrightarrow> valid (fst (swap s r e))"
    and fetch_key: "fetch s i = Some r \<Longrightarrow> action_id r = i"
    and swap_lands: "valid s \<Longrightarrow> snd (swap s r e) \<longleftrightarrow> map_option act_status (fetch s (action_id r)) = Some e"
    and swap_other: "valid s \<Longrightarrow> i \<noteq> action_id r \<Longrightarrow> fetch (fst (swap s r e)) i = fetch s i"
    and swap_loses: "valid s \<Longrightarrow> \<not> snd (swap s r e) \<Longrightarrow> fetch (fst (swap s r e)) i = fetch s i"
    and swap_wins: "valid s \<Longrightarrow> snd (swap s r e) \<Longrightarrow>
      fetch (fst (swap s r e)) (action_id r) = map_option (cas_write r) (fetch s (action_id r))"
begin

abbreviation status_at :: "'s \<Rightarrow> string \<Rightarrow> action_status option" where
  "status_at s i \<equiv> map_option act_status (fetch s i)"

lemma status_after_swap:
  assumes "valid s"
  shows "status_at (fst (swap s r e)) i =
    (if i = action_id r \<and> status_at s i = Some e then Some (act_status r) else status_at s i)"
proof (cases "i = action_id r \<and> status_at s i = Some e")
  case True
  then have "snd (swap s r e)" using swap_lands [OF assms] by blast
  from swap_wins [OF assms this] True show ?thesis by (auto simp: cas_write_def)
next
  case miss: False
  have "fetch (fst (swap s r e)) i = fetch s i"
  proof (cases "i = action_id r")
    case True
    with miss have "\<not> snd (swap s r e)" using swap_lands [OF assms] by blast
    then show ?thesis by (rule swap_loses [OF assms])
  qed (rule swap_other [OF assms])
  then show ?thesis by (simp only: if_not_P [OF miss])
qed

lemma second_swap_loses:
  assumes "valid s" "snd (swap s r e)" "action_id r' = action_id r" "act_status r \<noteq> e"
  shows "\<not> snd (swap (fst (swap s r e)) r' e)"
  using assms status_after_swap [OF assms(1), of r e "action_id r"] swap_lands [OF assms(1), of r e]
    swap_lands [OF swap_valid [OF assms(1)], of r e r' e] by auto

lemma immutable_after_swap:
  assumes "valid s" "fetch s i = Some a" "fetch (fst (swap s r e)) i = Some b"
  shows "b = a \<or> b = cas_write r a"
  using assms swap_other [OF assms(1), of i r e] swap_loses [OF assms(1), of r e i] swap_wins [OF assms(1), of r e]
  by (cases "i = action_id r"; cases "snd (swap s r e)") auto

end

section \<open>The store satisfies it\<close>

definition unique_ids :: "db \<Rightarrow> bool" where
  "unique_ids conn = distinct (map action_id (db_actions conn))"

lemma cas_write_id [simp]: "action_id (cas_write r row) = action_id row" "act_status (cas_write r row) = act_status r"
  by (simp_all add: cas_write_def)

lemma cas_count:
  assumes "distinct (map action_id rows)"
  shows "length (filter (cas_hit r e) rows) = 1 \<longleftrightarrow>
    map_option act_status (List.find (\<lambda>row. action_id row = action_id r) rows) = Some e"
  using assms
proof (induction rows)
  case (Cons row rows)
  show ?case
  proof (cases "action_id row = action_id r")
    case True
    with Cons.prems have "filter (cas_hit r e) rows = []" by (auto simp: filter_empty_conv cas_hit_def image_iff)
    moreover have "cas_hit r e row \<longleftrightarrow> act_status row = e" using True by (simp add: cas_hit_def)
    ultimately show ?thesis using True by simp
  qed (use Cons in \<open>auto simp: cas_hit_def\<close>)
qed simp

lemma find_swapped:
  "List.find (\<lambda>row. action_id row = i) (map (\<lambda>row. if cas_hit r e row then cas_write r row else row) rows) =
    map_option (\<lambda>row. if cas_hit r e row then cas_write r row else row) (List.find (\<lambda>row. action_id row = i) rows)"
  by (subst find_map, rule arg_cong [where f = "map_option _"], rule find_cong_on) simp

interpretation actions: cas_store unique_ids get_action save_action_if_status
proof
  fix s :: db and r :: action_record and e :: action_status and i :: string
  show "action_id a = i" if "get_action s i = Some a" for a
    using that by (auto simp: get_action_def dest: find_key)
  assume u: "unique_ids s"
  have "map action_id (db_actions (fst (save_action_if_status s r e))) = map action_id (db_actions s)"
    by (simp add: save_action_if_status_def)
  with u show "unique_ids (fst (save_action_if_status s r e))"
    by (simp only: unique_ids_def)
  show lands: "snd (save_action_if_status s r e) \<longleftrightarrow> map_option act_status (get_action s (action_id r)) = Some e" for r e
    using u cas_count by (simp add: unique_ids_def save_action_if_status_def get_action_def)
  have get: "get_action (fst (save_action_if_status s r e)) i =
    map_option (\<lambda>row. if cas_hit r e row then cas_write r row else row) (get_action s i)" for i
    by (simp add: get_action_def save_action_if_status_def find_swapped)
  have key: "action_id a = i" if "get_action s i = Some a" for a i
    using that by (auto simp: get_action_def dest: find_key)
  show "get_action (fst (save_action_if_status s r e)) i = get_action s i" if "i \<noteq> action_id r"
    using that key by (cases "get_action s i") (auto simp: get cas_hit_def)
  show "get_action (fst (save_action_if_status s r e)) i = get_action s i" if "\<not> snd (save_action_if_status s r e)"
    using that key [of i] lands [of r e] by (cases "get_action s i") (auto simp: get cas_hit_def)
  show "get_action (fst (save_action_if_status s r e)) (action_id r) = map_option (cas_write r) (get_action s (action_id r))"
    if "snd (save_action_if_status s r e)"
    using that key lands [of r e] by (auto simp: get cas_hit_def)
qed

lemma insert_action_get:
  assumes "insert_action conn rec = Inr conn'"
  shows "get_action conn' (action_id rec) = Some rec"
    and "i \<noteq> action_id rec \<Longrightarrow> get_action conn' i = get_action conn i"
    and "get_action conn (action_id rec) = None"
    and "unique_ids conn \<Longrightarrow> unique_ids conn'"
proof -
  have find_append: "List.find P (xs @ ys) = (case List.find P xs of None \<Rightarrow> List.find P ys | Some x \<Rightarrow> Some x)"
    for P :: "action_record \<Rightarrow> bool" and xs ys by (induction xs) auto
  from assms have new: "action_id rec \<notin> action_id ` set (db_actions conn)"
    and conn': "conn' = conn\<lparr>db_actions := db_actions conn @ [rec]\<rparr>"
    by (auto simp: insert_action_def split: if_splits)
  show none: "get_action conn (action_id rec) = None"
    using new unfolding get_action_def find_None_iff by (metis image_eqI)
  then show "get_action conn' (action_id rec) = Some rec"
    by (simp add: conn' get_action_def find_append)
  show "get_action conn' i = get_action conn i" if "i \<noteq> action_id rec"
    using that by (auto simp: conn' get_action_def find_append split: option.splits)
  show "unique_ids conn'" if "unique_ids conn"
    using that new by (auto simp: conn' unique_ids_def)
qed

text \<open>No transition of the store reaches any table but \<open>actions\<close>.\<close>

lemma store_frame:
  "fst (save_action_if_status conn rec e) = conn\<lparr>db_actions := db_actions (fst (save_action_if_status conn rec e))\<rparr>"
  "insert_action conn rec = Inr conn' \<Longrightarrow> conn' = conn\<lparr>db_actions := db_actions conn'\<rparr>"
  by (auto simp: save_action_if_status_def insert_action_def split: if_splits)

end
