(* ===== verification/Action_Workflow.thy ===== *)
theory Action_Workflow
  imports Action_Store Sla
begin

text \<open>
  \<open>app/actions/workflow.py\<close>: prepare, confirm and execute. \<open>confirm_action\<close> and
  \<open>execute_action\<close> read the record, decide, and then attempt one compare-and-swap; the part
  up to the swap is a definition of its own (\<open>confirm_plan\<close>, \<open>execute_plan\<close>), because that
  is where another call can interleave. The 12 hex digits \<open>uuid.uuid4().hex[:12]\<close> are the
  argument \<open>uuid12\<close>.
\<close>

section \<open>The payload hash\<close>

definition ACTION_EXPIRY_MINUTES :: int where
  "ACTION_EXPIRY_MINUTES = 15"

fun json_scalar_text :: "json_scalar \<Rightarrow> string" where
  "json_scalar_text (JStr s) = json_string s"
| "json_scalar_text (JBool b) = (if b then ''true'' else ''false'')"

definition payload_digest :: "action_type \<Rightarrow> string \<Rightarrow> (string \<times> json_scalar) list \<Rightarrow> string" where
  "payload_digest typ tgt change =
     sha256_hex (json_object
       [(''action_type'', json_string (action_type_value typ)),
        (''target'', json_string tgt),
        (''proposed_change'', json_object (map (\<lambda>(k, v). (k, json_scalar_text v)) change))])"

section \<open>Prepare\<close>

definition failed :: "action_record option \<Rightarrow> string \<Rightarrow> string \<Rightarrow> action_outcome" where
  "failed rec code msg =
     \<lparr>success = False, outcome_record = rec, error_code = Some code, error_message = Some msg\<rparr>"

definition succeeded :: "action_record \<Rightarrow> action_outcome" where
  "succeeded rec = \<lparr>success = True, outcome_record = Some rec, error_code = None, error_message = None\<rparr>"

text \<open>\<open>try: ticket = get_ticket(...)\<close> with its two handlers; any other exception goes on.\<close>

definition read_ticket ::
  "db \<Rightarrow> string \<Rightarrow> auth_context \<Rightarrow> tz \<Rightarrow> action_record option \<Rightarrow> string \<Rightarrow> error + action_outcome + ticket" where
  "read_ticket conn ticket_id auth tz rec unknown_code =
     (case get_ticket conn ticket_id auth tz of
        Inr tkt \<Rightarrow> Inr (Inr tkt)
      | Inl e \<Rightarrow>
          (case e of
             NotAuthorizedError _ \<Rightarrow> Inr (Inl (failed rec ''not_authorized'' (exc_str e)))
           | UnknownEntityError _ _ \<Rightarrow> Inr (Inl (failed rec unknown_code (exc_str e)))
           | _ \<Rightarrow> Inl e))"

definition prepare_escalation ::
  "db \<Rightarrow> string \<Rightarrow> string \<Rightarrow> auth_context \<Rightarrow> clock \<Rightarrow> string \<Rightarrow> string \<Rightarrow> string
    \<Rightarrow> agreement_override list \<Rightarrow> default_registry \<Rightarrow> error + action_outcome \<times> db" where
  "prepare_escalation conn ticket_id why auth clk user request uuid12 overrides defaults =
     bindE (read_ticket conn ticket_id auth (tz_of clk) None ''not_found'') (\<lambda>r. case r of
       Inl out \<Rightarrow> Inr (out, conn)
     | Inr tkt \<Rightarrow>
         if tkt_status tkt \<noteq> OPEN then
           Inr (failed None ''invalid_target_state''
             (''ticket '' @ ticket_id @ '' is '' @ ticket_status_value (tkt_status tkt)
              @ '', not open - nothing to escalate''), conn)
         else
           bindE (calculate_sla conn ticket_id auth clk overrides defaults) (\<lambda>sla_result.
           case result sla_result of
             None \<Rightarrow>
               Inr (failed None ''cannot_determine_eligibility''
                 (''severity for '' @ ticket_id
                  @ '' could not be determined confidently enough to justify escalation''), conn)
           | Some sla \<Rightarrow>
               let sev = sla_severity sla;
                   breached = (sla_breached sla = Some True)
               in
               if sev \<noteq> P1 \<and> \<not> breached then
                 Inr (failed None ''not_escalation_eligible''
                   (ticket_id @ '' is '' @ severity_value sev
                    @ '' and not SLA-breached - does not meet the deterministic escalation bar (P1 or breached)''), conn)
               else
                 let change = [(''new_priority'', JStr ''escalated''),
                               (''previous_status'', JStr (ticket_status_value (tkt_status tkt))),
                               (''severity'', JStr (severity_value sev)),
                               (''sla_breached'', JBool breached)];
                     i = ''ACT-'' @ uuid12;
                     rec = \<lparr>action_id = i, request_id = request, user_id = user,
                            action_type = PREPARE_ESCALATION, target = ticket_id,
                            proposed_change = change, act_reason = why,
                            act_evidence = cite_structured ''tickets'' ticket_id None # evidence sla_result,
                            risk = (if sev = P1 then ''high'' else ''medium''),
                            payload_hash = payload_digest PREPARE_ESCALATION ticket_id change,
                            act_status = PENDING_CONFIRMATION, prepared_at = now clk,
                            expires_at = dt_add (now clk) (timedelta_minutes ACTION_EXPIRY_MINUTES),
                            confirmed_at = None, executed_at = None, idempotency_key = i,
                            failure_reason = None\<rparr>
                 in bindE (insert_action conn rec) (\<lambda>conn'. Inr (succeeded rec, conn'))))"

section \<open>Confirm\<close>

text \<open>Where a call stands after its reads: an answer, or one swap with the answer if it lands.\<close>

datatype plan = Answer action_outcome | Swap action_record action_status action_outcome

definition confirm_plan ::
  "db \<Rightarrow> string \<Rightarrow> string \<Rightarrow> auth_context \<Rightarrow> clock \<Rightarrow> string \<Rightarrow> error + plan" where
  "confirm_plan conn i hash auth clk user =
     (case get_action conn i of
        None \<Rightarrow> Inr (Answer (failed None ''not_found'' (''no action '' @ i)))
      | Some rec \<Rightarrow>
          if act_status rec \<noteq> PENDING_CONFIRMATION then
            Inr (Answer (failed (Some rec) ''wrong_state''
              (''action '' @ i @ '' is '' @ action_status_value (act_status rec)
               @ '', not PENDING_CONFIRMATION - cannot confirm'')))
          else if dt_less (expires_at rec) (now clk) then
            let expired = rec\<lparr>act_status := EXPIRED, failure_reason := Some ''confirmation window expired''\<rparr>
            in Inr (Swap expired PENDING_CONFIRMATION
                 (failed (Some expired) ''expired'' ''action expired before confirmation''))
          else if user_id rec \<noteq> user then
            Inr (Answer (failed (Some rec) ''wrong_user'' ''only the user who prepared this action may confirm it''))
          else if hash \<noteq> payload_hash rec then
            Inr (Answer (failed (Some rec) ''payload_mismatch''
              ''the confirmed payload does not match what was prepared - refusing''))
          else
            bindE (read_ticket conn (target rec) auth (tz_of clk) (Some rec) ''target_invalid'') (\<lambda>r. case r of
              Inl out \<Rightarrow> Inr (Answer out)
            | Inr tkt \<Rightarrow>
                bindE (of_optionE (KeyError (repr_str ''previous_status''))
                         (dict_get (proposed_change rec) ''previous_status'')) (\<lambda>prev.
                if JStr (ticket_status_value (tkt_status tkt)) \<noteq> prev then
                  Inr (Answer (failed (Some rec) ''target_state_changed''
                    (''ticket '' @ target rec @ [CHR 0x27] @ ''s status changed since this action was prepared'')))
                else
                  let confirmed = rec\<lparr>act_status := CONFIRMED, confirmed_at := Some (now clk)\<rparr>
                  in Inr (Swap confirmed PENDING_CONFIRMATION (succeeded confirmed)))))"

definition wrong_state_outcome :: "db \<Rightarrow> string \<Rightarrow> string \<Rightarrow> error + action_outcome" where
  "wrong_state_outcome conn i verb =
     bindE (of_optionE AssertionError (get_action conn i)) (\<lambda>current.
     Inr (failed (Some current) ''wrong_state''
       (''action '' @ i @ '' is '' @ action_status_value (act_status current) @ '' - cannot '' @ verb
        @ '' (a concurrent request already changed its state)'')))"

definition confirm_action ::
  "db \<Rightarrow> string \<Rightarrow> string \<Rightarrow> auth_context \<Rightarrow> clock \<Rightarrow> string \<Rightarrow> error + action_outcome \<times> db" where
  "confirm_action conn i hash auth clk user =
     bindE (confirm_plan conn i hash auth clk user) (\<lambda>p. case p of
       Answer out \<Rightarrow> Inr (out, conn)
     | Swap rec expected out \<Rightarrow>
         (case save_action_if_status conn rec expected of
            (conn', True) \<Rightarrow> Inr (out, conn')
          | (conn', False) \<Rightarrow>
              bindE (wrong_state_outcome conn' i ''confirm'') (\<lambda>out'. Inr (out', conn'))))"

section \<open>Execute\<close>

definition execute_plan :: "db \<Rightarrow> string \<Rightarrow> clock \<Rightarrow> plan" where
  "execute_plan conn i clk =
     (case get_action conn i of
        None \<Rightarrow> Answer (failed None ''not_found'' (''no action '' @ i))
      | Some rec \<Rightarrow>
          if act_status rec = EXECUTED then Answer (succeeded rec)
          else if act_status rec \<noteq> CONFIRMED then
            Answer (failed (Some rec) ''wrong_state''
              (''action '' @ i @ '' is '' @ action_status_value (act_status rec) @ '', not CONFIRMED''))
          else
            let executed = rec\<lparr>act_status := EXECUTED, executed_at := Some (now clk)\<rparr>
            in Swap executed CONFIRMED (succeeded executed))"

definition executed_by_other :: "db \<Rightarrow> string \<Rightarrow> error + action_outcome" where
  "executed_by_other conn i =
     bindE (of_optionE AssertionError (get_action conn i)) (\<lambda>current. Inr (succeeded current))"

definition execute_action :: "db \<Rightarrow> string \<Rightarrow> clock \<Rightarrow> error + action_outcome \<times> db" where
  "execute_action conn i clk =
     (case execute_plan conn i clk of
        Answer out \<Rightarrow> Inr (out, conn)
      | Swap rec expected out \<Rightarrow>
          (case save_action_if_status conn rec expected of
             (conn', True) \<Rightarrow> Inr (out, conn')
           | (conn', False) \<Rightarrow> bindE (executed_by_other conn' i) (\<lambda>out'. Inr (out', conn'))))"

section \<open>The branches\<close>

lemma outcome_simps [simp]:
  "success (failed m code msg) = False" "outcome_record (failed m code msg) = m"
  "error_code (failed m code msg) = Some code"
  "success (succeeded rec) = True" "outcome_record (succeeded rec) = Some rec"
  "failed m code msg \<noteq> succeeded rec" "succeeded rec \<noteq> failed m code msg"
  by (simp_all add: failed_def succeeded_def)

lemma read_ticket_Inr:
  "read_ticket conn k auth tz rec code = Inr (Inr tkt) \<longleftrightarrow> get_ticket conn k auth tz = Inr tkt"
  by (auto simp: read_ticket_def split: sum.splits error.splits)

lemma read_ticket_Inl:
  "read_ticket conn k auth tz rec code = Inr (Inl out) \<Longrightarrow> \<not> success out \<and> outcome_record out = rec"
  by (auto simp: read_ticket_def split: sum.splits error.splits)

text \<open>A plan only ever swaps the record it read, one step along the life cycle.\<close>

fun next_status :: "action_status \<Rightarrow> action_status list" where
  "next_status PENDING_CONFIRMATION = [CONFIRMED, EXPIRED]"
| "next_status CONFIRMED = [EXECUTED]"
| "next_status _ = []"

lemma confirm_plan_Swap:
  assumes "confirm_plan conn i hash auth clk user = Inr (Swap rec expected out)"
  obtains rec0 where "get_action conn i = Some rec0" "expected = PENDING_CONFIRMATION" "act_status rec0 = PENDING_CONFIRMATION"
    "act_status rec = EXPIRED \<and> \<not> success out \<and> dt_less (expires_at rec0) (now clk)
       \<and> rec = rec0\<lparr>act_status := EXPIRED, failure_reason := Some ''confirmation window expired''\<rparr>
     \<or> act_status rec = CONFIRMED \<and> out = succeeded rec \<and> \<not> dt_less (expires_at rec0) (now clk)
       \<and> rec = rec0\<lparr>act_status := CONFIRMED, confirmed_at := Some (now clk)\<rparr>
       \<and> user_id rec0 = user \<and> payload_hash rec0 = hash
       \<and> (\<exists>tkt. get_ticket conn (target rec0) auth (tz_of clk) = Inr tkt
            \<and> dict_get (proposed_change rec0) ''previous_status'' = Some (JStr (ticket_status_value (tkt_status tkt))))"
proof -
  from assms obtain rec0 where r: "get_action conn i = Some rec0"
    by (auto simp: confirm_plan_def split: option.splits)
  note run = assms [unfolded confirm_plan_def r option.case]
  from run have p: "\<not> act_status rec0 \<noteq> PENDING_CONFIRMATION" by (auto split: if_splits)
  note run = run [unfolded if_not_P [OF p]]
  show thesis
  proof (cases "dt_less (expires_at rec0) (now clk)")
    case True
    with run p show thesis by (intro that [OF r]) (auto simp: Let_def)
  next
    case False
    note run = run [unfolded if_not_P [OF False]]
    from run have u: "\<not> user_id rec0 \<noteq> user" "\<not> hash \<noteq> payload_hash rec0" by (auto split: if_splits)
    note run = run [unfolded if_not_P [OF u(1)] if_not_P [OF u(2)]]
    from run obtain r where r': "read_ticket conn (target rec0) auth (tz_of clk) (Some rec0) ''target_invalid'' = Inr r"
      by (auto simp only: bindE_eq_Inr)
    note run = run [unfolded r' bindE.simps]
    from run obtain tkt where tkt: "r = Inr tkt" by (cases r) auto
    note run = run [unfolded tkt sum.case] and t = r' [unfolded tkt]
    from run p False u t [unfolded read_ticket_Inr] show thesis
      by (intro that [OF r]) (auto simp: Let_def bindE_eq_Inr split: if_splits)
  qed
qed

lemma confirm_plan_Answer:
  assumes "confirm_plan conn i hash auth clk user = Inr (Answer out)"
  shows "\<not> success out"
proof (cases "get_action conn i")
  case (Some rec)
  note run = assms [unfolded confirm_plan_def Some option.case]
  show ?thesis
  proof (cases "read_ticket conn (target rec) auth (tz_of clk) (Some rec) ''target_invalid''")
    case (Inl e)
    with run show ?thesis by (auto simp: Let_def split: if_splits)
  next
    case (Inr r)
    show ?thesis
    proof (cases r)
      case (Inl out')
      with Inr read_ticket_Inl have "\<not> success out'" by blast
      with run Inr Inl show ?thesis by (auto simp: Let_def split: if_splits)
    next
      case r: (Inr tkt)
      with run Inr show ?thesis
        by (cases "dict_get (proposed_change rec) ''previous_status''") (auto simp: Let_def split: if_splits)
    qed
  qed
qed (use assms in \<open>auto simp: confirm_plan_def\<close>)

lemma execute_plan_cases:
  obtains (none) "get_action conn i = None" "\<exists>msg. execute_plan conn i clk = Answer (failed None ''not_found'' msg)"
  | (again) rec where "get_action conn i = Some rec" "act_status rec = EXECUTED" "execute_plan conn i clk = Answer (succeeded rec)"
  | (wrong) rec where "get_action conn i = Some rec" "act_status rec \<notin> {CONFIRMED, EXECUTED}"
      "\<exists>msg. execute_plan conn i clk = Answer (failed (Some rec) ''wrong_state'' msg)"
  | (go) rec where "get_action conn i = Some rec" "act_status rec = CONFIRMED"
      "execute_plan conn i clk = Swap (rec\<lparr>act_status := EXECUTED, executed_at := Some (now clk)\<rparr>) CONFIRMED
         (succeeded (rec\<lparr>act_status := EXECUTED, executed_at := Some (now clk)\<rparr>))"
proof (cases "get_action conn i")
  case (Some rec)
  show thesis
  proof (cases "act_status rec = EXECUTED \<or> act_status rec = CONFIRMED")
    case True
    then show thesis
      using Some again go by (auto simp: execute_plan_def Let_def)
  next
    case False
    with Some show thesis by (intro wrong) (auto simp: execute_plan_def)
  qed
next
  case None
  then show thesis by (intro none) (auto simp: execute_plan_def)
qed

section \<open>A call with no other in between\<close>

text \<open>The swap then always lands, so the racing branches are dead and the answer is the row.\<close>

lemma cas_write_self:
  assumes "rec = rec0\<lparr>act_status := act_status rec, confirmed_at := confirmed_at rec,
      executed_at := executed_at rec, failure_reason := failure_reason rec\<rparr>"
  shows "cas_write rec rec0 = rec"
  using assms by (simp add: cas_write_def)

lemma swap_lands_alone:
  assumes "unique_ids conn" "get_action conn i = Some rec0" "act_status rec0 = e" "action_id rec = i"
    and "cas_write rec rec0 = rec"
  obtains conn' where "save_action_if_status conn rec e = (conn', True)" "get_action conn' i = Some rec"
    "conn' = conn\<lparr>db_actions := db_actions conn'\<rparr>" "unique_ids conn'"
proof -
  have lands: "snd (save_action_if_status conn rec e)"
    using assms actions.swap_lands [OF assms(1)] by simp
  have "get_action (fst (save_action_if_status conn rec e)) i = Some rec"
    using actions.swap_wins [OF assms(1) lands] assms by simp
  with lands store_frame(1) [of conn rec e] actions.swap_valid [OF assms(1), of rec e] show thesis
    by (intro that [of "fst (save_action_if_status conn rec e)"]) (auto simp: prod_eq_iff)
qed

lemma confirm_alone:
  assumes "unique_ids conn" "confirm_plan conn i hash auth clk user = Inr (Swap rec expected out)"
  obtains conn' where "confirm_action conn i hash auth clk user = Inr (out, conn')" "get_action conn' i = Some rec"
    "conn' = conn\<lparr>db_actions := db_actions conn'\<rparr>" "unique_ids conn'"
proof -
  from confirm_plan_Swap [OF assms(2)] obtain rec0 where
    r: "get_action conn i = Some rec0" "expected = PENDING_CONFIRMATION" "act_status rec0 = PENDING_CONFIRMATION"
    and "rec = rec0\<lparr>act_status := EXPIRED, failure_reason := Some ''confirmation window expired''\<rparr> \<or>
      rec = rec0\<lparr>act_status := CONFIRMED, confirmed_at := Some (now clk)\<rparr>" by blast
  then have "cas_write rec rec0 = rec" "action_id rec = i"
    using actions.fetch_key [OF r(1)] by (auto simp: cas_write_def)
  from swap_lands_alone [OF assms(1) r(1,3) this(2,1)] obtain conn' where
    "save_action_if_status conn rec PENDING_CONFIRMATION = (conn', True)" "get_action conn' i = Some rec"
    "conn' = conn\<lparr>db_actions := db_actions conn'\<rparr>" "unique_ids conn'" by blast
  with assms(2) r(2) show thesis by (intro that) (simp_all add: confirm_action_def)
qed

lemma confirm_action_success:
  assumes "unique_ids conn" "confirm_action conn i hash auth clk user = Inr (out, conn')" "success out"
  obtains rec0 rec tkt where "get_action conn i = Some rec0" "act_status rec0 = PENDING_CONFIRMATION"
    "\<not> dt_less (expires_at rec0) (now clk)" "user_id rec0 = user" "payload_hash rec0 = hash"
    "get_ticket conn (target rec0) auth (tz_of clk) = Inr tkt"
    "dict_get (proposed_change rec0) ''previous_status'' = Some (JStr (ticket_status_value (tkt_status tkt)))"
    "rec = rec0\<lparr>act_status := CONFIRMED, confirmed_at := Some (now clk)\<rparr>"
    "outcome_record out = Some rec" "get_action conn' i = Some rec" "conn' = conn\<lparr>db_actions := db_actions conn'\<rparr>"
proof -
  from assms(2) obtain p where p: "confirm_plan conn i hash auth clk user = Inr p"
    by (auto simp: confirm_action_def bindE_eq_Inr)
  show thesis
  proof (cases p)
    case (Answer out')
    with assms(2) p confirm_plan_Answer have "\<not> success out" by (auto simp: confirm_action_def)
    with assms(3) show thesis by blast
  next
    case (Swap rec expected out')
    note p = p [unfolded Swap]
    obtain c where c: "confirm_action conn i hash auth clk user = Inr (out', c)" "get_action c i = Some rec"
      "c = conn\<lparr>db_actions := db_actions c\<rparr>"
      by (rule confirm_alone [OF assms(1) p])
    with assms(2) have eq: "out' = out" "c = conn'" by simp_all
    note c = c [unfolded eq] and p = p [unfolded eq]
    obtain rec0 where r: "get_action conn i = Some rec0" "act_status rec0 = PENDING_CONFIRMATION"
      and "act_status rec = CONFIRMED \<and> out = succeeded rec \<and> \<not> dt_less (expires_at rec0) (now clk)
       \<and> rec = rec0\<lparr>act_status := CONFIRMED, confirmed_at := Some (now clk)\<rparr>
       \<and> user_id rec0 = user \<and> payload_hash rec0 = hash
       \<and> (\<exists>tkt. get_ticket conn (target rec0) auth (tz_of clk) = Inr tkt
            \<and> dict_get (proposed_change rec0) ''previous_status'' = Some (JStr (ticket_status_value (tkt_status tkt))))"
      by (rule confirm_plan_Swap [OF p]) (use assms(3) in blast)
    then obtain tkt where "out = succeeded rec" "\<not> dt_less (expires_at rec0) (now clk)"
       "rec = rec0\<lparr>act_status := CONFIRMED, confirmed_at := Some (now clk)\<rparr>"
       "user_id rec0 = user" "payload_hash rec0 = hash"
       "get_ticket conn (target rec0) auth (tz_of clk) = Inr tkt"
       "dict_get (proposed_change rec0) ''previous_status'' = Some (JStr (ticket_status_value (tkt_status tkt)))"
      by blast
    with r c show thesis by (intro that [of rec0 tkt rec]) simp_all
  qed
qed

section \<open>What the workflow guarantees\<close>

text \<open>C1. A confirmation succeeds only when every guard holds at once: the record is pending and
  not past its expiry, the caller is the user who prepared it, the hash is the prepared one,
  the caller's current scope still reads the target ticket, and the ticket's status is the one
  recorded at preparation. The stored row is then the returned record, and nothing outside the
  actions table changed.\<close>

theorem confirm_requires_every_guard:
  assumes "unique_ids conn" "confirm_action conn i hash auth clk user = Inr (out, conn')" "success out"
  shows "\<exists>rec tkt. get_action conn i = Some rec \<and> act_status rec = PENDING_CONFIRMATION
    \<and> instant (now clk) \<le> instant (expires_at rec) \<and> user_id rec = user \<and> payload_hash rec = hash
    \<and> get_ticket conn (target rec) auth (tz_of clk) = Inr tkt
    \<and> allows_account auth (tkt_account_id tkt)
    \<and> dict_get (proposed_change rec) ''previous_status'' = Some (JStr (ticket_status_value (tkt_status tkt)))
    \<and> get_action conn' i = Some (rec\<lparr>act_status := CONFIRMED, confirmed_at := Some (now clk)\<rparr>)
    \<and> outcome_record out = get_action conn' i
    \<and> conn' = conn\<lparr>db_actions := db_actions conn'\<rparr>"
proof -
  obtain rec0 rec tkt where r: "get_action conn i = Some rec0" "act_status rec0 = PENDING_CONFIRMATION"
    "\<not> dt_less (expires_at rec0) (now clk)" "user_id rec0 = user" "payload_hash rec0 = hash"
    "get_ticket conn (target rec0) auth (tz_of clk) = Inr tkt"
    "dict_get (proposed_change rec0) ''previous_status'' = Some (JStr (ticket_status_value (tkt_status tkt)))"
    "rec = rec0\<lparr>act_status := CONFIRMED, confirmed_at := Some (now clk)\<rparr>"
    "outcome_record out = Some rec" "get_action conn' i = Some rec" "conn' = conn\<lparr>db_actions := db_actions conn'\<rparr>"
    by (rule confirm_action_success [OF assms])
  moreover from ticket_lookup.in_scope [OF r(6)] have "allows_account auth (tkt_account_id tkt)" .
  moreover from r(3) have "instant (now clk) \<le> instant (expires_at rec0)" by (simp add: dt_less_def)
  ultimately show ?thesis by (metis (no_types))
qed

theorem confirm_requires_every_guard_witness:
  "\<exists>out conn'. confirm_action (sample_db_action PENDING_CONFIRMATION) ''ACT-1'' ''h1'' admin sample_clock ''u1'' = Inr (out, conn')
     \<and> success out \<and> outcome_record out = get_action conn' ''ACT-1''"
proof -
  have u: "unique_ids (sample_db_action PENDING_CONFIRMATION)" by code_simp
  have "inrP (success \<circ> fst) (confirm_action (sample_db_action PENDING_CONFIRMATION) ''ACT-1'' ''h1'' admin sample_clock ''u1'')"
    by code_simp
  then obtain p where "confirm_action (sample_db_action PENDING_CONFIRMATION) ''ACT-1'' ''h1'' admin sample_clock ''u1'' = Inr p"
    "(success \<circ> fst) p" by (rule inrP_E)
  then obtain out conn' where
    c: "confirm_action (sample_db_action PENDING_CONFIRMATION) ''ACT-1'' ''h1'' admin sample_clock ''u1'' = Inr (out, conn')"
    and ok: "success out" by (cases p) auto
  from confirm_requires_every_guard [OF u c ok] c ok show ?thesis by blast
qed

text \<open>Executing is idempotent: a successful execution leaves the record EXECUTED, and running it
  again, at whatever later time, returns the same record and changes nothing.\<close>

theorem execute_idempotent:
  assumes "unique_ids conn" "execute_action conn i clk = Inr (out, conn')" "success out"
  shows "\<exists>rec. get_action conn' i = Some rec \<and> act_status rec = EXECUTED \<and> outcome_record out = Some rec
    \<and> execute_action conn' i clk' = Inr (succeeded rec, conn')"
proof -
  have stored: "execute_action conn' i clk' = Inr (succeeded rec, conn')"
    if "get_action conn' i = Some rec" "act_status rec = EXECUTED" for rec
    using that by (simp add: execute_action_def execute_plan_def)
  show ?thesis
  proof (rule execute_plan_cases [of conn i clk])
    fix rec assume "get_action conn i = Some rec" "act_status rec = EXECUTED" "execute_plan conn i clk = Answer (succeeded rec)"
    with assms stored show ?thesis by (auto simp: execute_action_def)
  next
    fix rec :: action_record
    let ?rec' = "rec\<lparr>act_status := EXECUTED, executed_at := Some (now clk)\<rparr>"
    assume r: "get_action conn i = Some rec" "act_status rec = CONFIRMED"
      "execute_plan conn i clk = Swap ?rec' CONFIRMED (succeeded ?rec')"
    have "cas_write ?rec' rec = ?rec'" "action_id ?rec' = i"
      using actions.fetch_key [OF r(1)] by (simp_all add: cas_write_def)
    from swap_lands_alone [OF assms(1) r(1,2) this(2,1)] obtain c where
      "save_action_if_status conn ?rec' CONFIRMED = (c, True)" "get_action c i = Some ?rec'" by blast
    with assms r(3) stored show ?thesis by (auto simp: execute_action_def)
  qed (use assms in \<open>auto simp: execute_action_def\<close>)
qed

lemma sample_execute:
  obtains out conn' where "execute_action (sample_db_action CONFIRMED) ''ACT-1'' sample_clock = Inr (out, conn')" "success out"
proof -
  have "inrP (success \<circ> fst) (execute_action (sample_db_action CONFIRMED) ''ACT-1'' sample_clock)" by code_simp
  with that show thesis by (auto simp: inrP_iff)
qed

theorem execute_idempotent_witness:
  "\<exists>out conn' rec. execute_action (sample_db_action CONFIRMED) ''ACT-1'' sample_clock = Inr (out, conn')
     \<and> execute_action conn' ''ACT-1'' sample_clock = Inr (succeeded rec, conn')"
proof -
  have u: "unique_ids (sample_db_action CONFIRMED)" by code_simp
  obtain out conn' where e: "execute_action (sample_db_action CONFIRMED) ''ACT-1'' sample_clock = Inr (out, conn')" "success out"
    by (rule sample_execute)
  from execute_idempotent [OF u e] e show ?thesis by blast
qed

text \<open>An execution succeeds only from CONFIRMED or, as a no-op, from EXECUTED.\<close>

theorem execute_only_confirmed:
  assumes "execute_action conn i clk = Inr (out, conn')" "success out"
  shows "\<exists>rec. get_action conn i = Some rec \<and> act_status rec \<in> {CONFIRMED, EXECUTED}
    \<and> (act_status rec = EXECUTED \<longrightarrow> conn' = conn)"
  using assms
  by (cases rule: execute_plan_cases [of conn i clk]) (auto simp: execute_action_def split: prod.splits)

theorem execute_only_confirmed_witness:
  "\<exists>rec. get_action (sample_db_action CONFIRMED) ''ACT-1'' = Some rec \<and> act_status rec \<in> {CONFIRMED, EXECUTED}"
proof -
  obtain out conn' where e: "execute_action (sample_db_action CONFIRMED) ''ACT-1'' sample_clock = Inr (out, conn')" "success out"
    by (rule sample_execute)
  from execute_only_confirmed [OF e] show ?thesis by blast
qed

lemma prepare_outcome:
  assumes "prepare_escalation conn k why auth clk user request uuid12 overrides defaults = Inr (out, conn')"
  shows "if success out then
    (\<exists>rec tkt d sla. outcome_record out = Some rec \<and> conn' = conn\<lparr>db_actions := db_actions conn @ [rec]\<rparr>
      \<and> action_id rec = ''ACT-'' @ uuid12
      \<and> dict_get (proposed_change rec) ''previous_status'' = Some (JStr (ticket_status_value (tkt_status tkt)))
      \<and> action_id rec \<notin> action_id ` set (db_actions conn)
      \<and> act_status rec = PENDING_CONFIRMATION \<and> user_id rec = user \<and> target rec = k
      \<and> prepared_at rec = now clk \<and> confirmed_at rec = None \<and> executed_at rec = None
      \<and> distinct (map fst (proposed_change rec))
      \<and> expires_at rec = dt_add (now clk) (timedelta_minutes 15)
      \<and> payload_hash rec = payload_digest (action_type rec) k (proposed_change rec)
      \<and> get_ticket conn k auth (tz_of clk) = Inr tkt \<and> tkt_status tkt = OPEN
      \<and> allows_account auth (tkt_account_id tkt)
      \<and> calculate_sla conn k auth clk overrides defaults = Inr d \<and> result d = Some sla
      \<and> (sla_severity sla = P1 \<or> sla_breached sla = Some True))
    else conn' = conn"
proof -
  from assms obtain r where r: "read_ticket conn k auth (tz_of clk) None ''not_found'' = Inr r"
    by (auto simp only: prepare_escalation_def bindE_eq_Inr)
  note run = assms [unfolded prepare_escalation_def r bindE.simps]
  show ?thesis
  proof (cases r)
    case (Inl out')
    with run read_ticket_Inl [of conn k auth "tz_of clk" None "''not_found''" out'] r show ?thesis by auto
  next
    case (Inr tkt)
    note run = run [unfolded Inr sum.case]
    from r Inr have tkt: "get_ticket conn k auth (tz_of clk) = Inr tkt" by (simp add: read_ticket_Inr)
    show ?thesis
    proof (cases "tkt_status tkt = OPEN")
      case False
      with run show ?thesis by auto
    next
      case True
      then have "\<not> tkt_status tkt \<noteq> OPEN" by simp
      note run = run [unfolded if_not_P [OF this]]
      then obtain d where d: "calculate_sla conn k auth clk overrides defaults = Inr d"
        by (auto simp only: bindE_eq_Inr)
      note run = run [unfolded d bindE.simps]
      show ?thesis
      proof (cases "result d")
        case None
        with run show ?thesis by auto
      next
        case (Some sla)
        note run = run [unfolded Some option.case Let_def]
        show ?thesis
        proof (cases "sla_severity sla \<noteq> P1 \<and> \<not> sla_breached sla = Some True")
          case True
          with run show ?thesis by auto
        next
          case eligible: False
          note run = run [unfolded if_not_P [OF eligible]]
          from run [unfolded bindE_eq_Inr] ticket_lookup.in_scope [OF tkt] d Some tkt True eligible
          show ?thesis
            by (auto simp: insert_action_def ACTION_EXPIRY_MINUTES_def split: if_splits)
        qed
      qed
    qed
  qed
qed

lemma sample_prepared:
  obtains out conn' where "prepare_escalation sample_db ''TCK-1'' ''outage'' admin sample_clock user rq uuid12
     AGREEMENT_OVERRIDES DEFAULT_SOURCE = Inr (out, conn')" "success out"
proof -
  let ?run = "prepare_escalation sample_db ''TCK-1'' ''outage'' admin sample_clock user rq uuid12
     AGREEMENT_OVERRIDES DEFAULT_SOURCE"
  obtain tkt d sla where s: "get_ticket sample_db ''TCK-1'' admin (tz_of sample_clock) = Inr tkt" "tkt_status tkt = OPEN"
    "calculate_sla sample_db ''TCK-1'' admin sample_clock AGREEMENT_OVERRIDES DEFAULT_SOURCE = Inr d"
    "result d = Some sla" "sla_severity sla = P1" by (rule sample_tck1)
  have r: "read_ticket sample_db ''TCK-1'' admin (tz_of sample_clock) None ''not_found'' = Inr (Inr tkt)"
    using s(1) by (simp add: read_ticket_Inr)
  have "db_actions sample_db = []" by (simp add: sample_db_def)
  then obtain out conn' where "?run = Inr (out, conn')" "success out"
    unfolding prepare_escalation_def r bindE.simps sum.case s(3) s(4) option.case
    by (simp add: s insert_action_def Let_def)
  then show thesis by (rule that)
qed

end
