(* ===== verification/Http_Api.thy ===== *)
theory Http_Api
  imports Agent_Confidentiality Action_Workflow
begin

text \<open>
  The HTTP layer, \<open>app/api/\<close>: demo identities (\<open>demo_users.py\<close>), the dependencies of the
  routes (\<open>deps.py\<close>), the mapping of exceptions to status codes (\<open>error_handlers.py\<close>), the
  request bodies (\<open>schemas.py\<close>) and the routes (\<open>routes/\<close>). \<open>serve\<close> is one request against
  the server's state: the database file with the recorded snapshot time. FastAPI resolves the
  dependencies of a route first, then validates the body, then calls the handler; a body it
  refuses is answered 422 with a report of its own, which the model leaves out. The request
  ids of the middleware and the hex digits of an action id are drawn per request and are part
  of the request here. Logging and response headers have no counterpart.
\<close>

section \<open>Identities\<close>

record demo_user =
  du_id :: string
  du_display_name :: string
  du_role :: role
  du_account_scope :: "string list option"

definition to_auth_context :: "demo_user \<Rightarrow> auth_context" where
  "to_auth_context user = \<lparr>role = du_role user, account_scope = du_account_scope user\<rparr>"

type_synonym demo_users = "(string \<times> demo_user) list"

definition DEFAULT_DEMO_USERS :: demo_users where
  "DEFAULT_DEMO_USERS =
     [(''ops_admin'',
       \<lparr>du_id = ''ops_admin'', du_display_name = ''Priya Sharma - Operations Admin (all accounts)'',
        du_role = OPERATIONS_ADMIN, du_account_scope = None\<rparr>),
      (''support_agent'',
       \<lparr>du_id = ''support_agent'', du_display_name = ''Rahul Verma - Support Agent (Northstar Logistics, ACCT-001)'',
        du_role = SUPPORT_AGENT, du_account_scope = Some [''ACCT-001'']\<rparr>),
      (''restricted_support'',
       \<lparr>du_id = ''restricted_support'', du_display_name = ''Anita Desai - Restricted Support (LumenWorks, ACCT-002)'',
        du_role = RESTRICTED_SUPPORT, du_account_scope = Some [''ACCT-002'']\<rparr>)]"

section \<open>Errors on the wire\<close>

record http_error =
  http_status :: int
  http_detail :: "string option"

definition http_exception :: "int \<Rightarrow> string \<Rightarrow> http_error" where
  "http_exception status detail = \<lparr>http_status = status, http_detail = Some detail\<rparr>"

text \<open>The registered handlers; the most specific class of the exception decides.\<close>

fun error_response :: "error \<Rightarrow> http_error" where
  "error_response (NotAuthorizedError why) = http_exception 403 (exc_str (NotAuthorizedError why))"
| "error_response (UnknownEntityError ty i) = http_exception 404 (exc_str (UnknownEntityError ty i))"
| "error_response e =
     (if is_parcelpilot_error e then http_exception 400 (exc_str e)
      else http_exception 500 ''an internal error occurred; it has been logged'')"

definition handled :: "error + 'a \<Rightarrow> http_error + 'a" where
  "handled m = (case m of Inl e \<Rightarrow> Inl (error_response e) | Inr x \<Rightarrow> Inr x)"

definition unprocessable :: http_error where
  "unprocessable = \<lparr>http_status = 422, http_detail = None\<rparr>"

section \<open>The server and its dependencies\<close>

record server =
  srv_db :: "db option"                        \<comment> \<open>the file at the configured path, if it exists\<close>
  srv_snapshot_time :: "parsed_time option"    \<comment> \<open>the \<open>snapshot_time\<close> row of \<open>meta\<close>\<close>

record api_env =
  api_agent :: agent_env
  api_users :: demo_users
  api_overrides :: "agreement_override list"
  api_defaults :: default_registry
  api_key :: "string option"                   \<comment> \<open>\<open>ANTHROPIC_API_KEY\<close>\<close>
  api_model :: "string option"                 \<comment> \<open>\<open>PARCELPILOT_MODEL\<close>\<close>
  api_create :: "nat \<Rightarrow> nat \<Rightarrow> exn + sdk_message"  \<comment> \<open>the SDK, per model call and attempt\<close>

definition get_current_user :: "demo_users \<Rightarrow> string option \<Rightarrow> http_error + demo_user" where
  "get_current_user users header =
     (let name = (case header of None \<Rightarrow> ''ops_admin'' | Some h \<Rightarrow> h)
      in of_optionE (http_exception 400 (''unknown demo identity: '' @ repr_str name)) (dict_get users name))"

definition get_conn :: "server \<Rightarrow> http_error + db" where
  "get_conn srv =
     of_optionE (http_exception 503 ''database not available - run scripts/ingest_sources.py first'') (srv_db srv)"

definition get_clock :: "server \<Rightarrow> http_error + clock" where
  "get_clock srv =
     bindE (of_optionE (http_exception 503 ''dataset snapshot time not found'') (srv_snapshot_time srv)) (\<lambda>t.
     handled (fixed_snapshot_clock t))"

definition DEFAULT_MODEL :: string where
  "DEFAULT_MODEL = ''claude-sonnet-4-5''"

definition get_provider :: "api_env \<Rightarrow> nat \<Rightarrow> error + provider \<times> string" where
  "get_provider env call =
     (let live = (api_key env \<noteq> None \<and> api_key env \<noteq> Some []);
          model = (case api_model env of None \<Rightarrow> DEFAULT_MODEL | Some m \<Rightarrow> m)
      in build_default_provider (api_create env call) (api_key env) live model)"

section \<open>Requests\<close>

datatype endpoint =
    PrepareEndpoint string string                                 \<comment> \<open>\<open>ticket_id\<close>, \<open>reason\<close>\<close>
  | ConfirmEndpoint string string                                 \<comment> \<open>\<open>action_id\<close>, \<open>payload_hash\<close>\<close>
  | ExecuteEndpoint string
  | GetActionEndpoint string
  | RunRadarEndpoint "alert_type list option" int bool
  | GetAlertEndpoint string
  | ChatEndpoint string
  | DemoUsersEndpoint
  | HealthEndpoint
  | ReadyEndpoint

record http_request =
  hq_demo_user :: "string option"
  hq_context :: request_context
  hq_uuid12 :: string
  hq_endpoint :: endpoint

datatype response =
    ActionResponse action_outcome demo_user
  | RadarResponse "alert_candidate list" "(string \<times> string list) list option" demo_user datetime
  | AlertResponse alert_candidate
  | ChatResponse run_result demo_user datetime
  | DemoUsersResponse "demo_user list"
  | HealthResponse
  | ReadyResponse bool bool "parsed_time option"  \<comment> \<open>file present, snapshot present, snapshot\<close>

definition length_between :: "nat \<Rightarrow> nat \<Rightarrow> string \<Rightarrow> bool" where
  "length_between lo hi s = (lo \<le> length s \<and> length s \<le> hi)"

fun valid_body :: "endpoint \<Rightarrow> bool" where
  "valid_body (PrepareEndpoint ticket_id why) = (length_between 1 64 ticket_id \<and> length_between 1 500 why)"
| "valid_body (ConfirmEndpoint i hash) = (length_between 1 64 i \<and> length_between 1 128 hash)"
| "valid_body (ExecuteEndpoint i) = length_between 1 64 i"
| "valid_body (RunRadarEndpoint types days grouped) = (1 \<le> days \<and> days \<le> 365)"
| "valid_body (ChatEndpoint question) = length_between 1 2000 question"
| "valid_body _ = True"

section \<open>Routes\<close>

definition require_owner_or_admin :: "db \<Rightarrow> string \<Rightarrow> demo_user \<Rightarrow> http_error + unit" where
  "require_owner_or_admin conn i user =
     bindE (of_optionE (http_exception 404 (''no action '' @ i)) (get_action conn i)) (\<lambda>rec.
     if du_role user \<noteq> OPERATIONS_ADMIN \<and> user_id rec \<noteq> du_id user
     then Inl (http_exception 403 ''not authorized to access this action'') else Inr ())"

definition get_owned_action_or_404 :: "db \<Rightarrow> string \<Rightarrow> demo_user \<Rightarrow> http_error + action_outcome" where
  "get_owned_action_or_404 conn i user =
     (case get_action conn i of
        None \<Rightarrow> Inl (http_exception 404 (''no action '' @ i))
      | Some rec \<Rightarrow>
          if du_role user \<noteq> OPERATIONS_ADMIN \<and> user_id rec \<noteq> du_id user
          then Inl (http_exception 404 (''no action '' @ i)) else Inr (succeeded rec))"

definition prepare_route ::
  "api_env \<Rightarrow> http_request \<Rightarrow> demo_user \<Rightarrow> db \<Rightarrow> clock \<Rightarrow> string \<Rightarrow> string \<Rightarrow> http_error + action_outcome \<times> db" where
  "prepare_route env hq user conn clk ticket_id why =
     handled (prepare_escalation conn ticket_id why (to_auth_context user) clk (du_id user)
       (rc_request_id (hq_context hq)) (hq_uuid12 hq) (api_overrides env) (api_defaults env))"

definition confirm_route :: "demo_user \<Rightarrow> db \<Rightarrow> clock \<Rightarrow> string \<Rightarrow> string \<Rightarrow> http_error + action_outcome \<times> db" where
  "confirm_route user conn clk i hash =
     handled (confirm_action conn i hash (to_auth_context user) clk (du_id user))"

definition execute_route :: "demo_user \<Rightarrow> db \<Rightarrow> clock \<Rightarrow> string \<Rightarrow> http_error + action_outcome \<times> db" where
  "execute_route user conn clk i =
     bindE (require_owner_or_admin conn i user) (\<lambda>_. handled (execute_action conn i clk))"

definition radar_alerts ::
  "api_env \<Rightarrow> demo_user \<Rightarrow> db \<Rightarrow> clock \<Rightarrow> alert_type list option \<Rightarrow> int \<Rightarrow> http_error + alert_candidate list" where
  "radar_alerts env user conn clk types days =
     handled (run_operations_radar conn (to_auth_context user) clk types days (api_overrides env) (api_defaults env))"

definition run_radar_route ::
  "api_env \<Rightarrow> demo_user \<Rightarrow> db \<Rightarrow> clock \<Rightarrow> alert_type list option \<Rightarrow> int \<Rightarrow> bool \<Rightarrow> http_error + response" where
  "run_radar_route env user conn clk types days grouped =
     bindE (radar_alerts env user conn clk types days) (\<lambda>alerts.
     Inr (RadarResponse alerts (if grouped then Some (group_by_account alerts) else None) user (now clk)))"

definition get_alert_route :: "api_env \<Rightarrow> demo_user \<Rightarrow> db \<Rightarrow> clock \<Rightarrow> string \<Rightarrow> http_error + response" where
  "get_alert_route env user conn clk alert_id =
     bindE (radar_alerts env user conn clk None DEFAULT_WINDOW_DAYS) (\<lambda>alerts.
     bindE (of_optionE (http_exception 404 (''alert '' @ alert_id @ '' not found or not authorized''))
              (List.find (\<lambda>a. al_id a = alert_id) alerts)) (\<lambda>a. Inr (AlertResponse a)))"

text \<open>The provider of a run is built once; its n-th call behaves as \<open>get_provider\<close> gives it for n.\<close>

definition chat_provider :: "api_env \<Rightarrow> nat \<Rightarrow> provider" where
  "chat_provider env call =
     (case get_provider env call of Inl e \<Rightarrow> (\<lambda>ctx request. Inl (exn_of e)) | Inr (prov, model) \<Rightarrow> prov)"

definition chat_context :: "http_request \<Rightarrow> demo_user \<Rightarrow> clock \<Rightarrow> agent_request_context" where
  "chat_context hq user clk =
     \<lparr>arc_request_id = rc_request_id (hq_context hq), arc_trace_id = rc_trace_id (hq_context hq),
      arc_user_id = du_id user, arc_auth = to_auth_context user,
      arc_snapshot_time = Zoned (wall (now clk)) (utcoffset (now clk))\<rparr>"

definition chat_route :: "api_env \<Rightarrow> http_request \<Rightarrow> demo_user \<Rightarrow> db \<Rightarrow> clock \<Rightarrow> string \<Rightarrow> http_error + response" where
  "chat_route env hq user conn clk question =
     bindE (handled (get_provider env 0)) (\<lambda>(prov, model).
     bindE (handled (run_agent ((api_agent env)\<lparr>env_provider := chat_provider env\<rparr>) question
              (chat_context hq user clk) conn model DEFAULT_BUDGET)) (\<lambda>r.
     Inr (ChatResponse r user (now clk))))"

section \<open>One request\<close>

text \<open>A workflow call commits what it wrote; an exception leaves the file as it was.\<close>

fun committed :: "server \<Rightarrow> demo_user \<Rightarrow> http_error + action_outcome \<times> db \<Rightarrow> server \<times> (http_error + response)" where
  "committed srv user (Inl e) = (srv, Inl e)"
| "committed srv user (Inr (out, conn')) = (srv\<lparr>srv_db := Some conn'\<rparr>, Inr (ActionResponse out user))"

definition with_dependencies ::
  "api_env \<Rightarrow> server \<Rightarrow> http_request \<Rightarrow> http_error + demo_user \<times> db \<times> clock" where
  "with_dependencies env srv hq =
     bindE (get_current_user (api_users env) (hq_demo_user hq)) (\<lambda>user.
     bindE (get_conn srv) (\<lambda>conn.
     bindE (get_clock srv) (\<lambda>clk. Inr (user, conn, clk))))"

definition get_action_route :: "api_env \<Rightarrow> server \<Rightarrow> http_request \<Rightarrow> string \<Rightarrow> http_error + response" where
  "get_action_route env srv hq i =
     bindE (get_current_user (api_users env) (hq_demo_user hq)) (\<lambda>user.
     bindE (get_conn srv) (\<lambda>conn.
     bindE (get_owned_action_or_404 conn i user) (\<lambda>out. Inr (ActionResponse out user))))"

definition ready :: "server \<Rightarrow> response" where
  "ready srv =
     (case srv_db srv of
        None \<Rightarrow> ReadyResponse False False None
      | Some conn \<Rightarrow> ReadyResponse True (srv_snapshot_time srv \<noteq> None) (srv_snapshot_time srv))"

text \<open>The routes behind an identity, the database and the clock.\<close>

definition guarded ::
  "api_env \<Rightarrow> server \<Rightarrow> http_request \<Rightarrow> (demo_user \<Rightarrow> db \<Rightarrow> clock \<Rightarrow> server \<times> (http_error + response))
    \<Rightarrow> server \<times> (http_error + response)" where
  "guarded env srv hq route =
     (case with_dependencies env srv hq of
        Inl e \<Rightarrow> (srv, Inl e)
      | Inr (user, conn, clk) \<Rightarrow>
          if valid_body (hq_endpoint hq) then route user conn clk else (srv, Inl unprocessable))"

definition serve :: "api_env \<Rightarrow> server \<Rightarrow> http_request \<Rightarrow> server \<times> (http_error + response)" where
  "serve env srv hq =
     (case hq_endpoint hq of
        HealthEndpoint \<Rightarrow> (srv, Inr HealthResponse)
      | ReadyEndpoint \<Rightarrow> (srv, Inr (ready srv))
      | DemoUsersEndpoint \<Rightarrow> (srv, Inr (DemoUsersResponse (dict_values (api_users env))))
      | GetActionEndpoint i \<Rightarrow> (srv, get_action_route env srv hq i)
      | PrepareEndpoint ticket_id why \<Rightarrow> guarded env srv hq (\<lambda>user conn clk.
          committed srv user (prepare_route env hq user conn clk ticket_id why))
      | ConfirmEndpoint i hash \<Rightarrow> guarded env srv hq (\<lambda>user conn clk.
          committed srv user (confirm_route user conn clk i hash))
      | ExecuteEndpoint i \<Rightarrow> guarded env srv hq (\<lambda>user conn clk.
          committed srv user (execute_route user conn clk i))
      | RunRadarEndpoint types days grouped \<Rightarrow> guarded env srv hq (\<lambda>user conn clk.
          (srv, run_radar_route env user conn clk types days grouped))
      | GetAlertEndpoint alert_id \<Rightarrow> guarded env srv hq (\<lambda>user conn clk.
          (srv, get_alert_route env user conn clk alert_id))
      | ChatEndpoint question \<Rightarrow> guarded env srv hq (\<lambda>user conn clk.
          (srv, chat_route env hq user conn clk question)))"

fun status_code :: "http_error + response \<Rightarrow> int" where
  "status_code (Inl e) = http_status e"
| "status_code (Inr (ReadyResponse file snap t)) = (if file \<and> snap then 200 else 503)"
| "status_code (Inr r) = 200"

text \<open>A session: requests in the order the server handles them, each against its own environment.\<close>

fun serve_all :: "server \<Rightarrow> (api_env \<times> http_request) list \<Rightarrow> server" where
  "serve_all srv [] = srv"
| "serve_all srv ((env, hq) # rest) = serve_all (fst (serve env srv hq)) rest"

end
