(* ===== verification/Api_Lifecycle.thy ===== *)
theory Api_Lifecycle
  imports Http_Api
begin

text \<open>
  What the routes do to the actions table, against an abstract life cycle of proposals. A
  proposal has an owner, the digest of what was proposed and a phase; \<open>lifecycle\<close> says who may
  move it and how. Every request of \<open>serve\<close> is one such move or none, so what holds of the life
  cycle over a session holds of the server.
\<close>

section \<open>The specification\<close>

record proposal =
  owner :: string
  digest :: string
  phase :: action_status

definition may_execute :: "demo_user \<Rightarrow> proposal \<Rightarrow> bool" where
  "may_execute user p \<longleftrightarrow> du_role user = OPERATIONS_ADMIN \<or> owner p = du_id user"

inductive lifecycle ::
  "demo_user \<Rightarrow> endpoint \<Rightarrow> (string \<Rightarrow> proposal option) \<Rightarrow> (string \<Rightarrow> proposal option) \<Rightarrow> bool" for user where
  propose: "m i = None \<Longrightarrow>
    lifecycle user (PrepareEndpoint k why) m (m(i \<mapsto> \<lparr>owner = du_id user, digest = h, phase = PENDING_CONFIRMATION\<rparr>))"
| confirm: "m i = Some p \<Longrightarrow> phase p = PENDING_CONFIRMATION \<Longrightarrow> owner p = du_id user \<Longrightarrow> digest p = h \<Longrightarrow>
    lifecycle user (ConfirmEndpoint i h) m (m(i \<mapsto> p\<lparr>phase := CONFIRMED\<rparr>))"
| expire: "m i = Some p \<Longrightarrow> phase p = PENDING_CONFIRMATION \<Longrightarrow>
    lifecycle user (ConfirmEndpoint i h) m (m(i \<mapsto> p\<lparr>phase := EXPIRED\<rparr>))"
| execute: "m i = Some p \<Longrightarrow> phase p = CONFIRMED \<Longrightarrow> may_execute user p \<Longrightarrow>
    lifecycle user (ExecuteEndpoint i) m (m(i \<mapsto> p\<lparr>phase := EXECUTED\<rparr>))"

inductive_cases lifecycleE: "lifecycle user ep m m'"

section \<open>What the workflow does to it\<close>

definition proposal_of :: "action_record \<Rightarrow> proposal" where
  "proposal_of rec = \<lparr>owner = user_id rec, digest = payload_hash rec, phase = act_status rec\<rparr>"

definition proposals :: "db \<Rightarrow> string \<Rightarrow> proposal option" where
  "proposals conn i = map_option proposal_of (get_action conn i)"

lemma proposal_of_cas: "proposal_of (cas_write r row) = (proposal_of row)\<lparr>phase := act_status r\<rparr>"
  by (simp add: proposal_of_def cas_write_def)

lemma proposals_swap:
  assumes "unique_ids conn" "save_action_if_status conn rec e = (conn', landed)"
  shows "proposals conn' = (if landed
    then (proposals conn)(action_id rec := map_option (\<lambda>p. p\<lparr>phase := act_status rec\<rparr>) (proposals conn (action_id rec)))
    else proposals conn)"
proof
  fix i
  note same = actions.swap_other [OF assms(1), of i rec e] and lost = actions.swap_loses [OF assms(1), of rec e i]
    and won = actions.swap_wins [OF assms(1), of rec e]
  show "proposals conn' i = (if landed
    then (proposals conn)(action_id rec := map_option (\<lambda>p. p\<lparr>phase := act_status rec\<rparr>) (proposals conn (action_id rec)))
    else proposals conn) i"
    using same lost won assms(2)
    by (cases "get_action conn (action_id rec)") (auto simp: proposals_def proposal_of_cas)
qed

lemma swap_keeps:
  assumes "save_action_if_status conn rec e = (conn', landed)"
  shows "unique_ids conn \<Longrightarrow> unique_ids conn'" "conn' = conn\<lparr>db_actions := db_actions conn'\<rparr>"
  using actions.swap_valid [of conn rec e] store_frame(1) [of conn rec e] assms by auto

lemma proposals_insert:
  assumes "insert_action conn rec = Inr conn'"
  shows "proposals conn (action_id rec) = None"
    and "proposals conn' = (proposals conn)(action_id rec \<mapsto> proposal_of rec)"
  using insert_action_get [OF assms] by (auto simp: proposals_def fun_eq_iff)

text \<open>What of a record no later call may rewrite: everything but the progress fields.\<close>

definition audit_of :: "action_record \<Rightarrow> action_record" where
  "audit_of rec = rec\<lparr>act_status := PENDING_CONFIRMATION, confirmed_at := None, executed_at := None, failure_reason := None\<rparr>"

definition audit_trail :: "db \<Rightarrow> action_record list" where
  "audit_trail conn = map audit_of (db_actions conn)"

lemma audit_swap:
  "save_action_if_status conn rec e = (conn', landed) \<Longrightarrow> audit_trail conn' = audit_trail conn"
  by (auto simp: save_action_if_status_def audit_trail_def audit_of_def cas_write_def)

lemma audit_insert: "insert_action conn rec = Inr conn' \<Longrightarrow> audit_trail conn' = audit_trail conn @ [audit_of rec]"
  by (auto simp: insert_action_def audit_trail_def split: if_splits)

text \<open>One workflow call under \<open>user\<close>: nothing outside the table changes, ids stay unique, the audit
  trail grows by at most one record and the proposals make at most one move.\<close>

definition moves :: "demo_user \<Rightarrow> endpoint \<Rightarrow> db \<Rightarrow> db \<Rightarrow> bool" where
  "moves user ep conn conn' \<longleftrightarrow> unique_ids conn' \<and> conn' = conn\<lparr>db_actions := db_actions conn'\<rparr>
     \<and> (\<exists>new. audit_trail conn' = audit_trail conn @ new \<and> length new \<le> 1)
     \<and> (proposals conn' = proposals conn \<or> lifecycle user ep (proposals conn) (proposals conn'))"

lemma moves_refl [simp]: "unique_ids conn \<Longrightarrow> moves user ep conn conn"
  by (simp add: moves_def)

lemma prepare_moves:
  assumes u: "unique_ids conn"
    and run: "prepare_escalation conn k why auth clk (du_id user) rq uuid12 overrides defaults = Inr (out, conn')"
  shows "moves user (PrepareEndpoint k why) conn conn'"
proof (cases "success out")
  case True
  from prepare_outcome [OF run] True obtain rec where
    rec: "conn' = conn\<lparr>db_actions := db_actions conn @ [rec]\<rparr>" "action_id rec \<notin> action_id ` set (db_actions conn)"
      "act_status rec = PENDING_CONFIRMATION" "user_id rec = du_id user" by auto
  then have ins: "insert_action conn rec = Inr conn'" by (simp add: insert_action_def)
  have "proposal_of rec = \<lparr>owner = du_id user, digest = payload_hash rec, phase = PENDING_CONFIRMATION\<rparr>"
    using rec by (simp add: proposal_of_def)
  with proposals_insert [OF ins] have "lifecycle user (PrepareEndpoint k why) (proposals conn) (proposals conn')"
    by (simp add: lifecycle.propose)
  with u ins insert_action_get(4) [OF ins] store_frame(2) [OF ins] audit_insert [OF ins] show ?thesis by (simp add: moves_def)
next
  case False
  with prepare_outcome [OF run] u show ?thesis by simp
qed

lemma confirm_moves:
  assumes u: "unique_ids conn"
    and run: "confirm_action conn i hash auth clk (du_id user) = Inr (out, conn')"
  shows "moves user (ConfirmEndpoint i hash) conn conn'"
proof -
  from run obtain p where p: "confirm_plan conn i hash auth clk (du_id user) = Inr p"
    by (auto simp: confirm_action_def bindE_eq_Inr)
  show ?thesis
  proof (cases p)
    case (Answer o')
    with run p u show ?thesis by (simp add: confirm_action_def)
  next
    case (Swap rec e o')
    obtain c landed where s: "save_action_if_status conn rec e = (c, landed)" by force
    from run p Swap s have c: "conn' = c" by (auto simp: confirm_action_def bindE_eq_Inr split: bool.splits)
    obtain rec0 where r: "get_action conn i = Some rec0" "e = PENDING_CONFIRMATION" "act_status rec0 = PENDING_CONFIRMATION"
      and how: "act_status rec = EXPIRED \<and> action_id rec = action_id rec0
        \<or> act_status rec = CONFIRMED \<and> action_id rec = action_id rec0 \<and> user_id rec0 = du_id user \<and> payload_hash rec0 = hash"
      by (rule confirm_plan_Swap [OF p [unfolded Swap]]) auto
    have i: "action_id rec = i" using how actions.fetch_key [OF r(1)] by auto
    have at: "proposals conn i = Some (proposal_of rec0)" "phase (proposal_of rec0) = PENDING_CONFIRMATION"
      using r by (simp_all add: proposals_def proposal_of_def)
    note after = proposals_swap [OF u s, unfolded i at(1)]
    have "lifecycle user (ConfirmEndpoint i hash) (proposals conn) (proposals c)" if landed
      using how
    proof
      assume "act_status rec = EXPIRED \<and> action_id rec = action_id rec0"
      with after that lifecycle.expire [of "proposals conn" i _ user hash, OF at] show ?thesis by simp
    next
      assume *: "act_status rec = CONFIRMED \<and> action_id rec = action_id rec0 \<and> user_id rec0 = du_id user \<and> payload_hash rec0 = hash"
      then have "owner (proposal_of rec0) = du_id user" "digest (proposal_of rec0) = hash" by (simp_all add: proposal_of_def)
      with after that * lifecycle.confirm [of "proposals conn" i _ user hash, OF at] show ?thesis by simp
    qed
    moreover have "proposals c = proposals conn" if "\<not> landed" using after that by simp
    ultimately show ?thesis using swap_keeps [OF s] u audit_swap [OF s] by (auto simp: moves_def c)
  qed
qed

lemma execute_moves:
  assumes u: "unique_ids conn" and may: "require_owner_or_admin conn i user = Inr x"
    and run: "execute_action conn i clk = Inr (out, conn')"
  shows "moves user (ExecuteEndpoint i) conn conn'"
proof (cases rule: execute_plan_cases [of conn i clk])
  case (go rec)
  let ?rec' = "rec\<lparr>act_status := EXECUTED, executed_at := Some (now clk)\<rparr>"
  obtain c landed where s: "save_action_if_status conn ?rec' CONFIRMED = (c, landed)" by force
  from run go(3) s have c: "conn' = c" by (auto simp: execute_action_def bindE_eq_Inr split: bool.splits)
  have i: "action_id ?rec' = i" using actions.fetch_key [OF go(1)] by simp
  have at: "proposals conn i = Some (proposal_of rec)" "phase (proposal_of rec) = CONFIRMED"
    using go by (simp_all add: proposals_def proposal_of_def)
  have "may_execute user (proposal_of rec)"
    using may go(1) by (auto simp: require_owner_or_admin_def may_execute_def proposal_of_def bindE_eq_Inr split: if_splits)
  from lifecycle.execute [of "proposals conn" i, OF at this] proposals_swap [OF u s, unfolded i at(1)]
  have "proposals c = proposals conn \<or> lifecycle user (ExecuteEndpoint i) (proposals conn) (proposals c)"
    by (cases landed) simp_all
  with swap_keeps [OF s] u audit_swap [OF s] show ?thesis by (simp add: moves_def c)
qed (use run u in \<open>auto simp: execute_action_def\<close>)

section \<open>Every request is one move\<close>

lemma handled_Inr [simp]: "handled m = Inr x \<longleftrightarrow> m = Inr x"
  by (auto simp: handled_def split: sum.splits)

lemma committed_moves:
  assumes "srv_db srv = Some conn" "unique_ids conn"
    and "\<And>out conn'. m = Inr (out, conn') \<Longrightarrow> moves user ep conn conn'"
  shows "\<exists>conn'. fst (committed srv user m) = srv\<lparr>srv_db := Some conn'\<rparr> \<and> moves user ep conn conn'"
proof (cases m)
  case (Inl e)
  have "srv = srv\<lparr>srv_db := Some conn\<rparr>" using assms(1) by simp
  with Inl assms(2) show ?thesis by (intro exI [of _ conn]) simp
next
  case (Inr x)
  with assms(3) show ?thesis by (cases x) auto
qed

lemma with_dependencies_Inr:
  "with_dependencies env srv hq = Inr (user, conn, clk) \<Longrightarrow>
     get_current_user (api_users env) (hq_demo_user hq) = Inr user \<and> srv_db srv = Some conn \<and> get_clock srv = Inr clk"
  by (auto simp: with_dependencies_def bindE_eq_Inr get_conn_def)

lemma serve_moves:
  assumes db: "srv_db srv = Some conn" and u: "unique_ids conn"
  shows "\<exists>conn'. fst (serve env srv hq) = srv\<lparr>srv_db := Some conn'\<rparr> \<and> (conn' = conn \<or>
    (\<exists>user. get_current_user (api_users env) (hq_demo_user hq) = Inr user \<and> moves user (hq_endpoint hq) conn conn'))"
proof -
  have same: "srv = srv\<lparr>srv_db := Some conn\<rparr>" using db by simp
  have guard: ?thesis if g: "serve env srv hq = guarded env srv hq route"
    and ok: "\<And>user clk. \<exists>conn'. fst (route user conn clk) = srv\<lparr>srv_db := Some conn'\<rparr> \<and> moves user (hq_endpoint hq) conn conn'"
    for route
  proof (cases "with_dependencies env srv hq")
    case (Inl e)
    with g same show ?thesis by (intro exI [of _ conn]) (simp add: guarded_def)
  next
    case (Inr x)
    obtain user c clk where x: "x = (user, c, clk)" by (cases x)
    from with_dependencies_Inr [OF Inr [unfolded x]] db have d: "c = conn"
      "get_current_user (api_users env) (hq_demo_user hq) = Inr user" by auto
    show ?thesis
    proof (cases "valid_body (hq_endpoint hq)")
      case True
      with g Inr x d(1) have "serve env srv hq = route user conn clk" by (simp add: guarded_def)
      with ok [of user clk] d(2) show ?thesis by auto
    next
      case False
      with g Inr x same show ?thesis by (intro exI [of _ conn]) (simp add: guarded_def)
    qed
  qed
  have keep: "\<exists>conn'. fst (srv, r user conn clk) = srv\<lparr>srv_db := Some conn'\<rparr> \<and> moves user (hq_endpoint hq) conn conn'"
    for r :: "demo_user \<Rightarrow> db \<Rightarrow> clock \<Rightarrow> http_error + response" and user clk
    using same u by (intro exI [of _ conn]) simp
  show ?thesis
  proof (cases "hq_endpoint hq")
    case (PrepareEndpoint k why)
    then show ?thesis
      by (intro guard, simp add: serve_def, intro committed_moves [OF db u])
        (auto simp: prepare_route_def intro: prepare_moves [OF u])
  next
    case (ConfirmEndpoint i hash)
    then show ?thesis
      by (intro guard, simp add: serve_def, intro committed_moves [OF db u])
        (auto simp: confirm_route_def intro: confirm_moves [OF u])
  next
    case (ExecuteEndpoint i)
    then show ?thesis
      by (intro guard, simp add: serve_def, intro committed_moves [OF db u])
        (auto simp: execute_route_def bindE_eq_Inr intro: execute_moves [OF u])
  next
    case (RunRadarEndpoint types days grouped)
    then show ?thesis by (intro guard, simp add: serve_def) (rule keep)
  next
    case (GetAlertEndpoint i)
    then show ?thesis by (intro guard, simp add: serve_def) (rule keep)
  next
    case (ChatEndpoint q)
    then show ?thesis by (intro guard, simp add: serve_def) (rule keep)
  qed (use same in \<open>auto simp: serve_def intro!: exI [of _ conn]\<close>)
qed

end
