(* ===== verification/Action_Completion.thy ===== *)
theory Action_Completion
  imports Action_Workflow
begin

text \<open>
  What a successful preparation leads to when nobody interferes: its confirmation by the same
  user with the same digest, and its execution, both land. The HTTP layer and the benchmark
  rest on it.
\<close>

lemma get_ticket_actions [simp]: "get_ticket (conn\<lparr>db_actions := acts\<rparr>) k auth tz = get_ticket conn k auth tz"
  by (simp add: get_ticket_def)

lemma same_view_actions: "same_view auth conn (conn\<lparr>db_actions := acts\<rparr>)"
  by (simp add: same_view_def)

lemma calculate_sla_actions [simp]:
  "calculate_sla (conn\<lparr>db_actions := acts\<rparr>) k auth clk overrides defaults = calculate_sla conn k auth clk overrides defaults"
proof -
  note v = same_view_actions [of auth conn acts]
  have "lookup_sla_target (conn\<lparr>db_actions := acts\<rparr>) = lookup_sla_target conn"
    by (simp add: lookup_sla_target_def fun_eq_iff)
  then show ?thesis
    unfolding calculate_sla_def get_ticket_actions get_account_view [OF v, symmetric] classify_severity_view [OF v, symmetric]
      resolve_view [OF v, symmetric] same_view_cite [OF v, symmetric] by (simp only:)
qed

lemma swap_keeps_ids:
  "map action_id (db_actions (fst (save_action_if_status conn rec e))) = map action_id (db_actions conn)"
  by (simp add: save_action_if_status_def)

text \<open>The effect of one landed transition on the actions table: the row of \<open>i\<close> becomes \<open>rec\<close>.\<close>

definition transition :: "db \<Rightarrow> string \<Rightarrow> action_record \<Rightarrow> db \<Rightarrow> bool" where
  "transition conn i rec conn' \<longleftrightarrow>
     get_action conn' i = Some rec \<and> unique_ids conn' \<and> conn' = conn\<lparr>db_actions := db_actions conn'\<rparr>
     \<and> map action_id (db_actions conn') = map action_id (db_actions conn)
     \<and> (\<forall>j. j \<noteq> i \<longrightarrow> get_action conn' j = get_action conn j)"

lemma swap_transition:
  assumes "unique_ids conn" "get_action conn i = Some rec0" "act_status rec0 = e" "action_id rec = i"
    and "cas_write rec rec0 = rec"
  shows "\<exists>conn'. save_action_if_status conn rec e = (conn', True) \<and> transition conn i rec conn'"
proof -
  obtain conn' where "save_action_if_status conn rec e = (conn', True)" "get_action conn' i = Some rec"
    "conn' = conn\<lparr>db_actions := db_actions conn'\<rparr>" "unique_ids conn'"
    by (rule swap_lands_alone [OF assms])
  moreover have "get_action conn' j = get_action conn j" if "j \<noteq> i" for j
    using actions.swap_other [OF assms(1), of j rec e] that assms(4) calculation(1) by simp
  ultimately show ?thesis using swap_keeps_ids [of conn rec e] by (auto simp: transition_def)
qed

lemma confirm_goes_through:
  assumes "unique_ids conn" "get_action conn i = Some rec" "act_status rec = PENDING_CONFIRMATION"
    and "\<not> dt_less (expires_at rec) (now clk)" "get_ticket conn (target rec) auth (tz_of clk) = Inr tkt"
    and "dict_get (proposed_change rec) ''previous_status'' = Some (JStr (ticket_status_value (tkt_status tkt)))"
  defines "rec' \<equiv> rec\<lparr>act_status := CONFIRMED, confirmed_at := Some (now clk)\<rparr>"
  obtains conn' where "confirm_action conn i (payload_hash rec) auth clk (user_id rec) = Inr (succeeded rec', conn')"
    "transition conn i rec' conn'"
proof -
  have t: "read_ticket conn (target rec) auth (tz_of clk) (Some rec) ''target_invalid'' = Inr (Inr tkt)"
    using assms(5) by (simp add: read_ticket_Inr)
  have p: "confirm_plan conn i (payload_hash rec) auth clk (user_id rec) = Inr (Swap rec' PENDING_CONFIRMATION (succeeded rec'))"
    using assms(2-4,6) t by (simp add: confirm_plan_def rec'_def Let_def)
  have "cas_write rec' rec = rec'" "action_id rec' = i"
    using actions.fetch_key [OF assms(2)] by (simp_all add: cas_write_def rec'_def)
  from swap_transition [OF assms(1-3) this(2,1)] p that show thesis by (auto simp: confirm_action_def)
qed

lemma execute_goes_through:
  fixes clk :: clock
  assumes "unique_ids conn" "get_action conn i = Some rec" "act_status rec = CONFIRMED"
  defines "rec' \<equiv> rec\<lparr>act_status := EXECUTED, executed_at := Some (now clk)\<rparr>"
  obtains conn' where "execute_action conn i clk = Inr (succeeded rec', conn')" "transition conn i rec' conn'"
proof -
  have "cas_write rec' rec = rec'" "action_id rec' = i"
    using actions.fetch_key [OF assms(2)] by (simp_all add: cas_write_def rec'_def)
  from swap_transition [OF assms(1-3) this(2,1)]
  obtain c where "save_action_if_status conn rec' CONFIRMED = (c, True)" "transition conn i rec' c" by blast
  moreover have "execute_plan conn i clk = Swap rec' CONFIRMED (succeeded rec')"
    using assms(2,3) by (simp add: execute_plan_def rec'_def Let_def)
  ultimately show thesis by (intro that [of c]) (simp_all add: execute_action_def)
qed

text \<open>The three calls in a row. \<open>confirmed\<close> and \<open>executed\<close> are the record after each transition.\<close>

definition confirmed :: "clock \<Rightarrow> action_record \<Rightarrow> action_record" where
  "confirmed clk rec = rec\<lparr>act_status := CONFIRMED, confirmed_at := Some (now clk)\<rparr>"

definition executed :: "clock \<Rightarrow> action_record \<Rightarrow> action_record" where
  "executed clk rec = (confirmed clk rec)\<lparr>act_status := EXECUTED, executed_at := Some (now clk)\<rparr>"

lemma workflow_completes:
  assumes u: "unique_ids conn" and ok: "success out"
    and p: "prepare_escalation conn k why auth clk user request uuid12 overrides defaults = Inr (out, conn1)"
  obtains rec conn2 conn3 where
    "outcome_record out = Some rec" "action_id rec = ''ACT-'' @ uuid12" "user_id rec = user" "length (payload_hash rec) = 64"
    "confirm_action conn1 (action_id rec) (payload_hash rec) auth clk user = Inr (succeeded (confirmed clk rec), conn2)"
    "transition conn1 (action_id rec) (confirmed clk rec) conn2"
    "execute_action conn2 (action_id rec) clk = Inr (succeeded (executed clk rec), conn3)"
    "transition conn2 (action_id rec) (executed clk rec) conn3"
    "insert_action conn rec = Inr conn1"
proof -
  from prepare_outcome [OF p, unfolded if_P [OF ok]] obtain rec tkt where rec: "outcome_record out = Some rec"
    "conn1 = conn\<lparr>db_actions := db_actions conn @ [rec]\<rparr>" "action_id rec = ''ACT-'' @ uuid12"
    "dict_get (proposed_change rec) ''previous_status'' = Some (JStr (ticket_status_value (tkt_status tkt)))"
    "action_id rec \<notin> action_id ` set (db_actions conn)" "act_status rec = PENDING_CONFIRMATION" "user_id rec = user"
    "target rec = k" "expires_at rec = dt_add (now clk) (timedelta_minutes 15)"
    "payload_hash rec = payload_digest (action_type rec) k (proposed_change rec)"
    "get_ticket conn k auth (tz_of clk) = Inr tkt" by blast
  from rec(2,5) have ins: "insert_action conn rec = Inr conn1" by (simp add: insert_action_def)
  note at = insert_action_get [OF ins]
  have fresh: "\<not> dt_less (expires_at rec) (now clk)"
    by (simp add: rec(9) dt_less_def timedelta_minutes_def us_per_minute_def)
  have tkt: "get_ticket conn1 (target rec) auth (tz_of clk) = Inr tkt" using rec(11) by (simp add: rec(2,8))
  obtain conn2 where c2: "confirm_action conn1 (action_id rec) (payload_hash rec) auth clk user = Inr (succeeded (confirmed clk rec), conn2)"
    "transition conn1 (action_id rec) (confirmed clk rec) conn2"
    by (rule confirm_goes_through [OF at(4) [OF u] at(1) rec(6) fresh tkt rec(4)]) (simp add: confirmed_def rec(7))
  then have at2: "unique_ids conn2" "get_action conn2 (action_id rec) = Some (confirmed clk rec)" "act_status (confirmed clk rec) = CONFIRMED"
    by (simp_all add: transition_def confirmed_def)
  obtain conn3 where c3: "execute_action conn2 (action_id rec) clk = Inr (succeeded (executed clk rec), conn3)"
    "transition conn2 (action_id rec) (executed clk rec) conn3"
    by (rule execute_goes_through [OF at2, of clk]) (simp add: executed_def)
  show thesis
    by (rule that [OF rec(1,3,7) _ c2 c3 ins]) (simp add: rec(10) payload_digest_def)
qed

end
