(* ===== verification/Api_Guarantees.thy ===== *)
theory Api_Guarantees
  imports Api_Lifecycle Agent_Sample Action_Completion
begin

text \<open>
  The guarantees of the HTTP layer: of one request, and of sessions of requests by any mixture
  of callers.
\<close>

section \<open>Sessions\<close>

lemma serve_all_append: "serve_all srv (xs @ ys) = serve_all (serve_all srv xs) ys"
  by (induction xs arbitrary: srv) auto

lemma serve_all_snoc: "serve_all srv (rs @ [(env, hq)]) = fst (serve env (serve_all srv rs) hq)"
  by (simp add: serve_all_append)

text \<open>A property of the database that no request breaks holds at the end of every session.\<close>

lemma session_invariant:
  assumes "srv_db srv = Some conn" "unique_ids conn" "holds [] conn"
    and "\<And>rs r conn conn'. holds rs conn \<Longrightarrow> unique_ids conn \<Longrightarrow> conn' = conn \<or>
      (\<exists>user. get_current_user (api_users (fst r)) (hq_demo_user (snd r)) = Inr user \<and> moves user (hq_endpoint (snd r)) conn conn')
      \<Longrightarrow> holds (rs @ [r]) conn'"
  shows "\<exists>conn'. serve_all srv rs = srv\<lparr>srv_db := Some conn'\<rparr> \<and> unique_ids conn' \<and> holds rs conn'"
proof (induction rs rule: rev_induct)
  case Nil
  with assms(1-3) show ?case by (intro exI [of _ conn]) simp
next
  case (snoc r rs)
  obtain env hq where r: "r = (env, hq)" by (cases r)
  from snoc obtain c where c: "serve_all srv rs = srv\<lparr>srv_db := Some c\<rparr>" "unique_ids c" "holds rs c" by blast
  have "srv_db (serve_all srv rs) = Some c" by (simp add: c(1))
  from serve_moves [OF this c(2), of env hq] obtain c' where
    d: "fst (serve env (serve_all srv rs) hq) = (serve_all srv rs)\<lparr>srv_db := Some c'\<rparr>"
    and how: "c' = c \<or> (\<exists>user. get_current_user (api_users env) (hq_demo_user hq) = Inr user \<and> moves user (hq_endpoint hq) c c')"
    by blast
  have "unique_ids c'" using how c(2) by (auto simp: moves_def)
  moreover have "holds (rs @ [r]) c'" using assms(4) [OF c(3,2), of c' r] how by (simp add: r)
  ultimately show ?case using d c(1) by (intro exI [of _ c']) (simp add: r serve_all_snoc)
qed

section \<open>A sample server\<close>

definition u1 :: demo_user where
  "u1 = \<lparr>du_id = ''u1'', du_display_name = ''Owner'', du_role = SUPPORT_AGENT, du_account_scope = Some [''ACCT-001'']\<rparr>"

definition u2 :: demo_user where
  "u2 = \<lparr>du_id = ''u2'', du_display_name = ''Other'', du_role = SUPPORT_AGENT, du_account_scope = Some [''ACCT-003'']\<rparr>"

definition sample_api :: api_env where
  "sample_api = \<lparr>api_agent = sample_env, api_users = [(''u1'', u1), (''u2'', u2)], api_overrides = AGREEMENT_OVERRIDES,
     api_defaults = DEFAULT_SOURCE, api_key = None, api_model = None,
     api_create = (\<lambda>_ _. Inl \<lparr>exn_type = ''APIConnectionError'', exn_text = ''down''\<rparr>)\<rparr>"

definition sample_server :: "db \<Rightarrow> server" where
  "sample_server conn = \<lparr>srv_db = Some conn, srv_snapshot_time = Some (Zoned (hm 11 0) ist)\<rparr>"

definition as_user :: "string \<Rightarrow> endpoint \<Rightarrow> http_request" where
  "as_user name ep = \<lparr>hq_demo_user = Some name, hq_context = sample_ctx, hq_uuid12 = ''0123456789ab'', hq_endpoint = ep\<rparr>"

lemmas sample_api_defs = sample_api_def sample_server_def as_user_def u1_def u2_def

lemma sample_server_db [simp]: "srv_db (sample_server conn) = Some conn"
  by (simp add: sample_server_def)

lemma sample_unique: "unique_ids (sample_db_action st)"
  by (simp add: unique_ids_def sample_db_action_def)

section \<open>The server refines the life cycle\<close>

text \<open>C6. The API refines the life cycle of proposals: whatever request arrives, from whomever, the
  database changes in its actions table only, and the proposals there either stay as they are
  or make exactly one permitted move on behalf of the request's identity: a fresh pending
  proposal, a confirmation by its owner presenting its digest, an expiry, or an execution of a
  confirmed one by its owner or an operations admin.\<close>

theorem api_refines_lifecycle:
  assumes "srv_db srv = Some conn" "unique_ids conn"
  shows "\<exists>conn'. fst (serve env srv hq) = srv\<lparr>srv_db := Some conn'\<rparr> \<and> unique_ids conn'
    \<and> conn' = conn\<lparr>db_actions := db_actions conn'\<rparr>
    \<and> (proposals conn' = proposals conn \<or>
       (\<exists>user. get_current_user (api_users env) (hq_demo_user hq) = Inr user
          \<and> lifecycle user (hq_endpoint hq) (proposals conn) (proposals conn')))"
  using serve_moves [OF assms, of env hq] assms(2) by (auto simp: moves_def)

theorem api_refines_lifecycle_witness:
  "\<exists>conn'. fst (serve sample_api (sample_server (sample_db_action CONFIRMED)) (as_user ''u1'' (ExecuteEndpoint ''ACT-1'')))
      = (sample_server (sample_db_action CONFIRMED))\<lparr>srv_db := Some conn'\<rparr>
    \<and> lifecycle u1 (ExecuteEndpoint ''ACT-1'') (proposals (sample_db_action CONFIRMED)) (proposals conn')"
proof -
  let ?s = "sample_server (sample_db_action CONFIRMED)"
  let ?q = "as_user ''u1'' (ExecuteEndpoint ''ACT-1'')"
  have user: "get_current_user (api_users sample_api) (hq_demo_user ?q) = Inr u1"
    by (simp add: get_current_user_def sample_api_def as_user_def)
  have landed: "case srv_db (fst (serve sample_api ?s ?q)) of None \<Rightarrow> False
    | Some c \<Rightarrow> map_option act_status (get_action c ''ACT-1'') = Some EXECUTED" by code_simp
  have before: "map_option act_status (get_action (sample_db_action CONFIRMED) ''ACT-1'') = Some CONFIRMED" by code_simp
  from api_refines_lifecycle [of ?s _ sample_api ?q, OF sample_server_db sample_unique] user obtain c where
    c: "fst (serve sample_api ?s ?q) = ?s\<lparr>srv_db := Some c\<rparr>"
    and "proposals c = proposals (sample_db_action CONFIRMED)
      \<or> lifecycle u1 (hq_endpoint ?q) (proposals (sample_db_action CONFIRMED)) (proposals c)" by auto
  moreover have "proposals c \<noteq> proposals (sample_db_action CONFIRMED)"
  proof
    assume "proposals c = proposals (sample_db_action CONFIRMED)"
    then have "map_option (phase \<circ> proposal_of) (get_action c ''ACT-1'')
      = map_option (phase \<circ> proposal_of) (get_action (sample_db_action CONFIRMED) ''ACT-1'')"
      by (auto simp: proposals_def fun_eq_iff simp flip: option.map_comp)
    moreover have "phase \<circ> proposal_of = act_status" by (simp add: fun_eq_iff proposal_of_def)
    ultimately show False using landed before by (auto simp: c)
  qed
  ultimately show ?thesis by (auto simp: as_user_def)
qed

section \<open>No execution without a confirmation by the owner\<close>

definition confirmed_by :: "api_env \<times> http_request \<Rightarrow> string \<Rightarrow> proposal \<Rightarrow> bool" where
  "confirmed_by r i p \<longleftrightarrow> hq_endpoint (snd r) = ConfirmEndpoint i (digest p)
     \<and> (\<exists>user. get_current_user (api_users (fst r)) (hq_demo_user (snd r)) = Inr user \<and> du_id user = owner p)"

definition executed_by :: "api_env \<times> http_request \<Rightarrow> string \<Rightarrow> proposal \<Rightarrow> bool" where
  "executed_by r i p \<longleftrightarrow> hq_endpoint (snd r) = ExecuteEndpoint i
     \<and> (\<exists>user. get_current_user (api_users (fst r)) (hq_demo_user (snd r)) = Inr user \<and> may_execute user p)"

lemma by_phase [simp]:
  "confirmed_by r i (p\<lparr>phase := ph\<rparr>) = confirmed_by r i p" "executed_by r i (p\<lparr>phase := ph\<rparr>) = executed_by r i p"
  by (simp_all add: confirmed_by_def executed_by_def may_execute_def)

text \<open>What a proposal's phase says about the requests so far.\<close>

definition earned :: "(api_env \<times> http_request) list \<Rightarrow> string \<Rightarrow> proposal \<Rightarrow> bool" where
  "earned rs i p \<longleftrightarrow>
     (phase p \<in> {CONFIRMED, EXECUTED} \<longrightarrow> (\<exists>r \<in> set rs. confirmed_by r i p))
     \<and> (phase p = EXECUTED \<longrightarrow>
          (\<exists>xs e ys. rs = xs @ e # ys \<and> (\<exists>r \<in> set xs. confirmed_by r i p) \<and> executed_by e i p))"

lemma earned_later:
  assumes "earned rs i p"
  shows "earned (rs @ [r]) i p"
proof -
  have "\<exists>xs e ys. rs @ [r] = xs @ e # ys \<and> (\<exists>r \<in> set xs. confirmed_by r i p) \<and> executed_by e i p" if "phase p = EXECUTED"
  proof -
    from assms that obtain xs e ys where "rs = xs @ e # ys" "\<exists>r \<in> set xs. confirmed_by r i p" "executed_by e i p"
      unfolding earned_def by blast
    then show ?thesis by (intro exI [of _ xs] exI [of _ e] exI [of _ "ys @ [r]"]) simp
  qed
  with assms show ?thesis by (auto simp: earned_def)
qed

lemma earned_step:
  assumes m: "\<And>i p. m i = Some p \<Longrightarrow> earned rs i p"
    and user: "get_current_user (api_users (fst r)) (hq_demo_user (snd r)) = Inr user"
    and step: "lifecycle user (hq_endpoint (snd r)) m m'" and p: "m' i = Some p"
  shows "earned (rs @ [r]) i p"
  using step
proof (cases rule: lifecycle.cases)
  case (propose j k why h)
  with p m [THEN earned_later] show ?thesis by (auto simp: earned_def split: if_splits)
next
  case (confirm j q h)
  show ?thesis
  proof (cases "i = j")
    case True
    with confirm p user show ?thesis by (auto simp: earned_def confirmed_by_def)
  qed (use confirm p m [THEN earned_later] in simp)
next
  case (expire j q h)
  with p m [THEN earned_later] show ?thesis by (auto simp: earned_def split: if_splits)
next
  case (execute j q)
  show ?thesis
  proof (cases "i = j")
    case True
    with execute p m [of j q] have q: "p = q\<lparr>phase := EXECUTED\<rparr>" "\<exists>r \<in> set rs. confirmed_by r i q"
      by (auto simp: earned_def)
    moreover have "executed_by r i q" using execute True user by (auto simp: executed_by_def)
    ultimately have "\<exists>xs e ys. rs @ [r] = xs @ e # ys \<and> (\<exists>r \<in> set xs. confirmed_by r i p) \<and> executed_by e i p"
      by (intro exI [of _ rs] exI [of _ r] exI [of _ "[]"]) simp
    with q show ?thesis by (auto simp: earned_def)
  qed (use execute p m [THEN earned_later] in simp)
qed

lemma session_earned:
  assumes "srv_db srv = Some conn" "unique_ids conn"
    and "\<forall>i p. proposals conn i = Some p \<longrightarrow> phase p \<notin> {CONFIRMED, EXECUTED}"
  shows "\<exists>c. serve_all srv rs = srv\<lparr>srv_db := Some c\<rparr> \<and> unique_ids c
    \<and> (c = conn\<lparr>db_actions := db_actions c\<rparr> \<and> (\<forall>i p. proposals c i = Some p \<longrightarrow> earned rs i p))"
proof (rule session_invariant [OF assms(1,2)])
  show "conn = conn\<lparr>db_actions := db_actions conn\<rparr> \<and> (\<forall>i p. proposals conn i = Some p \<longrightarrow> earned [] i p)"
    using assms(3) by (auto simp: earned_def)
next
  fix rs :: "(api_env \<times> http_request) list" and r :: "api_env \<times> http_request" and c c'
  assume h: "c = conn\<lparr>db_actions := db_actions c\<rparr> \<and> (\<forall>i p. proposals c i = Some p \<longrightarrow> earned rs i p)"
    and m: "c' = c \<or> (\<exists>user. get_current_user (api_users (fst r)) (hq_demo_user (snd r)) = Inr user
      \<and> moves user (hq_endpoint (snd r)) c c')"
  from m have "c' = c\<lparr>db_actions := db_actions c'\<rparr>" by (auto simp: moves_def)
  with h have "c' = conn\<lparr>db_actions := db_actions c'\<rparr>"
    by (metis db.surjective db.update_convs(7))
  moreover from m have "proposals c' = proposals c \<or> (\<exists>user. get_current_user (api_users (fst r)) (hq_demo_user (snd r)) = Inr user
      \<and> lifecycle user (hq_endpoint (snd r)) (proposals c) (proposals c'))" by (auto simp: moves_def)
  with h have "\<forall>i p. proposals c' i = Some p \<longrightarrow> earned (rs @ [r]) i p"
    using earned_later earned_step [of "proposals c" rs r _ "proposals c'"] by metis
  ultimately show "c' = conn\<lparr>db_actions := db_actions c'\<rparr> \<and> (\<forall>i p. proposals c' i = Some p \<longrightarrow> earned (rs @ [r]) i p)"
    by blast
qed

text \<open>C3. Over any session, by any callers in any order: where nothing was confirmed at the start, an
  action found EXECUTED was confirmed through the API by the identity that prepared it,
  presenting the digest of its payload, and after that executed by that identity or an
  operations admin.\<close>

theorem executed_means_confirmed:
  assumes "srv_db srv = Some conn" "unique_ids conn"
    and "\<And>i p. proposals conn i = Some p \<Longrightarrow> phase p \<notin> {CONFIRMED, EXECUTED}"
    and "srv_db (serve_all srv rs) = Some conn'" "proposals conn' i = Some p" "phase p = EXECUTED"
  shows "\<exists>xs e ys r. rs = xs @ e # ys \<and> r \<in> set xs \<and> confirmed_by r i p \<and> executed_by e i p"
proof -
  have "\<forall>i p. proposals conn i = Some p \<longrightarrow> phase p \<notin> {CONFIRMED, EXECUTED}" using assms(3) by blast
  from session_earned [OF assms(1,2) this, of rs] assms(4,5) have "earned rs i p" by auto
  with assms(6) show ?thesis unfolding earned_def by blast
qed

theorem executed_means_confirmed_witness:
  "\<exists>r. r \<in> set [(sample_api, as_user ''u1'' (ConfirmEndpoint ''ACT-1'' ''h1''))]
     \<and> confirmed_by r ''ACT-1'' \<lparr>owner = ''u1'', digest = ''h1'', phase = EXECUTED\<rparr>"
proof -
  let ?c = "sample_db_action PENDING_CONFIRMATION"
  let ?rs = "[(sample_api, as_user ''u1'' (ConfirmEndpoint ''ACT-1'' ''h1'')), (sample_api, as_user ''u1'' (ExecuteEndpoint ''ACT-1''))]"
  let ?p = "\<lparr>owner = ''u1'', digest = ''h1'', phase = EXECUTED\<rparr>"
  have "case srv_db (serve_all (sample_server ?c) ?rs) of None \<Rightarrow> False
    | Some c \<Rightarrow> map_option (\<lambda>r. (user_id r, payload_hash r, act_status r)) (get_action c ''ACT-1'') = Some (''u1'', ''h1'', EXECUTED)"
    by code_simp
  then obtain c where c: "srv_db (serve_all (sample_server ?c) ?rs) = Some c" "proposals c ''ACT-1'' = Some ?p"
    by (auto simp: proposals_def proposal_of_def split: option.splits)
  have "phase p \<notin> {CONFIRMED, EXECUTED}" if "proposals ?c i = Some p" for i p
    using that by (auto simp: proposals_def proposal_of_def get_action_def sample_db_action_def sample_action_def split: if_splits)
  then obtain xs e ys r where
    d: "?rs = xs @ e # ys" "r \<in> set xs" "confirmed_by r ''ACT-1'' ?p" "executed_by e ''ACT-1'' ?p"
    using executed_means_confirmed [OF sample_server_db sample_unique _ c] by force
  from d(1,2) have "xs = [hd ?rs]" by (cases xs; cases "tl xs") auto
  with d show ?thesis by auto
qed

section \<open>The audit trail\<close>

text \<open>C21. The actions table is an append-only audit trail: over any session no record disappears or
  changes what was proposed, by whom, when and under which digest; new records come after the
  old ones, at most one per request; and no table besides changes at all.\<close>

theorem audit_trail_append_only:
  assumes "srv_db srv = Some conn" "unique_ids conn"
  shows "\<exists>conn' new. serve_all srv rs = srv\<lparr>srv_db := Some conn'\<rparr>
    \<and> audit_trail conn' = audit_trail conn @ new \<and> length new \<le> length rs
    \<and> conn' = conn\<lparr>db_actions := db_actions conn'\<rparr>"
proof -
  let ?holds = "\<lambda>(rs :: (api_env \<times> http_request) list) c.
    (\<exists>new. audit_trail c = audit_trail conn @ new \<and> length new \<le> length rs) \<and> c = conn\<lparr>db_actions := db_actions c\<rparr>"
  have "\<exists>c. serve_all srv rs = srv\<lparr>srv_db := Some c\<rparr> \<and> unique_ids c \<and> ?holds rs c"
  proof (rule session_invariant [OF assms])
    fix rs :: "(api_env \<times> http_request) list" and r :: "api_env \<times> http_request" and c c'
    assume h: "?holds rs c" and step: "c' = c \<or> (\<exists>user. get_current_user (api_users (fst r)) (hq_demo_user (snd r)) = Inr user
        \<and> moves user (hq_endpoint (snd r)) c c')"
    from h obtain new where n: "audit_trail c = audit_trail conn @ new" "length new \<le> length rs"
      and c: "c = conn\<lparr>db_actions := db_actions c\<rparr>" by blast
    from step obtain new' where "audit_trail c' = audit_trail c @ new'" "length new' \<le> 1"
      and d: "c' = c\<lparr>db_actions := db_actions c'\<rparr>" by (auto simp: moves_def)
    with n have "audit_trail c' = audit_trail conn @ (new @ new')" "length (new @ new') \<le> length (rs @ [r])" by simp_all
    moreover have "c' = conn\<lparr>db_actions := db_actions c'\<rparr>" by (subst d, subst c) simp
    ultimately show "?holds (rs @ [r]) c'" by blast
  qed simp
  then show ?thesis by blast
qed

theorem audit_trail_append_only_witness:
  "\<exists>conn' new. serve_all (sample_server (sample_db_action CONFIRMED)) [(sample_api, as_user ''u1'' (ExecuteEndpoint ''ACT-1''))]
     = (sample_server (sample_db_action CONFIRMED))\<lparr>srv_db := Some conn'\<rparr>
   \<and> audit_trail conn' = audit_trail (sample_db_action CONFIRMED) @ new"
  using audit_trail_append_only [OF sample_server_db sample_unique,
    of _ "[(sample_api, as_user ''u1'' (ExecuteEndpoint ''ACT-1''))]"] by blast

section \<open>A preparation through the API\<close>

text \<open>A request whose dependencies resolve and whose body is valid runs its route.\<close>

lemma guarded_runs:
  assumes "get_current_user (api_users env) (hq_demo_user hq) = Inr user" "srv_db srv = Some conn" "get_clock srv = Inr clk"
    and "valid_body (hq_endpoint hq)"
  shows "guarded env srv hq route = route user conn clk"
  using assms by (simp add: guarded_def with_dependencies_def get_conn_def)

lemma get_clock_db [simp]: "get_clock (srv\<lparr>srv_db := d\<rparr>) = get_clock srv"
  by (simp add: get_clock_def)

lemma prepare_served:
  assumes "srv_db srv = Some conn" "serve env srv hq = (srv1, Inr (ActionResponse out user))"
    and "hq_endpoint hq = PrepareEndpoint k why"
  obtains clk conn1 where "get_current_user (api_users env) (hq_demo_user hq) = Inr user" "get_clock srv = Inr clk"
    "srv1 = srv\<lparr>srv_db := Some conn1\<rparr>"
    "prepare_escalation conn k why (to_auth_context user) clk (du_id user) (rc_request_id (hq_context hq)) (hq_uuid12 hq)
      (api_overrides env) (api_defaults env) = Inr (out, conn1)"
proof -
  have g: "guarded env srv hq (\<lambda>user conn clk. committed srv user (prepare_route env hq user conn clk k why))
      = (srv1, Inr (ActionResponse out user))"
    using assms(2,3) by (simp add: serve_def)
  then obtain c clk user' where dep: "with_dependencies env srv hq = Inr (user', c, clk)"
    by (auto simp: guarded_def split: sum.splits)
  from with_dependencies_Inr [OF dep] assms(1) have c: "c = conn" and user': "get_current_user (api_users env) (hq_demo_user hq) = Inr user'"
    and clk: "get_clock srv = Inr clk" by auto
  from g dep c have "valid_body (hq_endpoint hq)" by (auto simp: guarded_def split: if_splits)
  with g guarded_runs [OF user' assms(1) clk]
  have "committed srv user' (prepare_route env hq user' conn clk k why) = (srv1, Inr (ActionResponse out user))" by simp
  then obtain conn1 where r1: "prepare_route env hq user' conn clk k why = Inr (out, conn1)"
    and s1: "srv1 = srv\<lparr>srv_db := Some conn1\<rparr>" and same: "user' = user"
    by (cases "prepare_route env hq user' conn clk k why") auto
  note user = user' [unfolded same]
  have p: "prepare_escalation conn k why (to_auth_context user) clk (du_id user) (rc_request_id (hq_context hq)) (hq_uuid12 hq)
      (api_overrides env) (api_defaults env) = Inr (out, conn1)"
    using r1 by (simp add: prepare_route_def same)
  with user clk s1 show thesis by (intro that)
qed

definition boss :: demo_user where
  "boss = \<lparr>du_id = ''u1'', du_display_name = ''Admin'', du_role = OPERATIONS_ADMIN, du_account_scope = None\<rparr>"

definition boss_api :: api_env where
  "boss_api = sample_api\<lparr>api_users := [(''u1'', boss)]\<rparr>"

lemma boss_prepares:
  defines "hq \<equiv> as_user ''u1'' (PrepareEndpoint ''TCK-1'' ''outage'')"
  obtains out conn1 where "serve boss_api (sample_server sample_db) hq
      = ((sample_server sample_db)\<lparr>srv_db := Some conn1\<rparr>, Inr (ActionResponse out boss))" "success out"
    "prepare_escalation sample_db ''TCK-1'' ''outage'' admin sample_clock ''u1'' (rc_request_id (hq_context hq))
      (hq_uuid12 hq) AGREEMENT_OVERRIDES DEFAULT_SOURCE = Inr (out, conn1)"
proof -
  let ?srv = "sample_server sample_db"
  have auth: "to_auth_context boss = admin" by (simp add: to_auth_context_def admin_def boss_def)
  have user: "get_current_user (api_users boss_api) (hq_demo_user hq) = Inr boss"
    by (simp add: hq_def get_current_user_def as_user_def boss_api_def)
  have clk: "get_clock ?srv = Inr sample_clock"
    by (simp add: get_clock_def sample_server_def sample_clock_def handled_def)
  obtain out conn1 where p: "prepare_escalation sample_db ''TCK-1'' ''outage'' admin sample_clock ''u1'' (rc_request_id (hq_context hq))
      (hq_uuid12 hq) AGREEMENT_OVERRIDES DEFAULT_SOURCE = Inr (out, conn1)" and ok: "success out"
    by (rule sample_prepared)
  then have "prepare_route boss_api hq boss sample_db sample_clock ''TCK-1'' ''outage'' = Inr (out, conn1)"
    by (simp add: prepare_route_def auth handled_def) (simp add: boss_api_def sample_api_def boss_def)
  moreover have "valid_body (hq_endpoint hq)" by (simp add: hq_def as_user_def length_between_def)
  moreover have ep: "hq_endpoint hq = PrepareEndpoint ''TCK-1'' ''outage''" by (simp add: hq_def as_user_def)
  ultimately have run: "serve boss_api ?srv hq = (?srv\<lparr>srv_db := Some conn1\<rparr>, Inr (ActionResponse out boss))"
    using user clk by (simp add: serve_def guarded_runs)
  from run ok p show thesis by (rule that)
qed

end
