(* ===== verification/Api_Disclosure.thy ===== *)
theory Api_Disclosure
  imports Api_Guarantees
begin

text \<open>
  What the HTTP layer tells a caller: the endpoints that only read show nothing beyond the
  caller's scope and own actions, an error never carries internals, and three places where a
  caller sees more, or less, than the documentation of the layer says.
\<close>

section \<open>Reading requests\<close>

fun only_reads :: "endpoint \<Rightarrow> bool" where
  "only_reads (PrepareEndpoint _ _) = False"
| "only_reads (ConfirmEndpoint _ _) = False"
| "only_reads (ExecuteEndpoint _) = False"
| "only_reads _ = True"

definition owns :: "demo_user \<Rightarrow> action_record \<Rightarrow> bool" where
  "owns user rec \<longleftrightarrow> du_role user = OPERATIONS_ADMIN \<or> user_id rec = du_id user"

text \<open>Two databases the caller cannot tell apart: same records in scope, same own actions.\<close>

definition same_for :: "demo_user \<Rightarrow> db \<Rightarrow> db \<Rightarrow> bool" where
  "same_for user c d \<longleftrightarrow> same_view (to_auth_context user) c d
     \<and> filter (owns user) (db_actions c) = filter (owns user) (db_actions d)"

lemma find_owned:
  assumes "distinct (map action_id rows)"
  shows "List.find (\<lambda>r. action_id r = i) (filter P rows) =
    (case List.find (\<lambda>r. action_id r = i) rows of None \<Rightarrow> None | Some r \<Rightarrow> if P r then Some r else None)"
  using assms
proof (induction rows)
  case (Cons r rows)
  show ?case
  proof (cases "action_id r = i")
    case True
    with Cons.prems have "i \<notin> action_id ` set rows" by auto
    then have "List.find (\<lambda>r. action_id r = i) (filter P rows) = None" by (auto simp: find_None_iff)
    with True show ?thesis by simp
  qed (use Cons in auto)
qed simp

lemma owned_action:
  assumes "unique_ids conn"
  shows "get_owned_action_or_404 conn i user =
    (case List.find (\<lambda>r. action_id r = i) (filter (owns user) (db_actions conn)) of
       None \<Rightarrow> Inl (http_exception 404 (''no action '' @ i)) | Some rec \<Rightarrow> Inr (succeeded rec))"
  using assms
  by (auto simp: get_owned_action_or_404_def unique_ids_def find_owned get_action_def owns_def split: option.splits)

lemma get_alerts_view:
  assumes "wf_db c" "wf_db d" "same_for user c d"
  shows "radar_alerts env user c clk types days = radar_alerts env user d clk types days"
proof -
  have "same_view (to_auth_context user) c d" using assms(3) by (simp add: same_for_def)
  from run_operations_radar_view [OF assms(1,2) this] show ?thesis by (simp add: radar_alerts_def)
qed

lemma chat_view:
  assumes "wf_db c" "wf_db d" "same_for user c d" "ids_separated shape c" "ids_separated shape d"
    and "\<And>c d. db_chunks c = db_chunks d \<Longrightarrow> env_fts (api_agent env) c = env_fts (api_agent env) d"
  shows "chat_route env hq user c clk question = chat_route env hq user d clk question"
proof -
  let ?env = "(api_agent env)\<lparr>env_provider := chat_provider env\<rparr>"
  have fts: "env_fts ?env = env_fts (api_agent env)" by simp
  have view: "same_view (arc_auth (chat_context hq user clk)) c d"
    using assms(3) by (simp add: same_for_def chat_context_def)
  have "run_agent ?env question (chat_context hq user clk) c model DEFAULT_BUDGET
      = run_agent ?env question (chat_context hq user clk) d model DEFAULT_BUDGET" for model
    by (rule run_agent_view [OF assms(1,2) view assms(4,5)], unfold fts, rule assms(6))
  then show ?thesis by (simp add: chat_route_def)
qed

lemma guarded_view:
  assumes user: "get_current_user (api_users env) (hq_demo_user hq) = Inr user"
    and "\<And>clk. snd (route user c clk) = snd (route' user d clk)"
  shows "snd (guarded env (srv\<lparr>srv_db := Some c\<rparr>) hq route) = snd (guarded env (srv\<lparr>srv_db := Some d\<rparr>) hq route')"
  using assms by (cases "get_clock srv") (simp_all add: guarded_def with_dependencies_def get_conn_def)

lemma reads_alike:
  assumes "wf_db c" "wf_db d" "same_for user c d" "ids_separated shape c" "ids_separated shape d"
    and "\<And>c d. db_chunks c = db_chunks d \<Longrightarrow> env_fts (api_agent env) c = env_fts (api_agent env) d"
    and user: "get_current_user (api_users env) (hq_demo_user hq) = Inr user" and "only_reads (hq_endpoint hq)"
  shows "snd (serve env (srv\<lparr>srv_db := Some c\<rparr>) hq) = snd (serve env (srv\<lparr>srv_db := Some d\<rparr>) hq)"
proof (cases "hq_endpoint hq")
  case (GetActionEndpoint i)
  have "unique_ids c" "unique_ids d" using assms(1,2) by (simp_all add: wf_db_def unique_ids_def)
  then have "get_owned_action_or_404 c i user = get_owned_action_or_404 d i user"
    using assms(3) by (simp add: owned_action same_for_def)
  with GetActionEndpoint user show ?thesis by (simp add: serve_def get_action_route_def get_conn_def)
next
  case (RunRadarEndpoint types days grouped)
  then show ?thesis
    by (simp add: serve_def) (rule guarded_view [OF user], simp add: run_radar_route_def get_alerts_view [OF assms(1-3)])
next
  case (GetAlertEndpoint i)
  then show ?thesis
    by (simp add: serve_def) (rule guarded_view [OF user], simp add: get_alert_route_def get_alerts_view [OF assms(1-3)])
next
  case (ChatEndpoint q)
  then show ?thesis
    by (simp add: serve_def) (rule guarded_view [OF user], simp add: chat_view [OF assms(1-6)])
qed (use assms(8) in \<open>simp_all add: serve_def ready_def\<close>)



section \<open>Errors\<close>

lemma error_response_status:
  "http_status (error_response e) \<in> {400, 403, 404, 500}"
  "http_status (error_response e) = 500 \<Longrightarrow> http_detail (error_response e) = Some ''an internal error occurred; it has been logged''"
  by (cases e; simp add: http_exception_def)+

text \<open>An error the API may answer with.\<close>

definition safe_error :: "http_error \<Rightarrow> bool" where
  "safe_error e \<longleftrightarrow> http_status e \<in> {400, 403, 404, 422, 500, 503}
     \<and> (http_status e = 500 \<longrightarrow> http_detail e = Some ''an internal error occurred; it has been logged'')"

lemma safe_error_response [simp]: "safe_error (error_response e)"
  using error_response_status [of e] by (auto simp: safe_error_def)

lemma safe_exception [simp]: "safe_error (http_exception st why) \<longleftrightarrow> st \<in> {400, 403, 404, 422, 503}
    \<or> st = 500 \<and> why = ''an internal error occurred; it has been logged''"
  by (auto simp: safe_error_def http_exception_def)

lemma handled_Inl: "handled m = Inl e \<Longrightarrow> safe_error e"
  by (auto simp: handled_def split: sum.splits)

lemma dependencies_Inl: "with_dependencies env srv hq = Inl e \<Longrightarrow> safe_error e"
  by (auto simp: with_dependencies_def get_current_user_def get_conn_def get_clock_def bindE_eq_Inl Let_def
      dest: handled_Inl)

lemma guarded_Inl:
  assumes "guarded env srv hq route = (srv', Inl e)"
    and "\<And>user conn clk. route user conn clk = (srv', Inl e) \<Longrightarrow> srv' = srv \<and> safe_error e"
  shows "srv' = srv \<and> safe_error e"
  using assms by (auto simp: guarded_def unprocessable_def safe_error_def split: sum.splits if_splits
      dest: dependencies_Inl)

lemma committed_Inl: "committed srv user m = (srv', Inl e) \<Longrightarrow> srv' = srv \<and> m = Inl e"
  by (cases m) auto



section \<open>Confirming someone else's action\<close>

lemma confirm_wrong_user:
  assumes "get_action conn i = Some rec" "act_status rec = PENDING_CONFIRMATION" "\<not> dt_less (expires_at rec) (now clk)"
    and "user_id rec \<noteq> user"
  shows "\<exists>msg. confirm_action conn i hash auth clk user = Inr (failed (Some rec) ''wrong_user'' msg, conn)"
  by (rule exI) (use assms in \<open>simp add: confirm_action_def confirm_plan_def\<close>)

text \<open>Reading an action hides it from everyone but its owner, confirming does not: any identity that
  posts a confirmation for another's pending action, whatever hash it sends, is answered with
  the whole record, the payload digest, the target and the evidence included, while reading
  the same action answers 404 as for an id that does not exist.\<close>

theorem confirm_discloses_foreign_action:
  assumes "srv_db srv = Some conn" "get_clock srv = Inr clk"
    and "get_current_user (api_users env) (hq_demo_user hq) = Inr user" "du_role user \<noteq> OPERATIONS_ADMIN"
    and "get_action conn i = Some rec" "act_status rec = PENDING_CONFIRMATION" "\<not> dt_less (expires_at rec) (now clk)"
    and "user_id rec \<noteq> du_id user" "length_between 1 64 i" "length_between 1 128 hash"
  shows "(\<exists>out. serve env srv (hq\<lparr>hq_endpoint := ConfirmEndpoint i hash\<rparr>) = (srv, Inr (ActionResponse out user))
      \<and> \<not> success out \<and> outcome_record out = Some rec)
    \<and> serve env srv (hq\<lparr>hq_endpoint := GetActionEndpoint i\<rparr>) = (srv, Inl (http_exception 404 (''no action '' @ i)))"
proof
  obtain msg where "confirm_action conn i hash (to_auth_context user) clk (du_id user)
      = Inr (failed (Some rec) ''wrong_user'' msg, conn)"
    using confirm_wrong_user [OF assms(5-8)] by blast
  then have "serve env srv (hq\<lparr>hq_endpoint := ConfirmEndpoint i hash\<rparr>)
      = (srv\<lparr>srv_db := Some conn\<rparr>, Inr (ActionResponse (failed (Some rec) ''wrong_user'' msg) user))"
    using assms(1-3,9,10) by (simp add: serve_def guarded_runs confirm_route_def handled_def)
  moreover have "srv\<lparr>srv_db := Some conn\<rparr> = srv" using assms(1) by simp
  ultimately show "\<exists>out. serve env srv (hq\<lparr>hq_endpoint := ConfirmEndpoint i hash\<rparr>) = (srv, Inr (ActionResponse out user))
      \<and> \<not> success out \<and> outcome_record out = Some rec" by simp
  show "serve env srv (hq\<lparr>hq_endpoint := GetActionEndpoint i\<rparr>) = (srv, Inl (http_exception 404 (''no action '' @ i)))"
    using assms by (simp add: serve_def get_action_route_def get_conn_def get_owned_action_or_404_def)
qed

theorem confirm_discloses_foreign_action_witness:
  "\<exists>out. serve sample_api (sample_server (sample_db_action PENDING_CONFIRMATION))
       (as_user ''u2'' HealthEndpoint\<lparr>hq_endpoint := ConfirmEndpoint ''ACT-1'' ''guess''\<rparr>)
     = (sample_server (sample_db_action PENDING_CONFIRMATION), Inr (ActionResponse out u2))
     \<and> outcome_record out = Some (sample_action PENDING_CONFIRMATION)"
proof -
  have clk: "get_clock (sample_server conn) = Inr sample_clock" for conn
    by (simp add: get_clock_def sample_server_def sample_clock_def handled_def)
  have user: "get_current_user (api_users sample_api) (hq_demo_user (as_user ''u2'' HealthEndpoint)) = Inr u2"
    by (simp add: get_current_user_def sample_api_def as_user_def)
  have rec: "get_action (sample_db_action PENDING_CONFIRMATION) ''ACT-1'' = Some (sample_action PENDING_CONFIRMATION)"
    by (simp add: get_action_def sample_db_action_def sample_action_def)
  have lens: "length_between 1 64 ''ACT-1''" "length_between 1 128 ''guess''" by (simp_all add: length_between_def)
  have fresh: "\<not> dt_less (expires_at (sample_action PENDING_CONFIRMATION)) (now sample_clock)"
    by (simp add: sample_action_def dt_less_def timedelta_minutes_def us_per_minute_def)
  have other: "act_status (sample_action PENDING_CONFIRMATION) = PENDING_CONFIRMATION" "du_role u2 \<noteq> OPERATIONS_ADMIN"
    "user_id (sample_action PENDING_CONFIRMATION) \<noteq> du_id u2"
    by (simp_all add: u2_def sample_action_def)
  from confirm_discloses_foreign_action [OF sample_server_db clk user other(2) rec other(1) fresh other(3) lens]
  show ?thesis by blast
qed

section \<open>A live deployment with the default model\<close>

lemma default_unpriced: "estimate_cost PRICING DEFAULT_MODEL a b = Inl e \<Longrightarrow> \<exists>msg. e = KeyError msg"
  by (auto simp: estimate_cost_def PRICING_def DEFAULT_MODEL_def bindE_eq_Inl)

lemma default_no_price: "estimate_cost PRICING DEFAULT_MODEL a b \<noteq> Inr c"
  by (simp add: estimate_cost_def PRICING_def DEFAULT_MODEL_def)

lemma anthropic_default_fails:
  assumes "rq_model request = DEFAULT_MODEL"
  shows "\<exists>e. anthropic_complete create ctx request = Inl e
    \<and> (\<forall>m n. create_with_retries create 0 (nat (rq_max_retries request)) = Inr (m, n) \<longrightarrow> exn_type e \<in> {''KeyError'', ''AssertionError''})"
proof (cases "rq_max_retries request < 0")
  case False
  show ?thesis
  proof (cases "create_with_retries create 0 (nat (rq_max_retries request))")
    case (Inr x)
    obtain m n where x: "x = (m, n)" by (cases x)
    obtain e where e: "estimate_cost PRICING DEFAULT_MODEL (sdk_input_tokens m) (sdk_output_tokens m) = Inl e"
      using default_no_price by (cases "estimate_cost PRICING DEFAULT_MODEL (sdk_input_tokens m) (sdk_output_tokens m)") auto
    from default_unpriced [OF e] have "exn_type (exn_of e) = ''KeyError''" by auto
    with Inr False show ?thesis by (simp add: anthropic_complete_def assms x e)
  qed (simp add: anthropic_complete_def False)
qed (simp add: anthropic_complete_def)

text \<open>C40. With a key but no \<open>PARCELPILOT_MODEL\<close>, the documented default, the real provider never
  answers: the price table has no entry for the default model, so a call Anthropic serves is
  turned into a permanent failure when its cost is estimated, and a response comes from the
  mock only, after a transient failure. The cost gate, which skips models without a price,
  does not stop the call.\<close>

theorem live_default_never_answers:
  assumes "api_key env = Some key" "key \<noteq> []" "api_model env = None"
  shows "\<exists>prov. get_provider env n = Inr (prov, DEFAULT_MODEL)
    \<and> (\<forall>ctx request response. prov ctx request = Inr response \<longrightarrow> rsp_provider response = ''mock'')
    \<and> (\<forall>ctx request message. rq_max_retries request \<ge> 0 \<and> api_create env n 0 = Inr message \<longrightarrow>
         (\<exists>e. prov ctx request = Inl e \<and> exn_type e = ''NonRetryableProviderError''))
    \<and> check_cost_budget (estimate_worst_case_cost_usd DEFAULT_MODEL tokens out_tokens) budget = None"
proof -
  let ?a = "anthropic_candidate (api_create env n) DEFAULT_MODEL"
  let ?prov = "gateway_complete [?a, mock_candidate]"
  have p: "get_provider env n = Inr (?prov, DEFAULT_MODEL)"
    using assms by (simp add: get_provider_def build_default_provider_def new_gateway_def)
  have a: "\<exists>e. cand_complete ?a ctx (scoped request ?a) = Inl e
      \<and> (\<forall>m k. create_with_retries (api_create env n) 0 (nat (rq_max_retries request)) = Inr (m, k)
            \<longrightarrow> exn_type e \<in> {''KeyError'', ''AssertionError''})" for ctx request
    using anthropic_default_fails [of "scoped request ?a" "api_create env n" ctx]
    by (simp add: anthropic_candidate_def scoped_def)
  have "rsp_provider response = ''mock''" if "?prov ctx request = Inr response" for ctx request response
  proof -
    from a [of ctx request] obtain e where "cand_complete ?a ctx (scoped request ?a) = Inl e" by blast
    with that have "mock_complete ctx (scoped request mock_candidate) = Inr response"
      by (auto simp: gateway_complete_def Let_def mock_candidate_def split: sum.splits if_splits)
    then show ?thesis by (auto simp: mock_complete_def Let_def bindE_eq_Inr)
  qed
  moreover have "\<exists>e. ?prov ctx request = Inl e \<and> exn_type e = ''NonRetryableProviderError''"
    if "api_create env n 0 = Inr message" for ctx request message
  proof -
    have "create_with_retries (api_create env n) 0 (nat (rq_max_retries request)) = Inr (message, 0)"
      using that by (simp add: create_returns)
    with a [of ctx request] obtain e where e: "cand_complete ?a ctx (scoped request ?a) = Inl e"
      "exn_type e \<in> {''KeyError'', ''AssertionError''}" by blast
    then have "\<not> is_retryable_provider_error e" by (auto simp: is_retryable_provider_error_def RETRYABLE_EXCEPTION_NAMES_def)
    with e(1) show ?thesis
      by (simp add: gateway_complete_def Let_def failed_attempt_def non_retryable_def)
  qed
  moreover have "estimate_worst_case_cost_usd DEFAULT_MODEL tokens out_tokens = None"
    using default_no_price by (simp add: estimate_worst_case_cost_usd_def split: sum.splits)
  ultimately show ?thesis using p by (auto simp: check_cost_budget_def)
qed

theorem live_default_never_answers_witness:
  "\<exists>prov. get_provider (sample_api\<lparr>api_key := Some ''key''\<rparr>) 0 = Inr (prov, DEFAULT_MODEL)
    \<and> (\<forall>ctx request response. prov ctx request = Inr response \<longrightarrow> rsp_provider response = ''mock'')"
proof -
  have "api_key (sample_api\<lparr>api_key := Some ''key''\<rparr>) = Some ''key''" "''key'' \<noteq> []"
    "api_model (sample_api\<lparr>api_key := Some ''key''\<rparr>) = None" by (simp_all add: sample_api_def)
  from live_default_never_answers [OF this] show ?thesis by blast
qed

end
