(* ===== verification/Request_Effects.thy ===== *)
theory Request_Effects
  imports Api_Disclosure
begin

text \<open>
  What one request of the HTTP layer does to the database, as a function of the database alone:
  the rows it can touch, the ids it can add, and that it leaves the rest and the confirmation
  window as they were.
\<close>

section \<open>What one request does to the database\<close>

definition written :: "http_error + action_outcome \<times> db \<Rightarrow> db \<Rightarrow> db" where
  "written m conn = (case m of Inl _ \<Rightarrow> conn | Inr (_, conn') \<Rightarrow> conn')"

text \<open>The database after a request of \<open>user\<close> that passed the dependencies and the body check.\<close>

definition effect :: "api_env \<Rightarrow> http_request \<Rightarrow> demo_user \<Rightarrow> clock \<Rightarrow> db \<Rightarrow> db" where
  "effect env hq user clk conn =
     (case hq_endpoint hq of
        PrepareEndpoint k why \<Rightarrow> written (prepare_route env hq user conn clk k why) conn
      | ConfirmEndpoint i hash \<Rightarrow> written (confirm_route user conn clk i hash) conn
      | ExecuteEndpoint i \<Rightarrow> written (execute_route user conn clk i) conn
      | _ \<Rightarrow> conn)"

lemma committed_written:
  "srv_db srv = Some conn \<Longrightarrow> fst (committed srv user m) = srv\<lparr>srv_db := Some (written m conn)\<rparr>"
  by (cases m) (auto simp: written_def)

lemma serve_effect:
  assumes "srv_db srv = Some conn"
  shows "fst (serve env srv hq) = (case with_dependencies env srv hq of
      Inl _ \<Rightarrow> srv
    | Inr (user, _, clk) \<Rightarrow>
        if valid_body (hq_endpoint hq) then srv\<lparr>srv_db := Some (effect env hq user clk conn)\<rparr> else srv)"
proof (cases "with_dependencies env srv hq")
  case (Inl e)
  then show ?thesis by (simp add: serve_def guarded_def split: endpoint.split)
next
  case (Inr x)
  obtain user c clk where x: "x = (user, c, clk)" by (cases x)
  with with_dependencies_Inr [of env srv hq user c clk] Inr assms have c: "c = conn" by simp
  have same: "srv\<lparr>srv_db := Some conn\<rparr> = srv" using assms by simp
  show ?thesis
    using Inr by (simp add: x c serve_def guarded_def effect_def committed_written [OF assms] same split: endpoint.split)
qed

text \<open>A plan carried out with no other call in between.\<close>

definition perform :: "error + plan \<Rightarrow> db \<Rightarrow> db" where
  "perform m conn = (case m of Inr (Swap rec e _) \<Rightarrow> fst (save_action_if_status conn rec e) | _ \<Rightarrow> conn)"

lemma perform_simps [simp]:
  "perform (Inl e) conn = conn" "perform (Inr (Answer out)) conn = conn"
  "perform (Inr (Swap rec st out)) conn = fst (save_action_if_status conn rec st)"
  by (simp_all add: perform_def)

lemma confirm_performs:
  assumes "unique_ids conn"
  shows "written (confirm_route user conn clk i hash) conn
    = perform (confirm_plan conn i hash (to_auth_context user) clk (du_id user)) conn"
proof (cases "confirm_plan conn i hash (to_auth_context user) clk (du_id user)")
  case (Inr p)
  show ?thesis
  proof (cases p)
    case (Swap rec e out)
    note p = Inr [unfolded Swap]
    obtain conn' where c: "confirm_action conn i hash (to_auth_context user) clk (du_id user) = Inr (out, conn')"
      by (rule confirm_alone [OF assms p])
    then have "conn' = fst (save_action_if_status conn rec e)"
      by (auto simp: confirm_action_def p bindE_eq_Inr split: prod.splits bool.splits)
    with c p show ?thesis by (simp add: written_def confirm_route_def handled_def)
  qed (use Inr in \<open>simp add: written_def confirm_route_def handled_def confirm_action_def\<close>)
qed (simp add: written_def confirm_route_def handled_def confirm_action_def)

lemma execute_performs:
  assumes "unique_ids conn"
  shows "written (execute_route user conn clk i) conn
    = (if require_owner_or_admin conn i user = Inr () then perform (Inr (execute_plan conn i clk)) conn else conn)"
proof (cases "require_owner_or_admin conn i user")
  case (Inr x)
  show ?thesis
  proof (cases rule: execute_plan_cases [of conn i clk])
    case (go rec)
    obtain conn' where "execute_action conn i clk
        = Inr (succeeded (rec\<lparr>act_status := EXECUTED, executed_at := Some (now clk)\<rparr>), conn')"
      by (rule execute_goes_through [OF assms go(1,2), of clk])
    moreover from this have "conn' = perform (Inr (execute_plan conn i clk)) conn"
      by (auto simp: execute_action_def go(3) bindE_eq_Inr split: prod.splits bool.splits)
    ultimately show ?thesis using Inr by (simp add: written_def execute_route_def handled_def)
  qed (use Inr in \<open>auto simp: written_def execute_route_def handled_def execute_action_def\<close>)
qed (simp add: written_def execute_route_def)

lemma prepare_performs:
  obtains "written (prepare_route env hq user conn clk k why) conn = conn"
  | rec out where "written (prepare_route env hq user conn clk k why) conn = conn\<lparr>db_actions := db_actions conn @ [rec]\<rparr>"
    "action_id rec = ''ACT-'' @ hq_uuid12 hq" "user_id rec = du_id user" "act_status rec = PENDING_CONFIRMATION"
    "expires_at rec = dt_add (now clk) (timedelta_minutes 15)" "prepared_at rec = now clk" "confirmed_at rec = None"
    "executed_at rec = None" "distinct (map fst (proposed_change rec))"
    "action_id rec \<notin> action_id ` set (db_actions conn)"
proof (cases "prepare_route env hq user conn clk k why")
  case (Inl e)
  then show thesis by (intro that(1)) (simp add: written_def)
next
  case (Inr x)
  obtain out conn' where x: "x = (out, conn')" by (cases x)
  from prepare_outcome [OF Inr [unfolded x prepare_route_def handled_Inr]] that Inr show thesis
    by (cases "success out") (auto simp: written_def x)
qed

section \<open>The confirmation window\<close>

text \<open>No action is past its expiry by the clock.\<close>

definition window_open :: "clock \<Rightarrow> db \<Rightarrow> bool" where
  "window_open clk conn \<longleftrightarrow> (\<forall>rec \<in> set (db_actions conn). \<not> dt_less (expires_at rec) (now clk))"

lemma window_get: "window_open clk conn \<Longrightarrow> get_action conn i = Some rec \<Longrightarrow> \<not> dt_less (expires_at rec) (now clk)"
  unfolding window_open_def get_action_def by (blast dest: find_Some_mem)

lemma fifteen_minutes_open [simp]: "\<not> dt_less (dt_add d (timedelta_minutes 15)) d"
  by (simp add: dt_less_def timedelta_minutes_def us_per_minute_def)

text \<open>Where a record of the table can come from: it was there, or it is new, or it is a record that
  was there with its progress fields rewritten, and expired only if its window has passed.\<close>

definition rewritten :: "clock \<Rightarrow> action_record \<Rightarrow> action_record \<Rightarrow> bool" where
  "rewritten clk rec rec' \<longleftrightarrow> audit_of rec' = audit_of rec
     \<and> (act_status rec' = EXPIRED \<longrightarrow> act_status rec = EXPIRED \<or> dt_less (expires_at rec) (now clk))
     \<and> (act_status rec \<in> {CONFIRMED, EXECUTED} \<longrightarrow> act_status rec' \<in> {CONFIRMED, EXECUTED})
     \<and> confirmed_at rec' \<in> {confirmed_at rec, Some (now clk)} \<and> executed_at rec' \<in> {executed_at rec, Some (now clk)}"

definition touched :: "clock \<Rightarrow> db \<Rightarrow> action_record \<Rightarrow> bool" where
  "touched clk conn rec' \<longleftrightarrow>
     (\<exists>rec \<in> set (db_actions conn). rewritten clk rec rec')
     \<or> action_id rec' \<notin> action_id ` set (db_actions conn) \<and> act_status rec' = PENDING_CONFIRMATION
         \<and> expires_at rec' = dt_add (now clk) (timedelta_minutes 15) \<and> prepared_at rec' = now clk
         \<and> confirmed_at rec' = None \<and> executed_at rec' = None \<and> distinct (map fst (proposed_change rec'))"

lemma rewritten_refl [simp]: "rewritten clk rec rec"
  by (simp add: rewritten_def)

lemma touched_old: "rec \<in> set (db_actions conn) \<Longrightarrow> touched clk conn rec"
  unfolding touched_def by (blast intro: rewritten_refl)

lemma audit_of_keeps: "audit_of r = audit_of s \<Longrightarrow> expires_at r = expires_at s \<and> user_id r = user_id s
    \<and> action_id r = action_id s \<and> payload_hash r = payload_hash s \<and> target r = target s \<and> proposed_change r = proposed_change s
    \<and> prepared_at r = prepared_at s"
  by (cases r; cases s) (simp add: audit_of_def)

lemma rewrittenD:
  assumes "rewritten clk rec rec'"
  shows "audit_of rec' = audit_of rec" "expires_at rec' = expires_at rec"
    and "act_status rec' = EXPIRED \<Longrightarrow> act_status rec = EXPIRED \<or> dt_less (expires_at rec) (now clk)"
    and "act_status rec \<in> {CONFIRMED, EXECUTED} \<Longrightarrow> act_status rec' \<in> {CONFIRMED, EXECUTED}"
    and "confirmed_at rec' = confirmed_at rec \<or> confirmed_at rec' = Some (now clk)"
    and "executed_at rec' = executed_at rec \<or> executed_at rec' = Some (now clk)"
  using assms audit_of_keeps [of rec' rec] by (simp_all add: rewritten_def)

lemma rewritten_trans:
  assumes ab: "rewritten clk a b" and bc: "rewritten clk b c"
  shows "rewritten clk a c"
  unfolding rewritten_def
proof (intro conjI impI)
  show "audit_of c = audit_of a" by (simp only: rewrittenD(1) [OF ab] rewrittenD(1) [OF bc])
  show "act_status a = EXPIRED \<or> dt_less (expires_at a) (now clk)" if "act_status c = EXPIRED"
    using rewrittenD(3) [OF bc that] rewrittenD(3) [OF ab] rewrittenD(2) [OF ab] by auto
  show "act_status c \<in> {CONFIRMED, EXECUTED}" if "act_status a \<in> {CONFIRMED, EXECUTED}"
    by (rule rewrittenD(4) [OF bc rewrittenD(4) [OF ab that]])
  show "confirmed_at c \<in> {confirmed_at a, Some (now clk)}" using rewrittenD(5) [OF ab] rewrittenD(5) [OF bc] by auto
  show "executed_at c \<in> {executed_at a, Some (now clk)}" using rewrittenD(6) [OF ab] rewrittenD(6) [OF bc] by auto
qed

lemma audit_of_status [simp]: "audit_of (r\<lparr>act_status := a, confirmed_at := b\<rparr>) = audit_of r"
  by (simp add: audit_of_def)

lemma unique_action:
  "unique_ids conn \<Longrightarrow> row \<in> set (db_actions conn) \<Longrightarrow> get_action conn (action_id row) = Some row"
  using find_distinct_key [of action_id "db_actions conn" row] by (simp add: get_action_def unique_ids_def)

lemma swap_touches:
  assumes "rec' \<in> set (db_actions (fst (save_action_if_status conn rec e)))"
    and "\<And>row. row \<in> set (db_actions conn) \<Longrightarrow> action_id row = action_id rec \<Longrightarrow> act_status row = e \<Longrightarrow>
      rewritten clk row (cas_write rec row)"
  shows "touched clk conn rec'"
proof -
  from assms(1) obtain row where row: "row \<in> set (db_actions conn)" "rec' = (if cas_hit rec e row then cas_write rec row else row)"
    by (auto simp: save_action_if_status_def)
  have "rewritten clk row rec'"
  proof (cases "cas_hit rec e row")
    case True
    with assms(2) [OF row(1)] row(2) show ?thesis by (simp add: cas_hit_def)
  qed (simp add: row(2))
  with row(1) show ?thesis by (auto simp: touched_def)
qed

lemma effect_touches:
  assumes "unique_ids conn" "rec' \<in> set (db_actions (effect env hq user clk conn))"
  shows "touched clk conn rec'"
proof (cases "hq_endpoint hq")
  case (PrepareEndpoint k why)
  with assms(2) show ?thesis
    by (cases rule: prepare_performs [of env hq user conn clk k why]) (auto simp: effect_def touched_old, simp add: touched_def)
next
  case (ConfirmEndpoint i hash)
  let ?p = "confirm_plan conn i hash (to_auth_context user) clk (du_id user)"
  from assms(2) ConfirmEndpoint have r: "rec' \<in> set (db_actions (perform ?p conn))"
    by (simp add: effect_def confirm_performs [OF assms(1)])
  show ?thesis
  proof (cases "\<exists>rec e out. ?p = Inr (Swap rec e out)")
    case True
    then obtain rec e out where p: "?p = Inr (Swap rec e out)" by blast
    obtain rec0 where g: "get_action conn i = Some rec0" and e: "e = PENDING_CONFIRMATION"
      and rec: "dt_less (expires_at rec0) (now clk) \<and> rec = rec0\<lparr>act_status := EXPIRED, failure_reason := Some ''confirmation window expired''\<rparr>
        \<or> rec = rec0\<lparr>act_status := CONFIRMED, confirmed_at := Some (now clk)\<rparr>"
      by (rule confirm_plan_Swap [OF p]) auto
    show ?thesis
    proof (rule swap_touches)
      show "rec' \<in> set (db_actions (fst (save_action_if_status conn rec e)))" using r p by simp
      fix row assume row: "row \<in> set (db_actions conn)" "action_id row = action_id rec" and st: "act_status row = e"
      have "action_id rec = i" using rec actions.fetch_key [OF g] by auto
      with unique_action [OF assms(1) row(1)] g row(2) have "row = rec0" by simp
      with rec st e show "rewritten clk row (cas_write rec row)" by (auto simp: rewritten_def audit_of_def cas_write_def)
    qed
  qed (use r in \<open>auto simp: perform_def touched_old split: sum.splits plan.splits\<close>)
next
  case (ExecuteEndpoint i)
  with assms(2) have r: "rec' \<in> set (db_actions conn) \<or> rec' \<in> set (db_actions (perform (Inr (execute_plan conn i clk)) conn))"
    by (auto simp: effect_def execute_performs [OF assms(1)] split: if_splits)
  then show ?thesis
  proof (cases rule: execute_plan_cases [of conn i clk])
    case (go rec)
    let ?rec' = "rec\<lparr>act_status := EXECUTED, executed_at := Some (now clk)\<rparr>"
    have "rewritten clk row (cas_write ?rec' row)" if row: "row \<in> set (db_actions conn)" "action_id row = action_id ?rec'"
      and st: "act_status row = CONFIRMED" for row
    proof -
      from unique_action [OF assms(1) row(1)] go(1) row(2) actions.fetch_key [OF go(1)] have "row = rec" by simp
      with st show ?thesis by (simp add: rewritten_def audit_of_def cas_write_def)
    qed
    with r show ?thesis
      unfolding go(3) perform_simps by (elim disjE) (auto intro: touched_old swap_touches)
  qed (use r in \<open>auto intro: touched_old\<close>)
qed (use assms(2) in \<open>simp_all add: effect_def touched_old\<close>)

lemma effect_frame:
  "effect env hq user clk conn = conn\<lparr>db_actions := db_actions (effect env hq user clk conn)\<rparr>" if "unique_ids conn"
proof -
  have p: "perform m conn = conn\<lparr>db_actions := db_actions (perform m conn)\<rparr>" for m
    by (cases m) (simp_all add: perform_def save_action_if_status_def split: plan.splits)
  show ?thesis
  proof (cases "hq_endpoint hq")
    case (PrepareEndpoint k why)
    then show ?thesis
      by (cases rule: prepare_performs [of env hq user conn clk k why]) (simp_all add: effect_def)
  qed (use p in \<open>simp_all add: effect_def confirm_performs [OF that] execute_performs [OF that]\<close>)
qed

lemma effect_unique:
  assumes "unique_ids conn"
  shows "unique_ids (effect env hq user clk conn)"
proof -
  have p: "unique_ids (perform m conn)" for m
    using assms by (cases m) (simp_all add: perform_def unique_ids_def swap_keeps_ids split: plan.splits)
  show ?thesis
  proof (cases "hq_endpoint hq")
    case (PrepareEndpoint k why)
    with assms show ?thesis
      by (cases rule: prepare_performs [of env hq user conn clk k why]) (simp_all add: effect_def unique_ids_def)
  qed (use p assms in \<open>simp_all add: effect_def confirm_performs execute_performs\<close>)
qed

lemma effect_window:
  assumes "unique_ids conn" "window_open clk conn"
  shows "window_open clk (effect env hq user clk conn)"
proof -
  have "\<not> dt_less (expires_at rec') (now clk)" if "touched clk conn rec'" for rec'
    using that assms(2) by (auto simp: touched_def rewritten_def window_open_def dest!: audit_of_keeps)
  with effect_touches [OF assms(1)] show ?thesis by (auto simp: window_open_def)
qed

lemma effect_ids:
  assumes "unique_ids conn"
  shows "action_id ` set (db_actions conn) \<subseteq> action_id ` set (db_actions (effect env hq user clk conn))"
    and "action_id ` set (db_actions (effect env hq user clk conn))
      \<subseteq> insert (''ACT-'' @ hq_uuid12 hq) (action_id ` set (db_actions conn))"
proof -
  let ?new = "action_id ` set (db_actions (effect env hq user clk conn))"
  have p: "action_id ` set (db_actions (perform m conn)) = action_id ` set (db_actions conn)" for m
    by (cases m) (simp_all add: perform_def swap_keeps_ids split: plan.splits flip: set_map)
  have "action_id ` set (db_actions conn) \<subseteq> ?new \<and> ?new \<subseteq> insert (''ACT-'' @ hq_uuid12 hq) (action_id ` set (db_actions conn))"
  proof (cases "hq_endpoint hq")
    case (PrepareEndpoint k why)
    then show ?thesis
      by (cases rule: prepare_performs [of env hq user conn clk k why]) (auto simp: effect_def)
  qed (use p in \<open>auto simp: effect_def confirm_performs [OF assms] execute_performs [OF assms]\<close>)
  then show "action_id ` set (db_actions conn) \<subseteq> ?new"
    "?new \<subseteq> insert (''ACT-'' @ hq_uuid12 hq) (action_id ` set (db_actions conn))" by simp_all
qed

end
