(* ===== verification/Api_Sessions.thy ===== *)
theory Api_Sessions
  imports Request_Effects
begin

text \<open>
  Whole sessions of the HTTP layer. The requests of other identities are invisible to what a
  caller reads (an unwinding argument, stated as a locale and interpreted on the server), and a
  proposal stays confirmable, under the fixed snapshot clock, whatever others do.
\<close>

section \<open>Unwinding\<close>

text \<open>
  \<open>alike rs s t\<close>: with the requests \<open>rs\<close> still to come, the observer cannot tell \<open>s\<close> from \<open>t\<close>.
  A visible request keeps both sides alike, an invisible one may run on the left side only.
\<close>

locale unwinding =
  fixes step :: "'s \<Rightarrow> 'r \<Rightarrow> 's" and visible :: "'r \<Rightarrow> bool" and alike :: "'r list \<Rightarrow> 's \<Rightarrow> 's \<Rightarrow> bool"
  assumes step_consistent: "alike (r # rs) s t \<Longrightarrow> visible r \<Longrightarrow> alike rs (step s r) (step t r)"
    and local_respect: "alike (r # rs) s t \<Longrightarrow> \<not> visible r \<Longrightarrow> alike rs (step s r) t"
begin

lemma purge: "alike rs s t \<Longrightarrow> alike [] (foldl step s rs) (foldl step t (filter visible rs))"
  by (induction rs arbitrary: s t) (auto dest: step_consistent local_respect)

end

section \<open>The database as one caller sees it\<close>

definition own :: "demo_user \<Rightarrow> db \<Rightarrow> action_record list" where
  "own A conn = filter (\<lambda>r. user_id r = du_id A) (db_actions conn)"

definition restrict :: "demo_user \<Rightarrow> db \<Rightarrow> db" where
  "restrict A conn = conn\<lparr>db_actions := own A conn\<rparr>"

lemma restrict_actions [simp]: "db_actions (restrict A conn) = own A conn"
  by (simp add: restrict_def)

lemma own_restrict [simp]: "own A (restrict A conn) = own A conn"
  by (simp add: own_def)

lemma restrict_update [simp]: "restrict A (conn\<lparr>db_actions := acts\<rparr>) = conn\<lparr>db_actions := filter (\<lambda>r. user_id r = du_id A) acts\<rparr>"
  by (simp add: restrict_def own_def)

lemma restrict_unique: "unique_ids conn \<Longrightarrow> unique_ids (restrict A conn)"
  by (simp add: unique_ids_def own_def distinct_map_filter)

lemma restrict_window: "window_open clk conn \<Longrightarrow> window_open clk (restrict A conn)"
  by (simp add: window_open_def own_def)

lemma restrict_reads [simp]: "get_ticket (restrict A conn) = get_ticket conn" "calculate_sla (restrict A conn) = calculate_sla conn"
  by (simp_all add: restrict_def fun_eq_iff)

lemma restrict_get:
  assumes "unique_ids conn"
  shows "get_action (restrict A conn) i =
    (case get_action conn i of None \<Rightarrow> None | Some rec \<Rightarrow> if user_id rec = du_id A then Some rec else None)"
  using assms by (simp add: get_action_def restrict_def own_def find_owned unique_ids_def)

lemma restrict_swap:
  "restrict A (fst (save_action_if_status conn rec e)) = fst (save_action_if_status (restrict A conn) rec e)"
proof -
  have "(\<lambda>r. user_id r = du_id A) \<circ> (\<lambda>row. if cas_hit rec e row then cas_write rec row else row) = (\<lambda>r. user_id r = du_id A)"
    by (auto simp: fun_eq_iff cas_write_def)
  then show ?thesis by (simp add: restrict_def own_def save_action_if_status_def filter_map)
qed

lemma restrict_swap_foreign:
  assumes "unique_ids conn" "get_action conn (action_id rec) = Some rec0" "user_id rec0 \<noteq> du_id A"
  shows "restrict A (fst (save_action_if_status conn rec e)) = restrict A conn"
proof -
  have "action_id row \<noteq> action_id rec" if "row \<in> set (own A conn)" for row
  proof
    assume a: "action_id row = action_id rec"
    from that have row: "row \<in> set (db_actions conn)" "user_id row = du_id A" by (auto simp: own_def)
    from unique_action [OF assms(1) row(1)] a assms(2,3) row(2) show False by simp
  qed
  then have "map (\<lambda>row. if cas_hit rec e row then cas_write rec row else row) (own A conn) = own A conn"
    by (auto simp: cas_hit_def intro: map_idI)
  then have "fst (save_action_if_status (restrict A conn) rec e) = restrict A conn"
    unfolding save_action_if_status_def fst_conv restrict_actions by (simp add: restrict_def)
  then show ?thesis by (simp only: restrict_swap)
qed

section \<open>One request, as one caller sees it\<close>

text \<open>A request under the caller's own id: what it does to the caller's part depends on that part only.\<close>

lemma confirm_sees_own:
  assumes "unique_ids conn" "window_open clk conn"
  shows "restrict A (perform (confirm_plan conn i hash auth clk (du_id A)) conn)
    = perform (confirm_plan (restrict A conn) i hash auth clk (du_id A)) (restrict A conn)"
proof (cases "get_action conn i")
  case (Some rec)
  show ?thesis
  proof (cases "user_id rec = du_id A")
    case True
    have "confirm_plan (restrict A conn) i hash auth clk (du_id A) = confirm_plan conn i hash auth clk (du_id A)"
      by (simp add: confirm_plan_def restrict_get [OF assms(1)] Some True read_ticket_def)
    then show ?thesis by (simp add: perform_def restrict_swap split: sum.splits plan.splits)
  next
    case False
    have "\<exists>out. confirm_plan conn i hash auth clk (du_id A) = Inr (Answer out)"
      using window_get [OF assms(2) Some] False by (simp add: confirm_plan_def Some)
    moreover have "\<exists>out. confirm_plan (restrict A conn) i hash auth clk (du_id A) = Inr (Answer out)"
      by (simp add: confirm_plan_def restrict_get [OF assms(1)] Some False)
    ultimately show ?thesis by auto
  qed
qed (simp add: confirm_plan_def restrict_get [OF assms(1)])

text \<open>A confirmation under another id leaves the caller's part alone.\<close>

lemma confirm_foreign:
  assumes "unique_ids conn" "window_open clk conn" "user \<noteq> du_id A"
  shows "restrict A (perform (confirm_plan conn i hash auth clk user) conn) = restrict A conn"
proof (cases "\<exists>rec e out. confirm_plan conn i hash auth clk user = Inr (Swap rec e out)")
  case True
  then obtain rec e out where p: "confirm_plan conn i hash auth clk user = Inr (Swap rec e out)" by blast
  obtain rec0 where r: "get_action conn i = Some rec0" "user_id rec0 = user" "action_id rec = action_id rec0"
    by (rule confirm_plan_Swap [OF p]) (use window_get [OF assms(2)] in auto)
  then have "get_action conn (action_id rec) = Some rec0" using actions.fetch_key [OF r(1)] by simp
  from restrict_swap_foreign [OF assms(1) this] r(2) assms(3) p show ?thesis by simp
qed (auto simp: perform_def split: sum.splits plan.splits)

lemma execute_sees_own:
  assumes "unique_ids conn"
  shows "restrict A (perform (Inr (execute_plan conn i clk)) conn)
    = perform (Inr (execute_plan (restrict A conn) i clk)) (restrict A conn)"
proof (cases rule: execute_plan_cases [of conn i clk])
  case (go rec)
  let ?rec' = "rec\<lparr>act_status := EXECUTED, executed_at := Some (now clk)\<rparr>"
  have i: "get_action conn (action_id ?rec') = Some rec" using go(1) actions.fetch_key [OF go(1)] by simp
  show ?thesis
  proof (cases "user_id rec = du_id A")
    case True
    then have "execute_plan (restrict A conn) i clk = execute_plan conn i clk"
      by (simp add: execute_plan_def restrict_get [OF assms] go(1))
    then show ?thesis by (simp add: go(3) restrict_swap)
  next
    case False
    then have "perform (Inr (execute_plan (restrict A conn) i clk)) (restrict A conn) = restrict A conn"
      by (simp add: execute_plan_def restrict_get [OF assms] go(1))
    with restrict_swap_foreign [OF assms i False] show ?thesis by (simp add: go(3))
  qed
next
  case (again rec)
  then show ?thesis by (simp add: execute_plan_def restrict_get [OF assms])
next
  case (wrong rec)
  then show ?thesis by (auto simp: execute_plan_def restrict_get [OF assms])
next
  case none
  then show ?thesis by (auto simp: execute_plan_def restrict_get [OF assms])
qed

lemma restrict_idem [simp]: "restrict A (restrict A conn) = restrict A conn"
  by (simp add: restrict_def own_def)

lemma prepare_sees_own:
  assumes "''ACT-'' @ uuid12 \<notin> action_id ` set (db_actions conn)"
  shows "map_sum id (restrict A \<circ> snd) (prepare_escalation conn k why auth clk user request uuid12 overrides defaults)
    = map_sum id (restrict A \<circ> snd) (prepare_escalation (restrict A conn) k why auth clk user request uuid12 overrides defaults)"
proof -
  have same: "read_ticket (restrict A conn) = read_ticket conn" by (simp add: read_ticket_def fun_eq_iff)
  have ins: "map_sum id (restrict A \<circ> snd) (bindE (insert_action conn rec) (\<lambda>conn'. Inr (succeeded rec, conn')))
      = map_sum id (restrict A \<circ> snd) (bindE (insert_action (restrict A conn) rec) (\<lambda>conn'. Inr (succeeded rec, conn')))"
    if "action_id rec = ''ACT-'' @ uuid12" for rec
  proof -
    from that assms have "action_id rec \<notin> action_id ` set (db_actions conn)" "action_id rec \<notin> action_id ` set (own A conn)"
      by (auto simp: own_def)
    then show ?thesis by (simp add: insert_action_def) (simp add: restrict_def own_def)
  qed
  show ?thesis
  proof (cases "read_ticket conn k auth (tz_of clk) None ''not_found''")
    case (Inr r)
    show ?thesis
    proof (cases r)
      case r: (Inr tkt)
      show ?thesis
      proof (cases "calculate_sla conn k auth clk overrides defaults")
        case s: (Inr d)
        show ?thesis
        proof (cases "result d")
          case (Some sla)
          then show ?thesis
            unfolding prepare_escalation_def same Inr r restrict_reads s bindE.simps sum.case Some option.case Let_def
            by (simp add: ins)
        qed (simp add: prepare_escalation_def same Inr r s)
      qed (simp add: prepare_escalation_def same Inr r)
    qed (simp add: prepare_escalation_def same Inr)
  qed (simp add: prepare_escalation_def same)
qed

lemma written_handled: "f (written (handled m) conn) = (case map_sum id (f \<circ> snd) m of Inl e \<Rightarrow> f conn | Inr y \<Rightarrow> y)"
  by (cases m) (auto simp: written_def handled_def)

text \<open>Whether a request may concern the caller: it is the caller's own, or an operations admin's.\<close>

fun visible_to :: "demo_user \<Rightarrow> api_env \<times> http_request \<Rightarrow> bool" where
  "visible_to A (env, hq) =
     (case get_current_user (api_users env) (hq_demo_user hq) of
        Inl _ \<Rightarrow> False
      | Inr user \<Rightarrow> du_id user = du_id A \<or> du_role user = OPERATIONS_ADMIN)"

lemma effect_sees_own:
  assumes "unique_ids conn" "window_open clk conn" "''ACT-'' @ hq_uuid12 hq \<notin> action_id ` set (db_actions conn)"
    and user: "du_id user = du_id A \<or> du_role user = OPERATIONS_ADMIN"
  shows "restrict A (effect env hq user clk conn) = restrict A (effect env hq user clk (restrict A conn))"
proof -
  note unique' = restrict_unique [OF assms(1), of A] and open' = restrict_window [OF assms(2), of A]
  show ?thesis
  proof (cases "hq_endpoint hq")
    case (PrepareEndpoint k why)
    then show ?thesis
      by (simp add: effect_def prepare_route_def written_handled [of "restrict A"] prepare_sees_own [OF assms(3)]
          split: sum.split)
  next
    case (ConfirmEndpoint i hash)
    have "restrict A (perform (confirm_plan conn i hash (to_auth_context user) clk (du_id user)) conn)
      = restrict A (perform (confirm_plan (restrict A conn) i hash (to_auth_context user) clk (du_id user)) (restrict A conn))"
    proof (cases "du_id user = du_id A")
      case True
      with confirm_sees_own [OF assms(1,2)] confirm_sees_own [OF unique' open'] show ?thesis by simp
    next
      case False
      from confirm_foreign [OF assms(1,2) False] confirm_foreign [OF unique' open' False] show ?thesis by simp
    qed
    then show ?thesis
      by (simp add: effect_def ConfirmEndpoint confirm_performs [OF assms(1)] confirm_performs [OF unique'])
  next
    case (ExecuteEndpoint i)
    let ?out = "restrict A (perform (Inr (execute_plan conn i clk)) conn)"
    have seen: "restrict A (perform (Inr (execute_plan (restrict A conn) i clk)) (restrict A conn)) = ?out"
      using execute_sees_own [OF assms(1)] execute_sees_own [OF unique'] by simp
    have "restrict A (written (execute_route user conn clk i) conn)
      = restrict A (written (execute_route user (restrict A conn) clk i) (restrict A conn))"
    proof (cases "get_action conn i")
      case (Some rec)
      show ?thesis
      proof (cases "user_id rec = du_id A")
        case True
        with Some user have "require_owner_or_admin conn i user = Inr ()" "require_owner_or_admin (restrict A conn) i user = Inr ()"
          by (auto simp: require_owner_or_admin_def restrict_get [OF assms(1)])
        then show ?thesis by (simp add: execute_performs [OF assms(1)] execute_performs [OF unique'] seen)
      next
        case False
        with Some have none: "get_action (restrict A conn) i = None" by (simp add: restrict_get [OF assms(1)])
        then have "perform (Inr (execute_plan (restrict A conn) i clk)) (restrict A conn) = restrict A conn"
          by (simp add: execute_plan_def)
        with seen have "?out = restrict A conn" by simp
        moreover have "require_owner_or_admin (restrict A conn) i user \<noteq> Inr ()" by (simp add: require_owner_or_admin_def none)
        ultimately show ?thesis by (simp add: execute_performs [OF assms(1)] execute_performs [OF unique'])
      qed
    next
      case None
      then show ?thesis
        by (simp add: execute_performs [OF assms(1)] execute_performs [OF unique'] require_owner_or_admin_def
            restrict_get [OF assms(1)])
    qed
    then show ?thesis by (simp add: effect_def ExecuteEndpoint)
  qed (simp_all add: effect_def)
qed

lemma effect_unseen:
  assumes "unique_ids conn" "window_open clk conn" "du_id user \<noteq> du_id A" "du_role user \<noteq> OPERATIONS_ADMIN"
  shows "restrict A (effect env hq user clk conn) = restrict A conn"
proof (cases "hq_endpoint hq")
  case (PrepareEndpoint k why)
  with assms(3) show ?thesis
    by (cases rule: prepare_performs [of env hq user conn clk k why]) (simp_all add: effect_def, simp add: restrict_def own_def)
next
  case (ConfirmEndpoint i hash)
  with confirm_foreign [OF assms(1-3)] show ?thesis by (simp add: effect_def confirm_performs [OF assms(1)])
next
  case (ExecuteEndpoint i)
  have "restrict A (perform (Inr (execute_plan conn i clk)) conn) = restrict A conn"
    if "require_owner_or_admin conn i user = Inr ()"
  proof -
    from that assms(4) obtain rec where rec: "get_action conn i = Some rec" "user_id rec = du_id user"
      by (auto simp: require_owner_or_admin_def bindE_eq_Inr split: if_splits)
    then have "perform (Inr (execute_plan (restrict A conn) i clk)) (restrict A conn) = restrict A conn"
      using assms(3) by (simp add: execute_plan_def restrict_get [OF assms(1)])
    then show ?thesis by (simp add: execute_sees_own [OF assms(1)])
  qed
  then show ?thesis by (simp add: effect_def ExecuteEndpoint execute_performs [OF assms(1)])
qed (simp_all add: effect_def)

section \<open>Sessions, as one caller sees them\<close>

definition effect_at :: "api_env \<Rightarrow> server \<Rightarrow> http_request \<Rightarrow> db \<Rightarrow> db" where
  "effect_at env srv hq conn =
     (case get_current_user (api_users env) (hq_demo_user hq) of
        Inl _ \<Rightarrow> conn
      | Inr user \<Rightarrow> (case get_clock srv of
            Inl _ \<Rightarrow> conn
          | Inr clk \<Rightarrow> if valid_body (hq_endpoint hq) then effect env hq user clk conn else conn))"

lemma serve_effect_at:
  assumes "srv_db srv = Some conn"
  shows "fst (serve env srv hq) = srv\<lparr>srv_db := Some (effect_at env srv hq conn)\<rparr>"
proof -
  have same: "srv\<lparr>srv_db := Some conn\<rparr> = srv" using assms by simp
  show ?thesis
    by (simp add: serve_effect [OF assms] with_dependencies_def get_conn_def assms effect_at_def same split: sum.split)
qed

lemma effect_at_db [simp]: "effect_at env (srv\<lparr>srv_db := d\<rparr>) hq = effect_at env srv hq"
  by (simp add: effect_at_def fun_eq_iff split: sum.split)

text \<open>The database before the requests \<open>rs\<close>: nothing has expired, and the ids they may draw are new.\<close>

definition fresh_for :: "server \<Rightarrow> (api_env \<times> http_request) list \<Rightarrow> db \<Rightarrow> bool" where
  "fresh_for srv rs conn \<longleftrightarrow> unique_ids conn \<and> (\<forall>clk. get_clock srv = Inr clk \<longrightarrow> window_open clk conn)
     \<and> distinct (map (\<lambda>r. hq_uuid12 (snd r)) rs)
     \<and> (\<forall>r \<in> set rs. ''ACT-'' @ hq_uuid12 (snd r) \<notin> action_id ` set (db_actions conn))"

lemma fresh_for_db [simp]: "fresh_for (srv\<lparr>srv_db := d\<rparr>) = fresh_for srv"
  by (simp add: fresh_for_def fun_eq_iff)

lemma fresh_for_tl: "fresh_for srv (r # rs) conn \<Longrightarrow> fresh_for srv rs conn"
  by (simp add: fresh_for_def)

lemma effect_at_cases:
  "effect_at env srv hq conn = conn
    \<or> (\<exists>user clk. get_clock srv = Inr clk \<and> effect_at env srv hq conn = effect env hq user clk conn)"
  by (auto simp: effect_at_def split: sum.split)

lemma effect_at_keeps:
  assumes "unique_ids conn" "\<forall>clk. get_clock srv = Inr clk \<longrightarrow> window_open clk conn"
  shows "unique_ids (effect_at env srv hq conn)"
    and "\<forall>clk. get_clock srv = Inr clk \<longrightarrow> window_open clk (effect_at env srv hq conn)"
  using effect_at_cases [of env srv hq conn] assms by (auto simp: effect_unique effect_window)

lemma fresh_for_effect:
  assumes "fresh_for srv ((env, hq) # rs) conn"
  shows "fresh_for srv rs (effect_at env srv hq conn)"
proof -
  from assms have u: "unique_ids conn" and w: "\<forall>clk. get_clock srv = Inr clk \<longrightarrow> window_open clk conn"
    by (simp_all add: fresh_for_def)
  have ids: "action_id ` set (db_actions (effect_at env srv hq conn))
      \<subseteq> insert (''ACT-'' @ hq_uuid12 hq) (action_id ` set (db_actions conn))"
    using effect_at_cases [of env srv hq conn] effect_ids(2) [OF u, of env hq] by (elim disjE exE conjE) auto
  have "''ACT-'' @ hq_uuid12 (snd r) \<notin> action_id ` set (db_actions (effect_at env srv hq conn))" if "r \<in> set rs" for r
  proof
    assume "''ACT-'' @ hq_uuid12 (snd r) \<in> action_id ` set (db_actions (effect_at env srv hq conn))"
    from subsetD [OF ids this] that assms have "hq_uuid12 hq = hq_uuid12 (snd r)" by (simp add: fresh_for_def)
    with that assms show False by (auto simp: fresh_for_def image_iff)
  qed
  with assms effect_at_keeps [OF u w] show ?thesis by (simp add: fresh_for_def)
qed

definition alike :: "demo_user \<Rightarrow> (api_env \<times> http_request) list \<Rightarrow> server \<Rightarrow> server \<Rightarrow> bool" where
  "alike A rs s t \<longleftrightarrow> (\<exists>c d. srv_db s = Some c \<and> t = s\<lparr>srv_db := Some d\<rparr> \<and> restrict A c = restrict A d
     \<and> fresh_for s rs c \<and> fresh_for s rs d)"

lemma visible_effect:
  assumes "fresh_for srv ((env, hq) # rs) conn" "visible_to A (env, hq)"
  shows "restrict A (effect_at env srv hq conn) = restrict A (effect_at env srv hq (restrict A conn))"
  using assms by (auto simp: effect_at_def fresh_for_def intro!: effect_sees_own split: sum.split sum.splits)

lemma invisible_effect:
  assumes "fresh_for srv ((env, hq) # rs) conn" "\<not> visible_to A (env, hq)"
  shows "restrict A (effect_at env srv hq conn) = restrict A conn"
  using assms by (auto simp: effect_at_def fresh_for_def intro!: effect_unseen split: sum.split sum.splits)

interpretation sessions: unwinding "\<lambda>srv (env, hq). fst (serve env srv hq)" "visible_to A" "alike A" for A
proof
  fix r :: "api_env \<times> http_request" and rs s t
  obtain env hq where r: "r = (env, hq)" by (cases r)
  assume "alike A (r # rs) s t"
  then obtain c d where c: "srv_db s = Some c" "t = s\<lparr>srv_db := Some d\<rparr>" "restrict A c = restrict A d"
    "fresh_for s ((env, hq) # rs) c" "fresh_for s ((env, hq) # rs) d" by (auto simp: alike_def r)
  then have s': "fst (serve env s hq) = s\<lparr>srv_db := Some (effect_at env s hq c)\<rparr>"
    and t': "fst (serve env t hq) = s\<lparr>srv_db := Some (effect_at env s hq d)\<rparr>"
    by (simp_all add: serve_effect_at)
  show "alike A rs (case r of (env, hq) \<Rightarrow> fst (serve env s hq)) (case r of (env, hq) \<Rightarrow> fst (serve env t hq))" if "visible_to A r"
    using visible_effect [OF c(4), of A] visible_effect [OF c(5), of A] that [unfolded r] c(3) fresh_for_effect [OF c(4)] fresh_for_effect [OF c(5)]
    by (auto simp: r s' t' alike_def simp del: visible_to.simps)
  show "alike A rs (case r of (env, hq) \<Rightarrow> fst (serve env s hq)) t" if "\<not> visible_to A r"
    using invisible_effect [OF c(4), of A] that [unfolded r] c(2,3) fresh_for_effect [OF c(4)] fresh_for_tl [OF c(5)]
    by (auto simp: r s' alike_def simp del: visible_to.simps)
qed

lemma serve_all_foldl: "serve_all srv rs = foldl (\<lambda>srv (env, hq). fst (serve env srv hq)) srv rs"
  by (induction srv rs rule: serve_all.induct) simp_all

lemma session_frame:
  assumes "srv_db srv = Some conn" "unique_ids conn"
  shows "\<exists>acts. serve_all srv rs = srv\<lparr>srv_db := Some (conn\<lparr>db_actions := acts\<rparr>)\<rparr>"
proof -
  have "\<exists>c. serve_all srv rs = srv\<lparr>srv_db := Some c\<rparr> \<and> unique_ids c \<and> (\<exists>acts. c = conn\<lparr>db_actions := acts\<rparr>)"
  proof (rule session_invariant [OF assms])
    show "\<exists>acts. conn = conn\<lparr>db_actions := acts\<rparr>" by (rule exI [of _ "db_actions conn"]) simp
  next
    fix r :: "api_env \<times> http_request" and c c'
    assume c: "\<exists>acts. c = conn\<lparr>db_actions := acts\<rparr>"
      and "c' = c \<or> (\<exists>user. get_current_user (api_users (fst r)) (hq_demo_user (snd r)) = Inr user \<and> moves user (hq_endpoint (snd r)) c c')"
    then obtain acts where "c' = c \<or> c' = c\<lparr>db_actions := acts\<rparr>" unfolding moves_def by blast
    with c show "\<exists>acts. c' = conn\<lparr>db_actions := acts\<rparr>" by auto
  qed
  then show ?thesis by blast
qed

lemma session_view:
  assumes "srv_db srv = Some conn" "fresh_for srv rs conn"
  obtains xs ys where "serve_all srv rs = srv\<lparr>srv_db := Some (conn\<lparr>db_actions := xs\<rparr>)\<rparr>"
    "serve_all srv (filter (visible_to A) rs) = srv\<lparr>srv_db := Some (conn\<lparr>db_actions := ys\<rparr>)\<rparr>"
    "filter (\<lambda>r. user_id r = du_id A) xs = filter (\<lambda>r. user_id r = du_id A) ys"
    "unique_ids (conn\<lparr>db_actions := xs\<rparr>)" "unique_ids (conn\<lparr>db_actions := ys\<rparr>)"
proof -
  have "srv = srv\<lparr>srv_db := Some conn\<rparr>" using assms(1) by simp
  then have "alike A rs srv srv" using assms unfolding alike_def by blast
  from sessions.purge [OF this] have al: "alike A [] (serve_all srv rs) (serve_all srv (filter (visible_to A) rs))"
    by (simp only: serve_all_foldl)
  have u: "unique_ids conn" using assms(2) by (simp add: fresh_for_def)
  obtain xs where xs: "serve_all srv rs = srv\<lparr>srv_db := Some (conn\<lparr>db_actions := xs\<rparr>)\<rparr>"
    using session_frame [OF assms(1) u] by blast
  obtain ys where ys: "serve_all srv (filter (visible_to A) rs) = srv\<lparr>srv_db := Some (conn\<lparr>db_actions := ys\<rparr>)\<rparr>"
    using session_frame [OF assms(1) u] by blast
  from al obtain d where "srv\<lparr>srv_db := Some (conn\<lparr>db_actions := ys\<rparr>)\<rparr> = (srv\<lparr>srv_db := Some (conn\<lparr>db_actions := xs\<rparr>)\<rparr>)\<lparr>srv_db := Some d\<rparr>"
    and same: "restrict A (conn\<lparr>db_actions := xs\<rparr>) = restrict A d" and u': "unique_ids (conn\<lparr>db_actions := xs\<rparr>)" "unique_ids d"
    by (auto simp: alike_def fresh_for_def xs ys)
  from arg_cong [OF this(1), of srv_db] have d: "d = conn\<lparr>db_actions := ys\<rparr>" by simp
  from arg_cong [OF same, of db_actions] d have "filter (\<lambda>r. user_id r = du_id A) xs = filter (\<lambda>r. user_id r = du_id A) ys"
    by simp
  with xs ys u' d that show thesis by blast
qed

text \<open>C4. Other people's sessions are invisible: what a caller who is not an admin reads (chat, both radar
  endpoints, an action, the status endpoints) after any session is what the same caller would read if
  every request that is neither theirs nor an operations admin's had never been made. Starting with
  no expired action, whatever the others prepare, confirm or execute, with whatever ids and
  hashes, leaves no trace in the caller's answers.\<close>

theorem others_do_not_disturb:
  assumes "srv_db srv = Some conn" "wf_db conn" "ids_separated shape conn" "fresh_for srv rs conn"
    and "\<And>c d. db_chunks c = db_chunks d \<Longrightarrow> env_fts (api_agent env) c = env_fts (api_agent env) d"
    and "get_current_user (api_users env) (hq_demo_user hq) = Inr A" "du_role A \<noteq> OPERATIONS_ADMIN" "only_reads (hq_endpoint hq)"
  shows "snd (serve env (serve_all srv rs) hq) = snd (serve env (serve_all srv (filter (visible_to A) rs)) hq)"
proof -
  obtain xs ys where s: "serve_all srv rs = srv\<lparr>srv_db := Some (conn\<lparr>db_actions := xs\<rparr>)\<rparr>"
    "serve_all srv (filter (visible_to A) rs) = srv\<lparr>srv_db := Some (conn\<lparr>db_actions := ys\<rparr>)\<rparr>"
    "filter (\<lambda>r. user_id r = du_id A) xs = filter (\<lambda>r. user_id r = du_id A) ys"
    "unique_ids (conn\<lparr>db_actions := xs\<rparr>)" "unique_ids (conn\<lparr>db_actions := ys\<rparr>)"
    by (rule session_view [OF assms(1,4)])
  have wf: "wf_db (conn\<lparr>db_actions := acts\<rparr>)" if "unique_ids (conn\<lparr>db_actions := acts\<rparr>)" for acts
    using that assms(2) by (simp add: wf_db_def unique_ids_def)
  have sep: "ids_separated shape (conn\<lparr>db_actions := acts\<rparr>)" for acts
    using assms(3) by (simp add: ids_separated_def)
  have "owns A = (\<lambda>r. user_id r = du_id A)" using assms(7) by (auto simp: owns_def fun_eq_iff)
  with s(3) have same: "same_for A (conn\<lparr>db_actions := xs\<rparr>) (conn\<lparr>db_actions := ys\<rparr>)"
    by (simp add: same_for_def same_view_def)
  show ?thesis
    unfolding s(1,2) by (rule reads_alike [OF wf [OF s(4)] wf [OF s(5)] same sep sep assms(5,6,8)])
qed

theorem others_do_not_disturb_witness:
  "snd (serve sample_api (serve_all (sample_server sample_db) [(sample_api, as_user ''u1'' (PrepareEndpoint ''TCK-1'' ''outage''))])
      (as_user ''u2'' (GetActionEndpoint ''ACT-0123456789ab'')))
    = snd (serve sample_api (sample_server sample_db) (as_user ''u2'' (GetActionEndpoint ''ACT-0123456789ab'')))"
proof -
  let ?q = "as_user ''u2'' (GetActionEndpoint ''ACT-0123456789ab'')"
  let ?rs = "[(sample_api, as_user ''u1'' (PrepareEndpoint ''TCK-1'' ''outage''))]"
  have none: "db_actions sample_db = []" by (simp add: sample_db_def)
  have "ids_separated sample_shape sample_db"
    by (simp add: ids_separated_def sample_shape_def sample_db_def sample_account_def sample_order_def sample_ticket_def)
  moreover have "fresh_for (sample_server sample_db) ?rs sample_db"
    by (simp add: fresh_for_def unique_ids_def window_open_def none)
  moreover have "get_current_user (api_users sample_api) (hq_demo_user ?q) = Inr u2"
    by (simp add: get_current_user_def sample_api_def as_user_def)
  moreover have "env_fts (api_agent sample_api) c = env_fts (api_agent sample_api) d" for c d
    by (simp add: sample_api_def sample_env_def sample_fts_def fun_eq_iff)
  moreover have "du_role u2 \<noteq> OPERATIONS_ADMIN" "only_reads (hq_endpoint ?q)" by (simp_all add: u2_def as_user_def)
  ultimately have "snd (serve sample_api (serve_all (sample_server sample_db) ?rs) ?q)
      = snd (serve sample_api (serve_all (sample_server sample_db) (filter (visible_to u2) ?rs)) ?q)"
    by (intro others_do_not_disturb [OF sample_server_db wf_sample_db])
  moreover have "filter (visible_to u2) ?rs = []"
    by (simp add: get_current_user_def sample_api_def as_user_def u1_def u2_def)
  ultimately show ?thesis by (simp only: serve_all.simps)
qed

section \<open>A proposal stays confirmable\<close>

lemma session_record:
  assumes "srv_db srv = Some conn" "unique_ids conn" "get_clock srv = Inr clk" "get_action conn i = Some rec0"
    and "rewritten clk rec rec0" "act_status rec \<noteq> EXPIRED" "\<not> dt_less (expires_at rec) (now clk)"
  shows "\<exists>c rec'. serve_all srv rs = srv\<lparr>srv_db := Some c\<rparr> \<and> unique_ids c \<and> get_action c i = Some rec' \<and> rewritten clk rec rec'"
  using assms(1-5)
proof (induction rs arbitrary: srv conn rec0)
  case Nil
  then have "srv = srv\<lparr>srv_db := Some conn\<rparr>" by simp
  with Nil show ?case by (intro exI [of _ conn] exI [of _ rec0]) simp
next
  case (Cons r rs)
  obtain env hq where r: "r = (env, hq)" by (cases r)
  let ?c = "effect_at env srv hq conn"
  have u: "unique_ids ?c"
    using effect_at_cases [of env srv hq conn] effect_unique [OF Cons.prems(2)] Cons.prems(2) by (elim disjE exE conjE) auto
  have i: "i = action_id rec0" "rec0 \<in> set (db_actions conn)"
    using Cons.prems(4) by (auto simp: get_action_def dest: find_Some_mem)
  have "i \<in> action_id ` set (db_actions conn)" using i by simp
  then have "i \<in> action_id ` set (db_actions ?c)"
    using effect_at_cases [of env srv hq conn] subsetD [OF effect_ids(1) [OF Cons.prems(2)]]
    by (elim disjE exE conjE) (simp_all only:)
  then obtain rec1 where r1: "rec1 \<in> set (db_actions ?c)" "i = action_id rec1" by blast
  have "touched clk conn rec1"
    using effect_at_cases [of env srv hq conn] r1(1) Cons.prems(3) effect_touches [OF Cons.prems(2)]
    by (elim disjE exE conjE) (auto intro: touched_old)
  with i r1(2) obtain row where row: "row \<in> set (db_actions conn)" "rewritten clk row rec1"
    by (auto simp: touched_def)
  then have "action_id row = i" using r1(2) by (auto simp: rewritten_def dest: audit_of_keeps)
  with unique_action [OF Cons.prems(2) row(1)] Cons.prems(4) have "row = rec0" by simp
  with row(2) Cons.prems(5) have "rewritten clk rec rec1" using rewritten_trans by blast
  moreover have "get_action ?c i = Some rec1" using unique_action [OF u r1(1)] r1(2) by simp
  ultimately show ?case
    using Cons.IH [of "srv\<lparr>srv_db := Some ?c\<rparr>" ?c rec1] u Cons.prems(3)
    by (simp add: r serve_effect_at [OF Cons.prems(1)])
qed

lemma session_still:
  assumes "srv_db srv = Some conn" "unique_ids conn" "get_clock srv = Inr clk" "get_action conn i = Some rec0"
    and "rewritten clk rec rec0" "act_status rec \<noteq> EXPIRED" "\<not> dt_less (expires_at rec) (now clk)"
  obtains acts rec' where "serve_all srv rs = srv\<lparr>srv_db := Some (conn\<lparr>db_actions := acts\<rparr>)\<rparr>"
    "unique_ids (conn\<lparr>db_actions := acts\<rparr>)" "get_action (conn\<lparr>db_actions := acts\<rparr>) i = Some rec'" "rewritten clk rec rec'"
proof -
  obtain acts where "serve_all srv rs = srv\<lparr>srv_db := Some (conn\<lparr>db_actions := acts\<rparr>)\<rparr>"
    using session_frame [OF assms(1,2)] by blast
  moreover obtain c rec' where "serve_all srv rs = srv\<lparr>srv_db := Some c\<rparr>" "unique_ids c" "get_action c i = Some rec'" "rewritten clk rec rec'"
    using session_record [OF assms] by blast
  moreover have "c = conn\<lparr>db_actions := acts\<rparr>"
    using arg_cong [OF calculation(1), of srv_db] calculation(2) by simp
  ultimately show thesis by (intro that) simp_all
qed

text \<open>Executing an action that is CONFIRMED or EXECUTED succeeds, and reports it EXECUTED.\<close>

lemma execute_settles:
  fixes clk :: clock
  assumes "unique_ids conn" "get_action conn i = Some rec" "act_status rec \<in> {CONFIRMED, EXECUTED}"
  obtains rec' conn' where "execute_action conn i clk = Inr (succeeded rec', conn')" "act_status rec' = EXECUTED"
proof (cases "act_status rec = EXECUTED")
  case True
  with assms(2) show thesis by (intro that [of rec conn]) (simp_all add: execute_action_def execute_plan_def)
next
  case False
  with assms(3) have st: "act_status rec = CONFIRMED" by simp
  show thesis by (rule execute_goes_through [OF assms(1,2) st, of clk]) (rule that, assumption, simp)
qed

text \<open>A pending proposal that has not expired is confirmed by its owner and, after any requests, executed.\<close>

lemma pending_is_carried_out:
  assumes db: "srv_db srv = Some c" "unique_ids c" and clk: "get_clock srv = Inr clk"
    and user: "get_current_user (api_users env) (hq_demo_user hq) = Inr user"
    and at: "get_action c i = Some rec" "act_status rec = PENDING_CONFIRMATION" "\<not> dt_less (expires_at rec) (now clk)"
      "user_id rec = du_id user"
    and tkt: "get_ticket c (target rec) (to_auth_context user) (tz_of clk) = Inr tkt"
      "dict_get (proposed_change rec) ''previous_status'' = Some (JStr (ticket_status_value (tkt_status tkt)))"
    and lens: "length i = 16" "length (payload_hash rec) = 64"
  shows "\<exists>srv2 srv3 out2 out3.
      serve env srv (hq\<lparr>hq_endpoint := ConfirmEndpoint i (payload_hash rec)\<rparr>) = (srv2, Inr (ActionResponse out2 user)) \<and> success out2
      \<and> serve env (serve_all srv2 rs') (hq\<lparr>hq_endpoint := ExecuteEndpoint i\<rparr>) = (srv3, Inr (ActionResponse out3 user)) \<and> success out3
      \<and> map_option act_status (outcome_record out3) = Some EXECUTED"
proof -
  let ?rec2 = "rec\<lparr>act_status := CONFIRMED, confirmed_at := Some (now clk)\<rparr>"
  obtain conn2 where c2: "confirm_action c i (payload_hash rec) (to_auth_context user) clk (user_id rec)
      = Inr (succeeded ?rec2, conn2)" "transition c i ?rec2 conn2"
    by (rule confirm_goes_through [OF db(2) at(1-3) tkt])
  let ?s2 = "srv\<lparr>srv_db := Some conn2\<rparr>"
  have conf: "serve env srv (hq\<lparr>hq_endpoint := ConfirmEndpoint i (payload_hash rec)\<rparr>) = (?s2, Inr (ActionResponse (succeeded ?rec2) user))"
    using c2(1) lens user clk db(1) at(4)
    by (simp add: serve_def guarded_runs length_between_def confirm_route_def handled_def)
  have db2: "srv_db ?s2 = Some conn2" "get_clock ?s2 = Inr clk" using clk by simp_all
  have at2: "unique_ids conn2" "get_action conn2 i = Some ?rec2" using c2(2) by (simp_all add: transition_def)
  obtain acts3 rec3 where s3: "serve_all ?s2 rs' = ?s2\<lparr>srv_db := Some (conn2\<lparr>db_actions := acts3\<rparr>)\<rparr>"
    "unique_ids (conn2\<lparr>db_actions := acts3\<rparr>)" "get_action (conn2\<lparr>db_actions := acts3\<rparr>) i = Some rec3" "rewritten clk ?rec2 rec3"
    by (rule session_still [OF db2(1) at2(1) db2(2) at2(2), of ?rec2 rs']) (use at(3) in \<open>simp_all add: rewritten_def\<close>)
  have settled: "act_status rec3 \<in> {CONFIRMED, EXECUTED}" and kept3: "audit_of rec3 = audit_of rec"
    using s3(4) by (auto simp: rewritten_def)
  obtain rec4 conn4 where e: "execute_action (conn2\<lparr>db_actions := acts3\<rparr>) i clk = Inr (succeeded rec4, conn4)"
    "act_status rec4 = EXECUTED" by (rule execute_settles [OF s3(2,3) settled])
  have may: "require_owner_or_admin (conn2\<lparr>db_actions := acts3\<rparr>) i user = Inr ()"
    using s3(3) audit_of_keeps [OF kept3] at(4) by (simp add: require_owner_or_admin_def)
  have "serve env (serve_all ?s2 rs') (hq\<lparr>hq_endpoint := ExecuteEndpoint i\<rparr>)
      = (srv\<lparr>srv_db := Some conn4\<rparr>, Inr (ActionResponse (succeeded rec4) user))"
    using e(1) may lens user clk
    by (simp add: serve_def s3(1) guarded_runs length_between_def execute_route_def handled_def)
  with conf e(2) show ?thesis
    by (intro exI [of _ ?s2] exI [of _ "srv\<lparr>srv_db := Some conn4\<rparr>"] exI [of _ "succeeded ?rec2"] exI [of _ "succeeded rec4"]) simp
qed

text \<open>C22. A proposal survives other people's sessions: after a preparation that succeeded and any
  requests of anyone since, the record is still what was proposed and has not expired; while it
  is pending, its identity confirming with the returned id and digest succeeds, and after
  further requests of anyone, executing it succeeds and reports it EXECUTED. The fixed
  snapshot clock has no fifteen minutes pass, and nobody but the owner can use the proposal up.\<close>

theorem proposal_survives_sessions:
  assumes "srv_db srv = Some conn" "unique_ids conn"
    and prep: "serve env srv hq = (srv1, Inr (ActionResponse out user))" "hq_endpoint hq = PrepareEndpoint k why" "success out"
    and uuid: "length (hq_uuid12 hq) = 12"
  shows "\<exists>rec c rec'. outcome_record out = Some rec \<and> srv_db (serve_all srv1 rs) = Some c
    \<and> get_action c (action_id rec) = Some rec' \<and> audit_of rec' = audit_of rec \<and> act_status rec' \<noteq> EXPIRED
    \<and> (act_status rec' = PENDING_CONFIRMATION \<longrightarrow> (\<exists>srv2 srv3 out2 out3.
         serve env (serve_all srv1 rs) (hq\<lparr>hq_endpoint := ConfirmEndpoint (action_id rec) (payload_hash rec)\<rparr>)
           = (srv2, Inr (ActionResponse out2 user)) \<and> success out2
         \<and> serve env (serve_all srv2 rs') (hq\<lparr>hq_endpoint := ExecuteEndpoint (action_id rec)\<rparr>)
           = (srv3, Inr (ActionResponse out3 user)) \<and> success out3
         \<and> map_option act_status (outcome_record out3) = Some EXECUTED))"
proof -
  obtain clk conn1 where user: "get_current_user (api_users env) (hq_demo_user hq) = Inr user" and clk: "get_clock srv = Inr clk"
    and s1: "srv1 = srv\<lparr>srv_db := Some conn1\<rparr>"
    and p: "prepare_escalation conn k why (to_auth_context user) clk (du_id user) (rc_request_id (hq_context hq)) (hq_uuid12 hq)
      (api_overrides env) (api_defaults env) = Inr (out, conn1)"
    by (rule prepare_served [OF assms(1) prep(1,2)])
  from prepare_outcome [OF p, unfolded if_P [OF prep(3)]] obtain rec tkt where rec: "outcome_record out = Some rec"
    "conn1 = conn\<lparr>db_actions := db_actions conn @ [rec]\<rparr>" "action_id rec = ''ACT-'' @ hq_uuid12 hq"
    "dict_get (proposed_change rec) ''previous_status'' = Some (JStr (ticket_status_value (tkt_status tkt)))"
    "action_id rec \<notin> action_id ` set (db_actions conn)" "act_status rec = PENDING_CONFIRMATION" "user_id rec = du_id user"
    "target rec = k" "expires_at rec = dt_add (now clk) (timedelta_minutes 15)"
    "payload_hash rec = payload_digest (action_type rec) k (proposed_change rec)"
    "get_ticket conn k (to_auth_context user) (tz_of clk) = Inr tkt" by blast
  from rec(2,5) have ins: "insert_action conn rec = Inr conn1" by (simp add: insert_action_def)
  note at = insert_action_get [OF ins]
  have fresh: "\<not> dt_less (expires_at rec) (now clk)" by (simp add: rec(9))
  have pending: "act_status rec \<noteq> EXPIRED" by (simp add: rec(6))
  have db1: "srv_db srv1 = Some conn1" "get_clock srv1 = Inr clk" by (simp_all add: s1 clk)
  obtain acts rec' where s: "serve_all srv1 rs = srv1\<lparr>srv_db := Some (conn1\<lparr>db_actions := acts\<rparr>)\<rparr>"
    "unique_ids (conn1\<lparr>db_actions := acts\<rparr>)" "get_action (conn1\<lparr>db_actions := acts\<rparr>) (action_id rec) = Some rec'" "rewritten clk rec rec'"
    by (rule session_still [OF db1(1) at(4) [OF assms(2)] db1(2) at(1) _ pending fresh, of rs]) (simp_all add: rewritten_def)
  let ?c = "conn1\<lparr>db_actions := acts\<rparr>"
  have then1: "serve_all srv1 rs = srv\<lparr>srv_db := Some ?c\<rparr>" by (simp only: s(1)) (simp add: s1)
  have audit: "audit_of rec' = audit_of rec" and live: "act_status rec' \<noteq> EXPIRED"
    using s(4) fresh pending by (auto simp: rewritten_def)
  note kept = audit_of_keeps [OF audit]
  have lens: "length (action_id rec) = 16" "length (payload_hash rec) = 64"
    using uuid by (simp_all add: rec(3,10) payload_digest_def)
  have "\<exists>srv2 srv3 out2 out3.
      serve env (serve_all srv1 rs) (hq\<lparr>hq_endpoint := ConfirmEndpoint (action_id rec) (payload_hash rec')\<rparr>)
        = (srv2, Inr (ActionResponse out2 user)) \<and> success out2
      \<and> serve env (serve_all srv2 rs') (hq\<lparr>hq_endpoint := ExecuteEndpoint (action_id rec)\<rparr>)
        = (srv3, Inr (ActionResponse out3 user)) \<and> success out3
      \<and> map_option act_status (outcome_record out3) = Some EXECUTED" if now: "act_status rec' = PENDING_CONFIRMATION"
    by (rule pending_is_carried_out [where clk = clk and tkt = tkt, OF _ s(2) _ user s(3) now]) (use clk fresh kept rec lens in \<open>simp_all add: then1\<close>)
  then have "act_status rec' = PENDING_CONFIRMATION \<longrightarrow> (\<exists>srv2 srv3 out2 out3.
      serve env (serve_all srv1 rs) (hq\<lparr>hq_endpoint := ConfirmEndpoint (action_id rec) (payload_hash rec)\<rparr>)
        = (srv2, Inr (ActionResponse out2 user)) \<and> success out2
      \<and> serve env (serve_all srv2 rs') (hq\<lparr>hq_endpoint := ExecuteEndpoint (action_id rec)\<rparr>)
        = (srv3, Inr (ActionResponse out3 user)) \<and> success out3
      \<and> map_option act_status (outcome_record out3) = Some EXECUTED)" using kept by simp
  with rec(1) s(1,3) audit live show ?thesis by auto
qed

theorem proposal_survives_sessions_witness:
  "\<exists>(rec :: action_record) srv1 srv2 srv3 out2 out3.
     serve boss_api (serve_all srv1 [(sample_api, as_user ''u2'' (ExecuteEndpoint ''ACT-0123456789ab''))])
       (as_user ''u1'' (ConfirmEndpoint (action_id rec) (payload_hash rec))) = (srv2, Inr (ActionResponse out2 boss)) \<and> success out2
     \<and> serve boss_api (serve_all srv2 [(sample_api, as_user ''u2'' (GetActionEndpoint ''ACT-0123456789ab''))])
       (as_user ''u1'' (ExecuteEndpoint (action_id rec))) = (srv3, Inr (ActionResponse out3 boss)) \<and> success out3"
proof -
  let ?hq = "as_user ''u1'' (PrepareEndpoint ''TCK-1'' ''outage'')"
  let ?id = "''ACT-0123456789ab''"
  let ?rs = "[(sample_api, as_user ''u2'' (ExecuteEndpoint ?id))]"
  let ?rs' = "[(sample_api, as_user ''u2'' (GetActionEndpoint ?id))]"
  obtain out conn1 where run: "serve boss_api (sample_server sample_db) ?hq
      = ((sample_server sample_db)\<lparr>srv_db := Some conn1\<rparr>, Inr (ActionResponse out boss))" and ok: "success out"
    and p: "prepare_escalation sample_db ''TCK-1'' ''outage'' admin sample_clock ''u1'' (rc_request_id (hq_context ?hq))
      (hq_uuid12 ?hq) AGREEMENT_OVERRIDES DEFAULT_SOURCE = Inr (out, conn1)"
    by (rule boss_prepares)
  let ?s1 = "(sample_server sample_db)\<lparr>srv_db := Some conn1\<rparr>"
  from prepare_outcome [OF p, unfolded if_P [OF ok]] obtain rec0 where rec0: "outcome_record out = Some rec0"
    "conn1 = sample_db\<lparr>db_actions := [rec0]\<rparr>" "action_id rec0 = ?id" "user_id rec0 = ''u1''"
    "act_status rec0 = PENDING_CONFIRMATION"
    by (auto simp: as_user_def sample_db_def)
  have got: "get_action conn1 ?id = Some rec0" by (simp add: get_action_def rec0(2,3))
  have user: "get_current_user (api_users sample_api) (hq_demo_user (as_user ''u2'' ep)) = Inr u2" for ep
    by (simp add: get_current_user_def sample_api_def as_user_def)
  have clk: "get_clock ?s1 = Inr sample_clock"
    by (simp add: get_clock_def sample_server_def sample_clock_def handled_def)
  have "require_owner_or_admin conn1 ?id u2 = Inl (http_exception 403 ''not authorized to access this action'')"
    by (simp add: require_owner_or_admin_def got rec0(4) u2_def)
  then have same: "serve_all ?s1 ?rs = ?s1"
    using user [of "ExecuteEndpoint ?id"] clk
    by (simp add: serve_def guarded_runs length_between_def execute_route_def as_user_def)
  have u: "unique_ids sample_db" by (simp add: unique_ids_def sample_db_def)
  have q: "hq_endpoint ?hq = PrepareEndpoint ''TCK-1'' ''outage''" "length (hq_uuid12 ?hq) = 12"
    "?hq\<lparr>hq_endpoint := ep\<rparr> = as_user ''u1'' ep" for ep by (simp_all add: as_user_def)
  from proposal_survives_sessions [OF sample_server_db u run q(1) ok q(2), of ?rs ?rs'] obtain rec c rec' where
    rec: "outcome_record out = Some rec" "srv_db (serve_all ?s1 ?rs) = Some c" "get_action c (action_id rec) = Some rec'"
    and go: "act_status rec' = PENDING_CONFIRMATION \<longrightarrow> (\<exists>srv2 srv3 out2 out3.
         serve boss_api (serve_all ?s1 ?rs) (?hq\<lparr>hq_endpoint := ConfirmEndpoint (action_id rec) (payload_hash rec)\<rparr>)
           = (srv2, Inr (ActionResponse out2 boss)) \<and> success out2
         \<and> serve boss_api (serve_all srv2 ?rs') (?hq\<lparr>hq_endpoint := ExecuteEndpoint (action_id rec)\<rparr>)
           = (srv3, Inr (ActionResponse out3 boss)) \<and> success out3
         \<and> map_option act_status (outcome_record out3) = Some EXECUTED)" by blast
  from rec(2) have "c = conn1" unfolding same by simp
  with rec(1,3) rec0(1,3) got have "rec' = rec0" by simp
  with go rec0(5) show ?thesis unfolding q(3) by blast
qed

end
