(* ===== verification/Py_Text.thy ===== *)
theory Py_Text
  imports Py_Regex Errors
begin

text \<open>
  The string methods and regular-expression groups that the ingestion code uses. A text is
  its UTF-8 encoding, one character per byte; white space and line ends are the ASCII ones.

  The groups of a match are modelled by writing the pattern as the list of its consecutive
  parts: \<open>parts\<close> lists, in the order Python tries them, the texts each part can take, so the
  first one gives the groups of Python's match.
\<close>

named_theorems text_simps \<open>facts that evaluate string methods on texts in normal form\<close>

section \<open>White space\<close>

definition lstrip :: "string \<Rightarrow> string" where
  "lstrip s = dropWhile is_space s"

definition rstrip :: "string \<Rightarrow> string" where
  "rstrip s = rev (dropWhile is_space (rev s))"

definition strip :: "string \<Rightarrow> string" where
  "strip s = rstrip (lstrip s)"

definition stripped :: "string \<Rightarrow> bool" where
  "stripped s = (s = [] \<or> \<not> is_space (hd s) \<and> \<not> is_space (last s))"

lemma lstrip_id: "s = [] \<or> \<not> is_space (hd s) \<Longrightarrow> lstrip s = s"
  by (cases s) (auto simp: lstrip_def)

lemma rstrip_id: "s = [] \<or> \<not> is_space (last s) \<Longrightarrow> rstrip s = s"
  by (cases s rule: rev_cases) (auto simp: rstrip_def)

lemma strip_id [text_simps]: "stripped s \<Longrightarrow> strip s = s"
  by (auto simp: strip_def stripped_def lstrip_id rstrip_id)

lemma stripped_Nil [simp]: "stripped []"
  by (simp add: stripped_def)

lemma rstrip_hd: "rstrip s \<noteq> [] \<Longrightarrow> hd (rstrip s) = hd s"
proof (induction s rule: rev_induct)
  case (snoc c s)
  then show ?case by (cases "is_space c") (auto simp: rstrip_def hd_append split: if_splits)
qed (simp add: rstrip_def)

lemma stripped_strip: "stripped (strip s)"
proof (cases "strip s = []")
  case False
  then have r: "rstrip (lstrip s) \<noteq> []" by (simp add: strip_def)
  then have "lstrip s \<noteq> []" by (auto simp: rstrip_def)
  then have "\<not> is_space (hd (lstrip s))" unfolding lstrip_def by (rule hd_dropWhile)
  moreover from r have "dropWhile is_space (rev (lstrip s)) \<noteq> []" by (simp add: rstrip_def)
  then have "\<not> is_space (last (rstrip (lstrip s)))"
    unfolding rstrip_def last_rev by (rule hd_dropWhile)
  ultimately show ?thesis using r rstrip_hd [OF r] by (simp add: stripped_def strip_def)
qed simp

lemma strip_strip [simp]: "strip (strip s) = strip s"
  by (rule strip_id) (rule stripped_strip)

section \<open>Lines\<close>

text \<open>\<open>str.splitlines\<close>: a carriage return and a line feed together end one line, and a line end
  at the end of the text starts no further line.\<close>

definition is_break :: "char \<Rightarrow> bool" where
  "is_break c = (in_range 10 13 c \<or> in_range 28 30 c)"

fun skip_break :: "string \<Rightarrow> string" where
  "skip_break [] = []"
| "skip_break (c # cs) =
     (if c = CHR 0x0D then (case cs of [] \<Rightarrow> [] | d # ds \<Rightarrow> if d = CHR 0x0A then ds else cs) else cs)"

lemma length_skip_break: "length (skip_break s) \<le> length s - 1"
  by (cases s) (auto split: list.splits)

function splitlines :: "string \<Rightarrow> string list" where
  "splitlines [] = []"
| "splitlines (c # cs) =
     takeWhile (\<lambda>x. \<not> is_break x) (c # cs) # splitlines (skip_break (dropWhile (\<lambda>x. \<not> is_break x) (c # cs)))"
  by pat_completeness auto
termination
proof (relation "measure length", goal_cases)
  case (2 c cs)
  let ?r = "dropWhile (\<lambda>x. \<not> is_break x) (c # cs)"
  have "length ?r \<le> Suc (length cs)" using length_dropWhile_le [of "\<lambda>x. \<not> is_break x" "c # cs"] by simp
  with length_skip_break [of ?r] show ?case by (simp only: in_measure length_Cons)
qed simp

declare splitlines.simps(2) [simp del]

abbreviation newline :: string where
  "newline \<equiv> [CHR 0x0A]"

definition one_line :: "string \<Rightarrow> bool" where
  "one_line s = (s \<noteq> [] \<and> (\<forall>c \<in> set s. \<not> is_break c))"

lemma break_newline [simp]: "is_break (CHR 0x0A)"
  by (simp add: is_break_def in_range_def)

lemma splitlines_line:
  assumes "one_line l"
  shows "splitlines l = [l]" "splitlines (l @ CHR 0x0A # s) = l # splitlines s"
proof -
  from assms obtain c cs where l: "l = c # cs" "\<not> is_break c" "\<forall>c \<in> set cs. \<not> is_break c"
    by (cases l) (auto simp: one_line_def)
  have t: "takeWhile (\<lambda>x. \<not> is_break x) (cs @ CHR 0x0A # s) = cs" "dropWhile (\<lambda>x. \<not> is_break x) cs = []"
    "takeWhile (\<lambda>x. \<not> is_break x) cs = cs"
    "dropWhile (\<lambda>x. \<not> is_break x) (cs @ CHR 0x0A # s) = CHR 0x0A # s"
    using l(3) by (simp_all add: takeWhile_append dropWhile_append takeWhile_eq_all_conv)
  show "splitlines l = [l]" "splitlines (l @ CHR 0x0A # s) = l # splitlines s"
    using l(1,2) by (simp_all add: splitlines.simps(2) t)
qed

lemma splitlines_join [text_simps]: "\<forall>l \<in> set ls. one_line l \<Longrightarrow> splitlines (join newline ls) = ls"
  by (induction newline ls rule: join.induct) (auto simp: splitlines_line)

lemma splitlines_lines: "l \<in> set (splitlines s) \<Longrightarrow> \<forall>c \<in> set l. \<not> is_break c"
proof (induction s rule: splitlines.induct)
  case (2 c cs)
  then show ?case unfolding splitlines.simps(2) by (metis set_ConsD set_takeWhileD)
qed simp

text \<open>\<open>[ln.strip() for ln in text.splitlines() if ln.strip()]\<close>.\<close>

definition text_lines :: "string \<Rightarrow> string list" where
  "text_lines s = map strip (filter (\<lambda>l. strip l \<noteq> []) (splitlines s))"

definition clean_line :: "string \<Rightarrow> bool" where
  "clean_line l = (one_line l \<and> stripped l)"

lemma text_lines_join [text_simps]: "\<forall>l \<in> set ls. clean_line l \<Longrightarrow> text_lines (join newline ls) = ls"
  by (simp add: text_lines_def clean_line_def splitlines_join strip_id one_line_def filter_True map_idI)

lemma set_strip: "set (strip s) \<subseteq> set s"
  by (auto simp: strip_def rstrip_def lstrip_def dest!: set_dropWhileD)

lemma clean_text_lines: "l \<in> set (text_lines s) \<Longrightarrow> clean_line l"
  using splitlines_lines set_strip stripped_strip by (fastforce simp: text_lines_def clean_line_def one_line_def)

section \<open>Splitting and replacing\<close>

text \<open>\<open>sep in s\<close> with the text before and after its first occurrence.\<close>

fun cut_at :: "string \<Rightarrow> string \<Rightarrow> string \<Rightarrow> (string \<times> string) option" where
  "cut_at sep acc [] = (if sep = [] then Some (rev acc, []) else None)"
| "cut_at sep acc (c # cs) =
     (if starts_with sep (c # cs) then Some (rev acc, drop (length sep) (c # cs)) else cut_at sep (c # acc) cs)"

text \<open>\<open>s.split(sep)[0]\<close> and \<open>s.split(sep)[1]\<close>, the latter where \<open>sep\<close> occurs.\<close>

definition split_first :: "string \<Rightarrow> string \<Rightarrow> string" where
  "split_first sep s = (case cut_at sep [] s of None \<Rightarrow> s | Some (a, b) \<Rightarrow> a)"

definition split_second :: "string \<Rightarrow> string \<Rightarrow> string option" where
  "split_second sep s = map_option (\<lambda>(a, b). split_first sep b) (cut_at sep [] s)"

definition removeprefix :: "string \<Rightarrow> string \<Rightarrow> string" where
  "removeprefix p s = (if starts_with p s then drop (length p) s else s)"

text \<open>\<open>s.replace(old, [])\<close> for a non-empty \<open>old\<close>.\<close>

function remove_all :: "string \<Rightarrow> string \<Rightarrow> string" where
  "remove_all old [] = []"
| "remove_all old (c # cs) =
     (if old \<noteq> [] \<and> starts_with old (c # cs) then remove_all old (drop (length old) (c # cs))
      else c # remove_all old cs)"
  by pat_completeness auto
termination
  by (relation "measure (\<lambda>(old, s). length s)") auto

lemma starts_with_iff: "starts_with p s \<longleftrightarrow> (\<exists>r. s = p @ r)"
  by (induction p s rule: starts_with.induct) auto

lemma removeprefix_append [simp]: "removeprefix p (p @ s) = s"
  by (simp add: removeprefix_def starts_with_iff)

section \<open>Groups\<close>

definition consumed :: "pos \<Rightarrow> pos \<Rightarrow> string" where
  "consumed p q = take (length (snd p) - length (snd q)) (snd p)"

fun parts :: "re list \<Rightarrow> pos \<Rightarrow> string list list" where
  "parts [] p = [[]]"
| "parts (r # rs) p = concat (map (\<lambda>q. map ((#) (consumed p q)) (parts rs q)) (matches r p))"

text \<open>\<open>pattern.match(s)\<close> and \<open>pattern.search(s)\<close> with the texts of the parts.\<close>

definition match_parts :: "re list \<Rightarrow> string \<Rightarrow> string list option" where
  "match_parts rs s = (case parts rs ([], s) of [] \<Rightarrow> None | x # _ \<Rightarrow> Some x)"

fun search_parts_from :: "re list \<Rightarrow> string \<Rightarrow> string \<Rightarrow> string list option" where
  "search_parts_from rs pre s =
     (case parts rs (pre, s) of
        x # _ \<Rightarrow> Some x
      | [] \<Rightarrow> (case s of [] \<Rightarrow> None | c # cs \<Rightarrow> search_parts_from rs (c # pre) cs))"

declare search_parts_from.simps [simp del]

definition search_parts :: "re list \<Rightarrow> string \<Rightarrow> string list option" where
  "search_parts rs s = search_parts_from rs [] s"

abbreviation Spaces :: re where
  "Spaces \<equiv> Many 0 (Cls is_space)"

abbreviation AnyChar :: re where
  "AnyChar \<equiv> Cls (\<lambda>c. c \<noteq> CHR 0x0A)"

text \<open>The first match of a sequence starts with the first match of its first part that can go on,
  and a run of a class is matched as a whole.\<close>

lemma parts_first:
  assumes "matches r p = q # qs" "parts rs q = x # xs"
  shows "\<exists>ys. parts (r # rs) p = (consumed p q # x) # ys"
  using assms by simp

lemma iter_run:
  assumes "\<forall>a \<in> set k. P a" "s = [] \<or> \<not> P (hd s)" "length k \<le> n" "lo \<le> length k"
  shows "\<exists>qs. iter (matches (Cls P)) n lo (pre, k @ s) = (rev k @ pre, s) # qs"
  using assms
proof (induction k arbitrary: n lo pre)
  case Nil
  then show ?case by (cases n; cases s) auto
next
  case (Cons a k)
  then obtain m where n: "n = Suc m" by (cases n) auto
  with Cons.prems Cons.IH [of m "lo - 1" "a # pre"] show ?case by auto
qed

lemma run_matches:
  assumes "\<forall>a \<in> set k. P a" "s = [] \<or> \<not> P (hd s)" "lo \<le> length k"
  shows "\<exists>qs. matches (Many lo (Cls P)) (pre, k @ s) = (rev k @ pre, s) # qs"
  using iter_run [OF assms(1,2) _ assms(3), of "length (k @ s)" pre] by simp

lemma search_parts_skip:
  assumes "\<And>c pre s. c \<in> set a \<Longrightarrow> parts rs (pre, c # s) = []"
  shows "search_parts_from rs pre (a @ s) = search_parts_from rs (rev a @ pre) s"
  using assms by (induction a arbitrary: pre) (simp_all add: search_parts_from.simps [of rs _ "_ # _"])

lemma search_parts_here: "parts rs (pre, s) = x # xs \<Longrightarrow> search_parts_from rs pre s = Some x"
  by (simp add: search_parts_from.simps)

lemma length_parts: "x \<in> set (parts rs p) \<Longrightarrow> length x = length rs"
  by (induction rs p arbitrary: x rule: parts.induct) auto

section \<open>Numbers and lists as text\<close>

lemma lower_append [simp]: "lower (a @ b) = lower a @ lower b"
  by (simp add: lower_def)

lemma is_digit_lower [simp]: "is_digit (lower_char c) = is_digit c"
  by (auto simp: is_digit_def in_range_def lower_char_def Let_def)

lemma is_word_lower [simp]: "is_word (lower_char c) = is_word c"
proof (cases "is_upper c")
  case True
  then have "of_char c + 32 < (256 :: nat)" by (simp add: is_upper_def in_range_def)
  with True show ?thesis
    by (simp add: is_word_def is_alnum_def is_upper_def is_lower_def in_range_def lower_char_def Let_def)
next
  case False
  then have "lower_char c = c" by (auto simp: is_upper_def in_range_def lower_char_def Let_def)
  then show ?thesis by simp
qed

lemma lower_digits: "\<forall>c \<in> set s. is_digit c \<Longrightarrow> lower s = s"
  by (induction s) (auto simp: lower_def lower_char_def is_digit_def in_range_def Let_def)

fun int_of_digits :: "string \<Rightarrow> int" where
  "int_of_digits [] = 0"
| "int_of_digits (c # cs) = (of_char c - 48) * 10 ^ length cs + int_of_digits cs"

text \<open>\<open>int(digits)\<close>, with the interpreter's limit on the length of the numeral.\<close>

definition py_int :: "string \<Rightarrow> error + int" where
  "py_int s =
     (if length s > 4300
      then Inl (ValueError (''Exceeds the limit (4300 digits) for integer string conversion: value has ''
        @ str_of_int (int (length s)) @ '' digits; use sys.set_int_max_str_digits() to increase the limit''))
      else Inr (int_of_digits s))"

lemma int_of_digits_append: "int_of_digits (s @ [c]) = 10 * int_of_digits s + (of_char c - 48)"
  by (induction s) (auto simp: algebra_simps)

lemma digit_value: "k < 10 \<Longrightarrow> (of_char (char_of (k + 48) :: char) :: int) = int k + 48" for k :: nat
  using of_nat_of_char [of "char_of (k + 48)", where 'a = int] by simp

lemma int_of_digits_of [simp]: "int_of_digits (digits_of n) = int n"
proof (induction n rule: digits_of.induct)
  case (1 n)
  show ?case
  proof (cases "n < 10")
    case True
    then show ?thesis by (subst digits_of.simps) (simp add: digit_value)
  next
    case False
    with 1 have "int_of_digits (digits_of n) = 10 * int (n div 10) + int (n mod 10)"
      by (subst digits_of.simps) (simp add: int_of_digits_append digit_value)
    also have "\<dots> = int (10 * (n div 10) + n mod 10)" by (simp only: of_nat_add of_nat_mult of_nat_numeral)
    finally show ?thesis by simp
  qed
qed

lemma digits_of_digits: "c \<in> set (digits_of n) \<Longrightarrow> is_digit c"
proof (induction n rule: digits_of.induct)
  case (1 n)
  have "is_digit (char_of (k + 48))" if "k < 10" for k :: nat
    using that by (simp add: is_digit_def in_range_def)
  with 1 show ?case by (subst (asm) digits_of.simps) (auto split: if_splits)
qed

lemma digits_of_nonempty [simp]: "digits_of n \<noteq> []"
  by (subst digits_of.simps) simp

definition repr_strs :: "string list \<Rightarrow> string" where
  "repr_strs xs = ''['' @ join '', '' (map repr_str xs) @ '']''"

definition repr_opt :: "string option \<Rightarrow> string" where
  "repr_opt x = (case x of None \<Rightarrow> ''None'' | Some s \<Rightarrow> repr_str s)"

text \<open>\<open>xs.index(x)\<close>.\<close>

fun index_of :: "'a \<Rightarrow> 'a list \<Rightarrow> nat option" where
  "index_of x [] = None"
| "index_of x (y # ys) = (if y = x then Some 0 else map_option Suc (index_of x ys))"

lemma index_of_append [simp]: "x \<notin> set xs \<Longrightarrow> index_of x (xs @ x # ys) = Some (length xs)"
  by (induction xs) auto

lemma index_of_Some: "index_of x xs = Some i \<Longrightarrow> i < length xs \<and> xs ! i = x \<and> x \<notin> set (take i xs)"
  by (induction xs arbitrary: i) (auto split: if_splits)

end
