(* ===== verification/Pdf_Parser.thy ===== *)
theory Pdf_Parser
  imports Py_Text
begin

text \<open>
  \<open>app/documents/pdf_parser.py\<close>: a page's lines split into title, preamble fields and sections.
  What PyMuPDF extracts, the raw text of each page, is the argument of \<open>parse_pdf\<close>. The lemmas
  show that the slices the splitter cuts between heading positions are the sections a reader
  sees: every line from the first heading on belongs to exactly one of them, in order.
\<close>

record parsed_section =
  sec_number :: "string option"
  sec_title :: string
  sec_body :: string

record parsed_page =
  page_number :: int
  page_title :: string
  preamble_fields :: "(string \<times> string) list"
  sections :: "parsed_section list"

section \<open>Line patterns\<close>

definition HEADING :: "re list" where
  "HEADING = [Many 1 (Cls is_digit), Chr (CHR ''.''), Many 1 (Cls is_space),
     Seq (Cls (\<lambda>c. \<not> is_space c)) (Many 0 AnyChar), AtEnd]"

definition KV_LINE :: "re list" where
  "KV_LINE = [Seq (Cls (\<lambda>c. is_lower c \<or> is_upper c))
       (Rep 1 30 (Cls (\<lambda>c. is_lower c \<or> is_upper c \<or> c = CHR '' ''))),
     Chr (CHR '':''), Spaces, Many 1 AnyChar, AtEnd]"

text \<open>The number and title of a heading line, the key and value of a metadata line.\<close>

definition heading :: "string \<Rightarrow> (string \<times> string) option" where
  "heading li = (case match_parts HEADING li of
     Some [num, _, _, title, _] \<Rightarrow> Some (num, title) | _ \<Rightarrow> None)"

definition kv_line :: "string \<Rightarrow> (string \<times> string) option" where
  "kv_line li = (case match_parts KV_LINE li of
     Some [key, _, _, val, _] \<Rightarrow> Some (key, val) | _ \<Rightarrow> None)"

section \<open>Sections\<close>

definition headings_from :: "nat \<Rightarrow> string list \<Rightarrow> (nat \<times> string \<times> string) list" where
  "headings_from k lns = List.map_filter (\<lambda>(i, li). map_option (\<lambda>m. (i, m)) (heading li)) (enumerate k lns)"

fun cut_sections :: "string list \<Rightarrow> (nat \<times> string \<times> string) list \<Rightarrow> parsed_section list" where
  "cut_sections lns [] = []"
| "cut_sections lns ((start, num, title) # hs) =
     (let stop = (case hs of [] \<Rightarrow> length lns | (e, _) # _ \<Rightarrow> e);
          body_lines = take (stop - (start + 1)) (drop (start + 1) lns)
      in \<lparr>sec_number = Some num, sec_title = title, sec_body = join newline body_lines\<rparr> # cut_sections lns hs)"

definition split_sections :: "string list \<Rightarrow> parsed_section list" where
  "split_sections lns =
     (if lns = [] then []
      else (case headings_from 0 lns of
         [] \<Rightarrow> [\<lparr>sec_number = None, sec_title = hd lns, sec_body = join newline (tl lns)\<rparr>]
       | hs \<Rightarrow> cut_sections lns hs))"

section \<open>Pages\<close>

text \<open>The loop over contiguous metadata lines: the fields it has filled and the lines it leaves.\<close>

fun preamble :: "(string \<times> string) list \<Rightarrow> string list \<Rightarrow> (string \<times> string) list \<times> string list" where
  "preamble kvs [] = (kvs, [])"
| "preamble kvs (li # lns) =
     (case kv_line li of
        None \<Rightarrow> (kvs, li # lns)
      | Some (key, val) \<Rightarrow> preamble (dict_put kvs (strip key) (strip val)) lns)"

definition parse_page :: "int \<Rightarrow> string list \<Rightarrow> string \<Rightarrow> error + parsed_page" where
  "parse_page n lns filename =
     (let title_lines = takeWhile (\<lambda>li. kv_line li = None) lns;
          rest = dropWhile (\<lambda>li. kv_line li = None) lns
      in if rest = [] then
           Inl (DocumentParseError filename (''page '' @ str_of_int n @ '' has no metadata block''))
         else
           (let (kvs, remainder) = preamble [] rest
            in Inr \<lparr>page_number = n, page_title = join '' '' title_lines, preamble_fields = kvs,
                    sections = split_sections remainder\<rparr>))"

definition parse_pdf :: "string \<Rightarrow> string list \<Rightarrow> error + parsed_page list" where
  "parse_pdf name texts =
     (if texts = [] then Inl (DocumentParseError name ''PDF has zero pages'')
      else mapE (\<lambda>(i, raw).
             (let lns = text_lines raw in
              if lns = [] then
                Inl (DocumentParseError name (''page '' @ str_of_int (int i) @ '' has no extractable text''))
              else parse_page (int i) lns name)) (enumerate 1 texts))"

section \<open>The splitter is a partition\<close>

text \<open>The reference: a heading owns the lines up to the next one.\<close>

fun owned :: "string list \<Rightarrow> (string \<times> string list) list" where
  "owned [] = []"
| "owned (li # lns) =
     (if heading li = None then owned lns
      else (li, takeWhile (\<lambda>l. heading l = None) lns) # owned lns)"

definition section_of :: "string \<times> string list \<Rightarrow> parsed_section" where
  "section_of p = (case heading (fst p) of
       Some (num, title) \<Rightarrow> \<lparr>sec_number = Some num, sec_title = title, sec_body = join newline (snd p)\<rparr>
     | None \<Rightarrow> \<lparr>sec_number = None, sec_title = fst p, sec_body = join newline (snd p)\<rparr>)"

lemma headings_from_simps [simp]:
  "headings_from k [] = []"
  "headings_from k (li # lns) =
     (case heading li of None \<Rightarrow> headings_from (Suc k) lns | Some m \<Rightarrow> (k, m) # headings_from (Suc k) lns)"
  by (auto simp: headings_from_def map_filter_simps split: option.splits)

lemma headings_Nil: "headings_from k lns = [] \<longleftrightarrow> (\<forall>l \<in> set lns. heading l = None)"
  by (induction lns arbitrary: k) (auto split: option.splits)

lemma headings_Cons:
  "headings_from k lns = (e, m) # hs \<Longrightarrow>
     k \<le> e \<and> takeWhile (\<lambda>l. heading l = None) lns = take (e - k) lns"
proof (induction lns arbitrary: k)
  case (Cons li lns)
  show ?case
  proof (cases "heading li")
    case None
    with Cons.prems Cons.IH [of "Suc k"] have
      "Suc k \<le> e" "takeWhile (\<lambda>l. heading l = None) lns = take (e - Suc k) lns" by auto
    moreover from this have "e - k = Suc (e - Suc k)" by simp
    ultimately show ?thesis using None by simp
  qed (use Cons.prems in simp)
qed simp

lemma cut_sections_owned:
  "drop k lns = suf \<Longrightarrow> cut_sections lns (headings_from k suf) = map section_of (owned suf)"
proof (induction suf arbitrary: k)
  case (Cons li suf)
  then have suf: "drop (Suc k) lns = suf" by (metis drop_Suc list.sel(3) tl_drop)
  note IH = Cons.IH [OF this]
  show ?case
  proof (cases "heading li")
    case (Some m)
    have "take ((case headings_from (Suc k) suf of [] \<Rightarrow> length lns | (e, _) # _ \<Rightarrow> e) - Suc k) suf
        = takeWhile (\<lambda>l. heading l = None) suf"
    proof (cases "headings_from (Suc k) suf")
      case Nil
      then have own: "takeWhile (\<lambda>l. heading l = None) suf = suf" by (simp add: headings_Nil takeWhile_eq_all_conv)
      have "length lns - Suc k = length suf" using suf by (metis length_drop)
      with Nil show ?thesis unfolding own by simp
    next
      case (Cons h hs)
      then show ?thesis using headings_Cons [of "Suc k" suf "fst h" "snd h" hs] by (cases h) simp
    qed
    with Some IH suf show ?thesis by (cases m) (simp add: Let_def section_of_def)
  qed (use IH in simp)
qed simp

lemma owned_lines: "concat (map (\<lambda>(h, b). h # b) (owned lns)) = dropWhile (\<lambda>l. heading l = None) lns"
proof (induction lns)
  case (Cons li lns)
  show ?case
  proof (cases "heading li")
    case (Some m)
    with Cons show ?thesis using takeWhile_dropWhile_id [of "\<lambda>l. heading l = None" lns] by simp
  qed (use Cons in simp)
qed simp

lemma owned_Nil: "owned lns = [] \<longleftrightarrow> (\<forall>l \<in> set lns. heading l = None)"
  by (induction lns) auto

lemma owned_headed: "list_all (\<lambda>(h, b). heading h \<noteq> None \<and> list_all (\<lambda>l. heading l = None) b) (owned lns)"
  by (induction lns) (auto simp: list_all_iff dest: set_takeWhileD)

text \<open>C29. Splitting a page loses nothing below its first heading and puts nothing in two places: the
  lines are those before the first heading followed by every heading with the lines it owns,
  and the sections are exactly these blocks, in order. A page without headings is one
  unnumbered section under its first line.\<close>

theorem sections_partition:
  "lns = takeWhile (\<lambda>l. heading l = None) lns @ concat (map (\<lambda>(h, b). h # b) (owned lns))
   \<and> list_all (\<lambda>(h, b). heading h \<noteq> None \<and> list_all (\<lambda>l. heading l = None) b) (owned lns)
   \<and> split_sections lns =
       (if owned lns \<noteq> [] then map section_of (owned lns)
        else if lns = [] then []
        else [\<lparr>sec_number = None, sec_title = hd lns, sec_body = join newline (tl lns)\<rparr>])"
proof -
  have "headings_from 0 lns = [] \<longleftrightarrow> owned lns = []" by (simp add: headings_Nil owned_Nil)
  then have "split_sections lns =
      (if owned lns \<noteq> [] then map section_of (owned lns)
       else if lns = [] then []
       else [\<lparr>sec_number = None, sec_title = hd lns, sec_body = join newline (tl lns)\<rparr>])"
    using cut_sections_owned [of 0 lns lns] by (cases "headings_from 0 lns") (auto simp: split_sections_def)
  with owned_headed [of lns] show ?thesis by (simp add: owned_lines)
qed

lemma sample_page:
  "parse_page 1 [''Some Title'', ''Status: CURRENT'', ''Effective: 1 May 2026'', ''1. First section'', ''body one'',
      ''body two'', ''2. Second section'', ''another''] ''test.pdf''
   = Inr \<lparr>page_number = 1, page_title = ''Some Title'',
       preamble_fields = [(''Status'', ''CURRENT''), (''Effective'', ''1 May 2026'')],
       sections = [\<lparr>sec_number = Some ''1'', sec_title = ''First section'', sec_body = join newline [''body one'', ''body two'']\<rparr>,
         \<lparr>sec_number = Some ''2'', sec_title = ''Second section'', sec_body = ''another''\<rparr>]\<rparr>"
  by code_simp

end
