(* ===== verification/Py_Format.thy ===== *)
theory Py_Format
  imports Py_Float Py_Text
begin

text \<open>
  How Python writes a \<open>float\<close>: the fixed-point formats \<open>:.nf\<close> and \<open>:.0%\<close>, which round the exact
  binary value half to even, and \<open>repr\<close>, the shortest decimal that reads back as the float, in
  positional notation between \<open>1e-4\<close> and \<open>1e16\<close> and with an exponent outside. The lemmas show that
  a fixed-point text is within half a unit of its last place.
\<close>

section \<open>Padding\<close>

definition zero_padded :: "nat \<Rightarrow> int \<Rightarrow> string" where
  "zero_padded k n = (let s = str_of_int n in replicate (k - length s) (CHR ''0'') @ s)"

text \<open>\<open>f"{s:<k}"\<close> and \<open>f"{s:>k}"\<close>.\<close>

definition ljust :: "nat \<Rightarrow> string \<Rightarrow> string" where
  "ljust k s = s @ replicate (k - length s) (CHR '' '')"

definition rjust :: "nat \<Rightarrow> string \<Rightarrow> string" where
  "rjust k s = replicate (k - length s) (CHR '' '') @ s"

section \<open>Fixed point\<close>

definition fixed :: "nat \<Rightarrow> pyfloat \<Rightarrow> string" where
  "fixed n x =
     (let m = round_half_even (\<bar>x\<bar> * 10 ^ n) in
      (if x < 0 then ''-'' else []) @ str_of_int (m div 10 ^ n)
        @ (if n = 0 then [] else ''.'' @ zero_padded n (m mod 10 ^ n)))"

definition percent0 :: "pyfloat \<Rightarrow> string" where
  "percent0 x = fixed 0 (fl (x * 100)) @ ''%''"

section \<open>The shortest decimal\<close>

text \<open>The largest \<open>e\<close> with \<open>10 powi e \<le> x\<close>.\<close>

definition decimal_exponent :: "rat \<Rightarrow> int" where
  "decimal_exponent x =
     (if 1 \<le> x then int (length (digits_of (nat \<lfloor>x\<rfloor>))) - 1
      else - int (length (digits_of (nat (\<lceil>1 / x\<rceil> - 1)))))"

text \<open>The decimals of \<open>n\<close> digits next to \<open>x\<close> that read back as \<open>x\<close>, the nearer one first.\<close>

definition nearest_decimal :: "nat \<Rightarrow> rat \<Rightarrow> int option" where
  "nearest_decimal n x =
     (let u = 10 powi (decimal_exponent x - int n + 1);
          near = round_half_even (x / u);
          far = (if of_int near * u \<le> x then near + 1 else near - 1)
      in List.find (\<lambda>m. fl (of_int m * u) = x) [near, far])"

text \<open>The digits, and where the decimal point stands. Seventeen digits always suffice.\<close>

definition shortest :: "rat \<Rightarrow> string \<times> int" where
  "shortest x =
     (let n = (case List.find (\<lambda>n. nearest_decimal n x \<noteq> None) [1..<17] of Some n \<Rightarrow> n | None \<Rightarrow> 17);
          m = (case nearest_decimal n x of Some m \<Rightarrow> m | None \<Rightarrow> round_half_even (x / 10 powi (decimal_exponent x - int n + 1)));
          e = decimal_exponent x
      in if m = 10 ^ n then (''1'', e + 2) else (str_of_int m, e + 1))"

definition positional :: "string \<Rightarrow> int \<Rightarrow> string" where
  "positional ds point =
     (if point \<le> 0 then ''0.'' @ replicate (nat (- point)) (CHR ''0'') @ ds
      else if int (length ds) \<le> point then ds @ replicate (nat point - length ds) (CHR ''0'') @ ''.0''
      else take (nat point) ds @ ''.'' @ drop (nat point) ds)"

definition scientific :: "string \<Rightarrow> int \<Rightarrow> string" where
  "scientific ds point =
     take 1 ds @ (if length ds = 1 then [] else ''.'' @ drop 1 ds)
       @ ''e'' @ (if point - 1 < 0 then ''-'' else ''+'') @ zero_padded 2 \<bar>point - 1\<bar>"

definition float_repr :: "pyfloat \<Rightarrow> string" where
  "float_repr x =
     (if x = 0 then ''0.0''
      else let (ds, point) = shortest \<bar>x\<bar> in
        (if x < 0 then ''-'' else []) @ (if - 4 < point \<and> point \<le> 16 then positional ds point else scientific ds point))"

section \<open>What a fixed-point text says\<close>

lemma round_half_even_close: "\<bar>of_int (round_half_even x) - x\<bar> \<le> 1 / 2"
proof -
  have f: "of_int \<lfloor>x\<rfloor> \<le> x" "x < of_int \<lfloor>x\<rfloor> + 1" using floor_correct [of x] by simp_all
  consider "round_half_even x = \<lfloor>x\<rfloor>" "x - of_int \<lfloor>x\<rfloor> \<le> 1 / 2"
    | "round_half_even x = \<lfloor>x\<rfloor> + 1" "1 / 2 \<le> x - of_int \<lfloor>x\<rfloor>"
    using round_half_even_cases [of x] by blast
  then show ?thesis
  proof cases
    case 1
    then show ?thesis unfolding 1(1) abs_le_iff using f by (intro conjI; linarith)
  next
    case 2
    then show ?thesis unfolding 2(1) of_int_add of_int_1 abs_le_iff using f by (intro conjI; linarith)
  qed
qed

text \<open>The number a text of digits with one point, or none, denotes.\<close>

definition decimal_value :: "string \<Rightarrow> rat" where
  "decimal_value s =
     (let whole = takeWhile (\<lambda>c. c \<noteq> CHR ''.'') s; frac = drop (Suc (length whole)) s
      in of_int (int_of_digits whole) + of_int (int_of_digits frac) / 10 ^ length frac)"

lemma length_digits_of: "n < 10 ^ k \<Longrightarrow> 0 < k \<Longrightarrow> length (digits_of n) \<le> k"
proof (induction n arbitrary: k rule: digits_of.induct)
  case (1 n)
  show ?case
  proof (cases "n < 10")
    case False
    then obtain j where k: "k = Suc j" "0 < j" using 1(2,3) by (cases k; cases "k - 1") auto
    with 1(2) have "n div 10 < 10 ^ j" by (simp add: less_mult_imp_div_less mult.commute)
    with 1(1) [OF False _ k(2)] show ?thesis by (subst digits_of.simps) (simp add: False k(1))
  qed (use 1(3) in \<open>subst digits_of.simps; simp\<close>)
qed

lemma length_zero_padded: "0 \<le> n \<Longrightarrow> n < 10 ^ k \<Longrightarrow> 0 < k \<Longrightarrow> length (zero_padded k n) = k"
proof -
  assume n: "0 \<le> n" "n < 10 ^ k" "0 < k"
  then have "nat n < 10 ^ k" by (simp add: nat_less_iff)
  from length_digits_of [OF this n(3)] n(1) show ?thesis by (simp add: zero_padded_def Let_def str_of_int_def)
qed

lemma int_of_zero_padded: "0 \<le> n \<Longrightarrow> int_of_digits (zero_padded k n) = n"
proof -
  have "int_of_digits (replicate j (CHR ''0'') @ u) = int_of_digits u" for j u by (induction j) simp_all
  then show "0 \<le> n \<Longrightarrow> int_of_digits (zero_padded k n) = n"
    by (simp add: zero_padded_def Let_def str_of_int_def)
qed

lemma zero_padded_digits: "0 \<le> n \<Longrightarrow> list_all is_digit (zero_padded k n)"
  by (auto simp: zero_padded_def Let_def str_of_int_def list_all_iff is_digit_def in_range_def dest: digits_of_digits)

lemma fixed_value:
  assumes "0 \<le> x"
  shows "decimal_value (fixed n x) = of_int (round_half_even (x * 10 ^ n)) / 10 ^ n"
proof -
  let ?m = "round_half_even (x * 10 ^ n)"
  have m: "0 \<le> ?m" using round_half_even_mono [of 0 "x * 10 ^ n"] round_half_even_of_int [of 0] assms by simp
  then have q: "0 \<le> ?m div 10 ^ n" "0 \<le> ?m mod 10 ^ n" "?m mod 10 ^ n < 10 ^ n"
    by (simp_all add: pos_imp_zdiv_nonneg_iff)
  have w: "str_of_int (?m div 10 ^ n) = digits_of (nat (?m div 10 ^ n))" using q(1) by (simp add: str_of_int_def)
  have nodot: "\<forall>c \<in> set (digits_of k). c \<noteq> CHR ''.''" for k
    by (auto dest!: digits_of_digits simp: is_digit_def in_range_def)
  have "(of_int k :: rat) = of_int (k div 10 ^ n) * 10 ^ n + of_int (k mod 10 ^ n)" for k
  proof -
    have "(of_int k :: rat) = of_int (k div 10 ^ n * 10 ^ n + k mod 10 ^ n)" by (simp only: div_mult_mod_eq)
    then show ?thesis by (simp only: of_int_add of_int_mult of_int_power of_int_numeral)
  qed
  from this [of ?m] have val: "(of_int ?m :: rat) / 10 ^ n = of_int (?m div 10 ^ n) + of_int (?m mod 10 ^ n) / 10 ^ n"
    by (simp add: field_simps)
  show ?thesis
  proof (cases "n = 0")
    case True
    with assms nodot m show ?thesis
      by (simp add: fixed_def Let_def decimal_value_def w str_of_int_def takeWhile_eq_all_conv [THEN iffD2])
  next
    case False
    have tw: "takeWhile (\<lambda>c. c \<noteq> CHR ''.'') (digits_of k @ CHR ''.'' # z) = digits_of k" for k z
      using nodot by (simp add: takeWhile_append2)
    show ?thesis
      using False assms q length_zero_padded [OF q(2,3)] int_of_zero_padded [OF q(2)] val
      by (simp add: fixed_def Let_def decimal_value_def w tw)
  qed
qed

text \<open>Never off by more than half a unit of the last place shown.\<close>

lemma fixed_close:
  assumes "0 \<le> x"
  shows "\<bar>decimal_value (fixed n x) - x\<bar> \<le> 1 / (2 * 10 ^ n)"
proof -
  have "decimal_value (fixed n x) - x = (of_int (round_half_even (x * 10 ^ n)) - x * 10 ^ n) / 10 ^ n"
    by (simp add: fixed_value [OF assms] diff_divide_distrib)
  then have "\<bar>decimal_value (fixed n x) - x\<bar> = \<bar>of_int (round_half_even (x * 10 ^ n)) - x * 10 ^ n\<bar> / 10 ^ n"
    by (simp add: abs_divide)
  also have "\<dots> \<le> (1 / 2) / 10 ^ n"
    by (intro divide_right_mono round_half_even_close) simp
  finally show ?thesis by simp
qed

end
