(* ===== verification/Source_Metadata.thy ===== *)
theory Source_Metadata
  imports Pdf_Parser Database Py_Format
begin

text \<open>
  \<open>app/documents/source_metadata.py\<close>: a \<open>SourceDocument\<close> built from the facts a page states,
  cross-checked with the manifest, and the resolution of "Supersedes" references. The manifest
  is \<open>data/source_manifest.json\<close>, an entry of it a record of the keys the code reads. The
  lemmas show that what is built agrees with the manifest in every checked field.
\<close>

section \<open>Calendar dates\<close>

type_synonym ymd = "int \<times> int \<times> int"

definition is_leap :: "int \<Rightarrow> bool" where
  "is_leap y = (y mod 4 = 0 \<and> (y mod 100 \<noteq> 0 \<or> y mod 400 = 0))"

definition month_lengths :: "int \<Rightarrow> int list" where
  "month_lengths y = [31, if is_leap y then 29 else 28, 31, 30, 31, 30, 31, 31, 30, 31, 30, 31]"

fun valid_ymd :: "ymd \<Rightarrow> bool" where
  "valid_ymd (y, m, d) =
     (1 \<le> y \<and> y \<le> 9999 \<and> 1 \<le> m \<and> m \<le> 12 \<and> 1 \<le> d \<and> d \<le> month_lengths y ! nat (m - 1))"

text \<open>The ordinal of a date: the days before its year, before its month, and its day.\<close>

fun ordinal :: "ymd \<Rightarrow> date" where
  "ordinal (y, m, d) =
     365 * (y - 1) + (y - 1) div 4 - (y - 1) div 100 + (y - 1) div 400
     + sum_list (take (nat (m - 1)) (month_lengths y)) + d"

fun isoformat :: "ymd \<Rightarrow> string" where
  "isoformat (y, m, d) = zero_padded 4 y @ ''-'' @ zero_padded 2 m @ ''-'' @ zero_padded 2 d"

definition MONTHS :: "string list" where
  "MONTHS = [''january'', ''february'', ''march'', ''april'', ''may'', ''june'', ''july'', ''august'',
     ''september'', ''october'', ''november'', ''december'']"

text \<open>The expression \<open>strptime\<close> builds from the format \<open>%d %B %Y\<close>, for lower-cased text.\<close>

definition DATE_FORMAT :: "re list" where
  "DATE_FORMAT =
     (let digit = Cls is_digit; among = \<lambda>cs. Cls (\<lambda>c. c \<in> set cs) in
      [alts [Seq (Chr (CHR ''3'')) (among ''01''), Seq (among ''12'') digit, Seq (Chr (CHR ''0'')) (among ''123456789''),
             among ''123456789'', Seq (Chr (CHR '' '')) (among ''123456789'')],
       Many 1 (Cls is_space), alts (map lit MONTHS), Many 1 (Cls is_space), Rep 4 4 digit])"

definition strptime :: "string \<Rightarrow> ymd option" where
  "strptime s =
     (case match_parts DATE_FORMAT (lower s) of
        Some [day, sp, month, sp', year] \<Rightarrow>
          (let found = (int_of_digits year, int (the (index_of month MONTHS)) + 1, int_of_digits (strip day))
           in if length (concat [day, sp, month, sp', year]) = length s \<and> valid_ymd found then Some found else None)
      | _ \<Rightarrow> None)"

definition parse_date :: "string \<Rightarrow> string \<Rightarrow> error + ymd" where
  "parse_date raw source_id =
     of_optionE (DocumentParseError source_id (''unparseable date '' @ repr_str raw)) (strptime (strip raw))"

section \<open>Fields of a page\<close>

definition VERSION :: "re list" where
  "VERSION = [WordB, Chr (CHR ''v''), Many 1 (Cls is_digit), WordB]"

text \<open>\<open>_VERSION.search\<close>: the digits after the v.\<close>

definition search_version :: "string \<Rightarrow> string option" where
  "search_version s = (case search_parts VERSION (lower s) of Some [_, _, num, _] \<Rightarrow> Some num | _ \<Rightarrow> None)"

definition parse_status :: "string \<Rightarrow> string \<Rightarrow> error + source_status" where
  "parse_status raw source_id =
     of_optionE (DocumentParseError source_id (''unrecognized status '' @ repr_str raw))
       (source_status_of (upper (strip (split_first '' - '' raw))))"

definition parse_version :: "string \<Rightarrow> string option" where
  "parse_version title = map_option (\<lambda>num. ''v'' @ num) (search_version title)"

definition term_start :: "string option \<Rightarrow> string option" where
  "term_start trm = map_option (\<lambda>t. strip (split_first '' to '' t)) trm"

definition term_end :: "string option \<Rightarrow> string option" where
  "term_end trm = (case trm of None \<Rightarrow> None | Some t \<Rightarrow> map_option strip (split_second '' to '' t))"

section \<open>Building a source\<close>

record manifest_entry =
  me_source_id :: string
  me_filename :: string
  me_source_type :: string
  me_status :: string
  me_effective_date :: string
  me_expiry_date :: "string option"
  me_supersedes :: "string option"
  me_superseded_by :: "string option"
  me_scope_kind :: string
  me_account_ids :: "string list option"
  me_authority_class :: string
  me_checksum :: string
  me_provenance :: string

text \<open>Python's \<open>a or b\<close> on optional strings.\<close>

definition or_else :: "string option \<Rightarrow> string option \<Rightarrow> string option" where
  "or_else a b = (if a = None \<or> a = Some [] then b else a)"

definition checked_drift :: "string \<Rightarrow> string \<Rightarrow> string option \<Rightarrow> string option \<Rightarrow> error + unit" where
  "checked_drift source_id field manifest_value parsed_value =
     requireE (manifest_value = parsed_value)
       (SourceMetadataDriftError source_id field (repr_opt manifest_value) (repr_opt parsed_value))"

definition check_account :: "string \<Rightarrow> manifest_entry \<Rightarrow> string option \<Rightarrow> error + unit" where
  "check_account source_id entry account_id =
     bindE (requireE (account_id \<noteq> None \<and> account_id \<noteq> Some [])
              (DocumentParseError source_id (''account-scoped source has no '' @ repr_str ''Account:'' @ '' field''))) (\<lambda>_.
     let ids = (case me_account_ids entry of None \<Rightarrow> [] | Some xs \<Rightarrow> xs) in
     requireE (ids = [] \<or> the account_id \<in> set ids)
       (SourceMetadataDriftError source_id ''scope.account_id'' (repr_strs ids) (repr_opt account_id)))"

definition preamble_get :: "parsed_page \<Rightarrow> string \<Rightarrow> string option" where
  "preamble_get page key = dict_get (preamble_fields page) key"

definition effective_text :: "parsed_page \<Rightarrow> string option" where
  "effective_text page =
     or_else (or_else (preamble_get page ''Effective'') (preamble_get page ''Updated''))
       (term_start (preamble_get page ''Term''))"

definition build_source_document ::
  "string \<Rightarrow> string \<Rightarrow> parsed_page \<Rightarrow> string \<Rightarrow> int \<Rightarrow> manifest_entry \<Rightarrow> error + source_document" where
  "build_source_document source_id filename page checksum size_bytes entry =
     bindE (of_optionE (DocumentParseError source_id (''no '' @ repr_str ''Status:'' @ '' field in preamble''))
              (preamble_get page ''Status'')) (\<lambda>raw_status.
     bindE (parse_status raw_status source_id) (\<lambda>status.
     bindE (of_optionE (DocumentParseError source_id
              (''no '' @ join ''/'' (map repr_str [''Effective:'', ''Updated:'', ''Term:'']) @ '' field in preamble''))
              (effective_text page)) (\<lambda>effective_raw.
     bindE (parse_date effective_raw source_id) (\<lambda>effective.
     let version = parse_version (page_title page); expiry_raw = term_end (preamble_get page ''Term'') in
     bindE (if expiry_raw = None \<or> expiry_raw = Some [] then Inr None
            else bindE (parse_date (the expiry_raw) source_id) (\<lambda>d. Inr (Some d))) (\<lambda>expiry.
     bindE (requireE (me_status entry = source_status_value status)
              (SourceMetadataDriftError source_id ''status'' (repr_str (me_status entry))
                (repr_str (source_status_value status)))) (\<lambda>_.
     bindE (checked_drift source_id ''effective_date'' (Some (me_effective_date entry)) (Some (isoformat effective))) (\<lambda>_.
     bindE (checked_drift source_id ''expiry_date'' (me_expiry_date entry) (map_option isoformat expiry)) (\<lambda>_.
     bindE (of_optionE (ValueError (repr_str (me_scope_kind entry) @ '' is not a valid ScopeKind''))
              (scope_kind_of (me_scope_kind entry))) (\<lambda>kind.
     let account_id = preamble_get page ''Account'' in
     bindE (if kind = ACCOUNT then check_account source_id entry account_id else Inr ()) (\<lambda>_.
     bindE (requireE (removeprefix ''sha256:'' (me_checksum entry) = checksum)
              (ChecksumMismatchError filename (removeprefix ''sha256:'' (me_checksum entry)) checksum)) (\<lambda>_.
     bindE (of_optionE (ValidationError ''SourceDocument.source_type'') (source_type_of (me_source_type entry))) (\<lambda>stype.
     bindE (of_optionE (ValidationError ''SourceDocument.authority_class'') (authority_class_of (me_authority_class entry))) (\<lambda>auth.
     Inr \<lparr>src_id = source_id, src_filename = filename, src_type = stype, src_status = status,
          src_version = version, src_effective_date = ordinal effective,
          src_expiry_date = map_option ordinal expiry, src_supersedes = None, src_superseded_by = None,
          src_scope = \<lparr>scope_kind = kind, scope_account_id = (if kind = ACCOUNT then account_id else None)\<rparr>,
          src_authority_class = auth, src_checksum = checksum, src_bytes = size_bytes,
          src_provenance = me_provenance entry\<rparr>)))))))))))))"

section \<open>Supersession\<close>

definition resolve_reference :: "string option \<Rightarrow> (string \<times> string) list \<Rightarrow> string \<Rightarrow> error + string option" where
  "resolve_reference raw version_to_id source_id =
     (case raw of
        None \<Rightarrow> Inr None
      | Some r \<Rightarrow>
          bindE (of_optionE (DocumentParseError source_id (''cannot resolve version reference in '' @ repr_str r))
                   (search_version r)) (\<lambda>num.
          bindE (of_optionE (DocumentParseError source_id
                     (''reference '' @ repr_str r @ '' does not match any parsed source version''))
                   (dict_get version_to_id (''v'' @ num))) (\<lambda>target_id.
          Inr (Some target_id))))"

text \<open>The comprehension \<open>{doc.version: sid for ... if doc.version}\<close>.\<close>

definition version_map :: "(string \<times> source_document) list \<Rightarrow> (string \<times> string) list" where
  "version_map sources =
     fold (\<lambda>(sid, doc) d. case src_version doc of
             None \<Rightarrow> d | Some v \<Rightarrow> if v = [] then d else dict_put d v sid) sources []"

definition resolve_one ::
  "(string \<times> string) list \<Rightarrow> (string \<times> parsed_page) list \<Rightarrow> (string \<times> manifest_entry) list
    \<Rightarrow> string \<times> source_document \<Rightarrow> error + string \<times> source_document" where
  "resolve_one versions pages manifest p = (case p of (source_id, doc) \<Rightarrow>
     bindE (of_optionE (KeyError source_id) (dict_get pages source_id)) (\<lambda>page.
     bindE (resolve_reference (preamble_get page ''Supersedes'') versions source_id) (\<lambda>supersedes_id.
     bindE (resolve_reference (preamble_get page ''Superseded by'') versions source_id) (\<lambda>superseded_by_id.
     bindE (of_optionE (KeyError source_id) (dict_get manifest source_id)) (\<lambda>entry.
     bindE (checked_drift source_id ''supersedes'' (me_supersedes entry) supersedes_id) (\<lambda>_.
     bindE (checked_drift source_id ''superseded_by'' (me_superseded_by entry) superseded_by_id) (\<lambda>_.
     Inr (source_id, doc\<lparr>src_supersedes := supersedes_id, src_superseded_by := superseded_by_id\<rparr>))))))))"

definition resolve_supersession ::
  "(string \<times> source_document) list \<Rightarrow> (string \<times> parsed_page) list \<Rightarrow> (string \<times> manifest_entry) list
    \<Rightarrow> error + (string \<times> source_document) list" where
  "resolve_supersession sources pages manifest = mapE (resolve_one (version_map sources) pages manifest) sources"

section \<open>What is built agrees with the manifest\<close>

lemma checked_drift_Inr [simp]: "checked_drift source_id field m p = Inr u \<longleftrightarrow> m = p"
  by (simp add: checked_drift_def)

lemma removeprefix_cases: "removeprefix p s = s \<or> s = p @ removeprefix p s"
  by (auto simp: removeprefix_def starts_with_iff)

text \<open>A document agrees with a manifest entry in everything the manifest records of it.\<close>

definition agrees :: "manifest_entry \<Rightarrow> source_document \<Rightarrow> bool" where
  "agrees entry doc \<longleftrightarrow>
     source_status_value (src_status doc) = me_status entry
     \<and> (\<exists>day. valid_ymd day \<and> isoformat day = me_effective_date entry \<and> ordinal day = src_effective_date doc)
     \<and> (case me_expiry_date entry of None \<Rightarrow> src_expiry_date doc = None
        | Some e \<Rightarrow> \<exists>day. valid_ymd day \<and> isoformat day = e \<and> src_expiry_date doc = Some (ordinal day))
     \<and> source_type_value (src_type doc) = me_source_type entry
     \<and> authority_class_value (src_authority_class doc) = me_authority_class entry
     \<and> scope_kind_value (scope_kind (src_scope doc)) = me_scope_kind entry
     \<and> src_checksum doc = removeprefix ''sha256:'' (me_checksum entry)
     \<and> src_provenance doc = me_provenance entry
     \<and> (if scope_kind (src_scope doc) = GLOBAL then scope_account_id (src_scope doc) = None
        else (\<exists>a. scope_account_id (src_scope doc) = Some a \<and> a \<noteq> []
               \<and> (case me_account_ids entry of None \<Rightarrow> True | Some ids \<Rightarrow> ids = [] \<or> a \<in> set ids)))"

lemma parse_date_valid: "parse_date raw source_id = Inr day \<Longrightarrow> valid_ymd day"
  by (auto simp: parse_date_def strptime_def Let_def simp del: valid_ymd.simps split: option.splits list.splits if_splits)

lemma enum_values:
  "source_type_of s = Some t \<Longrightarrow> source_type_value t = s"
  "authority_class_of s = Some a \<Longrightarrow> authority_class_value a = s"
  "scope_kind_of s = Some k \<Longrightarrow> scope_kind_value k = s"
  by (auto simp: source_type_of_def authority_class_of_def scope_kind_of_def dest: enum_of_Some)

lemma parse_expiry:
  "(if raw = None \<or> raw = Some [] then Inr None else bindE (parse_date (the raw) source_id) (\<lambda>d. Inr (Some d)))
     = Inr expiry \<Longrightarrow> expiry = None \<or> (\<exists>day. expiry = Some day \<and> valid_ymd day)"
  by (auto simp: bindE_eq_Inr dest: parse_date_valid simp del: valid_ymd.simps split: if_splits)

lemma check_account_Inr:
  "check_account source_id entry account_id = Inr u \<longleftrightarrow>
     (\<exists>a. account_id = Some a \<and> a \<noteq> [] \<and>
       (case me_account_ids entry of None \<Rightarrow> True | Some ids \<Rightarrow> ids = [] \<or> a \<in> set ids))"
  by (auto simp: check_account_def Let_def bindE_eq_Inr split: option.splits)

lemma build_source_document_Inr:
  assumes "build_source_document source_id filename page checksum size_bytes entry = Inr doc"
  shows "src_id doc = source_id" "src_filename doc = filename" "src_checksum doc = checksum"
    "src_version doc = parse_version (page_title page)" "src_supersedes doc = None" "src_superseded_by doc = None"
    "agrees entry doc"
proof -
  let ?raw = "term_end (preamble_get page ''Term'')"
  from assms obtain raw_status status effective_raw effective expiry kind u stype auth where
    d: "me_status entry = source_status_value status" "parse_date effective_raw source_id = Inr effective"
      "me_effective_date entry = isoformat effective" "me_expiry_date entry = map_option isoformat expiry"
      "(if ?raw = None \<or> ?raw = Some [] then Inr None
        else bindE (parse_date (the ?raw) source_id) (\<lambda>d. Inr (Some d))) = Inr expiry"
      "scope_kind_of (me_scope_kind entry) = Some kind"
      "(if kind = ACCOUNT then check_account source_id entry (preamble_get page ''Account'') else Inr ()) = Inr u"
      "removeprefix ''sha256:'' (me_checksum entry) = checksum"
      "source_type_of (me_source_type entry) = Some stype"
      "authority_class_of (me_authority_class entry) = Some auth"
    and doc: "\<lparr>src_id = source_id, src_filename = filename, src_type = stype, src_status = status,
          src_version = parse_version (page_title page), src_effective_date = ordinal effective,
          src_expiry_date = map_option ordinal expiry, src_supersedes = None, src_superseded_by = None,
          src_scope = \<lparr>scope_kind = kind, scope_account_id = (if kind = ACCOUNT then preamble_get page ''Account'' else None)\<rparr>,
          src_authority_class = auth, src_checksum = checksum, src_bytes = size_bytes,
          src_provenance = me_provenance entry\<rparr> = doc"
    unfolding build_source_document_def Let_def
    by (simp only: bindE_eq_Inr of_optionE_eq requireE_eq checked_drift_Inr sum.inject option.inject)
       (elim exE conjE, rule that; assumption)
  note doc = doc [symmetric] and e = parse_date_valid [OF d(2)] parse_expiry [OF d(5)]
  show "src_id doc = source_id" "src_filename doc = filename" "src_checksum doc = checksum"
    "src_version doc = parse_version (page_title page)" "src_supersedes doc = None" "src_superseded_by doc = None"
    by (simp_all add: doc)
  have "\<exists>day. valid_ymd day \<and> isoformat day = me_effective_date entry \<and> ordinal day = ordinal effective"
    using d(3) e(1) by (intro exI [of _ effective]) simp
  moreover have "case me_expiry_date entry of None \<Rightarrow> map_option ordinal expiry = None
      | Some e \<Rightarrow> \<exists>day. valid_ymd day \<and> isoformat day = e \<and> map_option ordinal expiry = Some (ordinal day)"
    using d(4) e(2) by (cases expiry) (auto simp del: valid_ymd.simps isoformat.simps ordinal.simps)
  moreover have "kind = GLOBAL \<or> (\<exists>a. preamble_get page ''Account'' = Some a \<and> a \<noteq> [] \<and>
      (case me_account_ids entry of None \<Rightarrow> True | Some ids \<Rightarrow> ids = [] \<or> a \<in> set ids))"
    using d(7) by (cases kind) (simp_all add: check_account_Inr)
  ultimately show "agrees entry doc"
    using d(1,8) enum_values(1) [OF d(9)] enum_values(2) [OF d(10)] enum_values(3) [OF d(6)]
    unfolding agrees_def doc by (cases kind; cases "me_expiry_date entry") (simp_all del: valid_ymd.simps isoformat.simps ordinal.simps)
qed

text \<open>C27. A source is stored only if the document and the manifest agree: the status, the effective
  and expiry dates, the scope, the classification and the checksum of what is built are those
  the manifest records, and the dates are real calendar dates.\<close>

theorem metadata_agrees:
  assumes "build_source_document source_id filename page checksum size_bytes entry = Inr doc"
  shows "agrees entry doc \<and> src_id doc = source_id \<and> src_filename doc = filename \<and> src_checksum doc = checksum
    \<and> src_version doc = parse_version (page_title page)"
  using build_source_document_Inr [OF assms] by simp

definition sample_entry :: manifest_entry where
  "sample_entry = \<lparr>me_source_id = ''SRC-05'', me_filename = ''agreement.pdf'', me_source_type = ''agreement'',
     me_status = ''ACTIVE'', me_effective_date = ''2026-01-01'', me_expiry_date = Some ''2026-12-31'',
     me_supersedes = None, me_superseded_by = None, me_scope_kind = ''account'',
     me_account_ids = Some [''ACCT-001''], me_authority_class = ''AGREEMENT'', me_checksum = ''sha256:59e4'',
     me_provenance = ''pack''\<rparr>"

definition sample_agreement_page :: parsed_page where
  "sample_agreement_page = \<lparr>page_number = 1, page_title = ''Northstar Agreement'',
     preamble_fields = [(''Account'', ''ACCT-001''), (''Term'', ''1 January 2026 to 31 December 2026''),
       (''Status'', ''Active - signed'')], sections = []\<rparr>"

theorem metadata_agrees_witness:
  "\<exists>doc. build_source_document ''SRC-05'' ''agreement.pdf'' sample_agreement_page ''59e4'' 100 sample_entry = Inr doc
     \<and> agrees sample_entry doc \<and> src_expiry_date doc = Some (ordinal (2026, 12, 31))"
proof -
  have "(case build_source_document ''SRC-05'' ''agreement.pdf'' sample_agreement_page ''59e4'' 100 sample_entry of
      Inl _ \<Rightarrow> False | Inr doc \<Rightarrow> src_expiry_date doc = Some (ordinal (2026, 12, 31)))" by code_simp
  then obtain doc where
    "build_source_document ''SRC-05'' ''agreement.pdf'' sample_agreement_page ''59e4'' 100 sample_entry = Inr doc"
    "src_expiry_date doc = Some (ordinal (2026, 12, 31))" by (auto split: sum.splits)
  with metadata_agrees [OF this(1)] show ?thesis by blast
qed

section \<open>References between versions\<close>

lemma version_map_mem:
  "dict_get (fold (\<lambda>(sid, doc) d. case src_version doc of None \<Rightarrow> d | Some v \<Rightarrow> if v = [] then d else dict_put d v sid) ps d0) v = Some t
     \<Longrightarrow> dict_get d0 v = Some t \<or> (\<exists>doc. (t, doc) \<in> set ps \<and> src_version doc = Some v)"
  by (induction ps arbitrary: d0) (fastforce split: option.splits if_splits)+

lemma resolve_reference_Inr:
  "resolve_reference raw (version_map sources) source_id = Inr r \<Longrightarrow>
     (case raw of None \<Rightarrow> r = None
      | Some txt \<Rightarrow> \<exists>num t doc. search_version txt = Some num \<and> r = Some t \<and> (t, doc) \<in> set sources
          \<and> src_version doc = Some (''v'' @ num))"
  using version_map_mem [of sources "[]"]
  by (fastforce simp: resolve_reference_def version_map_def bindE_eq_Inr split: option.splits)

text \<open>Supersession is resolved or refused: where it succeeds, every source keeps its other fields,
  its two references are the manifest's, and a reference stated on its page names an ingested
  source whose title carries the version the page mentions.\<close>

theorem supersession_resolved:
  assumes "resolve_supersession sources pages manifest = Inr resolved" "(i, doc) \<in> set resolved"
  shows "\<exists>old page entry. (i, old) \<in> set sources \<and> dict_get pages i = Some page \<and> dict_get manifest i = Some entry
    \<and> doc = old\<lparr>src_supersedes := me_supersedes entry, src_superseded_by := me_superseded_by entry\<rparr>
    \<and> (\<forall>(field, ref) \<in> {(''Supersedes'', src_supersedes doc), (''Superseded by'', src_superseded_by doc)}.
         case preamble_get page field of None \<Rightarrow> ref = None
         | Some txt \<Rightarrow> \<exists>num t target. search_version txt = Some num \<and> ref = Some t \<and> (t, target) \<in> set sources
             \<and> src_version target = Some (''v'' @ num))"
proof -
  from mapE_set [OF assms(1) [unfolded resolve_supersession_def] assms(2)] obtain old where
    old: "(i, old) \<in> set sources" "resolve_one (version_map sources) pages manifest (i, old) = Inr (i, doc)"
    by (auto simp: resolve_one_def bindE_eq_Inr)
  then obtain page entry where p: "dict_get pages i = Some page" "dict_get manifest i = Some entry"
    and r: "resolve_reference (preamble_get page ''Supersedes'') (version_map sources) i = Inr (me_supersedes entry)"
      "resolve_reference (preamble_get page ''Superseded by'') (version_map sources) i = Inr (me_superseded_by entry)"
    and doc: "doc = old\<lparr>src_supersedes := me_supersedes entry, src_superseded_by := me_superseded_by entry\<rparr>"
    by (auto simp: resolve_one_def bindE_eq_Inr)
  from old(1) p doc resolve_reference_Inr [OF r(1)] resolve_reference_Inr [OF r(2)] show ?thesis
    by (intro exI [of _ old] exI [of _ page] exI [of _ entry]) simp
qed

definition policy_doc :: "string \<Rightarrow> string \<Rightarrow> source_document" where
  "policy_doc i v = \<lparr>src_id = i, src_filename = i @ ''.pdf'', src_type = SUPPORT_POLICY, src_status = CURRENT,
     src_version = Some v, src_effective_date = 0, src_expiry_date = None, src_supersedes = None, src_superseded_by = None,
     src_scope = \<lparr>scope_kind = GLOBAL, scope_account_id = None\<rparr>, src_authority_class = AC_POLICY_CURRENT,
     src_checksum = [], src_bytes = 0, src_provenance = []\<rparr>"

definition policy_page :: "(string \<times> string) list \<Rightarrow> parsed_page" where
  "policy_page kvs = \<lparr>page_number = 1, page_title = ''Support Policy'', preamble_fields = kvs, sections = []\<rparr>"

theorem supersession_resolved_witness:
  "\<exists>resolved. resolve_supersession [(''SRC-01'', policy_doc ''SRC-01'' ''v3''), (''SRC-02'', policy_doc ''SRC-02'' ''v2'')]
      [(''SRC-01'', policy_page [(''Supersedes'', ''Support Policy v2'')]), (''SRC-02'', policy_page [(''Superseded by'', ''Policy V3 (2026)'')])]
      [(''SRC-01'', sample_entry\<lparr>me_supersedes := Some ''SRC-02''\<rparr>), (''SRC-02'', sample_entry\<lparr>me_superseded_by := Some ''SRC-01''\<rparr>)]
    = Inr resolved \<and> (\<exists>doc. (''SRC-01'', doc) \<in> set resolved \<and> src_supersedes doc = Some ''SRC-02'')"
proof -
  let ?r = "resolve_supersession [(''SRC-01'', policy_doc ''SRC-01'' ''v3''), (''SRC-02'', policy_doc ''SRC-02'' ''v2'')]
      [(''SRC-01'', policy_page [(''Supersedes'', ''Support Policy v2'')]), (''SRC-02'', policy_page [(''Superseded by'', ''Policy V3 (2026)'')])]
      [(''SRC-01'', sample_entry\<lparr>me_supersedes := Some ''SRC-02''\<rparr>), (''SRC-02'', sample_entry\<lparr>me_superseded_by := Some ''SRC-01''\<rparr>)]"
  have "case ?r of Inl _ \<Rightarrow> False | Inr res \<Rightarrow> dict_keys res = [''SRC-01'', ''SRC-02'']" by code_simp
  then obtain resolved doc where r: "?r = Inr resolved" "(''SRC-01'', doc) \<in> set resolved"
    by (auto split: sum.splits simp: map_eq_Cons_conv)
  from supersession_resolved [OF r] have "src_supersedes doc = Some ''SRC-02''"
    by (auto simp: sample_entry_def)
  with r show ?thesis by blast
qed

end
