(* ===== verification/Iso_Time.thy ===== *)
theory Iso_Time
  imports Source_Metadata
begin

text \<open>
  \<open>datetime.isoformat\<close> and \<open>datetime.fromisoformat\<close> on aware datetimes, over the calendar of
  \<open>Source_Metadata\<close>: a wall-clock reading is the ordinal of its day and the microsecond of the day.
  The lemmas show that \<open>fromisoformat\<close> inverts \<open>isoformat\<close>.
\<close>

section \<open>The date of an ordinal\<close>

text \<open>The month and day of a day of the year, counted from 0, over the lengths of the months left.\<close>

fun month_day :: "int list \<Rightarrow> int \<Rightarrow> int \<Rightarrow> int \<times> int" where
  "month_day [] m k = (m, k + 1)"
| "month_day (l # ls) m k = (if k < l then (m, k + 1) else month_day ls (m + 1) (k - l))"

text \<open>\<open>date.fromordinal\<close>: cycles of 400, 100, 4 and 1 years, the last day of a cycle apart.\<close>

definition ymd_of :: "date \<Rightarrow> ymd" where
  "ymd_of n =
     (let n400 = (n - 1) div 146097; r400 = (n - 1) mod 146097;
          n100 = r400 div 36524; r100 = r400 mod 36524;
          n4 = r100 div 1461; r4 = r100 mod 1461;
          n1 = r4 div 365; k = r4 mod 365;
          y = 400 * n400 + 100 * n100 + 4 * n4 + n1 + 1
      in if n1 = 4 \<or> n100 = 4 then (y - 1, 12, 31)
         else let (m, d) = month_day (month_lengths y) 1 k in (y, m, d))"

lemma month_day_bounds:
  assumes "month_day ls m0 k = (m, d)" "0 \<le> k" "k < sum_list ls"
  shows "\<exists>i < length ls. m = m0 + int i \<and> 1 \<le> d \<and> d \<le> ls ! i \<and> sum_list (take i ls) + d = k + 1"
  using assms
proof (induction ls m0 k rule: month_day.induct)
  case (2 l ls m0 k)
  show ?case
  proof (cases "k < l")
    case True
    with 2(2-4) show ?thesis by (intro exI [of _ 0]) auto
  next
    case False
    with 2 obtain i where "i < length ls" "m = m0 + 1 + int i" "1 \<le> d" "d \<le> ls ! i" "sum_list (take i ls) + d = k - l + 1" by auto
    then show ?thesis by (intro exI [of _ "Suc i"]) auto
  qed
qed simp

lemma year_cycles:
  fixes a b c e :: int
  assumes "0 \<le> b" "b < 4" "0 \<le> c" "c < 25" "0 \<le> e" "e < 4"
  defines "y \<equiv> 400 * a + 100 * b + 4 * c + e"
  shows "y div 4 = 100 * a + 25 * b + c" "y div 100 = 4 * a + b" "y div 400 = a"
proof -
  show "y div 4 = 100 * a + 25 * b + c" using assms(5,6) unfolding y_def by linarith
  show "y div 100 = 4 * a + b" using assms(3-6) unfolding y_def by linarith
  show "y div 400 = a" using assms(1-6) unfolding y_def by linarith
qed

lemma month_lengths_sum: "sum_list (month_lengths y) = (if is_leap y then 366 else 365)" "length (month_lengths y) = 12"
  by (simp_all add: month_lengths_def)

lemma year_in_range:
  fixes a b c e :: int
  assumes "0 \<le> b" "b < 4" "0 \<le> c" "c < 25" "0 \<le> e" "e < 4"
    and "0 \<le> 146097 * a + 36524 * b + 1461 * c + 365 * e + k" "146097 * a + 36524 * b + 1461 * c + 365 * e + k \<le> 3652058" "0 \<le> k" "k < 366"
  shows "0 \<le> 400 * a + 100 * b + 4 * c + e" "400 * a + 100 * b + 4 * c + e \<le> 9998"
proof -
  have a: "0 \<le> a" "a \<le> 24" using assms by linarith+
  then show "0 \<le> 400 * a + 100 * b + 4 * c + e" using assms by linarith
  show "400 * a + 100 * b + 4 * c + e \<le> 9998"
  proof (cases "a = 24 \<and> b = 3 \<and> c = 24")
    case True
    then have "e \<le> 2" using assms by linarith
    with True show ?thesis by linarith
  next
    case False
    then consider "a \<le> 23" | "b \<le> 2" | "c \<le> 23" using a assms by linarith
    then show ?thesis using a assms by cases linarith+
  qed
qed

text \<open>The last day of a cycle.\<close>

lemma ordinal_last_day:
  assumes "0 \<le> b" "b < 4" "0 \<le> c" "c < 25" "is_leap (400 * a + 100 * b + 4 * c + 4)"
  shows "ordinal (400 * a + 100 * b + 4 * c + 4, 12, 31) = 146097 * a + 36524 * b + 1461 * c + 1461"
proof -
  let ?y = "400 * a + 100 * b + 4 * c + 4"
  have y: "?y - 1 = 400 * a + 100 * b + 4 * c + 3" by simp
  have days: "sum_list (take (nat (12 - 1)) (month_lengths ?y)) = 335" using assms(5) by (simp add: month_lengths_def)
  note cyc = year_cycles [OF assms(1-4), of 3 a, simplified]
  show ?thesis unfolding ordinal.simps y cyc days by simp
qed

lemma leap_in_century:
  fixes a b c :: int
  assumes "0 \<le> c" "c \<le> 23"
  shows "is_leap (400 * a + 100 * b + 4 * c + 4)"
proof -
  have "(400 * a + 100 * b + 4 * c + 4) mod 4 = 0" by presburger
  moreover have "(400 * a + 100 * b + 4 * c + 4) mod 100 = 4 * c + 4"
  proof -
    have "400 * a + 100 * b + 4 * c + 4 = (4 * c + 4) + 100 * (4 * a + b)" by simp
    then have "(400 * a + 100 * b + 4 * c + 4) mod 100 = (4 * c + 4) mod 100" by (simp only: mod_mult_self2)
    with assms show ?thesis by simp
  qed
  ultimately show ?thesis using assms by (simp add: is_leap_def)
qed

lemma ordinal_ymd_of:
  assumes "1 \<le> n" "n \<le> 3652059"
  shows "ordinal (ymd_of n) = n \<and> valid_ymd (ymd_of n)"
proof -
  define a where "a = (n - 1) div 146097"
  define r where "r = (n - 1) mod 146097"
  define b where "b = r div 36524"
  define r' where "r' = r mod 36524"
  define c where "c = r' div 1461"
  define r'' where "r'' = r' mod 1461"
  define e where "e = r'' div 365"
  define k where "k = r'' mod 365"
  have n: "n - 1 = 146097 * a + r" "0 \<le> r" "r < 146097" by (simp_all add: a_def r_def)
  have r: "r = 36524 * b + r'" "0 \<le> r'" "r' < 36524" by (simp_all add: b_def r'_def)
  have r': "r' = 1461 * c + r''" "0 \<le> r''" "r'' < 1461" by (simp_all add: c_def r''_def)
  have r'': "r'' = 365 * e + k" "0 \<le> k" "k < 365" by (simp_all add: e_def k_def)
  have bounds: "0 \<le> b" "b \<le> 4" "0 \<le> c" "c < 25" "0 \<le> e" "e \<le> 4" using n r r' r'' by linarith+
  let ?y = "400 * a + 100 * b + 4 * c + e + 1"
  have ymd: "ymd_of n = (if e = 4 \<or> b = 4 then (?y - 1, 12, 31) else let (m, d) = month_day (month_lengths ?y) 1 k in (?y, m, d))"
    by (simp add: ymd_of_def Let_def a_def b_def c_def e_def k_def r_def r'_def r''_def)
  show ?thesis
  proof (cases "e = 4 \<or> b = 4")
    case False
    with bounds have lt: "b < 4" "e < 4" by auto
    note cyc = year_cycles [OF bounds(1) lt(1) bounds(3,4,5) lt(2), of a]
    obtain m d where md: "month_day (month_lengths ?y) 1 k = (m, d)" by force
    have "k < sum_list (month_lengths ?y)" using r'' by (simp add: month_lengths_sum)
    from month_day_bounds [OF md r''(2) this] obtain i where
      i: "i < 12" "m = 1 + int i" "1 \<le> d" "d \<le> month_lengths ?y ! i" "sum_list (take i (month_lengths ?y)) + d = k + 1"
      by (auto simp: month_lengths_sum)
    have "ordinal (?y, m, d) = 365 * (?y - 1) + (100 * a + 25 * b + c) - (4 * a + b) + a + (k + 1)"
      using cyc i(2,5) by simp
    moreover have "0 \<le> ?y - 1" "?y - 1 \<le> 9998"
      using year_in_range [OF bounds(1) lt(1) bounds(3,4,5) lt(2), of a k] n(1) r(1) r'(1) r'' assms by linarith+
    ultimately show ?thesis using False i n r r' r'' by (simp add: ymd md)
  next
    case True
    have shown: ?thesis if y: "?y - 1 = 400 * a + 100 * b' + 4 * c' + 4" and n': "n = 146097 * a + 36524 * b' + 1461 * c' + 1461"
      and b': "0 \<le> b'" "b' < 4" and c': "0 \<le> c'" "c' < 25" and leap: "is_leap (400 * a + 100 * b' + 4 * c' + 4)" for b' c'
    proof -
      have "0 \<le> 400 * a + 100 * b' + 4 * c' + 3" "400 * a + 100 * b' + 4 * c' + 3 \<le> 9998"
        using year_in_range [OF b' c', of 3 a 365] n' assms by linarith+
      moreover have "ymd_of n = (400 * a + 100 * b' + 4 * c' + 4, 12, 31)" using True y by (simp add: ymd)
      ultimately show ?thesis
        using ordinal_last_day [OF b' c' leap] n' by (simp add: month_lengths_def del: ordinal.simps)
    qed
    show ?thesis
    proof (cases "b = 4")
      case True
      then have "c = 0" "e = 0" "k = 0" using n r r' r'' bounds by linarith+
      moreover have "is_leap (400 * a + 100 * 3 + 4 * 24 + 4)" by (simp add: is_leap_def)
      ultimately show ?thesis using shown [of 3 24] n r r' r'' True by simp
    next
      case False
      with True have e: "e = 4" by simp
      with n r r' r'' bounds have "k = 0" "c \<le> 23" by linarith+
      moreover have "is_leap (400 * a + 100 * b + 4 * c + 4)" by (rule leap_in_century [OF bounds(3) calculation(2)])
      ultimately show ?thesis using shown [of b c] n r r' r'' bounds False e by simp
    qed
  qed
qed

section \<open>Writing\<close>

definition US_PER_HOUR :: int where
  "US_PER_HOUR = 3600000000"

definition US_PER_SECOND :: int where
  "US_PER_SECOND = 1000000"

definition fraction_text :: "int \<Rightarrow> string" where
  "fraction_text us = (if us = 0 then [] else ''.'' @ zero_padded 6 us)"

definition time_text :: "int \<Rightarrow> string" where
  "time_text t =
     zero_padded 2 (t div US_PER_HOUR) @ '':'' @ zero_padded 2 (t div us_per_minute mod 60) @ '':''
       @ zero_padded 2 (t div US_PER_SECOND mod 60) @ fraction_text (t mod US_PER_SECOND)"

text \<open>An offset shows its seconds only when it has some.\<close>

definition offset_text :: "tz \<Rightarrow> string" where
  "offset_text off =
     (let t = \<bar>off\<bar> in
      (if off < 0 then ''-'' else ''+'') @ zero_padded 2 (t div US_PER_HOUR) @ '':'' @ zero_padded 2 (t div us_per_minute mod 60)
        @ (if t mod us_per_minute = 0 then []
           else '':'' @ zero_padded 2 (t div US_PER_SECOND mod 60) @ fraction_text (t mod US_PER_SECOND)))"

definition iso_datetime :: "datetime \<Rightarrow> string" where
  "iso_datetime d =
     isoformat (ymd_of (wall d div us_per_day)) @ ''T'' @ time_text (wall d mod us_per_day) @ offset_text (utcoffset d)"

section \<open>Reading\<close>

definition read_digits :: "nat \<Rightarrow> string \<Rightarrow> (int \<times> string) option" where
  "read_digits k s =
     (if length (take k s) = k \<and> list_all is_digit (take k s) then Some (int_of_digits (take k s), drop k s) else None)"

definition expect_char :: "char \<Rightarrow> string \<Rightarrow> string option" where
  "expect_char c s = (case s of d # t \<Rightarrow> if d = c then Some t else None | [] \<Rightarrow> None)"

definition read_fraction :: "string \<Rightarrow> (int \<times> string) option" where
  "read_fraction s = (case expect_char (CHR ''.'') s of None \<Rightarrow> Some (0, s) | Some t \<Rightarrow> read_digits 6 t)"

definition read_time :: "string \<Rightarrow> (int \<times> string) option" where
  "read_time s =
     Option.bind (read_digits 2 s) (\<lambda>(h, s). Option.bind (expect_char (CHR '':'') s) (\<lambda>s.
     Option.bind (read_digits 2 s) (\<lambda>(m, s). Option.bind (expect_char (CHR '':'') s) (\<lambda>s.
     Option.bind (read_digits 2 s) (\<lambda>(sec, s). Option.bind (read_fraction s) (\<lambda>(us, s).
     if h \<le> 23 \<and> m \<le> 59 \<and> sec \<le> 59
     then Some (h * US_PER_HOUR + m * us_per_minute + sec * US_PER_SECOND + us, s) else None))))))"

definition read_sign :: "string \<Rightarrow> (int \<times> string) option" where
  "read_sign s = (case s of
     c # t \<Rightarrow> if c = CHR ''+'' then Some (1, t) else if c = CHR ''-'' then Some (- 1, t) else None
   | [] \<Rightarrow> None)"

definition read_offset :: "string \<Rightarrow> (tz \<times> string) option" where
  "read_offset s =
     Option.bind (read_sign s) (\<lambda>(sgn, s).
     Option.bind (read_digits 2 s) (\<lambda>(h, s). Option.bind (expect_char (CHR '':'') s) (\<lambda>s.
     Option.bind (read_digits 2 s) (\<lambda>(m, s).
     Option.bind (case expect_char (CHR '':'') s of
                    None \<Rightarrow> Some (0, s)
                  | Some t \<Rightarrow> Option.bind (read_digits 2 t) (\<lambda>(sec, t). Option.bind (read_fraction t) (\<lambda>(us, t).
                      if sec \<le> 59 then Some (sec * US_PER_SECOND + us, t) else None))) (\<lambda>(rest_us, s).
     if h \<le> 23 \<and> m \<le> 59 then Some (sgn * (h * US_PER_HOUR + m * us_per_minute + rest_us), s) else None)))))"

definition read_date :: "string \<Rightarrow> (date \<times> string) option" where
  "read_date s =
     Option.bind (read_digits 4 s) (\<lambda>(y, s). Option.bind (expect_char (CHR ''-'') s) (\<lambda>s.
     Option.bind (read_digits 2 s) (\<lambda>(m, s). Option.bind (expect_char (CHR ''-'') s) (\<lambda>s.
     Option.bind (read_digits 2 s) (\<lambda>(d, s).
     if valid_ymd (y, m, d) then Some (ordinal (y, m, d), s) else None)))))"

text \<open>The spelling of \<open>isoformat\<close> with an offset; the other spellings are \<open>other\<close>'s.\<close>

definition read_iso :: "string \<Rightarrow> datetime option" where
  "read_iso s =
     Option.bind (read_date s) (\<lambda>(day, s). Option.bind (expect_char (CHR ''T'') s) (\<lambda>s.
     Option.bind (read_time s) (\<lambda>(t, s). Option.bind (read_offset s) (\<lambda>(off, s).
     if s = [] then Some \<lparr>wall = day * us_per_day + t, utcoffset = off\<rparr> else None))))"

definition fromisoformat :: "(string \<Rightarrow> error + parsed_time) \<Rightarrow> string \<Rightarrow> error + parsed_time" where
  "fromisoformat other s =
     (case read_iso s of Some d \<Rightarrow> Inr (Zoned (wall d) (utcoffset d)) | None \<Rightarrow> other s)"

section \<open>\<open>fromisoformat\<close> inverts \<open>isoformat\<close>\<close>

lemma read_padded [simp]:
  assumes "0 \<le> n" "n < 10 ^ k" "0 < k"
  shows "read_digits k (zero_padded k n @ t) = Some (n, t)"
  using length_zero_padded [OF assms] int_of_zero_padded [OF assms(1)] zero_padded_digits [OF assms(1)]
  by (simp add: read_digits_def)

lemma expect_char_Cons [simp]: "expect_char c (d # s) = (if d = c then Some s else None)" "expect_char c [] = None"
  by (simp_all add: expect_char_def)

lemma read_fraction_text:
  assumes "0 \<le> us" "us < 1000000" "expect_char (CHR ''.'') t = None"
  shows "read_fraction (fraction_text us @ t) = Some (us, t)"
  using assms by (simp add: fraction_text_def read_fraction_def)

lemma mod_sixty [simp]: "x mod 60 \<le> 59" for x :: int
  using pos_mod_bound [of 60 x] by simp

lemma time_parts:
  assumes "0 \<le> t" "t < us_per_day"
  shows "0 \<le> t div US_PER_HOUR" "t div US_PER_HOUR \<le> 23"
    and "t div US_PER_HOUR * US_PER_HOUR + (t div us_per_minute mod 60) * us_per_minute
      + (t div US_PER_SECOND mod 60) * US_PER_SECOND + t mod US_PER_SECOND = t"
    and "t mod us_per_minute = (t div US_PER_SECOND mod 60) * US_PER_SECOND + t mod US_PER_SECOND"
proof -
  show "0 \<le> t div US_PER_HOUR" "t div US_PER_HOUR \<le> 23"
    using assms by (simp_all add: US_PER_HOUR_def us_per_day_def)
  have m: "t div us_per_minute = t div US_PER_SECOND div 60" "t div US_PER_HOUR = t div US_PER_SECOND div 60 div 60"
    by (simp_all add: US_PER_HOUR_def US_PER_SECOND_def us_per_minute_def div_mult2_eq [symmetric])
  define s where "s = t div US_PER_SECOND"
  have t: "t = s * US_PER_SECOND + t mod US_PER_SECOND" by (simp add: s_def)
  have s: "s = (s div 60 div 60) * 3600 + (s div 60 mod 60) * 60 + s mod 60" by presburger
  then show "t div US_PER_HOUR * US_PER_HOUR + (t div us_per_minute mod 60) * us_per_minute
      + (t div US_PER_SECOND mod 60) * US_PER_SECOND + t mod US_PER_SECOND = t"
    unfolding m s_def [symmetric] using t by (simp add: US_PER_HOUR_def US_PER_SECOND_def us_per_minute_def)
  show "t mod us_per_minute = (t div US_PER_SECOND mod 60) * US_PER_SECOND + t mod US_PER_SECOND"
    using zmod_zmult2_eq [of 60 t US_PER_SECOND] by (simp add: US_PER_SECOND_def us_per_minute_def)
qed

lemma read_time_text:
  assumes "0 \<le> t" "t < us_per_day" "expect_char (CHR ''.'') u = None"
  shows "read_time (time_text t @ u) = Some (t, u)"
proof -
  note parts = time_parts [OF assms(1,2)]
  have us: "0 \<le> t mod US_PER_SECOND" "t mod US_PER_SECOND < 1000000" by (simp_all add: US_PER_SECOND_def)
  show ?thesis
    using parts(1,2) by (simp add: read_time_def time_text_def read_fraction_text [OF us assms(3)] parts(3))
qed

lemma read_offset_text:
  assumes "\<bar>off\<bar> < us_per_day"
  shows "read_offset (offset_text off) = Some (off, [])"
proof -
  define t where "t = \<bar>off\<bar>"
  define sgn where "sgn = (if off < 0 then - 1 else 1 :: int)"
  have t: "0 \<le> t" "t < us_per_day" and off: "off = sgn * t" using assms by (simp_all add: t_def sgn_def)
  note parts = time_parts [OF t]
  have us: "0 \<le> t mod US_PER_SECOND" "t mod US_PER_SECOND < 1000000" by (simp_all add: US_PER_SECOND_def)
  have sign: "read_sign ((if off < 0 then ''-'' else ''+'') @ u) = Some (sgn, u)" for u
    by (simp add: read_sign_def sgn_def)
  have e: "expect_char (CHR ''.'') [] = None" by simp
  note frac = read_fraction_text [OF us e, simplified]
  have pad: "read_digits 2 (zero_padded 2 n) = Some (n, [])" if "0 \<le> n" "n < 100" for n
    using read_padded [of n 2 "[]"] that by simp
  have "read_offset (offset_text off) = Some (sgn * t, [])"
  proof (cases "t mod us_per_minute = 0")
    case True
    then have "t div US_PER_HOUR * US_PER_HOUR + (t div us_per_minute mod 60) * us_per_minute = t"
      using parts(3,4) by linarith
    with parts(1,2) True show ?thesis
      by (simp add: read_offset_def offset_text_def Let_def t_def [symmetric] sign pad)
  next
    case False
    then show ?thesis using parts(1,2)
      by (simp add: read_offset_def offset_text_def Let_def t_def [symmetric] sign frac parts(3) flip: add.assoc)
  qed
  then show ?thesis by (simp only: off [symmetric])
qed

definition valid_datetime :: "datetime \<Rightarrow> bool" where
  "valid_datetime d = (1 \<le> wall d div us_per_day \<and> wall d div us_per_day \<le> 3652059 \<and> \<bar>utcoffset d\<bar> < us_per_day)"

lemma read_date_text:
  assumes "1 \<le> n" "n \<le> 3652059"
  shows "read_date (isoformat (ymd_of n) @ t) = Some (n, t)"
proof -
  obtain y m d where y: "ymd_of n = (y, m, d)" by (cases "ymd_of n")
  from ordinal_ymd_of [OF assms] have o: "ordinal (y, m, d) = n" and v: "valid_ymd (y, m, d)" by (simp_all only: y)
  have "month_lengths y ! nat (m - 1) \<in> set (month_lengths y)" using v by (intro nth_mem) (simp add: month_lengths_sum nat_less_iff)
  then have "month_lengths y ! nat (m - 1) \<le> 31" by (auto simp: month_lengths_def split: if_splits)
  with v have "0 \<le> y" "y < 10 ^ 4" "0 \<le> m" "m < 10 ^ 2" "0 \<le> d" "d < 10 ^ 2" by auto
  with o v show ?thesis by (simp add: y read_date_def del: ordinal.simps valid_ymd.simps)
qed

lemma read_iso_datetime:
  assumes "valid_datetime d"
  shows "read_iso (iso_datetime d) = Some d"
proof -
  let ?t = "wall d mod us_per_day"
  have t: "0 \<le> ?t" "?t < us_per_day" by (simp_all add: us_per_day_def)
  have off: "\<bar>utcoffset d\<bar> < us_per_day" using assms by (simp add: valid_datetime_def)
  have "expect_char (CHR ''.'') (offset_text (utcoffset d)) = None" by (simp add: offset_text_def Let_def)
  from read_time_text [OF t this] read_offset_text [OF off] read_date_text [of "wall d div us_per_day"] assms
  show ?thesis by (simp add: read_iso_def iso_datetime_def valid_datetime_def)
qed

lemma fromisoformat_isoformat:
  "valid_datetime d \<Longrightarrow> fromisoformat other (iso_datetime d) = Inr (Zoned (wall d) (utcoffset d))"
  by (simp add: fromisoformat_def read_iso_datetime)

end
