(* ===== verification/Py_Json.thy ===== *)
theory Py_Json
  imports Hashing Py_Format Errors
begin

text \<open>
  Python's \<open>json\<close>: the values, \<open>json.dumps\<close> with its default separators and \<open>ensure_ascii\<close>, and
  \<open>json.loads\<close> of every text without numbers. What \<open>loads\<close> does with any other text, numbers,
  code points beyond the model's characters and malformed text, is its argument \<open>other\<close>. The
  lemmas show that \<open>loads\<close> inverts \<open>dumps\<close>.
\<close>

section \<open>Values\<close>

text \<open>A JSON object is a dictionary, in the order of the text.\<close>

datatype json =
    VNull | VBool bool | VInt int | VFloat pyfloat | VStr string | VList "json list" | VObj "(string \<times> json) list"

section \<open>Writing\<close>

fun dumps :: "json \<Rightarrow> string" where
  "dumps VNull = ''null''"
| "dumps (VBool b) = (if b then ''true'' else ''false'')"
| "dumps (VInt i) = str_of_int i"
| "dumps (VFloat x) = float_repr x"
| "dumps (VStr s) = json_string s"
| "dumps (VList vs) = ''['' @ join '', '' (map dumps vs) @ '']''"
| "dumps (VObj kvs) = ''{'' @ join '', '' (map (\<lambda>(k, v). json_string k @ '': '' @ dumps v) kvs) @ ''}''"

section \<open>Reading\<close>

definition skip_ws :: "string \<Rightarrow> string" where
  "skip_ws s = dropWhile (\<lambda>c. c \<in> {CHR '' '', CHR 0x0A, CHR 0x0D, CHR 0x09}) s"

definition hex_value :: "char \<Rightarrow> nat option" where
  "hex_value c = (let n = (of_char c :: nat) in
     if 48 \<le> n \<and> n \<le> 57 then Some (n - 48)
     else if 97 \<le> n \<and> n \<le> 102 then Some (n - 87)
     else if 65 \<le> n \<and> n \<le> 70 then Some (n - 55) else None)"

text \<open>The character of \<open>\uXXXX\<close>, where the model has it.\<close>

definition unicode_escape :: "char \<Rightarrow> char \<Rightarrow> char \<Rightarrow> char \<Rightarrow> char option" where
  "unicode_escape a b c d =
     (case (hex_value a, hex_value b, hex_value c, hex_value d) of
        (Some 0, Some 0, Some x, Some y) \<Rightarrow> Some (char_of (16 * x + y))
      | _ \<Rightarrow> None)"

definition simple_escape :: "char \<Rightarrow> char option" where
  "simple_escape e =
     (if e \<in> {CHR 0x22, CHR 0x5C, CHR ''/''} then Some e
      else if e = CHR ''n'' then Some (CHR 0x0A)
      else if e = CHR ''r'' then Some (CHR 0x0D)
      else if e = CHR ''t'' then Some (CHR 0x09)
      else if e = CHR ''b'' then Some (CHR 0x08)
      else if e = CHR ''f'' then Some (CHR 0x0C)
      else None)"

text \<open>A string after its opening quote: the string, and the text behind its closing quote.\<close>

fun scan_string :: "string \<Rightarrow> (string \<times> string) option" where
  "scan_string [] = None"
| "scan_string (c # s) =
     (if c = CHR 0x22 then Some ([], s)
      else if c = CHR 0x5C then
        (case s of
           [] \<Rightarrow> None
         | e # t \<Rightarrow>
             if e = CHR ''u'' then
               (case t of
                  w # x # y # z # u \<Rightarrow>
                    (case unicode_escape w x y z of
                       None \<Rightarrow> None
                     | Some d \<Rightarrow> map_option (apfst ((#) d)) (scan_string u))
                | _ \<Rightarrow> None)
             else
               (case simple_escape e of
                  None \<Rightarrow> None
                | Some d \<Rightarrow> map_option (apfst ((#) d)) (scan_string t)))
      else if (of_char c :: nat) < 32 then None
      else map_option (apfst ((#) c)) (scan_string s))"

definition literal :: "string \<Rightarrow> json \<Rightarrow> string \<Rightarrow> (json \<times> string) option" where
  "literal w v s = (if starts_with w s then Some (v, drop (length w) s) else None)"

text \<open>
  One value, the items of an array and the members of an object. Every call consumes a character or
  hands the text to a call that does, so the fuel \<open>loads\<close> gives, the length of the text, is never what
  ends the reading of a text \<open>dumps\<close> wrote.
\<close>

fun read_value :: "nat \<Rightarrow> string \<Rightarrow> (json \<times> string) option"
  and read_items :: "nat \<Rightarrow> string \<Rightarrow> (json list \<times> string) option"
  and read_members :: "nat \<Rightarrow> string \<Rightarrow> ((string \<times> json) list \<times> string) option" where
  "read_value 0 s = None"
| "read_value (Suc n) s =
     (case s of
        [] \<Rightarrow> None
      | c # t \<Rightarrow>
          if c = CHR 0x22 then map_option (apfst VStr) (scan_string t)
          else if c = CHR ''['' then
            (case skip_ws t of
               [] \<Rightarrow> None
             | d # u \<Rightarrow> if d = CHR '']'' then Some (VList [], u) else map_option (apfst VList) (read_items n (d # u)))
          else if c = CHR ''{'' then
            (case skip_ws t of
               [] \<Rightarrow> None
             | d # u \<Rightarrow> if d = CHR ''}'' then Some (VObj [], u)
                 else map_option (apfst (\<lambda>kvs. VObj (foldl (\<lambda>m (k, v). dict_put m k v) [] kvs))) (read_members n (d # u)))
          else if c = CHR ''n'' then literal ''null'' VNull s
          else if c = CHR ''t'' then literal ''true'' (VBool True) s
          else if c = CHR ''f'' then literal ''false'' (VBool False) s
          else None)"
| "read_items 0 s = None"
| "read_items (Suc n) s =
     (case read_value n s of
        None \<Rightarrow> None
      | Some (v, t) \<Rightarrow>
          (case skip_ws t of
             [] \<Rightarrow> None
           | d # u \<Rightarrow>
               if d = CHR '']'' then Some ([v], u)
               else if d = CHR '','' then map_option (apfst ((#) v)) (read_items n (skip_ws u))
               else None))"
| "read_members 0 s = None"
| "read_members (Suc n) s =
     (case s of
        [] \<Rightarrow> None
      | q # r \<Rightarrow>
          if q \<noteq> CHR 0x22 then None
          else case scan_string r of
            None \<Rightarrow> None
          | Some (k, t) \<Rightarrow>
              (case skip_ws t of
                 [] \<Rightarrow> None
               | d # u \<Rightarrow>
                   if d \<noteq> CHR '':'' then None
                   else case read_value n (skip_ws u) of
                     None \<Rightarrow> None
                   | Some (v, x) \<Rightarrow>
                       (case skip_ws x of
                          [] \<Rightarrow> None
                        | e # y \<Rightarrow>
                            if e = CHR ''}'' then Some ([(k, v)], y)
                            else if e = CHR '','' then map_option (apfst ((#) (k, v))) (read_members n (skip_ws y))
                            else None)))"

definition loads :: "(string \<Rightarrow> error + json) \<Rightarrow> string \<Rightarrow> error + json" where
  "loads other s =
     (case read_value (length s) (skip_ws s) of
        Some (v, t) \<Rightarrow> if skip_ws t = [] then Inr v else other s
      | None \<Rightarrow> other s)"

section \<open>\<open>loads\<close> inverts \<open>dumps\<close>\<close>

lemma hex_value_hexd: "k < 16 \<Longrightarrow> hex_value (hexd k) = Some k"
  by (simp add: hex_value_def hexd_def of_char_of take_bit_eq_mod)

lemma hex_value_0: "hex_value (CHR ''0'') = Some 0"
  by (simp add: hex_value_def)

lemma char_by_code: "(of_char c :: nat) = n \<Longrightarrow> c = char_of n"
  by (metis char_of_char)

lemma control_codes:
  "char_of (8 :: nat) = CHR 0x08" "char_of (9 :: nat) = CHR 0x09" "char_of (10 :: nat) = CHR 0x0A"
  "char_of (12 :: nat) = CHR 0x0C" "char_of (13 :: nat) = CHR 0x0D"
  by (simp_all add: char_of_def bit_0)

lemma scan_char: "scan_string (json_char c @ t) = map_option (apfst ((#) c)) (scan_string t)"
proof -
  have n: "(of_char c :: nat) < 256" using of_char_mod_256 [of c, where 'a = nat] by (metis mod_less_divisor zero_less_numeral)
  have hex: "unicode_escape (CHR ''0'') (CHR ''0'') (hexd (of_char c div 16)) (hexd (of_char c mod 16)) = Some c"
    using n by (simp add: unicode_escape_def hex_value_hexd less_mult_imp_div_less hex_value_0)
  show ?thesis
    using hex by (auto simp: json_char_def Let_def simple_escape_def control_codes dest!: char_by_code)
qed

lemma scan_written: "scan_string (concat (map json_char s) @ CHR 0x22 # t) = Some (s, t)"
  by (induction s) (simp_all add: scan_char del: scan_string.simps(2), simp)

text \<open>The values without numbers, whose objects have distinct keys.\<close>

fun plain :: "json \<Rightarrow> bool" where
  "plain (VInt _) = False"
| "plain (VFloat _) = False"
| "plain (VList vs) = (\<forall>v \<in> set vs. plain v)"
| "plain (VObj kvs) = (distinct (dict_keys kvs) \<and> (\<forall>(k, v) \<in> set kvs. plain v))"
| "plain _ = True"

text \<open>The calls that reading a value takes, in depth.\<close>

fun need :: "json \<Rightarrow> nat" where
  "need (VList vs) = Suc (sum_list (map (\<lambda>v. Suc (need v)) vs))"
| "need (VObj kvs) = Suc (sum_list (map (\<lambda>(k, v). Suc (need v)) kvs))"
| "need _ = 1"

lemma first_written:
  assumes "plain v"
  obtains c s where "dumps v = c # s" "c \<notin> {CHR '' '', CHR 0x0A, CHR 0x0D, CHR 0x09, CHR '']'', CHR ''}''}"
proof (cases v)
  case (VBool b)
  then show thesis by (cases b) (auto intro: that)
qed (use assms that in \<open>auto simp: json_string_def\<close>)

lemma skip_ws_Cons [simp]: "skip_ws (c # s) = (if c \<in> {CHR '' '', CHR 0x0A, CHR 0x0D, CHR 0x09} then skip_ws s else c # s)"
  by (simp add: skip_ws_def)

lemma skip_ws_Nil [simp]: "skip_ws [] = []"
  by (simp add: skip_ws_def)

lemma join_Cons: "join sep (x # xs) = x @ (if xs = [] then [] else sep @ join sep xs)"
  by (cases xs) simp_all

lemma read_items_written:
  assumes "\<And>v n t. v \<in> set vs \<Longrightarrow> need v \<le> n \<Longrightarrow> read_value n (dumps v @ t) = Some (v, t)"
    and "\<And>v. v \<in> set vs \<Longrightarrow> plain v" "vs \<noteq> []" "sum_list (map (\<lambda>v. Suc (need v)) vs) \<le> n"
  shows "read_items n (join '', '' (map dumps vs) @ CHR '']'' # t) = Some (vs, t)"
  using assms
proof (induction vs arbitrary: n)
  case (Cons v vs)
  then obtain m where n: "n = Suc m" "need v \<le> m" "sum_list (map (\<lambda>v. Suc (need v)) vs) \<le> m" by (cases n) auto
  note first = Cons.prems(1) [of v, OF _ n(2)]
  show ?case
  proof (cases vs)
    case Nil
    with n first show ?thesis by simp
  next
    case (Cons w ws)
    obtain c s where c: "dumps w = c # s" "c \<notin> {CHR '' '', CHR 0x0A, CHR 0x0D, CHR 0x09, CHR '']'', CHR ''}''}"
      by (rule first_written [of w]) (use Cons.prems(2) Cons in auto)
    have "read_items m (join '', '' (map dumps vs) @ CHR '']'' # t) = Some (vs, t)"
      by (rule Cons.IH) (use Cons.prems n Cons in auto)
    moreover have "\<exists>s'. join '', '' (map dumps vs) = c # s'" using Cons c by (simp add: join_Cons)
    ultimately show ?thesis using n first c Cons by (auto simp: join_Cons)
  qed
qed simp

lemma read_members_written:
  assumes "\<And>k v n t. (k, v) \<in> set kvs \<Longrightarrow> need v \<le> n \<Longrightarrow> read_value n (dumps v @ t) = Some (v, t)"
    and "\<And>k v. (k, v) \<in> set kvs \<Longrightarrow> plain v" "kvs \<noteq> []" "sum_list (map (\<lambda>(k, v). Suc (need v)) kvs) \<le> n"
  shows "read_members n (join '', '' (map (\<lambda>(k, v). json_string k @ '': '' @ dumps v) kvs) @ CHR ''}'' # t) = Some (kvs, t)"
  using assms
proof (induction kvs arbitrary: n)
  case (Cons p kvs)
  obtain k v where p: "p = (k, v)" by (cases p)
  with Cons.prems(4) obtain m where n: "n = Suc m" "need v \<le> m" "sum_list (map (\<lambda>(k, v). Suc (need v)) kvs) \<le> m"
    by (cases n) auto
  have first: "read_value m (dumps v @ u) = Some (v, u)" for u using Cons.prems(1) [of k v m u] n(2) p by simp
  have head: "scan_string (concat (map json_char k) @ CHR 0x22 # u) = Some (k, u)" for u by (rule scan_written)
  obtain c s where c: "dumps v = c # s" "c \<notin> {CHR '' '', CHR 0x0A, CHR 0x0D, CHR 0x09, CHR '']'', CHR ''}''}"
    by (rule first_written [of v]) (use Cons.prems(2) p in auto)
  have skip: "skip_ws (dumps v @ u) = dumps v @ u" for u using c by simp
  show ?case
  proof (cases kvs)
    case Nil
    then show ?thesis using n(1) by (simp add: p json_string_def head skip first)
  next
    case (Cons p' rest)
    obtain k' v' where p': "p' = (k', v')" by (cases p')
    have IH: "read_members m (join '', '' (map (\<lambda>(k, v). json_string k @ '': '' @ dumps v) kvs) @ CHR ''}'' # t) = Some (kvs, t)"
    proof (rule Cons.IH)
      show "read_value n (dumps v @ t) = Some (v, t)" if "(k, v) \<in> set kvs" "need v \<le> n" for k v n t
        using Cons.prems(1) [of k v n t] that by simp
      show "plain v" if "(k, v) \<in> set kvs" for k v using Cons.prems(2) [of k v] that by simp
    qed (use n(3) Cons in simp_all)
    obtain s' where "join '', '' (map (\<lambda>(k, v). json_string k @ '': '' @ dumps v) kvs) = CHR 0x22 # s'"
      using Cons p' by (simp add: join_Cons json_string_def)
    then show ?thesis using n(1) IH Cons by (simp add: p json_string_def head skip first join_Cons)
  qed
qed simp

lemma rebuilt_dict:
  "distinct (dict_keys (m @ kvs)) \<Longrightarrow> foldl (\<lambda>m (k, v). dict_put m k v) m kvs = m @ kvs"
proof (induction kvs arbitrary: m)
  case (Cons p kvs)
  obtain k v where p: "p = (k, v)" by (cases p)
  have "dict_put m k v = m @ [(k, v)]" if "k \<notin> set (dict_keys m)" for m :: "('a \<times> 'b) list"
    using that by (induction m k v rule: dict_put.induct) auto
  with Cons.prems p have "dict_put m k v = m @ [(k, v)]" by auto
  with Cons.IH [of "m @ [(k, v)]"] Cons.prems p show ?case by simp
qed simp

lemma read_written: "plain v \<Longrightarrow> need v \<le> n \<Longrightarrow> read_value n (dumps v @ t) = Some (v, t)"
proof (induction v arbitrary: n t)
  case VNull
  then show ?case by (cases n) (simp_all add: literal_def)
next
  case (VBool b)
  then show ?case by (cases n; cases b) (simp_all add: literal_def)
next
  case (VStr s)
  then show ?case by (cases n) (simp_all add: json_string_def scan_written)
next
  case (VList vs)
  then obtain m where n: "n = Suc m" "sum_list (map (\<lambda>v. Suc (need v)) vs) \<le> m" by (cases n) auto
  show ?case
  proof (cases vs)
    case (Cons w ws)
    have "read_items m (join '', '' (map dumps vs) @ CHR '']'' # t) = Some (vs, t)"
      by (rule read_items_written) (use VList n Cons in auto)
    moreover obtain c s where "dumps w = c # s" "c \<notin> {CHR '' '', CHR 0x0A, CHR 0x0D, CHR 0x09, CHR '']'', CHR ''}''}"
      by (rule first_written [of w]) (use VList.prems Cons in auto)
    ultimately show ?thesis using n(1) Cons by (simp add: join_Cons)
  qed (simp add: n(1))
next
  case (VObj kvs)
  then obtain m where n: "n = Suc m" "sum_list (map (\<lambda>(k, v). Suc (need v)) kvs) \<le> m" by (cases n) auto
  show ?case
  proof (cases kvs)
    case (Cons p ps)
    have IH: "read_value n (dumps v @ t) = Some (v, t)" if "(k, v) \<in> set kvs" "need v \<le> n" for k v n t
      using VObj.IH [of "(k, v)" v n t] VObj.prems(1) that by (auto simp: snds.simps)
    have "read_members m (join '', '' (map (\<lambda>(k, v). json_string k @ '': '' @ dumps v) kvs) @ CHR ''}'' # t) = Some (kvs, t)"
      by (rule read_members_written) (use IH VObj.prems n Cons in auto)
    moreover obtain s where "join '', '' (map (\<lambda>(k, v). json_string k @ '': '' @ dumps v) kvs) = CHR 0x22 # s"
      using Cons by (cases p) (simp add: join_Cons json_string_def)
    ultimately show ?thesis using n(1) rebuilt_dict [of "[]" kvs] VObj.prems(1) by simp
  qed (simp add: n(1))
qed simp_all

lemma need_le: "plain v \<Longrightarrow> need v \<le> length (dumps v)"
proof (induction v)
  case (VList vs)
  have "sum_list (map (\<lambda>v. Suc (need v)) xs) \<le> Suc (length (join '', '' (map dumps xs)))" if "set xs \<subseteq> set vs" for xs
    using that
  proof (induction xs)
    case (Cons v xs)
    then have "need v \<le> length (dumps v)" using VList by auto
    with Cons show ?case by (cases xs) auto
  qed simp
  from this [of vs] show ?case by simp
next
  case (VObj kvs)
  have "sum_list (map (\<lambda>(k, v). Suc (need v)) xs)
      \<le> Suc (length (join '', '' (map (\<lambda>(k, v). json_string k @ '': '' @ dumps v) xs)))" if "set xs \<subseteq> set kvs" for xs
    using that
  proof (induction xs)
    case (Cons p xs)
    obtain k v where p: "p = (k, v)" by (cases p)
    with Cons.prems have "need v \<le> length (dumps v)" using VObj.IH [of "(k, v)" v] VObj.prems by (auto simp: snds.simps)
    with Cons p show ?case by (cases xs) (auto simp: json_string_def)
  qed simp
  from this [of kvs] show ?case by simp
qed (simp_all add: json_string_def)

text \<open>A value without numbers is read back from its text.\<close>

lemma loads_dumps:
  assumes "plain v"
  shows "loads other (dumps v) = Inr v"
proof -
  obtain c s where c: "dumps v = c # s" "c \<notin> {CHR '' '', CHR 0x0A, CHR 0x0D, CHR 0x09, CHR '']'', CHR ''}''}"
    by (rule first_written [OF assms])
  have "read_value (length (dumps v)) (dumps v @ []) = Some (v, [])"
    by (rule read_written [OF assms need_le [OF assms]])
  then show ?thesis using c by (simp add: loads_def)
qed

end
