(* ===== verification/Action_Rows.thy ===== *)
theory Action_Rows
  imports Action_Store Iso_Time Py_Json Sample
begin

text \<open>
  The \<open>actions\<close> table as \<open>app/actions/store.py\<close> and \<open>app/db/schema.sql\<close> have it: rows of text columns,
  with the enumerations by value, the times in ISO format and the proposed change and the evidence as
  JSON. The lemmas show that a record is read back as it was written, so that the three operations of
  the store on these rows are those of \<open>Action_Store\<close> on records.
\<close>

section \<open>Rows\<close>

record action_row =
  col_action_id :: string
  col_request_id :: string
  col_user_id :: string
  col_action_type :: string
  col_target :: string
  col_proposed_change :: string
  col_reason :: string
  col_evidence :: string
  col_risk :: string
  col_payload_hash :: string
  col_status :: string
  col_prepared_at :: string
  col_expires_at :: string
  col_confirmed_at :: "string option"
  col_executed_at :: "string option"
  col_idempotency_key :: string
  col_failure_reason :: "string option"

section \<open>Writing a row\<close>

fun json_of_scalar :: "json_scalar \<Rightarrow> json" where
  "json_of_scalar (JStr s) = VStr s"
| "json_of_scalar (JBool b) = VBool b"

fun evidence_kind_value :: "evidence_kind \<Rightarrow> string" where
  "evidence_kind_value Document = ''document''"
| "evidence_kind_value Structured = ''structured''"
| "evidence_kind_value Calculation = ''calculation''"

definition json_of_opt :: "string option \<Rightarrow> json" where
  "json_of_opt x = (case x of None \<Rightarrow> VNull | Some s \<Rightarrow> VStr s)"

definition json_of_evidence :: "evidence_ref \<Rightarrow> json" where
  "json_of_evidence e =
     VObj [(''kind'', VStr (evidence_kind_value (ev_kind e))), (''source_id'', VStr (ev_source_id e)),
           (''locator'', json_of_opt (ev_locator e)), (''note'', json_of_opt (ev_note e))]"

definition row_of_record :: "action_record \<Rightarrow> action_row" where
  "row_of_record rec =
     \<lparr>col_action_id = action_id rec, col_request_id = request_id rec, col_user_id = user_id rec,
      col_action_type = action_type_value (action_type rec), col_target = target rec,
      col_proposed_change = dumps (VObj (map (\<lambda>(k, v). (k, json_of_scalar v)) (proposed_change rec))),
      col_reason = act_reason rec, col_evidence = dumps (VList (map json_of_evidence (act_evidence rec))),
      col_risk = risk rec, col_payload_hash = payload_hash rec, col_status = action_status_value (act_status rec),
      col_prepared_at = iso_datetime (prepared_at rec), col_expires_at = iso_datetime (expires_at rec),
      col_confirmed_at = map_option iso_datetime (confirmed_at rec), col_executed_at = map_option iso_datetime (executed_at rec),
      col_idempotency_key = idempotency_key rec, col_failure_reason = failure_reason rec\<rparr>"

section \<open>Reading a row\<close>

text \<open>\<open>json.loads\<close> and \<open>fromisoformat\<close> beyond the texts modelled.\<close>

record decoders =
  dec_json :: "string \<Rightarrow> error + json"
  dec_time :: "string \<Rightarrow> error + parsed_time"

definition invalid_record :: "error" where
  "invalid_record = ValidationError ''validation error for ActionRecord''"

text \<open>
  The record holds strings and booleans in the proposed change, and aware times; nothing else is ever
  proposed or stored, and other values are rejected here.
\<close>

definition scalar_of_json :: "json \<Rightarrow> error + json_scalar" where
  "scalar_of_json v = (case v of VStr s \<Rightarrow> Inr (JStr s) | VBool b \<Rightarrow> Inr (JBool b) | _ \<Rightarrow> Inl invalid_record)"

definition change_of_json :: "json \<Rightarrow> error + (string \<times> json_scalar) list" where
  "change_of_json v =
     (case v of
        VObj kvs \<Rightarrow> mapE (\<lambda>(k, v). bindE (scalar_of_json v) (\<lambda>x. Inr (k, x))) kvs
      | _ \<Rightarrow> Inl invalid_record)"

definition evidence_kind_of :: "string \<Rightarrow> evidence_kind option" where
  "evidence_kind_of = enum_of evidence_kind_value [Document, Structured, Calculation]"

definition required_text :: "(string \<times> json) list \<Rightarrow> string \<Rightarrow> error + string" where
  "required_text kvs k = (case dict_get kvs k of Some (VStr s) \<Rightarrow> Inr s | _ \<Rightarrow> Inl invalid_record)"

definition optional_text :: "(string \<times> json) list \<Rightarrow> string \<Rightarrow> error + string option" where
  "optional_text kvs k =
     (case dict_get kvs k of None \<Rightarrow> Inr None | Some VNull \<Rightarrow> Inr None | Some (VStr s) \<Rightarrow> Inr (Some s) | _ \<Rightarrow> Inl invalid_record)"

text \<open>\<open>EvidenceRef(**e)\<close>.\<close>

definition evidence_of_json :: "json \<Rightarrow> error + evidence_ref" where
  "evidence_of_json v =
     (case v of
        VObj kvs \<Rightarrow>
          bindE (required_text kvs ''kind'') (\<lambda>kind_text.
          bindE (of_optionE invalid_record (evidence_kind_of kind_text)) (\<lambda>kind.
          bindE (required_text kvs ''source_id'') (\<lambda>source_id.
          bindE (optional_text kvs ''locator'') (\<lambda>locator.
          bindE (optional_text kvs ''note'') (\<lambda>remark.
          Inr \<lparr>ev_kind = kind, ev_source_id = source_id, ev_locator = locator, ev_note = remark\<rparr>)))))
      | _ \<Rightarrow> Inl (TypeError ''EvidenceRef() argument after ** must be a mapping''))"

definition evidence_list :: "json \<Rightarrow> error + evidence_ref list" where
  "evidence_list v =
     (case v of
        VList vs \<Rightarrow> mapE evidence_of_json vs
      | VObj [] \<Rightarrow> Inr []
      | VStr [] \<Rightarrow> Inr []
      | VObj _ \<Rightarrow> Inl (TypeError ''EvidenceRef() argument after ** must be a mapping'')
      | VStr _ \<Rightarrow> Inl (TypeError ''EvidenceRef() argument after ** must be a mapping'')
      | _ \<Rightarrow> Inl (TypeError ''object is not iterable''))"

definition action_type_of :: "string \<Rightarrow> action_type option" where
  "action_type_of = enum_of action_type_value [PREPARE_ESCALATION]"

definition action_status_of :: "string \<Rightarrow> action_status option" where
  "action_status_of = enum_of action_status_value
     [PENDING_CONFIRMATION, CONFIRMED, EXECUTED, REJECTED, EXPIRED, FAILED, CANCELLED]"

definition stored_time :: "decoders \<Rightarrow> string \<Rightarrow> error + datetime" where
  "stored_time dec s =
     bindE (fromisoformat (dec_time dec) s) (\<lambda>t. case t of
       Zoned w off \<Rightarrow> Inr \<lparr>wall = w, utcoffset = off\<rparr>
     | Naive _ \<Rightarrow> Inl invalid_record)"

definition stored_time_opt :: "decoders \<Rightarrow> string option \<Rightarrow> error + datetime option" where
  "stored_time_opt dec x =
     (case x of None \<Rightarrow> Inr None
      | Some s \<Rightarrow> if s = [] then Inr None else bindE (stored_time dec s) (\<lambda>d. Inr (Some d)))"

definition row_to_record :: "decoders \<Rightarrow> action_row \<Rightarrow> error + action_record" where
  "row_to_record dec row =
     bindE (of_optionE (ValueError (repr_str (col_action_type row) @ '' is not a valid ActionType''))
              (action_type_of (col_action_type row))) (\<lambda>typ.
     bindE (loads (dec_json dec) (col_proposed_change row)) (\<lambda>change_json.
     bindE (bindE (loads (dec_json dec) (col_evidence row)) evidence_list) (\<lambda>refs.
     bindE (of_optionE (ValueError (repr_str (col_status row) @ '' is not a valid ActionStatus''))
              (action_status_of (col_status row))) (\<lambda>st.
     bindE (stored_time dec (col_prepared_at row)) (\<lambda>prepared.
     bindE (stored_time dec (col_expires_at row)) (\<lambda>expires.
     bindE (stored_time_opt dec (col_confirmed_at row)) (\<lambda>confirmed.
     bindE (stored_time_opt dec (col_executed_at row)) (\<lambda>executed.
     bindE (change_of_json change_json) (\<lambda>change.
     Inr \<lparr>action_id = col_action_id row, request_id = col_request_id row, user_id = col_user_id row,
          action_type = typ, target = col_target row, proposed_change = change, act_reason = col_reason row,
          act_evidence = refs, risk = col_risk row, payload_hash = col_payload_hash row, act_status = st,
          prepared_at = prepared, expires_at = expires, confirmed_at = confirmed, executed_at = executed,
          idempotency_key = col_idempotency_key row, failure_reason = col_failure_reason row\<rparr>)))))))))"

section \<open>The statements\<close>

definition insert_row :: "action_row list \<Rightarrow> action_record \<Rightarrow> error + action_row list" where
  "insert_row rows rec =
     (if action_id rec \<in> col_action_id ` set rows
      then Inl (IntegrityError ''UNIQUE constraint failed: actions.action_id'')
      else Inr (rows @ [row_of_record rec]))"

definition update_hit :: "action_record \<Rightarrow> action_status \<Rightarrow> action_row \<Rightarrow> bool" where
  "update_hit rec expected row = (col_action_id row = action_id rec \<and> col_status row = action_status_value expected)"

definition update_row :: "action_record \<Rightarrow> action_row \<Rightarrow> action_row" where
  "update_row rec row =
     row\<lparr>col_status := action_status_value (act_status rec),
         col_confirmed_at := map_option iso_datetime (confirmed_at rec),
         col_executed_at := map_option iso_datetime (executed_at rec),
         col_failure_reason := failure_reason rec\<rparr>"

definition update_rows :: "action_row list \<Rightarrow> action_record \<Rightarrow> action_status \<Rightarrow> action_row list \<times> bool" where
  "update_rows rows rec expected =
     (map (\<lambda>row. if update_hit rec expected row then update_row rec row else row) rows,
      length (filter (update_hit rec expected) rows) = 1)"

definition select_row :: "decoders \<Rightarrow> action_row list \<Rightarrow> string \<Rightarrow> error + action_record option" where
  "select_row dec rows i =
     (case List.find (\<lambda>row. col_action_id row = i) rows of
        None \<Rightarrow> Inr None
      | Some row \<Rightarrow> bindE (row_to_record dec row) (\<lambda>rec. Inr (Some rec)))"

section \<open>A record is read back\<close>

definition storable :: "action_record \<Rightarrow> bool" where
  "storable rec \<longleftrightarrow> distinct (map fst (proposed_change rec)) \<and> valid_datetime (prepared_at rec) \<and> valid_datetime (expires_at rec)
     \<and> pred_option valid_datetime (confirmed_at rec) \<and> pred_option valid_datetime (executed_at rec)"

lemma iso_datetime_nonempty: "iso_datetime d \<noteq> []"
  by (simp add: iso_datetime_def)

lemma stored_time_iso: "valid_datetime d \<Longrightarrow> stored_time dec (iso_datetime d) = Inr d"
  by (simp add: stored_time_def fromisoformat_isoformat)

lemma stored_time_opt_iso: "pred_option valid_datetime x \<Longrightarrow> stored_time_opt dec (map_option iso_datetime x) = Inr x"
  by (cases x) (simp_all add: stored_time_opt_def iso_datetime_nonempty stored_time_iso)

lemma evidence_read_back: "evidence_of_json (json_of_evidence e) = Inr e"
proof -
  have "evidence_kind_of (evidence_kind_value (ev_kind e)) = Some (ev_kind e)"
    unfolding evidence_kind_of_def by (rule enum_of_value) (cases "ev_kind e"; simp)+
  moreover have "optional_text [(''kind'', a), (''source_id'', b), (''locator'', json_of_opt x), (''note'', y)] ''locator'' = Inr x"
    "optional_text [(''kind'', a), (''source_id'', b), (''locator'', y), (''note'', json_of_opt x)] ''note'' = Inr x" for a b x y
    by (cases x; simp add: optional_text_def json_of_opt_def)+
  ultimately show ?thesis by (simp add: evidence_of_json_def json_of_evidence_def required_text_def)
qed

lemma change_read_back: "change_of_json (VObj (map (\<lambda>(k, v). (k, json_of_scalar v)) kvs)) = Inr kvs"
proof -
  have "scalar_of_json (json_of_scalar v) = Inr v" for v by (cases v) (simp_all add: scalar_of_json_def)
  then show ?thesis by (induction kvs) (auto simp: change_of_json_def)
qed

lemma plain_json:
  "distinct (map fst kvs) \<Longrightarrow> plain (VObj (map (\<lambda>(k, v). (k, json_of_scalar v)) kvs))"
  "plain (VList (map json_of_evidence refs))"
proof -
  have "plain (json_of_scalar v)" for v by (cases v) simp_all
  moreover have "fst \<circ> (\<lambda>(k, v). (k, json_of_scalar v)) = (fst :: string \<times> json_scalar \<Rightarrow> string)" by (auto simp: fun_eq_iff)
  ultimately show "distinct (map fst kvs) \<Longrightarrow> plain (VObj (map (\<lambda>(k, v). (k, json_of_scalar v)) kvs))" by auto
  show "plain (VList (map json_of_evidence refs))"
    by (auto simp: json_of_evidence_def json_of_opt_def split: option.splits)
qed

lemma record_read_back:
  assumes "storable rec"
  shows "row_to_record dec (row_of_record rec) = Inr rec"
proof -
  have t: "action_type_of (action_type_value (action_type rec)) = Some (action_type rec)"
    unfolding action_type_of_def by (rule enum_of_value) (cases "action_type rec"; simp)+
  have st: "action_status_of (action_status_value (act_status rec)) = Some (act_status rec)"
    unfolding action_status_of_def by (rule enum_of_value) (cases "act_status rec"; simp)+
  have refs: "mapE evidence_of_json (map json_of_evidence xs) = Inr xs" for xs
    by (induction xs) (simp_all add: evidence_read_back)
  show ?thesis
    using assms t st
    by (simp add: row_to_record_def row_of_record_def storable_def loads_dumps plain_json evidence_list_def refs
        stored_time_iso stored_time_opt_iso change_read_back del: dumps.simps plain.simps)
qed

lemma status_value_inj: "action_status_value a = action_status_value b \<longleftrightarrow> a = b"
  by (cases a; cases b; simp)

lemma update_row_of: "update_row rec (row_of_record row) = row_of_record (cas_write rec row)"
  by (simp add: update_row_def row_of_record_def cas_write_def)

lemma update_hit_of: "update_hit rec e (row_of_record row) = cas_hit rec e row"
  by (simp add: update_hit_def row_of_record_def cas_hit_def status_value_inj)

text \<open>The three statements on rows are the three operations on records.\<close>

lemma rows_refine_store:
  assumes "\<And>rec. rec \<in> set (db_actions conn) \<Longrightarrow> storable rec"
  defines "rows \<equiv> \<lambda>c. map row_of_record (db_actions c)"
  shows "select_row dec (rows conn) i = Inr (get_action conn i)
    \<and> insert_row (rows conn) rec = map_sum id rows (insert_action conn rec)
    \<and> update_rows (rows conn) rec e = map_prod rows id (save_action_if_status conn rec e)"
proof (intro conjI)
  have id: "col_action_id (row_of_record r) = action_id r" for r by (simp add: row_of_record_def)
  have "row_to_record dec (row_of_record r) = Inr r" if "get_action conn i = Some r" for r
    using that assms record_read_back by (auto simp: get_action_def dest: find_Some_mem)
  then show "select_row dec (rows conn) i = Inr (get_action conn i)"
    by (auto simp: rows_def select_row_def find_map id get_action_def split: option.splits)
  show "insert_row (rows conn) rec = map_sum id rows (insert_action conn rec)"
    by (simp add: rows_def insert_row_def insert_action_def id image_image)
  show "update_rows (rows conn) rec e = map_prod rows id (save_action_if_status conn rec e)"
    by (simp add: rows_def update_rows_def save_action_if_status_def update_row_of update_hit_of filter_map comp_def)
qed

section \<open>A stored action\<close>

text \<open>The sample action, prepared on 16 August 2026 at 11:00.\<close>

definition stored_action :: action_record where
  "stored_action =
     (let t = \<lparr>wall = ordinal (2026, 8, 16) * us_per_day + hm 11 0, utcoffset = ist\<rparr> in
      (sample_action CONFIRMED)\<lparr>prepared_at := t, expires_at := dt_add t (timedelta_minutes 15), confirmed_at := Some t,
        act_evidence := [cite_structured ''tickets'' ''TCK-1'' None]\<rparr>)"

lemma stored_action_storable: "storable stored_action"
  by (simp add: storable_def stored_action_def Let_def sample_action_def valid_datetime_def dt_add_def hm_def ist_def
      timedelta_minutes_def us_per_minute_def us_per_day_def month_lengths_def is_leap_def)

end
