(* ===== verification/Api_Storage.thy ===== *)
theory Api_Storage
  imports Api_Sessions Action_Rows
begin

text \<open>
  The sessions of the HTTP layer over the text columns of the \<open>actions\<close> table: what any session writes
  is read back as the records the other theories speak of.
\<close>

lemma touched_storable:
  assumes "touched clk conn rec'" "\<And>rec. rec \<in> set (db_actions conn) \<Longrightarrow> storable rec"
    and "valid_datetime (now clk)" "valid_datetime (dt_add (now clk) (timedelta_minutes 15))"
  shows "storable rec'"
  using assms(1) unfolding touched_def
proof
  assume "\<exists>rec \<in> set (db_actions conn). rewritten clk rec rec'"
  then obtain rec where rec: "rec \<in> set (db_actions conn)" "rewritten clk rec rec'" by blast
  from assms(2) [OF rec(1)] have "storable rec" .
  moreover from rec(2) have "audit_of rec' = audit_of rec" "confirmed_at rec' = confirmed_at rec \<or> confirmed_at rec' = Some (now clk)"
    "executed_at rec' = executed_at rec \<or> executed_at rec' = Some (now clk)" by (simp_all add: rewritten_def)
  ultimately show ?thesis using audit_of_keeps [of rec' rec] assms(3) by (auto simp: storable_def)
qed (use assms(3,4) in \<open>simp add: storable_def\<close>)

lemma session_storable:
  assumes "srv_db srv = Some conn" "unique_ids conn" "get_clock srv = Inr clk"
    and "valid_datetime (now clk)" "valid_datetime (dt_add (now clk) (timedelta_minutes 15))"
    and "\<And>rec. rec \<in> set (db_actions conn) \<Longrightarrow> storable rec"
  shows "\<exists>c. serve_all srv rs = srv\<lparr>srv_db := Some c\<rparr> \<and> (\<forall>rec \<in> set (db_actions c). storable rec)"
  using assms(1,2,3,6)
proof (induction rs arbitrary: srv conn)
  case Nil
  then have "srv = srv\<lparr>srv_db := Some conn\<rparr>" by simp
  with Nil.prems(4) show ?case by (intro exI [of _ conn]) simp
next
  case (Cons r rs)
  obtain env hq where r: "r = (env, hq)" by (cases r)
  let ?c = "effect_at env srv hq conn"
  note cases = effect_at_cases [of env srv hq conn]
  have u: "unique_ids ?c" using cases effect_unique [OF Cons.prems(2)] Cons.prems(2) by (elim disjE exE conjE) auto
  have "storable rec" if "rec \<in> set (db_actions ?c)" for rec
  proof -
    have "touched clk conn rec"
      using cases that Cons.prems(3) effect_touches [OF Cons.prems(2)] by (elim disjE exE conjE) (auto intro: touched_old)
    then show ?thesis by (rule touched_storable [OF _ Cons.prems(4) assms(4,5)])
  qed
  then show ?case
    using Cons.IH [of "srv\<lparr>srv_db := Some ?c\<rparr>" ?c] u Cons.prems(3) by (simp add: r serve_effect_at [OF Cons.prems(1)])
qed

text \<open>C5. The text columns lose nothing: at the end of any session, over the rows SQLite then holds
  (enumerations by value, ISO times, JSON), a read, an insertion and a conditional update answer
  and leave exactly what the record-level store says; in particular every action is read back as it
  was written.\<close>

theorem session_rows_refine_store:
  assumes "srv_db srv = Some conn" "unique_ids conn" "get_clock srv = Inr clk"
    and "valid_datetime (now clk)" "valid_datetime (dt_add (now clk) (timedelta_minutes 15))"
    and "\<And>rec. rec \<in> set (db_actions conn) \<Longrightarrow> storable rec"
  defines "rows \<equiv> \<lambda>c. map row_of_record (db_actions c)"
  shows "\<exists>c. serve_all srv rs = srv\<lparr>srv_db := Some c\<rparr>
    \<and> (\<forall>dec i. select_row dec (rows c) i = Inr (get_action c i))
    \<and> (\<forall>rec. insert_row (rows c) rec = map_sum id rows (insert_action c rec))
    \<and> (\<forall>rec e. update_rows (rows c) rec e = map_prod rows id (save_action_if_status c rec e))"
proof -
  obtain c where "serve_all srv rs = srv\<lparr>srv_db := Some c\<rparr>" "\<And>rec. rec \<in> set (db_actions c) \<Longrightarrow> storable rec"
    using session_storable [OF assms(1-6)] by blast
  with rows_refine_store [of c] show ?thesis unfolding rows_def by blast
qed

theorem session_rows_refine_store_witness:
  "\<exists>c. serve_all ((sample_server (sample_db\<lparr>db_actions := [stored_action]\<rparr>))\<lparr>srv_snapshot_time := Some (Zoned (wall (prepared_at stored_action)) ist)\<rparr>)
      [(sample_api, as_user ''u1'' (ExecuteEndpoint ''ACT-1''))]
    = (sample_server (sample_db\<lparr>db_actions := [stored_action]\<rparr>))
        \<lparr>srv_snapshot_time := Some (Zoned (wall (prepared_at stored_action)) ist), srv_db := Some c\<rparr>
    \<and> select_row \<lparr>dec_json = (\<lambda>_. Inl invalid_record), dec_time = (\<lambda>_. Inl invalid_record)\<rparr> (map row_of_record (db_actions c)) ''ACT-1''
      = Inr (get_action c ''ACT-1'')"
proof -
  let ?conn = "sample_db\<lparr>db_actions := [stored_action]\<rparr>"
  let ?srv = "(sample_server ?conn)\<lparr>srv_snapshot_time := Some (Zoned (wall (prepared_at stored_action)) ist)\<rparr>"
  let ?clk = "\<lparr>snapshot = prepared_at stored_action\<rparr>"
  have off: "utcoffset (prepared_at stored_action) = ist" by (simp add: stored_action_def Let_def)
  have "get_clock ?srv = Inr ?clk"
    using off by (simp add: get_clock_def handled_def)
  moreover have "srv_db ?srv = Some ?conn" by simp
  moreover have "unique_ids ?conn" by (simp add: unique_ids_def)
  moreover have "valid_datetime (now ?clk)" "valid_datetime (dt_add (now ?clk) (timedelta_minutes 15))"
    using stored_action_storable by (simp_all add: storable_def stored_action_def Let_def)
  moreover have "storable rec" if "rec \<in> set (db_actions ?conn)" for rec using that stored_action_storable by simp
  ultimately obtain c where "serve_all ?srv [(sample_api, as_user ''u1'' (ExecuteEndpoint ''ACT-1''))] = ?srv\<lparr>srv_db := Some c\<rparr>"
    "\<forall>dec i. select_row dec (map row_of_record (db_actions c)) i = Inr (get_action c i)"
    using session_rows_refine_store [of ?srv ?conn ?clk] by blast
  then show ?thesis by auto
qed

end
