(* ===== verification/Access_Log.thy ===== *)
theory Access_Log
  imports Api_Disclosure Py_Json
begin

text \<open>
  \<open>app/observability/tracing.py\<close>, \<open>app/observability/logging_config.py\<close> and
  \<open>app/api/middleware.py\<close>: the ids of a request, the attributes of a span, the JSON line of a log
  record, and the headers and the access-log line of a response. The last section composes them with
  \<open>serve\<close>: every response carries its ids and one line, except that of an unexpected exception,
  which has neither and whose line does not say what went wrong.
\<close>

section \<open>Ids and spans\<close>

text \<open>The arguments are the texts of fresh UUIDs.\<close>

definition new_context :: "string \<Rightarrow> string \<Rightarrow> request_context" where
  "new_context u v = \<lparr>rc_request_id = u, rc_trace_id = v\<rparr>"

definition child :: "request_context \<Rightarrow> string \<Rightarrow> request_context" where
  "child rc u = \<lparr>rc_request_id = u, rc_trace_id = rc_trace_id rc\<rparr>"

text \<open>The attributes a span ends with, and the outcome of its body: the duration is set on every exit.\<close>

definition span :: "request_context \<Rightarrow> (string \<times> string) list \<Rightarrow> pyfloat \<Rightarrow> pyfloat \<Rightarrow> 'e + 'a \<Rightarrow> (string \<times> json) list \<times> ('e + 'a)" where
  "span ctx attributes start stop body =
     (let ids = [(''request_id'', VStr (rc_request_id ctx)), (''trace_id'', VStr (rc_trace_id ctx))];
          attrs = foldl (\<lambda>d (k, v). dict_put d k (VStr v)) ids attributes
      in (dict_put attrs ''duration_ms'' (VFloat (fl (fl (stop - start) * 1000))), body))"

section \<open>A log line\<close>

record log_record =
  lr_levelname :: string
  lr_name :: string
  lr_message :: string
  lr_exc_info :: "string option"             \<comment> \<open>the traceback's text\<close>
  lr_extra :: "(string \<times> json) list"

text \<open>The attributes of a \<open>LogRecord\<close>, and the two a formatter adds.\<close>

definition RESERVED :: "string list" where
  "RESERVED = [''name'', ''msg'', ''args'', ''levelname'', ''levelno'', ''pathname'', ''filename'', ''module'', ''exc_info'',
     ''exc_text'', ''stack_info'', ''lineno'', ''funcName'', ''created'', ''msecs'', ''relativeCreated'', ''thread'',
     ''threadName'', ''processName'', ''process'', ''taskName'', ''message'', ''asctime'']"

definition payload :: "log_record \<Rightarrow> (string \<times> json) list" where
  "payload rec =
     foldl (\<lambda>d (k, v). dict_put d k v)
       [(''level'', VStr (lr_levelname rec)), (''logger'', VStr (lr_name rec)), (''message'', VStr (lr_message rec))]
       (filter (\<lambda>(k, v). k \<notin> set RESERVED) (lr_extra rec))"

definition format_line :: "log_record \<Rightarrow> string" where
  "format_line rec = dumps (VObj (payload rec))"

section \<open>The middleware\<close>

record http_reply =
  rp_status :: int
  rp_headers :: "(string \<times> string) list"

text \<open>Method and path of a request, from the route decorators.\<close>

fun route_of :: "endpoint \<Rightarrow> string \<times> string" where
  "route_of (PrepareEndpoint _ _) = (''POST'', ''/api/actions/prepare'')"
| "route_of (ConfirmEndpoint _ _) = (''POST'', ''/api/actions/confirm'')"
| "route_of (ExecuteEndpoint _) = (''POST'', ''/api/actions/execute'')"
| "route_of (GetActionEndpoint i) = (''GET'', ''/api/actions/'' @ i)"
| "route_of (RunRadarEndpoint _ _ _) = (''POST'', ''/api/radar/run'')"
| "route_of (GetAlertEndpoint i) = (''GET'', ''/api/radar/alerts/'' @ i)"
| "route_of (ChatEndpoint _) = (''POST'', ''/api/chat'')"
| "route_of DemoUsersEndpoint = (''GET'', ''/api/demo-users'')"
| "route_of HealthEndpoint = (''GET'', ''/health'')"
| "route_of ReadyEndpoint = (''GET'', ''/ready'')"

definition access_record :: "http_request \<Rightarrow> int \<Rightarrow> pyfloat \<Rightarrow> log_record" where
  "access_record hq status latency_ms =
     \<lparr>lr_levelname = ''INFO'', lr_name = ''api.access'', lr_message = ''http_request'', lr_exc_info = None,
      lr_extra =
        [(''request_id'', VStr (rc_request_id (hq_context hq))), (''trace_id'', VStr (rc_trace_id (hq_context hq))),
         (''method'', VStr (fst (route_of (hq_endpoint hq)))), (''path'', VStr (snd (route_of (hq_endpoint hq)))),
         (''status_code'', VInt status), (''latency_ms'', VFloat (fl (of_int (round_half_even (latency_ms * 1000)) / 1000))),
         (''demo_user'', VStr (case hq_demo_user hq of None \<Rightarrow> ''ops_admin'' | Some u \<Rightarrow> u))]\<rparr>"

text \<open>An exception of \<open>call_next\<close> goes through: no header is set and no line is written.\<close>

definition dispatch_http :: "http_request \<Rightarrow> pyfloat \<Rightarrow> pyfloat \<Rightarrow> 'e + http_reply \<Rightarrow> ('e + http_reply) \<times> log_record list" where
  "dispatch_http hq start stop called =
     (case called of
        Inl e \<Rightarrow> (Inl e, [])
      | Inr reply \<Rightarrow>
          let headers = dict_put (dict_put (rp_headers reply) ''X-Request-Id'' (rc_request_id (hq_context hq)))
                ''X-Trace-Id'' (rc_trace_id (hq_context hq))
          in (Inr (reply\<lparr>rp_headers := headers\<rparr>), [access_record hq (rp_status reply) (fl (fl (stop - start) * 1000))]))"

text \<open>The handler of an exception no other handler takes.\<close>

definition unhandled :: "http_request \<Rightarrow> string \<Rightarrow> http_reply \<times> log_record" where
  "unhandled hq traceback =
     (\<lparr>rp_status = 500, rp_headers = []\<rparr>,
      \<lparr>lr_levelname = ''ERROR'', lr_name = ''api.errors'', lr_message = ''unhandled_api_exception'', lr_exc_info = Some traceback,
       lr_extra = [(''path'', VStr (snd (route_of (hq_endpoint hq)))), (''method'', VStr (fst (route_of (hq_endpoint hq))))]\<rparr>)"

section \<open>A response and its log lines\<close>

text \<open>
  The framework runs the middleware around the routes and the handlers of the application's own
  exceptions; \<open>raises e\<close> says that the outcome \<open>e\<close> leaves them as an exception, to be answered outside
  the middleware.
\<close>

definition answer ::
  "(http_error \<Rightarrow> bool) \<Rightarrow> (http_error \<Rightarrow> string) \<Rightarrow> api_env \<Rightarrow> server \<Rightarrow> http_request \<Rightarrow> pyfloat \<Rightarrow> pyfloat
    \<Rightarrow> http_reply \<times> string list" where
  "answer raises traceback env srv hq start stop =
     (let res = snd (serve env srv hq);
          called = (case res of
              Inl e \<Rightarrow> if raises e then Inl e else Inr \<lparr>rp_status = http_status e, rp_headers = []\<rparr>
            | Inr _ \<Rightarrow> Inr \<lparr>rp_status = status_code res, rp_headers = []\<rparr>);
          (out, records) = dispatch_http hq start stop called
      in case out of
           Inr reply \<Rightarrow> (reply, map format_line records)
         | Inl e \<Rightarrow> (fst (unhandled hq (traceback e)), map format_line (records @ [snd (unhandled hq (traceback e))])))"

text \<open>The exception's text does not reach the line.\<close>

lemma format_line_exc [simp]: "format_line (rec\<lparr>lr_exc_info := x\<rparr>) = format_line rec"
  by (simp add: format_line_def payload_def)

lemma access_payload:
  "dict_get (payload (access_record hq st ms)) ''request_id'' = Some (VStr (rc_request_id (hq_context hq)))"
  "dict_get (payload (access_record hq st ms)) ''trace_id'' = Some (VStr (rc_trace_id (hq_context hq)))"
  "dict_get (payload (access_record hq st ms)) ''status_code'' = Some (VInt st)"
  by (simp_all add: payload_def access_record_def RESERVED_def)

text \<open>C34. Every response can be traced, with one exception. Where unexpected exceptions are answered
  outside the middleware, as the framework documents of a handler for \<open>Exception\<close>, a request is
  answered with the request's own ids in its headers and leaves exactly one line, with the same
  ids and the status answered; but a 500 has no id in its headers and no access-log line, and its
  one line is the same whatever exception was raised: the formatter drops the traceback.\<close>

theorem responses_traced_but_500:
  assumes "\<And>e. raises e \<longleftrightarrow> http_status e = 500"
  shows "case answer raises traceback env srv hq start stop of (reply, lines) \<Rightarrow>
    (if rp_status reply = 500
     then rp_headers reply = [] \<and> lines = [format_line (snd (unhandled hq []))]
     else dict_get (rp_headers reply) ''X-Request-Id'' = Some (rc_request_id (hq_context hq))
       \<and> dict_get (rp_headers reply) ''X-Trace-Id'' = Some (rc_trace_id (hq_context hq))
       \<and> (\<exists>rec. lines = [format_line rec]
           \<and> dict_get (payload rec) ''request_id'' = Some (VStr (rc_request_id (hq_context hq)))
           \<and> dict_get (payload rec) ''trace_id'' = Some (VStr (rc_trace_id (hq_context hq)))
           \<and> dict_get (payload rec) ''status_code'' = Some (VInt (rp_status reply))
           \<and> rp_status reply = status_code (snd (serve env srv hq))))"
proof -
  have line: "format_line (snd (unhandled hq tb)) = format_line (snd (unhandled hq []))" for tb
    by (simp add: unhandled_def format_line_def payload_def)
  have ok: "status_code (Inr r) \<noteq> 500" for r :: response by (cases "Inr r :: http_error + response" rule: status_code.cases) simp_all
  show ?thesis
  proof (cases "snd (serve env srv hq)")
    case (Inl e)
    show ?thesis
    proof (cases "http_status e = 500")
      case True
      with Inl assms line [of "traceback e"] show ?thesis
        by (simp add: answer_def dispatch_http_def) (simp add: unhandled_def)
    next
      case False
      with Inl assms show ?thesis by (auto simp: answer_def dispatch_http_def Let_def intro: access_payload)
    qed
  next
    case (Inr r)
    with ok [of r] show ?thesis by (auto simp: answer_def dispatch_http_def Let_def intro: access_payload)
  qed
qed

theorem responses_traced_but_500_witness:
  "case answer (\<lambda>e. http_status e = 500) (\<lambda>_. ''boom'') sample_api (sample_server sample_db) (as_user ''u1'' HealthEndpoint) 0 1
     of (reply, lines) \<Rightarrow> dict_get (rp_headers reply) ''X-Request-Id'' = Some ''r1''"
  using responses_traced_but_500 [where raises = "\<lambda>e. http_status e = 500" and hq = "as_user ''u1'' HealthEndpoint"
      and traceback = "\<lambda>_. ''boom''" and env = sample_api and srv = "sample_server sample_db" and start = 0 and stop = 1]
  by (simp add: answer_def dispatch_http_def serve_def as_user_def sample_ctx_def split: prod.splits)

end
