(* ===== verification/Action_Concurrency.thy ===== *)
theory Action_Concurrency
  imports Action_Workflow
begin

text \<open>
  Confirm and execute calls running against one \<open>actions\<close> table. SQLite makes each statement
  atomic, so a call is at most three atomic steps: it reads and decides, attempts its swap,
  and re-reads if it lost. Any number of calls interleave, and new proposals may appear. The
  invariants give at most one winner per transition and no execution without a confirmation.
\<close>

section \<open>Calls as threads\<close>

datatype call = ConfirmCall string string auth_context clock string | ExecuteCall string clock

datatype thread =
    Waiting call
  | Swapping call action_record action_status action_outcome
  | Rereading call
  | Finished call bool "error + action_outcome"  \<comment> \<open>did this call's write land, and its result\<close>

fun plan_of :: "db \<Rightarrow> call \<Rightarrow> error + plan" where
  "plan_of conn (ConfirmCall i hash auth clk user) = confirm_plan conn i hash auth clk user"
| "plan_of conn (ExecuteCall i clk) = Inr (execute_plan conn i clk)"

fun lost_race :: "db \<Rightarrow> call \<Rightarrow> error + action_outcome" where
  "lost_race conn (ConfirmCall i hash auth clk user) = wrong_state_outcome conn i ''confirm''"
| "lost_race conn (ExecuteCall i clk) = executed_by_other conn i"

fun run_call :: "db \<Rightarrow> call \<Rightarrow> error + action_outcome \<times> db" where
  "run_call conn (ConfirmCall i hash auth clk user) = confirm_action conn i hash auth clk user"
| "run_call conn (ExecuteCall i clk) = execute_action conn i clk"

fun after_read :: "call \<Rightarrow> error + plan \<Rightarrow> thread" where
  "after_read c (Inl e) = Finished c False (Inl e)"
| "after_read c (Inr (Answer out)) = Finished c False (Inr out)"
| "after_read c (Inr (Swap rec expected out)) = Swapping c rec expected out"

inductive race :: "db \<times> (nat \<Rightarrow> thread) \<Rightarrow> db \<times> (nat \<Rightarrow> thread) \<Rightarrow> bool" where
  read: "th k = Waiting c \<Longrightarrow> race (conn, th) (conn, th(k := after_read c (plan_of conn c)))"
| swap: "th k = Swapping c rec e out \<Longrightarrow> save_action_if_status conn rec e = (conn', landed) \<Longrightarrow>
    race (conn, th) (conn', th(k := if landed then Finished c True (Inr out) else Rereading c))"
| reread: "th k = Rereading c \<Longrightarrow> race (conn, th) (conn, th(k := Finished c False (lost_race conn c)))"
| propose: "insert_action conn rec = Inr conn' \<Longrightarrow> act_status rec = PENDING_CONFIRMATION \<Longrightarrow>
    race (conn, th) (conn', th)"

inductive_cases raceE: "race s s'"

text \<open>A call whose steps run back to back is the sequential function.\<close>

lemma run_call_eq:
  "run_call conn c = bindE (plan_of conn c) (\<lambda>p. case p of
     Answer out \<Rightarrow> Inr (out, conn)
   | Swap rec expected out \<Rightarrow>
       (case save_action_if_status conn rec expected of
          (conn', True) \<Rightarrow> Inr (out, conn')
        | (conn', False) \<Rightarrow> bindE (lost_race conn' c) (\<lambda>out'. Inr (out', conn'))))"
  by (cases c) (simp_all only: run_call.simps plan_of.simps lost_race.simps confirm_action_def
      execute_action_def bindE.simps)

lemma race_alone:
  assumes "run_call conn c = Inr (out, conn')"
  shows "\<exists>landed. race\<^sup>*\<^sup>* (conn, th(k := Waiting c)) (conn', th(k := Finished c landed (Inr out)))"
proof -
  have first: "race (conn, th(k := Waiting c)) (conn, th(k := after_read c (plan_of conn c)))"
    using race.read [of "th(k := Waiting c)" k c conn] by simp
  from assms obtain p where p: "plan_of conn c = Inr p" by (auto simp only: run_call_eq bindE_eq_Inr)
  note rest = assms [unfolded run_call_eq p bindE.simps]
  show ?thesis
  proof (cases p)
    case (Answer o')
    with first p rest show ?thesis by auto
  next
    case (Swap rec e o')
    obtain d landed where s: "save_action_if_status conn rec e = (d, landed)" by force
    have sw: "race (conn, th(k := after_read c (plan_of conn c)))
        (d, th(k := if landed then Finished c True (Inr o') else Rereading c))"
      using race.swap [of "th(k := Swapping c rec e o')" k c rec e o' conn d landed] s p Swap by simp
    show ?thesis
    proof (cases landed)
      case True
      with first sw rest s Swap have "race\<^sup>*\<^sup>* (conn, th(k := Waiting c)) (conn', th(k := Finished c True (Inr out)))"
        by (auto intro: converse_rtranclp_into_rtranclp)
      then show ?thesis by blast
    next
      case False
      with rest s Swap have l: "lost_race d c = Inr out" "d = conn'" by (auto simp: bindE_eq_Inr)
      have "race (d, th(k := Rereading c)) (d, th(k := Finished c False (Inr out)))"
        using race.reread [of "th(k := Rereading c)" k c d] l by simp
      with first sw False l have "race\<^sup>*\<^sup>* (conn, th(k := Waiting c)) (conn', th(k := Finished c False (Inr out)))"
        by (auto intro: converse_rtranclp_into_rtranclp)
      then show ?thesis by blast
    qed
  qed
qed

section \<open>How a status can evolve\<close>

definition status_of :: "db \<Rightarrow> string \<Rightarrow> action_status option" where
  "status_of conn i = map_option act_status (get_action conn i)"

definition evolves :: "action_status option \<Rightarrow> action_status option \<Rightarrow> bool" where
  "evolves a b \<longleftrightarrow> a = b \<or> (a = None \<and> b = Some PENDING_CONFIRMATION)
     \<or> (\<exists>s s'. a = Some s \<and> b = Some s' \<and> s' \<in> set (next_status s))"

lemma evolves_keeps:
  assumes "evolves a b"
  shows "a \<noteq> None \<Longrightarrow> b \<noteq> None"
    and "a \<noteq> None \<Longrightarrow> a \<noteq> Some PENDING_CONFIRMATION \<Longrightarrow> b \<noteq> None \<and> b \<noteq> Some PENDING_CONFIRMATION"
    and "a \<in> {Some CONFIRMED, Some EXECUTED} \<Longrightarrow> b \<in> {Some CONFIRMED, Some EXECUTED}"
    and "a = Some EXECUTED \<Longrightarrow> b = Some EXECUTED"
proof -
  have nxt: "s' \<in> set (next_status s) \<Longrightarrow>
    s' \<noteq> PENDING_CONFIRMATION \<and> (s = CONFIRMED \<longrightarrow> s' = EXECUTED) \<and> s \<noteq> EXECUTED" for s s'
    by (cases s) auto
  show "a \<noteq> None \<Longrightarrow> b \<noteq> None"
    and "a \<noteq> None \<Longrightarrow> a \<noteq> Some PENDING_CONFIRMATION \<Longrightarrow> b \<noteq> None \<and> b \<noteq> Some PENDING_CONFIRMATION"
    and "a \<in> {Some CONFIRMED, Some EXECUTED} \<Longrightarrow> b \<in> {Some CONFIRMED, Some EXECUTED}"
    and "a = Some EXECUTED \<Longrightarrow> b = Some EXECUTED"
    using assms nxt by (auto simp: evolves_def)
qed

section \<open>The invariant\<close>

fun call_id :: "call \<Rightarrow> string" where
  "call_id (ConfirmCall i hash auth clk user) = i"
| "call_id (ExecuteCall i clk) = i"

fun is_confirm :: "call \<Rightarrow> bool" where
  "is_confirm (ConfirmCall _ _ _ _ _) = True"
| "is_confirm (ExecuteCall _ _) = False"

text \<open>What a thread knows about the status \<open>st\<close> of the actions.\<close>

fun thread_ok :: "(string \<Rightarrow> action_status option) \<Rightarrow> thread \<Rightarrow> bool" where
  "thread_ok st (Waiting c) = True"
| "thread_ok st (Swapping c rec e out) =
     (action_id rec = call_id c \<and> st (call_id c) \<noteq> None \<and>
      (if is_confirm c then e = PENDING_CONFIRMATION
         \<and> (act_status rec = CONFIRMED \<and> success out \<or> act_status rec = EXPIRED \<and> \<not> success out)
       else e = CONFIRMED \<and> act_status rec = EXECUTED \<and> outcome_record out = Some rec
         \<and> st (call_id c) \<in> {Some CONFIRMED, Some EXECUTED}))"
| "thread_ok st (Rereading c) = (if is_confirm c then True else st (call_id c) = Some EXECUTED)"
| "thread_ok st (Finished c landed res) =
     (if is_confirm c then
        (landed \<longrightarrow> st (call_id c) \<noteq> None \<and> st (call_id c) \<noteq> Some PENDING_CONFIRMATION)
        \<and> (\<forall>out. res = Inr out \<and> success out \<longrightarrow> landed \<and> st (call_id c) \<in> {Some CONFIRMED, Some EXECUTED})
      else
        (landed \<longrightarrow> st (call_id c) = Some EXECUTED)
        \<and> (\<forall>out. res = Inr out \<and> success out \<longrightarrow> st (call_id c) = Some EXECUTED
             \<and> (\<exists>rec. outcome_record out = Some rec \<and> act_status rec = EXECUTED)))"

lemma thread_ok_evolves:
  assumes "thread_ok st t" "\<And>i. evolves (st i) (st' i)"
  shows "thread_ok st' t"
proof (cases t)
  case (Swapping c rec e out)
  with assms(1) evolves_keeps [OF assms(2) [of "call_id c"]] show ?thesis by (auto split: if_splits)
next
  case (Rereading c)
  with assms(1) evolves_keeps [OF assms(2) [of "call_id c"]] show ?thesis by (auto split: if_splits)
next
  case (Finished c landed res)
  with assms(1) evolves_keeps [OF assms(2) [of "call_id c"]] show ?thesis by (auto split: if_splits)
qed simp

definition landed_at :: "thread \<Rightarrow> (bool \<times> string) option" where
  "landed_at t = (case t of Finished c True _ \<Rightarrow> Some (is_confirm c, call_id c) | _ \<Rightarrow> None)"

definition race_inv :: "db \<times> (nat \<Rightarrow> thread) \<Rightarrow> bool" where
  "race_inv s = (case s of (conn, th) \<Rightarrow>
     unique_ids conn \<and> (\<forall>k. thread_ok (status_of conn) (th k)) \<and>
     (\<forall>j k. landed_at (th j) \<noteq> None \<and> landed_at (th j) = landed_at (th k) \<longrightarrow> j = k))"

lemma status_after:
  assumes "unique_ids conn" "save_action_if_status conn rec e = (conn', landed)"
  shows "unique_ids conn'"
    and "landed \<longleftrightarrow> status_of conn (action_id rec) = Some e"
    and "status_of conn' i = (if i = action_id rec \<and> landed then Some (act_status rec) else status_of conn i)"
  using actions.swap_valid [OF assms(1), of rec e] actions.swap_lands [OF assms(1), of rec e]
    actions.status_after_swap [OF assms(1), of rec e i] assms(2)
  by (auto simp: status_of_def)

lemma evolves_swap:
  assumes "unique_ids conn" "save_action_if_status conn rec e = (conn', landed)"
    and "thread_ok (status_of conn) (Swapping c rec e out)"
  shows "evolves (status_of conn i) (status_of conn' i)"
  using status_after(2,3) [OF assms(1,2)] assms(3)
  by (auto simp: evolves_def split: if_splits)

lemma evolves_propose:
  assumes "insert_action conn rec = Inr conn'" "act_status rec = PENDING_CONFIRMATION"
  shows "evolves (status_of conn i) (status_of conn' i)"
  using insert_action_get(1-3) [OF assms(1)] assms(2)
  by (cases "i = action_id rec") (auto simp: evolves_def status_of_def)

lemma after_read_ok:
  "thread_ok (status_of conn) (after_read c (plan_of conn c)) \<and> landed_at (after_read c (plan_of conn c)) = None"
proof (cases c)
  case (ConfirmCall i hash auth clk user)
  show ?thesis
  proof (cases "plan_of conn c")
    case (Inr p)
    show ?thesis
    proof (cases p)
      case (Answer out)
      with Inr ConfirmCall confirm_plan_Answer have "\<not> success out" by auto
      with Inr Answer ConfirmCall show ?thesis by (simp add: landed_at_def)
    next
      case (Swap rec e out)
      with Inr ConfirmCall have "confirm_plan conn i hash auth clk user = Inr (Swap rec e out)" by simp
      then obtain rec0 where "get_action conn i = Some rec0" "e = PENDING_CONFIRMATION"
        "act_status rec = EXPIRED \<and> \<not> success out \<and> action_id rec = action_id rec0
         \<or> act_status rec = CONFIRMED \<and> success out \<and> action_id rec = action_id rec0"
        by (rule confirm_plan_Swap) auto
      with Inr Swap ConfirmCall actions.fetch_key [of conn i rec0] show ?thesis
        by (auto simp: landed_at_def status_of_def)
    qed
  qed (simp add: ConfirmCall landed_at_def)
next
  case (ExecuteCall i clk)
  then show ?thesis
    by (cases rule: execute_plan_cases [of conn i clk])
      (auto simp: landed_at_def status_of_def dest: actions.fetch_key)
qed

lemma lost_race_ok:
  assumes "thread_ok (status_of conn) (Rereading c)"
  shows "thread_ok (status_of conn) (Finished c False (lost_race conn c))"
  using assms by (cases c) (auto simp: wrong_state_outcome_def executed_by_other_def bindE_eq_Inr status_of_def)

lemma landed_unique:
  assumes "landed_at t = Some (is_confirm c, call_id c)" "thread_ok st t"
    and "thread_ok st (Swapping c rec e out)" "st (call_id c) = Some e"
  shows False
proof -
  from assms(1) obtain c' res where t: "t = Finished c' True res"
    and same: "is_confirm c' = is_confirm c" "call_id c' = call_id c"
    by (auto simp: landed_at_def split: thread.splits bool.splits)
  from assms(2-4) show False by (auto simp: t same split: if_splits)
qed

lemma race_invD:
  assumes "race_inv (conn, th)"
  shows "unique_ids conn" "thread_ok (status_of conn) (th k)"
    and "landed_at (th j) \<noteq> None \<Longrightarrow> landed_at (th j) = landed_at (th k) \<Longrightarrow> j = k"
  using assms unfolding race_inv_def prod.case by blast+

lemma race_inv_silent:
  assumes "race_inv (conn, th)" "thread_ok (status_of conn) t" "landed_at t = None"
  shows "race_inv (conn, th(k := t))"
proof -
  note u = race_invD(1) [OF assms(1)] and ok = race_invD(2) [OF assms(1)] and one = race_invD(3) [OF assms(1)]
  have "j = l" if "landed_at ((th(k := t)) j) \<noteq> None \<and> landed_at ((th(k := t)) j) = landed_at ((th(k := t)) l)" for j l
    using that one [of j l] assms(3) by (metis fun_upd_apply)
  moreover have "thread_ok (status_of conn) ((th(k := t)) j)" for j using ok assms(2) by simp
  ultimately show ?thesis unfolding race_inv_def prod.case using u by blast
qed

lemma race_inv_step: "race s s' \<Longrightarrow> race_inv s \<Longrightarrow> race_inv s'"
proof (induction rule: race.induct)
  case (read th k c conn)
  then show ?case using after_read_ok [of conn c] by (intro race_inv_silent) simp_all
next
  case (swap th k c rec e out conn conn' landed)
  note u = race_invD(1) [OF swap.prems] and ok = race_invD(2) [OF swap.prems] and one = race_invD(3) [OF swap.prems]
  have me: "thread_ok (status_of conn) (Swapping c rec e out)" using ok [of k] unfolding swap.hyps(1) .
  note st = status_after [OF u swap.hyps(2)]
  have others: "thread_ok (status_of conn') (th j)" for j
    by (rule thread_ok_evolves [OF ok]) (rule evolves_swap [OF u swap.hyps(2) me])
  have new: "thread_ok (status_of conn') (if landed then Finished c True (Inr out) else Rereading c)"
    using me st(2) st(3) [of "call_id c"] by (auto split: if_splits)
  have fresh: "landed_at (th j) \<noteq> Some (is_confirm c, call_id c)" if landed for j
    using landed_unique [OF _ ok me] st(2) that me by auto
  show ?case
    unfolding race_inv_def prod.case
  proof (intro conjI allI impI)
    fix j l
    let ?th = "th(k := if landed then Finished c True (Inr out) else Rereading c)"
    assume "landed_at (?th j) \<noteq> None \<and> landed_at (?th j) = landed_at (?th l)"
    then show "j = l"
      using one [of j l] fresh [of j] fresh [of l]
      by (cases "j = k"; cases "l = k"; cases landed) (auto simp: landed_at_def)
  qed (use st(1) others new in auto)
next
  case (reread th k c conn)
  then have "thread_ok (status_of conn) (Rereading c)" by (auto simp: race_inv_def dest: spec [of _ k])
  from lost_race_ok [OF this] reread show ?case by (intro race_inv_silent) (simp_all add: landed_at_def)
next
  case (propose conn rec conn' th)
  have "thread_ok (status_of conn') (th k)" for k
    by (rule thread_ok_evolves [OF race_invD(2) [OF propose.prems]]) (rule evolves_propose [OF propose.hyps])
  with insert_action_get(4) [OF propose.hyps(1)] race_invD(1,3) [OF propose.prems] show ?case
    unfolding race_inv_def prod.case by blast
qed

text \<open>Any number of calls start, none of them under way.\<close>

definition all_waiting :: "(nat \<Rightarrow> thread) \<Rightarrow> bool" where
  "all_waiting th = (\<forall>k. \<exists>c. th k = Waiting c)"

lemma race_inv_start:
  assumes "unique_ids conn" "all_waiting th"
  shows "race_inv (conn, th)"
proof -
  have "thread_ok st (th k) \<and> landed_at (th k) = None" for st k
    using assms(2) by (auto simp: all_waiting_def landed_at_def dest: spec [of _ k])
  with assms(1) show ?thesis by (simp add: race_inv_def)
qed

lemma race_inv_reachable:
  assumes "race\<^sup>*\<^sup>* (conn, th) s" "unique_ids conn" "all_waiting th"
  shows "race_inv s"
  using assms(1) race_inv_start [OF assms(2,3)]
  by (induction rule: rtranclp_induct) (auto intro: race_inv_step)

section \<open>No execution without a confirmation\<close>

definition was_confirmed :: "(nat \<Rightarrow> thread) \<Rightarrow> string \<Rightarrow> bool" where
  "was_confirmed th i =
     (\<exists>k c out. th k = Finished c True (Inr out) \<and> is_confirm c \<and> call_id c = i \<and> success out)"

definition confirm_inv :: "db \<times> (nat \<Rightarrow> thread) \<Rightarrow> bool" where
  "confirm_inv s = (case s of (conn, th) \<Rightarrow>
     \<forall>i. status_of conn i \<in> {Some CONFIRMED, Some EXECUTED} \<longrightarrow> was_confirmed th i)"

lemma was_confirmed_upd:
  assumes "was_confirmed th i" "\<And>c landed res. th k \<noteq> Finished c landed res"
  shows "was_confirmed (th(k := t)) i"
proof -
  from assms(1) obtain j c out where j: "th j = Finished c True (Inr out)" "is_confirm c" "call_id c = i" "success out"
    by (auto simp: was_confirmed_def)
  with assms(2) have "j \<noteq> k" by metis
  with j have "(th(k := t)) j = Finished c True (Inr out)" by simp
  with j show ?thesis unfolding was_confirmed_def by blast
qed

lemma confirm_inv_step: "race s s' \<Longrightarrow> race_inv s \<Longrightarrow> confirm_inv s \<Longrightarrow> confirm_inv s'"
proof (induction rule: race.induct)
  case (swap th k c rec e out conn conn' landed)
  note st = status_after [OF race_invD(1) [OF swap.prems(1)] swap.hyps(2)]
  have me: "thread_ok (status_of conn) (Swapping c rec e out)"
    using race_invD(2) [OF swap.prems(1), of k] unfolding swap.hyps(1) .
  let ?th = "th(k := if landed then Finished c True (Inr out) else Rereading c)"
  have old: "was_confirmed ?th i" if "status_of conn i \<in> {Some CONFIRMED, Some EXECUTED}" for i
  proof (rule was_confirmed_upd)
    show "was_confirmed th i" using swap.prems(2) that unfolding confirm_inv_def prod.case by blast
  qed (simp add: swap.hyps(1))
  have "was_confirmed ?th i" if s: "status_of conn' i \<in> {Some CONFIRMED, Some EXECUTED}" for i
  proof (cases "i = action_id rec \<and> landed")
    case False
    with s st(3) [of i] old show ?thesis by simp
  next
    case hit: True
    show ?thesis
    proof (cases "is_confirm c")
      case True
      with me hit s st(3) [of i] have "success out" "call_id c = i" by (auto split: if_splits)
      with True hit show ?thesis unfolding was_confirmed_def by (metis fun_upd_same)
    next
      case False
      with me hit st(2) have "status_of conn i \<in> {Some CONFIRMED, Some EXECUTED}" by auto
      then show ?thesis by (rule old)
    qed
  qed
  then show ?case by (simp add: confirm_inv_def)
next
  case (propose conn rec conn' th)
  have "status_of conn i \<in> {Some CONFIRMED, Some EXECUTED}" if "status_of conn' i \<in> {Some CONFIRMED, Some EXECUTED}" for i
    using that insert_action_get(1,2) [OF propose.hyps(1)] propose.hyps(2)
    by (cases "i = action_id rec") (auto simp: status_of_def)
  with propose.prems show ?case unfolding confirm_inv_def prod.case by blast
qed (simp_all add: confirm_inv_def was_confirmed_upd)

lemma confirm_inv_reachable:
  assumes "race\<^sup>*\<^sup>* (conn, th) s" "unique_ids conn" "all_waiting th"
    and "\<And>i. status_of conn i \<notin> {Some CONFIRMED, Some EXECUTED}"
  shows "confirm_inv s"
proof -
  have "race_inv s \<and> confirm_inv s"
    using assms(1)
  proof (induction rule: rtranclp_induct)
    case base
    with assms race_inv_start show ?case by (simp add: confirm_inv_def)
  next
    case (step s s')
    then show ?case using race_inv_step confirm_inv_step by blast
  qed
  then show ?thesis ..
qed

section \<open>What holds under every interleaving\<close>

lemma sample_confirm_run:
  defines "c \<equiv> ConfirmCall ''ACT-1'' ''h1'' admin sample_clock ''u1''"
  obtains conn' th' out landed where "race\<^sup>*\<^sup>* (sample_db_action PENDING_CONFIRMATION, \<lambda>_. Waiting c) (conn', th')"
    "th' 0 = Finished c landed (Inr out)" "success out" "status_of conn' ''ACT-1'' = Some CONFIRMED"
proof -
  have "inrP (\<lambda>p. success (fst p) \<and> status_of (snd p) ''ACT-1'' = Some CONFIRMED)
    (run_call (sample_db_action PENDING_CONFIRMATION) c)" unfolding c_def by code_simp
  then obtain out conn' where r: "run_call (sample_db_action PENDING_CONFIRMATION) c = Inr (out, conn')"
    and ok: "success out" "status_of conn' ''ACT-1'' = Some CONFIRMED" by (auto simp: inrP_iff)
  from race_alone [OF r, of "\<lambda>_. Waiting c" 0] obtain landed where
    "race\<^sup>*\<^sup>* (sample_db_action PENDING_CONFIRMATION, \<lambda>_. Waiting c)
      (conn', (\<lambda>_. Waiting c)(0 := Finished c landed (Inr out)))" by (auto simp: fun_upd_idem)
  with ok that show thesis by fastforce
qed

lemma sample_unique_ids: "unique_ids (sample_db_action st)"
  by (simp add: unique_ids_def sample_db_action_def)

text \<open>C35. However confirm and execute calls interleave, at most one confirmation of an action
  reports success.\<close>

theorem at_most_one_confirmation:
  assumes "race\<^sup>*\<^sup>* (conn, th) (conn', th')" "unique_ids conn" "all_waiting th"
    and "th' j = Finished (ConfirmCall i h a clk u) b (Inr out)" "success out"
    and "th' k = Finished (ConfirmCall i h' a' clk' u') b' (Inr out')" "success out'"
  shows "j = k"
proof -
  note inv = race_inv_reachable [OF assms(1-3)]
  have b: "b" "b'" using race_invD(2) [OF inv, of j] race_invD(2) [OF inv, of k] assms(4-7) by auto
  with assms(4,6) show ?thesis
    by (intro race_invD(3) [OF inv]) (simp_all add: landed_at_def)
qed

theorem at_most_one_confirmation_witness:
  "\<exists>conn' th'. race\<^sup>*\<^sup>* (sample_db_action PENDING_CONFIRMATION, \<lambda>_. Waiting (ConfirmCall ''ACT-1'' ''h1'' admin sample_clock ''u1''))
     (conn', th') \<and> status_of conn' ''ACT-1'' = Some CONFIRMED
     \<and> {k. \<exists>h a clk u b out. th' k = Finished (ConfirmCall ''ACT-1'' h a clk u) b (Inr out) \<and> success out} = {0}"
proof -
  obtain conn' th' out landed where
    r: "race\<^sup>*\<^sup>* (sample_db_action PENDING_CONFIRMATION, \<lambda>_. Waiting (ConfirmCall ''ACT-1'' ''h1'' admin sample_clock ''u1'')) (conn', th')"
    and f: "th' 0 = Finished (ConfirmCall ''ACT-1'' ''h1'' admin sample_clock ''u1'') landed (Inr out)" "success out"
    and st: "status_of conn' ''ACT-1'' = Some CONFIRMED" by (rule sample_confirm_run)
  have w: "all_waiting (\<lambda>_. Waiting (ConfirmCall ''ACT-1'' ''h1'' admin sample_clock ''u1''))" by (auto simp: all_waiting_def)
  have "k = 0" if "th' k = Finished (ConfirmCall ''ACT-1'' h a clk u) b (Inr out')" "success out'" for k h a clk u b out'
    by (rule at_most_one_confirmation [OF r sample_unique_ids w that f])
  with f have "{k. \<exists>h a clk u b out. th' k = Finished (ConfirmCall ''ACT-1'' h a clk u) b (Inr out) \<and> success out} = {0}"
    by (intro equalityI subsetI) blast+
  with r st show ?thesis by blast
qed

text \<open>C10. However calls interleave, the effect of an action happens at most once, and an execute
  call that reports success, the loser of the race included, reports an EXECUTED record.\<close>

theorem at_most_one_execution:
  assumes "race\<^sup>*\<^sup>* (conn, th) (conn', th')" "unique_ids conn" "all_waiting th"
    and "th' j = Finished (ExecuteCall i clk) b (Inr out)" "success out"
    and "th' k = Finished (ExecuteCall i clk') b' (Inr out')" "success out'"
  shows "status_of conn' i = Some EXECUTED \<and> (\<exists>rec. outcome_record out = Some rec \<and> act_status rec = EXECUTED)
    \<and> (b \<and> b' \<longrightarrow> j = k)"
proof -
  note inv = race_inv_reachable [OF assms(1-3)]
  have "b \<Longrightarrow> b' \<Longrightarrow> j = k"
    using assms(4,6) by (intro race_invD(3) [OF inv]) (simp_all add: landed_at_def)
  with race_invD(2) [OF inv, of j] assms(4,5) show ?thesis by auto
qed

theorem at_most_one_execution_witness:
  "\<exists>conn' th'. race\<^sup>*\<^sup>* (sample_db_action CONFIRMED, \<lambda>_. Waiting (ExecuteCall ''ACT-1'' sample_clock)) (conn', th')
     \<and> status_of conn' ''ACT-1'' = Some EXECUTED"
proof -
  let ?c = "ExecuteCall ''ACT-1'' sample_clock"
  obtain out conn' where "execute_action (sample_db_action CONFIRMED) ''ACT-1'' sample_clock = Inr (out, conn')"
    and ok: "success out" by (rule sample_execute)
  then have r: "run_call (sample_db_action CONFIRMED) ?c = Inr (out, conn')" by simp
  from race_alone [OF r, of "\<lambda>_. Waiting ?c" 0] obtain landed where
    run: "race\<^sup>*\<^sup>* (sample_db_action CONFIRMED, \<lambda>_. Waiting ?c) (conn', (\<lambda>_. Waiting ?c)(0 := Finished ?c landed (Inr out)))"
    by (auto simp: fun_upd_idem)
  have "all_waiting (\<lambda>_. Waiting ?c)" by (auto simp: all_waiting_def)
  from at_most_one_execution [OF run sample_unique_ids this fun_upd_same ok fun_upd_same ok] run show ?thesis by blast
qed

text \<open>C2. No action is ever confirmed or executed unless a separate confirm call succeeded for
  it: starting where nothing is confirmed, whatever proposals appear and however calls
  interleave, a confirmed or executed action has its successful confirmation.\<close>

theorem no_execution_without_confirmation:
  assumes "race\<^sup>*\<^sup>* (conn, th) (conn', th')" "unique_ids conn" "all_waiting th"
    and "\<And>i. status_of conn i \<notin> {Some CONFIRMED, Some EXECUTED}"
    and "status_of conn' i \<in> {Some CONFIRMED, Some EXECUTED}"
  shows "\<exists>k c out. th' k = Finished c True (Inr out) \<and> is_confirm c \<and> call_id c = i \<and> success out"
  using confirm_inv_reachable [OF assms(1-4)] assms(5) unfolding confirm_inv_def prod.case was_confirmed_def by blast

theorem no_execution_without_confirmation_witness:
  "\<exists>conn' th' k c out. race\<^sup>*\<^sup>* (sample_db_action PENDING_CONFIRMATION, \<lambda>_. Waiting (ConfirmCall ''ACT-1'' ''h1'' admin sample_clock ''u1''))
     (conn', th') \<and> status_of conn' ''ACT-1'' = Some CONFIRMED
     \<and> th' k = Finished c True (Inr out) \<and> is_confirm c \<and> call_id c = ''ACT-1'' \<and> success out"
proof -
  obtain conn' th' out landed where
    r: "race\<^sup>*\<^sup>* (sample_db_action PENDING_CONFIRMATION, \<lambda>_. Waiting (ConfirmCall ''ACT-1'' ''h1'' admin sample_clock ''u1'')) (conn', th')"
    and st: "status_of conn' ''ACT-1'' = Some CONFIRMED" by (rule sample_confirm_run)
  have w: "all_waiting (\<lambda>_. Waiting (ConfirmCall ''ACT-1'' ''h1'' admin sample_clock ''u1''))" by (auto simp: all_waiting_def)
  have before: "status_of (sample_db_action PENDING_CONFIRMATION) i \<notin> {Some CONFIRMED, Some EXECUTED}" for i
    by (simp add: status_of_def get_action_def sample_db_action_def sample_action_def)
  have "status_of conn' ''ACT-1'' \<in> {Some CONFIRMED, Some EXECUTED}" using st by simp
  from no_execution_without_confirmation [OF r sample_unique_ids w before this] obtain k c out where
    "th' k = Finished c True (Inr out)" "is_confirm c" "call_id c = ''ACT-1''" "success out" by blast
  with r st show ?thesis by (intro exI conjI)
qed

end
