(* ===== verification/Workbook.thy ===== *)
theory Workbook
  imports Py_Text Source_Metadata
begin

text \<open>
  \<open>app/structured_data/workbook.py\<close> and \<open>parse_snapshot\<close> of \<open>app/time/clock.py\<close>: the cells
  openpyxl reads, as typed accounts, orders and tickets localised to the snapshot's zone.

  What comes from tables or parsers of the standard library is a field of \<open>py_lib\<close>: the offset
  of a named zone at a wall-clock reading, \<open>datetime.fromisoformat\<close>, \<open>float\<close> of a text, and
  \<open>str\<close> of a number or a time. Where an interpreter's message is part of an error, only the
  program's own words are kept.
\<close>

datatype cell = CNone | CStr string | CInt int | CFloat pyfloat | CBool bool | CTime parsed_time

type_synonym zone = "int \<Rightarrow> tz"

record py_lib =
  zone_info :: "string \<Rightarrow> zone option"
  from_iso :: "string \<Rightarrow> parsed_time option"
  float_of_text :: "string \<Rightarrow> pyfloat option"
  text_of_cell :: "cell \<Rightarrow> string"
  nfkc :: "string \<Rightarrow> string"

definition cell_str :: "py_lib \<Rightarrow> cell \<Rightarrow> string" where
  "cell_str lib c =
     (case c of CStr s \<Rightarrow> s | CNone \<Rightarrow> ''None'' | CInt i \<Rightarrow> str_of_int i
      | CBool b \<Rightarrow> if b then ''True'' else ''False'' | _ \<Rightarrow> text_of_cell lib c)"

definition truthy :: "cell \<Rightarrow> bool" where
  "truthy c = (case c of CNone \<Rightarrow> False | CStr s \<Rightarrow> s \<noteq> [] | CInt i \<Rightarrow> i \<noteq> 0 | CFloat x \<Rightarrow> x \<noteq> 0
     | CBool b \<Rightarrow> b | CTime _ \<Rightarrow> True)"

section \<open>The snapshot\<close>

definition SNAPSHOT_PATTERN :: "re list" where
  "SNAPSHOT_PATTERN =
     (let digit = Cls is_digit; letters = Many 1 (Cls (\<lambda>c. is_lower c \<or> is_upper c \<or> c = CHR ''_'')) in
      [Rep 4 4 digit, Chr (CHR ''-''), Rep 2 2 digit, Chr (CHR ''-''), Rep 2 2 digit, Many 1 (Cls is_space),
       Rep 2 2 digit, Chr (CHR '':''), Rep 2 2 digit, Many 1 (Cls is_space),
       seqs [letters, Chr (CHR ''/''), letters], AtEnd])"

definition wall_of :: "ymd \<Rightarrow> int \<Rightarrow> int \<Rightarrow> int" where
  "wall_of day h m = ordinal day * us_per_day + (60 * h + m) * us_per_minute"

definition parse_snapshot :: "py_lib \<Rightarrow> string \<Rightarrow> error + datetime \<times> zone" where
  "parse_snapshot lib raw =
     (case match_parts SNAPSHOT_PATTERN (strip raw) of
        Some [y, _, mo, _, d, _, h, _, mi, _, tz, _] \<Rightarrow>
          bindE (of_optionE (InvalidSnapshotTimestampError raw (''unknown timezone '' @ repr_str tz))
                   (zone_info lib tz)) (\<lambda>zone.
          let day = (int_of_digits y, int_of_digits mo, int_of_digits d);
              hour = int_of_digits h; minute = int_of_digits mi; wall = wall_of day hour minute in
          if \<not> valid_ymd day \<or> hour > 23 \<or> minute > 59
          then Inl (InvalidSnapshotTimestampError raw ''unparseable date/time'')
          else Inr (\<lparr>wall = wall, utcoffset = zone wall\<rparr>, zone))
      | _ \<Rightarrow> Inl (InvalidSnapshotTimestampError raw (''expected format '' @ repr_str ''YYYY-MM-DD HH:MM Area/Location'')))"

section \<open>Sheets\<close>

type_synonym sheet_rows = "cell list list"
type_synonym sheet_row = "(cell \<times> cell) list"
type_synonym workbook_file = "(string \<times> sheet_rows) list"

definition read_readme :: "py_lib \<Rightarrow> workbook_file \<Rightarrow> error + string \<times> string" where
  "read_readme lib wb =
     bindE (of_optionE (MalformedWorkbookError ''no README sheet'') (dict_get wb ''README'')) (\<lambda>rows.
     let kv = fold (\<lambda>row d. case row of
                 a # b # _ \<Rightarrow> if a \<noteq> CNone \<and> b \<noteq> CNone
                   then dict_put d (strip (cell_str lib a)) (strip (cell_str lib b)) else d
               | _ \<Rightarrow> d) rows [] in
     bindE (of_optionE (MalformedWorkbookError (''README missing '' @ repr_str ''Dataset snapshot'' @ '' row''))
              (dict_get kv ''Dataset snapshot'')) (\<lambda>snap.
     Inr (snap, case dict_get kv ''Currency'' of None \<Rightarrow> [] | Some c \<Rightarrow> c)))"

definition row_dict :: "cell list \<Rightarrow> cell list \<Rightarrow> error + sheet_row" where
  "row_dict header row =
     (if length row = length header then Inr (fold (\<lambda>(k, v) d. dict_put d k v) (zip header row) [])
      else Inl (ValueError (if length row < length header then ''zip() argument 2 is shorter than argument 1''
                            else ''zip() argument 2 is longer than argument 1'')))"

definition read_sheet :: "string \<Rightarrow> sheet_rows \<Rightarrow> error + sheet_row list" where
  "read_sheet title rows =
     (case rows of
        [] \<Rightarrow> Inl (MalformedWorkbookError (''sheet '' @ repr_str title @ '' is empty''))
      | header # data \<Rightarrow>
          if CNone \<in> set header
          then Inl (MalformedWorkbookError (''sheet '' @ repr_str title @ '' has a blank header cell''))
          else mapE (row_dict header) (filter (\<lambda>r. \<exists>c \<in> set r. c \<noteq> CNone) data))"

section \<open>Cells as field values\<close>

definition localized :: "zone \<Rightarrow> parsed_time \<Rightarrow> datetime" where
  "localized zone t = (case t of
       Naive w \<Rightarrow> \<lparr>wall = w, utcoffset = zone w\<rparr> | Zoned w off \<Rightarrow> \<lparr>wall = w, utcoffset = off\<rparr>)"

definition parse_dt_optional :: "py_lib \<Rightarrow> cell \<Rightarrow> zone \<Rightarrow> string \<Rightarrow> error + datetime option" where
  "parse_dt_optional lib c zone field =
     (if c = CNone \<or> c = CStr [] then Inr None
      else bindE (case c of CTime t \<Rightarrow> Inr t
                  | _ \<Rightarrow> of_optionE (MalformedWorkbookError (field @ '': unparseable datetime''))
                           (from_iso lib (cell_str lib c))) (\<lambda>t.
           Inr (Some (localized zone t))))"

definition parse_dt :: "py_lib \<Rightarrow> cell \<Rightarrow> zone \<Rightarrow> string \<Rightarrow> error + datetime" where
  "parse_dt lib c zone field =
     bindE (parse_dt_optional lib c zone field) (\<lambda>d.
     of_optionE (MalformedWorkbookError (field @ '': required datetime is missing'')) d)"

definition py_float :: "py_lib \<Rightarrow> cell \<Rightarrow> error + pyfloat" where
  "py_float lib c =
     (case c of
        CFloat x \<Rightarrow> Inr x
      | CInt i \<Rightarrow> Inr (fl (of_int i))
      | CBool b \<Rightarrow> Inr (if b then 1 else 0)
      | CStr s \<Rightarrow> of_optionE (ValueError (''could not convert string to float: '' @ repr_str s)) (float_of_text lib s)
      | CNone \<Rightarrow> Inl (TypeError ''float() argument must be a string or a real number, not NoneType'')
      | CTime _ \<Rightarrow> Inl (TypeError ''float() argument must be a string or a real number, not datetime.datetime''))"

text \<open>\<open>row[key]\<close> and pydantic's check of a text field, both inside the \<open>try\<close> that wraps their
  exceptions, and \<open>row.get(key) or default\<close>.\<close>

definition invalid_row :: "string \<Rightarrow> error" where
  "invalid_row sheet = MalformedWorkbookError (''invalid '' @ sheet @ '' row'')"

definition item :: "string \<Rightarrow> sheet_row \<Rightarrow> string \<Rightarrow> error + cell" where
  "item sheet row key = of_optionE (invalid_row sheet) (dict_get row (CStr key))"

definition get_or_none :: "sheet_row \<Rightarrow> string \<Rightarrow> cell" where
  "get_or_none row key = (case dict_get row (CStr key) of None \<Rightarrow> CNone | Some c \<Rightarrow> c)"

fun as_text :: "string \<Rightarrow> cell \<Rightarrow> error + string" where
  "as_text sheet (CStr s) = Inr s"
| "as_text sheet _ = Inl (invalid_row sheet)"

definition text_or :: "string \<Rightarrow> cell \<Rightarrow> error + string option" where
  "text_or sheet c = (if truthy c then bindE (as_text sheet c) (\<lambda>s. Inr (Some s)) else Inr None)"

section \<open>Rows as records\<close>

definition build_account :: "sheet_row \<Rightarrow> error + account" where
  "build_account row = (let it = item ''accounts'' row; txt = as_text ''accounts'' in
     bindE (it ''account_id'') (\<lambda>i. bindE (it ''account_name'') (\<lambda>name. bindE (it ''plan'') (\<lambda>plan.
     bindE (it ''status'') (\<lambda>st. bindE (it ''csm'') (\<lambda>csm. bindE (it ''premium_support'') (\<lambda>premium.
     bindE (txt i) (\<lambda>i. bindE (txt name) (\<lambda>name. bindE (txt plan) (\<lambda>plan. bindE (txt st) (\<lambda>st. bindE (txt csm) (\<lambda>csm.
     bindE (text_or ''accounts'' (get_or_none row ''contract_file'')) (\<lambda>contract.
     bindE (text_or ''accounts'' (get_or_none row ''notes'')) (\<lambda>notes.
     Inr \<lparr>acc_id = i, acc_name = name, acc_plan = plan, acc_status = st, acc_csm = csm, acc_contract_file = contract,
          acc_premium_support = truthy premium,
          acc_notes = (case notes of None \<Rightarrow> [] | Some s \<Rightarrow> s)\<rparr>))))))))))))))"

definition build_order :: "py_lib \<Rightarrow> zone \<Rightarrow> sheet_row \<Rightarrow> error + order" where
  "build_order lib zone row = (let it = item ''orders'' row; txt = as_text ''orders'' in
     bindE (it ''order_id'') (\<lambda>i. bindE (it ''account_id'') (\<lambda>a. bindE (it ''carrier'') (\<lambda>carrier.
     bindE (it ''status'') (\<lambda>st.
     bindE (bindE (it ''booked_at'') (\<lambda>c. parse_dt lib c zone ''booked_at'')) (\<lambda>booked.
     bindE (bindE (it ''pickup_window_start'') (\<lambda>c. parse_dt lib c zone ''pickup_window_start'')) (\<lambda>win_start.
     bindE (bindE (it ''pickup_window_end'') (\<lambda>c. parse_dt lib c zone ''pickup_window_end'')) (\<lambda>win_end.
     bindE (parse_dt_optional lib (get_or_none row ''pickup_actual_at'') zone ''pickup_actual_at'') (\<lambda>actual.
     bindE (bindE (it ''shipment_fee_inr'') (py_float lib)) (\<lambda>fee.
     bindE (it ''carrier_fault'') (\<lambda>carrier_fault. bindE (it ''customer_fault'') (\<lambda>customer_fault.
     bindE (parse_dt_optional lib (get_or_none row ''cancellation_requested_at'') zone ''cancellation_requested_at'') (\<lambda>requested.
     bindE (txt i) (\<lambda>i. bindE (txt a) (\<lambda>a. bindE (txt carrier) (\<lambda>carrier. bindE (txt st) (\<lambda>st.
     bindE (of_optionE (invalid_row ''orders'') (order_status_of st)) (\<lambda>status.
     bindE (text_or ''orders'' (get_or_none row ''notes'')) (\<lambda>notes.
     Inr \<lparr>ord_id = i, ord_account_id = a, ord_carrier = carrier, ord_status = status, ord_booked_at = booked,
          ord_pickup_window_start = win_start, ord_pickup_window_end = win_end, ord_pickup_actual_at = actual,
          ord_shipment_fee_inr = fee, ord_carrier_fault = truthy carrier_fault,
          ord_customer_fault = truthy customer_fault, ord_cancellation_requested_at = requested,
          ord_notes = (case notes of None \<Rightarrow> [] | Some s \<Rightarrow> s)\<rparr>)))))))))))))))))))"

definition build_ticket :: "py_lib \<Rightarrow> zone \<Rightarrow> sheet_row \<Rightarrow> error + ticket" where
  "build_ticket lib zone row = (let it = item ''tickets'' row; txt = as_text ''tickets'' in
     bindE (it ''ticket_id'') (\<lambda>i. bindE (it ''account_id'') (\<lambda>a.
     bindE (bindE (it ''created_at'') (\<lambda>c. parse_dt lib c zone ''created_at'')) (\<lambda>created.
     bindE (it ''status'') (\<lambda>st. bindE (it ''subject'') (\<lambda>subject. bindE (it ''description'') (\<lambda>description.
     bindE (it ''channel'') (\<lambda>channel. bindE (it ''assigned_to'') (\<lambda>assigned.
     bindE (bindE (it ''last_customer_message_at'') (\<lambda>c. parse_dt lib c zone ''last_customer_message_at'')) (\<lambda>last_message.
     bindE (txt i) (\<lambda>i. bindE (txt a) (\<lambda>a. bindE (txt st) (\<lambda>st.
     bindE (of_optionE (invalid_row ''tickets'') (ticket_status_of st)) (\<lambda>status.
     bindE (txt subject) (\<lambda>subject. bindE (txt description) (\<lambda>description. bindE (txt channel) (\<lambda>channel.
     bindE (txt assigned) (\<lambda>assigned.
     bindE (text_or ''tickets'' (get_or_none row ''historical_resolution'')) (\<lambda>resolution.
     Inr \<lparr>tkt_id = i, tkt_account_id = a, tkt_created_at = created, tkt_status = status, tkt_subject = subject,
          tkt_description = description, tkt_channel = channel, tkt_assigned_to = assigned,
          tkt_last_customer_message_at = last_message, tkt_historical_resolution = resolution\<rparr>)))))))))))))))))))"

section \<open>The workbook\<close>

record workbook_data =
  wb_snapshot :: datetime
  wb_currency :: string
  wb_accounts :: "account list"
  wb_orders :: "order list"
  wb_tickets :: "ticket list"

definition require_sheet :: "workbook_file \<Rightarrow> string \<Rightarrow> error + sheet_rows" where
  "require_sheet wb name = of_optionE (MalformedWorkbookError (''missing sheet '' @ repr_str name)) (dict_get wb name)"

definition check_accounts :: "string \<Rightarrow> string list \<Rightarrow> (string \<times> string) list \<Rightarrow> error + unit" where
  "check_accounts kind account_ids refs =
     (case List.find (\<lambda>(i, a). a \<notin> set account_ids) refs of
        None \<Rightarrow> Inr ()
      | Some (i, a) \<Rightarrow> Inl (MalformedWorkbookError (kind @ '' '' @ i @ '' references unknown account '' @ a)))"

definition load_workbook :: "py_lib \<Rightarrow> workbook_file \<Rightarrow> error + workbook_data" where
  "load_workbook lib wb =
     bindE (read_readme lib wb) (\<lambda>(snapshot_raw, currency).
     bindE (parse_snapshot lib snapshot_raw) (\<lambda>(snap, zone).
     bindE (require_sheet wb ''accounts'') (\<lambda>account_rows.
     bindE (require_sheet wb ''orders'') (\<lambda>order_rows.
     bindE (require_sheet wb ''tickets'') (\<lambda>ticket_rows.
     bindE (bindE (read_sheet ''accounts'' account_rows) (mapE build_account)) (\<lambda>accounts.
     bindE (bindE (read_sheet ''orders'' order_rows) (mapE (build_order lib zone))) (\<lambda>orders.
     bindE (bindE (read_sheet ''tickets'' ticket_rows) (mapE (build_ticket lib zone))) (\<lambda>tickets.
     bindE (check_accounts ''order'' (map acc_id accounts) (map (\<lambda>x. (ord_id x, ord_account_id x)) orders)) (\<lambda>_.
     bindE (check_accounts ''ticket'' (map acc_id accounts) (map (\<lambda>x. (tkt_id x, tkt_account_id x)) tickets)) (\<lambda>_.
     Inr \<lparr>wb_snapshot = snap, wb_currency = currency, wb_accounts = accounts, wb_orders = orders,
          wb_tickets = tickets\<rparr>))))))))))"

section \<open>What a loaded workbook satisfies\<close>

lemma check_accounts_Inr: "check_accounts kind ids refs = Inr u \<longleftrightarrow> snd ` set refs \<subseteq> set ids"
  by (force simp: check_accounts_def find_None_iff split: option.splits dest: find_Some_mem)

lemma load_workbook_Inr:
  "load_workbook lib wb = Inr data \<Longrightarrow>
     ord_account_id ` set (wb_orders data) \<subseteq> acc_id ` set (wb_accounts data)
     \<and> tkt_account_id ` set (wb_tickets data) \<subseteq> acc_id ` set (wb_accounts data)"
  by (auto simp: load_workbook_def bindE_eq_Inr check_accounts_Inr image_image image_subset_iff split: prod.splits)

end
