(* ===== verification/Chunker.thy ===== *)
theory Chunker
  imports Pdf_Parser Database
begin

text \<open>
  \<open>app/documents/text_normalize.py\<close> and \<open>app/documents/chunker.py\<close>: the text of a section,
  normalised, as a citable chunk that carries its source's metadata. The glyphs the
  normaliser removes are written as their UTF-8 bytes; Unicode's NFKC form, which comes from
  the tables of \<open>unicodedata\<close>, is an argument.
\<close>

section \<open>Normalisation\<close>

definition ZERO_WIDTH_SPACE :: string where
  "ZERO_WIDTH_SPACE = [CHR 0xE2, CHR 0x80, CHR 0x8B]"

text \<open>BLACK CIRCLE, BULLET, BLACK SMALL SQUARE.\<close>

definition BULLET_CHARS :: "string list" where
  "BULLET_CHARS = [[CHR 0xE2, CHR 0x97, CHR 0x8F], [CHR 0xE2, CHR 0x80, CHR 0xA2], [CHR 0xE2, CHR 0x96, CHR 0xAA]]"

definition replace_bullet :: "string \<Rightarrow> string" where
  "replace_bullet s =
     (case List.find (\<lambda>b. starts_with b s) BULLET_CHARS of
        None \<Rightarrow> s | Some b \<Rightarrow> ''- '' @ lstrip (drop (length b) s))"

definition is_blank :: "char \<Rightarrow> bool" where
  "is_blank c = (c = CHR '' '' \<or> c = CHR 0x09)"

function collapse_blanks :: "string \<Rightarrow> string" where
  "collapse_blanks [] = []"
| "collapse_blanks (c # cs) =
     (if is_blank c then CHR '' '' # collapse_blanks (dropWhile is_blank cs) else c # collapse_blanks cs)"
  by pat_completeness auto
termination
  by (relation "measure length") (auto simp: le_imp_less_Suc length_dropWhile_le)

definition normalize_line :: "string \<Rightarrow> string" where
  "normalize_line line = strip (collapse_blanks (replace_bullet (strip (remove_all ZERO_WIDTH_SPACE line))))"

definition normalize :: "(string \<Rightarrow> string) \<Rightarrow> string \<Rightarrow> string" where
  "normalize nfkc s = nfkc (join newline (filter (\<lambda>l. l \<noteq> []) (map normalize_line (splitlines s))))"

lemma normalize_sample:
  "normalize_line (concat [[CHR 0xE2, CHR 0x97, CHR 0x8F], ZERO_WIDTH_SPACE, '' DRAFT:  May be'', [CHR 0x09], ''cancelled ''])
     = ''- DRAFT: May be cancelled''"
  by code_simp

section \<open>Chunks\<close>

definition section_id :: "nat \<Rightarrow> parsed_section \<Rightarrow> string" where
  "section_id index sec = (case sec_number sec of Some n \<Rightarrow> n | None \<Rightarrow> str_of_int (int index + 1))"

definition chunk_of :: "(string \<Rightarrow> string) \<Rightarrow> source_document \<Rightarrow> parsed_page \<Rightarrow> nat \<times> parsed_section \<Rightarrow> document_chunk" where
  "chunk_of nfkc source page p = (case p of (index, sec) \<Rightarrow>
     let sid = section_id index sec; raw_text = strip (sec_title sec @ newline @ sec_body sec)
     in \<lparr>chk_id = src_id source @ '':p'' @ str_of_int (page_number page) @ '':'' @ sid,
         chk_source_id = src_id source, chk_filename = src_filename source, chk_page = page_number page,
         chk_section = Some sid, chk_text = raw_text, chk_normalized_text = normalize nfkc raw_text,
         chk_status = src_status source, chk_source_type = src_type source,
         chk_account_scope = scope_account_id (src_scope source),
         chk_effective_date = src_effective_date source, chk_authority_class = src_authority_class source\<rparr>)"

definition build_chunks :: "(string \<Rightarrow> string) \<Rightarrow> source_document \<Rightarrow> parsed_page list \<Rightarrow> document_chunk list" where
  "build_chunks nfkc source pages =
     concat (map (\<lambda>page. map (chunk_of nfkc source page) (enumerate 0 (sections page))) pages)"

lemma build_chunks_source:
  "c \<in> set (build_chunks nfkc source pages) \<Longrightarrow>
     chk_source_id c = src_id source \<and> chk_account_scope c = scope_account_id (src_scope source)
     \<and> chk_status c = src_status source \<and> chk_authority_class c = src_authority_class source"
  by (auto simp: build_chunks_def chunk_of_def Let_def)

end
