(* ===== verification/Sla_Table.thy ===== *)
theory Sla_Table
  imports Py_Text Database
begin

text \<open>
  \<open>app/documents/sla_table.py\<close>: the first-response targets recovered from the flattened plan
  grid of a policy and from the bullet list of an agreement. The lemmas show that the grid
  parser is exact: it accepts a body if and only if the body has the grid, and then the nine
  targets are the grid's cells, each with its plan and severity.
\<close>

section \<open>Durations\<close>

definition PLANS :: "string list" where
  "PLANS = [''Enterprise'', ''Growth'', ''Standard'']"

definition SEVERITIES :: "string list" where
  "SEVERITIES = [''P1'', ''P2'', ''P3'']"

text \<open>The parts of \<open>_DURATION\<close>: the number, white space, the unit and the word boundary.\<close>

definition DURATION :: "re list" where
  "DURATION = [Many 1 (Cls is_digit), Spaces,
     alts [lit ''hour'', lit ''hours'', lit ''minute'', lit ''minutes''], WordB]"

definition parse_duration :: "string \<Rightarrow> error + int option \<times> bool \<times> bool" where
  "parse_duration text =
     (let low = lower text; is_24x7 = contains ''24x7'' low; calendar = contains ''business'' low
      in bindE
           (if \<not> calendar then
              (case search_parts DURATION low of
                 Some [num, _, unit, _] \<Rightarrow>
                   bindE (py_int num) (\<lambda>n. Inr (Some (if starts_with ''hour'' unit then n * 60 else n)))
               | _ \<Rightarrow> Inr None)
            else Inr None)
           (\<lambda>minutes. Inr (minutes, is_24x7, calendar)))"

definition target_of :: "string \<Rightarrow> string option \<Rightarrow> string option \<Rightarrow> string \<Rightarrow> string \<Rightarrow> error + sla_target" where
  "target_of source_id plan account_id severity text =
     bindE (parse_duration text) (\<lambda>(minutes, is_247, biz).
     Inr \<lparr>slt_source_id = source_id, slt_plan = plan, slt_account_id = account_id, slt_severity = severity,
          slt_target_text = text, slt_target_minutes = minutes, slt_is_24x7 = is_247,
          slt_requires_business_calendar = biz\<rparr>)"

section \<open>The plan grid\<close>

text \<open>The loop over the plans; \<open>cursor\<close> is its line number.\<close>

fun grid_rows :: "string \<Rightarrow> string list \<Rightarrow> nat \<Rightarrow> string list \<Rightarrow> error + sla_target list" where
  "grid_rows source_id lns cursor [] = Inr []"
| "grid_rows source_id lns cursor (plan # plans) =
     (let group = take 4 (drop cursor lns) in
      if length group < 4 \<or> hd group \<noteq> plan then
        Inl (DocumentParseError source_id
          (''expected plan row '' @ repr_str plan @ '' at line '' @ str_of_int (int cursor) @ '', got '' @ repr_strs group))
      else bindE (mapE (\<lambda>(severity, text). target_of source_id (Some plan) None severity text)
                    (zip SEVERITIES (tl group))) (\<lambda>row.
           bindE (grid_rows source_id lns (cursor + 4) plans) (\<lambda>rows. Inr (row @ rows))))"

definition parse_grid_table :: "string \<Rightarrow> string \<Rightarrow> error + sla_target list" where
  "parse_grid_table body source_id =
     (let lns = text_lines body in
      bindE (of_optionE (DocumentParseError source_id (''SLA grid header '' @ repr_str ''Plan'' @ '' not found'')) (index_of ''Plan'' lns)) (\<lambda>header.
      if take 4 (drop header lns) \<noteq> ''Plan'' # SEVERITIES then
        Inl (DocumentParseError source_id (''SLA grid header is not '' @ repr_str ''Plan/P1/P2/P3''))
      else grid_rows source_id lns (header + 4) PLANS))"

section \<open>The bullet list of an agreement\<close>

definition BULLET_TARGET :: "re list" where
  "BULLET_TARGET = [Chr (CHR ''P''), Cls (\<lambda>c. c \<in> set ''123''), Chr (CHR '':''), Spaces, Many 1 AnyChar]"

definition bullet_target :: "string \<Rightarrow> string \<Rightarrow> string \<Rightarrow> error + sla_target option" where
  "bullet_target source_id account_id line =
     (case search_parts BULLET_TARGET line of
        Some [_, sev, _, _, text] \<Rightarrow>
          bindE (target_of source_id None (Some account_id) (''P'' @ sev) (strip text)) (\<lambda>t. Inr (Some t))
      | _ \<Rightarrow> Inr None)"

definition parse_bullet_targets :: "string \<Rightarrow> string \<Rightarrow> string \<Rightarrow> error + sla_target list" where
  "parse_bullet_targets body source_id account_id =
     bindE (collectE (bullet_target source_id account_id) (splitlines body)) (\<lambda>targets.
     if length targets \<noteq> length SEVERITIES then
       Inl (DocumentParseError source_id
         (''expected '' @ str_of_int (int (length SEVERITIES)) @ '' bullet SLA targets, found ''
           @ str_of_int (int (length targets))))
     else Inr targets)"

section \<open>What a target says\<close>

lemma parse_duration_Inr:
  assumes "parse_duration text = Inr (minutes, is_247, biz)"
  shows "is_247 = contains ''24x7'' (lower text)" "biz = contains ''business'' (lower text)"
    "biz \<Longrightarrow> minutes = None"
  using assms by (auto simp: parse_duration_def Let_def bindE_eq_Inr split: if_splits)

lemma target_of_fields:
  "target_of source_id plan account_id severity text = Inr t \<Longrightarrow>
     slt_source_id t = source_id \<and> slt_plan t = plan \<and> slt_account_id t = account_id
     \<and> slt_severity t = severity \<and> slt_target_text t = text
     \<and> (slt_requires_business_calendar t \<longleftrightarrow> contains ''business'' (lower text))
     \<and> (slt_requires_business_calendar t \<longrightarrow> slt_target_minutes t = None)"
  using parse_duration_Inr by (fastforce simp: target_of_def bindE_eq_Inr)

section \<open>The grid parser is exact\<close>

text \<open>The rows a grid has in the text: a line with the plan, then a line per severity.\<close>

definition grid_lines :: "(string \<times> string list) list \<Rightarrow> string list" where
  "grid_lines rows = concat (map (\<lambda>(plan, cells). plan # cells) rows)"

definition grid_cells :: "(string \<times> string list) list \<Rightarrow> (string \<times> string \<times> string) list" where
  "grid_cells rows = concat (map (\<lambda>(plan, cells). map (\<lambda>(s, c). (plan, s, c)) (zip SEVERITIES cells)) rows)"

definition grid_targets :: "string \<Rightarrow> (string \<times> string list) list \<Rightarrow> error + sla_target list" where
  "grid_targets source_id rows =
     mapE (\<lambda>(plan, severity, text). target_of source_id (Some plan) None severity text) (grid_cells rows)"

lemma grid_cells_simps [simp]:
  "grid_cells [] = []"
  "grid_cells ((plan, cells) # rows) = map (\<lambda>(s, c). (plan, s, c)) (zip SEVERITIES cells) @ grid_cells rows"
  by (simp_all add: grid_cells_def)

lemma mapE_map: "mapE f (map g xs) = mapE (\<lambda>x. f (g x)) xs"
  by (induction xs) auto

lemma grid_targets_Cons:
  "grid_targets source_id ((plan, cells) # rows) =
     bindE (mapE (\<lambda>(s, c). target_of source_id (Some plan) None s c) (zip SEVERITIES cells)) (\<lambda>row.
     bindE (grid_targets source_id rows) (\<lambda>rest. Inr (row @ rest)))"
  by (simp add: grid_targets_def mapE_append mapE_map case_prod_unfold)

lemma grid_rows_exact:
  assumes "drop cursor lns = grid_lines rows @ rest" "map fst rows = plans" "\<forall>(p, cells) \<in> set rows. length cells = 3"
  shows "grid_rows source_id lns cursor plans = grid_targets source_id rows"
  using assms
proof (induction rows arbitrary: cursor plans)
  case Nil
  then show ?case by (simp add: grid_targets_def)
next
  case (Cons row rows)
  obtain plan cells where row: "row = (plan, cells)" by force
  with Cons.prems obtain ps where plans: "plans = plan # ps" "map fst rows = ps" and cells: "length cells = 3" by auto
  have here: "drop cursor lns = plan # cells @ grid_lines rows @ rest"
    using Cons.prems(1) row by (simp add: grid_lines_def)
  then have group: "take 4 (drop cursor lns) = plan # cells" using cells by (simp add: eval_nat_numeral)
  have "drop (cursor + 4) lns = drop 4 (drop cursor lns)" by (simp add: add.commute)
  also have "\<dots> = grid_lines rows @ rest" using cells by (simp only: here) (simp add: eval_nat_numeral)
  finally have "grid_rows source_id lns (cursor + 4) ps = grid_targets source_id rows"
    using Cons plans(2) by (intro Cons.IH) auto
  with group cells show ?case by (simp add: plans row grid_targets_Cons Let_def)
qed

lemma grid_rows_Inr:
  "grid_rows source_id lns cursor plans = Inr ts \<Longrightarrow>
     \<exists>rows rest. drop cursor lns = grid_lines rows @ rest \<and> map fst rows = plans
       \<and> (\<forall>(p, cells) \<in> set rows. length cells = 3)"
proof (induction plans arbitrary: cursor ts)
  case Nil
  then show ?case by (intro exI [of _ "[]"] exI [of _ "drop cursor lns"]) (simp add: grid_lines_def)
next
  case (Cons plan plans)
  let ?group = "take 4 (drop cursor lns)"
  from Cons.prems have g: "\<not> length ?group < 4" "hd ?group = plan"
    by (auto simp: Let_def split: if_splits)
  moreover have "length ?group \<le> 4" by simp
  ultimately have "length ?group = 4" by simp
  with g(2) obtain cells where group: "?group = plan # cells" "length cells = 3"
    by (cases ?group) auto
  from Cons.prems g obtain ts' where "grid_rows source_id lns (cursor + 4) plans = Inr ts'"
    by (auto simp: Let_def bindE_eq_Inr split: if_splits)
  from Cons.IH [OF this] obtain rows rest where
    rows: "drop (cursor + 4) lns = grid_lines rows @ rest" "map fst rows = plans" "\<forall>(p, cells) \<in> set rows. length cells = 3"
    by blast
  have "drop cursor lns = ?group @ drop 4 (drop cursor lns)" by (rule append_take_drop_id [symmetric])
  then have "drop cursor lns = grid_lines ((plan, cells) # rows) @ rest"
    using group rows(1) by (simp add: grid_lines_def add.commute)
  with rows group show ?case by (intro exI [of _ "(plan, cells) # rows"] exI [of _ rest]) simp
qed

text \<open>C28. The grid parser is exact. It succeeds on a body if and only if the body's non-blank lines
  hold the header, first occurrence, with the three plan rows in order below it; the nine
  targets are then those of the cells, each under its own plan and severity.\<close>

theorem grid_parser_exact:
  "parse_grid_table body source_id = Inr ts \<longleftrightarrow>
     (\<exists>pre rows rest. text_lines body = pre @ ''Plan'' # SEVERITIES @ grid_lines rows @ rest
        \<and> ''Plan'' \<notin> set pre \<and> map fst rows = PLANS \<and> map (length \<circ> snd) rows = [3, 3, 3]
        \<and> grid_targets source_id rows = Inr ts)"
    (is "_ \<longleftrightarrow> ?grid")
proof
  let ?lns = "text_lines body"
  assume p: "parse_grid_table body source_id = Inr ts"
  then obtain i where i: "index_of ''Plan'' ?lns = Some i" "take 4 (drop i ?lns) = ''Plan'' # SEVERITIES"
    and g: "grid_rows source_id ?lns (i + 4) PLANS = Inr ts"
    by (auto simp: parse_grid_table_def Let_def bindE_eq_Inr split: if_splits)
  from grid_rows_Inr [OF g] obtain rows rest where
    r: "drop (i + 4) ?lns = grid_lines rows @ rest" "map fst rows = PLANS" "\<forall>(p, cells) \<in> set rows. length cells = 3"
    by blast
  have "?lns = take i ?lns @ take 4 (drop i ?lns) @ drop 4 (drop i ?lns)" by (metis append_take_drop_id)
  then have "?lns = take i ?lns @ ''Plan'' # SEVERITIES @ grid_lines rows @ rest"
    using i(2) r(1) by (simp add: add.commute)
  moreover have "''Plan'' \<notin> set (take i ?lns)" using index_of_Some [OF i(1)] by blast
  moreover have "map (length \<circ> snd) rows = [3, 3, 3]" using r(2,3) by (auto simp: PLANS_def)
  moreover have "grid_targets source_id rows = Inr ts" using grid_rows_exact [OF r] g by simp
  ultimately show ?grid using r(2)
    by (intro exI [of _ "take i ?lns"] exI [of _ rows] exI [of _ rest] conjI)
next
  assume ?grid
  then obtain pre rows rest where
    l: "text_lines body = pre @ ''Plan'' # SEVERITIES @ grid_lines rows @ rest" and pre: "''Plan'' \<notin> set pre"
    and rows: "map fst rows = PLANS" "map (length \<circ> snd) rows = [3, 3, 3]" and ts: "grid_targets source_id rows = Inr ts"
    by (elim exE conjE) (rule that)
  have cells: "\<forall>(p, cells) \<in> set rows. length cells = 3"
    using rows(2) by (auto simp: map_eq_Cons_conv)
  have "drop (length pre + 4) (text_lines body) = grid_lines rows @ rest"
    by (simp add: l SEVERITIES_def)
  from grid_rows_exact [OF this rows(1) cells] ts
  show "parse_grid_table body source_id = Inr ts"
    using pre by (simp add: parse_grid_table_def Let_def l SEVERITIES_def)
qed

section \<open>Durations are read back\<close>

lemma duration_parts:
  assumes "unit \<in> {''minute'', ''minutes'', ''hour'', ''hours''}" "after = [] \<or> \<not> is_word (hd after)"
    and "ds \<noteq> []" "\<forall>c \<in> set ds. is_digit c"
  shows "\<exists>xs. parts DURATION (pre, ds @ '' '' @ unit @ after) = [ds, '' '', unit, []] # xs"
proof -
  have w: "\<not> word_at after" using assms(2) by (auto simp: word_at_def split: list.splits)
  have alpha: "is_word c" if "c \<in> set ''hourminutes''" for c
    using that by (auto simp: is_word_def is_alnum_def is_lower_def in_range_def)
  have "\<exists>xs. parts [alts [lit ''hour'', lit ''hours'', lit ''minute'', lit ''minutes''], WordB] (u, unit @ after)
      = [unit, []] # xs" for u
    using assms(1) w by (auto simp: consumed_def alpha word_at_def)
  then obtain xs where xs: "parts [alts [lit ''hour'', lit ''hours'', lit ''minute'', lit ''minutes''], WordB]
      ('' '' @ rev ds @ pre, unit @ after) = [unit, []] # xs" by blast
  have unit: "unit @ after = [] \<or> \<not> is_space (hd (unit @ after))"
    using assms(1) by (auto simp: is_space_def in_range_def)
  obtain qs where "matches Spaces (rev ds @ pre, '' '' @ unit @ after) = ('' '' @ rev ds @ pre, unit @ after) # qs"
    using run_matches [of "'' ''" is_space "unit @ after" 0 "rev ds @ pre"] unit by (auto simp: is_space_def)
  from parts_first [OF this xs] obtain ys where
    ys: "parts (tl DURATION) (rev ds @ pre, '' '' @ unit @ after) = ['' '', unit, []] # ys"
    by (auto simp: DURATION_def consumed_def)
  obtain qs where "matches (Many 1 (Cls is_digit)) (pre, ds @ '' '' @ unit @ after) = (rev ds @ pre, '' '' @ unit @ after) # qs"
    using run_matches [of ds is_digit "'' '' @ unit @ after" 1 pre] assms(3,4)
    by (cases ds) (auto simp: is_digit_def in_range_def)
  from parts_first [OF this, of "tl DURATION"] ys show ?thesis
    by (auto simp: DURATION_def consumed_def)
qed

text \<open>What a policy writes is what is stored: a whole number of minutes or hours, after a text
  without digits and not inside a longer word, is read back as that many minutes, whatever
  the case of the text, unless the text speaks of business hours or days.\<close>

theorem duration_read_back:
  assumes "\<forall>c \<in> set before. \<not> is_digit c" "unit \<in> {''minute'', ''minutes'', ''hour'', ''hours''}"
    and "after = [] \<or> \<not> is_word (hd after)" "length (digits_of n) \<le> 4300"
    and "lower text = lower before @ digits_of n @ '' '' @ unit @ lower after"
    and "\<not> contains ''business'' (lower text)"
  shows "parse_duration text
    = Inr (Some (int n * (if starts_with ''hour'' unit then 60 else 1)), contains ''24x7'' (lower text), False)"
proof -
  have after: "lower after = [] \<or> \<not> is_word (hd (lower after))"
    using assms(3) by (cases after) (auto simp: lower_def)
  have digits: "\<forall>c \<in> set (digits_of n). is_digit c" using digits_of_digits by blast
  have "parts DURATION (pre, c # s) = []" if "c \<in> set (lower before)" for c pre s
    using that assms(1) by (auto simp: DURATION_def lower_def)
  then have skip: "search_parts_from DURATION [] (lower before @ s)
      = search_parts_from DURATION (rev (lower before) @ []) s" for s
    by (rule search_parts_skip)
  from duration_parts [OF assms(2) after digits_of_nonempty digits] obtain xs where
    "parts DURATION (rev (lower before) @ [], digits_of n @ '' '' @ unit @ lower after)
      = [digits_of n, '' '', unit, []] # xs" by blast
  then have "search_parts DURATION (lower text) = Some [digits_of n, '' '', unit, []]"
    unfolding search_parts_def assms(5) skip by (rule search_parts_here)
  with assms(4,6) show ?thesis by (simp add: parse_duration_def Let_def py_int_def mult.commute)
qed

theorem duration_read_back_witness:
  "parse_duration ''Within 30 Minutes, 24x7'' = Inr (Some 30, True, False)"
proof -
  have "parse_duration ''Within 30 Minutes, 24x7''
    = Inr (Some (int 30 * (if starts_with ''hour'' ''minutes'' then 60 else 1)),
        contains ''24x7'' (lower ''Within 30 Minutes, 24x7''), False)"
    by (rule duration_read_back [where before = "''Within ''" and after = "'', 24x7''"]; code_simp)
  then show ?thesis by (simp add: lower_def lower_char_def)
qed

section \<open>Bullet lists\<close>

text \<open>The three bullets are counted, not told apart: a list that names one severity twice and
  another not at all is accepted.\<close>

lemma bullets_may_repeat:
  "map_sum id (map slt_severity) (parse_bullet_targets
      (join newline [''- P1: 15 minutes, 24x7'', ''- P1: 1 hour'', ''- P2: 8 business hours'']) ''SRC-05'' ''ACCT-001'')
    = Inr [''P1'', ''P1'', ''P2'']"
  by code_simp

end
