(* ===== verification/Ingestion.thy ===== *)
theory Ingestion
  imports Workbook Chunker Sla_Table Repository Hashing
begin

text \<open>
  \<open>scripts/ingest_sources.py\<close>: the source pack, a directory of files, turned into the database
  the application reads. The bytes of a file are a string, its checksum is SHA-256 of them;
  what PyMuPDF and openpyxl make of the bytes is given by \<open>pack_readers\<close>. An insertion checks
  the constraints of \<open>app/db/schema.sql\<close> the way SQLite does, statement by statement.
\<close>

section \<open>Loops that thread a state\<close>

fun foldE :: "('a \<Rightarrow> 's \<Rightarrow> 'e + 's) \<Rightarrow> 'a list \<Rightarrow> 's \<Rightarrow> 'e + 's" where
  "foldE f [] s = Inr s"
| "foldE f (x # xs) s = bindE (f x s) (foldE f xs)"

section \<open>Rows\<close>

definition zoned :: "datetime \<Rightarrow> parsed_time" where
  "zoned d = Zoned (wall d) (utcoffset d)"

definition row_of_source :: "source_document \<Rightarrow> source_row" where
  "row_of_source d =
     \<lparr>sr_source_id = src_id d, sr_filename = src_filename d, sr_source_type = source_type_value (src_type d),
      sr_status = source_status_value (src_status d), sr_version = src_version d,
      sr_effective_date = src_effective_date d, sr_expiry_date = src_expiry_date d,
      sr_supersedes = src_supersedes d, sr_superseded_by = src_superseded_by d,
      sr_scope_kind = scope_kind_value (scope_kind (src_scope d)),
      sr_scope_account_id = scope_account_id (src_scope d),
      sr_authority_class = authority_class_value (src_authority_class d), sr_checksum = src_checksum d,
      sr_bytes = src_bytes d, sr_provenance = src_provenance d\<rparr>"

definition row_of_chunk :: "document_chunk \<Rightarrow> chunk_row" where
  "row_of_chunk c =
     \<lparr>cr_chunk_id = chk_id c, cr_source_id = chk_source_id c, cr_page = chk_page c, cr_section = chk_section c,
      cr_text = chk_text c, cr_normalized_text = chk_normalized_text c, cr_filename = chk_filename c,
      cr_status = source_status_value (chk_status c), cr_source_type = source_type_value (chk_source_type c),
      cr_account_scope = chk_account_scope c, cr_effective_date = chk_effective_date c,
      cr_authority_class = authority_class_value (chk_authority_class c)\<rparr>"

definition row_of_target :: "sla_target \<Rightarrow> sla_row" where
  "row_of_target t =
     \<lparr>lr_source_id = slt_source_id t,
      lr_scope_kind = (if slt_account_id t \<noteq> None \<and> slt_account_id t \<noteq> Some [] then ''account'' else ''plan''),
      lr_plan = slt_plan t, lr_account_id = slt_account_id t, lr_severity = slt_severity t,
      lr_target_text = slt_target_text t, lr_target_minutes = slt_target_minutes t,
      lr_is_24x7 = of_bool (slt_is_24x7 t), lr_requires_business_calendar = of_bool (slt_requires_business_calendar t)\<rparr>"

definition row_of_account :: "account \<Rightarrow> account_row" where
  "row_of_account a =
     \<lparr>ar_account_id = acc_id a, ar_account_name = acc_name a, ar_plan = acc_plan a, ar_status = acc_status a,
      ar_csm = acc_csm a, ar_contract_file = acc_contract_file a,
      ar_premium_support = of_bool (acc_premium_support a), ar_notes = acc_notes a\<rparr>"

definition row_of_order :: "order \<Rightarrow> order_row" where
  "row_of_order x =
     \<lparr>or_order_id = ord_id x, or_account_id = ord_account_id x, or_carrier = ord_carrier x,
      or_status = order_status_value (ord_status x), or_booked_at = zoned (ord_booked_at x),
      or_pickup_window_start = zoned (ord_pickup_window_start x),
      or_pickup_window_end = zoned (ord_pickup_window_end x),
      or_pickup_actual_at = map_option zoned (ord_pickup_actual_at x),
      or_shipment_fee_inr = ord_shipment_fee_inr x, or_carrier_fault = of_bool (ord_carrier_fault x),
      or_customer_fault = of_bool (ord_customer_fault x),
      or_cancellation_requested_at = map_option zoned (ord_cancellation_requested_at x),
      or_notes = ord_notes x\<rparr>"

definition row_of_ticket :: "ticket \<Rightarrow> ticket_row" where
  "row_of_ticket t =
     \<lparr>tr_ticket_id = tkt_id t, tr_account_id = tkt_account_id t, tr_created_at = zoned (tkt_created_at t),
      tr_status = ticket_status_value (tkt_status t), tr_subject = tkt_subject t,
      tr_description = tkt_description t, tr_channel = tkt_channel t, tr_assigned_to = tkt_assigned_to t,
      tr_last_customer_message_at = zoned (tkt_last_customer_message_at t),
      tr_historical_resolution = tkt_historical_resolution t\<rparr>"

section \<open>Insertions\<close>

definition unique_failed :: "string \<Rightarrow> error" where
  "unique_failed col = IntegrityError (''UNIQUE constraint failed: '' @ col)"

definition foreign_key_failed :: error where
  "foreign_key_failed = IntegrityError ''FOREIGN KEY constraint failed''"

definition constrained :: "bool \<Rightarrow> string \<Rightarrow> bool \<Rightarrow> db \<Rightarrow> error + db" where
  "constrained fresh col refers conn' =
     (if \<not> fresh then Inl (unique_failed col) else if \<not> refers then Inl foreign_key_failed else Inr conn')"

definition insert_source :: "source_document \<Rightarrow> db \<Rightarrow> error + db" where
  "insert_source d conn =
     constrained (src_id d \<notin> sr_source_id ` set (db_sources conn)) ''sources.source_id'' True
       (conn\<lparr>db_sources := db_sources conn @ [row_of_source d]\<rparr>)"

definition insert_chunk :: "document_chunk \<Rightarrow> db \<Rightarrow> error + db" where
  "insert_chunk c conn =
     constrained (chk_id c \<notin> cr_chunk_id ` set (db_chunks conn)) ''document_chunks.chunk_id''
       (chk_source_id c \<in> sr_source_id ` set (db_sources conn))
       (conn\<lparr>db_chunks := db_chunks conn @ [row_of_chunk c]\<rparr>)"

text \<open>The columns of the unique index \<open>idx_sla_targets_identity\<close>.\<close>

definition sla_identity :: "sla_row \<Rightarrow> string \<times> string \<times> string \<times> string" where
  "sla_identity r =
     (lr_source_id r, lr_severity r, (case lr_plan r of None \<Rightarrow> [] | Some p \<Rightarrow> p),
      (case lr_account_id r of None \<Rightarrow> [] | Some a \<Rightarrow> a))"

definition insert_target :: "sla_target \<Rightarrow> db \<Rightarrow> error + db" where
  "insert_target t conn =
     (if (case slt_target_minutes t of None \<Rightarrow> False | Some n \<Rightarrow> n \<ge> 2 ^ 63)
      then Inl (OverflowError ''Python int too large to convert to SQLite INTEGER'')
      else constrained (sla_identity (row_of_target t) \<notin> sla_identity ` set (db_sla_targets conn))
             (''index '' @ repr_str ''idx_sla_targets_identity'')
             (slt_source_id t \<in> sr_source_id ` set (db_sources conn))
             (conn\<lparr>db_sla_targets := db_sla_targets conn @ [row_of_target t]\<rparr>))"

definition insert_account :: "account \<Rightarrow> db \<Rightarrow> error + db" where
  "insert_account a conn =
     constrained (acc_id a \<notin> ar_account_id ` set (db_accounts conn)) ''accounts.account_id'' True
       (conn\<lparr>db_accounts := db_accounts conn @ [row_of_account a]\<rparr>)"

definition insert_order :: "order \<Rightarrow> db \<Rightarrow> error + db" where
  "insert_order x conn =
     constrained (ord_id x \<notin> or_order_id ` set (db_orders conn)) ''orders.order_id''
       (ord_account_id x \<in> ar_account_id ` set (db_accounts conn))
       (conn\<lparr>db_orders := db_orders conn @ [row_of_order x]\<rparr>)"

definition insert_ticket :: "ticket \<Rightarrow> db \<Rightarrow> error + db" where
  "insert_ticket t conn =
     constrained (tkt_id t \<notin> tr_ticket_id ` set (db_tickets conn)) ''tickets.ticket_id''
       (tkt_account_id t \<in> ar_account_id ` set (db_accounts conn))
       (conn\<lparr>db_tickets := db_tickets conn @ [row_of_ticket t]\<rparr>)"

text \<open>The three rows of \<open>meta\<close>, whose keys differ, are not part of \<open>db\<close>.\<close>

definition write_db ::
  "(string \<times> source_document) list \<Rightarrow> document_chunk list \<Rightarrow> sla_target list \<Rightarrow> workbook_data \<Rightarrow> db \<Rightarrow> error + db" where
  "write_db sources chunks targets data conn =
     bindE (foldE insert_source (dict_values sources) conn) (\<lambda>conn.
     bindE (foldE insert_chunk chunks conn) (\<lambda>conn.
     bindE (foldE insert_target targets conn) (\<lambda>conn.
     bindE (foldE insert_account (wb_accounts data) conn) (\<lambda>conn.
     bindE (foldE insert_order (wb_orders data) conn) (\<lambda>conn.
     foldE insert_ticket (wb_tickets data) conn)))))"

section \<open>The source pack\<close>

type_synonym file_bytes = string

record pack_readers =
  pdf_texts :: "file_bytes \<Rightarrow> error + string list"
  open_xlsx :: "file_bytes \<Rightarrow> error + workbook_file"

record source_pack =
  pack_path :: string
  pack_files :: "(string \<times> file_bytes) list option"   \<comment> \<open>\<open>None\<close>: not a directory\<close>

definition validate_files_present :: "source_pack \<Rightarrow> manifest_entry list \<Rightarrow> error + (string \<times> file_bytes) list" where
  "validate_files_present pack manifest =
     bindE (of_optionE (SourceDirectoryNotFoundError (pack_path pack)) (pack_files pack)) (\<lambda>files.
     case List.find (\<lambda>e. dict_get files (me_filename e) = None) manifest of
       Some e \<Rightarrow> Inl (MissingSourceFileError (me_filename e) (pack_path pack))
     | None \<Rightarrow> Inr files)"

definition verify_checksum :: "(string \<times> file_bytes) list \<Rightarrow> manifest_entry \<Rightarrow> error + file_bytes \<times> string" where
  "verify_checksum files entry =
     bindE (of_optionE (FileNotFoundError (me_filename entry)) (dict_get files (me_filename entry))) (\<lambda>content.
     let actual = sha256_hex content; expected = removeprefix ''sha256:'' (me_checksum entry) in
     if actual \<noteq> expected then Inl (ChecksumMismatchError (me_filename entry) expected actual)
     else Inr (content, actual))"

definition extract_sla_targets :: "source_document \<Rightarrow> parsed_page list \<Rightarrow> error + sla_target list" where
  "extract_sla_targets source pages =
     bindE (mapE (\<lambda>sec.
         if contains ''response targets'' (lower (sec_title sec)) then parse_grid_table (sec_body sec) (src_id source)
         else if sec_title sec = ''Support terms'' \<and> scope_kind (src_scope source) = ACCOUNT then
           bindE (of_optionE AssertionError (scope_account_id (src_scope source))) (\<lambda>a.
           parse_bullet_targets (sec_body sec) (src_id source) a)
         else Inr []) (concat (map sections pages)))
       (\<lambda>ts. Inr (concat ts))"

section \<open>Ingestion\<close>

definition ends_with :: "string \<Rightarrow> string \<Rightarrow> bool" where
  "ends_with suffix s = starts_with (rev suffix) (rev s)"

definition dict_of :: "('k \<times> 'v) list \<Rightarrow> ('k \<times> 'v) list" where
  "dict_of xs = fold (\<lambda>(k, v) d. dict_put d k v) xs []"

text \<open>Everything \<open>ingest\<close> computes before it touches the database file.\<close>

record ingested =
  in_sources :: "(string \<times> source_document) list"
  in_chunks :: "document_chunk list"
  in_targets :: "sla_target list"
  in_workbook :: workbook_data

type_synonym parsed_sources = "(string \<times> string \<times> parsed_page list) list"

definition parse_one ::
  "pack_readers \<Rightarrow> (string \<times> file_bytes) list \<Rightarrow> manifest_entry \<Rightarrow> error + string \<times> string \<times> parsed_page list" where
  "parse_one readers files entry =
     bindE (verify_checksum files entry) (\<lambda>(content, checksum).
     bindE (bindE (pdf_texts readers content) (parse_pdf (me_filename entry))) (\<lambda>pages.
     Inr (me_source_id entry, checksum, pages)))"

definition pages_of :: "parsed_sources \<Rightarrow> string \<Rightarrow> error + string \<times> parsed_page list" where
  "pages_of parsed source_id = of_optionE (KeyError source_id) (dict_get parsed source_id)"

definition build_one ::
  "(string \<times> file_bytes) list \<Rightarrow> parsed_sources \<Rightarrow> manifest_entry \<Rightarrow> error + string \<times> source_document" where
  "build_one files parsed entry =
     bindE (pages_of parsed (me_source_id entry)) (\<lambda>(checksum, pages).
     bindE (of_optionE (FileNotFoundError (me_filename entry)) (dict_get files (me_filename entry))) (\<lambda>content.
     bindE (build_source_document (me_source_id entry) (me_filename entry) (hd pages) checksum
              (int (length content)) entry) (\<lambda>doc.
     Inr (me_source_id entry, doc))))"

definition chunk_one ::
  "py_lib \<Rightarrow> parsed_sources \<Rightarrow> string \<times> source_document \<Rightarrow> error + document_chunk list \<times> sla_target list" where
  "chunk_one lib parsed p = (case p of (source_id, doc) \<Rightarrow>
     bindE (pages_of parsed source_id) (\<lambda>(_, pages).
     bindE (extract_sla_targets doc pages) (\<lambda>targets.
     Inr (build_chunks (nfkc lib) doc pages, targets))))"

definition gather :: "py_lib \<Rightarrow> pack_readers \<Rightarrow> manifest_entry list \<Rightarrow> source_pack \<Rightarrow> error + ingested" where
  "gather lib readers manifest pack =
     (let pdf_entries = filter (\<lambda>e. ends_with ''.pdf'' (me_filename e)) manifest in
      bindE (of_optionE StopIteration (List.find (\<lambda>e. ends_with ''.xlsx'' (me_filename e)) manifest)) (\<lambda>xlsx_entry.
      bindE (validate_files_present pack manifest) (\<lambda>files.
      bindE (mapE (parse_one readers files) pdf_entries) (\<lambda>ps.
      let parsed = dict_of ps in
      bindE (mapE (build_one files parsed) pdf_entries) (\<lambda>docs.
      bindE (resolve_supersession (dict_of docs) (map (\<lambda>(i, _, pages). (i, hd pages)) parsed)
               (dict_of (map (\<lambda>e. (me_source_id e, e)) manifest))) (\<lambda>sources.
      bindE (mapE (chunk_one lib parsed) sources) (\<lambda>pieces.
      bindE (verify_checksum files xlsx_entry) (\<lambda>(content, _).
      bindE (bindE (open_xlsx readers content) (load_workbook lib)) (\<lambda>data.
      Inr \<lparr>in_sources = sources, in_chunks = concat (map fst pieces), in_targets = concat (map snd pieces),
           in_workbook = data\<rparr>)))))))))"

text \<open>The database file: its tables, and the snapshot time and currency of \<open>meta\<close>.\<close>

record db_file =
  file_db :: db
  file_snapshot_time :: "parsed_time option"
  file_currency :: "string option"

definition empty_db :: db where
  "empty_db = \<lparr>db_sources = [], db_chunks = [], db_sla_targets = [], db_accounts = [], db_orders = [],
     db_tickets = [], db_actions = []\<rparr>"

text \<open>\<open>init_db\<close>: an existing file is replaced by one that holds the empty schema, committed.\<close>

definition init_db :: "db_file option \<Rightarrow> db_file" where
  "init_db old = \<lparr>file_db = empty_db, file_snapshot_time = None, file_currency = None\<rparr>"

record ingest_summary =
  sum_sources :: nat
  sum_chunks :: nat
  sum_targets :: nat
  sum_accounts :: nat
  sum_orders :: nat
  sum_tickets :: nat
  sum_snapshot :: datetime

definition summary_of :: "ingested \<Rightarrow> ingest_summary" where
  "summary_of g =
     \<lparr>sum_sources = length (in_sources g), sum_chunks = length (in_chunks g), sum_targets = length (in_targets g),
      sum_accounts = length (wb_accounts (in_workbook g)), sum_orders = length (wb_orders (in_workbook g)),
      sum_tickets = length (wb_tickets (in_workbook g)), sum_snapshot = wb_snapshot (in_workbook g)\<rparr>"

text \<open>The inserts are one transaction: where one fails, the file keeps what \<open>init_db\<close> committed.\<close>

definition ingest ::
  "py_lib \<Rightarrow> pack_readers \<Rightarrow> manifest_entry list \<Rightarrow> source_pack \<Rightarrow> db_file option
    \<Rightarrow> db_file option \<times> (error + ingest_summary)" where
  "ingest lib readers manifest pack old =
     (case gather lib readers manifest pack of
        Inl e \<Rightarrow> (old, Inl e)
      | Inr g \<Rightarrow>
          (let fresh = init_db old in
           case write_db (in_sources g) (in_chunks g) (in_targets g) (in_workbook g) (file_db fresh) of
             Inl e \<Rightarrow> (Some fresh, Inl e)
           | Inr conn \<Rightarrow>
               (Some \<lparr>file_db = conn, file_snapshot_time = Some (zoned (wb_snapshot (in_workbook g))),
                      file_currency = Some (wb_currency (in_workbook g))\<rparr>,
                Inr (summary_of g))))"

section \<open>Appending rows under constraints\<close>

text \<open>What the six insertions share: an insertion that succeeds appends one row to one table,
  and leaves a database on which everything it checked holds.\<close>

locale appending =
  fixes ins :: "'a \<Rightarrow> db \<Rightarrow> error + db"
    and table :: "db \<Rightarrow> 'r list" and put :: "'r list \<Rightarrow> db \<Rightarrow> db" and row :: "'a \<Rightarrow> 'r"
    and ok :: "db \<Rightarrow> 'a \<Rightarrow> bool"
  assumes ins_Inr: "ins x conn = Inr conn' \<longleftrightarrow> ok conn x \<and> conn' = put (table conn @ [row x]) conn"
    and ins_Inl: "ins x conn = Inl e \<Longrightarrow> (\<exists>m. e = IntegrityError m) \<or> (\<exists>m. e = OverflowError m)"
    and table_put [simp]: "table (put rs conn) = rs"
    and put_put [simp]: "put rs (put rs' conn) = put rs conn"
    and put_table [simp]: "put (table conn) conn = conn"
begin

lemma inserted: "foldE ins xs conn = Inr conn' \<Longrightarrow> conn' = put (table conn @ map row xs) conn"
proof (induction xs arbitrary: conn)
  case (Cons x xs)
  then obtain c where "ins x conn = Inr c" "foldE ins xs c = Inr conn'" by (auto simp: bindE_eq_Inr)
  with Cons.IH [of c] show ?case by (simp add: ins_Inr)
qed simp

lemma keeps:
  assumes "\<And>c x. Inv c \<Longrightarrow> ok c x \<Longrightarrow> Inv (put (table c @ [row x]) c)"
  shows "foldE ins xs conn = Inr conn' \<Longrightarrow> Inv conn \<Longrightarrow> Inv conn'"
  by (induction xs arbitrary: conn) (auto simp: bindE_eq_Inr ins_Inr intro: assms)

lemma fails: "foldE ins xs conn = Inl e \<Longrightarrow> (\<exists>m. e = IntegrityError m) \<or> (\<exists>m. e = OverflowError m)"
  by (induction xs arbitrary: conn) (auto simp: bindE_eq_Inl dest: ins_Inl)

end

lemma constrained_eq [simp]:
  "constrained fresh col refers conn = Inr conn' \<longleftrightarrow> fresh \<and> refers \<and> conn' = conn"
  "constrained fresh col refers conn = Inl e \<Longrightarrow> (\<exists>m. e = IntegrityError m) \<or> (\<exists>m. e = OverflowError m)"
  by (auto simp: constrained_def unique_failed_def foreign_key_failed_def split: if_splits)

interpretation source_rows: appending insert_source db_sources "\<lambda>rs c. c\<lparr>db_sources := rs\<rparr>" row_of_source
  "\<lambda>c x. src_id x \<notin> sr_source_id ` set (db_sources c)"
  by unfold_locales (auto simp: insert_source_def dest: constrained_eq(2))

interpretation chunk_rows: appending insert_chunk db_chunks "\<lambda>rs c. c\<lparr>db_chunks := rs\<rparr>" row_of_chunk
  "\<lambda>c x. chk_id x \<notin> cr_chunk_id ` set (db_chunks c) \<and> chk_source_id x \<in> sr_source_id ` set (db_sources c)"
  by unfold_locales (auto simp: insert_chunk_def dest: constrained_eq(2))

interpretation target_rows: appending insert_target db_sla_targets "\<lambda>rs c. c\<lparr>db_sla_targets := rs\<rparr>" row_of_target
  "\<lambda>c x. (\<forall>n. slt_target_minutes x = Some n \<longrightarrow> n < 2 ^ 63)
     \<and> sla_identity (row_of_target x) \<notin> sla_identity ` set (db_sla_targets c)
     \<and> slt_source_id x \<in> sr_source_id ` set (db_sources c)"
  by unfold_locales (auto simp: insert_target_def dest: constrained_eq(2) split: option.splits if_splits)

interpretation account_rows: appending insert_account db_accounts "\<lambda>rs c. c\<lparr>db_accounts := rs\<rparr>" row_of_account
  "\<lambda>c x. acc_id x \<notin> ar_account_id ` set (db_accounts c)"
  by unfold_locales (auto simp: insert_account_def dest: constrained_eq(2))

interpretation order_rows: appending insert_order db_orders "\<lambda>rs c. c\<lparr>db_orders := rs\<rparr>" row_of_order
  "\<lambda>c x. ord_id x \<notin> or_order_id ` set (db_orders c) \<and> ord_account_id x \<in> ar_account_id ` set (db_accounts c)"
  by unfold_locales (auto simp: insert_order_def dest: constrained_eq(2))

interpretation ticket_rows: appending insert_ticket db_tickets "\<lambda>rs c. c\<lparr>db_tickets := rs\<rparr>" row_of_ticket
  "\<lambda>c x. tkt_id x \<notin> tr_ticket_id ` set (db_tickets c) \<and> tkt_account_id x \<in> ar_account_id ` set (db_accounts c)"
  by unfold_locales (auto simp: insert_ticket_def dest: constrained_eq(2))

section \<open>What the written database satisfies\<close>

text \<open>Everything the schema promises: \<open>wf_db\<close>, and the keys of the document tables.\<close>

definition schema_ok :: "db \<Rightarrow> bool" where
  "schema_ok conn \<longleftrightarrow> wf_db conn
     \<and> distinct (map sr_source_id (db_sources conn)) \<and> distinct (map cr_chunk_id (db_chunks conn))
     \<and> distinct (map sla_identity (db_sla_targets conn))
     \<and> cr_source_id ` set (db_chunks conn) \<subseteq> sr_source_id ` set (db_sources conn)
     \<and> lr_source_id ` set (db_sla_targets conn) \<subseteq> sr_source_id ` set (db_sources conn)"

lemma row_keys [simp]:
  "sr_source_id (row_of_source d) = src_id d" "cr_chunk_id (row_of_chunk c) = chk_id c"
  "cr_source_id (row_of_chunk c) = chk_source_id c" "lr_source_id (row_of_target t) = slt_source_id t"
  "ar_account_id (row_of_account a) = acc_id a" "or_order_id (row_of_order x) = ord_id x"
  "or_account_id (row_of_order x) = ord_account_id x" "tr_ticket_id (row_of_ticket t') = tkt_id t'"
  "tr_account_id (row_of_ticket t') = tkt_account_id t'"
  by (simp_all add: row_of_source_def row_of_chunk_def row_of_target_def row_of_account_def row_of_order_def
      row_of_ticket_def)

lemma schema_ok_empty: "schema_ok empty_db"
  by (simp add: schema_ok_def wf_db_def empty_db_def)

lemma write_db_tables:
  assumes "write_db sources chunks targets data conn = Inr conn'"
  shows "conn' = conn\<lparr>db_sources := db_sources conn @ map row_of_source (dict_values sources),
       db_chunks := db_chunks conn @ map row_of_chunk chunks,
       db_sla_targets := db_sla_targets conn @ map row_of_target targets,
       db_accounts := db_accounts conn @ map row_of_account (wb_accounts data),
       db_orders := db_orders conn @ map row_of_order (wb_orders data),
       db_tickets := db_tickets conn @ map row_of_ticket (wb_tickets data)\<rparr>"
  using assms unfolding write_db_def bindE_eq_Inr
  by (elim exE conjE)
     (drule source_rows.inserted chunk_rows.inserted target_rows.inserted account_rows.inserted
        order_rows.inserted ticket_rows.inserted, simp)+

lemma write_db_keeps:
  assumes "write_db sources chunks targets data conn = Inr conn'" "schema_ok conn"
  shows "schema_ok conn'"
proof -
  from assms(1) obtain c1 c2 c3 c4 c5 where
    "foldE insert_source (dict_values sources) conn = Inr c1" "foldE insert_chunk chunks c1 = Inr c2"
    "foldE insert_target targets c2 = Inr c3" "foldE insert_account (wb_accounts data) c3 = Inr c4"
    "foldE insert_order (wb_orders data) c4 = Inr c5" "foldE insert_ticket (wb_tickets data) c5 = Inr conn'"
    unfolding write_db_def bindE_eq_Inr by blast
  note loops = this
  have "schema_ok c1"
    by (rule source_rows.keeps [where Inv = schema_ok, OF _ loops(1) assms(2)]) (auto simp: schema_ok_def wf_db_def)
  then have "schema_ok c2"
    by (rule chunk_rows.keeps [where Inv = schema_ok, OF _ loops(2), rotated]) (auto simp: schema_ok_def wf_db_def)
  then have "schema_ok c3"
    by (rule target_rows.keeps [where Inv = schema_ok, OF _ loops(3), rotated]) (auto simp: schema_ok_def wf_db_def)
  then have "schema_ok c4"
    by (rule account_rows.keeps [where Inv = schema_ok, OF _ loops(4), rotated]) (auto simp: schema_ok_def wf_db_def)
  then have "schema_ok c5"
    by (rule order_rows.keeps [where Inv = schema_ok, OF _ loops(5), rotated]) (auto simp: schema_ok_def wf_db_def)
  then show ?thesis
    by (rule ticket_rows.keeps [where Inv = schema_ok, OF _ loops(6), rotated]) (auto simp: schema_ok_def wf_db_def)
qed

lemma write_db_fails:
  "write_db sources chunks targets data conn = Inl e \<Longrightarrow>
     (\<exists>m. e = IntegrityError m) \<or> (\<exists>m. e = OverflowError m)"
  unfolding write_db_def bindE_eq_Inl
  using source_rows.fails chunk_rows.fails target_rows.fails account_rows.fails order_rows.fails ticket_rows.fails
  by metis

lemma ingest_Inr:
  assumes "ingest lib readers manifest pack old = (f, Inr sm)"
  obtains g conn where "gather lib readers manifest pack = Inr g"
    "write_db (in_sources g) (in_chunks g) (in_targets g) (in_workbook g) empty_db = Inr conn"
    "f = Some \<lparr>file_db = conn, file_snapshot_time = Some (zoned (wb_snapshot (in_workbook g))),
           file_currency = Some (wb_currency (in_workbook g))\<rparr>" "sm = summary_of g"
  using assms by (auto simp: ingest_def init_db_def Let_def split: sum.splits)

end
