(* ===== verification/Ingestion_Sample.thy ===== *)
theory Ingestion_Sample
  imports Ingestion
begin

text \<open>
  A small source pack, one agreement and a workbook with one account, one order and one ticket,
  and its ingestion computed step by step. The witnesses of the ingestion theorems use it.
\<close>

definition pack_lib :: py_lib where
  "pack_lib = \<lparr>zone_info = (\<lambda>z. if z = ''Asia/Kolkata'' then Some (\<lambda>_. 19800000000) else None),
     from_iso = (\<lambda>_. None), float_of_text = (\<lambda>_. None), text_of_cell = (\<lambda>_. []), nfkc = (\<lambda>s. s)\<rparr>"

definition pack_lines :: "string list" where
  "pack_lines = [''Northstar Agreement'', ''Status: ACTIVE'', ''Account: ACCT-001'',
     ''Term: 1 January 2026 to 31 December 2026'', ''1. Support terms'', ''- P1: 15 minutes, 24x7'',
     ''- P2: 1 hour'', ''- P3: 8 business hours'']"

definition pack_account_row :: "cell list list" where
  "pack_account_row = [map CStr [''account_id'', ''account_name'', ''plan'', ''status'', ''csm'', ''contract_file'', ''premium_support'', ''notes''],
     [CStr ''ACCT-001'', CStr ''Northstar'', CStr ''Enterprise'', CStr ''active'', CStr ''Ann'', CNone, CBool True, CNone]]"

definition pack_order_row :: "cell list list" where
  "pack_order_row = [map CStr [''order_id'', ''account_id'', ''carrier'', ''status'', ''booked_at'', ''pickup_window_start'',
       ''pickup_window_end'', ''pickup_actual_at'', ''shipment_fee_inr'', ''carrier_fault'', ''customer_fault'',
       ''cancellation_requested_at'', ''notes''],
     [CStr ''ORD-1'', CStr ''ACCT-001'', CStr ''SwiftShip'', CStr ''BOOKED'', CTime (Naive 5), CTime (Naive 6), CTime (Naive 7),
       CNone, CInt 850, CBool False, CInt 0, CNone, CStr ''fragile'']]"

definition pack_ticket_row :: "cell list list" where
  "pack_ticket_row = [map CStr [''ticket_id'', ''account_id'', ''created_at'', ''status'', ''subject'', ''description'',
       ''channel'', ''assigned_to'', ''last_customer_message_at'', ''historical_resolution''],
     [CStr ''TCK-1'', CStr ''ACCT-001'', CTime (Naive 8), CStr ''open'', CStr ''late'', CStr ''where is it'', CStr ''email'',
       CStr ''Bo'', CTime (Naive 9), CNone]]"

definition pack_workbook :: workbook_file where
  "pack_workbook = [(''README'', [[CStr ''Dataset snapshot'', CStr ''2026-08-16 11:00 Asia/Kolkata''], [CStr ''Currency'', CStr ''INR'']]),
     (''accounts'', pack_account_row), (''orders'', pack_order_row), (''tickets'', pack_ticket_row)]"

definition pack_readers_sample :: pack_readers where
  "pack_readers_sample = \<lparr>pdf_texts = (\<lambda>_. Inr [join newline pack_lines]), open_xlsx = (\<lambda>_. Inr pack_workbook)\<rparr>"

definition agreement_entry :: manifest_entry where
  "agreement_entry = sample_entry\<lparr>me_checksum := ''sha256:'' @ sha256_hex ''%PDF-05''\<rparr>"

definition workbook_entry :: manifest_entry where
  "workbook_entry = \<lparr>me_source_id = ''SRC-07'', me_filename = ''data.xlsx'', me_source_type = ''structured_data'',
     me_status = ''CURRENT'', me_effective_date = ''2026-08-16'', me_expiry_date = None, me_supersedes = None,
     me_superseded_by = None, me_scope_kind = ''global'', me_account_ids = None, me_authority_class = ''STRUCTURED'',
     me_checksum = ''sha256:'' @ sha256_hex ''PK-xlsx'', me_provenance = ''pack''\<rparr>"

definition pack_manifest :: "manifest_entry list" where
  "pack_manifest = [agreement_entry, workbook_entry]"

definition sample_source_pack :: source_pack where
  "sample_source_pack = \<lparr>pack_path = ''source-pack'', pack_files = Some [(''agreement.pdf'', ''%PDF-05''), (''data.xlsx'', ''PK-xlsx'')]\<rparr>"

section \<open>Step by step\<close>

definition pack_section :: parsed_section where
  "pack_section = \<lparr>sec_number = Some ''1'', sec_title = ''Support terms'', sec_body = join newline (drop 5 pack_lines)\<rparr>"

definition pack_page :: parsed_page where
  "pack_page = \<lparr>page_number = 1, page_title = ''Northstar Agreement'',
     preamble_fields = [(''Status'', ''ACTIVE''), (''Account'', ''ACCT-001''), (''Term'', ''1 January 2026 to 31 December 2026'')],
     sections = [pack_section]\<rparr>"

lemma sample_parsed: "parse_pdf ''agreement.pdf'' [join newline pack_lines] = Inr [pack_page]"
  by code_simp

definition pack_doc :: "string \<Rightarrow> source_document" where
  "pack_doc checksum = \<lparr>src_id = ''SRC-05'', src_filename = ''agreement.pdf'', src_type = AGREEMENT_DOC, src_status = ACTIVE,
     src_version = None, src_effective_date = ordinal (2026, 1, 1), src_expiry_date = Some (ordinal (2026, 12, 31)),
     src_supersedes = None, src_superseded_by = None,
     src_scope = \<lparr>scope_kind = ACCOUNT, scope_account_id = Some ''ACCT-001''\<rparr>, src_authority_class = AC_AGREEMENT,
     src_checksum = checksum, src_bytes = 7, src_provenance = ''pack''\<rparr>"

lemma sample_built:
  "build_source_document ''SRC-05'' ''agreement.pdf'' pack_page checksum 7 (sample_entry\<lparr>me_checksum := ''sha256:'' @ checksum\<rparr>)
     = Inr (pack_doc checksum)"
  by (code_simp, simp)

definition pack_targets :: "sla_target list" where
  "pack_targets = map (\<lambda>(sev, text, minutes, always, biz). \<lparr>slt_source_id = ''SRC-05'', slt_plan = None,
       slt_account_id = Some ''ACCT-001'', slt_severity = sev, slt_target_text = text, slt_target_minutes = minutes,
       slt_is_24x7 = always, slt_requires_business_calendar = biz\<rparr>)
     [(''P1'', ''15 minutes, 24x7'', Some 15, True, False), (''P2'', ''1 hour'', Some 60, False, False),
      (''P3'', ''8 business hours'', None, False, True)]"

lemma sample_targets: "extract_sla_targets (pack_doc checksum) [pack_page] = Inr pack_targets"
  by code_simp

definition pack_data :: workbook_data where
  "pack_data =
     (let local = \<lambda>w. \<lparr>wall = w, utcoffset = 19800000000\<rparr> in
      \<lparr>wb_snapshot = local (wall_of (2026, 8, 16) 11 0), wb_currency = ''INR'',
       wb_accounts = [\<lparr>acc_id = ''ACCT-001'', acc_name = ''Northstar'', acc_plan = ''Enterprise'', acc_status = ''active'',
         acc_csm = ''Ann'', acc_contract_file = None, acc_premium_support = True, acc_notes = []\<rparr>],
       wb_orders = [\<lparr>ord_id = ''ORD-1'', ord_account_id = ''ACCT-001'', ord_carrier = ''SwiftShip'', ord_status = BOOKED,
         ord_booked_at = local 5, ord_pickup_window_start = local 6, ord_pickup_window_end = local 7, ord_pickup_actual_at = None,
         ord_shipment_fee_inr = 850, ord_carrier_fault = False, ord_customer_fault = False,
         ord_cancellation_requested_at = None, ord_notes = ''fragile''\<rparr>],
       wb_tickets = [\<lparr>tkt_id = ''TCK-1'', tkt_account_id = ''ACCT-001'', tkt_created_at = local 8, tkt_status = OPEN,
         tkt_subject = ''late'', tkt_description = ''where is it'', tkt_channel = ''email'', tkt_assigned_to = ''Bo'',
         tkt_last_customer_message_at = local 9, tkt_historical_resolution = None\<rparr>]\<rparr>)"

lemma sample_loaded: "load_workbook pack_lib pack_workbook = Inr pack_data"
  by code_simp

definition pack_ingested :: ingested where
  "pack_ingested = (let doc = pack_doc (sha256_hex ''%PDF-05'') in
     \<lparr>in_sources = [(''SRC-05'', doc)], in_chunks = build_chunks (\<lambda>s. s) doc [pack_page],
      in_targets = pack_targets, in_workbook = pack_data\<rparr>)"

lemma pack_names:
    "ends_with ''.pdf'' ''agreement.pdf''" "\<not> ends_with ''.xlsx'' ''agreement.pdf''"
    "\<not> ends_with ''.pdf'' ''data.xlsx''" "ends_with ''.xlsx'' ''data.xlsx''"
    "me_filename agreement_entry = ''agreement.pdf''" "me_filename workbook_entry = ''data.xlsx''"
    "me_source_id agreement_entry = ''SRC-05''" "me_source_id workbook_entry = ''SRC-07''"
    by (simp_all add: ends_with_def agreement_entry_def workbook_entry_def sample_entry_def)

lemma pack_xlsx: "List.find (\<lambda>e. ends_with ''.xlsx'' (me_filename e)) pack_manifest = Some workbook_entry"
  by (simp add: pack_manifest_def pack_names)

lemma sample_gathered: "gather pack_lib pack_readers_sample pack_manifest sample_source_pack = Inr pack_ingested"
proof -
  let ?sum = "sha256_hex ''%PDF-05''"
  have checked: "verify_checksum [(''agreement.pdf'', ''%PDF-05''), (''data.xlsx'', ''PK-xlsx'')] agreement_entry = Inr (''%PDF-05'', ?sum)"
    "verify_checksum [(''agreement.pdf'', ''%PDF-05''), (''data.xlsx'', ''PK-xlsx'')] workbook_entry
      = Inr (''PK-xlsx'', sha256_hex ''PK-xlsx'')"
    using removeprefix_append [of "''sha256:''"]
    by (simp_all add: verify_checksum_def agreement_entry_def workbook_entry_def sample_entry_def Let_def)
  have built: "build_source_document ''SRC-05'' ''agreement.pdf'' pack_page ?sum 7 agreement_entry = Inr (pack_doc ?sum)"
    using sample_built [of ?sum] by (simp add: agreement_entry_def)
  have resolved: "resolve_supersession [(''SRC-05'', pack_doc ?sum)] [(''SRC-05'', pack_page)]
      [(''SRC-05'', agreement_entry), (''SRC-07'', workbook_entry)] = Inr [(''SRC-05'', pack_doc ?sum)]"
    by (simp add: resolve_supersession_def resolve_one_def resolve_reference_def preamble_get_def pack_page_def
        checked_drift_def agreement_entry_def sample_entry_def pack_doc_def)
  have present: "validate_files_present sample_source_pack pack_manifest
      = Inr [(''agreement.pdf'', ''%PDF-05''), (''data.xlsx'', ''PK-xlsx'')]"
    by (simp add: validate_files_present_def sample_source_pack_def pack_manifest_def pack_names)
  have lib: "nfkc pack_lib = (\<lambda>s. s)" by (simp add: pack_lib_def)
  have parsed: "parse_one pack_readers_sample [(''agreement.pdf'', ''%PDF-05''), (''data.xlsx'', ''PK-xlsx'')] agreement_entry
      = Inr (''SRC-05'', ?sum, [pack_page])"
    by (simp add: parse_one_def checked pack_names pack_readers_sample_def sample_parsed)
  have one: "build_one [(''agreement.pdf'', ''%PDF-05''), (''data.xlsx'', ''PK-xlsx'')] [(''SRC-05'', ?sum, [pack_page])] agreement_entry
      = Inr (''SRC-05'', pack_doc ?sum)"
    by (simp add: build_one_def pages_of_def pack_names built)
  have chunked: "chunk_one pack_lib [(''SRC-05'', ?sum, [pack_page])] (''SRC-05'', pack_doc ?sum)
      = Inr (build_chunks (\<lambda>s. s) (pack_doc ?sum) [pack_page], pack_targets)"
    by (simp add: chunk_one_def pages_of_def sample_targets lib)
  have opened: "open_xlsx pack_readers_sample b = Inr pack_workbook" for b by (simp add: pack_readers_sample_def)
  show ?thesis
    by (simp add: gather_def Let_def present)
      (simp add: pack_manifest_def pack_names parsed one resolved chunked checked opened sample_loaded
        dict_of_def pack_ingested_def Let_def)
qed

lemma sample_db:
  "(case write_db [(''SRC-05'', pack_doc c)] (build_chunks (\<lambda>s. s) (pack_doc c) [pack_page]) pack_targets pack_data empty_db of
      Inl _ \<Rightarrow> False | Inr conn \<Rightarrow> map or_order_id (db_orders conn) = [''ORD-1''] \<and> length (db_sla_targets conn) = 3)"
  by code_simp

lemma sample_written:
  obtains f where
    "ingest pack_lib pack_readers_sample pack_manifest sample_source_pack old = (Some f, Inr (summary_of pack_ingested))"
    "map or_order_id (db_orders (file_db f)) = [''ORD-1'']"
  using sample_db [of "sha256_hex ''%PDF-05''"]
  by (auto simp: ingest_def sample_gathered init_db_def Let_def pack_ingested_def split: sum.splits)

end
