(* ===== verification/Ingestion_Guarantees.thy ===== *)
theory Ingestion_Guarantees
  imports Ingestion_Sample Api_Guarantees
begin

text \<open>
  What ingestion hands over: the records of the source pack read back unchanged through the
  application's repositories, and a server on the ingested file whose sessions keep the
  schema's promises and execute nothing unconfirmed.
\<close>

section \<open>Sound or refused\<close>

text \<open>What ingestion leaves is sound: where it succeeds, the database satisfies every key and
  reference of the schema, holds no action yet, and carries an aware snapshot time from which
  the server's clock can be made, the one the workbook states.\<close>

theorem ingested_db_sound:
  assumes "ingest lib readers manifest pack old = (f, Inr sm)"
  shows "\<exists>file clk. f = Some file \<and> schema_ok (file_db file) \<and> db_actions (file_db file) = []
    \<and> map_option fixed_snapshot_clock (file_snapshot_time file) = Some (Inr clk) \<and> now clk = sum_snapshot sm"
  using assms
proof (rule ingest_Inr)
  fix g conn
  assume w: "write_db (in_sources g) (in_chunks g) (in_targets g) (in_workbook g) empty_db = Inr conn"
    and f: "f = Some \<lparr>file_db = conn, file_snapshot_time = Some (zoned (wb_snapshot (in_workbook g))),
      file_currency = Some (wb_currency (in_workbook g))\<rparr>" and sm: "sm = summary_of g"
  have "schema_ok conn" by (rule write_db_keeps [OF w schema_ok_empty])
  moreover have "db_actions conn = []" by (simp add: write_db_tables [OF w] empty_db_def)
  ultimately show ?thesis using f sm by (simp add: zoned_def summary_of_def)
qed

theorem ingested_db_sound_witness:
  "\<exists>file. ingest pack_lib pack_readers_sample pack_manifest sample_source_pack None = (Some file, Inr (summary_of pack_ingested))
     \<and> schema_ok (file_db file) \<and> map or_order_id (db_orders (file_db file)) = [''ORD-1'']"
proof (rule sample_written [of None])
  fix f
  assume i: "ingest pack_lib pack_readers_sample pack_manifest sample_source_pack None = (Some f, Inr (summary_of pack_ingested))"
    "map or_order_id (db_orders (file_db f)) = [''ORD-1'']"
  with ingested_db_sound [OF i(1)] show ?thesis by auto
qed

text \<open>C20. A failing ingestion is safe or loud: before the last step the previous database file is
  untouched; from then on only a constraint violation or an oversized integer can stop it, and
  then the file is an empty schema, whose missing snapshot time the server reports.\<close>

theorem failed_ingestion:
  assumes "ingest lib readers manifest pack old = (f, Inl e)"
  shows "gather lib readers manifest pack = Inl e \<and> f = old
    \<or> f = Some (init_db old) \<and> file_snapshot_time (init_db old) = None
       \<and> ((\<exists>m. e = IntegrityError m) \<or> (\<exists>m. e = OverflowError m))"
  using assms by (auto simp: ingest_def init_db_def Let_def split: sum.splits dest: write_db_fails)

theorem failed_ingestion_witness:
  "gather pack_lib pack_readers_sample pack_manifest (sample_source_pack\<lparr>pack_files := None\<rparr>) = Inl (SourceDirectoryNotFoundError ''source-pack'')"
proof -
  let ?e = "SourceDirectoryNotFoundError ''source-pack''"
  have "gather pack_lib pack_readers_sample pack_manifest (sample_source_pack\<lparr>pack_files := None\<rparr>) = Inl ?e"
    by (simp add: gather_def Let_def pack_xlsx validate_files_present_def sample_source_pack_def)
  then have "ingest pack_lib pack_readers_sample pack_manifest (sample_source_pack\<lparr>pack_files := None\<rparr>) None = (None, Inl ?e)"
    by (simp add: ingest_def)
  from failed_ingestion [OF this] show ?thesis by simp
qed

section \<open>Reading back what was ingested\<close>

lemma dt_zoned [simp]: "dt (zoned d) tz = d" "dt_optional (map_option zoned d') tz = d'"
  by (simp add: zoned_def) (cases d'; simp add: dt_optional_def zoned_def)

lemma of_bool_flag [simp]: "((of_bool b :: int) \<noteq> 0) = b"
  by simp

lemma row_round_trips [simp]:
  "row_to_order (row_of_order x) tz = Inr x"
  "row_to_ticket (row_of_ticket t) tz = Inr t"
  "row_to_account (row_of_account a) = a"
  by (simp_all add: row_to_order_def row_of_order_def row_to_ticket_def row_of_ticket_def row_to_account_def
      row_of_account_def)

lemma enum_round_trips [simp]:
  "source_type_of (source_type_value st) = Some st"
  "source_status_of (source_status_value ss) = Some ss"
  "authority_class_of (authority_class_value ac) = Some ac"
  "scope_kind_of (scope_kind_value sk) = Some sk"
  by ((cases st; simp add: source_type_of_def enum_of_def), (cases ss; simp add: source_status_of_def enum_of_def),
      (cases ac; simp add: authority_class_of_def enum_of_def), (cases sk; simp add: scope_kind_of_def enum_of_def))

lemma source_round_trip [simp]: "source_of_row (row_of_source d) = Inr d"
  by (simp add: source_of_row_def row_of_source_def)

lemma find_written:
  assumes "distinct (map key (map row xs))" "x \<in> set xs" "\<And>x. key (row x) = k x"
  shows "List.find (\<lambda>r. key r = k x) (map row xs) = Some (row x)"
  using find_distinct_key [OF assms(1), of "row x"] assms(2,3) by simp

text \<open>The facts about a successful ingestion that every reader below uses.\<close>

lemma ingested_tables:
  assumes "gather lib readers manifest pack = Inr g" "ingest lib readers manifest pack old = (Some file, Inr sm)"
  shows "db_orders (file_db file) = map row_of_order (wb_orders (in_workbook g))"
    "db_tickets (file_db file) = map row_of_ticket (wb_tickets (in_workbook g))"
    "db_accounts (file_db file) = map row_of_account (wb_accounts (in_workbook g))"
    "db_sources (file_db file) = map row_of_source (dict_values (in_sources g))"
    "db_actions (file_db file) = []" "schema_ok (file_db file)"
    "file_snapshot_time file = Some (zoned (wb_snapshot (in_workbook g)))"
proof -
  from assms obtain conn where w: "write_db (in_sources g) (in_chunks g) (in_targets g) (in_workbook g) empty_db = Inr conn"
    and f: "file = \<lparr>file_db = conn, file_snapshot_time = Some (zoned (wb_snapshot (in_workbook g))),
           file_currency = Some (wb_currency (in_workbook g))\<rparr>"
    by (elim ingest_Inr) simp
  show "db_orders (file_db file) = map row_of_order (wb_orders (in_workbook g))"
    "db_tickets (file_db file) = map row_of_ticket (wb_tickets (in_workbook g))"
    "db_accounts (file_db file) = map row_of_account (wb_accounts (in_workbook g))"
    "db_sources (file_db file) = map row_of_source (dict_values (in_sources g))"
    "db_actions (file_db file) = []"
    using write_db_tables [OF w] by (simp_all add: f empty_db_def)
  show "schema_ok (file_db file)" using write_db_keeps [OF w schema_ok_empty] by (simp add: f)
  show "file_snapshot_time file = Some (zoned (wb_snapshot (in_workbook g)))" by (simp add: f)
qed



section \<open>Serving the ingested file\<close>

definition server_of :: "db_file \<Rightarrow> server" where
  "server_of file = \<lparr>srv_db = Some (file_db file), srv_snapshot_time = file_snapshot_time file\<rparr>"

text \<open>C13. From the source pack to the last request: after a successful ingestion, whatever sequence
  of requests by whatever identities follows, the database still satisfies the whole schema,
  its documents and records are those ingested, and every action found EXECUTED was confirmed
  by the identity that prepared it, with its digest, and executed later.\<close>

theorem ingested_server_stays_sound:
  assumes "ingest lib readers manifest pack old = (Some file, Inr sm)"
  shows "\<exists>conn. serve_all (server_of file) rs = (server_of file)\<lparr>srv_db := Some conn\<rparr> \<and> schema_ok conn
    \<and> conn = (file_db file)\<lparr>db_actions := db_actions conn\<rparr>
    \<and> (\<forall>i p. proposals conn i = Some p \<and> phase p = EXECUTED \<longrightarrow>
         (\<exists>xs e ys r. rs = xs @ e # ys \<and> r \<in> set xs \<and> confirmed_by r i p \<and> executed_by e i p))"
proof -
  obtain g where g: "gather lib readers manifest pack = Inr g" using assms by (elim ingest_Inr)
  note t = ingested_tables [OF g assms]
  have none: "proposals (file_db file) i = None" for i by (simp add: proposals_def get_action_def t(5))
  have "unique_ids (file_db file)" by (simp add: unique_ids_def t(5))
  from session_earned [of "server_of file", OF _ this, of rs] obtain conn where
    c: "serve_all (server_of file) rs = (server_of file)\<lparr>srv_db := Some conn\<rparr>" "unique_ids conn"
      "conn = (file_db file)\<lparr>db_actions := db_actions conn\<rparr>" "\<forall>i p. proposals conn i = Some p \<longrightarrow> earned rs i p"
    by (auto simp: server_of_def none)
  have "schema_ok ((file_db file)\<lparr>db_actions := db_actions conn\<rparr>)"
    using t(6) c(2) by (simp add: schema_ok_def wf_db_def unique_ids_def)
  then have "schema_ok conn" using c(3) by simp
  moreover have "\<exists>xs e ys r. rs = xs @ e # ys \<and> r \<in> set xs \<and> confirmed_by r i p \<and> executed_by e i p"
    if "proposals conn i = Some p" "phase p = EXECUTED" for i p
    using c(4) that unfolding earned_def by blast
  ultimately show ?thesis using c(1,3) by blast
qed

theorem ingested_server_stays_sound_witness:
  "\<exists>file conn. ingest pack_lib pack_readers_sample pack_manifest sample_source_pack None = (Some file, Inr (summary_of pack_ingested))
     \<and> serve_all (server_of file) [(sample_api, as_user ''u1'' (PrepareEndpoint ''TCK-1'' ''late pickup''))]
         = (server_of file)\<lparr>srv_db := Some conn\<rparr> \<and> schema_ok conn"
proof (rule sample_written [of None])
  fix f
  assume i: "ingest pack_lib pack_readers_sample pack_manifest sample_source_pack None = (Some f, Inr (summary_of pack_ingested))"
  from ingested_server_stays_sound [OF i, of "[(sample_api, as_user ''u1'' (PrepareEndpoint ''TCK-1'' ''late pickup''))]"] i
  show ?thesis by blast
qed

end
