(* ===== verification/Inspection.thy ===== *)
theory Inspection
  imports Workbook Sla Service_Credit Cancellation_Fees
begin

text \<open>
  \<open>scripts/inspect_sources.py\<close>: the forensic inspection of the source pack. It recomputes the
  cancellation outcome, the service credit and the first-response deadlines of each workbook
  row by tables of its own, independently of the application, and asserts the facts the
  documentation depends on.

  The application and the script are two implementations of one policy; the last sections prove
  that they agree. The dump of the sources and the printed lines are left out; what a printed
  line would raise is kept.
\<close>

section \<open>The script's tables\<close>

definition SNAPSHOT :: int where
  "SNAPSHOT = wall_of (2026, 8, 16) 11 0"

definition PHASE0_DERIVED_SEVERITY :: "(cell \<times> string) list" where
  "PHASE0_DERIVED_SEVERITY =
     [(CStr ''TKT-501'', ''P1''), (CStr ''TKT-502'', ''P2''), (CStr ''TKT-503'', ''P3''), (CStr ''TKT-504'', ''P3''),
      (CStr ''TKT-505'', ''P1'')]"

definition TARGETS_24X7 :: "(string \<times> int) list" where
  "TARGETS_24X7 =
     [(''SRC-01 v3 CURRENT'', 30), (''SRC-02 v2 DEPRECATED'', 60), (''SRC-05 Northstar agreement'', 15)]"

section \<open>Cells and times\<close>

text \<open>\<open>row[key]\<close>.\<close>

definition at_key :: "sheet_row \<Rightarrow> string \<Rightarrow> error + cell" where
  "at_key row key = of_optionE (KeyError (repr_str key)) (dict_get row (CStr key))"

definition ts :: "py_lib \<Rightarrow> cell \<Rightarrow> error + parsed_time option" where
  "ts lib c =
     (if c = CNone \<or> c = CStr [] then Inr None
      else case c of
        CTime t \<Rightarrow> Inr (Some t)
      | _ \<Rightarrow> bindE (of_optionE (ValueError (''Invalid isoformat string: '' @ repr_str (cell_str lib c)))
                 (from_iso lib (cell_str lib c))) (\<lambda>t. Inr (Some t)))"

definition ts_at :: "py_lib \<Rightarrow> sheet_row \<Rightarrow> string \<Rightarrow> error + parsed_time option" where
  "ts_at lib row key = bindE (at_key row key) (ts lib)"

text \<open>Subtraction and comparison of two readings, either of which may be missing.\<close>

fun time_diff :: "parsed_time option \<Rightarrow> parsed_time option \<Rightarrow> error + timedelta" where
  "time_diff (Some (Naive a)) (Some (Naive b)) = Inr (a - b)"
| "time_diff (Some (Zoned a p)) (Some (Zoned b q)) = Inr ((a - p) - (b - q))"
| "time_diff (Some _) (Some _) = Inl (TypeError ''can't subtract offset-naive and offset-aware datetimes'')"
| "time_diff _ _ = Inl (TypeError ''unsupported operand type(s) for -'')"

fun time_less :: "parsed_time option \<Rightarrow> parsed_time option \<Rightarrow> error + bool" where
  "time_less (Some (Naive a)) (Some (Naive b)) = Inr (a < b)"
| "time_less (Some (Zoned a p)) (Some (Zoned b q)) = Inr (a - p < b - q)"
| "time_less (Some _) (Some _) = Inl (TypeError ''can't compare offset-naive and offset-aware datetimes'')"
| "time_less _ _ = Inl (TypeError ''comparison not supported between these instances'')"

fun time_add :: "parsed_time option \<Rightarrow> timedelta \<Rightarrow> error + parsed_time" where
  "time_add (Some (Naive a)) t = Inr (Naive (a + t))"
| "time_add (Some (Zoned a p)) t = Inr (Zoned (a + t) p)"
| "time_add None t = Inl (TypeError ''unsupported operand type(s) for +'')"

section \<open>The three recomputations\<close>

definition cancellation :: "py_lib \<Rightarrow> sheet_row \<Rightarrow> string \<Rightarrow> error + string \<times> string" where
  "cancellation lib order account_id_with_waiver =
     bindE (ts_at lib order ''booked_at'') (\<lambda>booked.
     bindE (ts_at lib order ''cancellation_requested_at'') (\<lambda>requested.
     bindE (at_key order ''status'') (\<lambda>status.
     bindE (if status = CStr ''DELIVERED'' then Inr ''cannot cancel (DELIVERED)''
            else if status = CStr ''PICKED_UP'' then Inr ''do not cancel -> return-to-origin''
            else if requested = None then Inr ''no cancellation requested''
            else bindE (time_diff requested booked) (\<lambda>elapsed.
              Inr (if minutes_of elapsed \<le> 30 then ''INR 0 (within 30 min)'' else ''INR 250 (after 30 min)''))) (\<lambda>default.
     bindE (at_key order ''account_id'') (\<lambda>account.
     Inr (default,
       if account = CStr account_id_with_waiver \<and> status = CStr ''BOOKED'' \<and> requested \<noteq> None
       then ''INR 0 (Northstar agreement SRC-05 s2 waiver)'' else default))))))"

record credit_figures =
  cf_delay_hours :: pyfloat
  cf_reference :: string
  cf_default_sop_inr :: pyfloat
  cf_lumenworks_clause_inr :: pyfloat

definition service_credit :: "py_lib \<Rightarrow> sheet_row \<Rightarrow> error + credit_figures option" where
  "service_credit lib order =
     bindE (at_key order ''carrier_fault'') (\<lambda>carrier_fault.
     bindE (if truthy carrier_fault then bindE (at_key order ''customer_fault'') (\<lambda>c. Inr (truthy c)) else Inr True) (\<lambda>excluded.
     if excluded then Inr None
     else
       bindE (ts_at lib order ''pickup_actual_at'') (\<lambda>actual.
       bindE (ts_at lib order ''pickup_window_end'') (\<lambda>window_end.
       bindE (time_diff (Some (case actual of None \<Rightarrow> Naive SNAPSHOT | Some t \<Rightarrow> t)) window_end) (\<lambda>delay.
       bindE (bindE (at_key order ''shipment_fee_inr'') (py_float lib)) (\<lambda>fee.
       Inr (Some \<lparr>cf_delay_hours = hours_of delay,
          cf_reference = (if actual \<noteq> None then ''pickup_actual_at'' else ''SNAPSHOT (accruing)''),
          cf_default_sop_inr = (if 2 < hours_of delay then min 500 (fl (fl (1 / 10) * fee)) else 0),
          cf_lumenworks_clause_inr = (if 4 < hours_of delay then 300 else 0)\<rparr>)))))))"

record deadline_figures =
  df_due :: parsed_time
  df_breached_by_minutes :: pyfloat

fun deadlines_of :: "sheet_row \<Rightarrow> parsed_time option \<Rightarrow> (string \<times> int) list \<Rightarrow> error + (string \<times> deadline_figures) list" where
  "deadlines_of ticket created [] = Inr []"
| "deadlines_of ticket created ((source, minutes) # targets) =
     bindE (if contains ''Northstar'' source
            then bindE (at_key ticket ''account_id'') (\<lambda>a. Inr (a \<noteq> CStr ''ACCT-001'')) else Inr False) (\<lambda>skip.
     if skip then deadlines_of ticket created targets
     else
       bindE (time_add created (timedelta_minutes minutes)) (\<lambda>due.
       bindE (time_diff (Some (Naive SNAPSHOT)) (Some due)) (\<lambda>late.
       bindE (deadlines_of ticket created targets) (\<lambda>out.
       Inr ((source, \<lparr>df_due = due, df_breached_by_minutes = minutes_of late\<rparr>) # out)))))"

definition sla_deadlines :: "py_lib \<Rightarrow> sheet_row \<Rightarrow> cell \<Rightarrow> string \<Rightarrow> error + (string \<times> deadline_figures) list" where
  "sla_deadlines lib ticket plan severity =
     (if severity \<noteq> ''P1'' \<or> plan \<noteq> CStr ''Enterprise'' then Inr []
      else bindE (ts_at lib ticket ''created_at'') (\<lambda>created. deadlines_of ticket created TARGETS_24X7))"

section \<open>The report\<close>

definition sheet_of :: "workbook_file \<Rightarrow> string \<Rightarrow> error + sheet_row list" where
  "sheet_of wb name =
     bindE (of_optionE (KeyError (''Worksheet '' @ name @ '' does not exist.'')) (dict_get wb name)) (\<lambda>rows.
     case rows of
       [] \<Rightarrow> Inl (IndexError ''list index out of range'')
     | header # data \<Rightarrow> mapE (row_dict header) (filter (\<lambda>r. \<exists>c \<in> set r. c \<noteq> CNone) data))"

type_synonym row_index = "(cell \<times> sheet_row) list"

definition keyed_by :: "string \<Rightarrow> sheet_row list \<Rightarrow> error + row_index" where
  "keyed_by key rows =
     bindE (mapE (\<lambda>row. bindE (at_key row key) (\<lambda>k. Inr (k, row))) rows) (\<lambda>items.
     Inr (fold (\<lambda>(k, row) d. dict_put d k row) items []))"

definition lookup_in :: "py_lib \<Rightarrow> (cell \<times> 'a) list \<Rightarrow> cell \<Rightarrow> error + 'a" where
  "lookup_in lib d k =
     of_optionE (KeyError (case k of CStr s \<Rightarrow> repr_str s | _ \<Rightarrow> cell_str lib k)) (dict_get d k)"

text \<open>A cell printed with a width: \<open>None\<close> has no such format.\<close>

definition padded :: "cell \<Rightarrow> error + unit" where
  "padded c = requireE (c \<noteq> CNone) (TypeError ''unsupported format string passed to NoneType.__format__'')"

definition report_cancellation :: "py_lib \<Rightarrow> row_index \<Rightarrow> sheet_row \<Rightarrow> error + cell \<times> string \<times> string" where
  "report_cancellation lib accounts order =
     bindE (cancellation lib order ''ACCT-001'') (\<lambda>(default, applied).
     bindE (at_key order ''order_id'') (\<lambda>i. bindE (at_key order ''account_id'') (\<lambda>a.
     bindE (lookup_in lib accounts a) (\<lambda>account. bindE (at_key account ''account_name'') (\<lambda>name.
     bindE (padded name) (\<lambda>_. bindE (at_key order ''status'') (\<lambda>status. bindE (padded status) (\<lambda>_.
     Inr (i, default, applied)))))))))"

definition report_credit :: "py_lib \<Rightarrow> sheet_row \<Rightarrow> error + (cell \<times> credit_figures) option" where
  "report_credit lib order =
     bindE (service_credit lib order) (\<lambda>c. case c of
       None \<Rightarrow> Inr None
     | Some figures \<Rightarrow> bindE (at_key order ''order_id'') (\<lambda>i. Inr (Some (i, figures))))"

text \<open>One ticket of the breach loop: its id when the target that applies to it is breached.\<close>

definition report_breach :: "py_lib \<Rightarrow> row_index \<Rightarrow> sheet_row \<Rightarrow> error + cell option" where
  "report_breach lib accounts ticket =
     bindE (at_key ticket ''status'') (\<lambda>status.
     if status \<noteq> CStr ''open'' then Inr None
     else
       bindE (at_key ticket ''ticket_id'') (\<lambda>i. bindE (lookup_in lib PHASE0_DERIVED_SEVERITY i) (\<lambda>severity.
       bindE (at_key ticket ''account_id'') (\<lambda>a. bindE (lookup_in lib accounts a) (\<lambda>account.
       bindE (at_key account ''plan'') (\<lambda>plan.
       bindE (sla_deadlines lib ticket plan severity) (\<lambda>deadlines.
       if deadlines = [] then bindE (padded plan) (\<lambda>_. Inr None)
       else
         let applied = (if a = CStr ''ACCT-001'' then ''SRC-05 Northstar agreement'' else ''SRC-01 v3 CURRENT'') in
         bindE (of_optionE (KeyError (repr_str applied)) (dict_get deadlines applied)) (\<lambda>d.
         Inr (if 0 < df_breached_by_minutes d then Some i else None)))))))))"

text \<open>The anomalies of an order: a cancellation requested after the pickup, and a booking whose
  window ended before the snapshot.\<close>

definition report_anomalies :: "py_lib \<Rightarrow> sheet_row \<Rightarrow> error + bool \<times> bool" where
  "report_anomalies lib order =
     bindE (ts_at lib order ''pickup_actual_at'') (\<lambda>actual.
     bindE (ts_at lib order ''cancellation_requested_at'') (\<lambda>requested.
     bindE (if actual \<noteq> None \<and> requested \<noteq> None then time_less actual requested else Inr False) (\<lambda>late_request.
     bindE (at_key order ''status'') (\<lambda>status.
     bindE (if status = CStr ''BOOKED'' \<and> actual = None
            then bindE (ts_at lib order ''pickup_window_end'') (\<lambda>end_at. time_less end_at (Some (Naive SNAPSHOT)))
            else Inr False) (\<lambda>stale_booking.
     bindE (if late_request \<or> stale_booking then at_key order ''order_id'' else Inr CNone) (\<lambda>_.
     Inr (late_request, stale_booking)))))))"

text \<open>The returned fields, and behind them what is only printed.\<close>

record inspection_report =
  rp_credits :: "(cell \<times> credit_figures) list"
  rp_breaches :: "cell list"
  rp_orders :: "sheet_row list"
  rp_tickets :: "sheet_row list"
  rp_accounts :: row_index
  rp_cancellations :: "(cell \<times> string \<times> string) list"
  rp_anomalies :: "(bool \<times> bool) list"
  rp_no_contract :: "cell list"

definition report :: "py_lib \<Rightarrow> workbook_file \<Rightarrow> error + inspection_report" where
  "report lib wb =
     bindE (bindE (sheet_of wb ''accounts'') (keyed_by ''account_id'')) (\<lambda>accounts.
     bindE (sheet_of wb ''orders'') (\<lambda>orders. bindE (sheet_of wb ''tickets'') (\<lambda>tickets.
     bindE (mapE (report_cancellation lib accounts) orders) (\<lambda>cancellations.
     bindE (collectE (report_credit lib) orders) (\<lambda>credits.
     bindE (collectE (report_breach lib accounts) tickets) (\<lambda>breaches.
     bindE (mapE (report_anomalies lib) orders) (\<lambda>anomalies.
     bindE (collectE (\<lambda>(a, v). bindE (at_key v ''contract_file'') (\<lambda>c. Inr (if truthy c then None else Some a))) accounts) (\<lambda>no_contract.
     Inr \<lparr>rp_credits = fold (\<lambda>(i, c) d. dict_put d i c) credits [], rp_breaches = breaches, rp_orders = orders,
          rp_tickets = tickets, rp_accounts = accounts, rp_cancellations = cancellations,
          rp_anomalies = anomalies, rp_no_contract = no_contract\<rparr>))))))))"

section \<open>The self-check\<close>

definition expect :: "error + 'a \<Rightarrow> ('a \<Rightarrow> bool) \<Rightarrow> error + unit" where
  "expect m holds = bindE m (\<lambda>x. requireE (holds x) AssertionError)"

text \<open>\<open>strftime("%A")\<close> as \<open>weekday()\<close>, Monday being 0, and \<open>wb["README"]["B2"].value\<close>.\<close>

definition weekday :: "int \<Rightarrow> int" where
  "weekday w = (w div us_per_day + 6) mod 7"

definition readme_b2 :: "workbook_file \<Rightarrow> error + cell" where
  "readme_b2 wb =
     bindE (of_optionE (KeyError ''Worksheet README does not exist.'') (dict_get wb ''README'')) (\<lambda>rows.
     Inr (case rows of _ # (_ # b # _) # _ \<Rightarrow> b | _ \<Rightarrow> CNone))"

definition breached_by :: "(string \<times> deadline_figures) list \<Rightarrow> string \<Rightarrow> error + pyfloat" where
  "breached_by deadlines source =
     bindE (of_optionE (KeyError (repr_str source)) (dict_get deadlines source)) (\<lambda>d. Inr (df_breached_by_minutes d))"

definition self_check :: "py_lib \<Rightarrow> workbook_file \<Rightarrow> error + unit" where
  "self_check lib wb =
     bindE (bindE (sheet_of wb ''accounts'') (keyed_by ''account_id'')) (\<lambda>accounts.
     bindE (bindE (sheet_of wb ''orders'') (keyed_by ''order_id'')) (\<lambda>orders.
     bindE (bindE (sheet_of wb ''tickets'') (keyed_by ''ticket_id'')) (\<lambda>tickets.
     let outcome = \<lambda>i. bindE (lookup_in lib orders (CStr i)) (\<lambda>row. cancellation lib row ''ACCT-001'');
         deadlines = \<lambda>i. bindE (lookup_in lib tickets (CStr i)) (\<lambda>row. sla_deadlines lib row (CStr ''Enterprise'') ''P1'');
         figures = bindE (lookup_in lib orders (CStr ''ORD-2002'')) (\<lambda>row. bindE (service_credit lib row)
             (of_optionE (TypeError ''NoneType object is not subscriptable'')))
     in bindE (mapE (\<lambda>check. check)
       [expect (readme_b2 wb) (\<lambda>snap. snap = CStr ''2026-08-16 11:00 Asia/Kolkata''),
        expect (Inr (weekday SNAPSHOT)) (\<lambda>d. d = 6),
        expect (outcome ''ORD-1001'') (\<lambda>r. r = (''INR 250 (after 30 min)'', ''INR 0 (Northstar agreement SRC-05 s2 waiver)'')),
        expect (outcome ''ORD-1002'') (\<lambda>r. snd r = ''do not cancel -> return-to-origin''),
        expect (outcome ''ORD-2001'') (\<lambda>r. snd r = ''INR 250 (after 30 min)''),
        expect (outcome ''ORD-3001'') (\<lambda>r. snd r = ''INR 0 (within 30 min)''),
        expect (outcome ''ORD-4001'') (\<lambda>r. snd r = ''cannot cancel (DELIVERED)''),
        expect (collectE (\<lambda>(i, row). bindE (service_credit lib row) (\<lambda>c. Inr (if c = None then None else Some i))) orders)
          (\<lambda>eligible. eligible = [CStr ''ORD-2002'']),
        expect figures (\<lambda>c. cf_delay_hours c = 9 / 2 \<and> starts_with ''SNAPSHOT'' (cf_reference c)),
        expect figures (\<lambda>c. cf_default_sop_inr c = 240 \<and> cf_lumenworks_clause_inr c = 300),
        expect figures (\<lambda>c. max (cf_default_sop_inr c) (cf_lumenworks_clause_inr c) \<le> 1000),
        expect (bindE (deadlines ''TKT-501'') (\<lambda>d. breached_by d ''SRC-05 Northstar agreement'')) (\<lambda>m. m = 15),
        expect (bindE (deadlines ''TKT-501'') (\<lambda>d. breached_by d ''SRC-01 v3 CURRENT'')) (\<lambda>m. m = 0),
        expect (bindE (deadlines ''TKT-501'') (\<lambda>d. breached_by d ''SRC-02 v2 DEPRECATED'')) (\<lambda>m. m = - 30),
        expect (bindE (deadlines ''TKT-505'') (\<lambda>d. breached_by d ''SRC-01 v3 CURRENT'')) (\<lambda>m. m = 120),
        expect (deadlines ''TKT-505'') (\<lambda>d. ''SRC-05 Northstar agreement'' \<notin> set (dict_keys d)),
        expect (bindE (lookup_in lib accounts (CStr ''ACCT-001'')) (\<lambda>a. at_key a ''premium_support'')) (\<lambda>c. c = CBool True),
        expect (bindE (lookup_in lib accounts (CStr ''ACCT-004'')) (\<lambda>a. at_key a ''contract_file'')) (\<lambda>c. \<not> truthy c),
        expect (mapE (\<lambda>row. at_key row ''customer_fault'') (dict_values orders)) (\<lambda>cs. \<forall>c \<in> set cs. c = CBool False),
        expect (collectE (\<lambda>row. bindE (at_key row ''historical_resolution'') (\<lambda>c.
            if truthy c then bindE (at_key row ''ticket_id'') (\<lambda>i. Inr (Some i)) else Inr None)) (dict_values tickets))
          (\<lambda>is. set is = {CStr ''TKT-450'', CStr ''TKT-451''})]) (\<lambda>_. Inr ()))))"

section \<open>A row and the record the application builds from it\<close>

lemma ts_parse_dt_optional:
  "parse_dt_optional lib c zone field = Inr d \<Longrightarrow> \<exists>t. ts lib c = Inr t \<and> d = map_option (localized zone) t"
  by (cases c) (auto simp: parse_dt_optional_def ts_def bindE_eq_Inr split: if_splits)

lemma ts_parse_dt: "parse_dt lib c zone field = Inr d \<Longrightarrow> \<exists>t. ts lib c = Inr (Some t) \<and> d = localized zone t"
  by (auto simp: parse_dt_def bindE_eq_Inr eq_commute [of "Some d"] dest!: ts_parse_dt_optional)

lemma item_Inr [simp]: "item sheet row key = Inr c \<longleftrightarrow> dict_get row (CStr key) = Some c"
  by (simp add: item_def)

lemma at_key_Inr [simp]: "at_key row key = Inr c \<longleftrightarrow> dict_get row (CStr key) = Some c"
  by (simp add: at_key_def)

lemma as_text_Inr [simp]: "as_text sheet c = Inr s \<longleftrightarrow> c = CStr s"
  by (cases c) auto

text \<open>What the script reads in a row the application accepts as an order.\<close>

lemma inspected_order:
  assumes "build_order lib zone row = Inr ord"
  shows "dict_get row (CStr ''account_id'') = Some (CStr (ord_account_id ord))"
    "dict_get row (CStr ''status'') = Some (CStr (order_status_value (ord_status ord)))"
    "\<exists>t. ts_at lib row ''booked_at'' = Inr (Some t) \<and> ord_booked_at ord = localized zone t"
    "\<exists>t. ts_at lib row ''pickup_window_end'' = Inr (Some t) \<and> ord_pickup_window_end ord = localized zone t"
    "\<exists>c. dict_get row (CStr ''shipment_fee_inr'') = Some c \<and> py_float lib c = Inr (ord_shipment_fee_inr ord)"
    "\<exists>c. dict_get row (CStr ''carrier_fault'') = Some c \<and> truthy c = ord_carrier_fault ord"
    "\<exists>c. dict_get row (CStr ''customer_fault'') = Some c \<and> truthy c = ord_customer_fault ord"
    "ts_at lib row ''pickup_actual_at'' = Inr t \<Longrightarrow> ord_pickup_actual_at ord = map_option (localized zone) t"
    "ts_at lib row ''cancellation_requested_at'' = Inr t \<Longrightarrow> ord_cancellation_requested_at ord = map_option (localized zone) t"
  using assms
  by (auto simp: build_order_def Let_def bindE_eq_Inr ts_at_def get_or_none_def order_status_of_Some
      dest!: ts_parse_dt ts_parse_dt_optional)

lemma inspected_ticket:
  assumes "build_ticket lib zone row = Inr tkt"
  shows "dict_get row (CStr ''account_id'') = Some (CStr (tkt_account_id tkt))"
    "\<exists>t. ts_at lib row ''created_at'' = Inr (Some t) \<and> tkt_created_at tkt = localized zone t"
  using assms by (auto simp: build_ticket_def Let_def bindE_eq_Inr ts_at_def dest!: ts_parse_dt)

text \<open>In a zone with one offset, the script's naive difference is the difference of the instants.\<close>

lemma time_diff_localized:
  "time_diff (Some a) (Some b) = Inr t \<Longrightarrow> dt_diff (localized (\<lambda>_. off) a) (localized (\<lambda>_. off) b) = t"
  by (cases a; cases b) (auto simp: localized_def dt_diff_def instant_def)

section \<open>The application agrees with the script: cancellation\<close>

text \<open>The script's words for an outcome of the application.\<close>

definition outcome_words :: "cancellation_outcome \<Rightarrow> string" where
  "outcome_words out =
     (case co_decision out of
        cannot_cancel \<Rightarrow>
          if co_order_status out = DELIVERED then ''cannot cancel (DELIVERED)'' else ''do not cancel -> return-to-origin''
      | no_action_needed \<Rightarrow> ''no cancellation requested''
      | can_cancel \<Rightarrow>
          if co_applicable_rule out = ''SRC-05#2'' then ''INR 0 (Northstar agreement SRC-05 s2 waiver)''
          else if co_fee_inr out = Some 0 then ''INR 0 (within 30 min)'' else ''INR 250 (after 30 min)'')"

lemma cancellation_words:
  assumes "cancellation lib row waived = Inr (standard, applied)"
    and "build_order lib (\<lambda>_. off) row = Inr ord" "ord_status ord = BOOKED"
  shows "applied = (case ord_cancellation_requested_at ord of
      None \<Rightarrow> ''no cancellation requested''
    | Some r \<Rightarrow>
        if ord_account_id ord = waived then ''INR 0 (Northstar agreement SRC-05 s2 waiver)''
        else if dt_diff r (ord_booked_at ord) \<le> timedelta_minutes 30 then ''INR 0 (within 30 min)''
        else ''INR 250 (after 30 min)'')"
proof -
  note row = inspected_order [OF assms(2)]
  obtain booked where b: "ts_at lib row ''booked_at'' = Inr (Some booked)" "ord_booked_at ord = localized (\<lambda>_. off) booked"
    using row(3) by blast
  obtain requested where r: "ts_at lib row ''cancellation_requested_at'' = Inr requested"
    using assms(1) by (auto simp: cancellation_def bindE_eq_Inr)
  note fields = b(1) r row(1,2) assms(3) of_optionE_eq(2) bindE.simps(2)
  show ?thesis
  proof (cases requested)
    case None
    with assms(1) fields have "applied = ''no cancellation requested''" by (auto simp: cancellation_def at_key_def)
    with row(9) [OF r] None show ?thesis by simp
  next
    case (Some q)
    with assms(1) fields obtain t where t: "time_diff (Some q) (Some booked) = Inr t"
      and a: "applied = (if ord_account_id ord = waived then ''INR 0 (Northstar agreement SRC-05 s2 waiver)''
          else if minutes_of t \<le> 30 then ''INR 0 (within 30 min)'' else ''INR 250 (after 30 min)'')"
      by (auto simp: cancellation_def at_key_def bindE_eq_Inr)
    from a time_diff_localized [OF t, of off] row(9) [OF r] Some b(2) minutes_of_le_iff [of 30 t] show ?thesis by simp
  qed
qed

lemma cancellation_words_past_pickup:
  assumes "cancellation lib row waived = Inr (standard, applied)"
    and "build_order lib zone row = Inr ord" "ord_status ord \<in> {PICKED_UP, DELIVERED}"
  shows "applied = (if ord_status ord = DELIVERED then ''cannot cancel (DELIVERED)'' else ''do not cancel -> return-to-origin'')"
  using assms(1,3) inspected_order(2) [OF assms(2)] by (auto simp: cancellation_def bindE_eq_Inr)

lemma app_cancellation_words:
  assumes ord: "get_order conn k auth (tz_of clk) = Inr ord"
    and run: "evaluate_cancellation conn k auth clk DEFAULT_FEE_RULES AGREEMENT_OVERRIDES DEFAULT_SOURCE = Inr d"
    and st: "ord_status ord = BOOKED"
    and waiver: "ord_account_id ord = ''ACCT-001'' \<Longrightarrow>
      binding_override conn CANCELLATION_FEE ''ACCT-001'' (dt_date (now clk)) AGREEMENT_OVERRIDES \<noteq> None"
  shows "\<exists>out. result d = Some out \<and> outcome_words out = (case ord_cancellation_requested_at ord of
      None \<Rightarrow> ''no cancellation requested''
    | Some r \<Rightarrow>
        if ord_account_id ord = ''ACCT-001'' then ''INR 0 (Northstar agreement SRC-05 s2 waiver)''
        else if dt_diff r (ord_booked_at ord) \<le> timedelta_minutes 30 then ''INR 0 (within 30 min)''
        else ''INR 250 (after 30 min)'')"
proof (cases "ord_cancellation_requested_at ord")
  case None
  with ord run st show ?thesis by (auto simp: evaluate_cancellation_def Let_def bindE_eq_Inr outcome_words_def)
next
  case (Some r)
  let ?over = "binding_override conn CANCELLATION_FEE (ord_account_id ord) (dt_date (now clk)) AGREEMENT_OVERRIDES"
  obtain ap rl fee msg where
    ap: "resolve_applicability conn CANCELLATION_FEE (ord_account_id ord) (dt_date (now clk)) AGREEMENT_OVERRIDES
          DEFAULT_SOURCE = Inr ap"
    and rl: "dict_get DEFAULT_FEE_RULES (winning_source_id ap) = Some rl"
      "apply_fee_rule rl (minutes_of (dt_diff r (ord_booked_at ord))) = Inr (fee, msg)"
    and out: "\<exists>out. result d = Some out \<and> co_decision out = can_cancel \<and> co_fee_inr out = Some fee
      \<and> co_applicable_rule out = clause_ref (winning_source_id ap) (winning_section ap)"
    by (rule evaluate_cancellation_booked [OF ord st Some run]) (rule that; assumption)
  show ?thesis
  proof (cases ?over)
    case None
    with waiver have "ord_account_id ord \<noteq> ''ACCT-001''" by auto
    moreover from resolve_winner [OF ap] None have w: "winning_source_id ap = ''SRC-03''" "winning_section ap = ''1''"
      by (simp_all add: DEFAULT_SOURCE_def)
    moreover from rl w have "fee = (if dt_diff r (ord_booked_at ord) \<le> timedelta_minutes 30 then 0 else 250)"
      by (auto simp: default_fee_rule_SRC03 dest!: threshold_fee_exact)
    ultimately show ?thesis using out Some by (auto simp: outcome_words_def clause_ref_def)
  next
    case (Some ov)
    from binding_override_mem [OF Some] have "ord_account_id ord = ''ACCT-001''" "ao_source_id ov = ''SRC-05''"
      "ao_section ov = ''2''" by (auto simp: AGREEMENT_OVERRIDES_def)
    moreover from resolve_winner [OF ap] Some
    have "winning_source_id ap = ao_source_id ov" "winning_section ap = ao_section ov" by simp_all
    ultimately show ?thesis using out \<open>ord_cancellation_requested_at ord = Some r\<close>
      by (auto simp: outcome_words_def clause_ref_def)
  qed
qed


text \<open>Two orders of the sample database as the rows of a workbook.\<close>

definition sample_order_row :: "string \<Rightarrow> string \<Rightarrow> int \<Rightarrow> int \<Rightarrow> int \<Rightarrow> bool \<Rightarrow> int option \<Rightarrow> sheet_row" where
  "sample_order_row i acct booked window_end fee fault requested =
     zip (map CStr [''order_id'', ''account_id'', ''carrier'', ''status'', ''booked_at'', ''pickup_window_start'',
       ''pickup_window_end'', ''pickup_actual_at'', ''shipment_fee_inr'', ''carrier_fault'', ''customer_fault'',
       ''cancellation_requested_at'', ''notes''])
     [CStr i, CStr acct, CStr ''SwiftShip'', CStr ''BOOKED'', CTime (Naive booked), CTime (Naive booked),
      CTime (Naive window_end), CNone, CInt fee, CBool fault, CBool False,
      (case requested of None \<Rightarrow> CNone | Some t \<Rightarrow> CTime (Naive t)), CNone]"

definition sample_built_order :: "string \<Rightarrow> string \<Rightarrow> int \<Rightarrow> int \<Rightarrow> int \<Rightarrow> bool \<Rightarrow> int option \<Rightarrow> order" where
  "sample_built_order i acct booked window_end fee fault requested =
     (let at_ist = \<lambda>w. \<lparr>wall = w, utcoffset = ist\<rparr> in
      \<lparr>ord_id = i, ord_account_id = acct, ord_carrier = ''SwiftShip'', ord_status = BOOKED, ord_booked_at = at_ist booked,
       ord_pickup_window_start = at_ist booked, ord_pickup_window_end = at_ist window_end, ord_pickup_actual_at = None,
       ord_shipment_fee_inr = of_int fee, ord_carrier_fault = fault, ord_customer_fault = False,
       ord_cancellation_requested_at = map_option at_ist requested, ord_notes = []\<rparr>)"

definition plain_lib :: py_lib where
  "plain_lib = \<lparr>zone_info = (\<lambda>_. None), from_iso = (\<lambda>_. None), float_of_text = (\<lambda>_. None), text_of_cell = (\<lambda>_. []),
     nfkc = (\<lambda>s. s)\<rparr>"

abbreviation row_1001 :: sheet_row where
  "row_1001 \<equiv> sample_order_row ''ORD-1001'' ''ACCT-001'' (hm 8 0) (hm 12 0) 1200 False (Some (hm 10 0))"

abbreviation order_1001 :: order where
  "order_1001 \<equiv> sample_built_order ''ORD-1001'' ''ACCT-001'' (hm 8 0) (hm 12 0) 1200 False (Some (hm 10 0))"

lemma sample_row_1001:
  "build_order plain_lib (\<lambda>_. ist) row_1001 = Inr order_1001"
  "get_order sample_db (ord_id order_1001) admin (tz_of sample_clock) = Inr order_1001"
  "ord_status order_1001 \<noteq> DRAFT" "ord_id order_1001 = ''ORD-1001''"
    apply code_simp
   apply code_simp
  by (simp_all add: sample_built_order_def Let_def)


section \<open>The application agrees with the script: service credit\<close>

text \<open>The delay the script measures is the application's, when its clock stands at the snapshot.\<close>

lemma service_credit_Some:
  assumes script: "service_credit lib row = Inr (Some figures)" and row: "build_order lib (\<lambda>_. off) row = Inr ord"
    and clk: "now clk = \<lparr>wall = SNAPSHOT, utcoffset = off\<rparr>"
  shows "ord_carrier_fault ord" "\<not> ord_customer_fault ord" "cf_delay_hours figures = hours_of (pickup_delay ord clk)"
    "cf_default_sop_inr figures =
       (if timedelta_minutes 120 < pickup_delay ord clk then min 500 (fl (fl (1 / 10) * ord_shipment_fee_inr ord)) else 0)"
    "cf_lumenworks_clause_inr figures = (if timedelta_minutes 240 < pickup_delay ord clk then 300 else 0)"
proof -
  note fields = inspected_order [OF row]
  from script fields(6,7) show f: "ord_carrier_fault ord" "\<not> ord_customer_fault ord"
    by (auto simp: service_credit_def bindE_eq_Inr split: if_splits)
  from fields(4) obtain e where e: "ts_at lib row ''pickup_window_end'' = Inr (Some e)"
    "ord_pickup_window_end ord = localized (\<lambda>_. off) e" by blast
  from script f fields(5-7) e(1) obtain actual delay where
    a: "ts_at lib row ''pickup_actual_at'' = Inr actual"
    and t: "time_diff (Some (case actual of None \<Rightarrow> Naive SNAPSHOT | Some t \<Rightarrow> t)) (Some e) = Inr delay"
    and figures: "cf_delay_hours figures = hours_of delay"
      "cf_default_sop_inr figures = (if 2 < hours_of delay then min 500 (fl (fl (1 / 10) * ord_shipment_fee_inr ord)) else 0)"
      "cf_lumenworks_clause_inr figures = (if 4 < hours_of delay then 300 else 0)"
    by (auto simp: service_credit_def bindE_eq_Inr)
  have "pickup_delay ord clk = delay"
    using time_diff_localized [OF t, of off] fields(8) [OF a] e(2) clk
    by (cases actual) (simp_all add: pickup_delay_def localized_def)
  with figures delay_threshold [of delay] show "cf_delay_hours figures = hours_of (pickup_delay ord clk)"
    "cf_default_sop_inr figures =
       (if timedelta_minutes 120 < pickup_delay ord clk then min 500 (fl (fl (1 / 10) * ord_shipment_fee_inr ord)) else 0)"
    "cf_lumenworks_clause_inr figures = (if timedelta_minutes 240 < pickup_delay ord clk then 300 else 0)"
    by (simp_all add: not_le [symmetric])
qed

lemma service_credit_None:
  "service_credit lib row = Inr None \<Longrightarrow> build_order lib zone row = Inr ord \<Longrightarrow> \<not> (ord_carrier_fault ord \<and> \<not> ord_customer_fault ord)"
  using inspected_order(6,7) [of lib zone row ord] by (auto simp: service_credit_def bindE_eq_Inr split: if_splits)

text \<open>C17. The two implementations of the service credit agree as well: with the application's clock
  at the snapshot of the pack, the order is refused for fault exactly when the script computes
  no figures, and otherwise the credit granted is the script's figure under the terms that
  govern the account, the agreement's clause or the SOP's, in floating point, a refused credit
  counting as zero; eligibility and delay agree too.\<close>

theorem inspection_credit_agrees:
  assumes script: "service_credit lib row = Inr figures"
    and row: "build_order lib (\<lambda>_. off) row = Inr ord"
    and ord: "get_order conn (ord_id ord) auth (tz_of clk) = Inr ord" "agreements_readable conn"
    and clk: "now clk = \<lparr>wall = SNAPSHOT, utcoffset = off\<rparr>"
  shows "\<exists>d out. pack_credit conn (ord_id ord) auth clk = Inr d \<and> result d = Some out \<and>
    (case figures of
       None \<Rightarrow> \<not> sc_eligible out \<and> sc_delay_hours out = None
     | Some f \<Rightarrow> sc_delay_hours out = Some (cf_delay_hours f) \<and>
         (case sc_credit_inr out of None \<Rightarrow> 0 | Some c \<Rightarrow> c) =
           (if binding_override conn credit_topic (ord_account_id ord) (dt_date (now clk)) AGREEMENT_OVERRIDES = None
            then cf_default_sop_inr f else cf_lumenworks_clause_inr f))"
proof -
  obtain d where d: "pack_credit conn (ord_id ord) auth clk = Inr d" by (rule evaluate_service_credit_returns [OF ord])
  show ?thesis
  proof (cases figures)
    case None
    have n: "\<not> (ord_carrier_fault ord \<and> \<not> ord_customer_fault ord)"
      using service_credit_None [OF script [unfolded None] row] .
    with d ord(1) have "\<exists>out. result d = Some out \<and> \<not> sc_eligible out \<and> sc_delay_hours out = None"
      by (auto simp: evaluate_service_credit_def Let_def bindE_eq_Inr)
    with d None show ?thesis by auto
  next
    case (Some f)
    note f = service_credit_Some [OF script [unfolded Some] row clk]
    obtain ap rl eligible credit msg where
      ap: "resolve_applicability conn credit_topic (ord_account_id ord) (dt_date (now clk)) AGREEMENT_OVERRIDES DEFAULT_SOURCE = Inr ap"
      and rl: "dict_get DEFAULT_CREDIT_RULES (winning_source_id ap) = Some rl"
      and app: "apply_credit_rule rl (hours_of (pickup_delay ord clk)) (ord_shipment_fee_inr ord) = Inr (eligible, credit, msg)"
      and out: "\<exists>out. result d = Some out \<and> sc_eligible out = eligible \<and> sc_credit_inr out = credit
         \<and> sc_manager_approval_required out = needs_manager credit"
      by (rule evaluate_service_credit_fault [OF ord(1) f(1,2) d]) (rule that; assumption)
    have "\<exists>out. result d = Some out \<and> sc_delay_hours out = Some (hours_of (pickup_delay ord clk))"
      using d ord(1) f(1,2) by (auto simp: evaluate_service_credit_def Let_def bindE_eq_Inr pickup_delay_def)
    moreover have "(case credit of None \<Rightarrow> 0 | Some c \<Rightarrow> c) =
        (if binding_override conn credit_topic (ord_account_id ord) (dt_date (now clk)) AGREEMENT_OVERRIDES = None
         then cf_default_sop_inr f else cf_lumenworks_clause_inr f)"
      using app credit_rule_of_winner [OF ap rl] unfolding f(4,5)
      by (cases "binding_override conn credit_topic (ord_account_id ord) (dt_date (now clk)) AGREEMENT_OVERRIDES = None")
        (auto simp: apply_credit_rule_def delay_threshold split: if_splits)
    ultimately show ?thesis using out d Some f(3) by auto
  qed
qed

text \<open>\<open>ORD-2002\<close>, whose pickup is open at the snapshot of the pack, four and a half hours late.\<close>

definition pack_clock :: clock where
  "pack_clock = \<lparr>snapshot = \<lparr>wall = SNAPSHOT, utcoffset = ist\<rparr>\<rparr>"

abbreviation order_2002 :: order where
  "order_2002 \<equiv> sample_built_order ''ORD-2002'' ''ACCT-002'' (hm 1 0) (hm 6 30) 900 True None"

abbreviation row_2002 :: sheet_row where
  "row_2002 \<equiv> sample_order_row ''ORD-2002'' ''ACCT-002'' (hm 1 0) (hm 6 30) 900 True None"

lemma sample_row_2002:
  "build_order plain_lib (\<lambda>_. ist) row_2002 = Inr order_2002"
  "get_order sample_db (ord_id order_2002) admin (tz_of pack_clock) = Inr order_2002"
  "now pack_clock = \<lparr>wall = SNAPSHOT, utcoffset = ist\<rparr>" "ord_id order_2002 = ''ORD-2002''"
     apply code_simp
    apply code_simp
  by (simp_all add: sample_built_order_def Let_def pack_clock_def)

theorem inspection_credit_agrees_witness:
  "\<exists>f d out. service_credit plain_lib row_2002 = Inr (Some f) \<and> pack_credit sample_db ''ORD-2002'' admin pack_clock = Inr d
     \<and> result d = Some out \<and> sc_delay_hours out = Some (cf_delay_hours f)"
proof -
  have "inrP (\<lambda>f. f \<noteq> None) (service_credit plain_lib row_2002)"
    by (simp add: service_credit_def ts_at_def at_key_def ts_def sample_order_row_def truthy_def py_float_def inrP_def)
  then obtain f where f: "service_credit plain_lib row_2002 = Inr (Some f)" by (auto simp: inrP_iff)
  from inspection_credit_agrees [OF f sample_row_2002(1,2) sample_agreements_readable sample_row_2002(3)]
    f sample_row_2002(4) show ?thesis by auto
qed

section \<open>The application agrees with the script: deadlines\<close>

lemma deadlines_of_Cons:
  assumes "deadlines_of ticket created ((source, minutes) # targets) = Inr ds"
  obtains "deadlines_of ticket created targets = Inr ds"
  | due late out where "time_add created (timedelta_minutes minutes) = Inr due"
      "time_diff (Some (Naive SNAPSHOT)) (Some due) = Inr late" "deadlines_of ticket created targets = Inr out"
      "ds = (source, \<lparr>df_due = due, df_breached_by_minutes = minutes_of late\<rparr>) # out"
  using assms by (auto simp: bindE_eq_Inr split: if_splits)

lemma deadlines_of_mem:
  "deadlines_of ticket created targets = Inr ds \<Longrightarrow> (source, f) \<in> set ds \<Longrightarrow>
     \<exists>minutes late. (source, minutes) \<in> set targets \<and> time_add created (timedelta_minutes minutes) = Inr (df_due f)
       \<and> time_diff (Some (Naive SNAPSHOT)) (Some (df_due f)) = Inr late \<and> df_breached_by_minutes f = minutes_of late"
proof (induction targets arbitrary: ds)
  case (Cons target targets)
  obtain name minutes where target: "target = (name, minutes)" by force
  from Cons.prems(1) [unfolded target] show ?case
  proof (cases rule: deadlines_of_Cons)
    case 1
    from Cons.IH [OF this Cons.prems(2)] show ?thesis by auto
  next
    case (2 due late out)
    from Cons.prems(2) 2(4) consider "source = name" "f = \<lparr>df_due = due, df_breached_by_minutes = minutes_of late\<rparr>"
      | "(source, f) \<in> set out" by auto
    then show ?thesis
    proof cases
      case 1
      with 2(1,2) target show ?thesis by auto
    next
      case 2
      from Cons.IH [OF \<open>deadlines_of ticket created targets = Inr out\<close> this] show ?thesis by auto
    qed
  qed
qed simp

lemma time_add_localized:
  "time_add (Some t) d = Inr t' \<Longrightarrow> localized (\<lambda>_. off) t' = dt_add (localized (\<lambda>_. off) t) d"
  by (cases t) (auto simp: localized_def dt_add_def)

text \<open>C18. And so do the deadlines: where the application is confident of a target of a ticket and
  the script lists the same source's target for the ticket's row, the two compute the same due
  time and the same minutes past it, in floating point, and call the target breached alike.\<close>

theorem inspection_deadline_agrees:
  assumes script: "sla_deadlines lib row plan severity = Inr ds" "(source, f) \<in> set ds"
    and row: "build_ticket lib (\<lambda>_. off) row = Inr tkt"
    and clk: "now clk = \<lparr>wall = SNAPSHOT, utcoffset = off\<rparr>"
    and app: "calculate_sla conn k auth clk overrides defaults = Inr d" "trust_state d = CONFIDENT"
    and tkt: "get_ticket conn k auth (tz_of clk) = Inr tkt"
    and same: "result d = Some out" "sla_target_minutes out = Some m" "(source, m) \<in> set TARGETS_24X7"
  shows "sla_deadline out = Some (localized (\<lambda>_. off) (df_due f))
    \<and> sla_elapsed_minutes_past_deadline out = Some (df_breached_by_minutes f)
    \<and> sla_breached out = Some (0 < df_breached_by_minutes f)"
proof -
  from inspected_ticket(2) [OF row] obtain t where t: "ts_at lib row ''created_at'' = Inr (Some t)"
    "tkt_created_at tkt = localized (\<lambda>_. off) t" by blast
  from script(1) script(2) t(1) have "deadlines_of row (Some t) TARGETS_24X7 = Inr ds"
    by (auto simp: sla_deadlines_def split: if_splits)
  from deadlines_of_mem [OF this script(2)] obtain minutes late where
    m: "(source, minutes) \<in> set TARGETS_24X7" "time_add (Some t) (timedelta_minutes minutes) = Inr (df_due f)"
    and l: "time_diff (Some (Naive SNAPSHOT)) (Some (df_due f)) = Inr late" "df_breached_by_minutes f = minutes_of late"
    by blast
  from m(1) same(3) have [simp]: "minutes = m" by (auto simp: TARGETS_24X7_def)
  have due: "localized (\<lambda>_. off) (df_due f) = dt_add (tkt_created_at tkt) (timedelta_minutes m)"
    using time_add_localized [OF m(2)] t(2) by simp
  have "late = dt_diff (now clk) (localized (\<lambda>_. off) (df_due f))"
    using time_diff_localized [OF l(1), of off] clk by (simp add: localized_def)
  with due l(2) have minutes: "df_breached_by_minutes f = minutes_of (dt_diff (now clk) (dt_add (tkt_created_at tkt) (timedelta_minutes m)))"
    by simp
  obtain tkt' out' deadline m' where app': "get_ticket conn k auth (tz_of clk) = Inr tkt'" "result d = Some out'"
    "sla_target_minutes out' = Some m'" "sla_deadline out' = Some deadline"
    "deadline = dt_add (tkt_created_at tkt') (timedelta_minutes m')"
    "sla_elapsed_minutes_past_deadline out' = Some (minutes_of (dt_diff (now clk) deadline))"
    "sla_breached out' = Some (dt_less deadline (now clk))"
    by (rule calculate_sla_confident [OF app])
  with tkt same(1,2) have "out' = out" "tkt' = tkt" "m' = m" by simp_all
  with app' due minutes show ?thesis by (simp add: dt_less_def dt_diff_def)
qed

text \<open>The ticket \<open>TCK-1\<close> under the thirty-minute target of the current policy.\<close>

definition policy_db :: db where
  "policy_db = sample_db\<lparr>db_sla_targets := [sample_sla ''SRC-01'' (Some ''Enterprise'') None ''P1'' (Some 30) 0]\<rparr>"

definition sample_ticket_row :: sheet_row where
  "sample_ticket_row =
     zip (map CStr [''ticket_id'', ''account_id'', ''created_at'', ''status'', ''subject'', ''description'',
       ''channel'', ''assigned_to'', ''last_customer_message_at'', ''historical_resolution''])
     [CStr ''TCK-1'', CStr ''ACCT-001'', CTime (Naive (hm 10 0)), CStr ''open'', CStr ''Complete outage'', CStr ''Help'',
      CStr ''email'', CStr ''agent'', CTime (Naive (hm 10 0)), CNone]"

definition ticket_1 :: ticket where
  "ticket_1 = \<lparr>tkt_id = ''TCK-1'', tkt_account_id = ''ACCT-001'', tkt_created_at = \<lparr>wall = hm 10 0, utcoffset = ist\<rparr>,
     tkt_status = OPEN, tkt_subject = ''Complete outage'', tkt_description = ''Help'', tkt_channel = ''email'',
     tkt_assigned_to = ''agent'', tkt_last_customer_message_at = \<lparr>wall = hm 10 0, utcoffset = ist\<rparr>,
     tkt_historical_resolution = None\<rparr>"

lemma sample_ticket_1:
  "build_ticket plain_lib (\<lambda>_. ist) sample_ticket_row = Inr ticket_1"
  "get_ticket policy_db ''TCK-1'' admin (tz_of pack_clock) = Inr ticket_1"
   apply code_simp
  by code_simp

lemma policy_db_sla:
  obtains d out where "calculate_sla policy_db ''TCK-1'' admin pack_clock AGREEMENT_OVERRIDES DEFAULT_SOURCE = Inr d"
    "trust_state d = CONFIDENT" "result d = Some out" "sla_target_minutes out = Some 30"
proof -
  have "hit_count ticket_1 P1 = 1 \<and> hit_count ticket_1 P2 = 0 \<and> hit_count ticket_1 P3 = 0" by code_simp
  then have p1: "classified ticket_1 = Some P1" by (simp add: classified_def plurality_def)
  have "inrP (\<lambda>acct. acc_id acct = ''ACCT-001'' \<and> map_option (\<lambda>row. (lr_requires_business_calendar row, lr_target_minutes row))
      (lookup_sla_target policy_db ''SRC-01'' acct P1) = Some (0, Some 30))
    (get_account policy_db (tkt_account_id ticket_1) admin)" by code_simp
  then obtain acct row where acct: "get_account policy_db (tkt_account_id ticket_1) admin = Inr acct"
    and i: "acc_id acct = ''ACCT-001''" and row: "lookup_sla_target policy_db ''SRC-01'' acct P1 = Some row"
      "lr_requires_business_calendar row = 0" "lr_target_minutes row = Some 30"
    by (auto simp: inrP_iff)
  have "inrP (\<lambda>ap. winning_source_id ap = ''SRC-01'')
    (resolve_applicability policy_db SLA_FIRST_RESPONSE ''ACCT-001'' (dt_date (now pack_clock)) AGREEMENT_OVERRIDES DEFAULT_SOURCE)"
    by code_simp
  then obtain ap where ap: "resolve_applicability policy_db SLA_FIRST_RESPONSE (acc_id acct) (dt_date (now pack_clock))
      AGREEMENT_OVERRIDES DEFAULT_SOURCE = Inr ap" and w: "winning_source_id ap = ''SRC-01''"
    unfolding i by (auto elim: inrP_E)
  show thesis
    by (rule calculate_sla_returns [OF sample_ticket_1(2) acct p1 ap row(1) [folded w] row(2,3)]) (auto intro: that)
qed

theorem inspection_deadline_agrees_witness:
  "\<exists>d out. calculate_sla policy_db ''TCK-1'' admin pack_clock AGREEMENT_OVERRIDES DEFAULT_SOURCE = Inr d
     \<and> result d = Some out \<and> sla_elapsed_minutes_past_deadline out = Some (minutes_of (SNAPSHOT - hm 10 30))"
proof -
  obtain d out where d: "calculate_sla policy_db ''TCK-1'' admin pack_clock AGREEMENT_OVERRIDES DEFAULT_SOURCE = Inr d"
    "trust_state d = CONFIDENT" "result d = Some out" "sla_target_minutes out = Some 30"
    by (rule policy_db_sla)
  let ?f = "\<lambda>m due. (m, \<lparr>df_due = Naive due, df_breached_by_minutes = minutes_of (SNAPSHOT - due)\<rparr>)"
  have s: "sla_deadlines plain_lib sample_ticket_row (CStr ''Enterprise'') ''P1'' = Inr
      [?f ''SRC-01 v3 CURRENT'' (hm 10 30), ?f ''SRC-02 v2 DEPRECATED'' (hm 11 0), ?f ''SRC-05 Northstar agreement'' (hm 10 15)]"
    by (simp add: sla_deadlines_def TARGETS_24X7_def ts_at_def at_key_def ts_def sample_ticket_row_def hm_def
        timedelta_minutes_def us_per_minute_def)
  have "now pack_clock = \<lparr>wall = SNAPSHOT, utcoffset = ist\<rparr>" by (simp add: pack_clock_def)
  from inspection_deadline_agrees [OF s _ sample_ticket_1(1) this d(1,2) sample_ticket_1(2) d(3,4),
      of "''SRC-01 v3 CURRENT''" "snd (?f ''SRC-01 v3 CURRENT'' (hm 10 30))"] d(1,3)
  show ?thesis by (auto simp: TARGETS_24X7_def)
qed

section \<open>The report\<close>

lemma report_credits_eligible:
  assumes "report lib wb = Inr r"
  shows "\<forall>(i, f) \<in> set (rp_credits r). \<exists>order \<in> set (rp_orders r). service_credit lib order = Inr (Some f)"
proof -
  have fold: "set (fold (\<lambda>(i, c) d. dict_put d i c) xs d) \<subseteq> set xs \<union> set d" for xs :: "(cell \<times> credit_figures) list" and d
    by (induction xs arbitrary: d) (use set_dict_put_sub in fastforce)+
  from assms obtain credits where c: "collectE (report_credit lib) (rp_orders r) = Inr credits"
    and r: "rp_credits r = fold (\<lambda>(i, c) d. dict_put d i c) credits []"
    by (auto simp: report_def bindE_eq_Inr)
  have "\<exists>order \<in> set (rp_orders r). service_credit lib order = Inr (Some f)" if "(i, f) \<in> set credits" for i f
    using collectE_set [OF c that] by (auto simp: report_credit_def bindE_eq_Inr split: option.splits)
  with fold [of credits "[]"] r show ?thesis by auto
qed

end
