(* ===== verification/Eval_Cases.thy ===== *)
theory Eval_Cases
  imports Agent_Tools Py_Text Py_Json
begin

text \<open>
  \<open>app/evaluation/cases.py\<close> and \<open>adapters/pytest_adapter.py\<close>: the golden cases as typed
  values, which of them a retriever or the agent can be asked, and the comparison of a case's
  expected facts with what a calculator returned. A parsed JSON document is a \<open>json\<close>; as in the
  tool requests, pydantic's conversions between types are left out and a value of another type
  is rejected.
\<close>

section \<open>The typed case\<close>

record evaluation_case =
  case_id :: string
  category :: string
  tags :: "string list"
  case_role :: "string option"
  case_scope :: json
  question :: string
  expected_status :: string
  expected_trust :: "string option"
  expected_tools :: "string list"
  expected_citations :: "string list"
  expected_conflicts :: "json list"
  expected_facts :: "(string \<times> json) list"
  expected_assumptions_nonempty :: "bool option"
  must_not :: "string list"
  enforcement_layer :: "string option"
  case_notes :: "string option"
  fixture :: "json option"

text \<open>\<open>raw.get(key, default)\<close> and pydantic's check of the value.\<close>

definition raw_get :: "(string \<times> json) list \<Rightarrow> string \<Rightarrow> json \<Rightarrow> json" where
  "raw_get raw key dflt = (case dict_get raw key of None \<Rightarrow> dflt | Some v \<Rightarrow> v)"

fun str_field :: "string \<Rightarrow> json \<Rightarrow> error + string" where
  "str_field name (VStr s) = Inr s"
| "str_field name _ = Inl (ValidationError name)"

fun opt_str_field :: "string \<Rightarrow> json \<Rightarrow> error + string option" where
  "opt_str_field name VNull = Inr None"
| "opt_str_field name v = bindE (str_field name v) (\<lambda>s. Inr (Some s))"

fun opt_bool_field :: "string \<Rightarrow> json \<Rightarrow> error + bool option" where
  "opt_bool_field name VNull = Inr None"
| "opt_bool_field name (VBool b) = Inr (Some b)"
| "opt_bool_field name _ = Inl (ValidationError name)"

fun list_field :: "string \<Rightarrow> json \<Rightarrow> error + json list" where
  "list_field name (VList vs) = Inr vs"
| "list_field name _ = Inl (ValidationError name)"

fun dict_field :: "string \<Rightarrow> json \<Rightarrow> error + (string \<times> json) list" where
  "dict_field name (VObj d) = Inr d"
| "dict_field name _ = Inl (ValidationError name)"

definition strs_field :: "string \<Rightarrow> json \<Rightarrow> error + string list" where
  "strs_field name v = bindE (list_field name v) (mapE (str_field name))"

definition dicts_field :: "string \<Rightarrow> json \<Rightarrow> error + json list" where
  "dicts_field name v =
     bindE (list_field name v) (\<lambda>vs. bindE (mapE (dict_field name) vs) (\<lambda>_. Inr vs))"

definition opt_dict_field :: "string \<Rightarrow> json \<Rightarrow> error + json option" where
  "opt_dict_field name v =
     (if v = VNull then Inr None else bindE (dict_field name v) (\<lambda>_. Inr (Some v)))"

definition from_json :: "(string \<times> json) list \<Rightarrow> error + evaluation_case" where
  "from_json raw =
     bindE (of_optionE (KeyError (repr_str ''id'')) (dict_get raw ''id'')) (\<lambda>i.
     bindE (str_field ''case_id'' i) (\<lambda>i.
     bindE (str_field ''category'' (raw_get raw ''category'' (VStr []))) (\<lambda>cat.
     bindE (strs_field ''tags'' (raw_get raw ''tags'' (VList []))) (\<lambda>tgs.
     bindE (opt_str_field ''role'' (raw_get raw ''role'' VNull)) (\<lambda>rl.
     bindE (str_field ''question'' (raw_get raw ''question'' (VStr []))) (\<lambda>q.
     bindE (str_field ''expected_status'' (raw_get raw ''expected_status'' (VStr []))) (\<lambda>status.
     bindE (opt_str_field ''expected_trust'' (raw_get raw ''expected_trust'' VNull)) (\<lambda>trust.
     bindE (strs_field ''expected_tools'' (raw_get raw ''expected_tools'' (VList []))) (\<lambda>tools.
     bindE (strs_field ''expected_citations'' (raw_get raw ''expected_citations'' (VList []))) (\<lambda>cites.
     bindE (dicts_field ''expected_conflicts'' (raw_get raw ''expected_conflicts'' (VList []))) (\<lambda>confs.
     bindE (dict_field ''expected_facts'' (raw_get raw ''expected_facts'' (VObj []))) (\<lambda>facts.
     bindE (opt_bool_field ''expected_assumptions_nonempty'' (raw_get raw ''expected_assumptions_nonempty'' VNull)) (\<lambda>assum.
     bindE (strs_field ''must_not'' (raw_get raw ''must_not'' (VList []))) (\<lambda>mustnt.
     bindE (opt_str_field ''enforcement_layer'' (raw_get raw ''enforcement_layer'' VNull)) (\<lambda>layer.
     bindE (opt_str_field ''notes'' (raw_get raw ''notes'' VNull)) (\<lambda>notes.
     bindE (opt_dict_field ''fixture'' (raw_get raw ''fixture'' VNull)) (\<lambda>fix.
     Inr \<lparr>case_id = i, category = cat, tags = tgs, case_role = rl, case_scope = raw_get raw ''account_scope'' VNull,
          question = q, expected_status = status, expected_trust = trust, expected_tools = tools,
          expected_citations = cites, expected_conflicts = confs, expected_facts = facts,
          expected_assumptions_nonempty = assum, must_not = mustnt, enforcement_layer = layer, case_notes = notes,
          fixture = fix\<rparr>)))))))))))))))))"

text \<open>\<open>raw["cases"]\<close> and iteration over a JSON value.\<close>

fun json_item :: "json \<Rightarrow> string \<Rightarrow> error + json" where
  "json_item (VObj d) key = of_optionE (KeyError (repr_str key)) (dict_get d key)"
| "json_item _ key = Inl (TypeError ''not subscriptable by a string'')"

fun json_iter :: "json \<Rightarrow> error + json list" where
  "json_iter (VList vs) = Inr vs"
| "json_iter (VStr s) = Inr (map (\<lambda>c. VStr [c]) s)"
| "json_iter (VObj d) = Inr (map VStr (dict_keys d))"
| "json_iter _ = Inl (TypeError ''object is not iterable'')"

fun case_of_json :: "json \<Rightarrow> error + evaluation_case" where
  "case_of_json (VObj d) = from_json d"
| "case_of_json _ = Inl (TypeError ''not subscriptable by a string'')"

definition load_golden_cases :: "json \<Rightarrow> error + evaluation_case list" where
  "load_golden_cases raw =
     bindE (json_item raw ''cases'') (\<lambda>v. bindE (json_iter v) (mapE case_of_json))"

definition is_real_query :: "evaluation_case \<Rightarrow> bool" where
  "is_real_query c = (question c \<noteq> [] \<and> \<not> starts_with ''['' (question c))"

text \<open>One citation of the loop, then the loop.\<close>

definition document_source :: "string \<Rightarrow> string option" where
  "document_source citation =
     (let source_id = split_first '':'' citation in
      if starts_with ''SRC-0'' source_id \<and> source_id \<noteq> ''SRC-07'' then Some source_id else None)"

definition expected_document_sources :: "evaluation_case \<Rightarrow> string list" where
  "expected_document_sources c = dedup_by id [] (List.map_filter document_source (expected_citations c))"

section \<open>Extracting the facts a calculator decides\<close>

fun cancellation_decision_value :: "cancellation_decision \<Rightarrow> string" where
  "cancellation_decision_value can_cancel = ''can_cancel''"
| "cancellation_decision_value cannot_cancel = ''cannot_cancel''"
| "cancellation_decision_value no_action_needed = ''no_action_needed''"

fun delay_reference_value :: "delay_reference \<Rightarrow> string" where
  "delay_reference_value ref_pickup_actual_at = ''pickup_actual_at''"
| "delay_reference_value ref_snapshot = ''snapshot''"

definition opt_json :: "('a \<Rightarrow> json) \<Rightarrow> 'a option \<Rightarrow> json" where
  "opt_json f v = (case v of None \<Rightarrow> VNull | Some x \<Rightarrow> f x)"

text \<open>\<open>result.model_dump(mode="json")\<close>. The SLA deadline, an ISO text no extractor reads, is left out.\<close>

fun result_dict :: "outcome_payload \<Rightarrow> (string \<times> json) list" where
  "result_dict (CancellationPayload out) =
     [(''decision'', VStr (cancellation_decision_value (co_decision out))), (''fee_inr'', opt_json VFloat (co_fee_inr out)),
      (''applicable_rule'', VStr (co_applicable_rule out)), (''order_status'', VStr (order_status_value (co_order_status out))),
      (''minutes_since_booking'', opt_json VFloat (co_minutes_since_booking out))]"
| "result_dict (ServiceCreditPayload out) =
     [(''eligible'', VBool (sc_eligible out)), (''credit_inr'', opt_json VFloat (sc_credit_inr out)),
      (''applicable_rule'', VStr (sc_applicable_rule out)), (''delay_hours'', opt_json VFloat (sc_delay_hours out)),
      (''delay_reference'', opt_json (VStr \<circ> delay_reference_value) (sc_delay_reference out)),
      (''manager_approval_required'', VBool (sc_manager_approval_required out))]"
| "result_dict (SlaPayload out) =
     [(''severity'', VStr (severity_value (sla_severity out))), (''applicable_source_id'', VStr (sla_applicable_source_id out)),
      (''target_text'', VStr (sla_target_text out)), (''target_minutes'', opt_json VInt (sla_target_minutes out)),
      (''is_24x7'', VBool (sla_is_24x7 out)),
      (''elapsed_minutes_past_deadline'', opt_json VFloat (sla_elapsed_minutes_past_deadline out)),
      (''breached'', opt_json VBool (sla_breached out))]"
| "result_dict (SeverityPayload out) =
     [(''severity'', opt_json (VStr \<circ> severity_value) (so_severity out)),
      (''matched_signal_count'', VObj (map (\<lambda>(s, n). (s, VInt n)) (matched_signal_count out))),
      (''matched_definition'', opt_json VStr (matched_definition out))]"

type_synonym extractor = "(string \<times> json) list \<Rightarrow> error + json"

definition get_key :: "string \<Rightarrow> extractor" where
  "get_key key d = of_optionE (KeyError (repr_str key)) (dict_get d key)"

fun FIELD_EXTRACTORS :: "calculation_type \<Rightarrow> (string \<times> extractor) list" where
  "FIELD_EXTRACTORS CALC_CANCELLATION =
     [(''fee_inr'', get_key ''fee_inr''), (''minutes_since_booking'', get_key ''minutes_since_booking''),
      (''order_status'', get_key ''order_status''),
      (''can_cancel'', \<lambda>d. bindE (get_key ''decision'' d) (\<lambda>v. Inr (VBool (v = VStr ''can_cancel''))))]"
| "FIELD_EXTRACTORS CALC_SERVICE_CREDIT =
     [(''eligible'', get_key ''eligible''), (''credit_inr'', get_key ''credit_inr''),
      (''delay_hours_at_snapshot'', get_key ''delay_hours''),
      (''manager_approval_required'', get_key ''manager_approval_required'')]"
| "FIELD_EXTRACTORS CALC_SLA =
     [(''breached'', get_key ''breached''), (''target_minutes'', get_key ''target_minutes''),
      (''breached_by_minutes'', get_key ''elapsed_minutes_past_deadline'')]"
| "FIELD_EXTRACTORS CALC_SEVERITY = [(''derived_severity'', get_key ''severity'')]"

text \<open>Python's \<open>==\<close> of a scalar with a JSON value: booleans and numbers compare as numbers.\<close>

fun numeric :: "json \<Rightarrow> pyfloat option" where
  "numeric (VBool b) = Some (if b then 1 else 0)"
| "numeric (VInt i) = Some (of_int i)"
| "numeric (VFloat x) = Some x"
| "numeric _ = None"

definition py_eq :: "json \<Rightarrow> json \<Rightarrow> bool" where
  "py_eq a b = (case (numeric a, numeric b) of (Some x, Some y) \<Rightarrow> x = y | (None, None) \<Rightarrow> a = b | _ \<Rightarrow> False)"

section \<open>Checking a case\<close>

text \<open>A mismatch is the field with the two values its message shows.\<close>

record case_check_result =
  cc_case_id :: string
  cc_calculation_type :: calculation_type
  cc_checked :: "string list"
  cc_skipped :: "string list"
  cc_mismatches :: "(string \<times> json \<times> json) list"

definition passed :: "case_check_result \<Rightarrow> bool" where
  "passed r = (cc_mismatches r = [])"

text \<open>One expected fact: the lists of the loop, after it.\<close>

definition check_fact ::
  "calculation_type \<Rightarrow> (string \<times> json) list \<Rightarrow> string \<times> json \<Rightarrow> case_check_result \<Rightarrow> error + case_check_result" where
  "check_fact ty res entry r =
     (case entry of (field, expected) \<Rightarrow>
        case dict_get (FIELD_EXTRACTORS ty) field of
          None \<Rightarrow> Inr (r\<lparr>cc_skipped := cc_skipped r @ [field]\<rparr>)
        | Some extract \<Rightarrow>
            bindE (extract res) (\<lambda>actual.
            Inr (if \<not> py_eq actual expected
                 then r\<lparr>cc_mismatches := cc_mismatches r @ [(field, expected, actual)]\<rparr>
                 else r\<lparr>cc_checked := cc_checked r @ [field]\<rparr>)))"

fun check_facts ::
  "calculation_type \<Rightarrow> (string \<times> json) list \<Rightarrow> (string \<times> json) list \<Rightarrow> case_check_result \<Rightarrow> error + case_check_result" where
  "check_facts ty res [] r = Inr r"
| "check_facts ty res (entry # entries) r = bindE (check_fact ty res entry r) (check_facts ty res entries)"

definition check_case_against_result ::
  "evaluation_case \<Rightarrow> calculation_type \<Rightarrow> (string \<times> json) list \<Rightarrow> error + case_check_result" where
  "check_case_against_result c ty res =
     check_facts ty res (expected_facts c)
       \<lparr>cc_case_id = case_id c, cc_calculation_type = ty, cc_checked = [], cc_skipped = [], cc_mismatches = []\<rparr>"

text \<open>\<open>citation.split(":")[2]\<close> of a citation with its two prefixes.\<close>

fun entity_of_citations :: "string list \<Rightarrow> (string \<times> string) option" where
  "entity_of_citations [] = None"
| "entity_of_citations (citation # rest) =
     (if starts_with ''SRC-07:orders:'' citation
      then Some (''orders'', split_first '':'' (removeprefix ''SRC-07:orders:'' citation))
      else if starts_with ''SRC-07:tickets:'' citation
      then Some (''tickets'', split_first '':'' (removeprefix ''SRC-07:tickets:'' citation))
      else entity_of_citations rest)"

definition entity_ref :: "evaluation_case \<Rightarrow> (string \<times> string) option" where
  "entity_ref c = entity_of_citations (expected_citations c)"

section \<open>What a check reports\<close>

fun payload_type :: "outcome_payload \<Rightarrow> calculation_type" where
  "payload_type (CancellationPayload _) = CALC_CANCELLATION"
| "payload_type (ServiceCreditPayload _) = CALC_SERVICE_CREDIT"
| "payload_type (SlaPayload _) = CALC_SLA"
| "payload_type (SeverityPayload _) = CALC_SEVERITY"

lemma tool_payload_type:
  "calculate_outcome conn ty i auth clk = Inr (CalculationOutput res) \<Longrightarrow> out_result res = Some p \<Longrightarrow> payload_type p = ty"
  by (cases ty) (auto simp: bindE_eq_Inr from_decision_def)

text \<open>The value an expected fact is compared with, where a calculator decides it.\<close>

definition decided_value :: "outcome_payload \<Rightarrow> string \<Rightarrow> json option" where
  "decided_value p field =
     (case dict_get (FIELD_EXTRACTORS (payload_type p)) field of
        None \<Rightarrow> None
      | Some extract \<Rightarrow> (case extract (result_dict p) of Inl _ \<Rightarrow> None | Inr v \<Rightarrow> Some v))"

lemma extractors_total:
  assumes "dict_get (FIELD_EXTRACTORS (payload_type p)) field = Some extract"
  shows "\<exists>v. extract (result_dict p) = Inr v"
proof -
  have "extract \<in> set (dict_values (FIELD_EXTRACTORS (payload_type p)))" using dict_get_mem [OF assms] by force
  then show ?thesis by (cases p) (auto simp: get_key_def)
qed

lemma decided_value_None:
  "decided_value p field = None \<longleftrightarrow> dict_get (FIELD_EXTRACTORS (payload_type p)) field = None"
  using extractors_total [of p field] by (auto simp: decided_value_def split: option.splits sum.splits)

definition agrees :: "outcome_payload \<Rightarrow> string \<times> json \<Rightarrow> bool" where
  "agrees p entry = (case decided_value p (fst entry) of None \<Rightarrow> False | Some v \<Rightarrow> py_eq v (snd entry))"

definition differs :: "outcome_payload \<Rightarrow> string \<times> json \<Rightarrow> bool" where
  "differs p entry = (case decided_value p (fst entry) of None \<Rightarrow> False | Some v \<Rightarrow> \<not> py_eq v (snd entry))"

lemma check_fact_eq:
  "check_fact (payload_type p) (result_dict p) entry r =
     Inr (r\<lparr>cc_checked := cc_checked r @ (if agrees p entry then [fst entry] else []),
       cc_skipped := cc_skipped r @ (if decided_value p (fst entry) = None then [fst entry] else []),
       cc_mismatches := cc_mismatches r @
         (if differs p entry then [(fst entry, snd entry, the (decided_value p (fst entry)))] else [])\<rparr>)"
proof (cases "dict_get (FIELD_EXTRACTORS (payload_type p)) (fst entry)")
  case None
  then have "decided_value p (fst entry) = None" by (simp add: decided_value_None)
  with None show ?thesis by (cases entry) (simp add: check_fact_def agrees_def differs_def)
next
  case (Some ext)
  from extractors_total [OF Some] obtain v where "ext (result_dict p) = Inr v" by blast
  with Some have "decided_value p (fst entry) = Some v" by (simp add: decided_value_def)
  with Some \<open>ext (result_dict p) = Inr v\<close> show ?thesis
    by (cases entry) (simp add: check_fact_def agrees_def differs_def)
qed

lemma check_facts_eq:
  "check_facts (payload_type p) (result_dict p) entries r =
     Inr (r\<lparr>cc_checked := cc_checked r @ map fst (filter (agrees p) entries),
       cc_skipped := cc_skipped r @ map fst (filter (\<lambda>e. decided_value p (fst e) = None) entries),
       cc_mismatches := cc_mismatches r @
         map (\<lambda>e. (fst e, snd e, the (decided_value p (fst e)))) (filter (differs p) entries)\<rparr>)"
  by (induction entries arbitrary: r) (simp_all add: check_fact_eq)

lemma three_way_partition:
  "mset (map fst entries) = mset (map fst (filter (agrees p) entries))
     + mset (map fst (filter (\<lambda>e. decided_value p (fst e) = None) entries)) + mset (map fst (filter (differs p) entries))"
  by (induction entries) (auto simp: agrees_def differs_def split: option.splits)

text \<open>C37. Checking a golden case against an outcome of a calculator always completes and hides
  nothing: every expected fact is counted exactly once as checked, skipped or mismatched, it is
  skipped exactly when the calculator does not decide it, and the case passes exactly when
  every fact the calculator decides equals, as Python compares them, the expected value.\<close>

theorem golden_check_hides_nothing:
  "\<exists>r. check_case_against_result c (payload_type p) (result_dict p) = Inr r
    \<and> mset (dict_keys (expected_facts c)) = mset (cc_checked r) + mset (cc_skipped r) + mset (map fst (cc_mismatches r))
    \<and> set (cc_skipped r) = set (dict_keys (expected_facts c)) - set (dict_keys (FIELD_EXTRACTORS (payload_type p)))
    \<and> passed r = list_all (\<lambda>(field, expected). case decided_value p field of None \<Rightarrow> True | Some v \<Rightarrow> py_eq v expected)
        (expected_facts c)"
proof -
  let ?facts = "expected_facts c"
  obtain r where r: "check_case_against_result c (payload_type p) (result_dict p) = Inr r"
    and checked: "cc_checked r = map fst (filter (agrees p) ?facts)"
    and skipped: "cc_skipped r = map fst (filter (\<lambda>e. decided_value p (fst e) = None) ?facts)"
    and mismatched: "cc_mismatches r = map (\<lambda>e. (fst e, snd e, the (decided_value p (fst e)))) (filter (differs p) ?facts)"
    by (simp add: check_case_against_result_def check_facts_eq)
  have "map fst (cc_mismatches r) = map fst (filter (differs p) ?facts)" by (simp add: mismatched)
  then have "mset (dict_keys ?facts) = mset (cc_checked r) + mset (cc_skipped r) + mset (map fst (cc_mismatches r))"
    unfolding checked skipped by (simp only: three_way_partition)
  moreover have "set (cc_skipped r) = set (dict_keys ?facts) - set (dict_keys (FIELD_EXTRACTORS (payload_type p)))"
    by (auto simp: skipped decided_value_None dict_get_None)
  moreover have "passed r \<longleftrightarrow> (\<forall>e \<in> set ?facts. \<not> differs p e)"
    by (simp add: passed_def mismatched filter_empty_conv)
  then have "passed r = list_all (\<lambda>(field, expected). case decided_value p field of None \<Rightarrow> True | Some v \<Rightarrow> py_eq v expected) ?facts"
    by (auto simp: differs_def list_all_iff split: option.splits)
  ultimately show ?thesis using r by blast
qed

end
