(* ===== verification/Timing_Stats.thy ===== *)
theory Timing_Stats
  imports Errors Py_Float
begin

text \<open>
  \<open>app/observability/timing.py\<close> and the statistics of \<open>scripts/run_api_load_test.py\<close>: latency
  samples, nearest-rank percentiles and the summary of one concurrency level. The readings of
  the clock and the answers of the server are arguments; every operation on them rounds as the
  program's floats do.
\<close>

section \<open>Lists by a Python index\<close>

definition py_index :: "'a list \<Rightarrow> int \<Rightarrow> error + 'a" where
  "py_index xs i =
     (let n = int (length xs) in
      if 0 \<le> i \<and> i < n then Inr (xs ! nat i)
      else if - n \<le> i \<and> i < 0 then Inr (xs ! nat (n + i))
      else Inl (IndexError ''list index out of range''))"

lemma py_index_nonneg [simp]: "i < length xs \<Longrightarrow> py_index xs (int i) = Inr (xs ! i)"
  by (simp add: py_index_def Let_def)

lemma py_index_last [simp]: "xs \<noteq> [] \<Longrightarrow> py_index xs (- 1) = Inr (last xs)"
  by (cases xs rule: rev_cases) (simp_all add: py_index_def Let_def)

lemma py_index_mem: "py_index xs i = Inr x \<Longrightarrow> x \<in> set xs"
  by (auto simp: py_index_def Let_def split: if_splits)

section \<open>Timings\<close>

text \<open>\<open>Timings.measure\<close>: the sample is appended whether or not the measured block raises.\<close>

definition sample_ms :: "pyfloat \<Rightarrow> pyfloat \<Rightarrow> pyfloat" where
  "sample_ms start stop = fl (fl (stop - start) * 1000)"

definition measure :: "pyfloat list \<Rightarrow> pyfloat \<Rightarrow> pyfloat \<Rightarrow> error + 'a \<Rightarrow> pyfloat list \<times> (error + 'a)" where
  "measure samples_ms start stop body = (samples_ms @ [sample_ms start stop], body)"

definition percentile :: "pyfloat list \<Rightarrow> pyfloat \<Rightarrow> error + pyfloat" where
  "percentile samples_ms p =
     (if samples_ms = [] then Inr 0
      else
        let data = sort samples_ms; n = int (length data);
            idx = min (round_half_even (fl (fl (p / 100) * of_int (n - 1)))) (n - 1)
        in py_index data idx)"

definition p50 :: "pyfloat list \<Rightarrow> error + pyfloat" where
  "p50 samples_ms = percentile samples_ms 50"

definition p95 :: "pyfloat list \<Rightarrow> error + pyfloat" where
  "p95 samples_ms = percentile samples_ms 95"

section \<open>Rounding and the median\<close>

text \<open>\<open>round(x, 2)\<close>: the double nearest to the exact value's nearest hundredth.\<close>

definition round2 :: "pyfloat \<Rightarrow> pyfloat" where
  "round2 x = fl (of_int (round_half_even (x * 100)) / 100)"

text \<open>\<open>statistics.median\<close> of sorted data.\<close>

definition median :: "pyfloat list \<Rightarrow> error + pyfloat" where
  "median data =
     (let n = length data in
      if n = 0 then Inl (ValueError ''no median for empty data'')
      else if odd n then Inr (data ! (n div 2))
      else Inr (fl (fl (data ! (n div 2 - 1) + data ! (n div 2)) / 2)))"

section \<open>One level of the load test\<close>

text \<open>One request: its two clock readings and the status of the answer, or none when the client
  raised an \<open>HTTPError\<close>.\<close>

record probe =
  pr_start :: pyfloat
  pr_stop :: pyfloat
  pr_status :: "int option"

definition one_request :: "probe \<Rightarrow> pyfloat \<times> int" where
  "one_request r = (sample_ms (pr_start r) (pr_stop r), case pr_status r of None \<Rightarrow> - 1 | Some s \<Rightarrow> s)"

record level_row =
  lv_concurrency :: nat
  lv_requests :: nat
  lv_errors :: nat
  lv_requests_per_sec :: pyfloat
  lv_p50_ms :: pyfloat
  lv_p95_ms :: pyfloat
  lv_max_ms :: pyfloat

text \<open>\<open>probes i\<close> is the \<open>i\<close>-th request the pool sends; a pool of no workers is refused.\<close>

definition run_level :: "(nat \<Rightarrow> probe) \<Rightarrow> pyfloat \<Rightarrow> nat \<Rightarrow> error + level_row" where
  "run_level probes wall_seconds concurrency =
     bindE (requireE (0 < concurrency) (ValueError ''max_workers must be greater than 0'')) (\<lambda>_.
     let results = map (\<lambda>i. one_request (probes i)) [0..<concurrency];
         latencies = sort (map fst results);
         errors = length (filter (\<lambda>(lat, status). status < 200 \<or> 400 \<le> status) results)
     in
     bindE (median latencies) (\<lambda>mid.
     bindE (py_index latencies (\<lfloor>fl (of_nat (length latencies) * fl (95 / 100))\<rfloor> - 1)) (\<lambda>high.
     bindE (py_index latencies (- 1)) (\<lambda>top.
     Inr \<lparr>lv_concurrency = concurrency, lv_requests = length results, lv_errors = errors,
          lv_requests_per_sec =
            (if 0 < wall_seconds then round2 (fl (of_nat (length results) / wall_seconds)) else 0),
          lv_p50_ms = round2 mid, lv_p95_ms = round2 high, lv_max_ms = round2 top\<rparr>))))"

section \<open>More about rounding\<close>

lemma fexp_unique:
  assumes "2 powi e \<le> x" "x < 2 powi (e + 1)"
  shows "fexp x = e"
proof -
  have "0 < x" using assms(1) powi_two_pos [of e] by linarith
  from fexp_bounds [OF this] assms have "(2::rat) powi fexp x < 2 powi (e + 1)" "(2::rat) powi e < 2 powi (fexp x + 1)"
    by linarith+
  then have "fexp x < e + 1" "e < fexp x + 1" by (meson one_le_numeral power_int_increasing not_le)+
  then show ?thesis by simp
qed

lemma fexp_double: "0 < x \<Longrightarrow> fexp (2 * x) = fexp x + 1"
  using fexp_bounds [of x] by (intro fexp_unique) (auto simp: power_int_add)

lemma fl_double: "fl (2 * x) = 2 * fl x"
proof -
  have "fl_pos (2 * y) = 2 * fl_pos y" if "0 < y" for y
    using fexp_double [OF that] by (simp add: fl_pos_def Let_def power_int_add power_int_diff mult.commute [of y])
  from this [of x] this [of "- x"] show ?thesis by (simp add: fl_def)
qed

lemma fl_pos_idem:
  assumes "0 < x"
  shows "fl (fl_pos x) = fl_pos x"
proof -
  let ?s = "(2::rat) powi (fexp x - 52)"
  have "(2::rat) powi (fexp x + 1) = 2 ^ 53 * ?s" using power_int_add [of "2::rat" 53 "fexp x - 52"] by (simp add: add.commute)
  with fexp_bounds [OF assms] have "x / ?s < 2 ^ 53" "0 \<le> x / ?s"
    using assms by (simp_all add: divide_less_eq)
  then have "round_half_even (x / ?s) \<le> 2 ^ 53" "0 \<le> round_half_even (x / ?s)"
    using round_half_even_mono [of "x / ?s" "of_int (2 ^ 53)"] round_half_even_mono [of "of_int 0" "x / ?s"]
    unfolding round_half_even_of_int by simp_all
  with fl_dyadic [of "round_half_even (x / ?s)" "fexp x - 52"] show ?thesis
    by (simp add: fl_pos_def Let_def)
qed

lemma fl_idem [simp]: "fl (fl x) = fl x"
  using fl_pos_idem [of x] fl_pos_idem [of "- x"] by (cases x "0::rat" rule: linorder_cases) (auto simp: fl_def)

lemma fl_of_nat: "n \<le> 2 ^ 53 \<Longrightarrow> fl (of_nat n) = of_nat n"
  using fl_of_int [of "int n"] by simp

lemma round_half_even_le: "x \<le> of_int m \<Longrightarrow> round_half_even x \<le> m"
  using round_half_even_mono [of x "of_int m"] by simp

lemma round_half_even_ge: "of_int m \<le> x \<Longrightarrow> m \<le> round_half_even x"
  using round_half_even_mono [of "of_int m" x] by simp

lemma round2_mono: "x \<le> y \<Longrightarrow> round2 x \<le> round2 y"
  unfolding round2_def by (intro fl_mono divide_right_mono) (simp_all add: round_half_even_mono)

section \<open>Percentiles are ordered samples\<close>

text \<open>The rank a percentile reads, and that it grows with the percentage.\<close>

definition rank :: "nat \<Rightarrow> pyfloat \<Rightarrow> int" where
  "rank n p = min (round_half_even (fl (fl (p / 100) * of_int (int n - 1)))) (int n - 1)"

lemma percentile_rank: "s \<noteq> [] \<Longrightarrow> percentile s p = py_index (sort s) (rank (length s) p)"
  by (simp add: percentile_def rank_def Let_def)

lemma rank_bounds: "0 < n \<Longrightarrow> 0 \<le> p \<Longrightarrow> 0 \<le> rank n p \<and> rank n p < int n"
  using round_half_even_ge [of 0 "fl (fl (p / 100) * of_int (int n - 1))"] by (simp add: rank_def)

lemma rank_mono:
  assumes "p \<le> q" "0 < n"
  shows "rank n p \<le> rank n q"
proof -
  have "fl (p / 100) * of_int (int n - 1) \<le> fl (q / 100) * of_int (int n - 1)"
    using assms by (intro mult_right_mono fl_mono divide_right_mono) auto
  from round_half_even_mono [OF fl_mono [OF this]] show ?thesis unfolding rank_def by (intro min.mono) simp_all
qed

lemma percentile_sample:
  assumes "s \<noteq> []" "0 \<le> p"
  shows "percentile s p = Inr (sort s ! nat (rank (length s) p))" "nat (rank (length s) p) < length s"
proof -
  from rank_bounds [of "length s" p] assms have "0 \<le> rank (length s) p" "nat (rank (length s) p) < length s" by auto
  with py_index_nonneg [of "nat (rank (length s) p)" "sort s"] assms(1)
  show "percentile s p = Inr (sort s ! nat (rank (length s) p))" "nat (rank (length s) p) < length s"
    by (simp_all add: percentile_rank)
qed

lemma percentile_returns:
  assumes "0 \<le> p"
  shows "\<exists>x. percentile s p = Inr x"
proof (cases "s = []")
  case False
  then show ?thesis using percentile_sample(1) assms by blast
qed (simp add: percentile_def)

text \<open>A percentile of a non-empty series of timings is one of its samples, never an interpolation
  and never an index error, and a larger percentage never reports a smaller one: the p50 of a
  report is at most its p95. An empty series reports zero.\<close>

theorem percentiles_are_ordered_samples:
  assumes "0 \<le> p" "p \<le> q"
  shows "\<exists>x y. percentile samples p = Inr x \<and> percentile samples q = Inr y \<and> x \<le> y
    \<and> (if samples = [] then x = 0 \<and> y = 0 else x \<in> set samples \<and> y \<in> set samples)"
proof (cases "samples = []")
  case False
  let ?n = "length samples" and ?s = "sort samples"
  note r = rank_bounds [of ?n p] rank_bounds [of ?n q] rank_mono [OF assms(2), of ?n]
  note i = percentile_sample [OF False]
  from r False assms have "?s ! nat (rank ?n p) \<le> ?s ! nat (rank ?n q)" by (intro sorted_nth_mono) auto
  moreover have "?s ! nat (rank ?n v) \<in> set samples" if "0 \<le> v" for v
    using nth_mem [of "nat (rank ?n v)" ?s] i(2) [OF that] by simp
  ultimately show ?thesis using i(1) [of p] i(1) [of q] assms False by simp
qed (simp add: percentile_def)

theorem percentiles_are_ordered_samples_witness:
  "\<exists>x y. p50 [4, 1, 3] = Inr x \<and> p95 [4, 1, 3] = Inr y \<and> x \<le> y \<and> y \<in> {4, 1, 3}"
  using percentiles_are_ordered_samples [of 50 95 "[4, 1, 3]"] by (auto simp: p50_def p95_def)

section \<open>The summary of a level\<close>

definition latencies_of :: "(nat \<Rightarrow> probe) \<Rightarrow> nat \<Rightarrow> pyfloat list" where
  "latencies_of probes n = sort (map (fst \<circ> one_request \<circ> probes) [0..<n])"

lemma latencies_floats: "x \<in> set (latencies_of probes n) \<Longrightarrow> fl x = x"
  by (auto simp: latencies_of_def one_request_def sample_ms_def)

lemma latencies_length [simp]: "length (latencies_of probes n) = n"
  by (simp add: latencies_of_def)

lemma latencies_mono: "i \<le> j \<Longrightarrow> j < n \<Longrightarrow> latencies_of probes n ! i \<le> latencies_of probes n ! j"
  by (rule sorted_nth_mono) (simp_all add: latencies_of_def)

lemma median_le:
  assumes "0 < n" "n div 2 \<le> i" "i < n"
  shows "\<exists>m. median (latencies_of probes n) = Inr m \<and> m \<le> latencies_of probes n ! i"
proof (cases "odd n")
  case True
  with assms latencies_mono [of "n div 2" i n probes] show ?thesis by (auto simp: median_def Let_def elim!: oddE)
next
  case False
  let ?l = "latencies_of probes n"
  have "?l ! (n div 2 - 1) + ?l ! (n div 2) \<le> 2 * ?l ! i"
    using latencies_mono [of "n div 2 - 1" i n probes] latencies_mono [of "n div 2" i n probes] assms by linarith
  then have "fl (?l ! (n div 2 - 1) + ?l ! (n div 2)) \<le> 2 * fl (?l ! i)"
    using fl_mono fl_double by metis
  then have "fl (fl (?l ! (n div 2 - 1) + ?l ! (n div 2)) / 2) \<le> fl (fl (?l ! i))" by (intro fl_mono) simp
  with latencies_floats [of "?l ! i" probes n] assms False show ?thesis by (simp add: median_def Let_def)
qed

text \<open>The index of the p95: \<open>int(n * 0.95) - 1\<close>.\<close>

definition high_index :: "nat \<Rightarrow> int" where
  "high_index n = \<lfloor>fl (of_nat n * fl (95 / 100))\<rfloor> - 1"

lemma fl_95: "15 / 16 \<le> fl (95 / 100)" "fl (95 / 100) \<le> 31 / 32"
proof -
  have e: "of_int 15 * (2::rat) powi (- 4) = 15 / 16" "of_int 31 * (2::rat) powi (- 5) = 31 / 32"
    by (simp_all add: power_int_def power_divide)
  have "fl (15 / 16) = 15 / 16" "fl (31 / 32) = 31 / 32"
    using fl_dyadic [of 15 "- 4", unfolded e] fl_dyadic [of 31 "- 5", unfolded e] by simp_all
  then show "15 / 16 \<le> fl (95 / 100)" "fl (95 / 100) \<le> 31 / 32"
    using fl_mono [of "15 / 16" "95 / 100"] fl_mono [of "95 / 100" "31 / 32"] by simp_all
qed

lemma high_index_bounds:
  assumes "n \<le> 2 ^ 53"
  shows "int (15 * n div 16) - 1 \<le> high_index n" "high_index n \<le> int n - 1"
proof -
  have "of_nat (15 * n div 16) \<le> (15 / 16 :: rat) * of_nat n"
    using of_nat_mono [of "16 * (15 * n div 16)" "15 * n", where 'a = rat] by simp
  also have "\<dots> \<le> of_nat n * fl (95 / 100)" using fl_95(1) mult_left_mono [of "15 / 16" "fl (95 / 100)" "of_nat n"] by simp
  finally have "of_int (int (15 * n div 16)) \<le> fl (of_nat n * fl (95 / 100))"
    using assms by (intro fl_ge_of_int) auto
  then have "int (15 * n div 16) \<le> \<lfloor>fl (of_nat n * fl (95 / 100))\<rfloor>" by (simp only: le_floor_iff)
  then show "int (15 * n div 16) - 1 \<le> high_index n" by (simp only: high_index_def)
  have "of_nat n * fl (95 / 100) \<le> of_int (int n)" using fl_95(2) mult_left_mono [of "fl (95 / 100)" 1 "of_nat n"] by simp
  from fl_le_of_int [OF this] assms have "fl (of_nat n * fl (95 / 100)) \<le> of_int (int n)" by simp
  then have "\<lfloor>fl (of_nat n * fl (95 / 100))\<rfloor> \<le> int n" by linarith
  then show "high_index n \<le> int n - 1" by (simp only: high_index_def)
qed

lemma run_level_eq:
  "0 < n \<Longrightarrow> run_level probes wall n =
     bindE (median (latencies_of probes n)) (\<lambda>mid. bindE (py_index (latencies_of probes n) (high_index n)) (\<lambda>high.
     Inr \<lparr>lv_concurrency = n, lv_requests = n,
       lv_errors = length (filter (\<lambda>i. snd (one_request (probes i)) < 200 \<or> 400 \<le> snd (one_request (probes i))) [0..<n]),
       lv_requests_per_sec = (if 0 < wall then round2 (fl (of_nat n / wall)) else 0),
       lv_p50_ms = round2 mid, lv_p95_ms = round2 high, lv_max_ms = round2 (last (latencies_of probes n))\<rparr>))"
proof -
  have l: "sort (map fst (map (\<lambda>i. one_request (probes i)) [0..<n])) = latencies_of probes n"
    by (simp add: latencies_of_def comp_def)
  have f: "length (filter (\<lambda>(lat, status). status < 200 \<or> 400 \<le> status) (map (\<lambda>i. one_request (probes i)) [0..<n]))
      = length (filter (\<lambda>i. snd (one_request (probes i)) < 200 \<or> 400 \<le> snd (one_request (probes i))) [0..<n])"
    by (simp add: filter_map comp_def case_prod_unfold)
  have "0 < n \<Longrightarrow> latencies_of probes n \<noteq> []" using latencies_length [of probes n] by fastforce
  then show "0 < n \<Longrightarrow> ?thesis" unfolding run_level_def Let_def l f by (simp add: high_index_def)
qed

lemma last_latency: "0 < n \<Longrightarrow> last (latencies_of probes n) = latencies_of probes n ! (n - 1)"
  using last_conv_nth [of "latencies_of probes n"] latencies_length [of probes n] by fastforce

lemma level_of_index:
  assumes "0 < n" "median (latencies_of probes n) = Inr mid" "j < n"
    and "py_index (latencies_of probes n) (high_index n) = Inr (latencies_of probes n ! j)"
  shows "\<exists>row. run_level probes wall n = Inr row \<and> lv_errors row \<le> lv_requests row \<and> lv_p95_ms row \<le> lv_max_ms row
    \<and> lv_p50_ms row = round2 mid \<and> lv_p95_ms row = round2 (latencies_of probes n ! j)"
proof -
  have "length (filter P [0..<n]) \<le> n" for P using length_filter_le [of P "[0..<n]"] by simp
  moreover have "round2 (latencies_of probes n ! j) \<le> round2 (last (latencies_of probes n))"
    using latencies_mono [of j "n - 1" n probes] assms(1,3) by (intro round2_mono) (simp add: last_latency)
  ultimately show ?thesis using assms by (simp add: run_level_eq)
qed

lemma high_index_2: "high_index 2 = 0"
proof -
  have "fl (of_nat 2 * fl (95 / 100)) = 2 * fl (95 / 100)" using fl_double [of "fl (95 / 100)"] by simp
  then have "fl (of_nat 2 * fl (95 / 100)) < of_int 2" using fl_95(2) by simp
  then have "high_index 2 < 1" by (simp only: high_index_def) linarith
  with high_index_bounds(1) [of 2] show ?thesis by simp
qed

lemma latencies_two:
  "latencies_of probes 2 = [min (fst (one_request (probes 0))) (fst (one_request (probes 1))),
     max (fst (one_request (probes 0))) (fst (one_request (probes 1)))]"
  by (auto simp: latencies_of_def numeral_2_eq_2 min_def max_def)

lemma median_two:
  "\<exists>m. median (latencies_of probes 2) = Inr m \<and> latencies_of probes 2 ! 0 \<le> m"
proof -
  let ?l = "latencies_of probes 2"
  have "2 * ?l ! 0 \<le> ?l ! 0 + ?l ! 1" using latencies_mono [of 0 1 2 probes] by linarith
  then have "2 * fl (?l ! 0) \<le> fl (?l ! 0 + ?l ! 1)" using fl_mono fl_double by metis
  then have "fl (fl (?l ! 0)) \<le> fl (fl (?l ! 0 + ?l ! 1) / 2)" by (intro fl_mono) simp
  with latencies_floats [of "?l ! 0" probes 2] show ?thesis by (simp add: median_def Let_def)
qed

text \<open>The summary of a load level of at least one request always comes out, counts no more errors
  than requests, and is ordered, p50 at most p95 at most the maximum, at every concurrency but
  two: there the index \<open>int(n * 0.95) - 1\<close> is zero, so the p95 reported is the faster of
  the two requests and lies at or below the p50.\<close>

theorem load_level_ordered_except_two:
  assumes "0 < n" "n \<le> 2 ^ 53"
  shows "\<exists>row. run_level probes wall n = Inr row \<and> lv_errors row \<le> lv_requests row \<and> lv_p95_ms row \<le> lv_max_ms row
    \<and> (if n = 2 then lv_p95_ms row \<le> lv_p50_ms row
         \<and> lv_p95_ms row = round2 (min (fst (one_request (probes 0))) (fst (one_request (probes 1))))
       else lv_p50_ms row \<le> lv_p95_ms row)"
proof -
  let ?l = "latencies_of probes n"
  consider "n = 1" | "n = 2" | "2 < n" using assms(1) by linarith
  then show ?thesis
  proof cases
    case 1
    with high_index_bounds [of n] have "high_index n = - 1 \<or> high_index n = 0" by auto
    moreover have "?l \<noteq> []" using latencies_length [of probes n] 1 by (metis list.size(3) zero_neq_one)
    ultimately have "py_index ?l (high_index n) = Inr (?l ! 0)"
      using py_index_nonneg [of 0 ?l] last_latency [of n probes] 1 by auto
    moreover have "median ?l = Inr (?l ! 0)" using 1 by (simp add: median_def Let_def)
    ultimately show ?thesis using level_of_index [of n probes "?l ! 0" 0 wall] 1 by auto
  next
    case 2
    obtain m where "median ?l = Inr m" "?l ! 0 \<le> m" using median_two 2 by blast
    moreover have "py_index ?l (high_index n) = Inr (?l ! 0)" using 2 py_index_nonneg [of 0 ?l] by (simp add: high_index_2)
    ultimately show ?thesis using level_of_index [of n probes m 0 wall] 2 round2_mono [of "?l ! 0" m]
      by (auto simp: latencies_two)
  next
    case 3
    define j where "j = nat (high_index n)"
    from 3 high_index_bounds [OF assms(2)] have "int (n div 2) \<le> high_index n" "high_index n < int n" by linarith+
    then have j: "high_index n = int j" "n div 2 \<le> j" "j < n" by (auto simp: j_def)
    obtain m where "median ?l = Inr m" "m \<le> ?l ! j" using median_le [OF assms(1) j(2,3)] by blast
    moreover have "py_index ?l (high_index n) = Inr (?l ! j)" using j by simp
    ultimately show ?thesis using level_of_index [of n probes m j wall] 3 j(3) round2_mono [of m "?l ! j"] by auto
  qed
qed

theorem load_level_ordered_except_two_witness:
  "\<exists>row. run_level (\<lambda>i. \<lparr>pr_start = 0, pr_stop = of_nat i, pr_status = Some 200\<rparr>) 1 2 = Inr row
     \<and> lv_p95_ms row \<le> lv_p50_ms row"
  using load_level_ordered_except_two [of 2] by fastforce

end
