(* ===== verification/Retrieval_Eval.thy ===== *)
theory Retrieval_Eval
  imports Eval_Cases Timing_Stats Ingestion
begin

text \<open>
  \<open>scripts/run_retrieval_eval.py\<close>: the golden cases a retriever can be asked, one search for
  each, the rank of the first expected source, and the recall figures of the report. The full
  text engine is the parameter of the search; the clock readings around each search are an
  argument. The report itself is in \<open>Eval_Reports\<close>; its two lists of misses are here.
\<close>

section \<open>Which cases are asked\<close>

definition DOC_SOURCE_PATTERN :: "re list" where
  "DOC_SOURCE_PATTERN = [seqs [lit ''SRC-0'', Cls (\<lambda>c. c \<in> set ''123456'')], Chr (CHR '':'')]"

definition doc_source :: "string \<Rightarrow> string option" where
  "doc_source citation =
     (case match_parts DOC_SOURCE_PATTERN citation of Some [source_id, _] \<Rightarrow> Some source_id | _ \<Rightarrow> None)"

text \<open>A golden case of the file, an object not yet typed.\<close>

type_synonym raw_case = "(string \<times> json) list"

definition expected_doc_sources :: "raw_case \<Rightarrow> error + string list" where
  "expected_doc_sources raw =
     bindE (strs_field ''expected_citations'' (raw_get raw ''expected_citations'' (VList []))) (\<lambda>citations.
     Inr (dedup_by id [] (List.map_filter doc_source citations)))"

definition eligible_case :: "raw_case \<Rightarrow> error + raw_case option" where
  "eligible_case raw =
     bindE (str_field ''question'' (raw_get raw ''question'' (VStr []))) (\<lambda>q.
     if starts_with ''['' q then Inr None
     else bindE (expected_doc_sources raw) (\<lambda>sources. Inr (if sources = [] then None else Some raw)))"

definition eligible_cases :: "raw_case list \<Rightarrow> error + raw_case list" where
  "eligible_cases golden = collectE eligible_case golden"

section \<open>The evaluation\<close>

record retrieval_row =
  rv_id :: json
  rv_question :: string
  rv_expected :: "string list"
  rv_retrieved :: "string list"
  rv_rank :: "nat option"

text \<open>\<open>next((i + 1 for i, sid in enumerate(retrieved) if sid in expected), None)\<close>.\<close>

fun rank_of :: "string list \<Rightarrow> string list \<Rightarrow> nat option" where
  "rank_of expected [] = None"
| "rank_of expected (sid # retrieved) =
     (if sid \<in> set expected then Some 1 else map_option Suc (rank_of expected retrieved))"

definition evaluate_case :: "fts_engine \<Rightarrow> db \<Rightarrow> raw_case \<Rightarrow> error + retrieval_row" where
  "evaluate_case fts conn raw =
     bindE (expected_doc_sources raw) (\<lambda>expected.
     bindE (bindE (of_optionE (KeyError (repr_str ''question'')) (dict_get raw ''question'')) (str_field ''question'')) (\<lambda>q.
     bindE (search_documents fts conn q
              \<lparr>flt_source_types = None, flt_authority_classes = None, flt_statuses = None, flt_account_scope = None\<rparr> 5) (\<lambda>results.
     let retrieved = map dr_source_id results in
     bindE (of_optionE (KeyError (repr_str ''id'')) (dict_get raw ''id'')) (\<lambda>i.
     Inr \<lparr>rv_id = i, rv_question = q, rv_expected = expected, rv_retrieved = retrieved,
          rv_rank = rank_of expected retrieved\<rparr>))))"

definition hit_within :: "nat \<Rightarrow> retrieval_row \<Rightarrow> bool" where
  "hit_within k row = (case rv_rank row of None \<Rightarrow> False | Some r \<Rightarrow> r \<le> k)"

text \<open>\<open>a / b if b else 0.0\<close> of two counts.\<close>

definition ratio :: "nat \<Rightarrow> nat \<Rightarrow> pyfloat" where
  "ratio a b = (if b = 0 then 0 else fl (of_nat a / of_nat b))"

definition count_hits :: "nat \<Rightarrow> retrieval_row list \<Rightarrow> nat" where
  "count_hits k rows = length (filter (hit_within k) rows)"

definition found_sources :: "retrieval_row \<Rightarrow> nat" where
  "found_sources row = length (filter (\<lambda>sid. sid \<in> set (rv_retrieved row)) (rv_expected row))"

text \<open>\<open>round(x, 3)\<close>.\<close>

definition round3 :: "pyfloat \<Rightarrow> pyfloat" where
  "round3 x = fl (of_int (round_half_even (x * 1000)) / 1000)"

record retrieval_report =
  ev_cases_evaluated :: nat
  ev_recall_at_3 :: pyfloat
  ev_recall_at_5 :: pyfloat
  ev_source_hit_rate :: pyfloat
  ev_latency_p50_ms :: pyfloat
  ev_latency_p95_ms :: pyfloat
  ev_rows :: "retrieval_row list"

text \<open>The loop over the ingested database and the report; \<open>readings i\<close> are the clock readings
  around the \<open>i\<close>-th search.\<close>

definition evaluate_cases ::
  "fts_engine \<Rightarrow> (nat \<Rightarrow> pyfloat \<times> pyfloat) \<Rightarrow> db \<Rightarrow> raw_case list \<Rightarrow> error + retrieval_report" where
  "evaluate_cases fts readings conn golden =
     bindE (eligible_cases golden) (\<lambda>cases.
     bindE (mapE (evaluate_case fts conn) cases) (\<lambda>rows.
     let n = length rows;
         samples = map (\<lambda>i. sample_ms (fst (readings i)) (snd (readings i))) [0..<n];
         total_expected = sum_list (map (\<lambda>row. length (rv_expected row)) rows);
         found_expected = sum_list (map found_sources rows)
     in
     bindE (p50 samples) (\<lambda>mid. bindE (p95 samples) (\<lambda>high.
     Inr \<lparr>ev_cases_evaluated = n, ev_recall_at_3 = ratio (count_hits 3 rows) n, ev_recall_at_5 = ratio (count_hits 5 rows) n,
          ev_source_hit_rate = ratio found_expected total_expected,
          ev_latency_p50_ms = round3 mid, ev_latency_p95_ms = round3 high, ev_rows = rows\<rparr>))))"

definition run_eval ::
  "py_lib \<Rightarrow> pack_readers \<Rightarrow> manifest_entry list \<Rightarrow> source_pack \<Rightarrow> db_file option \<Rightarrow> fts_engine
    \<Rightarrow> (nat \<Rightarrow> pyfloat \<times> pyfloat) \<Rightarrow> raw_case list \<Rightarrow> error + retrieval_report" where
  "run_eval lib readers manifest pack old fts readings golden =
     (case ingest lib readers manifest pack old of
        (_, Inl e) \<Rightarrow> Inl e
      | (None, Inr _) \<Rightarrow> Inl (FileNotFoundError ''database not found'')
      | (Some file, Inr _) \<Rightarrow> evaluate_cases fts readings (file_db file) golden)"

text \<open>The two lists of the report.\<close>

definition failures :: "retrieval_report \<Rightarrow> retrieval_row list" where
  "failures r = filter (\<lambda>row. case rv_rank row of None \<Rightarrow> True | Some k \<Rightarrow> 3 < k) (ev_rows r)"

definition partial_misses :: "retrieval_report \<Rightarrow> (retrieval_row \<times> string list) list" where
  "partial_misses r =
     map (\<lambda>row. (row, filter (\<lambda>sid. sid \<notin> set (rv_retrieved row)) (rv_expected row)))
       (filter (\<lambda>row. \<exists>sid \<in> set (rv_expected row). sid \<notin> set (rv_retrieved row)) (ev_rows r))"

section \<open>The two eligibility rules agree\<close>

text \<open>\<open>_eligible_cases\<close> of \<open>scripts/run_deepeval_baseline.py\<close>, over the typed cases.\<close>

definition baseline_eligible :: "evaluation_case list \<Rightarrow> evaluation_case list" where
  "baseline_eligible cases = filter (\<lambda>c. is_real_query c \<and> expected_document_sources c \<noteq> []) cases"

definition cites_pack :: "string \<Rightarrow> bool" where
  "cites_pack citation =
     (\<not> starts_with ''SRC-0'' citation \<or> (\<exists>d \<in> set ''1234567''. starts_with (''SRC-0'' @ [d] @ '':'') citation))"

lemma doc_source_eq:
  "doc_source citation =
     (case citation of
        c0 # c1 # c2 # c3 # c4 # d # e # _ \<Rightarrow>
          if [c0, c1, c2, c3, c4] = ''SRC-0'' \<and> d \<in> set ''123456'' \<and> e = CHR '':'' then Some (''SRC-0'' @ [d]) else None
      | _ \<Rightarrow> None)"
  by (auto simp: doc_source_def match_parts_def DOC_SOURCE_PATTERN_def consumed_def split: list.splits)

lemma cut_at_prefix: "cut_at sep acc s = Some (a, b) \<Longrightarrow> \<exists>m. a = rev acc @ m \<and> starts_with m s"
proof (induction sep acc s rule: cut_at.induct)
  case (2 sep acc c cs)
  show ?case
  proof (cases "starts_with sep (c # cs)")
    case True
    with 2(2) show ?thesis by (auto intro: exI [of _ "[]"])
  next
    case False
    with 2 obtain m where "a = rev (c # acc) @ m" "starts_with m cs" by auto
    then show ?thesis by (intro exI [of _ "c # m"]) simp
  qed
qed (auto split: if_splits)

lemma split_first_prefix: "starts_with p (split_first sep s) \<Longrightarrow> starts_with p s"
  using cut_at_prefix [of sep "[]" s]
  by (auto simp: split_first_def starts_with_iff split: option.splits prod.splits)

lemma sources_agree:
  assumes "cites_pack citation"
  shows "doc_source citation = document_source citation"
proof (cases "starts_with ''SRC-0'' citation")
  case False
  then have "doc_source citation = None" by (auto simp: doc_source_eq split: list.splits)
  moreover have "document_source citation = None"
    using False split_first_prefix [of "''SRC-0''" "'':''" citation] by (auto simp: document_source_def Let_def)
  ultimately show ?thesis by simp
next
  case True
  with assms obtain d r where d: "d \<in> set ''1234567''" and c: "citation = ''SRC-0'' @ [d] @ '':'' @ r"
    by (auto simp: cites_pack_def starts_with_iff)
  from d have "split_first '':'' citation = ''SRC-0'' @ [d]" unfolding c by (auto simp: split_first_def)
  with d show ?thesis by (auto simp: c doc_source_eq document_source_def Let_def)
qed

lemma map_filter_cong_on: "(\<And>x. x \<in> set xs \<Longrightarrow> f x = g x) \<Longrightarrow> List.map_filter f xs = List.map_filter g xs"
  by (induction xs) (auto simp: map_filter_simps split: option.split)

lemma from_json_fields:
  assumes "from_json raw = Inr c"
  shows "str_field ''question'' (raw_get raw ''question'' (VStr [])) = Inr (question c)"
    and "strs_field ''expected_citations'' (raw_get raw ''expected_citations'' (VList [])) = Inr (expected_citations c)"
  using assms by (auto simp: from_json_def bindE_eq_Inr)

lemma eligible_case_agrees:
  assumes raw: "from_json raw = Inr c" and "question c \<noteq> []" "\<forall>x \<in> set (expected_citations c). cites_pack x"
  shows "eligible_case raw = Inr (if is_real_query c \<and> expected_document_sources c \<noteq> [] then Some raw else None)"
    and "expected_doc_sources raw = Inr (expected_document_sources c)"
proof -
  have "List.map_filter doc_source (expected_citations c) = List.map_filter document_source (expected_citations c)"
    using assms(3) by (intro map_filter_cong_on) (simp add: sources_agree)
  then show e: "expected_doc_sources raw = Inr (expected_document_sources c)"
    by (simp add: expected_doc_sources_def from_json_fields [OF raw] expected_document_sources_def)
  show "eligible_case raw = Inr (if is_real_query c \<and> expected_document_sources c \<noteq> [] then Some raw else None)"
    using assms(2) by (simp add: eligible_case_def from_json_fields [OF raw] e is_real_query_def)
qed

text \<open>The retrieval evaluation, which filters the raw golden file by a regular expression, and the
  DeepEval baseline, which filters the typed cases by a split and a prefix test, ask exactly
  the same cases in the same order, as long as every question is non-empty and every citation
  of a pack source names one of \<open>SRC-01\<close> to \<open>SRC-07\<close> followed by a colon.\<close>

theorem eligibility_rules_agree:
  assumes "mapE from_json golden = Inr cases"
    and "\<forall>c \<in> set cases. question c \<noteq> [] \<and> (\<forall>x \<in> set (expected_citations c). cites_pack x)"
  shows "\<exists>asked. eligible_cases golden = Inr asked \<and> mapE from_json asked = Inr (baseline_eligible cases)"
  using assms
proof (induction golden arbitrary: cases)
  case (Cons raw golden)
  from Cons.prems(1) obtain c rest where c: "from_json raw = Inr c" "mapE from_json golden = Inr rest" "cases = c # rest"
    by (auto simp: bindE_eq_Inr)
  with Cons.IH [OF c(2)] Cons.prems(2) obtain asked where
    "eligible_cases golden = Inr asked" "mapE from_json asked = Inr (baseline_eligible rest)" by auto
  with c eligible_case_agrees(1) [OF c(1)] Cons.prems(2) show ?case
    by (auto simp: eligible_cases_def baseline_eligible_def)
qed (simp add: eligible_cases_def baseline_eligible_def)

definition sample_golden :: "raw_case list" where
  "sample_golden =
     [[(''id'', VStr ''GC-001''), (''question'', VStr ''Can Northstar cancel ORD-1001?''),
       (''expected_citations'', VList [VStr ''SRC-07:orders:ORD-1001'', VStr ''SRC-03:p1:1'', VStr ''SRC-05:p1:2''])],
      [(''id'', VStr ''GC-023''), (''question'', VStr ''[confirm twice]'')],
      [(''id'', VStr ''GC-015''), (''question'', VStr ''How do I change the address?''),
       (''expected_citations'', VList [VStr ''SRC-07:tickets:TKT-503''])]]"

theorem eligibility_rules_agree_witness:
  "\<exists>cases asked. mapE from_json sample_golden = Inr cases \<and> eligible_cases sample_golden = Inr asked
     \<and> mapE from_json asked = Inr (baseline_eligible cases) \<and> map case_id (baseline_eligible cases) = [''GC-001'']"
proof -
  have "inrP (\<lambda>cases. list_all (\<lambda>c. question c \<noteq> [] \<and> list_all cites_pack (expected_citations c)) cases
      \<and> map case_id (baseline_eligible cases) = [''GC-001'']) (mapE from_json sample_golden)" by code_simp
  then obtain cases where c: "mapE from_json sample_golden = Inr cases"
    "\<forall>c \<in> set cases. question c \<noteq> [] \<and> (\<forall>x \<in> set (expected_citations c). cites_pack x)"
    "map case_id (baseline_eligible cases) = [''GC-001'']"
    by (auto simp: inrP_iff list_all_iff)
  from eligibility_rules_agree [OF c(1,2)] obtain asked where
    "eligible_cases sample_golden = Inr asked" "mapE from_json asked = Inr (baseline_eligible cases)" by blast
  with c(1,3) show ?thesis by (intro exI [of _ cases] exI [of _ asked]) (intro conjI)
qed

section \<open>The figures\<close>

lemma ratio_bounds:
  assumes "a \<le> b"
  shows "0 \<le> ratio a b \<and> ratio a b \<le> 1"
proof (cases "b = 0")
  case False
  with assms have "(of_nat a / of_nat b :: rat) \<le> 1" by simp
  then have "fl (of_nat a / of_nat b) \<le> 1" using fl_mono [of "of_nat a / of_nat b" 1] fl_of_int [of 1] by simp
  with False show ?thesis by (simp add: ratio_def)
qed (simp add: ratio_def)

lemma ratio_mono: "a \<le> b \<Longrightarrow> ratio a n \<le> ratio b n"
  by (simp add: ratio_def fl_mono divide_right_mono)

lemma length_filter_mono: "(\<And>x. P x \<Longrightarrow> Q x) \<Longrightarrow> length (filter P xs) \<le> length (filter Q xs)"
  by (induction xs) (auto simp: le_SucI)

lemma count_hits_mono: "count_hits 3 rows \<le> count_hits 5 rows" "count_hits 5 rows \<le> length rows"
  unfolding count_hits_def by (rule length_filter_mono) (auto simp: hit_within_def split: option.splits)

lemma rank_of_Some:
  "rank_of expected retrieved = Some k \<Longrightarrow>
     1 \<le> k \<and> k \<le> length retrieved \<and> retrieved ! (k - 1) \<in> set expected
     \<and> set (take (k - 1) retrieved) \<inter> set expected = {}"
proof (induction retrieved arbitrary: k)
  case (Cons sid retrieved)
  show ?case
  proof (cases "sid \<in> set expected")
    case False
    with Cons.prems obtain j where j: "rank_of expected retrieved = Some j" "k = Suc j" by auto
    from Cons.IH [OF j(1)] j(2) False show ?thesis by (cases j) auto
  qed (use Cons.prems in auto)
qed simp

lemma rank_of_None: "rank_of expected retrieved = None \<longleftrightarrow> set retrieved \<inter> set expected = {}"
  by (induction retrieved) auto

lemma found_sources_le: "found_sources row \<le> length (rv_expected row)"
  by (simp add: found_sources_def)

lemma evaluate_case_row:
  assumes "evaluate_case fts conn raw = Inr row" "eligible_case raw = Inr (Some raw')"
  shows "rv_expected row \<noteq> []" "length (rv_retrieved row) \<le> 5" "rv_rank row = rank_of (rv_expected row) (rv_retrieved row)"
proof -
  from assms(1) obtain expected q results where e: "expected_doc_sources raw = Inr expected"
    and s: "search_documents fts conn q
      \<lparr>flt_source_types = None, flt_authority_classes = None, flt_statuses = None, flt_account_scope = None\<rparr> 5 = Inr results"
    and row: "rv_expected row = expected" "rv_retrieved row = map dr_source_id results"
      "rv_rank row = rank_of expected (map dr_source_id results)"
    by (auto simp: evaluate_case_def bindE_eq_Inr Let_def)
  from assms(2) e row(1) show "rv_expected row \<noteq> []" by (auto simp: eligible_case_def bindE_eq_Inr split: if_splits)
  from s show "length (rv_retrieved row) \<le> 5"
    by (auto elim!: search_documents_rows dest!: list_all2_lengthD simp: row(2))
  show "rv_rank row = rank_of (rv_expected row) (rv_retrieved row)" using row by simp
qed

lemma evaluate_cases_rows:
  assumes "evaluate_cases fts readings conn golden = Inr r" "row \<in> set (ev_rows r)"
  shows "rv_expected row \<noteq> []" "length (rv_retrieved row) \<le> 5" "rv_rank row = rank_of (rv_expected row) (rv_retrieved row)"
proof -
  from assms obtain cases where c: "collectE eligible_case golden = Inr cases"
    and rows: "mapE (evaluate_case fts conn) cases = Inr (ev_rows r)"
    by (auto simp: evaluate_cases_def eligible_cases_def bindE_eq_Inr Let_def)
  from rows assms(2) obtain raw where raw: "raw \<in> set cases" "evaluate_case fts conn raw = Inr row"
    using mapE_set by meson
  from collectE_set [OF c raw(1)] have "eligible_case raw = Inr (Some raw)"
    by (auto simp: eligible_case_def bindE_eq_Inr split: if_splits)
  from evaluate_case_row [OF raw(2) this] show "rv_expected row \<noteq> []" "length (rv_retrieved row) \<le> 5"
    "rv_rank row = rank_of (rv_expected row) (rv_retrieved row)" by simp_all
qed

lemma failures_Nil: "failures r = [] \<longleftrightarrow> count_hits 3 (ev_rows r) = length (ev_rows r)"
proof -
  have "failures r = [] \<longleftrightarrow> filter (hit_within 3) (ev_rows r) = ev_rows r"
    by (auto simp: failures_def hit_within_def filter_empty_conv filter_id_conv not_le split: option.splits)
  also have "\<dots> \<longleftrightarrow> count_hits 3 (ev_rows r) = length (ev_rows r)"
    unfolding count_hits_def by (metis length_filter_less filter_id_conv nat_neq_iff)
  finally show ?thesis .
qed

lemma evaluate_cases_figures:
  assumes "evaluate_cases fts readings conn golden = Inr r"
  shows "ev_cases_evaluated r = length (ev_rows r)" "ev_recall_at_3 r = ratio (count_hits 3 (ev_rows r)) (length (ev_rows r))"
    "ev_recall_at_5 r = ratio (count_hits 5 (ev_rows r)) (length (ev_rows r))"
    "ev_source_hit_rate r = ratio (sum_list (map found_sources (ev_rows r))) (sum_list (map (\<lambda>row. length (rv_expected row)) (ev_rows r)))"
  using assms by (auto simp: evaluate_cases_def bindE_eq_Inr Let_def)

text \<open>The figures of the retrieval report are what they are called. The recalls lie between zero
  and one, the one at three is at most the one at five, and the hit rate is a proportion too;
  every row has an expected source and at most five retrieved ones, its rank is the position
  of the first retrieved source that is expected, and it has none exactly when none is; and
  the report lists no failure exactly when every case hits within the first three.\<close>

theorem retrieval_figures_sound:
  assumes "evaluate_cases fts readings conn golden = Inr r"
  shows "0 \<le> ev_recall_at_3 r \<and> ev_recall_at_3 r \<le> ev_recall_at_5 r \<and> ev_recall_at_5 r \<le> 1
    \<and> 0 \<le> ev_source_hit_rate r \<and> ev_source_hit_rate r \<le> 1
    \<and> (\<forall>row \<in> set (ev_rows r). rv_expected row \<noteq> [] \<and> length (rv_retrieved row) \<le> 5
        \<and> (case rv_rank row of
             None \<Rightarrow> set (rv_retrieved row) \<inter> set (rv_expected row) = {}
           | Some k \<Rightarrow> 1 \<le> k \<and> k \<le> 5 \<and> rv_retrieved row ! (k - 1) \<in> set (rv_expected row)
               \<and> set (take (k - 1) (rv_retrieved row)) \<inter> set (rv_expected row) = {}))
    \<and> (failures r = [] \<longleftrightarrow> count_hits 3 (ev_rows r) = ev_cases_evaluated r)"
proof -
  let ?rows = "ev_rows r"
  note figures = evaluate_cases_figures [OF assms]
  note recall = ratio_bounds [OF count_hits_mono(2), of ?rows] ratio_mono [OF count_hits_mono(1), of ?rows]
    ratio_bounds [OF order_trans [OF count_hits_mono], of ?rows]
  have hit: "sum_list (map found_sources ?rows) \<le> sum_list (map (\<lambda>row. length (rv_expected row)) ?rows)"
    by (rule sum_list_mono) (rule found_sources_le)
  have rank: "case rv_rank row of
             None \<Rightarrow> set (rv_retrieved row) \<inter> set (rv_expected row) = {}
           | Some k \<Rightarrow> 1 \<le> k \<and> k \<le> 5 \<and> rv_retrieved row ! (k - 1) \<in> set (rv_expected row)
               \<and> set (take (k - 1) (rv_retrieved row)) \<inter> set (rv_expected row) = {}" if "row \<in> set ?rows" for row
    using evaluate_cases_rows [OF assms that] rank_of_Some [of "rv_expected row" "rv_retrieved row"]
      rank_of_None [of "rv_expected row" "rv_retrieved row"] by (fastforce split: option.splits)
  show ?thesis using figures recall ratio_bounds [OF hit] rank evaluate_cases_rows [OF assms] failures_Nil [of r] by simp
qed

lemma evaluate_cases_returns:
  assumes "eligible_cases golden = Inr cases" "mapE (evaluate_case fts conn) cases = Inr rows"
  obtains r where "evaluate_cases fts readings conn golden = Inr r" "ev_rows r = rows"
proof -
  let ?samples = "map (\<lambda>i. sample_ms (fst (readings i)) (snd (readings i))) [0..<length rows]"
  obtain mid high where "p50 ?samples = Inr mid" "p95 ?samples = Inr high"
    using percentile_returns [of 50 ?samples] percentile_returns [of 95 ?samples] by (auto simp: p50_def p95_def)
  with assms that show thesis by (simp add: evaluate_cases_def Let_def)
qed

definition webhook_case :: "raw_case list" where
  "webhook_case =
     [[(''id'', VStr ''Q1''), (''question'', VStr ''Webhook delays?''), (''expected_citations'', VList [VStr ''SRC-04:p1:1''])]]"

lemma sample_evaluation:
  obtains r row where "evaluate_cases sample_fts (\<lambda>i. (0, 1)) sample_db webhook_case = Inr r" "ev_rows r = [row]"
    "rv_rank row = Some 1"
proof -
  let ?raw = "hd webhook_case"
  have g: "webhook_case = [?raw]" "dict_get ?raw ''id'' = Some (VStr ''Q1'')" "dict_get ?raw ''question'' = Some (VStr ''Webhook delays?'')"
    by (simp_all add: webhook_case_def)
  have e: "eligible_cases webhook_case = Inr webhook_case" "expected_doc_sources ?raw = Inr [''SRC-04'']"
    unfolding webhook_case_def by code_simp+
  obtain rs where "search_documents sample_fts sample_db ''Webhook delays?'' no_filter 5 = Inr rs" "map dr_source_id rs = [''SRC-04'']"
    by (rule sample_search)
  with e(2) g(2,3) have "\<exists>row. evaluate_case sample_fts sample_db ?raw = Inr row \<and> rv_rank row = Some 1"
    by (simp add: evaluate_case_def no_filter_def)
  then obtain row where row: "evaluate_case sample_fts sample_db ?raw = Inr row" "rv_rank row = Some 1" by blast
  then have "mapE (evaluate_case sample_fts sample_db) webhook_case = Inr [row]" by (simp add: webhook_case_def)
  then show thesis by (rule evaluate_cases_returns [OF e(1)]) (rule that [OF _ _ row(2)])
qed

theorem retrieval_figures_sound_witness:
  "\<exists>r. evaluate_cases sample_fts (\<lambda>i. (0, 1)) sample_db webhook_case = Inr r
     \<and> map rv_rank (ev_rows r) = [Some 1] \<and> 0 \<le> ev_recall_at_3 r \<and> ev_recall_at_5 r \<le> 1"
proof -
  obtain r row where r: "evaluate_cases sample_fts (\<lambda>i. (0, 1)) sample_db webhook_case = Inr r" "ev_rows r = [row]"
    "rv_rank row = Some 1"
    by (rule sample_evaluation)
  from retrieval_figures_sound [OF r(1)] r(2,3) show ?thesis using r(1) by auto
qed

end
