(* ===== verification/Agent_Eval.thy ===== *)
theory Agent_Eval
  imports Retrieval_Eval Agent_Sample
begin

text \<open>
  The evaluation of the agent: \<open>adapters/agent_trajectory_adapter.py\<close>, \<open>adapters/deepeval_adapter.py\<close>,
  \<open>app/llm/deepeval_bridge.py\<close>, and the runs of \<open>scripts/run_agent_trajectory_eval.py\<close>,
  \<open>scripts/run_deepeval_baseline.py\<close> and \<open>scripts/run_operations_radar_eval.py\<close>. DeepEval's metrics
  are functions of the test case they score, and what the model, the clock and \<open>uuid4\<close> return are
  arguments. The reports are in \<open>Eval_Reports\<close>.
\<close>

section \<open>How a script ends\<close>

datatype failure = Raised error | RaisedByProvider exn | Exit string

fun raised :: "error + 'a \<Rightarrow> failure + 'a" where
  "raised (Inl e) = Inl (Raised e)"
| "raised (Inr x) = Inr x"

lemma raised_Inr [simp]: "raised m = Inr x \<longleftrightarrow> m = Inr x"
  by (cases m) auto

section \<open>From a golden case to a run of the agent\<close>

definition role_of :: "string \<Rightarrow> role option" where
  "role_of = enum_of role_value [OPERATIONS_ADMIN, SUPPORT_AGENT, RESTRICTED_SUPPORT]"

definition parse_role :: "string \<Rightarrow> error + role" where
  "parse_role s = of_optionE (ValueError (repr_str s @ '' is not a valid Role'')) (role_of s)"

definition auth_for_case :: "evaluation_case \<Rightarrow> error + auth_context" where
  "auth_for_case c =
     bindE (case case_role c of
              Some s \<Rightarrow> if s = [] then Inr OPERATIONS_ADMIN else parse_role s
            | None \<Rightarrow> Inr OPERATIONS_ADMIN) (\<lambda>rl.
     if case_scope c = VNull \<or> case_scope c = VStr ''ALL'' then Inr \<lparr>role = rl, account_scope = None\<rparr>
     else case case_scope c of
       VList vs \<Rightarrow> bindE (mapE (str_field ''account_scope'') vs) (\<lambda>accts. Inr \<lparr>role = rl, account_scope = Some accts\<rparr>)
     | _ \<Rightarrow> Inl AssertionError)"

definition expected_agent_status :: "evaluation_case \<Rightarrow> string option" where
  "expected_agent_status c =
     (if expected_status c = ''answered''
      then Some (if expected_trust c = Some ''ESCALATE'' then ''escalated'' else ''completed'')
      else if expected_status c \<in> {''needs_clarification'', ''insufficient_evidence''} then Some (expected_status c)
      else None)"

fun agent_status_value :: "agent_status \<Rightarrow> string" where
  "agent_status_value completed = ''completed''"
| "agent_status_value needs_clarification = ''needs_clarification''"
| "agent_status_value insufficient_evidence = ''insufficient_evidence''"
| "agent_status_value escalated = ''escalated''"
| "agent_status_value failed = ''failed''"
| "agent_status_value evidence_validation_failed = ''evidence_validation_failed''"

definition run_case ::
  "agent_env \<Rightarrow> db \<Rightarrow> evaluation_case \<Rightarrow> string \<Rightarrow> parsed_time \<Rightarrow> request_context \<Rightarrow> error + run_result" where
  "run_case env conn c model snap rc =
     bindE (auth_for_case c) (\<lambda>auth.
     run_agent env (question c)
       \<lparr>arc_request_id = rc_request_id rc, arc_trace_id = rc_trace_id rc, arc_user_id = ''eval-harness'',
        arc_auth = auth, arc_snapshot_time = snap\<rparr> conn model DEFAULT_BUDGET)"

text \<open>\<open>LLMTestCase\<close>: the fields the adapters set.\<close>

record llm_test_case =
  tc_input :: string
  tc_actual_output :: string
  tc_name :: string
  tc_tools_called :: "string list"
  tc_expected_tools :: "string list"
  tc_retrieval_context :: "string list"

definition trajectory_test_case :: "evaluation_case \<Rightarrow> run_result \<Rightarrow> llm_test_case" where
  "trajectory_test_case c r =
     \<lparr>tc_input = question c, tc_actual_output = (case run_answer r of None \<Rightarrow> [] | Some a \<Rightarrow> a), tc_name = case_id c,
      tc_tools_called = run_planned_tools r, tc_expected_tools = expected_tools c, tc_retrieval_context = []\<rparr>"

section \<open>The provider of a script\<close>

text \<open>A provider is its name and what it completes per case and call; the SDK answers per case,
  call and attempt.\<close>

definition build_provider ::
  "string option \<Rightarrow> (nat \<Rightarrow> nat \<Rightarrow> nat \<Rightarrow> exn + sdk_message) \<Rightarrow> string \<Rightarrow> failure + (nat \<Rightarrow> nat \<Rightarrow> provider)" where
  "build_provider key create name =
     (if name = ''mock'' then Inr (\<lambda>_ _. mock_complete)
      else if name = ''anthropic'' then
        if key = None \<or> key = Some [] then Inl (Exit ''--provider anthropic requires ANTHROPIC_API_KEY to be set'')
        else Inr (\<lambda>i k. anthropic_complete (create i k))
      else Inl (Exit (''unknown provider '' @ repr_str name)))"

text \<open>\<open>GatewayDeepEvalModel\<close>.\<close>

definition default_request :: "string \<Rightarrow> string \<Rightarrow> llm_request" where
  "default_request prompt model =
     \<lparr>rq_messages = [\<lparr>msg_role = User, msg_content = prompt\<rparr>], rq_model = model, rq_max_output_tokens = 1024,
      rq_max_retries = 2, rq_prompt_version = None\<rparr>"

definition judge_generate :: "provider \<Rightarrow> string \<Rightarrow> request_context \<Rightarrow> string \<Rightarrow> exn + string" where
  "judge_generate prov model rc prompt =
     bindE (prov rc (default_request prompt model)) (\<lambda>response. Inr (rsp_content response))"

definition judge_model_name :: "string \<Rightarrow> string \<Rightarrow> string" where
  "judge_model_name name model = name @ ''/'' @ model"

section \<open>Means\<close>

text \<open>\<open>sum\<close> of a list of floats, compensated as CPython 3.12 does it.\<close>

fun sum_loop :: "pyfloat \<Rightarrow> pyfloat \<Rightarrow> pyfloat list \<Rightarrow> pyfloat" where
  "sum_loop acc c [] = (if c \<noteq> 0 then fl (acc + c) else acc)"
| "sum_loop acc c (x # xs) =
     (let t = fl (acc + x);
          lost = (if \<bar>x\<bar> \<le> \<bar>acc\<bar> then fl (fl (acc - t) + x) else fl (fl (x - t) + acc))
      in sum_loop t (fl (c + lost)) xs)"

definition float_sum :: "pyfloat list \<Rightarrow> pyfloat" where
  "float_sum xs = (case xs of [] \<Rightarrow> 0 | y # ys \<Rightarrow> sum_loop y 0 ys)"

definition mean :: "pyfloat list \<Rightarrow> pyfloat option" where
  "mean xs = (if xs = [] then None else Some (fl (float_sum xs / of_nat (length xs))))"

section \<open>The trajectory evaluation\<close>

text \<open>An LLM-judged metric gives a score, or raises one of the errors the scripts catch.\<close>

datatype metric_result = Score pyfloat | Blocked string

record trajectory_row =
  tj_id :: string
  tj_question :: string
  tj_expected_tools :: "string list"
  tj_actual_tools :: "string list"
  tj_tool_correctness :: pyfloat
  tj_expected_status :: "string option"
  tj_actual_status :: string
  tj_status_match :: "bool option"
  tj_task_completion :: "pyfloat option"

record trajectory_report =
  tr_provider :: string
  tr_model :: string
  tr_judge_model :: string
  tr_cases_evaluated :: nat
  tr_mean_tool_correctness :: "pyfloat option"
  tr_status_match_rate :: "pyfloat option"
  tr_status_checkable_cases :: nat
  tr_task_completion_scored :: nat
  tr_mean_task_completion :: "pyfloat option"
  tr_task_completion_error :: "string option"
  tr_rows :: "trajectory_row list"

text \<open>What the run takes from outside: the environment of the agent and the context of each case,
  and the two metrics.\<close>

record harness =
  hn_env :: "nat \<Rightarrow> agent_env"
  hn_context :: "nat \<Rightarrow> request_context"
  hn_tool_metric :: "llm_test_case \<Rightarrow> pyfloat"
  hn_task_metric :: "llm_test_case \<Rightarrow> metric_result"

definition trajectory_eligible :: "evaluation_case list \<Rightarrow> evaluation_case list" where
  "trajectory_eligible cases = filter (\<lambda>c. is_real_query c \<and> expected_tools c \<noteq> []) cases"

definition trajectory_row_of :: "harness \<Rightarrow> evaluation_case \<Rightarrow> run_result \<Rightarrow> trajectory_row" where
  "trajectory_row_of hn c r =
     (let test_case = trajectory_test_case c r; expected = expected_agent_status c in
      \<lparr>tj_id = case_id c, tj_question = question c, tj_expected_tools = expected_tools c,
       tj_actual_tools = run_planned_tools r, tj_tool_correctness = hn_tool_metric hn test_case,
       tj_expected_status = expected, tj_actual_status = agent_status_value (run_status r),
       tj_status_match = map_option (\<lambda>s. agent_status_value (run_status r) = s) expected,
       tj_task_completion = (case hn_task_metric hn test_case of Score x \<Rightarrow> Some x | Blocked _ \<Rightarrow> None)\<rparr>)"

text \<open>The loop, with the last error it recorded.\<close>

fun trajectory_loop ::
  "harness \<Rightarrow> (nat \<Rightarrow> nat \<Rightarrow> provider) \<Rightarrow> db \<Rightarrow> string \<Rightarrow> parsed_time \<Rightarrow> nat \<Rightarrow> string option \<Rightarrow> evaluation_case list
    \<Rightarrow> error + trajectory_row list \<times> string option" where
  "trajectory_loop hn prov conn model snap i err [] = Inr ([], err)"
| "trajectory_loop hn prov conn model snap i err (c # cases) =
     bindE (run_case ((hn_env hn i)\<lparr>env_provider := prov i\<rparr>) conn c model snap (hn_context hn i)) (\<lambda>r.
     let err = (case hn_task_metric hn (trajectory_test_case c r) of Score _ \<Rightarrow> err | Blocked e \<Rightarrow> Some e) in
     bindE (trajectory_loop hn prov conn model snap (Suc i) err cases) (\<lambda>(rows, err).
     Inr (trajectory_row_of hn c r # rows, err)))"

definition trajectory_summary :: "string \<Rightarrow> string \<Rightarrow> trajectory_row list \<Rightarrow> string option \<Rightarrow> trajectory_report" where
  "trajectory_summary name model rows err =
     (let status_checks = List.map_filter tj_status_match rows;
          task_scores = List.map_filter tj_task_completion rows
      in \<lparr>tr_provider = name, tr_model = model, tr_judge_model = judge_model_name name model,
          tr_cases_evaluated = length rows, tr_mean_tool_correctness = mean (map tj_tool_correctness rows),
          tr_status_match_rate =
            (if status_checks = [] then None
             else Some (ratio (length (filter (\<lambda>b. b) status_checks)) (length status_checks))),
          tr_status_checkable_cases = length status_checks, tr_task_completion_scored = length task_scores,
          tr_mean_task_completion = mean task_scores, tr_task_completion_error = err, tr_rows = rows\<rparr>)"

text \<open>The ingestion every script starts with: its database, or the error it raised.\<close>

definition ingested_file :: "db_file option \<times> (error + ingest_summary) \<Rightarrow> failure + db_file" where
  "ingested_file outcome =
     (case outcome of
        (_, Inl e) \<Rightarrow> Inl (Raised e)
      | (file, Inr _) \<Rightarrow> raised (of_optionE (FileNotFoundError ''database not found'') file))"

definition stored_snapshot :: "db_file \<Rightarrow> failure + parsed_time" where
  "stored_snapshot file =
     raised (of_optionE (TypeError ''NoneType object is not subscriptable'') (file_snapshot_time file))"

definition run_trajectory_eval ::
  "harness \<Rightarrow> db_file option \<times> (error + ingest_summary) \<Rightarrow> string option \<Rightarrow> (nat \<Rightarrow> nat \<Rightarrow> nat \<Rightarrow> exn + sdk_message)
    \<Rightarrow> string \<Rightarrow> string \<Rightarrow> json \<Rightarrow> failure + trajectory_report" where
  "run_trajectory_eval hn outcome key create name model golden =
     bindE (ingested_file outcome) (\<lambda>file.
     bindE (stored_snapshot file) (\<lambda>snap.
     bindE (build_provider key create name) (\<lambda>prov.
     bindE (raised (load_golden_cases golden)) (\<lambda>cases.
     bindE (raised (trajectory_loop hn prov (file_db file) model snap 0 None (trajectory_eligible cases))) (\<lambda>(rows, err).
     Inr (trajectory_summary name model rows err))))))"

section \<open>The DeepEval baseline\<close>

definition evidence_line :: "search_result \<Rightarrow> string" where
  "evidence_line r =
     ''['' @ dr_source_id r @ '' p'' @ str_of_int (dr_page r) @ '':''
     @ (case dr_section r of None \<Rightarrow> ''None'' | Some s \<Rightarrow> s) @ ''] '' @ dr_snippet r"

definition answer_prompt :: "string \<Rightarrow> string \<Rightarrow> string" where
  "answer_prompt q evidence_block =
     ''Answer the support question using only the evidence below. Cite sources by ''
     @ ''their bracketed ID. If the evidence does not answer the question, say so.'' @ newline @ newline
     @ ''Question: '' @ q @ newline @ newline @ ''Evidence:'' @ newline @ evidence_block"

fun search_hits_of :: "tool_output \<Rightarrow> search_result list" where
  "search_hits_of (SearchOutput q rs) = rs"
| "search_hits_of _ = []"

definition rag_test_case ::
  "fts_engine \<Rightarrow> db \<Rightarrow> evaluation_case \<Rightarrow> auth_context \<Rightarrow> provider \<Rightarrow> string \<Rightarrow> int \<Rightarrow> request_context
    \<Rightarrow> failure + llm_test_case" where
  "rag_test_case fts conn c auth prov model top_k rc =
     bindE (raised (search_documents_tool fts conn
              \<lparr>srq_query = question c, srq_source_types = None, srq_authority_classes = None, srq_statuses = None,
               srq_top_k = top_k\<rparr> auth)) (\<lambda>found.
     let retrieved = map evidence_line (search_hits_of found);
         evidence_block = (if retrieved = [] then ''(no evidence retrieved)'' else join newline retrieved)
     in case prov rc (default_request (answer_prompt (question c) evidence_block) model) of
          Inl e \<Rightarrow> Inl (RaisedByProvider e)
        | Inr response \<Rightarrow>
            Inr \<lparr>tc_input = question c, tc_actual_output = rsp_content response, tc_name = case_id c,
                 tc_tools_called = [], tc_expected_tools = [], tc_retrieval_context = retrieved\<rparr>)"

datatype baseline_row = ScoredRow string string pyfloat pyfloat | BlockedRow string string string

fun row_scores :: "baseline_row \<Rightarrow> (pyfloat \<times> pyfloat) option" where
  "row_scores (ScoredRow i q relevancy faithfulness) = Some (relevancy, faithfulness)"
| "row_scores (BlockedRow i q e) = None"

fun row_case :: "baseline_row \<Rightarrow> string" where
  "row_case (ScoredRow i q relevancy faithfulness) = i"
| "row_case (BlockedRow i q e) = i"

definition baseline_row_of ::
  "(llm_test_case \<Rightarrow> metric_result) \<Rightarrow> (llm_test_case \<Rightarrow> metric_result) \<Rightarrow> evaluation_case \<Rightarrow> llm_test_case \<Rightarrow> baseline_row" where
  "baseline_row_of relevancy faithfulness c test_case =
     (case relevancy test_case of
        Blocked e \<Rightarrow> BlockedRow (case_id c) (question c) e
      | Score x \<Rightarrow>
          (case faithfulness test_case of
             Blocked e \<Rightarrow> BlockedRow (case_id c) (question c) e
           | Score y \<Rightarrow> ScoredRow (case_id c) (question c) x y))"

definition harness_error :: "baseline_row list \<Rightarrow> string option" where
  "harness_error rows =
     fold (\<lambda>row err. case row of BlockedRow i q e \<Rightarrow> Some e | _ \<Rightarrow> err) rows None"

record baseline_report =
  bl_cases_evaluated :: nat
  bl_cases_scored :: nat
  bl_harness_error :: "string option"
  bl_mean_contextual_relevancy :: "pyfloat option"
  bl_mean_faithfulness :: "pyfloat option"
  bl_rows :: "baseline_row list"

definition baseline_summary :: "baseline_row list \<Rightarrow> baseline_report" where
  "baseline_summary rows =
     (let scores = List.map_filter row_scores rows in
      \<lparr>bl_cases_evaluated = length rows, bl_cases_scored = length scores, bl_harness_error = harness_error rows,
       bl_mean_contextual_relevancy = mean (map fst scores), bl_mean_faithfulness = mean (map snd scores), bl_rows = rows\<rparr>)"

definition run_baseline ::
  "fts_engine \<Rightarrow> (nat \<Rightarrow> request_context) \<Rightarrow> (llm_test_case \<Rightarrow> metric_result) \<Rightarrow> (llm_test_case \<Rightarrow> metric_result)
    \<Rightarrow> db_file option \<times> (error + ingest_summary) \<Rightarrow> string option \<Rightarrow> (nat \<Rightarrow> nat \<Rightarrow> nat \<Rightarrow> exn + sdk_message)
    \<Rightarrow> string \<Rightarrow> string \<Rightarrow> json \<Rightarrow> failure + baseline_report" where
  "run_baseline fts rcs relevancy faithfulness outcome key create name model golden =
     bindE (ingested_file outcome) (\<lambda>file.
     bindE (build_provider key create name) (\<lambda>prov.
     bindE (raised (load_golden_cases golden)) (\<lambda>cases.
     bindE (mapE (\<lambda>(i, c). bindE (rag_test_case fts (file_db file) c INTERNAL_SYSTEM_CONTEXT (prov i 0) model 5 (rcs i))
                    (\<lambda>test_case. Inr (baseline_row_of relevancy faithfulness c test_case)))
              (enumerate 0 (baseline_eligible cases))) (\<lambda>rows.
     Inr (baseline_summary rows)))))"

section \<open>The radar evaluation\<close>

record radar_row =
  rd_alert_id :: string
  rd_alert_type :: string
  rd_severity :: string
  rd_title :: string
  rd_observed_count :: int
  rd_threshold :: int
  rd_affected_accounts :: "string list"
  rd_evidence_count :: nat
  rd_trust_state :: string
  rd_summary :: string
  rd_summary_tokens :: int
  rd_summary_cost_usd :: pyfloat
  rd_prompt_version :: "string option"

definition radar_row_of ::
  "renderer \<Rightarrow> prompt_files \<Rightarrow> provider \<Rightarrow> string \<Rightarrow> request_context \<Rightarrow> alert_candidate \<Rightarrow> failure + radar_row" where
  "radar_row_of rd files prov model rc alert =
     (case compose_alert_summary rd files alert prov model rc 256 of
        Inl e \<Rightarrow> Inl (RaisedByProvider e)
      | Inr (summary, response) \<Rightarrow>
          Inr \<lparr>rd_alert_id = al_id alert, rd_alert_type = alert_type_value (al_type alert),
               rd_severity = alert_severity_value (al_severity alert), rd_title = al_title alert,
               rd_observed_count = al_observed_count alert, rd_threshold = al_threshold alert,
               rd_affected_accounts = al_accounts alert, rd_evidence_count = length (al_evidence alert),
               rd_trust_state = trust_state_value (al_trust_state alert), rd_summary = summary,
               rd_summary_tokens = input_tokens (rsp_usage response) + output_tokens (rsp_usage response),
               rd_summary_cost_usd = total_cost_usd (rsp_cost response),
               rd_prompt_version = rsp_prompt_version response\<rparr>)"

definition count_by :: "string list \<Rightarrow> (string \<times> nat) list" where
  "count_by keys = fold (\<lambda>k d. dict_put d k ((case dict_get d k of None \<Rightarrow> 0 | Some n \<Rightarrow> n) + 1)) keys []"

record radar_report =
  rr_total_alerts :: nat
  rr_by_type :: "(string \<times> nat) list"
  rr_rows :: "radar_row list"

definition run_radar_eval ::
  "renderer \<Rightarrow> prompt_files \<Rightarrow> (nat \<Rightarrow> request_context) \<Rightarrow> db_file option \<times> (error + ingest_summary) \<Rightarrow> string
    \<Rightarrow> failure + radar_report" where
  "run_radar_eval rd files rcs outcome model =
     bindE (ingested_file outcome) (\<lambda>file.
     bindE (raised (bindE (snd outcome) (\<lambda>sm. fixed_snapshot_clock (zoned (sum_snapshot sm))))) (\<lambda>clk.
     bindE (raised (run_operations_radar (file_db file) INTERNAL_SYSTEM_CONTEXT clk None DEFAULT_WINDOW_DAYS
                      AGREEMENT_OVERRIDES DEFAULT_SOURCE)) (\<lambda>alerts.
     bindE (mapE (\<lambda>(i, alert). radar_row_of rd files mock_complete model (rcs i) alert) (enumerate 0 alerts)) (\<lambda>rows.
     Inr \<lparr>rr_total_alerts = length alerts, rr_by_type = count_by (map (alert_type_value \<circ> al_type) alerts), rr_rows = rows\<rparr>))))"

section \<open>What the trajectory evaluation accounts for\<close>

lemma trajectory_loop_rows:
  "trajectory_loop hn prov conn model snap i err cases = Inr (rows, err') \<Longrightarrow>
     list_all2 (\<lambda>c row. \<exists>j r. run_case ((hn_env hn j)\<lparr>env_provider := prov j\<rparr>) conn c model snap (hn_context hn j) = Inr r
         \<and> row = trajectory_row_of hn c r) cases rows
     \<and> (err' = None \<longleftrightarrow> err = None \<and> (\<forall>row \<in> set rows. tj_task_completion row \<noteq> None))"
proof (induction cases arbitrary: i err rows err')
  case (Cons c cases)
  from Cons.prems obtain r rest where r: "run_case ((hn_env hn i)\<lparr>env_provider := prov i\<rparr>) conn c model snap (hn_context hn i) = Inr r"
    and rest: "trajectory_loop hn prov conn model snap (Suc i)
      (case hn_task_metric hn (trajectory_test_case c r) of Score _ \<Rightarrow> err | Blocked e \<Rightarrow> Some e) cases = Inr (rest, err')"
    and rows: "rows = trajectory_row_of hn c r # rest"
    by (auto simp: bindE_eq_Inr Let_def)
  have "tj_task_completion (trajectory_row_of hn c r) = None \<longleftrightarrow> (\<exists>e. hn_task_metric hn (trajectory_test_case c r) = Blocked e)"
    by (simp add: trajectory_row_of_def Let_def split: metric_result.splits)
  with Cons.IH [OF rest] r rows show ?case
    by (auto split: metric_result.splits)
qed simp

lemma length_map_filter_le: "length (List.map_filter f xs) \<le> length xs"
  by (induction xs) (auto simp: map_filter_simps split: option.split)

lemma length_map_filter_eq: "length (List.map_filter f xs) = length xs \<longleftrightarrow> (\<forall>x \<in> set xs. f x \<noteq> None)"
proof (induction xs)
  case (Cons x xs)
  then show ?case using length_map_filter_le [of f xs] by (cases "f x") (auto simp: map_filter_simps)
qed (simp add: map_filter_simps)

lemma trajectory_row_fields [simp]:
  "tj_id (trajectory_row_of hn c r) = case_id c"
  "tj_status_match (trajectory_row_of hn c r)
     = map_option (\<lambda>s. agent_status_value (run_status r) = s) (expected_agent_status c)"
  by (simp_all add: trajectory_row_of_def Let_def)

text \<open>The trajectory evaluation leaves no golden case out and invents no score: one row per case with a
  real question and expected tools, in the order of the file, each from a run of the agent under
  the case's own role and scope; a status is compared exactly for the cases that expect one;
  the match rate is a proportion; and the recorded harness error is absent exactly when every
  case was scored.\<close>

theorem trajectory_eval_accounts:
  assumes "run_trajectory_eval hn outcome key create name model golden = Inr r"
  shows "\<exists>cases. load_golden_cases golden = Inr cases
    \<and> map tj_id (tr_rows r) = map case_id (trajectory_eligible cases)
    \<and> tr_cases_evaluated r = length (trajectory_eligible cases)
    \<and> tr_status_checkable_cases r = length (filter (\<lambda>c. expected_agent_status c \<noteq> None) (trajectory_eligible cases))
    \<and> (case tr_status_match_rate r of None \<Rightarrow> tr_status_checkable_cases r = 0 | Some x \<Rightarrow> 0 \<le> x \<and> x \<le> 1)
    \<and> (tr_task_completion_error r = None \<longleftrightarrow> tr_task_completion_scored r = tr_cases_evaluated r)"
proof -
  from assms obtain ingested snap prov cases p where "ingested_file outcome = Inr ingested" "stored_snapshot ingested = Inr snap"
      "build_provider key create name = Inr prov"
    and golden: "load_golden_cases golden = Inr cases"
    and run: "trajectory_loop hn prov (file_db ingested) model snap 0 None (trajectory_eligible cases) = Inr p"
    and p: "(case p of (rows, err) \<Rightarrow> Inr (trajectory_summary name model rows err)) = (Inr r :: failure + trajectory_report)"
    unfolding run_trajectory_eval_def bindE_eq_Inr raised_Inr by (elim exE conjE) (rule that)
  obtain rows err where rows: "p = (rows, err)" by force
  note run = run [unfolded rows]
  have r: "r = trajectory_summary name model rows err" using p rows by simp
  let ?cases = "trajectory_eligible cases"
  note loop = trajectory_loop_rows [OF run]
  then have rel: "list_all2 (\<lambda>c row. tj_id row = case_id c \<and> (tj_status_match row = None \<longleftrightarrow> expected_agent_status c = None)) ?cases rows"
    by (elim conjE list.rel_mono_strong) auto
  then have ids: "map tj_id rows = map case_id ?cases" and n: "length rows = length ?cases"
    and checkable: "length (List.map_filter tj_status_match rows) = length (filter (\<lambda>c. expected_agent_status c \<noteq> None) ?cases)"
    by (induction rule: list_all2_induct) (auto simp: map_filter_simps split: option.splits)
  have "length (filter (\<lambda>b. b) (List.map_filter tj_status_match rows)) \<le> length (List.map_filter tj_status_match rows)" by simp
  note rate = ratio_bounds [OF this]
  from loop have "err = None \<longleftrightarrow> length (List.map_filter tj_task_completion rows) = length rows"
    by (simp add: length_map_filter_eq)
  with rate golden ids n checkable show ?thesis by (simp add: r trajectory_summary_def Let_def)
qed

text \<open>A run over the sample database of one blank question, which the agent refuses.\<close>

definition blank_golden :: json where
  "blank_golden = VObj [(''cases'', VList [VObj [(''id'', VStr ''GC-1''), (''question'', VStr '' ''),
     (''expected_status'', VStr ''insufficient_evidence''), (''expected_tools'', VList [VStr ''search_documents''])]])]"

definition sample_harness :: harness where
  "sample_harness = \<lparr>hn_env = (\<lambda>_. sample_env), hn_context = (\<lambda>_. \<lparr>rc_request_id = ''r1'', rc_trace_id = ''t1''\<rparr>),
     hn_tool_metric = (\<lambda>_. 0), hn_task_metric = (\<lambda>_. Blocked ''invalid JSON'')\<rparr>"

definition sample_file :: db_file where
  "sample_file = \<lparr>file_db = sample_db, file_snapshot_time = Some (Zoned (hm 11 0) ist), file_currency = None\<rparr>"

lemma blank_run:
  assumes "question c = '' ''" "case_role c = None" "case_scope c = VNull"
  obtains r where "run_case env sample_db c ''mock-model'' (Zoned (hm 11 0) ist) rc = Inr r" "run_status r = insufficient_evidence"
proof -
  have e: "resolve_entities '' '' sample_db \<lparr>role = OPERATIONS_ADMIN, account_scope = None\<rparr> run_clock = Inr sample_entities"
    by code_simp
  have i: "resolve_intent '' '' sample_entities = UNSUPPORTED" by code_simp
  have n: "needs_account_clarification '' '' sample_entities \<lparr>role = OPERATIONS_ADMIN, account_scope = None\<rparr> = None" by code_simp
  have a: "ambiguous_account_names sample_entities = []" by (simp add: sample_entities_def)
  have "inrP (\<lambda>r. run_status r = insufficient_evidence)
      (run_case env sample_db c ''mock-model'' (Zoned (hm 11 0) ist) rc)"
    using assms by (simp add: run_case_def auth_for_case_def run_agent_def run_clock_def [symmetric] e
        plan_stage_def Let_def a i n inrP_def terminal_def)
  with that show thesis by (auto elim: inrP_E)
qed

theorem trajectory_eval_accounts_witness:
  "\<forall>sm. \<exists>r. run_trajectory_eval sample_harness (Some sample_file, Inr sm) None (\<lambda>_ _ _. Inl \<lparr>exn_type = ''APIError'', exn_text = []\<rparr>)
       ''mock'' ''mock-model'' blank_golden = Inr r
     \<and> tr_cases_evaluated r = 1 \<and> tr_status_checkable_cases r = 1 \<and> tr_task_completion_error r \<noteq> None"
proof (rule allI)
  fix sm :: ingest_summary
  have "inrP (\<lambda>cases. map question cases = ['' ''] \<and> map case_role cases = [None] \<and> map case_scope cases = [VNull]
      \<and> trajectory_eligible cases = cases \<and> map expected_agent_status cases = [Some ''insufficient_evidence''])
    (load_golden_cases blank_golden)" by code_simp
  then obtain c where golden: "load_golden_cases blank_golden = Inr [c]" and q: "question c = '' ''" "case_role c = None" "case_scope c = VNull"
    and t: "trajectory_eligible [c] = [c]" "expected_agent_status c = Some ''insufficient_evidence''"
    by (auto simp: inrP_iff map_eq_Cons_conv)
  obtain result where run: "run_case (sample_env\<lparr>env_provider := \<lambda>_. mock_complete\<rparr>) sample_db c ''mock-model'' (Zoned (hm 11 0) ist)
      \<lparr>rc_request_id = ''r1'', rc_trace_id = ''t1''\<rparr> = Inr result" "run_status result = insufficient_evidence"
    by (rule blank_run [OF q])
  have "\<exists>r. run_trajectory_eval sample_harness (Some sample_file, Inr sm) None (\<lambda>_ _ _. Inl \<lparr>exn_type = ''APIError'', exn_text = []\<rparr>)
      ''mock'' ''mock-model'' blank_golden = Inr r \<and> tr_task_completion_error r \<noteq> None"
    by (simp add: run_trajectory_eval_def ingested_file_def stored_snapshot_def sample_file_def build_provider_def golden t
        sample_harness_def run trajectory_summary_def Let_def)
  then obtain r where r: "run_trajectory_eval sample_harness (Some sample_file, Inr sm) None (\<lambda>_ _ _. Inl \<lparr>exn_type = ''APIError'', exn_text = []\<rparr>)
      ''mock'' ''mock-model'' blank_golden = Inr r" "tr_task_completion_error r \<noteq> None" by blast
  from trajectory_eval_accounts [OF r(1)] r golden t
  show "\<exists>r. run_trajectory_eval sample_harness (Some sample_file, Inr sm) None (\<lambda>_ _ _. Inl \<lparr>exn_type = ''APIError'', exn_text = []\<rparr>)
      ''mock'' ''mock-model'' blank_golden = Inr r
    \<and> tr_cases_evaluated r = 1 \<and> tr_status_checkable_cases r = 1 \<and> tr_task_completion_error r \<noteq> None" by auto
qed

section \<open>What the radar evaluation reports\<close>

definition counted :: "(string \<times> nat) list \<Rightarrow> string \<Rightarrow> nat" where
  "counted d k = (case dict_get d k of None \<Rightarrow> 0 | Some n \<Rightarrow> n)"

lemma counted_fold:
  "counted (fold (\<lambda>k d. dict_put d k (counted d k + 1)) keys d) k = counted d k + count_list keys k"
  by (induction keys arbitrary: d) (simp_all add: counted_def)

lemma count_by_counts: "counted (count_by keys) k = count_list keys k"
  using counted_fold [of keys "[]" k] by (simp add: count_by_def counted_def)

text \<open>The facts of an alert a report shows, beside the summary.\<close>

definition alert_facts :: "alert_candidate \<Rightarrow> string \<times> string \<times> string \<times> int \<times> int \<times> string list \<times> nat \<times> string" where
  "alert_facts a = (al_id a, alert_type_value (al_type a), alert_severity_value (al_severity a), al_observed_count a,
     al_threshold a, al_accounts a, length (al_evidence a), trust_state_value (al_trust_state a))"

definition row_facts :: "radar_row \<Rightarrow> string \<times> string \<times> string \<times> int \<times> int \<times> string list \<times> nat \<times> string" where
  "row_facts r = (rd_alert_id r, rd_alert_type r, rd_severity r, rd_observed_count r, rd_threshold r, rd_affected_accounts r,
     rd_evidence_count r, rd_trust_state r)"

lemma radar_row_facts: "radar_row_of rd files prov model rc a = Inr row \<Longrightarrow> row_facts row = alert_facts a"
  by (auto simp: radar_row_of_def row_facts_def alert_facts_def split: sum.splits prod.splits)

text \<open>The radar report repeats the detection, whatever the model writes: its rows carry the facts of
  the alerts, one row per alert in the radar's order, and the count of a type is the number
  of its alerts.\<close>

theorem radar_eval_repeats_alerts:
  assumes "run_radar_eval rd files rcs outcome model = Inr r"
  shows "\<exists>conn clk alerts. run_operations_radar conn INTERNAL_SYSTEM_CONTEXT clk None DEFAULT_WINDOW_DAYS
      AGREEMENT_OVERRIDES DEFAULT_SOURCE = Inr alerts
    \<and> map row_facts (rr_rows r) = map alert_facts alerts \<and> rr_total_alerts r = length (rr_rows r)
    \<and> (\<forall>ty. counted (rr_by_type r) ty = length (filter (\<lambda>row. rd_alert_type row = ty) (rr_rows r)))"
proof -
  from assms obtain conn clk alerts where radar: "run_operations_radar conn INTERNAL_SYSTEM_CONTEXT clk None DEFAULT_WINDOW_DAYS
      AGREEMENT_OVERRIDES DEFAULT_SOURCE = Inr alerts"
    and rows: "mapE (\<lambda>(i, a). radar_row_of rd files mock_complete model (rcs i) a) (enumerate 0 alerts) = Inr (rr_rows r)"
    and r: "rr_total_alerts r = length alerts" "rr_by_type r = count_by (map (alert_type_value \<circ> al_type) alerts)"
    unfolding run_radar_eval_def bindE_eq_Inr raised_Inr by auto
  from rows have "list_all2 (\<lambda>(i, a) row. row_facts row = alert_facts a) (enumerate 0 alerts) (rr_rows r)"
    by (auto simp: mapE_eq_Inr elim!: list.rel_mono_strong dest: radar_row_facts)
  then have f: "map row_facts (rr_rows r) = map alert_facts alerts"
    by (auto simp: list_eq_iff_nth_eq list_all2_conv_all_nth nth_enumerate_eq)
  then have n: "length (rr_rows r) = length alerts" by (metis length_map)
  from f have "map rd_alert_type (rr_rows r) = map (alert_type_value \<circ> al_type) alerts"
    by (auto simp: list_eq_iff_nth_eq row_facts_def alert_facts_def)
  moreover have "count_list (map rd_alert_type rows) ty = length (filter (\<lambda>row. rd_alert_type row = ty) rows)" for rows ty
    by (induction rows) auto
  ultimately have "counted (rr_by_type r) ty = length (filter (\<lambda>row. rd_alert_type row = ty) (rr_rows r))" for ty
    by (metis r(2) count_by_counts)
  with radar f n r(1) show ?thesis by auto
qed

end
