(* ===== verification/Experiment_Runs.thy ===== *)
theory Experiment_Runs
  imports Eval_Cases Hashing "HOL-Library.Sublist"
begin

text \<open>
  \<open>app/evaluation/provenance.py\<close> and \<open>app/evaluation/mlflow_tracking.py\<close>: where a score comes
  from, and what of it is recorded. \<open>git\<close> is what \<open>git rev-parse HEAD\<close> printed, \<open>None\<close> when it
  failed, was not found or took too long; the files of the repository are a list from path to
  bytes. The tracking store is MLflow's, so a logged run is the sequence of calls made to it.
\<close>

section \<open>Provenance\<close>

type_synonym repo_files = "(string \<times> string) list"

definition get_code_sha :: "string option \<Rightarrow> string" where
  "get_code_sha git = (case git of Some out \<Rightarrow> strip out | None \<Rightarrow> ''unknown'')"

definition sha256_of_file :: "repo_files \<Rightarrow> string \<Rightarrow> error + string" where
  "sha256_of_file repo path = bindE (of_optionE (FileNotFoundError path) (dict_get repo path)) (\<lambda>content. Inr (sha256_hex content))"

definition get_source_manifest_checksum :: "repo_files \<Rightarrow> error + string" where
  "get_source_manifest_checksum repo = sha256_of_file repo ''data/source_manifest.json''"

definition get_golden_cases_checksum :: "repo_files \<Rightarrow> error + string" where
  "get_golden_cases_checksum repo = sha256_of_file repo ''tests/evaluation/golden_cases.json''"

section \<open>A run\<close>

record experiment_run =
  ex_experiment_name :: string
  ex_run_name :: "string option"
  ex_code_sha :: string
  ex_source_manifest_checksum :: string
  ex_evaluation_suite_checksum :: string
  ex_provider :: string
  ex_model :: string
  ex_prompt_version :: "string option"
  ex_temperature :: "pyfloat option"
  ex_max_output_tokens :: "int option"
  ex_retrieval_top_k :: "int option"
  ex_retrieval_config :: "(string \<times> json) list"
  ex_metrics :: "(string \<times> pyfloat) list"
  ex_latency_ms :: "(string \<times> pyfloat) list"
  ex_token_usage :: "(string \<times> int) list"
  ex_estimated_cost_usd :: "pyfloat option"
  ex_tags :: "(string \<times> string) list"

text \<open>\<open>build\<close>: the keyword arguments are a change of the run whose optional fields are the defaults.\<close>

definition build :: "string option \<Rightarrow> repo_files \<Rightarrow> string \<Rightarrow> string \<Rightarrow> string \<Rightarrow> (experiment_run \<Rightarrow> experiment_run)
    \<Rightarrow> error + experiment_run" where
  "build git repo experiment_name provider model kwargs =
     bindE (get_source_manifest_checksum repo) (\<lambda>manifest.
     bindE (get_golden_cases_checksum repo) (\<lambda>suite.
     Inr (kwargs \<lparr>ex_experiment_name = experiment_name, ex_run_name = None, ex_code_sha = get_code_sha git,
       ex_source_manifest_checksum = manifest, ex_evaluation_suite_checksum = suite,
       ex_provider = provider, ex_model = model, ex_prompt_version = None, ex_temperature = None,
       ex_max_output_tokens = None, ex_retrieval_top_k = None, ex_retrieval_config = [],
       ex_metrics = [], ex_latency_ms = [], ex_token_usage = [], ex_estimated_cost_usd = None, ex_tags = []\<rparr>)))"

section \<open>What is recorded\<close>

definition put_some :: "string \<Rightarrow> ('a \<Rightarrow> json) \<Rightarrow> 'a option \<Rightarrow> (string \<times> json) list \<Rightarrow> (string \<times> json) list" where
  "put_some k enc v d = (case v of None \<Rightarrow> d | Some x \<Rightarrow> dict_put d k (enc x))"

definition run_params :: "experiment_run \<Rightarrow> (string \<times> json) list" where
  "run_params run =
     (let params =
        [(''code_sha'', VStr (ex_code_sha run)),
         (''source_manifest_checksum'', VStr (take 12 (ex_source_manifest_checksum run))),
         (''evaluation_suite_checksum'', VStr (take 12 (ex_evaluation_suite_checksum run))),
         (''provider'', VStr (ex_provider run)),
         (''model'', VStr (ex_model run))];
        params = put_some ''prompt_version'' VStr (ex_prompt_version run) params;
        params = put_some ''temperature'' VFloat (ex_temperature run) params;
        params = put_some ''max_output_tokens'' VInt (ex_max_output_tokens run) params;
        params = put_some ''retrieval_top_k'' VInt (ex_retrieval_top_k run) params
      in fold (\<lambda>(key, value) params. dict_put params (''retrieval_config.'' @ key) value) (ex_retrieval_config run) params)"

datatype mlflow_call =
    SetTrackingUri string
  | SetExperiment string
  | StartRun "string option" "(string \<times> string) list"
  | LogParams "(string \<times> json) list"
  | LogMetrics "(string \<times> pyfloat) list"
  | LogMetric string pyfloat

definition DEFAULT_TRACKING_URI :: string where
  "DEFAULT_TRACKING_URI = ''sqlite:///build/mlflow.db''"

definition extra_metrics :: "experiment_run \<Rightarrow> (string \<times> pyfloat) list" where
  "extra_metrics run =
     map (\<lambda>(key, value). (''latency_ms.'' @ key, value)) (ex_latency_ms run)
     @ map (\<lambda>(key, value). (''token_usage.'' @ key, of_int value)) (ex_token_usage run)
     @ (case ex_estimated_cost_usd run of None \<Rightarrow> [] | Some usd \<Rightarrow> [(''estimated_cost_usd'', usd)])"

definition log_experiment_run :: "experiment_run \<Rightarrow> string \<Rightarrow> mlflow_call list" where
  "log_experiment_run run tracking_uri =
     [SetTrackingUri tracking_uri, SetExperiment (ex_experiment_name run),
      StartRun (ex_run_name run) (ex_tags run), LogParams (run_params run), LogMetrics (ex_metrics run)]
     @ map (\<lambda>(key, value). LogMetric key value) (extra_metrics run)"

section \<open>The record determines the run\<close>

abbreviation configured :: "string \<Rightarrow> bool" where
  "configured \<equiv> prefix ''retrieval_config.''"

text \<open>The parameters are the named ones, in order, then the retrieval configuration.\<close>

definition named_params :: "experiment_run \<Rightarrow> (string \<times> json) list" where
  "named_params run =
     [(''code_sha'', VStr (ex_code_sha run)),
      (''source_manifest_checksum'', VStr (take 12 (ex_source_manifest_checksum run))),
      (''evaluation_suite_checksum'', VStr (take 12 (ex_evaluation_suite_checksum run))),
      (''provider'', VStr (ex_provider run)),
      (''model'', VStr (ex_model run))]
     @ (case ex_prompt_version run of None \<Rightarrow> [] | Some v \<Rightarrow> [(''prompt_version'', VStr v)])
     @ (case ex_temperature run of None \<Rightarrow> [] | Some t \<Rightarrow> [(''temperature'', VFloat t)])
     @ (case ex_max_output_tokens run of None \<Rightarrow> [] | Some n \<Rightarrow> [(''max_output_tokens'', VInt n)])
     @ (case ex_retrieval_top_k run of None \<Rightarrow> [] | Some k \<Rightarrow> [(''retrieval_top_k'', VInt k)])"

lemma dict_put_fresh: "k \<notin> fst ` set d \<Longrightarrow> dict_put d k v = d @ [(k, v)]"
  by (induction d k v rule: dict_put.induct) auto

lemma fold_put_fresh:
  assumes "distinct (dict_keys cfg)" "\<forall>k \<in> set (dict_keys cfg). p @ k \<notin> fst ` set d"
  shows "fold (\<lambda>(key, value) params. dict_put params (p @ key) value) cfg d = d @ map (\<lambda>(key, value). (p @ key, value)) cfg"
  using assms
proof (induction cfg arbitrary: d)
  case (Cons kv cfg)
  obtain k v where kv: "kv = (k, v)" by (cases kv)
  have "dict_put d (p @ k) v = d @ [(p @ k, v)]" using Cons.prems(2) by (intro dict_put_fresh) (simp add: kv)
  moreover have "\<forall>j \<in> set (dict_keys cfg). p @ j \<notin> fst ` set (d @ [(p @ k, v)])"
    using Cons.prems by (auto simp: kv)
  ultimately show ?case using Cons.IH [of "d @ [(p @ k, v)]"] Cons.prems(1) by (simp add: kv)
qed simp

lemma named_not_configured: "(k, v) \<in> set (named_params run) \<Longrightarrow> \<not> configured k"
  by (auto simp: named_params_def split: option.splits)

lemma run_params_split:
  assumes "distinct (dict_keys (ex_retrieval_config run))"
  shows "run_params run = named_params run @ map (\<lambda>(key, value). (''retrieval_config.'' @ key, value)) (ex_retrieval_config run)"
proof -
  have "run_params run = fold (\<lambda>(key, value) params. dict_put params (''retrieval_config.'' @ key) value)
      (ex_retrieval_config run) (named_params run)"
    unfolding run_params_def named_params_def Let_def put_some_def
    by (rule arg_cong [where f = "fold _ _"]) (simp add: dict_put_fresh split: option.splits)
  moreover have "\<forall>k \<in> set (dict_keys (ex_retrieval_config run)). ''retrieval_config.'' @ k \<notin> fst ` set (named_params run)"
    using named_not_configured [of "''retrieval_config.'' @ _" _ run] by (auto simp del: append.simps)
  ultimately show ?thesis by (simp only: fold_put_fresh [OF assms])
qed

lemma named_params_get:
  "dict_get (named_params run) ''code_sha'' = Some (VStr (ex_code_sha run))"
  "dict_get (named_params run) ''source_manifest_checksum'' = Some (VStr (take 12 (ex_source_manifest_checksum run)))"
  "dict_get (named_params run) ''evaluation_suite_checksum'' = Some (VStr (take 12 (ex_evaluation_suite_checksum run)))"
  "dict_get (named_params run) ''provider'' = Some (VStr (ex_provider run))"
  "dict_get (named_params run) ''model'' = Some (VStr (ex_model run))"
  "dict_get (named_params run) ''prompt_version'' = map_option VStr (ex_prompt_version run)"
  "dict_get (named_params run) ''temperature'' = map_option VFloat (ex_temperature run)"
  "dict_get (named_params run) ''max_output_tokens'' = map_option VInt (ex_max_output_tokens run)"
  "dict_get (named_params run) ''retrieval_top_k'' = map_option VInt (ex_retrieval_top_k run)"
  by (simp_all add: named_params_def split: option.splits)

text \<open>Entries whose names start with one prefix, in a list that continues with other names.\<close>

lemma filter_prefixed:
  "filter (\<lambda>kv. prefix p (fst kv)) (map (\<lambda>(k, v). (p @ k, f v)) xs) = map (\<lambda>(k, v). (p @ k, f v)) xs"
  "\<not> prefix p q \<Longrightarrow> \<not> prefix q p \<Longrightarrow> filter (\<lambda>kv. prefix p (fst kv)) (map (\<lambda>(k, v). (q @ k, f v)) xs) = []"
proof -
  show "filter (\<lambda>kv. prefix p (fst kv)) (map (\<lambda>(k, v). (p @ k, f v)) xs) = map (\<lambda>(k, v). (p @ k, f v)) xs"
    by (rule filter_True) auto
  show "filter (\<lambda>kv. prefix p (fst kv)) (map (\<lambda>(k, v). (q @ k, f v)) xs) = []" if "\<not> prefix p q" "\<not> prefix q p"
  proof -
    have "\<not> prefix p (q @ k)" for k using prefix_same_cases [of p "q @ k" q] that by auto
    then show ?thesis by (auto simp: filter_empty_conv)
  qed
qed

lemma prefixed_inject:
  assumes "map (\<lambda>(k, v). (p @ k, f v)) xs = map (\<lambda>(k, v). (p @ k, f v)) ys" "inj f"
  shows "xs = ys"
proof (rule map_injective [OF assms(1)])
  show "inj (\<lambda>(k, v). (p @ k, f v))" using assms(2) by (auto simp: inj_def)
qed

lemma same_params:
  assumes d: "distinct (dict_keys (ex_retrieval_config r))" "distinct (dict_keys (ex_retrieval_config r'))"
    and eq: "run_params r = run_params r'"
  shows "named_params r = named_params r'" "ex_retrieval_config r = ex_retrieval_config r'"
proof -
  let ?cfg = "\<lambda>r. map (\<lambda>(key, value). (''retrieval_config.'' @ key, value)) (ex_retrieval_config r)"
  have n: "filter (\<lambda>kv. configured (fst kv)) (named_params x) = []" for x
    by (rule filter_False) (metis named_not_configured prod.collapse)
  have c: "filter (\<lambda>kv. configured (fst kv)) (?cfg x) = ?cfg x" for x
    by (rule filter_prefixed(1) [where f = "\<lambda>v. v"])
  have e: "named_params r @ ?cfg r = named_params r' @ ?cfg r'"
    using eq by (simp only: run_params_split [OF d(1)] run_params_split [OF d(2)])
  from arg_cong [OF this, of "filter (\<lambda>kv. configured (fst kv))"] have cfg: "?cfg r = ?cfg r'"
    by (simp only: filter_append n c append_Nil)
  then show "ex_retrieval_config r = ex_retrieval_config r'"
    by (rule prefixed_inject [where f = "\<lambda>v. v"]) (simp add: inj_def)
  show "named_params r = named_params r'" using e by (simp only: cfg append_same_eq)
qed

text \<open>The further metrics of one family, picked out by the prefix of their names.\<close>

lemma extra_metrics_family:
  "filter (\<lambda>kv. prefix ''latency_ms.'' (fst kv)) (extra_metrics r) = map (\<lambda>(k, v). (''latency_ms.'' @ k, v)) (ex_latency_ms r)"
  "filter (\<lambda>kv. prefix ''token_usage.'' (fst kv)) (extra_metrics r) = map (\<lambda>(k, v). (''token_usage.'' @ k, of_int v)) (ex_token_usage r)"
  "filter (\<lambda>kv. \<not> prefix ''latency_ms.'' (fst kv) \<and> \<not> prefix ''token_usage.'' (fst kv)) (extra_metrics r)
     = (case ex_estimated_cost_usd r of None \<Rightarrow> [] | Some usd \<Rightarrow> [(''estimated_cost_usd'', usd)])"
proof -
  define L where "L = map (\<lambda>(k, v). (''latency_ms.'' @ k, v)) (ex_latency_ms r)"
  define T where "T = map (\<lambda>(k, v). (''token_usage.'' @ k, rat_of_int v)) (ex_token_usage r)"
  define C where "C = (case ex_estimated_cost_usd r of None \<Rightarrow> [] | Some usd \<Rightarrow> [(''estimated_cost_usd'', usd)])"
  have e: "extra_metrics r = L @ T @ C" by (simp only: extra_metrics_def L_def T_def C_def)
  have l: "\<forall>kv \<in> set L. prefix ''latency_ms.'' (fst kv) \<and> \<not> prefix ''token_usage.'' (fst kv)" by (auto simp: L_def)
  have t: "\<forall>kv \<in> set T. prefix ''token_usage.'' (fst kv) \<and> \<not> prefix ''latency_ms.'' (fst kv)" by (auto simp: T_def)
  have c: "\<forall>kv \<in> set C. \<not> prefix ''latency_ms.'' (fst kv) \<and> \<not> prefix ''token_usage.'' (fst kv)"
    by (auto simp: C_def split: option.splits)
  note facts = e L_def [symmetric] T_def [symmetric] C_def [symmetric] filter_append
  show "filter (\<lambda>kv. prefix ''latency_ms.'' (fst kv)) (extra_metrics r) = map (\<lambda>(k, v). (''latency_ms.'' @ k, v)) (ex_latency_ms r)"
    unfolding facts using l t c by (metis append_Nil2 filter_True filter_False)
  show "filter (\<lambda>kv. prefix ''token_usage.'' (fst kv)) (extra_metrics r) = map (\<lambda>(k, v). (''token_usage.'' @ k, of_int v)) (ex_token_usage r)"
    unfolding facts using l t c by (metis append_Nil append_Nil2 filter_True filter_False)
  show "filter (\<lambda>kv. \<not> prefix ''latency_ms.'' (fst kv) \<and> \<not> prefix ''token_usage.'' (fst kv)) (extra_metrics r)
     = (case ex_estimated_cost_usd r of None \<Rightarrow> [] | Some usd \<Rightarrow> [(''estimated_cost_usd'', usd)])"
    unfolding facts using l t c by (metis (no_types, lifting) append_Nil filter_True filter_False)
qed

lemma same_extra_metrics:
  assumes "extra_metrics r = extra_metrics r'"
  shows "ex_latency_ms r = ex_latency_ms r'" "ex_token_usage r = ex_token_usage r'"
    "ex_estimated_cost_usd r = ex_estimated_cost_usd r'"
proof -
  have e: "filter P (extra_metrics r) = filter P (extra_metrics r')" for P by (simp add: assms)
  show "ex_latency_ms r = ex_latency_ms r'"
    using e [of "\<lambda>kv. prefix ''latency_ms.'' (fst kv)", unfolded extra_metrics_family]
    by (rule prefixed_inject [where f = "\<lambda>v. v"]) (simp add: inj_def)
  show "ex_token_usage r = ex_token_usage r'"
    using e [of "\<lambda>kv. prefix ''token_usage.'' (fst kv)", unfolded extra_metrics_family]
    by (rule prefixed_inject [where f = of_int]) (simp add: inj_def)
  show "ex_estimated_cost_usd r = ex_estimated_cost_usd r'"
    using e [of "\<lambda>kv. \<not> prefix ''latency_ms.'' (fst kv) \<and> \<not> prefix ''token_usage.'' (fst kv)", unfolded extra_metrics_family]
    by (simp split: option.splits)
qed

text \<open>The calls one run makes to the tracking store determine it: two runs that log the same have the
  same experiment, provenance (the checksums in their first twelve digits), model, settings, retrieval
  configuration and figures. No name hides another, so nothing of a recorded score is lost.\<close>

theorem logged_run_is_determined:
  assumes d: "distinct (dict_keys (ex_retrieval_config r))" "distinct (dict_keys (ex_retrieval_config r'))"
    and eq: "log_experiment_run r uri = log_experiment_run r' uri'"
  shows "r' = r\<lparr>ex_source_manifest_checksum := ex_source_manifest_checksum r',
                ex_evaluation_suite_checksum := ex_evaluation_suite_checksum r'\<rparr>
     \<and> take 12 (ex_source_manifest_checksum r') = take 12 (ex_source_manifest_checksum r)
     \<and> take 12 (ex_evaluation_suite_checksum r') = take 12 (ex_evaluation_suite_checksum r)"
proof -
  have top: "ex_experiment_name r = ex_experiment_name r'" "ex_run_name r = ex_run_name r'" "ex_tags r = ex_tags r'"
    "run_params r = run_params r'" "ex_metrics r = ex_metrics r'"
    and calls: "map (\<lambda>(key, value). LogMetric key value) (extra_metrics r) = map (\<lambda>(key, value). LogMetric key value) (extra_metrics r')"
    using eq by (simp_all add: log_experiment_run_def)
  from calls have "extra_metrics r = extra_metrics r'" by (rule map_injective) (auto simp: inj_def)
  note figures = same_extra_metrics [OF this]
  note params = same_params [OF d top(4)]
  have get: "dict_get (named_params r) k = dict_get (named_params r') k" for k by (simp add: params(1))
  note named = get [of "''code_sha''"] get [of "''source_manifest_checksum''"] get [of "''evaluation_suite_checksum''"]
    get [of "''provider''"] get [of "''model''"] get [of "''prompt_version''"] get [of "''temperature''"]
    get [of "''max_output_tokens''"] get [of "''retrieval_top_k''"]
  have "inj VStr" "inj VFloat" "inj VInt" by (auto simp: inj_def)
  then show ?thesis
    using top(1-3,5) figures params(2) named [unfolded named_params_get]
    by (intro conjI experiment_run.equality) (auto dest: option.inj_map [THEN injD])
qed

theorem logged_run_is_determined_witness:
  "\<exists>r. build (Some ''abc'') [(''data/source_manifest.json'', ''{}''), (''tests/evaluation/golden_cases.json'', ''[]'')]
         ''parcelpilot-retrieval'' ''n/a'' ''fts5-bm25'' (\<lambda>r. r\<lparr>ex_retrieval_config := [(''corpus_chunks'', VInt 18)]\<rparr>) = Inr r
     \<and> ex_code_sha r = ''abc'' \<and> (\<forall>model. log_experiment_run (r\<lparr>ex_model := model\<rparr>) DEFAULT_TRACKING_URI
                                          = log_experiment_run r DEFAULT_TRACKING_URI \<longrightarrow> model = ''fts5-bm25'')"
proof -
  obtain r where r: "build (Some ''abc'') [(''data/source_manifest.json'', ''{}''), (''tests/evaluation/golden_cases.json'', ''[]'')]
         ''parcelpilot-retrieval'' ''n/a'' ''fts5-bm25'' (\<lambda>r. r\<lparr>ex_retrieval_config := [(''corpus_chunks'', VInt 18)]\<rparr>) = Inr r"
    "ex_code_sha r = ''abc''" "ex_retrieval_config r = [(''corpus_chunks'', VInt 18)]" "ex_model r = ''fts5-bm25''"
    by (simp add: build_def get_source_manifest_checksum_def get_golden_cases_checksum_def sha256_of_file_def get_code_sha_def
        strip_def lstrip_def rstrip_def is_space_def in_range_def)
  have "model = ''fts5-bm25''" if e: "log_experiment_run (r\<lparr>ex_model := model\<rparr>) DEFAULT_TRACKING_URI = log_experiment_run r DEFAULT_TRACKING_URI"
    for model
  proof -
    have "distinct (dict_keys (ex_retrieval_config (r\<lparr>ex_model := model\<rparr>)))" "distinct (dict_keys (ex_retrieval_config r))"
      by (simp_all add: r(3))
    from logged_run_is_determined [OF this e] have "ex_model r = ex_model (r\<lparr>ex_model := model\<rparr>)" by (metis experiment_run.select_convs(7) experiment_run.surjective experiment_run.update_convs(4,5))
    then show ?thesis by (simp add: r(4))
  qed
  with r(1,2) show ?thesis by blast
qed

end
