(* ===== verification/Eval_Logging.thy ===== *)
theory Eval_Logging
  imports Agent_Eval Experiment_Runs
begin

text \<open>
  The \<open>--mlflow\<close> branch of the evaluation scripts: the experiment each one builds from its result.
  The lemmas show that what is logged of a result determines the figures it reports.
\<close>

definition py_float_of :: "nat \<Rightarrow> pyfloat" where
  "py_float_of n = fl (of_nat n)"

text \<open>\<open>if x is not None: metrics[name] = x\<close>.\<close>

definition put_metric :: "string \<Rightarrow> pyfloat option \<Rightarrow> (string \<times> pyfloat) list \<Rightarrow> (string \<times> pyfloat) list" where
  "put_metric name v metrics = (case v of None \<Rightarrow> metrics | Some x \<Rightarrow> dict_put metrics name x)"

definition retrieval_experiment :: "string option \<Rightarrow> repo_files \<Rightarrow> retrieval_report \<Rightarrow> error + experiment_run" where
  "retrieval_experiment git repo r =
     build git repo ''parcelpilot-retrieval'' ''n/a'' ''fts5-bm25'' (\<lambda>run. run\<lparr>
       ex_retrieval_top_k := Some 5,
       ex_retrieval_config := [(''filters'', VStr ''none''), (''corpus_chunks'', VInt 18)],
       ex_metrics := [(''recall_at_3'', ev_recall_at_3 r), (''recall_at_5'', ev_recall_at_5 r),
                      (''source_hit_rate'', ev_source_hit_rate r)],
       ex_latency_ms := [(''p50'', ev_latency_p50_ms r), (''p95'', ev_latency_p95_ms r)],
       ex_tags := [(''phase'', ''2''), (''eval_type'', ''retrieval'')]\<rparr>)"

definition trajectory_metrics :: "trajectory_report \<Rightarrow> (string \<times> pyfloat) list" where
  "trajectory_metrics r =
     (let metrics = [(''cases_evaluated'', py_float_of (tr_cases_evaluated r))];
          metrics = put_metric ''mean_tool_correctness'' (tr_mean_tool_correctness r) metrics;
          metrics = put_metric ''status_match_rate'' (tr_status_match_rate r) metrics;
          metrics = dict_put metrics ''task_completion_scored'' (py_float_of (tr_task_completion_scored r))
      in put_metric ''mean_task_completion'' (tr_mean_task_completion r) metrics)"

definition trajectory_experiment :: "string option \<Rightarrow> repo_files \<Rightarrow> trajectory_report \<Rightarrow> error + experiment_run" where
  "trajectory_experiment git repo r =
     build git repo ''parcelpilot-agent-trajectory'' (tr_provider r) (tr_model r) (\<lambda>run. run\<lparr>
       ex_metrics := trajectory_metrics r,
       ex_tags := [(''phase'', ''3''), (''eval_type'', ''agent_trajectory''), (''judge'', tr_judge_model r)]\<rparr>)"

text \<open>The provider and model of the baseline are the arguments it was run with.\<close>

definition baseline_metrics :: "baseline_report \<Rightarrow> (string \<times> pyfloat) list" where
  "baseline_metrics r =
     (let metrics = [(''cases_evaluated'', py_float_of (bl_cases_evaluated r)), (''cases_scored'', py_float_of (bl_cases_scored r))];
          metrics = put_metric ''mean_contextual_relevancy'' (bl_mean_contextual_relevancy r) metrics
      in put_metric ''mean_faithfulness'' (bl_mean_faithfulness r) metrics)"

definition baseline_experiment ::
  "string option \<Rightarrow> repo_files \<Rightarrow> string \<Rightarrow> string \<Rightarrow> baseline_report \<Rightarrow> error + experiment_run" where
  "baseline_experiment git repo name model r =
     build git repo ''parcelpilot-deepeval'' name model (\<lambda>run. run\<lparr>
       ex_metrics := baseline_metrics r,
       ex_tags := [(''phase'', ''2''), (''eval_type'', ''deepeval''), (''judge'', judge_model_name name model)]\<rparr>)"

text \<open>One run per alert; the latency of its summary is the argument.\<close>

definition radar_experiment ::
  "string option \<Rightarrow> repo_files \<Rightarrow> string \<Rightarrow> pyfloat \<Rightarrow> radar_row \<Rightarrow> error + experiment_run" where
  "radar_experiment git repo model latency row =
     build git repo ''parcelpilot-operations-radar-summary'' ''mock'' model (\<lambda>run. run\<lparr>
       ex_prompt_version := rd_prompt_version row,
       ex_metrics := [(''observed_count'', fl (of_int (rd_observed_count row))), (''threshold'', fl (of_int (rd_threshold row)))],
       ex_latency_ms := [(''summary'', latency)],
       ex_token_usage := [(''summary_total'', rd_summary_tokens row)],
       ex_estimated_cost_usd := Some (rd_summary_cost_usd row),
       ex_tags := [(''phase'', ''5''), (''alert_type'', rd_alert_type row), (''alert_id'', rd_alert_id row),
                   (''severity'', rd_severity row)]\<rparr>)"

section \<open>What the logs determine\<close>

definition logged :: "error + experiment_run \<Rightarrow> error + mlflow_call list" where
  "logged m = bindE m (\<lambda>run. Inr (log_experiment_run run DEFAULT_TRACKING_URI))"

lemma build_fields:
  assumes "build git repo e p m kwargs = Inr run"
  obtains manifest suite where "get_source_manifest_checksum repo = Inr manifest" "get_golden_cases_checksum repo = Inr suite"
    "run = kwargs \<lparr>ex_experiment_name = e, ex_run_name = None, ex_code_sha = get_code_sha git,
       ex_source_manifest_checksum = manifest, ex_evaluation_suite_checksum = suite,
       ex_provider = p, ex_model = m, ex_prompt_version = None, ex_temperature = None,
       ex_max_output_tokens = None, ex_retrieval_top_k = None, ex_retrieval_config = [],
       ex_metrics = [], ex_latency_ms = [], ex_token_usage = [], ex_estimated_cost_usd = None, ex_tags = []\<rparr>"
  using assms by (auto simp: build_def bindE_eq_Inr)

lemma logged_Inr: "logged m = Inr calls \<longleftrightarrow> (\<exists>run. m = Inr run \<and> calls = log_experiment_run run DEFAULT_TRACKING_URI)"
  by (auto simp: logged_def bindE_eq_Inr)

lemma same_log:
  assumes "logged m = Inr calls" "logged m' = Inr calls"
    and "\<And>run. m = Inr run \<Longrightarrow> distinct (dict_keys (ex_retrieval_config run))"
      "\<And>run. m' = Inr run \<Longrightarrow> distinct (dict_keys (ex_retrieval_config run))"
  obtains run run' where "m = Inr run" "m' = Inr run'" "ex_metrics run' = ex_metrics run" "ex_latency_ms run' = ex_latency_ms run"
    "ex_token_usage run' = ex_token_usage run" "ex_tags run' = ex_tags run" "ex_provider run' = ex_provider run"
    "ex_model run' = ex_model run" "ex_prompt_version run' = ex_prompt_version run"
    "ex_estimated_cost_usd run' = ex_estimated_cost_usd run"
proof -
  from assms(1,2) obtain run run' where r: "m = Inr run" "m' = Inr run'"
    "log_experiment_run run DEFAULT_TRACKING_URI = log_experiment_run run' DEFAULT_TRACKING_URI"
    by (auto simp: logged_Inr)
  from logged_run_is_determined [OF assms(3) [OF r(1)] assms(4) [OF r(2)] r(3)]
  have e: "run' = run\<lparr>ex_source_manifest_checksum := ex_source_manifest_checksum run',
      ex_evaluation_suite_checksum := ex_evaluation_suite_checksum run'\<rparr>" by blast
  show thesis by (rule that [OF r(1,2)]; subst e; simp)
qed

text \<open>The trajectory evaluation: the averages that are absent are absent from the log, and no figure
  is taken for another.\<close>

lemma trajectory_metrics_get:
  "dict_get (trajectory_metrics r) ''mean_tool_correctness'' = tr_mean_tool_correctness r"
  "dict_get (trajectory_metrics r) ''status_match_rate'' = tr_status_match_rate r"
  "dict_get (trajectory_metrics r) ''mean_task_completion'' = tr_mean_task_completion r"
  "dict_get (trajectory_metrics r) ''cases_evaluated'' = Some (py_float_of (tr_cases_evaluated r))"
  "dict_get (trajectory_metrics r) ''task_completion_scored'' = Some (py_float_of (tr_task_completion_scored r))"
  by (simp_all add: trajectory_metrics_def put_metric_def Let_def split: option.splits)

lemma baseline_metrics_get:
  "dict_get (baseline_metrics r) ''mean_contextual_relevancy'' = bl_mean_contextual_relevancy r"
  "dict_get (baseline_metrics r) ''mean_faithfulness'' = bl_mean_faithfulness r"
  "dict_get (baseline_metrics r) ''cases_scored'' = Some (py_float_of (bl_cases_scored r))"
  "dict_get (baseline_metrics r) ''cases_evaluated'' = Some (py_float_of (bl_cases_evaluated r))"
  by (simp_all add: baseline_metrics_def put_metric_def Let_def split: option.splits)

lemma built_metrics:
  "trajectory_experiment git repo r = Inr run \<Longrightarrow> ex_metrics run = trajectory_metrics r \<and> ex_retrieval_config run = []
     \<and> ex_provider run = tr_provider r \<and> ex_model run = tr_model r"
  "baseline_experiment git repo name model b = Inr run \<Longrightarrow> ex_metrics run = baseline_metrics b \<and> ex_retrieval_config run = []
     \<and> ex_provider run = name \<and> ex_model run = model"
  "retrieval_experiment git repo v = Inr run \<Longrightarrow>
     ex_metrics run = [(''recall_at_3'', ev_recall_at_3 v), (''recall_at_5'', ev_recall_at_5 v),
       (''source_hit_rate'', ev_source_hit_rate v)]
     \<and> ex_latency_ms run = [(''p50'', ev_latency_p50_ms v), (''p95'', ev_latency_p95_ms v)]
     \<and> distinct (dict_keys (ex_retrieval_config run))"
  by (auto simp: trajectory_experiment_def baseline_experiment_def retrieval_experiment_def elim!: build_fields)

lemma trajectory_log_determines_figures:
  assumes "logged (trajectory_experiment git repo r) = Inr calls" "logged (trajectory_experiment git' repo' r') = Inr calls"
  shows "tr_provider r' = tr_provider r" "tr_model r' = tr_model r"
    "tr_mean_tool_correctness r' = tr_mean_tool_correctness r" "tr_status_match_rate r' = tr_status_match_rate r"
    "tr_mean_task_completion r' = tr_mean_task_completion r"
proof -
  obtain run run' where r: "trajectory_experiment git repo r = Inr run" "trajectory_experiment git' repo' r' = Inr run'"
    "ex_metrics run' = ex_metrics run" "ex_provider run' = ex_provider run" "ex_model run' = ex_model run"
    by (rule same_log [OF assms]) (auto dest: built_metrics(1))
  note b = built_metrics(1) [OF r(1)] built_metrics(1) [OF r(2)]
  with r show "tr_provider r' = tr_provider r" "tr_model r' = tr_model r" by simp_all
  from b r have m: "trajectory_metrics r' = trajectory_metrics r" by simp
  show "tr_mean_tool_correctness r' = tr_mean_tool_correctness r" "tr_status_match_rate r' = tr_status_match_rate r"
    "tr_mean_task_completion r' = tr_mean_task_completion r"
    using arg_cong [OF m, of "\<lambda>d. dict_get d ''mean_tool_correctness''"] arg_cong [OF m, of "\<lambda>d. dict_get d ''status_match_rate''"]
      arg_cong [OF m, of "\<lambda>d. dict_get d ''mean_task_completion''"] by (simp_all add: trajectory_metrics_get)
qed

lemma retrieval_log_determines_figures:
  assumes "logged (retrieval_experiment git repo r) = Inr calls" "logged (retrieval_experiment git' repo' r') = Inr calls"
  shows "ev_recall_at_3 r' = ev_recall_at_3 r" "ev_recall_at_5 r' = ev_recall_at_5 r" "ev_source_hit_rate r' = ev_source_hit_rate r"
    "ev_latency_p50_ms r' = ev_latency_p50_ms r" "ev_latency_p95_ms r' = ev_latency_p95_ms r"
proof -
  obtain run run' where r: "retrieval_experiment git repo r = Inr run" "retrieval_experiment git' repo' r' = Inr run'"
    "ex_metrics run' = ex_metrics run" "ex_latency_ms run' = ex_latency_ms run"
    by (rule same_log [OF assms]) (auto dest: built_metrics(3))
  with built_metrics(3) [OF r(1)] built_metrics(3) [OF r(2)]
  show "ev_recall_at_3 r' = ev_recall_at_3 r" "ev_recall_at_5 r' = ev_recall_at_5 r" "ev_source_hit_rate r' = ev_source_hit_rate r"
    "ev_latency_p50_ms r' = ev_latency_p50_ms r" "ev_latency_p95_ms r' = ev_latency_p95_ms r" by simp_all
qed

end
