(* ===== verification/Benchmark.thy ===== *)
theory Benchmark
  imports Action_Completion Timing_Stats Ingestion Radar Service_Credit Cancellation_Fees
begin

text \<open>
  \<open>scripts/run_performance_benchmark.py\<close>: each operation run thirty times over the ingested
  database, the action workflow among them. Latencies are left out but for their number: an
  operation contributes as many samples as it was called. The twelve hexadecimal digits each
  preparation draws are the argument \<open>uuids\<close>; the order in which SQLite hands over the rows of a
  query without \<open>ORDER BY\<close> is the argument \<open>scan\<close>.
\<close>

definition REPETITIONS :: nat where
  "REPETITIONS = 30"

text \<open>\<open>_bench\<close>: the call repeated on a database it does not change; the first error ends the run.\<close>

definition bench :: "nat \<Rightarrow> error + 'a \<Rightarrow> error + nat" where
  "bench n call = bindE call (\<lambda>_. Inr (n + REPETITIONS))"

fun bench_each :: "nat \<Rightarrow> ('a \<Rightarrow> error + 'b) \<Rightarrow> 'a list \<Rightarrow> error + nat" where
  "bench_each n call [] = Inr n"
| "bench_each n call (x # xs) = bindE (bench n (call x)) (\<lambda>m. bench_each m call xs)"

section \<open>The action workflow\<close>

fun eligible_ticket :: "db \<Rightarrow> string list \<Rightarrow> auth_context \<Rightarrow> clock \<Rightarrow> error + string option" where
  "eligible_ticket conn [] auth clk = Inr None"
| "eligible_ticket conn (tid # ids) auth clk =
     bindE (calculate_sla conn tid auth clk AGREEMENT_OVERRIDES DEFAULT_SOURCE) (\<lambda>outcome.
     case result outcome of
       None \<Rightarrow> eligible_ticket conn ids auth clk
     | Some sla \<Rightarrow>
         if sla_severity sla = P1 \<or> sla_breached sla = Some True then Inr (Some tid)
         else eligible_ticket conn ids auth clk)"

definition bench_user :: "nat \<Rightarrow> string" where
  "bench_user i = ''bench-user-'' @ str_of_int (int i)"

definition bench_round :: "db \<Rightarrow> string \<Rightarrow> auth_context \<Rightarrow> clock \<Rightarrow> (nat \<Rightarrow> string) \<Rightarrow> nat \<Rightarrow> error + db" where
  "bench_round conn tid auth clk uuids i =
     bindE (prepare_escalation conn tid ''perf benchmark'' auth clk (bench_user i)
              (''bench-req-'' @ str_of_int (int i)) (uuids i) AGREEMENT_OVERRIDES DEFAULT_SOURCE) (\<lambda>(outcome, conn).
     bindE (of_optionE AssertionError (outcome_record outcome)) (\<lambda>rec.
     bindE (confirm_action conn (action_id rec) (payload_hash rec) auth clk (bench_user i)) (\<lambda>(confirmation, conn).
     bindE (of_optionE AssertionError (outcome_record confirmation)) (\<lambda>_.
     bindE (execute_action conn (action_id rec) clk) (\<lambda>(_, conn). Inr conn)))))"

fun bench_rounds :: "db \<Rightarrow> string \<Rightarrow> auth_context \<Rightarrow> clock \<Rightarrow> (nat \<Rightarrow> string) \<Rightarrow> nat list \<Rightarrow> error + db" where
  "bench_rounds conn tid auth clk uuids [] = Inr conn"
| "bench_rounds conn tid auth clk uuids (i # is) =
     bindE (bench_round conn tid auth clk uuids i) (\<lambda>conn. bench_rounds conn tid auth clk uuids is)"

text \<open>The samples of each of the three operations, and the database after them.\<close>

definition bench_action_workflow :: "db \<Rightarrow> string list \<Rightarrow> auth_context \<Rightarrow> clock \<Rightarrow> (nat \<Rightarrow> string) \<Rightarrow> error + nat \<times> db" where
  "bench_action_workflow conn ticket_ids auth clk uuids =
     bindE (eligible_ticket conn ticket_ids auth clk) (\<lambda>eligible. case eligible of
       None \<Rightarrow> Inr (0, conn)
     | Some tid \<Rightarrow> bindE (bench_rounds conn tid auth clk uuids [0..<REPETITIONS]) (\<lambda>conn. Inr (REPETITIONS, conn)))"

section \<open>The whole benchmark\<close>

definition bench_operations_radar :: "db \<Rightarrow> string list \<Rightarrow> clock \<Rightarrow> error + nat \<times> nat" where
  "bench_operations_radar conn account_ids clk =
     (let radar = \<lambda>auth. run_operations_radar conn auth clk None DEFAULT_WINDOW_DAYS AGREEMENT_OVERRIDES DEFAULT_SOURCE in
      bindE (bench 0 (radar INTERNAL_SYSTEM_CONTEXT)) (\<lambda>full.
      bindE (case account_ids of [] \<Rightarrow> Inr 0
             | a # _ \<Rightarrow> bench 0 (radar \<lparr>role = SUPPORT_AGENT, account_scope = Some [a]\<rparr>)) (\<lambda>scoped.
      Inr (full, scoped))))"

text \<open>The read operations: three lookups and two searches, then the domain calculations row by row.\<close>

definition bench_reads ::
  "db \<Rightarrow> auth_context \<Rightarrow> clock \<Rightarrow> string list \<Rightarrow> string list \<Rightarrow> string list \<Rightarrow> error + (string \<times> nat) list" where
  "bench_reads conn auth clk account_ids order_ids ticket_ids =
     bindE (bench 0 (bindE (py_index account_ids 0) (\<lambda>a. get_account conn a auth))) (\<lambda>n1.
     bindE (bench 0 (bindE (py_index order_ids 0) (\<lambda>i. get_order conn i auth (tz_of clk)))) (\<lambda>n2.
     bindE (bench 0 (bindE (py_index ticket_ids 0) (\<lambda>i. get_ticket conn i auth (tz_of clk)))) (\<lambda>n3.
     bindE (bench 0 (search_orders conn auth (tz_of clk) None None None)) (\<lambda>n4.
     bindE (bench 0 (search_tickets conn auth (tz_of clk) None None)) (\<lambda>n5.
     Inr [(''get_account'', n1), (''get_order'', n2), (''get_ticket'', n3), (''search_orders'', n4), (''search_tickets'', n5)])))))"

definition bench_decisions :: "db \<Rightarrow> auth_context \<Rightarrow> clock \<Rightarrow> string list \<Rightarrow> string list \<Rightarrow> error + (string \<times> nat) list" where
  "bench_decisions conn auth clk order_ids ticket_ids =
     bindE (bench_each 0 (\<lambda>i.
       bindE (evaluate_cancellation conn i auth clk DEFAULT_FEE_RULES AGREEMENT_OVERRIDES DEFAULT_SOURCE) (\<lambda>_.
         evaluate_service_credit conn i auth clk DEFAULT_CREDIT_RULES AGREEMENT_OVERRIDES DEFAULT_SOURCE)) order_ids) (\<lambda>n.
     bindE (bench_each 0 (\<lambda>i.
       bindE (calculate_sla conn i auth clk AGREEMENT_OVERRIDES DEFAULT_SOURCE) (\<lambda>_.
       bindE (get_ticket conn i auth (tz_of clk)) (\<lambda>tkt. Inr (classify_severity tkt (Some conn))))) ticket_ids) (\<lambda>m.
     Inr [(''evaluate_cancellation'', n), (''evaluate_service_credit'', n), (''calculate_sla'', m), (''classify_severity'', m)]))"

record benchmark_counts =
  bm_operations :: "(string \<times> nat) list"
  bm_action_workflow :: nat
  bm_radar :: "nat \<times> nat"

definition run_benchmark ::
  "db_file option \<times> (error + ingest_summary) \<Rightarrow> (string list \<Rightarrow> string list) \<Rightarrow> (nat \<Rightarrow> string)
    \<Rightarrow> error + benchmark_counts \<times> db" where
  "run_benchmark outcome scan uuids =
     bindE (snd outcome) (\<lambda>summary.
     bindE (of_optionE (FileNotFoundError ''database not found'') (fst outcome)) (\<lambda>opened.
     bindE (fixed_snapshot_clock (zoned (sum_snapshot summary))) (\<lambda>clk.
     let conn0 = file_db opened; auth = INTERNAL_SYSTEM_CONTEXT;
         order_ids = scan (map or_order_id (db_orders conn0)); ticket_ids = scan (map tr_ticket_id (db_tickets conn0));
         account_ids = scan (map ar_account_id (db_accounts conn0))
     in
     bindE (bench_reads conn0 auth clk account_ids order_ids ticket_ids) (\<lambda>reads.
     bindE (bench_decisions conn0 auth clk order_ids ticket_ids) (\<lambda>decisions.
     bindE (bench_action_workflow conn0 ticket_ids auth clk uuids) (\<lambda>(workflow, conn).
     bindE (bench_operations_radar conn account_ids clk) (\<lambda>radar.
     Inr (\<lparr>bm_operations = reads @ decisions, bm_action_workflow = workflow, bm_radar = radar\<rparr>, conn))))))))"

section \<open>The workflow needs an open ticket\<close>

lemma prepare_goes_through:
  assumes "get_ticket conn tid auth (tz_of clk) = Inr tkt"
    and "calculate_sla conn tid auth clk overrides defaults = Inr d" "result d = Some sla"
    and "sla_severity sla = P1 \<or> sla_breached sla = Some True"
  shows "tkt_status tkt \<noteq> OPEN \<Longrightarrow> \<exists>out. prepare_escalation conn tid why auth clk user request uuid overrides defaults = Inr (out, conn)
      \<and> outcome_record out = None"
    and "tkt_status tkt = OPEN \<Longrightarrow> ''ACT-'' @ uuid \<notin> action_id ` set (db_actions conn) \<Longrightarrow>
      \<exists>out conn'. prepare_escalation conn tid why auth clk user request uuid overrides defaults = Inr (out, conn') \<and> success out"
proof -
  have r: "read_ticket conn tid auth (tz_of clk) None ''not_found'' = Inr (Inr tkt)" using assms(1) by (simp add: read_ticket_Inr)
  show "\<exists>out. prepare_escalation conn tid why auth clk user request uuid overrides defaults = Inr (out, conn)
      \<and> outcome_record out = None" if "tkt_status tkt \<noteq> OPEN"
    unfolding prepare_escalation_def r bindE.simps sum.case using that by simp
  show "\<exists>out conn'. prepare_escalation conn tid why auth clk user request uuid overrides defaults = Inr (out, conn') \<and> success out"
    if "tkt_status tkt = OPEN" "''ACT-'' @ uuid \<notin> action_id ` set (db_actions conn)"
    unfolding prepare_escalation_def r bindE.simps sum.case assms(2,3) option.case Let_def
    using that assms(4) by (auto simp: insert_action_def)
qed

lemma eligible_ticket_Some:
  "eligible_ticket conn ids auth clk = Inr (Some tid) \<Longrightarrow>
     \<exists>d sla. calculate_sla conn tid auth clk AGREEMENT_OVERRIDES DEFAULT_SOURCE = Inr d \<and> result d = Some sla
       \<and> (sla_severity sla = P1 \<or> sla_breached sla = Some True)"
  by (induction ids) (auto simp: bindE_eq_Inr split: option.splits if_splits)

lemma only_actions_trans:
  "conn2 = conn\<lparr>db_actions := a\<rparr> \<Longrightarrow> conn3 = conn2\<lparr>db_actions := b\<rparr> \<Longrightarrow> conn3 = conn\<lparr>db_actions := db_actions conn3\<rparr>"
  by simp

text \<open>One round leaves one executed action more and everything else as it was.\<close>

definition one_more :: "db \<Rightarrow> string \<Rightarrow> db \<Rightarrow> bool" where
  "one_more conn i conn' \<longleftrightarrow>
     unique_ids conn' \<and> conn' = conn\<lparr>db_actions := db_actions conn'\<rparr>
     \<and> map action_id (db_actions conn') = map action_id (db_actions conn) @ [i]
     \<and> map_option act_status (get_action conn' i) = Some EXECUTED \<and> (\<forall>j. j \<noteq> i \<longrightarrow> get_action conn' j = get_action conn j)"

lemma transition_only_actions: "transition conn i rec conn' \<Longrightarrow> conn' = conn\<lparr>db_actions := db_actions conn'\<rparr>"
  unfolding transition_def by blast

lemma bench_round_completes:
  assumes u: "unique_ids conn" and tkt: "get_ticket conn tid auth (tz_of clk) = Inr tkt" "tkt_status tkt = OPEN"
    and sla: "calculate_sla conn tid auth clk AGREEMENT_OVERRIDES DEFAULT_SOURCE = Inr d" "result d = Some sla"
      "sla_severity sla = P1 \<or> sla_breached sla = Some True"
    and fresh: "''ACT-'' @ uuids i \<notin> action_id ` set (db_actions conn)"
  shows "\<exists>conn'. bench_round conn tid auth clk uuids i = Inr conn' \<and> one_more conn (''ACT-'' @ uuids i) conn'"
proof -
  obtain out conn1 where p: "prepare_escalation conn tid ''perf benchmark'' auth clk (bench_user i)
      (''bench-req-'' @ str_of_int (int i)) (uuids i) AGREEMENT_OVERRIDES DEFAULT_SOURCE = Inr (out, conn1)" "success out"
    using prepare_goes_through(2) [OF tkt(1) sla tkt(2) fresh] by blast
  obtain rec conn2 conn3 where rec: "outcome_record out = Some rec" "action_id rec = ''ACT-'' @ uuids i"
    and c2: "confirm_action conn1 (action_id rec) (payload_hash rec) auth clk (bench_user i) = Inr (succeeded (confirmed clk rec), conn2)"
      "transition conn1 (action_id rec) (confirmed clk rec) conn2"
    and c3: "execute_action conn2 (action_id rec) clk = Inr (succeeded (executed clk rec), conn3)"
      "transition conn2 (action_id rec) (executed clk rec) conn3"
    and ins: "insert_action conn rec = Inr conn1"
    by (rule workflow_completes [OF u p(2,1)])
  have "bench_round conn tid auth clk uuids i = Inr conn3"
    using p(1) rec(1) c2(1) c3(1) by (simp add: bench_round_def)
  moreover have "one_more conn (''ACT-'' @ uuids i) conn3"
    unfolding one_more_def
  proof (intro conjI allI impI)
    have e1: "conn1 = conn\<lparr>db_actions := db_actions conn @ [rec]\<rparr>" using ins by (auto simp: insert_action_def split: if_splits)
    note t2 = c2(2) [unfolded transition_def] and t3 = c3(2) [unfolded transition_def]
    show "unique_ids conn3" using t3 by blast
    show "conn3 = conn\<lparr>db_actions := db_actions conn3\<rparr>"
      by (rule only_actions_trans [OF only_actions_trans [OF e1]]) (rule transition_only_actions, rule c2(2) c3(2))+
    show "map action_id (db_actions conn3) = map action_id (db_actions conn) @ [''ACT-'' @ uuids i]"
      using t2 t3 rec(2) by (simp add: e1)
    show "map_option act_status (get_action conn3 (''ACT-'' @ uuids i)) = Some EXECUTED"
      using t3 rec(2) by (simp add: executed_def)
    show "get_action conn3 j = get_action conn j" if "j \<noteq> ''ACT-'' @ uuids i" for j
      using t2 t3 that rec(2) insert_action_get(2) [OF ins] by simp
  qed
  ultimately show ?thesis by blast
qed

lemma bench_rounds_complete:
  assumes "unique_ids conn" "get_ticket conn tid auth (tz_of clk) = Inr tkt" "tkt_status tkt = OPEN"
    and "calculate_sla conn tid auth clk AGREEMENT_OVERRIDES DEFAULT_SOURCE = Inr d" "result d = Some sla"
      "sla_severity sla = P1 \<or> sla_breached sla = Some True"
    and "distinct (map uuids is)" "\<forall>i \<in> set is. ''ACT-'' @ uuids i \<notin> action_id ` set (db_actions conn)"
  shows "\<exists>conn'. bench_rounds conn tid auth clk uuids is = Inr conn'
    \<and> map action_id (db_actions conn') = map action_id (db_actions conn) @ map (\<lambda>i. ''ACT-'' @ uuids i) is
    \<and> conn' = conn\<lparr>db_actions := db_actions conn'\<rparr>
    \<and> (\<forall>i \<in> set is. map_option act_status (get_action conn' (''ACT-'' @ uuids i)) = Some EXECUTED)
    \<and> (\<forall>j. j \<notin> (\<lambda>i. ''ACT-'' @ uuids i) ` set is \<longrightarrow> get_action conn' j = get_action conn j)"
  using assms
proof (induction "is" arbitrary: conn)
  case (Cons i "is")
  obtain c where c: "bench_round conn tid auth clk uuids i = Inr c" "one_more conn (''ACT-'' @ uuids i) c"
    using bench_round_completes [OF Cons.prems(1-6), of uuids i] Cons.prems(8) by auto
  note more = c(2) [unfolded one_more_def]
  then have ids: "action_id ` set (db_actions c) = insert (''ACT-'' @ uuids i) (action_id ` set (db_actions conn))"
    by (metis set_map set_append empty_set list.simps(15) Un_insert_right sup_bot.right_neutral)
  from more have e: "c = conn\<lparr>db_actions := db_actions c\<rparr>" by blast
  have "get_ticket c tid auth (tz_of clk) = Inr tkt" by (subst e) (simp add: Cons.prems(2))
  moreover have "calculate_sla c tid auth clk AGREEMENT_OVERRIDES DEFAULT_SOURCE = Inr d" by (subst e) (simp add: Cons.prems(4))
  moreover have "\<forall>j \<in> set is. ''ACT-'' @ uuids j \<notin> action_id ` set (db_actions c)"
    using Cons.prems(7,8) by (auto simp: ids) (metis image_eqI)
  ultimately obtain c' where c': "bench_rounds c tid auth clk uuids is = Inr c'"
    "map action_id (db_actions c') = map action_id (db_actions c) @ map (\<lambda>i. ''ACT-'' @ uuids i) is"
    "c' = c\<lparr>db_actions := db_actions c'\<rparr>"
    "\<forall>i \<in> set is. map_option act_status (get_action c' (''ACT-'' @ uuids i)) = Some EXECUTED"
    "\<forall>j. j \<notin> (\<lambda>i. ''ACT-'' @ uuids i) ` set is \<longrightarrow> get_action c' j = get_action c j"
    using Cons.IH [of c] Cons.prems(3,5,6,7) more by auto
  moreover have "get_action c' (''ACT-'' @ uuids i) = get_action c (''ACT-'' @ uuids i)"
    using Cons.prems(7) by (intro c'(5) [rule_format]) auto
  moreover have "c' = conn\<lparr>db_actions := db_actions c'\<rparr>" by (subst c'(3), subst e) simp
  ultimately show ?case using c(1) more by auto
qed simp

text \<open>The benchmark takes the first ticket that is P1 or past its resolution target, never looking at its
  status. If that ticket is open, the thirty rounds of preparing, confirming and executing all
  land: thirty new actions, in order, every one executed, every older action and the rest of the
  database untouched. If it is not, the first preparation is refused and the assertion after it
  ends the run with an error.\<close>

theorem benchmark_workflow_needs_open_ticket:
  assumes u: "unique_ids conn" and tid: "eligible_ticket conn ticket_ids auth clk = Inr (Some tid)"
    and tkt: "get_ticket conn tid auth (tz_of clk) = Inr tkt"
    and fresh: "inj_on uuids {..<REPETITIONS}" "\<forall>i < REPETITIONS. ''ACT-'' @ uuids i \<notin> action_id ` set (db_actions conn)"
  shows "if tkt_status tkt = OPEN
    then \<exists>conn'. bench_action_workflow conn ticket_ids auth clk uuids = Inr (REPETITIONS, conn')
      \<and> conn' = conn\<lparr>db_actions := db_actions conn'\<rparr>
      \<and> map action_id (db_actions conn') = map action_id (db_actions conn) @ map (\<lambda>i. ''ACT-'' @ uuids i) [0..<REPETITIONS]
      \<and> (\<forall>i < REPETITIONS. map_option act_status (get_action conn' (''ACT-'' @ uuids i)) = Some EXECUTED)
      \<and> (\<forall>j \<in> action_id ` set (db_actions conn). get_action conn' j = get_action conn j)
    else bench_action_workflow conn ticket_ids auth clk uuids = Inl AssertionError"
proof -
  obtain d sla where sla: "calculate_sla conn tid auth clk AGREEMENT_OVERRIDES DEFAULT_SOURCE = Inr d" "result d = Some sla"
    "sla_severity sla = P1 \<or> sla_breached sla = Some True"
    using eligible_ticket_Some [OF tid] by blast
  show ?thesis
  proof (cases "tkt_status tkt = OPEN")
    case True
    have d: "distinct (map uuids [0..<REPETITIONS])" using fresh(1) by (simp add: distinct_map atLeast0LessThan)
    have f: "\<forall>i \<in> set [0..<REPETITIONS]. ''ACT-'' @ uuids i \<notin> action_id ` set (db_actions conn)" using fresh(2) by simp
    obtain conn' where c: "bench_rounds conn tid auth clk uuids [0..<REPETITIONS] = Inr conn'"
      "map action_id (db_actions conn') = map action_id (db_actions conn) @ map (\<lambda>i. ''ACT-'' @ uuids i) [0..<REPETITIONS]"
      "conn' = conn\<lparr>db_actions := db_actions conn'\<rparr>"
      "\<forall>i \<in> set [0..<REPETITIONS]. map_option act_status (get_action conn' (''ACT-'' @ uuids i)) = Some EXECUTED"
      "\<forall>j. j \<notin> (\<lambda>i. ''ACT-'' @ uuids i) ` set [0..<REPETITIONS] \<longrightarrow> get_action conn' j = get_action conn j"
      by (rule exE [OF bench_rounds_complete [OF u tkt True sla d f]]) (elim conjE, rule that)
    have "bench_action_workflow conn ticket_ids auth clk uuids = Inr (REPETITIONS, conn')"
      by (simp add: bench_action_workflow_def tid c(1))
    moreover have "get_action conn' j = get_action conn j" if "j \<in> action_id ` set (db_actions conn)" for j
    proof (rule c(5) [rule_format], rule notI)
      assume "j \<in> (\<lambda>i. ''ACT-'' @ uuids i) ` set [0..<REPETITIONS]"
      then show False using that f by blast
    qed
    moreover have "\<forall>i < REPETITIONS. map_option act_status (get_action conn' (''ACT-'' @ uuids i)) = Some EXECUTED" using c(4) by simp
    ultimately show ?thesis unfolding if_P [OF True] using c(2,3) by blast
  next
    case False
    obtain out where "prepare_escalation conn tid ''perf benchmark'' auth clk (bench_user 0) (''bench-req-'' @ str_of_int (int 0))
        (uuids 0) AGREEMENT_OVERRIDES DEFAULT_SOURCE = Inr (out, conn)" "outcome_record out = None"
      using prepare_goes_through(1) [OF tkt sla False] by blast
    then have "bench_round conn tid auth clk uuids 0 = Inl AssertionError" by (simp add: bench_round_def)
    moreover have "[0..<REPETITIONS] = 0 # [Suc 0..<REPETITIONS]" by (simp add: REPETITIONS_def upt_conv_Cons)
    ultimately show ?thesis by (simp add: False bench_action_workflow_def tid)
  qed
qed

theorem benchmark_workflow_needs_open_ticket_witness:
  "\<exists>conn'. bench_action_workflow sample_db [''TCK-1''] admin sample_clock (\<lambda>i. replicate i CHR ''0'') = Inr (REPETITIONS, conn')
     \<and> (\<forall>i < REPETITIONS. map_option act_status (get_action conn' (''ACT-'' @ replicate i CHR ''0'')) = Some EXECUTED)"
proof -
  obtain tkt d sla where s: "get_ticket sample_db ''TCK-1'' admin (tz_of sample_clock) = Inr tkt" "tkt_status tkt = OPEN"
    "calculate_sla sample_db ''TCK-1'' admin sample_clock AGREEMENT_OVERRIDES DEFAULT_SOURCE = Inr d"
    "result d = Some sla" "sla_severity sla = P1" by (rule sample_tck1)
  have "unique_ids sample_db" by (simp add: unique_ids_def sample_db_def)
  moreover have "eligible_ticket sample_db [''TCK-1''] admin sample_clock = Inr (Some ''TCK-1'')" using s(3-5) by simp
  moreover have "inj_on (\<lambda>i. replicate i CHR ''0'') {..<REPETITIONS}" by (metis inj_onI length_replicate)
  moreover have "\<forall>i < REPETITIONS. ''ACT-'' @ replicate i CHR ''0'' \<notin> action_id ` set (db_actions sample_db)"
    by (simp add: sample_db_def)
  ultimately show ?thesis
    using benchmark_workflow_needs_open_ticket [of sample_db "[''TCK-1'']" admin sample_clock "''TCK-1''" tkt "\<lambda>i. replicate i CHR ''0''"]
      s(1,2) by auto
qed

end
