(* ===== verification/Message_Text.thy ===== *)
theory Message_Text
  imports Iso_Time
begin

text \<open>
  The text of an f-string: the pieces of \<open>Model_Types\<close>, written with Python's number, date and list
  formats.
\<close>

text \<open>\<open>:g\<close>: six significant digits without trailing zeros, with an exponent outside \<open>1e-4\<close> and \<open>1e6\<close>.\<close>

definition strip_zeros :: "string \<Rightarrow> string" where
  "strip_zeros s = (if CHR ''.'' \<in> set s
     then rev (dropWhile (\<lambda>c. c = CHR ''.'') (take 1 (dropWhile (\<lambda>c. c = CHR ''0'') (rev s)))
        @ drop 1 (dropWhile (\<lambda>c. c = CHR ''0'') (rev s)))
     else s)"

definition general :: "pyfloat \<Rightarrow> string" where
  "general x =
     (if x = 0 then ''0''
      else
        let e = decimal_exponent \<bar>x\<bar>;
            m = round_half_even (\<bar>x\<bar> / 10 powi (e - 5));
            (m, e) = (if m = 1000000 then (100000, e + 1) else (m, e));
            ds = str_of_int m
        in (if x < 0 then ''-'' else [])
           @ (if - 4 \<le> e \<and> e < 6
              then strip_zeros (if e < 0 then ''0.'' @ replicate (nat (- e - 1)) (CHR ''0'') @ ds
                else take (nat e + 1) ds @ ''.'' @ drop (nat e + 1) ds)
              else strip_zeros (take 1 ds @ ''.'' @ drop 1 ds) @ ''e'' @ (if e < 0 then ''-'' else ''+'') @ zero_padded 2 \<bar>e\<bar>))"

fun frag_text :: "frag \<Rightarrow> string" where
  "frag_text (T s) = s"
| "frag_text (G x) = general x"
| "frag_text (F0 x) = fixed 0 x"
| "frag_text (F1 x) = fixed 1 x"
| "frag_text (F4 x) = fixed 4 x"
| "frag_text (Pct0 x) = percent0 x"
| "frag_text (IntT i) = str_of_int i"
| "frag_text (IsoT d) = iso_datetime d"
| "frag_text (DateT d) = isoformat (ymd_of d)"
| "frag_text (DateOptT x) = (case x of None \<Rightarrow> ''None'' | Some d \<Rightarrow> isoformat (ymd_of d))"
| "frag_text (ReprList xs) = repr_strs xs"

definition fstr_text :: "fstr \<Rightarrow> string" where
  "fstr_text m = concat (map frag_text m)"

end
