(* ===== verification/Eval_Reports.thy ===== *)
theory Eval_Reports
  imports Agent_Eval Benchmark Message_Text
begin

text \<open>
  The Markdown reports the evaluation scripts write (\<open>render_report\<close> of \<open>scripts/run_operations_radar_eval.py\<close>,
  \<open>run_performance_benchmark.py\<close>, \<open>run_retrieval_eval.py\<close>, \<open>run_agent_trajectory_eval.py\<close> and
  \<open>run_deepeval_baseline.py\<close>) and the table \<open>scripts/run_api_load_test.py\<close> prints, as lists of lines. The
  lemmas compare what a report claims in words with the figures it is made of.
\<close>

section \<open>Lines and tables\<close>

definition report_text :: "string list \<Rightarrow> string" where
  "report_text report_lines = join newline report_lines @ newline"

definition table_row :: "string list \<Rightarrow> string" where
  "table_row cells = ''| '' @ join '' | '' cells @ '' |''"

definition str_of_nat :: "nat \<Rightarrow> string" where
  "str_of_nat n = str_of_int (int n)"

text \<open>\<open>str\<close> of a value of a parsed JSON document.\<close>

fun json_repr :: "json \<Rightarrow> string" where
  "json_repr VNull = ''None''"
| "json_repr (VBool b) = (if b then ''True'' else ''False'')"
| "json_repr (VInt i) = str_of_int i"
| "json_repr (VFloat x) = float_repr x"
| "json_repr (VStr s) = repr_str s"
| "json_repr (VList vs) = ''['' @ join '', '' (map json_repr vs) @ '']''"
| "json_repr (VObj kvs) = ''{'' @ join '', '' (map (\<lambda>(k, v). repr_str k @ '': '' @ json_repr v) kvs) @ ''}''"

definition json_str :: "json \<Rightarrow> string" where
  "json_str v = (case v of VStr s \<Rightarrow> s | _ \<Rightarrow> json_repr v)"

section \<open>The radar report\<close>

text \<open>The latencies, rounded to four digits, are a function of the row's number.\<close>

definition radar_report_lines :: "string \<Rightarrow> string \<Rightarrow> (nat \<Rightarrow> pyfloat) \<Rightarrow> radar_report \<Rightarrow> string list" where
  "radar_report_lines provider_name model latency r =
     [''# Operations Radar Evaluation'',
      '''',
      ''Real-pack detection run. Provider: `'' @ provider_name @ ''` / model `'' @ model
       @ ''`. Every alert below came from a deterministic rule in app/detection/rules.py - the LLM ''
       @ ''summary column is explanatory prose only, generated after detection and never able to ''
       @ ''change count/threshold/severity/affected_accounts/evidence.'',
      '''',
      ''**Total alerts: '' @ str_of_nat (rr_total_alerts r) @ ''**'',
      '''',
      ''| Alert type | Count |'',
      ''|---|---|'']
     @ map (\<lambda>(t, n). table_row [t, str_of_nat n]) (sort_key fst (rr_by_type r))
     @ ['''',
        ''## Per-alert results'',
        '''',
        ''| Alert ID | Type | Severity | Observed/Threshold | Accounts | Evidence | Trust |'',
        ''|---|---|---|---|---|---|---|'']
     @ map (\<lambda>row. table_row [rd_alert_id row, rd_alert_type row, rd_severity row,
           str_of_int (rd_observed_count row) @ ''/'' @ str_of_int (rd_threshold row), join '', '' (rd_affected_accounts row),
           str_of_nat (rd_evidence_count row), rd_trust_state row]) (rr_rows r)
     @ ['''',
        ''## LLM summary cost/latency (per alert)'',
        '''',
        ''| Alert ID | Tokens | Latency (ms) | Cost (USD) |'',
        ''|---|---|---|---|'']
     @ map (\<lambda>(i, row). table_row [rd_alert_id row, str_of_int (rd_summary_tokens row), float_repr (latency i),
           fixed 6 (rd_summary_cost_usd row)]) (enumerate 0 (rr_rows r))"

section \<open>The performance report\<close>

text \<open>The \<open>p50_ms\<close>, \<open>p95_ms\<close> and \<open>count\<close> of the named operations.\<close>

type_synonym stats = "(string \<times> pyfloat \<times> pyfloat \<times> nat) list"

definition round4 :: "pyfloat \<Rightarrow> pyfloat" where
  "round4 x = fl (of_int (round_half_even (x * 10000)) / 10000)"

definition stats_of :: "(string \<times> pyfloat list) list \<Rightarrow> error + stats" where
  "stats_of timings =
     mapE (\<lambda>(name, samples). bindE (p50 samples) (\<lambda>mid. bindE (p95 samples) (\<lambda>high.
       Inr (name, round4 mid, round4 high, length samples)))) timings"

record performance =
  pf_operations :: stats
  pf_action_workflow :: stats
  pf_radar :: stats

definition stats_rows :: "stats \<Rightarrow> string list" where
  "stats_rows = map (\<lambda>(name, mid, high, n). table_row [name, float_repr mid, float_repr high, str_of_nat n])"

definition performance_report_lines :: "performance \<Rightarrow> string list" where
  "performance_report_lines r =
     [''# Performance Report'',
      '''',
      ''Structured-data and domain-calculation latency, measured locally against the full ''
       @ ''workbook ('' @ str_of_nat REPETITIONS
       @ '' repetitions per operation). Retrieval latency is in docs/retrieval_evaluation.md. This ''
       @ ''is not a claim of production latency under load - it establishes that nothing here is ''
       @ ''accidentally quadratic or I/O-bound at this corpus size.'',
      '''',
      ''| Operation | p50 (ms) | p95 (ms) | n |'',
      ''|---|---|---|---|'']
     @ stats_rows (pf_operations r)
     @ ['''',
        ''## Action workflow (Phase 4)'',
        '''',
        ''**Mock-executor latency only.** No real external action system exists to call - ''
         @ ''execute_action only updates the local actions audit row. This is not a production ''
         @ ''external-action latency claim. Unlike the read-only table above, every action workflow ''
         @ ''call durably commits its audit row to disk (sqlite3.Connection.commit()) before ''
         @ ''returning, which is why these numbers run roughly 1000x higher - that is a deliberate ''
         @ ''durability choice for the audit trail, not something to optimize away.'',
        '''',
        ''| Operation | p50 (ms) | p95 (ms) | n |'',
        ''|---|---|---|---|'']
     @ stats_rows (pf_action_workflow r)
     @ ['''',
        ''## Operations Radar (Phase 5)'',
        '''',
        ''`full_snapshot_scan` runs every detection rule unrestricted (all accounts); ''
         @ ''`scoped_account_query` runs the same with the caller restricted to one account. Both ''
         @ ''measured against the real pack, not the fixture corpus.'',
        '''',
        ''| Operation | p50 (ms) | p95 (ms) | n |'',
        ''|---|---|---|---|'']
     @ stats_rows (pf_radar r)"

section \<open>The retrieval report\<close>

definition no_miss :: string where
  "no_miss = ''No case-level miss: every eligible case retrieved at least one expected source in the top ''
       @ ''3 (that is what Recall@3/@5 above measure).''"

definition no_partial_miss :: string where
  "no_partial_miss = ''None: every expected source was retrieved in every case.''"

definition known_sensitivity :: string where
  "known_sensitivity =
     ''One known ranking sensitivity found during Phase 1 testing, not from the table above: a ''
       @ ''query built only from the words *'' @ [CHR 0x22] @ ''Northstar cancellation fee waiver''
       @ [CHR 0x22]
       @ ''* ranks SRC-06 (LumenWorks) above SRC-05 (Northstar), because the literal word ''
       @ [CHR 0x22] @ ''waiver'' @ [CHR 0x22] @ '' appears in SRC-06's text ('' @ [CHR 0x22]
       @ ''No special cancellation-fee waiver applies'' @ [CHR 0x22]
       @ '') but nowhere in SRC-05's. The OR-of-terms BM25 query has no way to know '' @ [CHR 0x22]
       @ ''Northstar'' @ [CHR 0x22]
       @ '' is the more load-bearing term for this question. Every case actually phrased the way a ''
       @ ''user would ask it (naming the account or order) ranks correctly - this only surfaces for ''
       @ ''artificially sparse, keyword-only queries. Documented as a known limitation of plain BM25 ''
       @ ''rather than fixed, per ADR-003 (embeddings only if measured to help, and this corpus is ''
       @ ''24 chunks).''"

definition retrieval_head :: "retrieval_report \<Rightarrow> string list" where
  "retrieval_head r =
     [''# Retrieval Evaluation'',
      '''',
      ''Measured against `tests/evaluation/golden_cases.json` by running ''
       @ ''`scripts/run_retrieval_eval.py` over a freshly built database. Regenerate with:'',
      '''',
      ''```'',
      ''python scripts/run_retrieval_eval.py --source-dir '' @ [CHR 0x22] @ ''<pack>/source-pack''
       @ [CHR 0x22],
      ''```'',
      '''',
      ''## Method'',
      '''',
      str_of_nat (ev_cases_evaluated r)
       @ '' of the 32 golden cases cite at least one document source (SRC-01..SRC-06) and pose a ''
       @ ''real natural-language question - the rest are structured-data lookups, action-flow steps, ''
       @ ''or authorization-denial cases with no document to retrieve. For each eligible case, ''
       @ ''`search_documents()` runs with the case's `question` text verbatim at top_k=5 (no query ''
       @ ''rewriting, no filters). A case is a hit at rank R if an expected source_id appears at ''
       @ ''position R in the results.'',
      '''',
      ''## Results'',
      '''',
      ''- Cases evaluated: **'' @ str_of_nat (ev_cases_evaluated r) @ ''**'',
      ''- Recall@3: **'' @ percent0 (ev_recall_at_3 r) @ ''**'',
      ''- Recall@5: **'' @ percent0 (ev_recall_at_5 r) @ ''**'',
      ''- Source hit rate (expected sources actually retrieved, of all expected-source citations ''
       @ ''across eligible cases): **'' @ percent0 (ev_source_hit_rate r) @ ''**'',
      ''- Retrieval latency: p50 **'' @ fixed 2 (ev_latency_p50_ms r) @ '' ms**, p95 **''
       @ fixed 2 (ev_latency_p95_ms r) @ '' ms** ('' @ str_of_nat (ev_cases_evaluated r)
       @ '' queries, local SQLite, cold connection per run)'',
      '''',
      ''## Per-case detail'',
      '''',
      ''| Case | Rank | Expected | Retrieved (top 5) |'',
      ''|---|---|---|---|'']"

definition or_none_found :: "string list \<Rightarrow> string" where
  "or_none_found retrieved = (if join '', '' retrieved = [] then ''(none)'' else join '', '' retrieved)"

definition retrieval_row_line :: "retrieval_row \<Rightarrow> string" where
  "retrieval_row_line row =
     table_row [json_str (rv_id row), case rv_rank row of None \<Rightarrow> ''miss'' | Some k \<Rightarrow> str_of_nat k,
       join '', '' (rv_expected row), or_none_found (rv_retrieved row)]"

definition failure_lines :: "retrieval_row \<Rightarrow> string list" where
  "failure_lines row =
     [''### '' @ json_str (rv_id row), '''', ''> '' @ rv_question row, '''',
      ''Expected: '' @ join '', '' (rv_expected row) @ ''. Retrieved: '' @ or_none_found (rv_retrieved row) @ ''.'', '''']"

definition partial_line :: "retrieval_row \<times> string list \<Rightarrow> string" where
  "partial_line miss =
     (case miss of (row, missing) \<Rightarrow>
        ''- **'' @ json_str (rv_id row) @ ''**: missing '' @ join '', '' missing @ '' from the top 5 (retrieved ''
        @ join '', '' (rv_retrieved row) @ ''). Query: '' @ [CHR 0x22] @ rv_question row @ [CHR 0x22])"

definition retrieval_report_lines :: "retrieval_report \<Rightarrow> string list" where
  "retrieval_report_lines r =
     retrieval_head r @ map retrieval_row_line (ev_rows r)
     @ ['''', ''## Representative failures'', '''']
     @ (if failures r = [] then [no_miss] else concat (map failure_lines (failures r)))
     @ ['''',
        ''### Partial source misses (source hit rate '' @ percent0 (ev_source_hit_rate r) @ '')'',
        '''',
        ''A case can pass the rank-based hit test above (some expected source was found) while ''
         @ ''still missing one of several expected sources - this is what `source_hit_rate` catches ''
         @ ''that Recall@K does not.'',
        '''']
     @ (if partial_misses r = [] then [no_partial_miss] else map partial_line (partial_misses r) @ [''''])
     @ [known_sensitivity]"

section \<open>The trajectory report\<close>

definition trajectory_intro :: "trajectory_report \<Rightarrow> string" where
  "trajectory_intro r =
     (if tr_provider r = ''mock'' then
        ''**This run used MockProvider.** Tool correctness and status-match below are genuine, ''
        @ ''non-fabricated scores - they compare the real agent's actual tool calls and terminal ''
        @ ''status against the golden dataset, and need no LLM judge. Task completion (an LLM-judged ''
        @ ''metric) could not be scored with MockProvider as the judge - see the harness-blocked note ''
        @ ''below; this mirrors docs/deepeval_baseline.md's documented limitation, not a new one.''
      else
        ''This run used `'' @ tr_judge_model r
        @ ''` as both agent LLM and judge - task completion below is a real LLM-judged score.'')"

definition optional_line :: "'a option \<Rightarrow> ('a \<Rightarrow> string) \<Rightarrow> string list" where
  "optional_line x f = (case x of None \<Rightarrow> [] | Some y \<Rightarrow> [f y])"

definition trajectory_row_line :: "trajectory_row \<Rightarrow> string" where
  "trajectory_row_line row =
     table_row [tj_id row, join '', '' (tj_expected_tools row), join '', '' (tj_actual_tools row), fixed 2 (tj_tool_correctness row),
       case tj_expected_status row of None \<Rightarrow> ''None'' | Some s \<Rightarrow> s, tj_actual_status row,
       case tj_status_match row of None \<Rightarrow> ''-'' | Some b \<Rightarrow> if b then ''yes'' else ''NO'',
       case tj_task_completion row of None \<Rightarrow> ''-'' | Some x \<Rightarrow> fixed 2 x]"

definition trajectory_report_lines :: "trajectory_report \<Rightarrow> string list" where
  "trajectory_report_lines r =
     [''# Agent Trajectory Evaluation'',
      '''',
      trajectory_intro r,
      '''',
      ''## Method'',
      '''',
      str_of_nat (tr_cases_evaluated r)
       @ '' golden cases with a real question and a non-empty expected_tools list. For each: run the ''
       @ ''actual agent (app/agent/orchestrator.py::run_agent) against the real database with the ''
       @ ''case's own role/account_scope, then score tool correctness (DeepEval's ''
       @ ''ToolCorrectnessMetric, exact match, no judge needed) and terminal-status match against ''
       @ ''the case's expected_status.'',
      '''',
      ''## Results'',
      '''',
      ''- Provider: `'' @ tr_provider r @ ''` / model `'' @ tr_model r @ ''`'',
      ''- Judge: `'' @ tr_judge_model r @ ''`'',
      ''- Cases evaluated: **'' @ str_of_nat (tr_cases_evaluated r) @ ''**'']
     @ optional_line (tr_mean_tool_correctness r) (\<lambda>x. ''- Mean tool correctness: **'' @ fixed 2 x @ ''**'')
     @ optional_line (tr_status_match_rate r) (\<lambda>x. ''- Status match rate: **'' @ fixed 2 x @ ''** ('' @ str_of_nat (tr_status_checkable_cases r)
         @ '' status-checkable cases; the rest expect an action_pending/action_completed/rejected ''
         @ ''status, out of scope for Phase 3)'')
     @ [''- Task completion: scored for '' @ str_of_nat (tr_task_completion_scored r) @ '' of ''
         @ str_of_nat (tr_cases_evaluated r) @ '' cases''
         @ (case tr_task_completion_error r of None \<Rightarrow> []
            | Some e \<Rightarrow> if e = [] then [] else '' (harness-blocked for the rest: `'' @ e @ ''`)'')]
     @ optional_line (tr_mean_task_completion r) (\<lambda>x. ''- Mean task completion (real LLM-judged score, scored cases only): **'' @ fixed 2 x @ ''**'')
     @ ['''',
        ''## Per-case results'',
        '''',
        ''| Case | Tools expected | Tools called | Tool correctness | Status expected | Status ''
         @ ''actual | Match | Task completion |'',
        ''|---|---|---|---|---|---|---|---|'']
     @ map trajectory_row_line (tr_rows r)"

section \<open>The baseline report\<close>

definition baseline_caveat :: "string \<Rightarrow> string \<Rightarrow> baseline_report \<Rightarrow> string" where
  "baseline_caveat provider_name judge r =
     (if provider_name = ''mock'' \<and> bl_cases_scored r = 0 then
        ''**No quality scores were produced.** DeepEval's LLM-judged metrics require the judge to ''
        @ ''return structured JSON verdicts; MockProvider returns a fixed placeholder string, which ''
        @ ''is not that. This is not a bug being routed around - it is the honest signal that a real ''
        @ ''score needs a real judge model. What this run *did* verify: retrieval via the real ''
        @ ''`search_documents` tool, `LLMTestCase` construction, and the `GatewayDeepEvalModel` ''
        @ ''bridge all execute correctly up to the point DeepEval calls the judge - the wiring works, ''
        @ ''the score does not exist yet. Re-run with `--provider anthropic --model <name>` and a ''
        @ ''real `ANTHROPIC_API_KEY` for genuine scores.'' @ newline @ newline
        @ ''DeepEval's error, for the first case it failed on: `''
        @ (case bl_harness_error r of None \<Rightarrow> ''None'' | Some e \<Rightarrow> e) @ ''`''
      else if provider_name = ''mock'' then
        ''**This run used the mock provider as both answerer and judge.** Scores below prove the ''
        @ ''DeepEval harness runs end to end, not that any answer is actually good - MockProvider's ''
        @ ''canned response is not a real support answer. Re-run with `--provider anthropic --model ''
        @ ''<name>` and a real ANTHROPIC_API_KEY for a genuine quality signal.''
      else
        ''This run used `'' @ judge
        @ ''` as both answerer and judge - these are real LLM-judged quality scores.'')"

fun baseline_row_line :: "baseline_row \<Rightarrow> string" where
  "baseline_row_line (ScoredRow i q relevancy faithfulness) = table_row [i, fixed 2 relevancy, fixed 2 faithfulness]"
| "baseline_row_line (BlockedRow i q e) = table_row [i, ''harness-blocked'', ''harness-blocked'']"

definition baseline_report_lines :: "string \<Rightarrow> string \<Rightarrow> baseline_report \<Rightarrow> string list" where
  "baseline_report_lines provider_name model r =
     [''# DeepEval Baseline'',
      '''',
      baseline_caveat provider_name (judge_model_name provider_name model) r,
      '''',
      ''## Method'',
      '''',
      str_of_nat (bl_cases_evaluated r)
       @ '' golden cases with a real question and at least one expected document source (the same ''
       @ ''eligibility as docs/retrieval_evaluation.md). For each: retrieve via the real ''
       @ ''search_documents tool, generate an answer from the retrieved evidence via the configured ''
       @ ''LLMProvider, then score with DeepEval's ContextualRelevancyMetric (is the retrieved ''
       @ ''context relevant to the question) and FaithfulnessMetric (does the answer stay grounded ''
       @ ''in that context).'',
      '''',
      ''## Results'',
      '''',
      ''- Provider: `'' @ provider_name @ ''` / model `'' @ model @ ''`'',
      ''- Judge: `'' @ judge_model_name provider_name model @ ''`'',
      ''- Cases evaluated: **'' @ str_of_nat (bl_cases_evaluated r) @ ''** (scored: ''
       @ str_of_nat (bl_cases_scored r) @ '', harness-blocked: ''
       @ str_of_int (int (bl_cases_evaluated r) - int (bl_cases_scored r)) @ '')'']
     @ optional_line (bl_mean_contextual_relevancy r) (\<lambda>x. ''- Mean contextual relevancy: **'' @ fixed 2 x @ ''**'')
     @ optional_line (bl_mean_faithfulness r) (\<lambda>x. ''- Mean faithfulness: **'' @ fixed 2 x @ ''**'')
     @ ['''',
        ''## Per-case results'',
        '''',
        ''| Case | Contextual relevancy | Faithfulness |'',
        ''|---|---|---|'']
     @ map baseline_row_line (bl_rows r)"

section \<open>The load test's table\<close>

definition load_head :: string where
  "load_head = join '' '' [ljust 8 ''endpoint'', rjust 11 ''concurrency'', rjust 8 ''req/s'', rjust 8 ''p50 ms'', rjust 8 ''p95 ms'',
     rjust 8 ''max ms'', rjust 7 ''errors'']"

definition load_line :: "string \<Rightarrow> level_row \<Rightarrow> string" where
  "load_line name row =
     join '' '' [ljust 8 name, rjust 11 (str_of_nat (lv_concurrency row)), rjust 8 (float_repr (lv_requests_per_sec row)),
       rjust 8 (float_repr (lv_p50_ms row)), rjust 8 (float_repr (lv_p95_ms row)), rjust 8 (float_repr (lv_max_ms row)),
       rjust 7 (str_of_nat (lv_errors row))]"

text \<open>An endpoint by its name: method, path and body.\<close>

definition LOAD_ENDPOINTS :: "(string \<times> string \<times> string \<times> json) list" where
  "LOAD_ENDPOINTS =
     [(''chat'', ''POST'', ''/api/chat'', VObj [(''question'', VStr ''What severity is TKT-501?'')]),
      (''radar'', ''POST'', ''/api/radar/run'', VObj [])]"

text \<open>The lines printed, and the error that ends the loop early; \<open>run\<close> is \<open>run_level\<close> against the server,
  given method, path, body and concurrency.\<close>

type_synonym level_run = "string \<Rightarrow> string \<Rightarrow> json \<Rightarrow> nat \<Rightarrow> error + level_row"

fun load_lines :: "level_run \<Rightarrow> ((string \<times> string \<times> string \<times> json) \<times> nat) list \<Rightarrow> string list \<times> error option" where
  "load_lines run [] = ([], None)"
| "load_lines run (((name, meth, path, body), concurrency) # rest) =
     (case run meth path body concurrency of
        Inl e \<Rightarrow> ([], Some e)
      | Inr row \<Rightarrow> apfst ((#) (load_line name row)) (load_lines run rest))"

definition load_test :: "level_run \<Rightarrow> nat list \<Rightarrow> string list \<times> error option" where
  "load_test run levels = apfst ((#) load_head) (load_lines run (List.product LOAD_ENDPOINTS levels))"

section \<open>What the reports claim\<close>

lemma str_of_nat_Cons: obtains c cs where "str_of_nat n = c # cs" "is_digit c"
proof -
  have "str_of_nat n \<noteq> []" by (simp add: str_of_nat_def str_of_int_def)
  then obtain c cs where "str_of_nat n = c # cs" by (cases "str_of_nat n") auto
  moreover from this have "is_digit c" using digits_of_digits [of c n] by (simp add: str_of_nat_def str_of_int_def)
  ultimately show thesis by (rule that)
qed

text \<open>The two claims are spelled like no other line.\<close>

lemma claims_not_in_head: "no_miss \<notin> set (retrieval_head r)" "no_partial_miss \<notin> set (retrieval_head r)"
  by (rule str_of_nat_Cons [of "ev_cases_evaluated r"],
      auto simp: retrieval_head_def no_miss_def no_partial_miss_def is_digit_def in_range_def)+

lemma claims_not_in_rows:
  "no_miss \<notin> set (map retrieval_row_line rows)" "no_partial_miss \<notin> set (map retrieval_row_line rows)"
  "no_miss \<notin> set (concat (map failure_lines rows))" "no_partial_miss \<notin> set (concat (map failure_lines rows))"
  "no_miss \<notin> set (map partial_line misses)" "no_partial_miss \<notin> set (map partial_line misses)"
  by (auto simp: retrieval_row_line_def table_row_def failure_lines_def partial_line_def no_miss_def no_partial_miss_def)

lemma claims_distinct: "no_miss \<noteq> no_partial_miss" "no_miss \<noteq> known_sensitivity" "no_partial_miss \<noteq> known_sensitivity"
  "no_miss \<noteq> []" "no_partial_miss \<noteq> []"
  by (simp_all add: no_miss_def no_partial_miss_def known_sensitivity_def)

lemma no_miss_claimed: "no_miss \<in> set (retrieval_report_lines r) \<longleftrightarrow> failures r = []"
  using claims_not_in_head(1) [of r] claims_not_in_rows(1) [of "ev_rows r"] claims_not_in_rows(3) [of "failures r"]
    claims_not_in_rows(5) [of "partial_misses r"] claims_distinct
  unfolding retrieval_report_lines_def set_append Un_iff by (auto simp: no_miss_def)

lemma no_partial_miss_claimed: "no_partial_miss \<in> set (retrieval_report_lines r) \<longleftrightarrow> partial_misses r = []"
  using claims_not_in_head(2) [of r] claims_not_in_rows(2) [of "ev_rows r"] claims_not_in_rows(4) [of "failures r"]
    claims_not_in_rows(6) [of "partial_misses r"] claims_distinct
  unfolding retrieval_report_lines_def set_append Un_iff by (auto simp: no_partial_miss_def)

lemma fl_one: "fl 1 = 1"
  using fl_of_nat [of 1] by simp

lemma ratio_self: "0 < n \<Longrightarrow> ratio n n = 1"
  by (simp add: ratio_def fl_one)

lemma percent0_ends: "percent0 1 = ''100%''" "percent0 0 = ''0%''"
  by code_simp+

lemma found_all: "found_sources row = length (rv_expected row) \<longleftrightarrow> set (rv_expected row) \<subseteq> set (rv_retrieved row)"
proof -
  have "found_sources row = length (rv_expected row) \<longleftrightarrow> filter (\<lambda>sid. sid \<in> set (rv_retrieved row)) (rv_expected row) = rv_expected row"
    unfolding found_sources_def by (metis length_filter_less filter_id_conv nat_neq_iff)
  then show ?thesis by (auto simp: filter_id_conv)
qed

lemma partial_misses_Nil:
  "partial_misses r = [] \<longleftrightarrow> (\<forall>row \<in> set (ev_rows r). set (rv_expected row) \<subseteq> set (rv_retrieved row))"
  by (auto simp: partial_misses_def filter_empty_conv)

lemma figure_lines:
  "''- Recall@3: **'' @ percent0 (ev_recall_at_3 r) @ ''**'' \<in> set (retrieval_report_lines r)"
  "''### Partial source misses (source hit rate '' @ percent0 (ev_source_hit_rate r) @ '')'' \<in> set (retrieval_report_lines r)"
  by (simp_all add: retrieval_report_lines_def retrieval_head_def)

lemma case_lines:
  assumes "row \<in> set (ev_rows r)"
  shows "retrieval_row_line row \<in> set (retrieval_report_lines r)"
    and "hit_within 3 row \<or> set (failure_lines row) \<subseteq> set (retrieval_report_lines r)"
proof -
  show "retrieval_row_line row \<in> set (retrieval_report_lines r)"
    unfolding retrieval_report_lines_def set_append by (rule UnI2, rule UnI1) (use assms in simp)
  have "set (failure_lines row) \<subseteq> set (if failures r = [] then [no_miss] else concat (map failure_lines (failures r)))"
    if "\<not> hit_within 3 row"
  proof -
    from that assms have "row \<in> set (failures r)" by (auto simp: failures_def hit_within_def split: option.splits)
    then show ?thesis by auto
  qed
  then show "hit_within 3 row \<or> set (failure_lines row) \<subseteq> set (retrieval_report_lines r)"
    unfolding retrieval_report_lines_def set_append by blast
qed



text \<open>The baseline report's opening words are not made from its figures. If no case could be scored,
  the report of a live run still says that its scores are real ones, and that of a mock run calls the
  error of the last case the error of the first; the table says harness-blocked in every row.\<close>

theorem baseline_report_words:
  assumes "\<forall>row \<in> set rows. row_scores row = None" "rows \<noteq> []"
  shows "baseline_report_lines name model (baseline_summary rows) ! 2 =
      (if name = ''mock'' then baseline_report_lines ''mock'' model (baseline_summary [last rows]) ! 2
       else ''This run used `'' @ judge_model_name name model
         @ ''` as both answerer and judge - these are real LLM-judged quality scores.'')
    \<and> map baseline_row_line rows = map (\<lambda>row. table_row [row_case row, ''harness-blocked'', ''harness-blocked'']) rows"
proof -
  have none: "List.map_filter row_scores xs = []" if "set xs \<subseteq> set rows" for xs
    using that assms(1) by (induction xs) (auto simp: map_filter_simps)
  have "harness_error rows = harness_error [last rows]"
    using assms by (cases rows rule: rev_cases) (auto simp: harness_error_def split: baseline_row.splits)
  moreover have "map baseline_row_line rows = map (\<lambda>row. table_row [row_case row, ''harness-blocked'', ''harness-blocked'']) rows"
    using assms(1) by (auto elim!: row_scores.elims)
  ultimately show ?thesis
    using none [of rows] none [of "[last rows]"] assms(2)
    by (simp add: baseline_report_lines_def baseline_caveat_def baseline_summary_def)
qed

end
