(* ===== verification/Agent_Cli.thy ===== *)
theory Agent_Cli
  imports Agent_Eval Agent_Confidentiality Message_Text
begin

text \<open>
  \<open>scripts/run_agent_cli.py\<close>: one question asked of an ingested database, from the arguments to the
  printed lines. Parsing the command line is left out; the arguments arrive as a record.
\<close>

section \<open>From the arguments to a run\<close>

text \<open>\<open>s.split(",")\<close>.\<close>

fun split_commas :: "string \<Rightarrow> string list" where
  "split_commas [] = [[]]"
| "split_commas (c # cs) =
     (if c = CHR '','' then [] # split_commas cs
      else case split_commas cs of [] \<Rightarrow> [[c]] | w # ws \<Rightarrow> (c # w) # ws)"

record cli_args =
  cli_question :: string
  cli_role :: string
  cli_account_scope :: "string option"
  cli_live :: bool
  cli_model :: string

definition cli_auth :: "cli_args \<Rightarrow> error + auth_context" where
  "cli_auth args =
     bindE (parse_role (cli_role args)) (\<lambda>rl.
     Inr \<lparr>role = rl, account_scope =
       (case cli_account_scope args of None \<Rightarrow> None | Some s \<Rightarrow> if s = [] then None else Some (split_commas s))\<rparr>)"

text \<open>\<open>main\<close> up to the printed result; \<open>file\<close> is the database at the given path, if it exists.\<close>

definition cli_main ::
  "agent_env \<Rightarrow> (nat \<Rightarrow> nat \<Rightarrow> exn + sdk_message) \<Rightarrow> string option \<Rightarrow> request_context \<Rightarrow> string \<Rightarrow> db_file option \<Rightarrow> cli_args
    \<Rightarrow> failure + run_result" where
  "cli_main env create key rc path file args =
     bindE (case file of None \<Rightarrow> Inl (Exit (path @ '' not found - run scripts/ingest_sources.py first'')) | Some f \<Rightarrow> Inr f) (\<lambda>f.
     bindE (stored_snapshot f) (\<lambda>snap.
     bindE (raised (cli_auth args)) (\<lambda>auth.
     bindE (case build_default_provider (create 0) key (cli_live args) (cli_model args) of
              Inl (RuntimeError m) \<Rightarrow> Inl (Exit m) | Inl e \<Rightarrow> Inl (Raised e) | Inr (prov, model) \<Rightarrow> Inr model) (\<lambda>model.
     raised (run_agent
       (env\<lparr>env_provider := \<lambda>k. case build_default_provider (create k) key (cli_live args) (cli_model args) of
          Inr (prov, _) \<Rightarrow> prov | Inl _ \<Rightarrow> mock_complete\<rparr>)
       (cli_question args)
       \<lparr>arc_request_id = rc_request_id rc, arc_trace_id = rc_trace_id rc, arc_user_id = ''cli-user'', arc_auth = auth,
        arc_snapshot_time = snap\<rparr> (file_db f) model DEFAULT_BUDGET)))))"

section \<open>The printed lines\<close>

fun intent_value :: "intent \<Rightarrow> string" where
  "intent_value INFORMATIONAL = ''informational''"
| "intent_value ORDER_INVESTIGATION = ''order_investigation''"
| "intent_value TICKET_INVESTIGATION = ''ticket_investigation''"
| "intent_value ACCOUNT_INVESTIGATION = ''account_investigation''"
| "intent_value I_CANCELLATION = ''cancellation''"
| "intent_value I_SERVICE_CREDIT = ''service_credit''"
| "intent_value I_SLA = ''sla''"
| "intent_value I_SEVERITY = ''severity''"
| "intent_value KNOWN_ISSUE = ''known_issue''"
| "intent_value MULTI_SOURCE = ''multi_source''"
| "intent_value CLARIFICATION = ''clarification''"
| "intent_value UNSUPPORTED = ''unsupported''"

fun agent_state_value :: "agent_state \<Rightarrow> string" where
  "agent_state_value REQUEST_RECEIVED = ''REQUEST_RECEIVED''"
| "agent_state_value AUTH_VALIDATED = ''AUTH_VALIDATED''"
| "agent_state_value INTENT_RESOLVED = ''INTENT_RESOLVED''"
| "agent_state_value ENTITIES_RESOLVED = ''ENTITIES_RESOLVED''"
| "agent_state_value PLAN_CREATED = ''PLAN_CREATED''"
| "agent_state_value TOOL_EXECUTING = ''TOOL_EXECUTING''"
| "agent_state_value EVIDENCE_VALIDATED = ''EVIDENCE_VALIDATED''"
| "agent_state_value DOMAIN_EVALUATED = ''DOMAIN_EVALUATED''"
| "agent_state_value TRUST_EVALUATED = ''TRUST_EVALUATED''"
| "agent_state_value RESPONSE_COMPOSED = ''RESPONSE_COMPOSED''"
| "agent_state_value COMPLETED_STATE = ''COMPLETED''"
| "agent_state_value NEEDS_CLARIFICATION_STATE = ''NEEDS_CLARIFICATION''"
| "agent_state_value INSUFFICIENT_EVIDENCE_STATE = ''INSUFFICIENT_EVIDENCE''"
| "agent_state_value ESCALATED_STATE = ''ESCALATED''"
| "agent_state_value FAILED_STATE = ''FAILED''"
| "agent_state_value EVIDENCE_VALIDATION_FAILED_STATE = ''EVIDENCE_VALIDATION_FAILED''"

definition or_none :: "('a \<Rightarrow> string) \<Rightarrow> 'a option \<Rightarrow> string" where
  "or_none f x = (case x of None \<Rightarrow> ''None'' | Some y \<Rightarrow> f y)"

text \<open>A heading with a line break before it and one line per item, or nothing.\<close>

definition listed :: "string \<Rightarrow> string list \<Rightarrow> string list" where
  "listed caption entries = (if entries = [] then [] else (CHR 0x0A # caption) # entries)"

definition citation_print :: "evidence_ref \<Rightarrow> string" where
  "citation_print ref =
     ''  - ['' @ ev_source_id ref @ (case ev_locator ref of None \<Rightarrow> [] | Some l \<Rightarrow> if l = [] then [] else '':'' @ l)
       @ ''] '' @ (case ev_note ref of None \<Rightarrow> [] | Some s \<Rightarrow> s)"

definition truth :: "bool \<Rightarrow> string" where
  "truth b = (if b then ''True'' else ''False'')"

definition gateway_lines :: "gateway_run_info \<Rightarrow> string list" where
  "gateway_lines info =
     (CHR 0x0A # ''gateway: fallback_used='' @ truth (gr_fallback_used info) @ '' reason='' @ or_none id (gr_fallback_reason info))
     # map (\<lambda>a. ''  - '' @ pa_provider a @ ''/'' @ pa_model a @ '': success='' @ truth (pa_success a) @ '' error='' @ or_none id (pa_error a))
         (gr_attempts info)"

text \<open>The calls of \<open>print\<close>, given the latency and what the gateway, if there is one, noted of its last call.\<close>

definition cli_lines :: "run_result \<Rightarrow> pyfloat \<Rightarrow> gateway_run_info option \<Rightarrow> string list" where
  "cli_lines r latency_ms last_run =
     [''status:       '' @ agent_status_value (run_status r),
      ''intent:       '' @ or_none intent_value (run_intent r),
      ''trust_state:  '' @ or_none trust_state_value (run_trust_state r),
      ''tools called: '' @ repr_strs (run_planned_tools r),
      ''tool_calls:   '' @ str_of_int (int (run_tool_calls r)) @ ''   llm_calls: '' @ str_of_int (int (run_llm_calls r)),
      ''latency_ms:   '' @ fixed 1 latency_ms @ ''   cost_usd: '' @ fixed 6 (run_total_cost_usd r)]
     @ (case run_reason r of None \<Rightarrow> [] | Some why \<Rightarrow> if fstr_text why = [] then [] else [''reason:       '' @ fstr_text why])
     @ (case run_answer r of None \<Rightarrow> [] | Some a \<Rightarrow> if a = [] then [] else [CHR 0x0A # ''answer:'', a])
     @ listed ''citations:'' (map citation_print (run_citations r))
     @ listed ''assumptions:'' (map (\<lambda>a. ''  - '' @ a) (run_assumptions r))
     @ listed ''conflicts:'' (map (\<lambda>c. ''  - '' @ winner_source_id c @ '' overrides '' @ loser_source_id c @ '': ''
         @ fstr_text (conflict_reason c)) (run_conflicts r))
     @ [CHR 0x0A # ''state_trace:  '' @ join '' -> '' (map agent_state_value (run_state_trace r))]
     @ (case last_run of None \<Rightarrow> [] | Some info \<Rightarrow> gateway_lines info)"

section \<open>The scope argument\<close>

lemma split_commas_join: "join '','' (split_commas s) = s"
proof (induction s)
  case (Cons c s)
  show ?case
  proof (cases "split_commas s")
    case Nil
    with Cons.IH show ?thesis by (cases s) (auto split: list.splits if_splits)
  next
    case (Cons w ws)
    with \<open>join '','' (split_commas s) = s\<close> show ?thesis by (cases ws) auto
  qed
qed simp

lemma split_commas_no_comma: "w \<in> set (split_commas s) \<Longrightarrow> CHR '','' \<notin> set w"
  by (induction s arbitrary: w) (auto split: if_splits list.splits)


definition sample_args :: cli_args where
  "sample_args = \<lparr>cli_question = ''Cancel ORD-1001'', cli_role = ''support_agent'',
     cli_account_scope = Some ''ACCT-003'', cli_live = False, cli_model = ''mock-model''\<rparr>"


end
