(* ===== verification/Spec2Isabelle.thy ===== *)
theory Spec2Isabelle
  imports Api_Storage Access_Log Action_Concurrency Ingestion_Guarantees Inspection Eval_Logging Eval_Reports Agent_Cli
begin

text \<open>
  The verification development of the ParcelPilot operations copilot, a Python service that answers
  support questions about parcels from a small pack of policies and records, proposes actions that a
  human confirms, and watches the records for problems. This header says which theory models which
  part of the program, what the lemmas show, and what is left out. Paths are relative to the
  repository's root.

  \<^bold>\<open>The parts of the program and how they interact.\<close>
  Ingestion reads the source pack (PDF policies and agreements, one workbook) and writes an SQLite
  database with a snapshot time. Everything later runs against that database at that time: the
  repositories read it within the caller's account scope; the domain calculators (severity, SLA,
  cancellation fee, service credit) decide by the clauses the policy module selects; the radar runs
  the calculators over all records; the agent plans a few tool calls over the same functions, packs
  their results as evidence, and lets a language model write the answer between deterministic gates;
  the action workflow takes a proposal from preparation over confirmation to execution, in the
  \<open>actions\<close> table only; the HTTP layer serves all of it to authenticated callers. Around it stand an
  inspection script with a second implementation of the policies, and the evaluation scripts.

  \<^bold>\<open>Vocabulary.\<close>
  \<^item> \<open>Prelude\<close>, \<open>Py_Float\<close>, \<open>Py_Regex\<close>, \<open>Py_Text\<close>, \<open>Hashing\<close>: what the program uses of Python. Exceptions
    are the left side of a sum, a \<open>dict\<close> is an association list in insertion order, a \<open>float\<close> is a
    rational rounded to 53 bits after every operation, \<open>re\<close> is a backtracking matcher, SHA-256 is on
    32-bit words and \<open>json.dumps\<close> on the flat dictionaries that are hashed.
  \<^item> \<open>Py_Format\<close>, \<open>Py_Json\<close>, \<open>Iso_Time\<close>, \<open>Message_Text\<close>: values as text. Numbers in fixed, shortest and
    general notation, padding, \<open>json.dumps\<close> with \<open>json.loads\<close>, \<open>isoformat\<close> with \<open>fromisoformat\<close>, and the
    f-strings of the messages; what is written is read back. A reader of a text spelled otherwise is
    an argument.
  \<^item> \<open>Errors\<close> (\<open>app/errors.py\<close>), \<open>Time_Clock\<close> (\<open>app/time/clock.py\<close>), \<open>Model_Types\<close> (\<open>app/models/\<close>,
    \<open>app/domain/outcomes.py\<close>, \<open>app/authorization/context.py\<close>), \<open>Database\<close> (\<open>app/db/schema.sql\<close>,
    \<open>app/actions/models.py\<close>): the data. The database is a record of tables, a table a list of rows.

  \<^bold>\<open>Ingestion.\<close>
  \<open>Chunker\<close>, \<open>Sla_Table\<close>, \<open>Pdf_Parser\<close>, \<open>Source_Metadata\<close> (\<open>app/documents/\<close>), \<open>Workbook\<close>
  (\<open>app/structured_data/workbook.py\<close>) and \<open>Ingestion\<close> (\<open>scripts/ingest_sources.py\<close>). The lemmas show that
  the grid parser accepts exactly the bodies that hold the grid, that the slices of a page are its
  sections, that a source is built only if it agrees with the manifest, and, in
  \<open>Ingestion_Guarantees\<close>, that a finished database satisfies the schema, gives back every record it was
  built from, and serves sound sessions; and what a failing ingestion leaves on disk.

  \<^bold>\<open>Reading and deciding.\<close>
  \<open>Repository\<close> and \<open>Retrieval\<close> (scoped reads and document search), \<open>Applicability\<close>
  (\<open>app/policy/applicability.py\<close>), \<open>Severity\<close>, \<open>Sla\<close>, \<open>Cancellation_Fees\<close>, \<open>Service_Credit\<close>
  (\<open>app/domain/\<close>), \<open>Detection\<close> and \<open>Radar\<close> (\<open>app/detection/\<close>). Each calculator has its outcome stated
  on every branch; the breach rule reports exactly the breached tickets; the radar's list is sorted,
  without duplicates and complete. \<open>Inspection\<close> models \<open>scripts/inspect_sources.py\<close>, which computes
  the same fees, credits and deadlines by tables of its own, and proves that both agree on the
  records where the script decides.

  \<^bold>\<open>Actions.\<close>
  \<open>Action_Store\<close> and \<open>Action_Workflow\<close> (\<open>app/actions/\<close>): the compare-and-swap and the three operations on
  it. \<open>Action_Concurrency\<close> interleaves any number of callers as a step relation, with the database as
  shared state: at most one confirmation, at most one execution, none unconfirmed.
  \<open>Action_Completion\<close>: what an undisturbed proposal leads to. \<open>Action_Rows\<close> is the table as SQLite holds
  it, all columns text: a proposal is read back as it was written, and the three statements on rows are
  the three operations on records.

  \<^bold>\<open>The agent.\<close>
  \<open>Agent_Tools\<close> and \<open>Tool_Registry\<close> (typed tools, validation, retries), \<open>Agent_Planning\<close> (entities,
  intent, clarification, plan), \<open>Evidence_Pack\<close>, \<open>Answer_Gates\<close>, \<open>Response_Composer\<close>, \<open>Llm_Provider\<close>
  (\<open>app/llm/\<close>) and \<open>Orchestrator\<close> (\<open>run_agent\<close>), each on the file of that name. \<open>Agent_Guarantees\<close>:
  bounds of a run, its path through the states, the grounding of an answer, what the model cannot
  change. \<open>Agent_Confidentiality\<close>: two databases that agree on the caller's records give equal runs.

  \<^bold>\<open>The HTTP layer.\<close>
  \<open>Http_Api\<close> (\<open>app/api/\<close>), one request as a function of the server's state. \<open>Api_Lifecycle\<close> refines a
  session to an abstract life cycle of proposals; \<open>Api_Guarantees\<close> and \<open>Api_Disclosure\<close> state what
  sessions keep and what responses show. \<open>Request_Effects\<close> is what one request does to the database;
  \<open>Api_Sessions\<close> shows by unwinding that the requests of others are invisible to what a caller reads,
  and that a proposal stays confirmable by its owner whatever others do. \<open>Api_Storage\<close> carries whole
  sessions over to the text rows: every statement of every request lands there as it does on records.
  \<open>Access_Log\<close> (\<open>app/observability/\<close>, \<open>app/api/middleware.py\<close>) is what a request leaves outside the
  database, its ids in the response and its lines in the log.

  \<^bold>\<open>Evaluation.\<close>
  \<open>Timing_Stats\<close> (\<open>app/observability/timing.py\<close>, \<open>scripts/run_api_load_test.py\<close>), \<open>Eval_Cases\<close>,
  \<open>Experiment_Runs\<close> (\<open>app/evaluation/\<close>), \<open>Retrieval_Eval\<close>, \<open>Agent_Eval\<close>, \<open>Eval_Logging\<close> and \<open>Benchmark\<close> (\<open>scripts/run_*.py\<close>,
  \<open>app/llm/deepeval_bridge.py\<close>): which golden cases are run, how a result is compared with a case, how
  the figures are computed from the rows, what is logged of them, and what the runs do to the database.
  \<open>Eval_Reports\<close> has the Markdown reports and the load test's table line by line, and compares what they
  claim in words with their figures. \<open>Agent_Cli\<close> (\<open>scripts/run_agent_cli.py\<close>): one question from the command line, confined to the accounts
  it names, and the printed result.

  \<^bold>\<open>Samples.\<close>
  \<open>Sample\<close>, \<open>Agent_Sample\<close> and \<open>Ingestion_Sample\<close> hold small concrete inputs in the shape of the source
  pack; the conditional properties are applied to them.

  \<^bold>\<open>Contracts.\<close>
  Interfaces are locales, each interpreted on the program's own functions: \<open>scoped_lookup\<close> and
  \<open>scoped_search\<close> (reads stay in scope and depend on it only), \<open>clause_registry\<close> (a selected source has a
  rule), \<open>cas_store\<close> (one landed swap per transition), \<open>detection_rule\<close> (alerts of one type over visible
  records), \<open>llm_provider\<close> (an answer carries the ids of its request) \<open>appending\<close> (an insertion adds one
  row to one table or fails) and \<open>unwinding\<close> (a request keeps alike what an observer cannot tell apart,
  or leaves it so when the observer must not see it).

  \<^bold>\<open>Arguments for what is outside the program.\<close>
  SQLite's FTS5 (match, snippet and score of a chunk), the language model by call index and attempt,
  the clock readings and latencies, the hexadecimal digits of \<open>uuid4\<close>, request ids, the prompt files,
  Python's rendering of values inside prompts, what PyMuPDF and openpyxl read from a file, Unicode's
  NFKC tables, \<open>float\<close> and \<open>datetime.fromisoformat\<close> of a cell's text, the texts of UUIDs, whether the
  framework answers an exception outside the middleware, DeepEval's metrics as functions of the test case, git's answer, and the row order of a query without \<open>ORDER BY\<close>. No property assumes more
  of them than its statement says.

  \<^bold>\<open>Bounds and fuel.\<close>
  No definition runs out of fuel silently. The loops of the program run over lists; a retry loop is
  recursion over the attempts left; the repetition of the matcher is bounded by the text left to read,
  which every iteration must consume. Integers are Python's unbounded ones, except in the hash. Floats
  have no overflow or subnormals: fees, minutes and token costs stay far from both.

  \<^bold>\<open>Not modelled.\<close>
  The configuration of loggers and of a trace exporter, log lines other than a request's, settings
  read from the environment, the summaries the scripts print beside their reports, the text dump of the
  inspected files, argument parsing, the HTTP transport and FastAPI's own 422 report, the demo data
  files, and the internals of third-party packages (pydantic's conversions between types, MLflow,
  DeepEval, the Anthropic SDK, openpyxl, PyMuPDF). They compute nothing the properties are about.
\<close>

end
